(* ===== verification/Prelude.thy ===== *)
theory Prelude
  imports Complex_Main "HOL-Library.Sublist"
begin

section \<open>Shared vocabulary of the control-plane model\<close>

text \<open>
  What every component of the development uses: the effect type of an asynchronous
  TypeScript operation (a step on a state that returns a value or throws), the string
  operations of the JavaScript standard library the sources call, decimal rendering of
  numbers in template literals, and timestamps.  The lemmas here are collected in
  \<open>io_simps\<close> (evaluation of effects) and \<open>keeps_rules\<close> (invariants of effects), so that
  the component theories can unfold or decompose an operation with one collection.
\<close>

named_theorems io_simps "evaluation of effectful operations"
named_theorems keeps_rules "an effect keeps an invariant of its state"

subsection \<open>Effects\<close>

text \<open>
  An \<open>async\<close> operation that acts on a state \<open>'w\<close> either resolves with a value (\<open>Inr\<close>) or
  rejects (\<open>Inl\<close> with the error); the state it leaves is returned in both cases,
  because what was written before a throw stays written.  Where the source tells errors
  apart only by their message, the error is the message (\<open>io\<close>); where it distinguishes
  classes of errors, the component gives its own type of errors (\<open>eio\<close>).
\<close>

type_synonym ('w, 'e, 'a) eio = "'w \<Rightarrow> ('e + 'a) \<times> 'w"
type_synonym ('w, 'a) io = "('w, string, 'a) eio"

definition io_return :: "'a \<Rightarrow> ('w, 'e, 'a) eio" where
  "io_return x = (\<lambda>w. (Inr x, w))"

definition io_throw :: "'e \<Rightarrow> ('w, 'e, 'a) eio" where
  "io_throw e = (\<lambda>w. (Inl e, w))"

definition io_bind :: "('w, 'e, 'a) eio \<Rightarrow> ('a \<Rightarrow> ('w, 'e, 'b) eio) \<Rightarrow> ('w, 'e, 'b) eio" where
  "io_bind m k = (\<lambda>w. case m w of (Inl e, w') \<Rightarrow> (Inl e, w') | (Inr x, w') \<Rightarrow> k x w')"

definition io_then :: "('w, 'e, 'a) eio \<Rightarrow> ('w, 'e, 'b) eio \<Rightarrow> ('w, 'e, 'b) eio" where
  "io_then m n = io_bind m (\<lambda>_. n)"

definition io_catch :: "('w, 'e, 'a) eio \<Rightarrow> ('e \<Rightarrow> ('w, 'f, 'a) eio) \<Rightarrow> ('w, 'f, 'a) eio" where
  "io_catch m h = (\<lambda>w. case m w of (Inl e, w') \<Rightarrow> h e w' | (Inr x, w') \<Rightarrow> (Inr x, w'))"

text \<open>A \<open>try\<close> whose two outcomes continue differently.\<close>

definition io_attempt :: "('w, 'e, 'a) eio \<Rightarrow> ('w, 'f, 'e + 'a) eio" where
  "io_attempt m = (\<lambda>w. case m w of (r, w') \<Rightarrow> (Inr r, w'))"

lemma io_attempt_apply [io_simps]: "io_attempt m w = (case m w of (r, w') \<Rightarrow> (Inr r, w'))"
  by (simp add: io_attempt_def)

lemma io_return_apply [io_simps]: "io_return x w = (Inr x, w)"
  by (simp add: io_return_def)

lemma io_throw_apply [io_simps]: "io_throw e w = (Inl e, w)"
  by (simp add: io_throw_def)

lemma io_bind_apply [io_simps]:
  "io_bind m k w = (case m w of (Inl e, w') \<Rightarrow> (Inl e, w') | (Inr x, w') \<Rightarrow> k x w')"
  by (simp add: io_bind_def)

lemma io_then_apply [io_simps]:
  "io_then m n w = (case m w of (Inl e, w') \<Rightarrow> (Inl e, w') | (Inr x, w') \<Rightarrow> n w')"
  by (simp add: io_then_def io_bind_def)

lemma io_catch_apply [io_simps]:
  "io_catch m h w = (case m w of (Inl e, w') \<Rightarrow> h e w' | (Inr x, w') \<Rightarrow> (Inr x, w'))"
  by (simp add: io_catch_def)

lemma io_bind_return [simp]: "io_bind (io_return x) k = k x"
  by (simp add: io_bind_def io_return_def)

lemma io_bind_throw [simp]: "io_bind (io_throw e) k = io_throw e"
  by (simp add: io_bind_def io_throw_def)

lemma io_bind_cong:
  assumes "m w = m' w" and "\<And>x w'. m w = (Inr x, w') \<Longrightarrow> k x w' = k' x w'"
  shows "io_bind m k w = io_bind m' k' w"
  using assms by (auto simp: io_bind_def split: prod.splits sum.splits)

text \<open>An invariant of the state that an effect keeps, whether it resolves or rejects.\<close>

definition keeps :: "('w \<Rightarrow> bool) \<Rightarrow> ('w, 'e, 'a) eio \<Rightarrow> bool" where
  "keeps I m \<longleftrightarrow> (\<forall>w. I w \<longrightarrow> I (snd (m w)))"

lemma keepsI: "(\<And>w. I w \<Longrightarrow> I (snd (m w))) \<Longrightarrow> keeps I m"
  by (simp add: keeps_def)

lemma keepsD: "keeps I m \<Longrightarrow> I w \<Longrightarrow> m w = (r, w') \<Longrightarrow> I w'"
  by (metis keeps_def snd_conv)

lemma keeps_snd: "keeps I m \<Longrightarrow> I w \<Longrightarrow> I (snd (m w))"
  by (simp add: keeps_def)

lemma keeps_return [keeps_rules, intro!, simp]: "keeps I (io_return x)"
  by (simp add: keeps_def io_simps)

lemma keeps_throw [keeps_rules, intro!, simp]: "keeps I (io_throw e)"
  by (simp add: keeps_def io_simps)

lemma keeps_bind [keeps_rules, intro]:
  "keeps I m \<Longrightarrow> (\<And>x. keeps I (k x)) \<Longrightarrow> keeps I (io_bind m k)"
  by (auto simp: keeps_def io_bind_def split: prod.splits sum.splits)

lemma keeps_then [keeps_rules, intro]: "keeps I m \<Longrightarrow> keeps I n \<Longrightarrow> keeps I (io_then m n)"
  unfolding io_then_def by (rule keeps_bind)

lemma keeps_catch [keeps_rules, intro]:
  "keeps I m \<Longrightarrow> (\<And>e. keeps I (h e)) \<Longrightarrow> keeps I (io_catch m h)"
  by (auto simp: keeps_def io_catch_def split: prod.splits sum.splits)

lemma keeps_if [keeps_rules, intro]:
  "(b \<Longrightarrow> keeps I m) \<Longrightarrow> (\<not> b \<Longrightarrow> keeps I n) \<Longrightarrow> keeps I (if b then m else n)"
  by simp

lemma keeps_option [keeps_rules, intro]:
  "(x = None \<Longrightarrow> keeps I m) \<Longrightarrow> (\<And>y. x = Some y \<Longrightarrow> keeps I (f y)) \<Longrightarrow>
   keeps I (case x of None \<Rightarrow> m | Some y \<Rightarrow> f y)"
  by (cases x) auto

subsection \<open>Reading a state, and a state with two parts\<close>

definition io_get :: "('w \<Rightarrow> 'a) \<Rightarrow> ('w, 'e, 'a) eio" where
  "io_get f = (\<lambda>w. (Inr (f w), w))"

definition io_modify :: "('w \<Rightarrow> 'w) \<Rightarrow> ('w, 'e, unit) eio" where
  "io_modify f = (\<lambda>w. (Inr (), f w))"

lemma io_get_apply [io_simps]: "io_get f w = (Inr (f w), w)"
  by (simp add: io_get_def)

lemma io_modify_apply [io_simps]: "io_modify f w = (Inr (), f w)"
  by (simp add: io_modify_def)

definition on_fst :: "('a, 'e, 'r) eio \<Rightarrow> ('a \<times> 'b, 'e, 'r) eio" where
  "on_fst m = (\<lambda>(a, b). case m a of (r, a') \<Rightarrow> (r, (a', b)))"

definition on_snd :: "('b, 'e, 'r) eio \<Rightarrow> ('a \<times> 'b, 'e, 'r) eio" where
  "on_snd m = (\<lambda>(a, b). case m b of (r, b') \<Rightarrow> (r, (a, b')))"

lemma on_fst_apply [io_simps]: "on_fst m (a, b) = (case m a of (r, a') \<Rightarrow> (r, (a', b)))"
  by (simp add: on_fst_def)

lemma on_snd_apply [io_simps]: "on_snd m (a, b) = (case m b of (r, b') \<Rightarrow> (r, (a, b')))"
  by (simp add: on_snd_def)

subsection \<open>Strings\<close>

text \<open>
  A JavaScript string is a sequence of code units; the model's strings hold the units
  0 to 255, one \<open>char\<close> each, so that \<open>length\<close> counts what the source's \<open>.length\<close> counts.
\<close>

abbreviation code_unit :: "char \<Rightarrow> nat" where
  "code_unit c \<equiv> of_char c"

definition is_digit :: "char \<Rightarrow> bool" where
  "is_digit c \<longleftrightarrow> 48 \<le> code_unit c \<and> code_unit c \<le> 57"

definition is_lower :: "char \<Rightarrow> bool" where
  "is_lower c \<longleftrightarrow> 97 \<le> code_unit c \<and> code_unit c \<le> 122"

definition is_upper :: "char \<Rightarrow> bool" where
  "is_upper c \<longleftrightarrow> 65 \<le> code_unit c \<and> code_unit c \<le> 90"

definition is_alnum :: "char \<Rightarrow> bool" where
  "is_alnum c \<longleftrightarrow> is_digit c \<or> is_lower c \<or> is_upper c"

definition js_space :: "char \<Rightarrow> bool" where
  "js_space c \<longleftrightarrow> code_unit c \<in> {9, 10, 11, 12, 13, 32, 160}"

definition trim :: "string \<Rightarrow> string" where
  "trim s = rev (dropWhile js_space (rev (dropWhile js_space s)))"

definition lower_char :: "char \<Rightarrow> char" where
  "lower_char c =
     (if is_upper c \<or> (192 \<le> code_unit c \<and> code_unit c \<le> 222 \<and> code_unit c \<noteq> 215)
      then char_of (code_unit c + 32) else c)"

definition to_lower :: "string \<Rightarrow> string" where
  "to_lower s = map lower_char s"

text \<open>Sorting by a text, stably: the order of the database and of \<open>localeCompare\<close> on lower-case words.\<close>

fun text_le :: "string \<Rightarrow> string \<Rightarrow> bool" where
  "text_le [] _ = True"
| "text_le (c # cs) [] = False"
| "text_le (c # cs) (d # ds) = (code_unit c < code_unit d \<or> c = d \<and> text_le cs ds)"

fun insert_by_text :: "('a \<Rightarrow> string) \<Rightarrow> 'a \<Rightarrow> 'a list \<Rightarrow> 'a list" where
  "insert_by_text f x [] = [x]"
| "insert_by_text f x (y # ys) = (if text_le (f x) (f y) then x # y # ys else y # insert_by_text f x ys)"

definition sort_by_text :: "('a \<Rightarrow> string) \<Rightarrow> 'a list \<Rightarrow> 'a list" where
  "sort_by_text f xs = foldr (insert_by_text f) xs []"

fun split_on :: "char \<Rightarrow> string \<Rightarrow> string list" where
  "split_on c [] = [[]]"
| "split_on c (x # xs) =
     (if x = c then [] # split_on c xs
      else (case split_on c xs of [] \<Rightarrow> [[x]] | w # ws \<Rightarrow> (x # w) # ws))"

fun join_with :: "string \<Rightarrow> string list \<Rightarrow> string" where
  "join_with sep [] = []"
| "join_with sep [w] = w"
| "join_with sep (w # ws) = w @ sep @ join_with sep ws"

text \<open>A nullable string that is truthy in a condition: present and not empty.\<close>

fun truthy :: "string option \<Rightarrow> bool" where
  "truthy None = False"
| "truthy (Some s) = (s \<noteq> [])"

fun or_else :: "'a option \<Rightarrow> 'a \<Rightarrow> 'a" where
  "or_else None d = d"
| "or_else (Some x) d = x"

lemma truthy_iff: "truthy x \<longleftrightarrow> (\<exists>s. x = Some s \<and> s \<noteq> [])"
  by (cases x) auto

lemma split_on_nonempty [simp]: "split_on c s \<noteq> []"
  by (induction s) (auto split: list.splits)

lemma split_on_no_sep: "w \<in> set (split_on c s) \<Longrightarrow> c \<notin> set w"
  by (induction s arbitrary: w) (fastforce split: list.splits if_splits)+

lemma join_split: "join_with [c] (split_on c s) = s"
proof (induction s)
  case Nil
  then show ?case by simp
next
  case (Cons x xs)
  obtain w ws where "split_on c xs = w # ws"
    by (metis split_on_nonempty neq_Nil_conv)
  with Cons show ?case by (cases ws) auto
qed

lemma set_split_on: "(\<Union>w \<in> set (split_on c s). set w) = set s - {c}"
proof (induction s)
  case Nil
  then show ?case by simp
next
  case (Cons x xs)
  obtain w ws where "split_on c xs = w # ws"
    by (metis split_on_nonempty neq_Nil_conv)
  with Cons.IH show ?case by auto
qed

lemma set_trim: "set (trim s) \<subseteq> set s"
  by (auto simp: trim_def dest!: set_dropWhileD)

lemma hd_dropWhile': "dropWhile P xs \<noteq> [] \<Longrightarrow> \<not> P (hd (dropWhile P xs))"
  by (rule hd_dropWhile)

lemma trim_no_space: "\<forall>c \<in> set s. \<not> js_space c \<Longrightarrow> trim s = s"
proof -
  assume "\<forall>c \<in> set s. \<not> js_space c"
  then have "dropWhile js_space s = s" "dropWhile js_space (rev s) = rev s"
    using hd_in_set [of s] last_in_set [of s] by (auto simp: dropWhile_eq_self_iff hd_rev)
  then show ?thesis by (simp add: trim_def)
qed

lemma trim_Nil [simp]: "trim [] = []"
  by (simp add: trim_def)

lemma trim_idem [simp]: "trim (trim s) = trim s"
proof (cases "trim s = []")
  case True
  then show ?thesis by simp
next
  case False
  define d where "d = dropWhile js_space s"
  define t where "t = dropWhile js_space (rev d)"
  have t: "trim s = rev t" by (simp add: trim_def t_def d_def)
  with False have "t \<noteq> []" by simp
  have last: "\<not> js_space (hd t)"
    using \<open>t \<noteq> []\<close> unfolding t_def by (rule hd_dropWhile')
  obtain u where u: "rev d = u @ t"
    unfolding t_def by (metis takeWhile_dropWhile_id)
  then have d: "d = rev t @ rev u" by (metis rev_append rev_rev_ident)
  with \<open>t \<noteq> []\<close> have "d \<noteq> []" by simp
  then have "\<not> js_space (hd d)"
    unfolding d_def by (rule hd_dropWhile')
  with d \<open>t \<noteq> []\<close> have "\<not> js_space (hd (rev t))" by simp
  with \<open>t \<noteq> []\<close> have "dropWhile js_space (rev t) = rev t"
    by (simp add: dropWhile_eq_self_iff)
  moreover have "dropWhile js_space t = t"
    using \<open>t \<noteq> []\<close> last by (simp add: dropWhile_eq_self_iff)
  ultimately have "trim (rev t) = rev t" by (simp add: trim_def)
  then show ?thesis by (simp add: t)
qed

subsection \<open>Numbers in template literals\<close>

definition digit_char :: "nat \<Rightarrow> char" where
  "digit_char n = char_of (48 + n)"

fun show_nat :: "nat \<Rightarrow> string" where
  "show_nat n = (if n < 10 then [digit_char n] else show_nat (n div 10) @ [digit_char (n mod 10)])"

declare show_nat.simps [simp del]

definition show_int :: "int \<Rightarrow> string" where
  "show_int i = (if i < 0 then CHR ''-'' # show_nat (nat (- i)) else show_nat (nat i))"

definition read_nat :: "string \<Rightarrow> nat" where
  "read_nat s = foldl (\<lambda>a c. a * 10 + (code_unit c - 48)) 0 s"

lemma code_unit_digit: "n < 10 \<Longrightarrow> code_unit (digit_char n) = 48 + n"
  by (simp add: digit_char_def)

lemma read_show_nat [simp]: "read_nat (show_nat n) = n"
proof (induction n rule: show_nat.induct)
  case (1 n)
  show ?case
  proof (cases "n < 10")
    case True
    then show ?thesis by (subst show_nat.simps) (simp add: read_nat_def code_unit_digit)
  next
    case False
    then have "read_nat (show_nat n) = read_nat (show_nat (n div 10)) * 10 + n mod 10"
      by (subst show_nat.simps) (simp add: read_nat_def code_unit_digit)
    with False 1 show ?thesis by simp
  qed
qed

lemma show_nat_inject [simp]: "show_nat m = show_nat n \<longleftrightarrow> m = n"
  by (metis read_show_nat)

lemma digits_show_nat: "c \<in> set (show_nat n) \<Longrightarrow> is_digit c"
proof (induction n rule: show_nat.induct)
  case (1 n)
  show ?case
  proof (cases "n < 10")
    case True
    with "1.prems" show ?thesis
      by (subst (asm) show_nat.simps) (auto simp: is_digit_def code_unit_digit)
  next
    case False
    then have n: "show_nat n = show_nat (n div 10) @ [digit_char (n mod 10)]"
      by (subst show_nat.simps) simp
    from "1.prems" consider "c \<in> set (show_nat (n div 10))" | "c = digit_char (n mod 10)"
      by (auto simp: n)
    then show ?thesis
    proof cases
      case 1
      with False "1.IH" show ?thesis by simp
    next
      case 2
      then show ?thesis by (simp add: is_digit_def code_unit_digit)
    qed
  qed
qed

lemma digits_show_int: "c \<in> set (show_int i) \<Longrightarrow> is_digit c \<or> c = CHR ''-''"
  by (auto simp: show_int_def dest: digits_show_nat split: if_splits)

subsection \<open>Numbers\<close>

text \<open>
  A \<open>number\<close> that need not be an integer is a rational (\<open>NaN\<close> and the infinities do not occur
  in JSON or in a database row, which is where the modelled numbers come from).
\<close>

type_synonym js_number = rat

definition is_integer :: "js_number \<Rightarrow> bool" where
  "is_integer r \<longleftrightarrow> of_int \<lfloor>r\<rfloor> = r"

lemma is_integer_of_int [simp]: "is_integer (of_int i)"
  by (simp add: is_integer_def)

lemma is_integer_numeral [simp]: "is_integer (numeral n)" "is_integer 0" "is_integer 1"
  using is_integer_of_int [of "numeral n"] is_integer_of_int [of 0] is_integer_of_int [of 1]
  by simp_all

subsection \<open>Timestamps\<close>

text \<open>
  A timestamp string is modelled by what \<open>new Date(s).getTime()\<close> makes of it: a number of
  milliseconds, or \<open>NaN\<close> for a string \<open>Date\<close> cannot parse.  A comparison with \<open>NaN\<close> is false.
\<close>

type_synonym millis = int

datatype timestamp = At millis | Unparsable string

fun time_of :: "timestamp \<Rightarrow> millis option" where
  "time_of (At t) = Some t"
| "time_of (Unparsable _) = None"

fun later_than :: "timestamp \<Rightarrow> millis \<Rightarrow> bool" where
  "later_than (At t) now = (t > now)"
| "later_than (Unparsable _) now = False"

subsection \<open>Lists\<close>

lemma find_Some_iff':
  "find P xs = Some x \<Longrightarrow> x \<in> set xs \<and> P x"
  by (auto simp: find_Some_iff)

lemma set_map_filter': "set (List.map_filter f xs) = {y. \<exists>x \<in> set xs. f x = Some y}"
  by (induction xs) (auto simp: List.map_filter_simps split: option.splits)

text \<open>Records looked up and updated by a key.\<close>

lemma find_key_update:
  assumes "\<And>x. key (f x) = key x"
  shows "find (\<lambda>x. key x = k) (map (\<lambda>x. if key x = i then f x else x) xs) =
    (if k = i then map_option f (find (\<lambda>x. key x = k) xs) else find (\<lambda>x. key x = k) xs)"
  by (induction xs) (auto simp: assms)

lemma find_key_iff:
  assumes "distinct (map key xs)"
  shows "find (\<lambda>x. key x = k) xs = Some x \<longleftrightarrow> x \<in> set xs \<and> key x = k"
  using assms by (induction xs) auto

text \<open>\<open>[...new Set(xs)]\<close>: the first occurrence of each element, in order.\<close>

definition unique_list :: "'a list \<Rightarrow> 'a list" where
  "unique_list xs = rev (remdups (rev xs))"

lemma set_unique_list [simp]: "set (unique_list xs) = set xs"
  by (simp add: unique_list_def)

lemma distinct_unique_list [simp]: "distinct (unique_list xs)"
  by (simp add: unique_list_def)

lemma unique_list_distinct [simp]: "distinct xs \<Longrightarrow> unique_list xs = xs"
  by (simp add: unique_list_def distinct_remdups_id)

lemma map_filter_cong2: "filter P (map f xs) = map f (filter (P \<circ> f) xs)"
  by (induction xs) auto

end
