(* ===== verification/Contracts.thy ===== *)
theory Contracts
  imports Prelude
begin

section \<open>packages/contracts: status vocabulary, identifiers, results and jobs\<close>

text \<open>
  The data every other component exchanges.  Identifiers are strings; a nullable field is an
  \<open>option\<close>; \<open>AdapterResult\<close> is the sum of an engine's answer and its refusal, each carrying a
  status, exactly as \<open>ok\<close> and \<open>err\<close> build it.
\<close>

subsection \<open>status.ts\<close>

datatype engine_status = Pending | Running | Succeeded | Failed | Degraded | NotConfigured

definition isTerminal :: "engine_status \<Rightarrow> bool" where
  "isTerminal s \<longleftrightarrow> s = Succeeded \<or> s = Failed \<or> s = NotConfigured"

definition isSuccess :: "engine_status \<Rightarrow> bool" where
  "isSuccess s \<longleftrightarrow> s = Succeeded"

fun status_name :: "engine_status \<Rightarrow> string" where
  "status_name Pending = ''pending''"
| "status_name Running = ''running''"
| "status_name Succeeded = ''succeeded''"
| "status_name Failed = ''failed''"
| "status_name Degraded = ''degraded''"
| "status_name NotConfigured = ''not_configured''"

subsection \<open>ids.ts\<close>

datatype provider_name =
    Coolify | Selfhosted | Postgres | Minio | Envoy | Haproxy | Coraza | Crowdsec | Nftables
  | Lambda | Microvm | Railpack | Fake

record provider_ref =
  ref_organizationId :: string
  ref_provider :: string
  ref_resourceType :: string
  ref_resourceId :: string

fun provider_text :: "provider_name \<Rightarrow> string" where
  "provider_text Coolify = ''coolify''"
| "provider_text Selfhosted = ''selfhosted''"
| "provider_text Postgres = ''postgres''"
| "provider_text Minio = ''minio''"
| "provider_text Envoy = ''envoy''"
| "provider_text Haproxy = ''haproxy''"
| "provider_text Coraza = ''coraza''"
| "provider_text Crowdsec = ''crowdsec''"
| "provider_text Nftables = ''nftables''"
| "provider_text Lambda = ''lambda''"
| "provider_text Microvm = ''microvm''"
| "provider_text Railpack = ''railpack''"
| "provider_text Fake = ''fake''"

datatype execution_model = Container | Serverless

record principal =
  pr_userId :: string
  pr_email :: string
  pr_displayName :: "string option"

datatype job_state = JQueued | JRunning | JSucceeded | JFailed | JCancelled

definition isJobTerminal :: "job_state \<Rightarrow> bool" where
  "isJobTerminal s \<longleftrightarrow> s = JSucceeded \<or> s = JFailed \<or> s = JCancelled"

subsection \<open>result.ts\<close>

record operation_ref =
  op_jobId :: string
  op_providerRef :: provider_ref

datatype 'a adapter_result =
    AOk engine_status 'a
  | AErr engine_status string

fun result_status :: "'a adapter_result \<Rightarrow> engine_status" where
  "result_status (AOk s _) = s"
| "result_status (AErr s _) = s"

fun result_ok :: "'a adapter_result \<Rightarrow> bool" where
  "result_ok (AOk _ _) = True"
| "result_ok (AErr _ _) = False"

lemma result_ok_iff: "result_ok r \<longleftrightarrow> (\<exists>s v. r = AOk s v)"
  by (cases r) auto

subsection \<open>jobs.ts\<close>

datatype build_kind = Production | Preview
datatype job_action = Create | Rollback

definition DEPLOYMENT_JOB_KIND :: string where
  "DEPLOYMENT_JOB_KIND = ''deployments.execute''"

definition BACKUP_JOB_KIND :: string where
  "BACKUP_JOB_KIND = ''data.backup.execute''"

definition RESTORE_JOB_KIND :: string where
  "RESTORE_JOB_KIND = ''data.restore.execute''"

definition POLICY_JOB_KIND :: string where
  "POLICY_JOB_KIND = ''policy.distribute.execute''"

text \<open>
  Fields an older queued row may lack (\<open>rootDirectory\<close>, \<open>kind\<close>, \<open>staged\<close>, \<open>environmentId\<close>,
  \<open>previewKey\<close>) are options: \<open>None\<close> stands for \<open>null\<close> and for \<open>undefined\<close>, which the readers
  treat alike (\<open>??\<close>, \<open>=== true\<close>).
\<close>

record deployment_job_payload =
  djp_deploymentId :: string
  djp_organizationId :: string
  djp_projectId :: string
  djp_action :: job_action
  djp_projectSlug :: string
  djp_gitRepository :: "string option"
  djp_gitBranch :: "string option"
  djp_buildPack :: "string option"
  djp_rootDirectory :: "string option"
  djp_commit :: "string option"
  djp_kind :: "build_kind option"
  djp_staged :: "bool option"
  djp_environmentId :: "string option"
  djp_previewKey :: "string option"

record backup_job_payload =
  bjp_backupId :: string
  bjp_organizationId :: string
  bjp_dataResourceId :: string
  bjp_actorId :: string
  bjp_actorEmail :: string

record restore_job_payload =
  rjp_restoreId :: string
  rjp_organizationId :: string
  rjp_backupId :: string
  rjp_dataResourceId :: string
  rjp_actorId :: string
  rjp_actorEmail :: string

record policy_job_payload =
  pjp_organizationId :: string
  pjp_policyId :: string
  pjp_version :: js_number
  pjp_actorId :: string
  pjp_actorEmail :: string

end
