(* ===== verification/Authorization.thy ===== *)
theory Authorization
  imports Contracts
begin

section \<open>packages/authorization: roles, capabilities and memberships\<close>

text \<open>
  The permission matrix of \<open>packages/authorization/src/index.ts\<close>: the roles ordered by rank,
  the closed vocabulary of capabilities with their wire names, the grants per role, and the
  resolution of a caller's role from the memberships the server holds.  The lemmas show that
  the matrix is monotone in the rank of the role and that a decision depends only on the
  first membership of the caller in the organization.
\<close>

datatype org_role = Owner | Admin | Member | Viewer

fun role_rank :: "org_role \<Rightarrow> nat" where
  "role_rank Viewer = 0"
| "role_rank Member = 1"
| "role_rank Admin = 2"
| "role_rank Owner = 3"

instantiation org_role :: linorder
begin

definition less_eq_org_role :: "org_role \<Rightarrow> org_role \<Rightarrow> bool" where
  "less_eq_org_role a b \<longleftrightarrow> role_rank a \<le> role_rank b"

definition less_org_role :: "org_role \<Rightarrow> org_role \<Rightarrow> bool" where
  "less_org_role a b \<longleftrightarrow> role_rank a < role_rank b"

instance
proof
  fix a b :: org_role
  show "a \<le> b \<Longrightarrow> b \<le> a \<Longrightarrow> a = b"
    by (cases a; cases b) (simp_all add: less_eq_org_role_def)
qed (auto simp: less_eq_org_role_def less_org_role_def)

end

datatype capability =
    OrgRead | OrgUpdate | OrgDelete | MemberRead | MemberInvite | MemberRemove | ProjectRead
    | ProjectCreate | ProjectUpdate | ProjectDelete | DeploymentRead | DeploymentCreate
    | DeploymentCancel | DeploymentRollback | DataRead | DataCreate | DataBackup
    | DataRestore | DataRotate | DataDestroy | DomainRead | DomainCreate | DomainVerify
    | DomainDelete | SecurityRead | SecurityUpdate | SecurityQuarantine | ApikeyRead
    | ApikeyCreate | ApikeyRevoke | BillingRead | BillingManage | AuditRead

fun capability_name :: "capability \<Rightarrow> string" where
  "capability_name OrgRead = ''org:read''"
| "capability_name OrgUpdate = ''org:update''"
| "capability_name OrgDelete = ''org:delete''"
| "capability_name MemberRead = ''member:read''"
| "capability_name MemberInvite = ''member:invite''"
| "capability_name MemberRemove = ''member:remove''"
| "capability_name ProjectRead = ''project:read''"
| "capability_name ProjectCreate = ''project:create''"
| "capability_name ProjectUpdate = ''project:update''"
| "capability_name ProjectDelete = ''project:delete''"
| "capability_name DeploymentRead = ''deployment:read''"
| "capability_name DeploymentCreate = ''deployment:create''"
| "capability_name DeploymentCancel = ''deployment:cancel''"
| "capability_name DeploymentRollback = ''deployment:rollback''"
| "capability_name DataRead = ''data:read''"
| "capability_name DataCreate = ''data:create''"
| "capability_name DataBackup = ''data:backup''"
| "capability_name DataRestore = ''data:restore''"
| "capability_name DataRotate = ''data:rotate''"
| "capability_name DataDestroy = ''data:destroy''"
| "capability_name DomainRead = ''domain:read''"
| "capability_name DomainCreate = ''domain:create''"
| "capability_name DomainVerify = ''domain:verify''"
| "capability_name DomainDelete = ''domain:delete''"
| "capability_name SecurityRead = ''security:read''"
| "capability_name SecurityUpdate = ''security:update''"
| "capability_name SecurityQuarantine = ''security:quarantine''"
| "capability_name ApikeyRead = ''apikey:read''"
| "capability_name ApikeyCreate = ''apikey:create''"
| "capability_name ApikeyRevoke = ''apikey:revoke''"
| "capability_name BillingRead = ''billing:read''"
| "capability_name BillingManage = ''billing:manage''"
| "capability_name AuditRead = ''audit:read''"

definition CAPABILITIES :: "capability list" where
  "CAPABILITIES =
    [OrgRead, OrgUpdate, OrgDelete, MemberRead, MemberInvite, MemberRemove, ProjectRead
     , ProjectCreate, ProjectUpdate, ProjectDelete, DeploymentRead, DeploymentCreate
     , DeploymentCancel, DeploymentRollback, DataRead, DataCreate, DataBackup, DataRestore
     , DataRotate, DataDestroy, DomainRead, DomainCreate, DomainVerify, DomainDelete
     , SecurityRead, SecurityUpdate, SecurityQuarantine, ApikeyRead, ApikeyCreate
     , ApikeyRevoke, BillingRead, BillingManage, AuditRead]"

fun ROLE_CAPABILITIES :: "org_role \<Rightarrow> capability list" where
  "ROLE_CAPABILITIES Owner = CAPABILITIES"
| "ROLE_CAPABILITIES Admin = filter (\<lambda>c. c \<noteq> OrgDelete \<and> c \<noteq> BillingManage) CAPABILITIES"
| "ROLE_CAPABILITIES Member =
    [OrgRead, MemberRead, ProjectRead, ProjectCreate, ProjectUpdate, DeploymentRead
     , DeploymentCreate, DeploymentCancel, DataRead, DomainRead, SecurityRead, ApikeyRead
     , BillingRead, AuditRead]"
| "ROLE_CAPABILITIES Viewer =
    [OrgRead, MemberRead, ProjectRead, DeploymentRead, DataRead, DomainRead, SecurityRead
     , BillingRead, AuditRead]"

record membership =
  mb_organizationId :: string
  mb_userId :: string
  mb_role :: org_role

definition hasCapability :: "org_role \<Rightarrow> capability \<Rightarrow> bool" where
  "hasCapability role c \<longleftrightarrow> c \<in> set (ROLE_CAPABILITIES role)"

definition roleIn :: "membership list \<Rightarrow> string \<Rightarrow> principal \<Rightarrow> org_role option" where
  "roleIn memberships organizationId p =
     (case find (\<lambda>m. mb_organizationId m = organizationId \<and> mb_userId m = pr_userId p) memberships of
        None \<Rightarrow> None
      | Some m \<Rightarrow> Some (mb_role m))"

definition can :: "membership list \<Rightarrow> string \<Rightarrow> principal \<Rightarrow> capability \<Rightarrow> bool" where
  "can memberships organizationId p c =
     (case roleIn memberships organizationId p of
        None \<Rightarrow> False
      | Some role \<Rightarrow> hasCapability role c)"

subsection \<open>The vocabulary\<close>

lemma all_capabilities: "set CAPABILITIES = UNIV"
proof -
  have "c \<in> set CAPABILITIES" for c
    by (cases c) (simp_all add: CAPABILITIES_def)
  then show ?thesis by auto
qed

lemma mem_CAPABILITIES [simp]: "c \<in> set CAPABILITIES"
  by (simp add: all_capabilities)

lemma distinct_capability_names: "distinct (map capability_name CAPABILITIES)"
  by (simp add: CAPABILITIES_def)

lemma capability_name_inject [simp]: "capability_name c = capability_name d \<longleftrightarrow> c = d"
  using distinct_capability_names by (auto simp: distinct_map all_capabilities inj_eq)

subsection \<open>The matrix\<close>

lemma viewer_le_member: "set (ROLE_CAPABILITIES Viewer) \<subseteq> set (ROLE_CAPABILITIES Member)"
  by simp

lemma member_le_admin: "set (ROLE_CAPABILITIES Member) \<subseteq> set (ROLE_CAPABILITIES Admin)"
  by (simp add: CAPABILITIES_def)

lemma admin_le_owner: "set (ROLE_CAPABILITIES Admin) \<subseteq> set (ROLE_CAPABILITIES Owner)"
  by auto

lemma hasCapability_owner [simp]: "hasCapability Owner c"
  by (simp add: hasCapability_def)

lemma hasCapability_admin [simp]: "hasCapability Admin c \<longleftrightarrow> c \<noteq> OrgDelete \<and> c \<noteq> BillingManage"
  by (auto simp: hasCapability_def)

lemma hasCapability_mono: "r \<le> r' \<Longrightarrow> hasCapability r c \<Longrightarrow> hasCapability r' c"
  using viewer_le_member member_le_admin admin_le_owner
  by (cases r; cases r') (auto simp: hasCapability_def less_eq_org_role_def)

subsection \<open>Decisions\<close>

lemma roleIn_Some_mem:
  assumes "roleIn ms org p = Some r"
  shows "\<exists>m \<in> set ms. mb_organizationId m = org \<and> mb_userId m = pr_userId p \<and> mb_role m = r"
  using assms by (auto simp: roleIn_def dest: find_Some_iff' split: option.splits)

lemma roleIn_None_iff:
  "roleIn ms org p = None \<longleftrightarrow> (\<forall>m \<in> set ms. \<not> (mb_organizationId m = org \<and> mb_userId m = pr_userId p))"
  by (auto simp: roleIn_def find_None_iff split: option.splits dest: find_Some_iff')

lemma can_iff: "can ms org p c \<longleftrightarrow> (\<exists>r. roleIn ms org p = Some r \<and> hasCapability r c)"
  by (simp add: can_def split: option.splits)

lemma can_not_member: "roleIn ms org p = None \<Longrightarrow> \<not> can ms org p c"
  by (simp add: can_def)

text \<open>Memberships of other organizations, and of other people, never change a decision.\<close>

lemma roleIn_filter:
  "roleIn (filter (\<lambda>m. mb_organizationId m = org \<and> mb_userId m = pr_userId p) ms) org p = roleIn ms org p"
  by (induction ms) (auto simp: roleIn_def split: option.splits)

end
