(* ===== verification/Api_Keys.thy ===== *)
theory Api_Keys
  imports Authorization
begin

section \<open>packages/auth: API keys and sessions\<close>

text \<open>
  \<open>packages/auth/src/api-keys.ts\<close> and the session mapping of \<open>packages/auth/src/index.ts\<close>.
  The digest \<open>sha256\<close> (the hexadecimal SHA-256 of \<open>node:crypto\<close>) and the random part of a
  new secret are arguments; the decisions about scopes, activity and shape are translated as
  they stand.  The lemmas bound what a key can do by its issued scopes and by what its
  owner's membership grants today.
\<close>

subsection \<open>Records\<close>

record api_key_authority =
  ka_id :: string
  ka_organizationId :: string
  ka_ownerId :: string
  ka_scopes :: "string list"
  ka_createdAt :: timestamp
  ka_revokedAt :: "timestamp option"

record api_key_record = api_key_authority +
  kr_name :: string
  kr_keyHash :: string
  kr_keyPrefix :: string
  kr_lastUsedAt :: "timestamp option"

record public_api_key = api_key_authority +
  pk_name :: string
  pk_keyPrefix :: string
  pk_lastUsedAt :: "timestamp option"

definition SECRET_PREFIX :: string where
  "SECRET_PREFIX = ''cw_live_''"

subsection \<open>Matching a secret\<close>

definition hex_value :: "char \<Rightarrow> nat option" where
  "hex_value c =
     (if is_digit c then Some (code_unit c - 48)
      else if 97 \<le> code_unit c \<and> code_unit c \<le> 102 then Some (code_unit c - 87)
      else if 65 \<le> code_unit c \<and> code_unit c \<le> 70 then Some (code_unit c - 55)
      else None)"

text \<open>\<open>Buffer.from(text, "hex")\<close> decodes pairs of digits and stops at the first invalid pair.\<close>

fun from_hex :: "string \<Rightarrow> nat list" where
  "from_hex (a # b # rest) =
     (case (hex_value a, hex_value b) of
        (Some x, Some y) \<Rightarrow> (16 * x + y) # from_hex rest
      | _ \<Rightarrow> [])"
| "from_hex _ = []"

definition apiKeyMatches :: "(string \<Rightarrow> string) \<Rightarrow> string \<Rightarrow> string \<Rightarrow> bool" where
  "apiKeyMatches sha256 secret keyHash =
     (let candidate = from_hex (sha256 secret); stored = from_hex keyHash in
      if length candidate \<noteq> length stored then False else candidate = stored)"

subsection \<open>Issuing\<close>

definition boundedScopes :: "capability list \<Rightarrow> org_role \<Rightarrow> capability list" where
  "boundedScopes requested role =
     (let unique = unique_list requested in filter (\<lambda>scope. hasCapability role scope) unique)"

record issue_input =
  in_id :: string
  in_organizationId :: string
  in_ownerId :: string
  in_name :: string
  in_role :: org_role
  in_requestedScopes :: "capability list"
  in_now :: millis

definition issueApiKey ::
  "(string \<Rightarrow> string) \<Rightarrow> string \<Rightarrow> issue_input \<Rightarrow> api_key_record \<times> string" where
  "issueApiKey sha256 random24 inp =
     (let secret = SECRET_PREFIX @ random24;
          scopes = boundedScopes (in_requestedScopes inp) (in_role inp)
      in (\<lparr> ka_id = in_id inp, ka_organizationId = in_organizationId inp,
            ka_ownerId = in_ownerId inp, ka_scopes = map capability_name scopes,
            ka_createdAt = At (in_now inp), ka_revokedAt = None,
            kr_name = in_name inp, kr_keyHash = sha256 secret,
            kr_keyPrefix = take (length SECRET_PREFIX + 4) secret, kr_lastUsedAt = None \<rparr>,
          secret))"

definition publicApiKey :: "api_key_record \<Rightarrow> public_api_key" where
  "publicApiKey r =
     \<lparr> ka_id = ka_id r, ka_organizationId = ka_organizationId r, ka_ownerId = ka_ownerId r,
       ka_scopes = ka_scopes r, ka_createdAt = ka_createdAt r, ka_revokedAt = ka_revokedAt r,
       pk_name = kr_name r, pk_keyPrefix = kr_keyPrefix r, pk_lastUsedAt = kr_lastUsedAt r \<rparr>"

subsection \<open>Deciding\<close>

definition isKeyActive :: "'a api_key_authority_scheme \<Rightarrow> millis \<Rightarrow> bool" where
  "isKeyActive r now \<longleftrightarrow>
     ka_revokedAt r = None \<and>
     (case time_of (ka_createdAt r) of None \<Rightarrow> False | Some t \<Rightarrow> t \<le> now)"

definition looksLikeApiKey :: "string \<Rightarrow> bool" where
  "looksLikeApiKey presented \<longleftrightarrow>
     prefix SECRET_PREFIX presented \<and> length presented > length SECRET_PREFIX + 20"

definition keyAllows :: "'a api_key_authority_scheme \<Rightarrow> capability \<Rightarrow> millis \<Rightarrow> bool" where
  "keyAllows r scope now =
     (if \<not> isKeyActive r now then False else capability_name scope \<in> set (ka_scopes r))"

definition capability_of :: "string \<Rightarrow> capability option" where
  "capability_of s = find (\<lambda>c. capability_name c = s) CAPABILITIES"

definition effectiveScopes ::
  "'a api_key_authority_scheme \<Rightarrow> membership list \<Rightarrow> millis \<Rightarrow> capability list" where
  "effectiveScopes r memberships now =
     (if \<not> isKeyActive r now then []
      else (case find (\<lambda>m. mb_organizationId m = ka_organizationId r \<and> mb_userId m = ka_ownerId r)
                   memberships of
              None \<Rightarrow> []
            | Some m \<Rightarrow>
                List.map_filter (\<lambda>scope.
                  case capability_of scope of
                    None \<Rightarrow> None
                  | Some c \<Rightarrow> if hasCapability (mb_role m) c then Some c else None)
                (ka_scopes r)))"

subsection \<open>Sessions\<close>

record supabase_session =
  ss_userId :: string
  ss_email :: "string option"
  ss_displayName :: "string option"
  ss_accessToken :: string

text \<open>\<open>None\<close> is \<open>UnauthenticatedError\<close>.\<close>

definition toPrincipal :: "supabase_session \<Rightarrow> principal option" where
  "toPrincipal s =
     (case ss_email s of
        None \<Rightarrow> None
      | Some email \<Rightarrow>
          if email = [] then None
          else Some \<lparr> pr_userId = ss_userId s, pr_email = email, pr_displayName = ss_displayName s \<rparr>)"

subsection \<open>What a key can do\<close>

lemma capability_of_name [simp]: "capability_of (capability_name c) = Some c"
proof -
  have "find (\<lambda>d. capability_name d = capability_name c) CAPABILITIES \<noteq> None"
    by (auto simp: find_None_iff)
  then show ?thesis
    by (auto simp: capability_of_def dest: find_Some_iff')
qed

lemma capability_of_Some: "capability_of s = Some c \<longleftrightarrow> capability_name c = s"
proof
  assume "capability_of s = Some c"
  then show "capability_name c = s"
    unfolding capability_of_def by (rule find_Some_iff' [THEN conjunct2])
next
  assume "capability_name c = s"
  then show "capability_of s = Some c" by auto
qed

lemma set_boundedScopes: "set (boundedScopes req role) = {c \<in> set req. hasCapability role c}"
  by (auto simp: boundedScopes_def Let_def)

lemma distinct_boundedScopes: "distinct (boundedScopes req role)"
  by (simp add: boundedScopes_def Let_def)

lemma apiKeyMatches_iff: "apiKeyMatches sha256 s h \<longleftrightarrow> from_hex (sha256 s) = from_hex h"
  by (auto simp: apiKeyMatches_def Let_def)

definition key_owner :: "'a api_key_authority_scheme \<Rightarrow> principal" where
  "key_owner r = \<lparr> pr_userId = ka_ownerId r, pr_email = [], pr_displayName = None \<rparr>"

lemma roleIn_owner:
  "roleIn ms (ka_organizationId r) p =
     map_option mb_role
       (find (\<lambda>m. mb_organizationId m = ka_organizationId r \<and> mb_userId m = ka_ownerId r) ms)"
  if "pr_userId p = ka_ownerId r"
  using that by (simp add: roleIn_def option.map_comp split: option.splits)

lemma effectiveScopes_iff:
  "c \<in> set (effectiveScopes r ms now) \<longleftrightarrow>
     keyAllows r c now \<and> can ms (ka_organizationId r) (key_owner r) c"
proof -
  have role: "roleIn ms (ka_organizationId r) (key_owner r) =
      map_option mb_role
        (find (\<lambda>m. mb_organizationId m = ka_organizationId r \<and> mb_userId m = ka_ownerId r) ms)"
    by (rule roleIn_owner) (simp add: key_owner_def)
  show ?thesis
    by (auto simp: effectiveScopes_def keyAllows_def can_def role set_map_filter' capability_of_Some
             split: option.splits if_splits)
qed

lemma map_filter_map_name:
  "List.map_filter (\<lambda>s. case capability_of s of None \<Rightarrow> None | Some c \<Rightarrow> if P c then Some c else None)
     (map capability_name cs) = filter P cs"
  by (induction cs) (simp_all add: List.map_filter_simps)

text \<open>
  A key issued to an owner of some role carries the requested capabilities that role
  grants, and what it can do later is exactly those of them the owner's present role grants:
  a promotion adds nothing, a demotion narrows the key, and while the owner keeps a role at
  least as high the key keeps exactly the scopes it was issued with.
\<close>

theorem issued_key_effective_scopes:
  assumes member: "roleIn memberships (in_organizationId inp) (key_owner (fst (issueApiKey sha256 rnd inp)))
                     = Some role"
    and later: "in_now inp \<le> now"
  shows "effectiveScopes (fst (issueApiKey sha256 rnd inp)) memberships now =
           filter (hasCapability role) (boundedScopes (in_requestedScopes inp) (in_role inp)) \<and>
         (in_role inp \<le> role \<longrightarrow>
           effectiveScopes (fst (issueApiKey sha256 rnd inp)) memberships now =
           boundedScopes (in_requestedScopes inp) (in_role inp))"
proof -
  let ?rec = "fst (issueApiKey sha256 rnd inp)"
  have rec: "ka_organizationId ?rec = in_organizationId inp" "ka_revokedAt ?rec = None"
    "ka_createdAt ?rec = At (in_now inp)"
    "ka_scopes ?rec = map capability_name (boundedScopes (in_requestedScopes inp) (in_role inp))"
    by (simp_all add: issueApiKey_def Let_def)
  then have active: "isKeyActive ?rec now" using later by (simp add: isKeyActive_def)
  from member roleIn_owner [of "key_owner ?rec" ?rec memberships] rec(1)
  obtain m where m: "find (\<lambda>m. mb_organizationId m = in_organizationId inp \<and>
      mb_userId m = ka_ownerId ?rec) memberships = Some m" "mb_role m = role"
    by (auto simp: key_owner_def eq_commute [of "Some role"])
  have scopes: "effectiveScopes ?rec memberships now =
      filter (hasCapability role) (boundedScopes (in_requestedScopes inp) (in_role inp))"
    using m by (simp add: effectiveScopes_def active rec map_filter_map_name)
  moreover have "in_role inp \<le> role \<Longrightarrow> \<forall>c \<in> set (boundedScopes (in_requestedScopes inp) (in_role inp)).
      hasCapability role c"
    by (auto simp: set_boundedScopes intro: hasCapability_mono)
  ultimately show ?thesis by (auto simp: filter_id_conv)
qed

definition sample_issue :: issue_input where
  "sample_issue =
     \<lparr> in_id = ''k'', in_organizationId = ''o'', in_ownerId = ''u'', in_name = ''n'',
       in_role = Admin, in_requestedScopes = [OrgDelete, DataBackup, OrgRead], in_now = 3 \<rparr>"

theorem issued_key_effective_scopes_witness:
  "effectiveScopes (fst (issueApiKey (\<lambda>s. s) ''r'' sample_issue))
     [\<lparr> mb_organizationId = ''o'', mb_userId = ''u'', mb_role = Viewer \<rparr>] 7 = [OrgRead]"
proof -
  have member: "roleIn [\<lparr> mb_organizationId = ''o'', mb_userId = ''u'', mb_role = Viewer \<rparr>]
      (in_organizationId sample_issue) (key_owner (fst (issueApiKey (\<lambda>s. s) ''r'' sample_issue)))
      = Some Viewer"
    by code_simp
  have later: "in_now sample_issue \<le> 7" by (simp add: sample_issue_def)
  have "filter (hasCapability Viewer)
      (boundedScopes (in_requestedScopes sample_issue) (in_role sample_issue)) = [OrgRead]"
    by code_simp
  with issued_key_effective_scopes [OF member later] show ?thesis by simp
qed

end
