(* ===== verification/Request_Context.thy ===== *)
theory Request_Context
  imports Api_Keys
begin

section \<open>apps/api: request context, scope guard and router\<close>

text \<open>
  \<open>apps/api/src/context.ts\<close>, \<open>guard.ts\<close>, \<open>errors.ts\<close> and \<open>router.ts\<close>: how a request becomes
  an authenticated context, how a procedure decides whether the caller may act, and how a
  failure becomes a wire response.  The identity provider and the store are ports: records of
  effectful operations over an abstract world.  The router's log lines are not modelled.
\<close>

subsection \<open>errors.ts\<close>

datatype api_code =
    Unauthenticated | Forbidden | NotFound | InvalidInput | Conflict | BudgetExceeded
  | EngineUnavailable

fun api_code_name :: "api_code \<Rightarrow> string" where
  "api_code_name Unauthenticated = ''unauthenticated''"
| "api_code_name Forbidden = ''forbidden''"
| "api_code_name NotFound = ''not_found''"
| "api_code_name InvalidInput = ''invalid_input''"
| "api_code_name Conflict = ''conflict''"
| "api_code_name BudgetExceeded = ''budget_exceeded''"
| "api_code_name EngineUnavailable = ''engine_unavailable''"

text \<open>
  What a procedure can throw: an \<open>ApiError\<close>, the \<open>UnauthenticatedError\<close> of
  \<open>packages/auth\<close>, or any other exception with its message.
\<close>

datatype failure = ApiError api_code string | UnauthenticatedError | OtherError string

subsection \<open>context.ts\<close>

record api_key_auth =
  kx_keyId :: string
  kx_organizationId :: string
  kx_scopes :: "capability list"

record request_context =
  cx_principal :: principal
  cx_memberships :: "membership list"
  cx_apiKey :: "api_key_auth option"

record 'w api_key_resolver =
  rs_findApiKeyByHash :: "string \<Rightarrow> ('w, failure, api_key_authority option) eio"
  rs_markApiKeyUsed :: "string \<Rightarrow> string \<Rightarrow> ('w, failure, unit) eio"
  rs_getProfileForService :: "string \<Rightarrow> ('w, failure, string option) eio"

record 'w context_deps =
  cd_verify :: "string \<Rightarrow> ('w, failure, supabase_session option) eio"
  cd_membershipsFor :: "string \<Rightarrow> ('w, failure, membership list) eio"
  cd_apiKeys :: "'w api_key_resolver option"
  cd_now :: "'w \<Rightarrow> millis"

definition AUTH_REQUIRED :: failure where
  "AUTH_REQUIRED = ApiError Unauthenticated ''Authentication required.''"

text \<open>\<open>resolvePrincipal\<close> of \<open>packages/auth/src/index.ts\<close>.\<close>

definition resolvePrincipal ::
  "(string \<Rightarrow> ('w, failure, supabase_session option) eio) \<Rightarrow> string option \<Rightarrow> ('w, failure, principal) eio" where
  "resolvePrincipal verify accessToken =
     (case accessToken of
        None \<Rightarrow> io_throw UnauthenticatedError
      | Some token \<Rightarrow>
          if token = [] then io_throw UnauthenticatedError
          else io_bind (verify token) (\<lambda>session.
            case session of
              None \<Rightarrow> io_throw UnauthenticatedError
            | Some s \<Rightarrow>
                (case toPrincipal s of
                   None \<Rightarrow> io_throw UnauthenticatedError
                 | Some p \<Rightarrow> io_return p)))"

definition roleForKey :: "api_key_authority \<Rightarrow> membership list \<Rightarrow> org_role option" where
  "roleForKey key memberships =
     map_option mb_role
       (find (\<lambda>m. mb_organizationId m = ka_organizationId key \<and> mb_userId m = ka_ownerId key)
         memberships)"

definition authenticateApiKey ::
  "(string \<Rightarrow> string) \<Rightarrow> 'w context_deps \<Rightarrow> string \<Rightarrow> ('w, failure, request_context) eio" where
  "authenticateApiKey sha256 deps presented =
     (case cd_apiKeys deps of
        None \<Rightarrow> io_throw AUTH_REQUIRED
      | Some resolver \<Rightarrow>
          io_bind (rs_findApiKeyByHash resolver (sha256 presented)) (\<lambda>found.
            case found of
              None \<Rightarrow> io_throw AUTH_REQUIRED
            | Some rec \<Rightarrow>
                if ka_revokedAt rec \<noteq> None then io_throw AUTH_REQUIRED
                else io_bind (cd_membershipsFor deps (ka_ownerId rec)) (\<lambda>memberships.
                  io_bind (io_get (cd_now deps)) (\<lambda>now.
                    let scopes = effectiveScopes rec memberships now in
                    if roleForKey rec memberships = None then io_throw AUTH_REQUIRED
                    else io_bind (rs_getProfileForService resolver (ka_ownerId rec)) (\<lambda>profile.
                      io_return
                        \<lparr> cx_principal = \<lparr> pr_userId = ka_ownerId rec, pr_email = or_else profile [],
                                           pr_displayName = None \<rparr>,
                          cx_memberships = memberships,
                          cx_apiKey = Some \<lparr> kx_keyId = ka_id rec,
                                             kx_organizationId = ka_organizationId rec,
                                             kx_scopes = scopes \<rparr> \<rparr>)))))"

definition stampKeyUse ::
  "'w context_deps \<Rightarrow> api_key_auth \<Rightarrow> ('w, failure, unit) eio" where
  "stampKeyUse deps key =
     (case cd_apiKeys deps of
        None \<Rightarrow> io_return ()
      | Some resolver \<Rightarrow>
          io_catch (rs_markApiKeyUsed resolver (kx_organizationId key) (kx_keyId key))
            (\<lambda>_. io_return ()))"

definition buildContext ::
  "(string \<Rightarrow> string) \<Rightarrow> 'w context_deps \<Rightarrow> string option \<Rightarrow> ('w, failure, request_context) eio" where
  "buildContext sha256 deps presented =
     (if truthy presented \<and> looksLikeApiKey (the presented)
      then io_bind (authenticateApiKey sha256 deps (the presented)) (\<lambda>ctx.
             case cx_apiKey ctx of
               None \<Rightarrow> io_return ctx
             | Some key \<Rightarrow> io_then (stampKeyUse deps key) (io_return ctx))
      else io_bind
             (io_catch (resolvePrincipal (cd_verify deps) presented)
               (\<lambda>e. case e of UnauthenticatedError \<Rightarrow> io_throw AUTH_REQUIRED | _ \<Rightarrow> io_throw e))
             (\<lambda>p. io_bind (cd_membershipsFor deps (pr_userId p)) (\<lambda>memberships.
                io_return \<lparr> cx_principal = p, cx_memberships = memberships, cx_apiKey = None \<rparr>)))"

subsection \<open>guard.ts\<close>

definition allowed :: "request_context \<Rightarrow> string \<Rightarrow> capability \<Rightarrow> bool" where
  "allowed ctx organizationId c =
     (if \<not> can (cx_memberships ctx) organizationId (cx_principal ctx) c then False
      else (case cx_apiKey ctx of
              None \<Rightarrow> True
            | Some key \<Rightarrow>
                if kx_organizationId key \<noteq> organizationId then False
                else if c \<notin> set (kx_scopes key) then False
                else True))"

definition roleFor :: "request_context \<Rightarrow> string \<Rightarrow> org_role option" where
  "roleFor ctx organizationId = roleIn (cx_memberships ctx) organizationId (cx_principal ctx)"

definition ORG_NOT_FOUND :: failure where
  "ORG_NOT_FOUND = ApiError NotFound ''Organization not found.''"

definition requireCapability :: "request_context \<Rightarrow> string \<Rightarrow> capability \<Rightarrow> failure + unit" where
  "requireCapability ctx organizationId c =
     (if (case cx_apiKey ctx of None \<Rightarrow> False | Some key \<Rightarrow> kx_organizationId key \<noteq> organizationId)
      then Inl ORG_NOT_FOUND
      else if roleFor ctx organizationId = None then Inl ORG_NOT_FOUND
      else if \<not> allowed ctx organizationId c
      then Inl (ApiError Forbidden (''Requires capability: '' @ capability_name c @ ''.''))
      else Inr ())"

subsection \<open>router.ts\<close>

datatype 'd rpc_response =
    RpcData "'d"
  | RpcError nat string string

fun rpc_ok :: "'d rpc_response \<Rightarrow> bool" where
  "rpc_ok (RpcData _) = True"
| "rpc_ok (RpcError _ _ _) = False"

fun rpc_status :: "'d rpc_response \<Rightarrow> nat" where
  "rpc_status (RpcData _) = 200"
| "rpc_status (RpcError status _ _) = status"

fun STATUS_BY_CODE :: "api_code \<Rightarrow> nat" where
  "STATUS_BY_CODE Unauthenticated = 401"
| "STATUS_BY_CODE Forbidden = 403"
| "STATUS_BY_CODE NotFound = 404"
| "STATUS_BY_CODE InvalidInput = 400"
| "STATUS_BY_CODE Conflict = 409"
| "STATUS_BY_CODE BudgetExceeded = 402"
| "STATUS_BY_CODE EngineUnavailable = 503"

text \<open>
  \<open>new Map(procedures.map((p) => [p.name, p]))\<close>: a later procedure of the same name replaces
  an earlier one.  A handler takes the context and the request's input.
\<close>

type_synonym ('w, 'i, 'd) procedure = "request_context \<Rightarrow> 'i \<Rightarrow> ('w, failure, 'd) eio"

definition route ::
  "(string \<Rightarrow> string) \<Rightarrow> 'w context_deps \<Rightarrow> (string \<times> ('w, 'i, 'd) procedure) list \<Rightarrow>
   string \<Rightarrow> string option \<Rightarrow> 'i \<Rightarrow> 'w \<Rightarrow> 'd rpc_response \<times> 'w" where
  "route sha256 deps procedures name accessToken inp w =
     (case map_of (rev procedures) name of
        None \<Rightarrow> (RpcError 404 ''not_found'' ''Unknown procedure.'', w)
      | Some handler \<Rightarrow>
          (case io_bind (buildContext sha256 deps accessToken) (\<lambda>ctx. handler ctx inp) w of
             (Inr data, w') \<Rightarrow> (RpcData data, w')
           | (Inl (ApiError code message), w') \<Rightarrow>
               (RpcError (STATUS_BY_CODE code) (api_code_name code) message, w')
           | (Inl _, w') \<Rightarrow> (RpcError 500 ''internal'' ''Internal error.'', w')))"


subsection \<open>Authentication\<close>

definition never_throws :: "('w, 'e, 'a) eio \<Rightarrow> bool" where
  "never_throws m \<longleftrightarrow> (\<forall>w. \<exists>x w'. m w = (Inr x, w'))"

lemma never_throwsD: "never_throws m \<Longrightarrow> m w \<noteq> (Inl e, w')"
  by (metis never_throws_def Inl_Inr_False prod.inject)

lemma roleForKey_owner:
  "pr_userId p = ka_ownerId key \<Longrightarrow>
   roleForKey key ms = roleIn ms (ka_organizationId key) p"
  by (simp add: roleForKey_def roleIn_owner)

text \<open>What a successful key authentication has established, in the order it established it.\<close>

lemma authenticateApiKey_ok:
  assumes "authenticateApiKey sha256 deps presented w = (Inr ctx, w')"
  obtains resolver rec w1 w2 scopes where
    "cd_apiKeys deps = Some resolver"
    "rs_findApiKeyByHash resolver (sha256 presented) w = (Inr (Some rec), w1)"
    "ka_revokedAt rec = None"
    "cd_membershipsFor deps (ka_ownerId rec) w1 = (Inr (cx_memberships ctx), w2)"
    "pr_userId (cx_principal ctx) = ka_ownerId rec"
    "cx_apiKey ctx = Some \<lparr> kx_keyId = ka_id rec, kx_organizationId = ka_organizationId rec,
       kx_scopes = effectiveScopes rec (cx_memberships ctx) (cd_now deps w2) \<rparr>"
    "roleForKey rec (cx_memberships ctx) \<noteq> None"
  using assms that
  by (auto simp: authenticateApiKey_def io_simps AUTH_REQUIRED_def Let_def
           split: option.splits prod.splits sum.splits if_splits)

lemma stampKeyUse_ok [simp]: "\<exists>w'. stampKeyUse deps key w = (Inr (), w')"
  by (auto simp: stampKeyUse_def io_simps split: option.splits prod.splits sum.splits)

lemma buildContext_key:
  assumes "buildContext sha256 deps presented w = (Inr ctx, w')" and "cx_apiKey ctx = Some key"
  obtains w1 where "authenticateApiKey sha256 deps (the presented) w = (Inr ctx, w1)"
proof (cases "truthy presented \<and> looksLikeApiKey (the presented)")
  case True
  with assms that show ?thesis
    by (auto simp: buildContext_def io_simps split: option.splits prod.splits sum.splits)
next
  case False
  with assms show ?thesis
    by (auto simp: buildContext_def io_simps split: option.splits prod.splits sum.splits failure.splits)
qed

text \<open>
  C33. A request that authenticated with an API key can act only in the organization the key
  was issued in, only with a scope the stored key still carries while it is active and not
  revoked, and only where the key owner's membership, loaded for this request, grants the
  capability: whatever the guard allows, both authorities allow.
\<close>

theorem key_authority_is_the_narrower:
  assumes built: "buildContext sha256 deps presented w = (Inr ctx, w')"
    and key: "cx_apiKey ctx = Some key"
    and act: "allowed ctx organizationId c"
  shows "\<exists>resolver rec w1 w2.
           rs_findApiKeyByHash resolver (sha256 (the presented)) w = (Inr (Some rec), w1) \<and>
           cd_apiKeys deps = Some resolver \<and>
           organizationId = ka_organizationId rec \<and>
           keyAllows rec c (cd_now deps w2) \<and>
           pr_userId (cx_principal ctx) = ka_ownerId rec \<and>
           can (cx_memberships ctx) organizationId (cx_principal ctx) c"
proof -
  obtain w3 where auth: "authenticateApiKey sha256 deps (the presented) w = (Inr ctx, w3)"
    using built key by (rule buildContext_key)
  obtain resolver rec w1 w2 where
    port: "cd_apiKeys deps = Some resolver"
    and found: "rs_findApiKeyByHash resolver (sha256 (the presented)) w = (Inr (Some rec), w1)"
    and owner: "pr_userId (cx_principal ctx) = ka_ownerId rec"
    and carried: "cx_apiKey ctx = Some \<lparr> kx_keyId = ka_id rec,
       kx_organizationId = ka_organizationId rec,
       kx_scopes = effectiveScopes rec (cx_memberships ctx) (cd_now deps w2) \<rparr>"
    using auth by (rule authenticateApiKey_ok)
  have org: "organizationId = ka_organizationId rec"
    and scope: "c \<in> set (effectiveScopes rec (cx_memberships ctx) (cd_now deps w2))"
    and member: "can (cx_memberships ctx) organizationId (cx_principal ctx) c"
    using act carried by (auto simp: allowed_def split: if_splits)
  from scope have "keyAllows rec c (cd_now deps w2)" by (simp add: effectiveScopes_iff)
  with port found org owner member show ?thesis by blast
qed

text \<open>
  Authentication failures are indistinguishable: with stores and an identity provider
  that answer, a request that is not authenticated gets one and the same error, whether the
  token is missing, rejected, without an email, an unknown or revoked key, or a key whose
  owner left the organization.
\<close>

theorem authentication_failures_look_alike:
  assumes ports: "\<And>t. never_throws (cd_verify deps t)" "\<And>u. never_throws (cd_membershipsFor deps u)"
    and keys: "\<And>r h. cd_apiKeys deps = Some r \<Longrightarrow> never_throws (rs_findApiKeyByHash r h)"
      "\<And>r u. cd_apiKeys deps = Some r \<Longrightarrow> never_throws (rs_getProfileForService r u)"
    and fails: "buildContext sha256 deps presented w = (Inl e, w')"
  shows "e = ApiError Unauthenticated ''Authentication required.''"
proof -
  have stamp: "stampKeyUse deps k v \<noteq> (Inl x, v')" for k v x v'
    by (metis stampKeyUse_ok Inl_Inr_False prod.inject)
  show ?thesis
  proof (cases "truthy presented \<and> looksLikeApiKey (the presented)")
    case True
    with fails show ?thesis
      by (auto simp: buildContext_def authenticateApiKey_def io_simps AUTH_REQUIRED_def Let_def
                     ports keys never_throwsD stamp
               split: option.splits prod.splits sum.splits if_splits)
  next
    case False
    with fails show ?thesis
      by (auto simp: buildContext_def resolvePrincipal_def io_simps AUTH_REQUIRED_def
                     ports never_throwsD
               split: option.splits prod.splits sum.splits if_splits failure.splits)
  qed
qed

subsection \<open>The guard and the router\<close>

lemma allowed_iff:
  "allowed ctx org c \<longleftrightarrow>
     can (cx_memberships ctx) org (cx_principal ctx) c \<and>
     (\<forall>key. cx_apiKey ctx = Some key \<longrightarrow> kx_organizationId key = org \<and> c \<in> set (kx_scopes key))"
  by (auto simp: allowed_def split: option.splits)

lemma requireCapability_ok_iff: "requireCapability ctx org c = Inr () \<longleftrightarrow> allowed ctx org c"
  by (auto simp: requireCapability_def allowed_iff roleFor_def can_not_member ORG_NOT_FOUND_def
           split: option.splits)

text \<open>
  The guard lets a call through exactly when it is allowed; it answers \<open>not_found\<close>
  exactly when the organization must look absent (the caller is no member, or the key belongs
  to another organization), and \<open>forbidden\<close> only to a member.
\<close>

theorem requireCapability_discloses_only_to_members:
  "(requireCapability ctx organizationId c = Inr () \<longleftrightarrow> allowed ctx organizationId c) \<and>
   (requireCapability ctx organizationId c = Inl (ApiError NotFound ''Organization not found.'') \<longleftrightarrow>
     roleFor ctx organizationId = None \<or>
     (\<exists>key. cx_apiKey ctx = Some key \<and> kx_organizationId key \<noteq> organizationId)) \<and>
   requireCapability ctx organizationId c
     \<in> {Inr (), Inl (ApiError NotFound ''Organization not found.''),
         Inl (ApiError Forbidden (''Requires capability: '' @ capability_name c @ ''.''))}"
  by (intro conjI requireCapability_ok_iff)
     (auto simp: requireCapability_def ORG_NOT_FOUND_def split: option.splits)

text \<open>
  A request that fails authentication never reaches a procedure: the response and the
  state of the world are the same whatever the procedures registered under these names do.
\<close>

theorem unauthenticated_request_never_dispatched:
  assumes fails: "buildContext sha256 deps accessToken w = (Inl e, w')"
    and names: "fst ` set procedures = fst ` set procedures'"
  shows "route sha256 deps procedures name accessToken inp w =
         route sha256 deps procedures' name accessToken inp' w"
proof -
  have "map_of (rev procedures) name = None \<longleftrightarrow> map_of (rev procedures') name = None"
    by (simp add: map_of_eq_None_iff names)
  with fails show ?thesis
    by (auto simp: route_def io_simps split: option.splits)
qed


text \<open>
  Nothing of an unexpected exception reaches the caller: the response to a procedure that
  throws anything but an \<open>ApiError\<close> is the generic one, the same for every message, while an
  \<open>ApiError\<close> is answered with its own code and the status of that code, never with 200.
\<close>

theorem route_normalizes_errors:
  assumes known: "map_of (rev procedures) name = Some handler"
    and authenticated: "buildContext sha256 deps accessToken w = (Inr ctx, w1)"
    and thrown: "handler ctx inp w1 = (Inl failure, w2)"
  shows "route sha256 deps procedures name accessToken inp w =
           (case failure of
              ApiError code message \<Rightarrow> RpcError (STATUS_BY_CODE code) (api_code_name code) message
            | _ \<Rightarrow> RpcError 500 ''internal'' ''Internal error.'', w2) \<and>
         rpc_status (fst (route sha256 deps procedures name accessToken inp w)) \<ge> 400"
proof -
  have "STATUS_BY_CODE code \<ge> 400" for code by (cases code) simp_all
  with assms show ?thesis
    by (simp add: route_def io_simps split: failure.split)
qed

subsection \<open>A concrete control plane\<close>

text \<open>
  One organization with an owner and a viewer, and one key of the owner that carries two
  scopes; the digest marks its input.  The witnesses below run on it.
\<close>

definition sample_digest :: "string \<Rightarrow> string" where
  "sample_digest s = CHR ''h'' # s"

definition sample_secret :: string where
  "sample_secret = ''cw_live_abcdefghijklmnopqrstuvwx''"

definition sample_key :: api_key_authority where
  "sample_key = \<lparr> ka_id = ''k1'', ka_organizationId = ''o1'', ka_ownerId = ''u1'',
     ka_scopes = [''project:read'', ''retired:scope''], ka_createdAt = At 5, ka_revokedAt = None \<rparr>"

definition sample_members :: "membership list" where
  "sample_members = [\<lparr> mb_organizationId = ''o1'', mb_userId = ''u1'', mb_role = Owner \<rparr>,
                     \<lparr> mb_organizationId = ''o1'', mb_userId = ''u2'', mb_role = Viewer \<rparr>]"

definition sample_resolver :: "nat api_key_resolver" where
  "sample_resolver =
     \<lparr> rs_findApiKeyByHash = (\<lambda>h. io_return (if h = sample_digest sample_secret then Some sample_key else None)),
       rs_markApiKeyUsed = (\<lambda>_ _. io_modify Suc),
       rs_getProfileForService = (\<lambda>_. io_return (Some ''owner@example.com'')) \<rparr>"

definition sample_deps :: "nat context_deps" where
  "sample_deps =
     \<lparr> cd_verify = (\<lambda>_. io_return None),
       cd_membershipsFor = (\<lambda>u. io_return (filter (\<lambda>m. mb_userId m = u) sample_members)),
       cd_apiKeys = Some sample_resolver,
       cd_now = (\<lambda>_. 9) \<rparr>"

definition sample_context :: request_context where
  "sample_context =
     \<lparr> cx_principal = \<lparr> pr_userId = ''u1'', pr_email = ''owner@example.com'', pr_displayName = None \<rparr>,
       cx_memberships = [\<lparr> mb_organizationId = ''o1'', mb_userId = ''u1'', mb_role = Owner \<rparr>],
       cx_apiKey = Some \<lparr> kx_keyId = ''k1'', kx_organizationId = ''o1'', kx_scopes = [ProjectRead] \<rparr> \<rparr>"

lemma sample_built:
  "buildContext sample_digest sample_deps (Some sample_secret) 0 = (Inr sample_context, 1)"
  by code_simp

lemma sample_rejected:
  "buildContext sample_digest sample_deps (Some ''cw_live_unknown_unknown_unknown'') 0 =
     (Inl (ApiError Unauthenticated ''Authentication required.''), 0)"
  by code_simp

lemma sample_allowed: "allowed sample_context ''o1'' ProjectRead"
  by code_simp


theorem key_authority_is_the_narrower_witness:
  "\<exists>resolver rec w1 w2.
     rs_findApiKeyByHash resolver (sample_digest (the (Some sample_secret))) (0 :: nat) =
       (Inr (Some rec), w1) \<and>
     cd_apiKeys sample_deps = Some resolver \<and>
     ''o1'' = ka_organizationId rec \<and>
     keyAllows rec ProjectRead (cd_now sample_deps w2) \<and>
     pr_userId (cx_principal sample_context) = ka_ownerId rec \<and>
     can (cx_memberships sample_context) ''o1'' (cx_principal sample_context) ProjectRead"
  using key_authority_is_the_narrower [OF sample_built _ sample_allowed]
  by (simp add: sample_context_def)

lemma sample_ports_answer:
  "never_throws (cd_verify sample_deps t)"
  "never_throws (cd_membershipsFor sample_deps u)"
  "cd_apiKeys sample_deps = Some r \<Longrightarrow> never_throws (rs_findApiKeyByHash r h)"
  "cd_apiKeys sample_deps = Some r \<Longrightarrow> never_throws (rs_getProfileForService r u)"
  by (auto simp: never_throws_def sample_deps_def sample_resolver_def io_simps)

theorem authentication_failures_look_alike_witness:
  "(ApiError Unauthenticated ''Authentication required.'' :: failure) =
     ApiError Unauthenticated ''Authentication required.'' \<and>
   fst (buildContext sample_digest sample_deps (Some ''cw_live_unknown_unknown_unknown'') 0) =
     Inl (ApiError Unauthenticated ''Authentication required.'')"
  using authentication_failures_look_alike [OF sample_ports_answer(1,2,3,4) sample_rejected]
  by (simp add: sample_rejected)

theorem unauthenticated_request_never_dispatched_witness:
  "route sample_digest sample_deps [(''org.list'', \<lambda>ctx (i :: nat). io_return i)]
     ''org.list'' (Some ''cw_live_unknown_unknown_unknown'') 3 0 =
   route sample_digest sample_deps [(''org.list'', \<lambda>ctx i. io_then (io_modify (\<lambda>_. i + 7)) (io_return 0))]
     ''org.list'' (Some ''cw_live_unknown_unknown_unknown'') 4 0"
  by (rule unauthenticated_request_never_dispatched [OF sample_rejected]) simp

definition sample_procedures :: "(string \<times> (nat, nat, nat) procedure) list" where
  "sample_procedures = [(''org.list'', \<lambda>ctx i. io_throw (OtherError ''secret detail''))]"

theorem route_normalizes_errors_witness:
  "route sample_digest sample_deps sample_procedures ''org.list'' (Some sample_secret) 3 0 =
   (RpcError 500 ''internal'' ''Internal error.'', 1)"
  using route_normalizes_errors [OF _ sample_built, of sample_procedures "''org.list''"
      "\<lambda>ctx i. io_throw (OtherError ''secret detail'')" 3 "OtherError ''secret detail''" 1]
  by (simp add: sample_procedures_def io_simps)

end
