(* ===== verification/Job_Queue.thy ===== *)
theory Job_Queue
  imports Contracts
begin

section \<open>packages/adapters/queue.ts: the job queue\<close>

text \<open>
  The record \<open>Job\<close>, the interface \<open>JobQueue\<close> as a record of operations with the contract its
  callers rely on as the locale \<open>job_queue\<close>, and \<open>InMemoryJobQueue\<close> operation by operation.
  The queue's clock is a field of its state, advanced by the environment.  The labelled step
  relation \<open>queue_step\<close> lets any caller invoke any operation at any time, so a theorem about
  \<open>queue_run\<close> holds for every interleaving of producers, workers and the reaper.
\<close>

subsection \<open>Jobs\<close>

record 'p job =
  jb_id :: string
  jb_organizationId :: string
  jb_kind :: string
  jb_payload :: 'p
  jb_idempotencyKey :: string
  jb_state :: job_state
  jb_attempts :: nat
  jb_maxAttempts :: nat
  jb_createdAt :: millis
  jb_startedAt :: "millis option"
  jb_finishedAt :: "millis option"
  jb_lastError :: "string option"
  jb_leaseExpiresAt :: "millis option"
  jb_deferredUntil :: "millis option"

record 'p enqueue_input =
  ei_organizationId :: string
  ei_kind :: string
  ei_payload :: 'p
  ei_idempotencyKey :: string
  ei_maxAttempts :: "nat option"

text \<open>
  The interface \<open>JobQueue\<close>: every operation is asynchronous, so it may reject (a database
  that is not reachable, a statement it refuses).
\<close>

record ('q, 'p) queue_port =
  qp_enqueue :: "'p enqueue_input \<Rightarrow> ('q, 'p job) io"
  qp_claim :: "string \<Rightarrow> millis \<Rightarrow> ('q, 'p job option) io"
  qp_complete :: "string \<Rightarrow> ('q, unit) io"
  qp_fail :: "string \<Rightarrow> string \<Rightarrow> ('q, unit) io"
  qp_terminate :: "string \<Rightarrow> string \<Rightarrow> ('q, unit) io"
  qp_defer :: "string \<Rightarrow> string \<Rightarrow> millis \<Rightarrow> ('q, unit) io"
  qp_reapExpired :: "('q, nat) io"
  qp_get :: "string \<Rightarrow> ('q, 'p job option) io"

subsection \<open>The contract of a queue\<close>

text \<open>
  The effect each operation promises on the job it names, as relations between the job before
  and the job after.  What identifies a job (its id, tenant, kind, payload, key, budget and
  creation time) never changes.
\<close>

definition same_identity :: "'p job \<Rightarrow> 'p job \<Rightarrow> bool" where
  "same_identity j j' \<longleftrightarrow>
     jb_id j' = jb_id j \<and> jb_organizationId j' = jb_organizationId j \<and> jb_kind j' = jb_kind j \<and>
     jb_payload j' = jb_payload j \<and> jb_idempotencyKey j' = jb_idempotencyKey j \<and>
     jb_maxAttempts j' = jb_maxAttempts j \<and> jb_createdAt j' = jb_createdAt j"

definition took_claim :: "'p job \<Rightarrow> 'p job \<Rightarrow> bool" where
  "took_claim j j' \<longleftrightarrow>
     same_identity j j' \<and> jb_state j = JQueued \<and> jb_state j' = JRunning \<and>
     jb_attempts j' = jb_attempts j + 1 \<and> jb_attempts j' \<le> jb_maxAttempts j'"

definition settled_as :: "job_state \<Rightarrow> string option \<Rightarrow> 'p job \<Rightarrow> 'p job \<Rightarrow> bool" where
  "settled_as st e j j' \<longleftrightarrow>
     same_identity j j' \<and> jb_state j' = st \<and> jb_lastError j' = e \<and>
     jb_attempts j' = jb_attempts j \<and> jb_leaseExpiresAt j' = None \<and> jb_finishedAt j' \<noteq> None"

definition spent_or_requeued :: "string \<Rightarrow> 'p job \<Rightarrow> 'p job \<Rightarrow> bool" where
  "spent_or_requeued reason j j' \<longleftrightarrow>
     (if jb_attempts j \<ge> jb_maxAttempts j then settled_as JFailed (Some reason) j j'
      else same_identity j j' \<and> jb_state j' = JQueued \<and> jb_lastError j' = Some reason \<and>
           jb_attempts j' = jb_attempts j \<and> jb_leaseExpiresAt j' = None)"

definition deferred_from :: "string \<Rightarrow> 'p job \<Rightarrow> 'p job \<Rightarrow> bool" where
  "deferred_from reason j j' \<longleftrightarrow>
     same_identity j j' \<and> jb_state j' = JQueued \<and> jb_lastError j' = Some reason \<and>
     jb_attempts j' = jb_attempts j - 1 \<and> jb_leaseExpiresAt j' = None"

text \<open>
  The contract, over the provider's invariant and the view \<open>look\<close> of its jobs by id: every
  operation keeps the invariant, an operation that rejects changes no job, and one that resolves
  has the promised effect on the job it names and no other.  \<open>defer\<close> is promised for a running
  job only, which is the one case its callers use it in.
\<close>

definition effect_on :: "string \<Rightarrow> ('p job \<Rightarrow> 'p job \<Rightarrow> bool) \<Rightarrow>
    (string \<Rightarrow> 'p job option) \<Rightarrow> (string + unit) \<Rightarrow> (string \<Rightarrow> 'p job option) \<Rightarrow> bool" where
  "effect_on i R jobs r jobs' \<longleftrightarrow>
     (case r of
        Inl _ \<Rightarrow> jobs' = jobs
      | Inr _ \<Rightarrow> (\<exists>j j'. jobs i = Some j \<and> R j j' \<and> jobs' = jobs(i \<mapsto> j')))"

locale job_queue =
  fixes port :: "('q, 'p) queue_port"
    and inv :: "'q \<Rightarrow> bool"
    and look :: "'q \<Rightarrow> string \<Rightarrow> 'p job option"
  assumes claim_inv: "inv q \<Longrightarrow> qp_claim port w l q = (c, q') \<Longrightarrow> inv q'"
    and claim_none: "inv q \<Longrightarrow> qp_claim port w l q = (c, q') \<Longrightarrow> c \<in> {Inr None} \<union> range Inl \<Longrightarrow>
          look q' = look q"
    and claim_takes: "inv q \<Longrightarrow> qp_claim port w l q = (Inr (Some j'), q') \<Longrightarrow>
          \<exists>j. look q (jb_id j') = Some j \<and> took_claim j j' \<and> look q' = (look q)(jb_id j' \<mapsto> j')"
    and complete_law: "inv q \<Longrightarrow> look q i = Some j \<Longrightarrow> qp_complete port i q = (r, q') \<Longrightarrow>
          inv q' \<and> effect_on i (settled_as JSucceeded None) (look q) r (look q')"
    and fail_law: "inv q \<Longrightarrow> look q i = Some j \<Longrightarrow> qp_fail port i e q = (r, q') \<Longrightarrow>
          inv q' \<and> effect_on i (spent_or_requeued e) (look q) r (look q')"
    and terminate_law: "inv q \<Longrightarrow> look q i = Some j \<Longrightarrow> qp_terminate port i e q = (r, q') \<Longrightarrow>
          inv q' \<and> effect_on i (settled_as JFailed (Some e)) (look q) r (look q')"
    and defer_law: "inv q \<Longrightarrow> look q i = Some j \<Longrightarrow> jb_state j = JRunning \<Longrightarrow>
          qp_defer port i e ms q = (r, q') \<Longrightarrow>
          inv q' \<and> effect_on i (deferred_from e) (look q) r (look q')"
    and get_law: "inv q \<Longrightarrow> qp_get port i q = (Inr x, q') \<Longrightarrow> x = look q i \<and> q' = q"
begin

text \<open>A claim followed at once by a deferral leaves the job's budget as it was.\<close>

lemma claim_then_defer:
  assumes "inv q" "qp_claim port w l q = (Inr (Some j'), q')"
    and "qp_defer port (jb_id j') e ms q' = (Inr (), q'')"
  shows "\<exists>j j''. look q (jb_id j') = Some j \<and> look q'' (jb_id j') = Some j'' \<and>
           jb_state j'' = JQueued \<and> jb_attempts j'' = jb_attempts j"
proof -
  obtain j where j: "look q (jb_id j') = Some j" "took_claim j j'" "look q' = (look q)(jb_id j' \<mapsto> j')"
    using claim_takes [OF assms(1,2)] by blast
  have "inv q'" using claim_inv [OF assms(1,2)] .
  then have "effect_on (jb_id j') (deferred_from e) (look q') (Inr ()) (look q'')"
    using defer_law [OF _ _ _ assms(3)] j by (auto simp: took_claim_def)
  with j show ?thesis by (auto simp: effect_on_def took_claim_def deferred_from_def)
qed

end

text \<open>A queue whose operations never reject, as one held in memory.\<close>

locale reliable_queue = job_queue +
  assumes claim_total: "\<exists>x q'. qp_claim port w l q = (Inr x, q')"
    and complete_total: "\<exists>q'. qp_complete port i q = (Inr (), q')"
    and fail_total: "\<exists>q'. qp_fail port i e q = (Inr (), q')"
    and terminate_total: "\<exists>q'. qp_terminate port i e q = (Inr (), q')"
    and defer_total: "\<exists>q'. qp_defer port i e ms q = (Inr (), q')"

subsection \<open>InMemoryJobQueue\<close>

text \<open>
  \<open>byId\<close> is a \<open>Map\<close> iterated in insertion order: the list of its jobs.  \<open>byKey\<close> holds the same
  job objects, so the model keeps their ids.
\<close>

record 'p mem_queue =
  mq_byKey :: "(string \<times> string) list"
  mq_byId :: "'p job list"
  mq_counter :: nat
  mq_clock :: millis

definition empty_queue :: "millis \<Rightarrow> 'p mem_queue" where
  "empty_queue now = \<lparr> mq_byKey = [], mq_byId = [], mq_counter = 0, mq_clock = now \<rparr>"

definition keyOf :: "string \<Rightarrow> string \<Rightarrow> string \<Rightarrow> string" where
  "keyOf organizationId kind idempotencyKey = organizationId @ ''::'' @ kind @ ''::'' @ idempotencyKey"

abbreviation input_key :: "'p enqueue_input \<Rightarrow> string" where
  "input_key i \<equiv> keyOf (ei_organizationId i) (ei_kind i) (ei_idempotencyKey i)"

abbreviation job_key :: "'p job \<Rightarrow> string" where
  "job_key j \<equiv> keyOf (jb_organizationId j) (jb_kind j) (jb_idempotencyKey j)"

definition mem_get :: "string \<Rightarrow> 'p mem_queue \<Rightarrow> 'p job option" where
  "mem_get jobId q = find (\<lambda>j. jb_id j = jobId) (mq_byId q)"

definition new_job :: "string \<Rightarrow> 'p enqueue_input \<Rightarrow> millis \<Rightarrow> 'p job" where
  "new_job jobId i now =
     \<lparr> jb_id = jobId, jb_organizationId = ei_organizationId i, jb_kind = ei_kind i,
       jb_payload = ei_payload i, jb_idempotencyKey = ei_idempotencyKey i,
       jb_state = JQueued, jb_attempts = 0, jb_maxAttempts = or_else (ei_maxAttempts i) 3,
       jb_createdAt = now, jb_startedAt = None, jb_finishedAt = None, jb_lastError = None,
       jb_leaseExpiresAt = None, jb_deferredUntil = None \<rparr>"

definition mem_enqueue :: "'p enqueue_input \<Rightarrow> 'p mem_queue \<Rightarrow> 'p job \<times> 'p mem_queue" where
  "mem_enqueue i q =
     (case map_of (mq_byKey q) (input_key i) of
        Some jobId \<Rightarrow> (the (mem_get jobId q), q)
      | None \<Rightarrow>
          (let n = mq_counter q + 1;
               job = new_job (''job-'' @ show_nat n) i (mq_clock q)
           in (job, q\<lparr> mq_counter := n,
                      mq_byKey := (input_key i, jb_id job) # mq_byKey q,
                      mq_byId := mq_byId q @ [job] \<rparr>)))"

definition claimed :: "millis \<Rightarrow> millis \<Rightarrow> 'p job \<Rightarrow> 'p job" where
  "claimed now leaseMs j =
     j\<lparr> jb_state := JRunning, jb_attempts := jb_attempts j + 1, jb_startedAt := Some now,
       jb_leaseExpiresAt := Some (now + leaseMs), jb_deferredUntil := None \<rparr>"

definition claimable :: "millis \<Rightarrow> 'p job \<Rightarrow> bool" where
  "claimable now j \<longleftrightarrow>
     jb_state j = JQueued \<and> \<not> jb_attempts j \<ge> jb_maxAttempts j \<and>
     \<not> (case jb_deferredUntil j of None \<Rightarrow> False | Some t \<Rightarrow> t > now)"

fun claim_scan :: "millis \<Rightarrow> millis \<Rightarrow> 'p job list \<Rightarrow> 'p job option \<times> 'p job list" where
  "claim_scan now leaseMs [] = (None, [])"
| "claim_scan now leaseMs (j # js) =
     (if claimable now j then (Some (claimed now leaseMs j), claimed now leaseMs j # js)
      else (case claim_scan now leaseMs js of (r, js') \<Rightarrow> (r, j # js')))"

definition mem_claim :: "string \<Rightarrow> millis \<Rightarrow> 'p mem_queue \<Rightarrow> 'p job option \<times> 'p mem_queue" where
  "mem_claim workerId leaseMs q =
     (case claim_scan (mq_clock q) leaseMs (mq_byId q) of
        (r, jobs) \<Rightarrow> (r, q\<lparr> mq_byId := jobs \<rparr>))"

definition on_job :: "string \<Rightarrow> ('p job \<Rightarrow> 'p job) \<Rightarrow> 'p mem_queue \<Rightarrow> 'p mem_queue" where
  "on_job jobId f q = q\<lparr> mq_byId := map (\<lambda>j. if jb_id j = jobId then f j else j) (mq_byId q) \<rparr>"

definition completed_job :: "millis \<Rightarrow> 'p job \<Rightarrow> 'p job" where
  "completed_job now j =
     j\<lparr> jb_state := JSucceeded, jb_finishedAt := Some now, jb_leaseExpiresAt := None,
       jb_lastError := None \<rparr>"

definition mem_complete :: "string \<Rightarrow> 'p mem_queue \<Rightarrow> 'p mem_queue" where
  "mem_complete jobId q = on_job jobId (completed_job (mq_clock q)) q"

definition failed_job :: "millis \<Rightarrow> string \<Rightarrow> 'p job \<Rightarrow> 'p job" where
  "failed_job now reason j =
     (let j' = j\<lparr> jb_lastError := Some reason, jb_leaseExpiresAt := None \<rparr> in
      if jb_attempts j \<ge> jb_maxAttempts j
      then j'\<lparr> jb_state := JFailed, jb_finishedAt := Some now \<rparr>
      else j'\<lparr> jb_state := JQueued \<rparr>)"

definition mem_fail :: "string \<Rightarrow> string \<Rightarrow> 'p mem_queue \<Rightarrow> 'p mem_queue" where
  "mem_fail jobId reason q = on_job jobId (failed_job (mq_clock q) reason) q"

definition terminated_job :: "millis \<Rightarrow> string \<Rightarrow> 'p job \<Rightarrow> 'p job" where
  "terminated_job now reason j =
     j\<lparr> jb_state := JFailed, jb_lastError := Some reason, jb_finishedAt := Some now,
       jb_leaseExpiresAt := None \<rparr>"

definition mem_terminate :: "string \<Rightarrow> string \<Rightarrow> 'p mem_queue \<Rightarrow> 'p mem_queue" where
  "mem_terminate jobId reason q = on_job jobId (terminated_job (mq_clock q) reason) q"

definition deferred_job :: "millis \<Rightarrow> string \<Rightarrow> millis \<Rightarrow> 'p job \<Rightarrow> 'p job" where
  "deferred_job now reason deferMs j =
     j\<lparr> jb_state := JQueued, jb_lastError := Some reason, jb_startedAt := None,
       jb_leaseExpiresAt := None, jb_attempts := jb_attempts j - 1,
       jb_deferredUntil := (if deferMs > 0 then Some (now + deferMs) else None) \<rparr>"

definition mem_defer :: "string \<Rightarrow> string \<Rightarrow> millis \<Rightarrow> 'p mem_queue \<Rightarrow> 'p mem_queue" where
  "mem_defer jobId reason deferMs q = on_job jobId (deferred_job (mq_clock q) reason deferMs) q"

definition reaped_job :: "millis \<Rightarrow> 'p job \<Rightarrow> 'p job" where
  "reaped_job now j =
     (if jb_attempts j \<ge> jb_maxAttempts j
      then j\<lparr> jb_state := JFailed, jb_finishedAt := Some now,
             jb_lastError := Some ''lease expired and no attempts remain'',
             jb_leaseExpiresAt := None \<rparr>
      else j\<lparr> jb_state := JQueued, jb_lastError := Some ''lease expired'',
             jb_leaseExpiresAt := None \<rparr>)"

definition lease_lapsed :: "millis \<Rightarrow> 'p job \<Rightarrow> bool" where
  "lease_lapsed now j \<longleftrightarrow>
     jb_state j = JRunning \<and> (case jb_leaseExpiresAt j of None \<Rightarrow> False | Some t \<Rightarrow> \<not> t > now)"

fun reap_scan :: "millis \<Rightarrow> 'p job list \<Rightarrow> nat \<times> 'p job list" where
  "reap_scan now [] = (0, [])"
| "reap_scan now (j # js) =
     (case reap_scan now js of
        (n, js') \<Rightarrow> if lease_lapsed now j then (n + 1, reaped_job now j # js') else (n, j # js'))"

definition mem_reapExpired :: "millis \<Rightarrow> 'p mem_queue \<Rightarrow> nat \<times> 'p mem_queue" where
  "mem_reapExpired now q =
     (case reap_scan now (mq_byId q) of (n, jobs) \<Rightarrow> (n, q\<lparr> mq_byId := jobs \<rparr>))"

definition answers :: "('q \<Rightarrow> 'r \<times> 'q) \<Rightarrow> ('q, 'r) io" where
  "answers f = (\<lambda>q. case f q of (r, q') \<Rightarrow> (Inr r, q'))"

definition mem_port :: "('p mem_queue, 'p) queue_port" where
  "mem_port =
     \<lparr> qp_enqueue = (\<lambda>i. answers (mem_enqueue i)),
       qp_claim = (\<lambda>w l. answers (mem_claim w l)),
       qp_complete = (\<lambda>i. io_modify (mem_complete i)),
       qp_fail = (\<lambda>i r. io_modify (mem_fail i r)),
       qp_terminate = (\<lambda>i r. io_modify (mem_terminate i r)),
       qp_defer = (\<lambda>i r ms. io_modify (mem_defer i r ms)),
       qp_reapExpired = answers (\<lambda>q. mem_reapExpired (mq_clock q) q),
       qp_get = (\<lambda>i. io_get (mem_get i)) \<rparr>"

abbreviation mem_look :: "'p mem_queue \<Rightarrow> string \<Rightarrow> 'p job option" where
  "mem_look q \<equiv> \<lambda>i. mem_get i q"

subsection \<open>The scans\<close>

lemma claim_scan_None:
  "claim_scan now l js = (None, js') \<Longrightarrow> js' = js \<and> (\<forall>j \<in> set js. \<not> claimable now j)"
  by (induction js arbitrary: js') (auto split: prod.splits if_splits)

lemma claim_scan_Some:
  "claim_scan now l js = (Some j', js') \<Longrightarrow>
   \<exists>pre j post. js = pre @ j # post \<and> (\<forall>x \<in> set pre. \<not> claimable now x) \<and> claimable now j \<and>
     j' = claimed now l j \<and> js' = pre @ j' # post"
proof (induction js arbitrary: js')
  case (Cons x xs)
  show ?case
  proof (cases "claimable now x")
    case True
    with Cons.prems have "x # xs = [] @ x # xs \<and> (\<forall>y \<in> set []. \<not> claimable now y) \<and> claimable now x \<and>
        j' = claimed now l x \<and> js' = [] @ j' # xs" by auto
    then show ?thesis by blast
  next
    case False
    with Cons.prems obtain ys where ys: "claim_scan now l xs = (Some j', ys)" "js' = x # ys"
      by (auto split: prod.splits)
    obtain pre j post where "xs = pre @ j # post" "\<forall>y \<in> set pre. \<not> claimable now y" "claimable now j"
      "j' = claimed now l j" "ys = pre @ j' # post"
      using Cons.IH [OF ys(1)] by blast
    with False ys have "x # xs = (x # pre) @ j # post \<and> (\<forall>y \<in> set (x # pre). \<not> claimable now y) \<and>
        claimable now j \<and> j' = claimed now l j \<and> js' = (x # pre) @ j' # post" by simp
    then show ?thesis by blast
  qed
qed simp

lemma reap_scan_eq:
  "reap_scan now js = (length (filter (lease_lapsed now) js),
                       map (\<lambda>j. if lease_lapsed now j then reaped_job now j else j) js)"
  by (induction js) auto

subsection \<open>Reading back\<close>

lemma find_map_other:
  "(\<And>x. x \<in> set xs \<Longrightarrow> P (f x) = P x) \<Longrightarrow> find P (map f xs) = map_option f (find P xs)"
  by (induction xs) auto

lemma mem_get_on_job:
  assumes "\<And>j. jb_id (f j) = jb_id j"
  shows "mem_get k (on_job i f q) = (if k = i then map_option f (mem_get k q) else mem_get k q)"
  unfolding mem_get_def on_job_def by (simp add: find_key_update assms)

lemma mem_get_id: "mem_get i q = Some j \<Longrightarrow> jb_id j = i"
  by (auto simp: mem_get_def dest: find_Some_iff')

lemma mem_get_mem: "mem_get i q = Some j \<Longrightarrow> j \<in> set (mq_byId q)"
  by (auto simp: mem_get_def dest: find_Some_iff')

lemma mem_get_iff:
  "distinct (map jb_id (mq_byId q)) \<Longrightarrow> mem_get i q = Some j \<longleftrightarrow> j \<in> set (mq_byId q) \<and> jb_id j = i"
  unfolding mem_get_def by (rule find_key_iff)

subsection \<open>The invariant\<close>

text \<open>
  What every reachable queue satisfies: a job's attempts never exceed its budget, exactly the
  running jobs hold a lease, a settled job has its finishing time, ids are distinct and drawn
  from the counter, and the key index points each key at the one job that has it.
\<close>

definition job_ok :: "'p job \<Rightarrow> bool" where
  "job_ok j \<longleftrightarrow>
     jb_attempts j \<le> jb_maxAttempts j \<and>
     (jb_leaseExpiresAt j \<noteq> None \<longleftrightarrow> jb_state j = JRunning) \<and>
     (jb_state j = JRunning \<longrightarrow> jb_attempts j > 0 \<and> jb_startedAt j \<noteq> None \<and> jb_deferredUntil j = None) \<and>
     (isJobTerminal (jb_state j) \<longrightarrow> jb_finishedAt j \<noteq> None) \<and>
     jb_state j \<noteq> JCancelled"

definition index_ok :: "'p mem_queue \<Rightarrow> bool" where
  "index_ok q \<longleftrightarrow>
     distinct (map jb_id (mq_byId q)) \<and>
     (\<forall>j \<in> set (mq_byId q). \<exists>n. 0 < n \<and> n \<le> mq_counter q \<and> jb_id j = ''job-'' @ show_nat n) \<and>
     (\<forall>j \<in> set (mq_byId q). map_of (mq_byKey q) (job_key j) = Some (jb_id j)) \<and>
     (\<forall>k i. map_of (mq_byKey q) k = Some i \<longrightarrow> (\<exists>j \<in> set (mq_byId q). jb_id j = i \<and> job_key j = k))"

definition mem_inv :: "'p mem_queue \<Rightarrow> bool" where
  "mem_inv q \<longleftrightarrow> index_ok q \<and> (\<forall>j \<in> set (mq_byId q). job_ok j)"

lemma index_ok_keyD:
  "index_ok q \<Longrightarrow> map_of (mq_byKey q) k = Some i \<Longrightarrow>
   \<exists>j \<in> set (mq_byId q). jb_id j = i \<and> job_key j = k"
  unfolding index_ok_def by blast

lemma same_identity_refl [simp]: "same_identity j j"
  by (simp add: same_identity_def)

lemmas job_update_defs = claimed_def completed_job_def failed_job_def terminated_job_def
  deferred_job_def reaped_job_def

lemma same_identity_updates [simp]:
  "same_identity j (claimed now l j)" "same_identity j (completed_job now j)"
  "same_identity j (failed_job now r j)" "same_identity j (terminated_job now r j)"
  "same_identity j (deferred_job now r ms j)" "same_identity j (reaped_job now j)"
  by (simp_all add: same_identity_def job_update_defs Let_def)

lemma same_identity_key: "same_identity j j' \<Longrightarrow> job_key j' = job_key j \<and> jb_id j' = jb_id j"
  by (simp add: same_identity_def)

text \<open>An update of the jobs in place that keeps their identities keeps the index.\<close>

lemma index_ok_map:
  assumes "index_ok q" and "\<And>j. same_identity j (f j)"
  shows "index_ok (q\<lparr> mq_byId := map f (mq_byId q) \<rparr>)"
proof -
  have ids: "jb_id (f j) = jb_id j" and keys: "job_key (f j) = job_key j" for j
    using assms(2) [of j] by (simp_all add: same_identity_key)
  have "jb_id \<circ> f = jb_id" by (rule ext) (simp add: ids)
  with assms(1) show ?thesis by (simp add: index_ok_def ids keys)
qed

lemma index_ok_on_job:
  assumes "index_ok q" and "\<And>j. same_identity j (f j)"
  shows "index_ok (on_job i f q)"
  unfolding on_job_def by (rule index_ok_map [OF assms(1)]) (simp add: assms(2))

lemma mem_inv_on_job:
  assumes "mem_inv q" "\<And>j. same_identity j (f j)" "\<And>j. job_ok j \<Longrightarrow> job_ok (f j)"
  shows "mem_inv (on_job i f q)"
  using assms index_ok_on_job [of q f i] by (auto simp: mem_inv_def on_job_def)

lemma job_ok_new: "job_ok (new_job i inp now)"
  by (simp add: job_ok_def new_job_def isJobTerminal_def)

lemma job_ok_claimed: "job_ok j \<Longrightarrow> claimable now j \<Longrightarrow> job_ok (claimed now l j)"
  by (auto simp: job_ok_def claimed_def claimable_def isJobTerminal_def)

lemma job_ok_completed: "job_ok j \<Longrightarrow> job_ok (completed_job now j)"
  by (auto simp: job_ok_def completed_job_def)

lemma job_ok_failed: "job_ok j \<Longrightarrow> job_ok (failed_job now r j)"
  by (auto simp: job_ok_def failed_job_def Let_def isJobTerminal_def)

lemma job_ok_terminated: "job_ok j \<Longrightarrow> job_ok (terminated_job now r j)"
  by (auto simp: job_ok_def terminated_job_def)

lemma job_ok_deferred: "job_ok j \<Longrightarrow> job_ok (deferred_job now r ms j)"
  by (auto simp: job_ok_def deferred_job_def isJobTerminal_def)

lemma job_ok_reaped: "job_ok j \<Longrightarrow> job_ok (reaped_job now j)"
  by (auto simp: job_ok_def reaped_job_def isJobTerminal_def)

lemma mem_inv_empty: "mem_inv (empty_queue now)"
  by (simp add: mem_inv_def index_ok_def empty_queue_def)

lemma mem_inv_clock: "mem_inv (q\<lparr> mq_clock := t \<rparr>) \<longleftrightarrow> mem_inv q"
  by (simp add: mem_inv_def index_ok_def)

lemma mem_inv_complete: "mem_inv q \<Longrightarrow> mem_inv (mem_complete i q)"
  unfolding mem_complete_def by (rule mem_inv_on_job) (simp_all add: job_ok_completed)

lemma mem_inv_fail: "mem_inv q \<Longrightarrow> mem_inv (mem_fail i r q)"
  unfolding mem_fail_def by (rule mem_inv_on_job) (simp_all add: job_ok_failed)

lemma mem_inv_terminate: "mem_inv q \<Longrightarrow> mem_inv (mem_terminate i r q)"
  unfolding mem_terminate_def by (rule mem_inv_on_job) (simp_all add: job_ok_terminated)

lemma mem_inv_defer: "mem_inv q \<Longrightarrow> mem_inv (mem_defer i r ms q)"
  unfolding mem_defer_def by (rule mem_inv_on_job) (simp_all add: job_ok_deferred)

lemma mem_inv_reap: "mem_inv q \<Longrightarrow> mem_inv (snd (mem_reapExpired now q))"
proof -
  assume "mem_inv q"
  moreover have "index_ok (q\<lparr> mq_byId := map (\<lambda>j. if lease_lapsed now j then reaped_job now j else j)
      (mq_byId q) \<rparr>)" if "index_ok q"
    by (rule index_ok_map [OF that]) simp
  ultimately show ?thesis
    by (auto simp: mem_inv_def mem_reapExpired_def reap_scan_eq job_ok_reaped)
qed

text \<open>A claim is an update in place of the first claimable job.\<close>

lemma mem_claim_Some:
  assumes "mem_claim w l q = (Some j', q')"
  obtains pre j post where
    "mq_byId q = pre @ j # post" "\<forall>x \<in> set pre. \<not> claimable (mq_clock q) x" "claimable (mq_clock q) j"
    "j' = claimed (mq_clock q) l j" "q' = q\<lparr> mq_byId := pre @ j' # post \<rparr>"
proof -
  obtain js where js: "claim_scan (mq_clock q) l (mq_byId q) = (Some j', js)"
      "q' = q\<lparr> mq_byId := js \<rparr>"
    using assms by (auto simp: mem_claim_def split: prod.splits)
  from claim_scan_Some [OF js(1)] js(2) that show ?thesis by metis
qed

lemma mem_claim_None:
  assumes "mem_claim w l q = (None, q')"
  shows "q' = q \<and> (\<forall>j \<in> set (mq_byId q). \<not> claimable (mq_clock q) j)"
proof -
  obtain js where js: "claim_scan (mq_clock q) l (mq_byId q) = (None, js)" "q' = q\<lparr> mq_byId := js \<rparr>"
    using assms by (auto simp: mem_claim_def split: prod.splits)
  from claim_scan_None [OF js(1)] js(2) show ?thesis by simp
qed

lemma mem_claim_in_place:
  assumes "index_ok q" "mem_claim w l q = (Some j', q')"
  shows "\<exists>j \<in> set (mq_byId q). claimable (mq_clock q) j \<and> j' = claimed (mq_clock q) l j \<and>
           q' = on_job (jb_id j) (claimed (mq_clock q) l) q"
proof -
  obtain pre j post where *: "mq_byId q = pre @ j # post" "claimable (mq_clock q) j"
    "j' = claimed (mq_clock q) l j" "q' = q\<lparr> mq_byId := pre @ j' # post \<rparr>"
    using assms(2) by (rule mem_claim_Some)
  have "distinct (map jb_id (pre @ j # post))" using assms(1) * by (simp add: index_ok_def)
  then have "jb_id x \<noteq> jb_id j" if "x \<in> set pre \<union> set post" for x
    using that by (auto simp: image_iff)
  then have "map (\<lambda>x. if jb_id x = jb_id j then f x else x) pre = pre"
    "map (\<lambda>x. if jb_id x = jb_id j then f x else x) post = post" for f
    by (auto intro!: map_idI)
  then have "q' = on_job (jb_id j) (claimed (mq_clock q) l) q"
    using * by (simp add: on_job_def)
  with * show ?thesis by auto
qed

lemma mem_inv_claim: "mem_inv q \<Longrightarrow> mem_inv (snd (mem_claim w l q))"
proof -
  assume inv: "mem_inv q"
  obtain r q' where c: "mem_claim w l q = (r, q')" by (cases "mem_claim w l q")
  show "mem_inv (snd (mem_claim w l q))"
  proof (cases r)
    case None
    with c inv mem_claim_None [of w l q q'] show ?thesis by simp
  next
    case (Some j')
    from inv have idx: "index_ok q" by (simp add: mem_inv_def)
    obtain j where j: "j \<in> set (mq_byId q)" "claimable (mq_clock q) j"
      "q' = on_job (jb_id j) (claimed (mq_clock q) l) q"
      using mem_claim_in_place [OF idx] c Some by blast
    have "index_ok q'" using idx j(3) by (simp add: index_ok_on_job)
    moreover have "job_ok k" if k: "k \<in> set (mq_byId q')" for k
    proof -
      from k j(3) obtain k0 where k0: "k0 \<in> set (mq_byId q)"
        "k = (if jb_id k0 = jb_id j then claimed (mq_clock q) l k0 else k0)"
        by (auto simp: on_job_def)
      moreover have "k0 = j" if "jb_id k0 = jb_id j"
        using idx k0(1) j(1) that by (auto simp: index_ok_def distinct_map dest: inj_onD)
      ultimately show ?thesis using inv j(2) by (auto simp: mem_inv_def job_ok_claimed)
    qed
    ultimately show ?thesis using c by (simp add: mem_inv_def)
  qed
qed

lemma index_ok_fresh:
  assumes "index_ok q" and "j \<in> set (mq_byId q)"
  shows "jb_id j \<noteq> ''job-'' @ show_nat (mq_counter q + 1)"
proof -
  obtain n where "n \<le> mq_counter q" "jb_id j = ''job-'' @ show_nat n"
    using assms by (auto simp: index_ok_def)
  then show ?thesis by simp
qed

lemma mem_inv_enqueue: "mem_inv q \<Longrightarrow> mem_inv (snd (mem_enqueue i q))"
proof -
  assume inv: "mem_inv q"
  show "mem_inv (snd (mem_enqueue i q))"
  proof (cases "map_of (mq_byKey q) (input_key i)")
    case (Some a)
    with inv show ?thesis by (simp add: mem_enqueue_def)
  next
    case None
    let ?job = "new_job (''job-'' @ show_nat (mq_counter q + 1)) i (mq_clock q)"
    let ?q = "snd (mem_enqueue i q)"
    from inv have idx: "index_ok q" by (simp add: mem_inv_def)
    have q: "?q = q\<lparr> mq_counter := mq_counter q + 1,
        mq_byKey := (input_key i, jb_id ?job) # mq_byKey q, mq_byId := mq_byId q @ [?job] \<rparr>"
      using None by (simp add: mem_enqueue_def Let_def)
    have key: "job_key ?job = input_key i" and id: "jb_id ?job = ''job-'' @ show_nat (mq_counter q + 1)"
      by (simp_all add: new_job_def)
    have other: "job_key j \<noteq> input_key i" if "j \<in> set (mq_byId q)" for j
      using idx that None by (auto simp: index_ok_def)
    have "distinct (map jb_id (mq_byId ?q))"
      using idx index_ok_fresh [OF idx] id by (auto simp: q index_ok_def)
    moreover have "\<forall>j \<in> set (mq_byId ?q). \<exists>n. 0 < n \<and> n \<le> mq_counter ?q \<and> jb_id j = ''job-'' @ show_nat n"
      using idx id by (auto simp: q index_ok_def intro: le_SucI)
    moreover have "\<forall>j \<in> set (mq_byId ?q). map_of (mq_byKey ?q) (job_key j) = Some (jb_id j)"
      using idx other key by (auto simp: q index_ok_def)
    moreover have "\<forall>k a. map_of (mq_byKey ?q) k = Some a \<longrightarrow>
        (\<exists>j \<in> set (mq_byId ?q). jb_id j = a \<and> job_key j = k)"
      using idx key by (auto simp: q index_ok_def)
    ultimately have "index_ok ?q" by (simp add: index_ok_def)
    moreover have "\<forall>j \<in> set (mq_byId ?q). job_ok j"
      using inv job_ok_new by (auto simp: q mem_inv_def)
    ultimately show ?thesis by (simp add: mem_inv_def)
  qed
qed

subsection \<open>The in-memory queue meets the contract\<close>

lemma mem_on_job_effect:
  assumes "mem_get i q = Some j" "\<And>j. same_identity j (f j)"
  shows "mem_get i (on_job i f q) = Some (f j)"
proof -
  have "jb_id (f j) = jb_id j" for j using assms(2) [of j] by (simp add: same_identity_def)
  with assms(1) show ?thesis by (simp add: mem_get_on_job)
qed

lemma mem_on_job_frame:
  assumes "k \<noteq> i" "\<And>j. same_identity j (f j)"
  shows "mem_get k (on_job i f q) = mem_get k q"
proof -
  have "jb_id (f j) = jb_id j" for j using assms(2) [of j] by (simp add: same_identity_def)
  with assms(1) show ?thesis by (simp add: mem_get_on_job)
qed

lemma took_claim_claimed: "claimable now j \<Longrightarrow> took_claim j (claimed now l j)"
  by (simp add: took_claim_def claimable_def) (simp add: claimed_def)

lemma settled_completed: "settled_as JSucceeded None j (completed_job now j)"
  by (simp add: settled_as_def) (simp add: completed_job_def)

lemma settled_terminated: "settled_as JFailed (Some r) j (terminated_job now r j)"
  by (simp add: settled_as_def) (simp add: terminated_job_def)

lemma spent_or_requeued_failed: "spent_or_requeued r j (failed_job now r j)"
  by (simp add: spent_or_requeued_def settled_as_def) (simp add: failed_job_def Let_def)

lemma deferred_from_deferred: "deferred_from r j (deferred_job now r ms j)"
  by (simp add: deferred_from_def) (simp add: deferred_job_def)

lemma mem_claim_takes:
  assumes "mem_inv q" "mem_claim w l q = (Some j', q')"
  shows "\<exists>j. mem_get (jb_id j') q = Some j \<and> took_claim j j' \<and> mem_get (jb_id j') q' = Some j' \<and>
           q' = on_job (jb_id j') (claimed (mq_clock q) l) q"
proof -
  have idx: "index_ok q" using assms(1) by (simp add: mem_inv_def)
  obtain j where j: "j \<in> set (mq_byId q)" "claimable (mq_clock q) j"
    "j' = claimed (mq_clock q) l j" "q' = on_job (jb_id j) (claimed (mq_clock q) l) q"
    using mem_claim_in_place [OF idx assms(2)] by blast
  have id: "jb_id j' = jb_id j" using j(3) by (simp add: claimed_def)
  have get: "mem_get (jb_id j) q = Some j"
    using idx j(1) by (simp add: mem_get_iff index_ok_def)
  with j id mem_on_job_effect [OF get, of "claimed (mq_clock q) l"] took_claim_claimed [OF j(2)]
  show ?thesis by simp
qed

lemmas mem_op_defs = mem_complete_def mem_fail_def mem_terminate_def mem_defer_def

lemma mem_port_sel [simp]:
  "qp_enqueue mem_port inp q = (case mem_enqueue inp q of (j, q') \<Rightarrow> (Inr j, q'))"
  "qp_claim mem_port w l q = (case mem_claim w l q of (j, q') \<Rightarrow> (Inr j, q'))"
  "qp_complete mem_port i q = (Inr (), mem_complete i q)"
  "qp_fail mem_port i r q = (Inr (), mem_fail i r q)"
  "qp_terminate mem_port i r q = (Inr (), mem_terminate i r q)"
  "qp_defer mem_port i r ms q = (Inr (), mem_defer i r ms q)"
  "qp_get mem_port i q = (Inr (mem_get i q), q)"
  by (simp_all add: mem_port_def answers_def io_simps)

lemma mem_effect_on:
  assumes "mem_get i q = Some j" "\<And>j. same_identity j (f j)" "\<And>j. R j (f j)"
  shows "effect_on i R (mem_look q) (Inr ()) (mem_look (on_job i f q))"
proof -
  have "mem_look (on_job i f q) = (mem_look q)(i \<mapsto> f j)"
    using assms mem_on_job_effect [of i q j f] mem_on_job_frame [of _ i f q] by auto
  with assms show ?thesis by (auto simp: effect_on_def)
qed

interpretation mem: reliable_queue mem_port mem_inv mem_look
proof unfold_locales
  fix q q' :: "'a mem_queue" and w l i e r c j j' x ms
  show "mem_inv q \<Longrightarrow> qp_claim mem_port w l q = (c, q') \<Longrightarrow> mem_inv q'"
    using mem_inv_claim [of q w l] by (auto split: prod.splits)
  show "mem_inv q \<Longrightarrow> qp_claim mem_port w l q = (c, q') \<Longrightarrow> c \<in> {Inr None} \<union> range Inl \<Longrightarrow>
      mem_look q' = mem_look q"
    by (auto split: prod.splits dest!: mem_claim_None)
  show "mem_inv q \<Longrightarrow> qp_claim mem_port w l q = (Inr (Some j'), q') \<Longrightarrow>
      \<exists>j. mem_look q (jb_id j') = Some j \<and> took_claim j j' \<and> mem_look q' = (mem_look q)(jb_id j' \<mapsto> j')"
    using mem_claim_takes [of q w l j' q'] mem_on_job_frame [of _ "jb_id j'" "claimed (mq_clock q) l" q]
    by (fastforce split: prod.splits)
  show "mem_inv q \<Longrightarrow> mem_look q i = Some j \<Longrightarrow> qp_complete mem_port i q = (r, q') \<Longrightarrow>
      mem_inv q' \<and> effect_on i (settled_as JSucceeded None) (mem_look q) r (mem_look q')"
    using mem_effect_on [of i q j "completed_job (mq_clock q)" "settled_as JSucceeded None"]
      mem_inv_complete [of q i] settled_completed by (auto simp: mem_complete_def)
  show "mem_inv q \<Longrightarrow> mem_look q i = Some j \<Longrightarrow> qp_fail mem_port i e q = (r, q') \<Longrightarrow>
      mem_inv q' \<and> effect_on i (spent_or_requeued e) (mem_look q) r (mem_look q')"
    using mem_effect_on [of i q j "failed_job (mq_clock q) e" "spent_or_requeued e"]
      mem_inv_fail [of q i e] spent_or_requeued_failed by (auto simp: mem_fail_def)
  show "mem_inv q \<Longrightarrow> mem_look q i = Some j \<Longrightarrow> qp_terminate mem_port i e q = (r, q') \<Longrightarrow>
      mem_inv q' \<and> effect_on i (settled_as JFailed (Some e)) (mem_look q) r (mem_look q')"
    using mem_effect_on [of i q j "terminated_job (mq_clock q) e" "settled_as JFailed (Some e)"]
      mem_inv_terminate [of q i e] settled_terminated by (auto simp: mem_terminate_def)
  show "mem_inv q \<Longrightarrow> mem_look q i = Some j \<Longrightarrow> qp_defer mem_port i e ms q = (r, q') \<Longrightarrow>
      mem_inv q' \<and> effect_on i (deferred_from e) (mem_look q) r (mem_look q')"
    using mem_effect_on [of i q j "deferred_job (mq_clock q) e ms" "deferred_from e"]
      mem_inv_defer [of q i e ms] deferred_from_deferred by (auto simp: mem_defer_def)
qed (auto split: prod.splits)

subsection \<open>Every interleaving\<close>

text \<open>
  One operation of some caller, or the passing of time.  An event names what an observer of
  the queue sees: which job was handed out, which job an operation named.
\<close>

datatype queue_event =
    Enqueued string
  | Claimed string string
  | Idle string
  | Completed string
  | FailedOnce string
  | Terminated string
  | Deferred string
  | Reaped nat
  | Waited nat

inductive queue_step :: "'p mem_queue \<Rightarrow> queue_event \<Rightarrow> 'p mem_queue \<Rightarrow> bool" where
  step_enqueue: "mem_enqueue i q = (j, q') \<Longrightarrow> queue_step q (Enqueued (jb_id j)) q'"
| step_claim: "mem_claim w l q = (Some j, q') \<Longrightarrow> queue_step q (Claimed w (jb_id j)) q'"
| step_idle: "mem_claim w l q = (None, q') \<Longrightarrow> queue_step q (Idle w) q'"
| step_complete: "queue_step q (Completed i) (mem_complete i q)"
| step_fail: "queue_step q (FailedOnce i) (mem_fail i r q)"
| step_terminate: "queue_step q (Terminated i) (mem_terminate i r q)"
| step_defer: "queue_step q (Deferred i) (mem_defer i r ms q)"
| step_reap: "mem_reapExpired now q = (n, q') \<Longrightarrow> queue_step q (Reaped n) q'"
| step_wait: "queue_step q (Waited d) (q\<lparr> mq_clock := mq_clock q + int d \<rparr>)"

inductive_cases queue_stepE: "queue_step q e q'"

inductive queue_run :: "'p mem_queue \<Rightarrow> queue_event list \<Rightarrow> 'p mem_queue \<Rightarrow> bool" where
  run_start: "queue_run q [] q"
| run_step: "queue_run q es q' \<Longrightarrow> queue_step q' e q'' \<Longrightarrow> queue_run q (es @ [e]) q''"

lemma queue_step_inv: "queue_step q e q' \<Longrightarrow> mem_inv q \<Longrightarrow> mem_inv q'"
proof (induction rule: queue_step.induct)
  case (step_enqueue i q j q')
  then show ?case using mem_inv_enqueue [of q i] by simp
next
  case (step_claim w l q j q')
  then show ?case using mem_inv_claim [of q w l] by simp
next
  case (step_idle w l q q')
  then show ?case using mem_inv_claim [of q w l] by simp
next
  case (step_reap now q n q')
  then show ?case using mem_inv_reap [of q now] by simp
qed (simp_all add: mem_inv_complete mem_inv_fail mem_inv_terminate mem_inv_defer mem_inv_clock)

lemma queue_run_inv: "queue_run q es q' \<Longrightarrow> mem_inv q \<Longrightarrow> mem_inv q'"
  by (induction rule: queue_run.induct) (auto dest: queue_step_inv)

text \<open>What one step does to the job of an id, seen through \<open>get\<close>.\<close>

definition claims_of :: "string \<Rightarrow> queue_event list \<Rightarrow> nat" where
  "claims_of i es = length (filter (\<lambda>e. case e of Claimed _ k \<Rightarrow> k = i | _ \<Rightarrow> False) es)"

definition defers_of :: "string \<Rightarrow> queue_event list \<Rightarrow> nat" where
  "defers_of i es = length (filter (\<lambda>e. e = Deferred i) es)"

lemma count_snoc [simp]:
  "claims_of i (es @ [e]) = claims_of i es + (case e of Claimed _ k \<Rightarrow> if k = i then 1 else 0 | _ \<Rightarrow> 0)"
  "defers_of i (es @ [e]) = defers_of i es + (if e = Deferred i then 1 else 0)"
  by (auto simp: claims_of_def defers_of_def split: queue_event.split)

lemma count_Nil [simp]: "claims_of i [] = 0" "defers_of i [] = 0"
  by (simp_all add: claims_of_def defers_of_def)

lemma mem_get_reap:
  "mem_get i (snd (mem_reapExpired now q)) =
     map_option (\<lambda>j. if lease_lapsed now j then reaped_job now j else j) (mem_get i q)"
proof -
  have "jb_id (if lease_lapsed now j then reaped_job now j else j) = jb_id j" for j :: "'a job"
    by (simp add: reaped_job_def)
  then show ?thesis
    by (simp add: mem_get_def mem_reapExpired_def reap_scan_eq find_map_other)
qed

lemma mem_get_enqueue:
  assumes "mem_inv q"
  shows "mem_get i (snd (mem_enqueue inp q)) =
    (if map_of (mq_byKey q) (input_key inp) = None \<and> i = ''job-'' @ show_nat (mq_counter q + 1)
     then Some (new_job i inp (mq_clock q)) else mem_get i q)"
proof -
  have idx: "index_ok q" using assms by (simp add: mem_inv_def)
  have "find (\<lambda>j. jb_id j = i) (js @ [n]) =
      (case find (\<lambda>j. jb_id j = i) js of Some j \<Rightarrow> Some j | None \<Rightarrow> if jb_id n = i then Some n else None)"
    for js and n :: "'a job"
    by (induction js) auto
  moreover have "find (\<lambda>j. jb_id j = ''job-'' @ show_nat (mq_counter q + 1)) (mq_byId q) = None"
    using index_ok_fresh [OF idx] by (auto simp: find_None_iff)
  ultimately show ?thesis
    by (auto simp: mem_get_def mem_enqueue_def Let_def new_job_def split: option.splits)
qed

subsection \<open>One step, seen through \<open>get\<close>\<close>

lemma mem_get_enqueue_old:
  assumes "mem_inv q" "mem_get i q = Some j"
  shows "mem_get i (snd (mem_enqueue inp q)) = Some j"
proof -
  have "jb_id j \<noteq> ''job-'' @ show_nat (mq_counter q + 1)"
    using assms mem_get_mem by (intro index_ok_fresh) (auto simp: mem_inv_def)
  then have "i \<noteq> ''job-'' @ show_nat (mq_counter q + 1)"
    using mem_get_id [OF assms(2)] by simp
  then show ?thesis
    by (simp only: mem_get_enqueue [OF assms(1)] assms(2) simp_thms if_False)
qed

lemma same_identity_trans: "same_identity a b \<Longrightarrow> same_identity b c \<Longrightarrow> same_identity a c"
  by (simp add: same_identity_def)

lemma mem_get_claim:
  assumes "mem_inv q" "mem_claim w l q = (Some j', q')"
  shows "mem_get i q' = (if i = jb_id j' then Some j' else mem_get i q)"
  using mem_claim_takes [OF assms] mem_on_job_frame [of i "jb_id j'" "claimed (mq_clock q) l" q]
  by auto

lemma jb_id_update [simp]:
  "jb_id (claimed now l j) = jb_id j" "jb_id (completed_job now j) = jb_id j"
  "jb_id (failed_job now r j) = jb_id j" "jb_id (terminated_job now r j) = jb_id j"
  "jb_id (deferred_job now r ms j) = jb_id j" "jb_id (reaped_job now j) = jb_id j"
  by (simp_all add: job_update_defs Let_def)

lemma mem_get_op [simp]:
  "mem_get k (mem_complete i q) =
     (if k = i then map_option (completed_job (mq_clock q)) (mem_get k q) else mem_get k q)"
  "mem_get k (mem_fail i r q) =
     (if k = i then map_option (failed_job (mq_clock q) r) (mem_get k q) else mem_get k q)"
  "mem_get k (mem_terminate i r q) =
     (if k = i then map_option (terminated_job (mq_clock q) r) (mem_get k q) else mem_get k q)"
  "mem_get k (mem_defer i r ms q) =
     (if k = i then map_option (deferred_job (mq_clock q) r ms) (mem_get k q) else mem_get k q)"
  by (simp_all add: mem_op_defs mem_get_on_job)

lemma mem_get_clock [simp]: "mem_get k (q\<lparr> mq_clock := t \<rparr>) = mem_get k q"
  by (simp add: mem_get_def)

text \<open>A job never disappears and never changes its identity.\<close>

lemma queue_step_identity:
  assumes "queue_step q e q'" "mem_inv q" "mem_get i q = Some j"
  shows "\<exists>j'. mem_get i q' = Some j' \<and> same_identity j j'"
  using assms
proof (induction rule: queue_step.induct)
  case (step_enqueue inp q j0 q')
  with mem_get_enqueue_old [of q i j inp] show ?case by simp
next
  case (step_claim w l q j0 q')
  with mem_claim_takes [of q w l j0 q'] show ?case
    by (auto simp: mem_get_claim took_claim_def)
next
  case (step_reap now q n q')
  with mem_get_reap [of i now q] show ?case by simp
qed (auto dest!: mem_claim_None)

lemma queue_run_identity:
  assumes "queue_run q es q'" "mem_inv q" "mem_get i q = Some j"
  shows "\<exists>j'. mem_get i q' = Some j' \<and> same_identity j j'"
  using assms
proof (induction rule: queue_run.induct)
  case (run_step q es q' e q'')
  then obtain j' where j': "mem_get i q' = Some j'" "same_identity j j'" by blast
  have "mem_inv q'" using run_step queue_run_inv by blast
  with j' run_step.hyps(2) obtain j'' where "mem_get i q'' = Some j''" "same_identity j' j''"
    using queue_step_identity by blast
  with j'(2) same_identity_trans show ?case by blast
qed simp

text \<open>Attempts pay for claims; only a deferral of the job gives one back.\<close>

definition attempts_of :: "string \<Rightarrow> 'p mem_queue \<Rightarrow> nat" where
  "attempts_of i q = (case mem_get i q of None \<Rightarrow> 0 | Some j \<Rightarrow> jb_attempts j)"

lemma jb_attempts_update [simp]:
  "jb_attempts (claimed now l j) = jb_attempts j + 1"
  "jb_attempts (completed_job now j) = jb_attempts j"
  "jb_attempts (failed_job now r j) = jb_attempts j"
  "jb_attempts (terminated_job now r j) = jb_attempts j"
  "jb_attempts (deferred_job now r ms j) = jb_attempts j - 1"
  "jb_attempts (reaped_job now j) = jb_attempts j"
  by (simp_all add: job_update_defs Let_def)

lemma queue_step_attempts:
  assumes "queue_step q e q'" "mem_inv q"
  shows "attempts_of i q + claims_of i [e] \<le> attempts_of i q' + defers_of i [e]"
  using assms
proof (induction rule: queue_step.induct)
  case (step_enqueue inp q j0 q')
  have "attempts_of i q \<le> attempts_of i q'"
  proof (cases "mem_get i q")
    case (Some j)
    with mem_get_enqueue_old [of q i j inp] step_enqueue show ?thesis by (simp add: attempts_of_def)
  qed (simp add: attempts_of_def)
  then show ?case by (simp add: claims_of_def)
next
  case (step_claim w l q j0 q')
  with mem_claim_takes [of q w l j0 q'] show ?case
    by (auto simp: mem_get_claim took_claim_def attempts_of_def claims_of_def defers_of_def)
next
  case (step_idle w l q q')
  then show ?case by (auto dest!: mem_claim_None simp: claims_of_def)
next
  case (step_reap now q n q')
  with mem_get_reap [of i now q] show ?case
    by (auto simp: attempts_of_def claims_of_def split: option.splits)
qed (auto simp: attempts_of_def claims_of_def defers_of_def split: option.splits)

lemma queue_run_attempts:
  assumes "queue_run q es q'" "mem_inv q"
  shows "attempts_of i q + claims_of i es \<le> attempts_of i q' + defers_of i es"
  using assms
proof (induction rule: queue_run.induct)
  case (run_step q es q' e q'')
  have "claims_of i (es @ [e]) = claims_of i es + claims_of i [e]"
    "defers_of i (es @ [e]) = defers_of i es + defers_of i [e]"
    by (simp_all add: claims_of_def defers_of_def)
  moreover have "attempts_of i q' + claims_of i [e] \<le> attempts_of i q'' + defers_of i [e]"
    using run_step queue_run_inv queue_step_attempts by blast
  ultimately show ?case using run_step by simp
qed simp

subsection \<open>What the queue guarantees\<close>

text \<open>
  In every state any interleaving of operations can reach, no job's attempts exceed its
  budget, exactly the running jobs hold a lease, a settled job has its finishing time, and two
  jobs of the same organization, kind and idempotency key are one job.
\<close>

theorem queue_reachable_ok:
  assumes "queue_run (empty_queue t) es q" and "mem_get i q = Some j"
  shows "jb_attempts j \<le> jb_maxAttempts j \<and>
         (jb_leaseExpiresAt j \<noteq> None \<longleftrightarrow> jb_state j = JRunning) \<and>
         (isJobTerminal (jb_state j) \<longrightarrow> jb_finishedAt j \<noteq> None) \<and>
         (\<forall>k j'. mem_get k q = Some j' \<and> jb_organizationId j' = jb_organizationId j \<and>
            jb_kind j' = jb_kind j \<and> jb_idempotencyKey j' = jb_idempotencyKey j \<longrightarrow> k = i)"
proof -
  have inv: "mem_inv q" using assms(1) queue_run_inv mem_inv_empty by blast
  have ok: "job_ok j" using inv assms(2) mem_get_mem by (auto simp: mem_inv_def)
  have key: "map_of (mq_byKey q) (job_key j) = Some (jb_id j)"
    if "mem_get i q = Some j" for i j
    using inv mem_get_mem [OF that] by (simp add: mem_inv_def index_ok_def)
  have "k = i" if "mem_get k q = Some j'" "jb_organizationId j' = jb_organizationId j"
      "jb_kind j' = jb_kind j" "jb_idempotencyKey j' = jb_idempotencyKey j" for k j'
    using key [OF that(1)] key [OF assms(2)] that mem_get_id [OF that(1)] mem_get_id [OF assms(2)]
    by simp
  with ok show ?thesis by (auto simp: job_ok_def)
qed

text \<open>
  C4. The retry budget bounds the claims: over any run, the number of times a job was handed to
  a worker is at most its budget plus the number of deferrals of it, so only a deferral (an
  engine still working) lets a job be claimed more often than its budget.
\<close>

theorem queue_retry_budget:
  assumes "queue_run (empty_queue t) es q" and "mem_get i q = Some j"
  shows "claims_of i es \<le> jb_maxAttempts j + defers_of i es"
proof -
  from queue_run_attempts [OF assms(1) mem_inv_empty, of i]
  have "claims_of i es \<le> attempts_of i q + defers_of i es" by simp
  moreover have "attempts_of i q \<le> jb_maxAttempts j"
    using queue_run_inv [OF assms(1) mem_inv_empty] assms(2) mem_get_mem
    by (auto simp: attempts_of_def mem_inv_def job_ok_def)
  ultimately show ?thesis by linarith
qed

lemma jb_state_update [simp]:
  "jb_state (claimed now l j) = JRunning" "jb_state (completed_job now j) = JSucceeded"
  "jb_state (terminated_job now r j) = JFailed" "jb_state (deferred_job now r ms j) = JQueued"
  "jb_state (failed_job now r j) \<in> {JFailed, JQueued}" "jb_state (reaped_job now j) \<in> {JFailed, JQueued}"
  by (simp_all add: job_update_defs Let_def)

lemma jb_state_not_succeeded [simp]:
  "jb_state (failed_job now r j) \<noteq> JSucceeded" "jb_state (reaped_job now j) \<noteq> JSucceeded"
  "jb_state (failed_job now r j) \<noteq> JRunning" "jb_state (reaped_job now j) \<noteq> JRunning"
  by (simp_all add: job_update_defs Let_def)

lemma queue_step_succeeded:
  assumes "queue_step q e q'" "mem_inv q" "mem_get i q' = Some j'" "jb_state j' = JSucceeded"
  shows "e = Completed i \<or> (\<exists>j. mem_get i q = Some j \<and> jb_state j = JSucceeded)"
  using assms
proof (induction rule: queue_step.induct)
  case (step_enqueue inp q j0 q')
  then have "mem_get i q' = mem_get i q \<or> (\<exists>k. mem_get i q' = Some (new_job k inp (mq_clock q)))"
    using mem_get_enqueue [of q i inp] by (auto split: if_splits)
  with step_enqueue.prems show ?case by (auto simp: new_job_def intro!: exI [of _ j'])
next
  case (step_claim w l q j0 q')
  with mem_claim_takes [of q w l j0 q'] show ?case
    by (auto simp: mem_get_claim took_claim_def split: if_splits)
next
  case (step_reap now q n q')
  with mem_get_reap [of i now q] show ?case by (cases "mem_get i q") (auto split: if_splits)
qed (auto dest!: mem_claim_None split: if_splits)

text \<open>
  An honest terminal state: a job is \<open>succeeded\<close> only if \<open>complete\<close> was called for it.
\<close>

theorem queue_only_complete_succeeds:
  assumes "queue_run (empty_queue t) es q" and "mem_get i q = Some j" and "jb_state j = JSucceeded"
  shows "Completed i \<in> set es"
proof -
  have "queue_run q0 es q \<Longrightarrow> mem_inv q0 \<Longrightarrow> mem_get i q = Some j \<Longrightarrow> jb_state j = JSucceeded \<Longrightarrow>
      Completed i \<in> set es \<or> (\<exists>j. mem_get i q0 = Some j \<and> jb_state j = JSucceeded)" for q0
  proof (induction arbitrary: j rule: queue_run.induct)
    case (run_step q es q' e q'')
    have "mem_inv q'" using run_step queue_run_inv by blast
    then show ?case using run_step queue_step_succeeded by fastforce
  qed auto
  from this [OF assms(1) mem_inv_empty assms(2,3)] show ?thesis
    by (auto simp: mem_get_def empty_queue_def)
qed

text \<open>The events that take a running job away from the worker that claimed it.\<close>

definition releases :: "string \<Rightarrow> queue_event \<Rightarrow> bool" where
  "releases i e \<longleftrightarrow>
     e \<in> {Completed i, FailedOnce i, Terminated i, Deferred i} \<or> (\<exists>n > 0. e = Reaped n)"

lemma queue_step_running:
  assumes "queue_step q e q'" "mem_inv q" "\<not> releases i e" "mem_get i q = Some j" "jb_state j = JRunning"
  shows "mem_get i q' = Some j \<and> (\<forall>w. e \<noteq> Claimed w i)"
  using assms
proof (induction rule: queue_step.induct)
  case (step_enqueue inp q j0 q')
  with mem_get_enqueue_old [of q i j inp] show ?case by simp
next
  case (step_claim w l q j0 q')
  with mem_claim_takes [of q w l j0 q'] show ?case
    by (auto simp: mem_get_claim took_claim_def)
next
  case (step_reap now q n q')
  then have "n = 0" by (auto simp: releases_def)
  with step_reap have "\<forall>j \<in> set (mq_byId q). \<not> lease_lapsed now j"
    by (simp add: mem_reapExpired_def reap_scan_eq filter_empty_conv)
  then have "map (\<lambda>j. if lease_lapsed now j then reaped_job now j else j) (mq_byId q) = mq_byId q"
    by (intro map_idI) simp
  with step_reap have "q' = q" by (auto simp: mem_reapExpired_def reap_scan_eq)
  with step_reap show ?case by simp
qed (auto simp: releases_def dest!: mem_claim_None)


text \<open>
  Enqueuing is idempotent for good: once a command was accepted, enqueuing the same
  organization, kind and key again, after any events and with any payload, changes nothing and
  returns the job that was created, with its original payload and budget.
\<close>

theorem queue_enqueue_idempotent:
  assumes "queue_run (empty_queue t) es0 q0" and "mem_enqueue inp q0 = (j, q1)"
    and "queue_run q1 es q"
    and same: "ei_organizationId inp' = ei_organizationId inp" "ei_kind inp' = ei_kind inp"
      "ei_idempotencyKey inp' = ei_idempotencyKey inp"
  shows "\<exists>j'. mem_enqueue inp' q = (j', q) \<and> same_identity j j'"
proof -
  have inv0: "mem_inv q0" using assms(1) queue_run_inv mem_inv_empty by blast
  have inv1: "mem_inv q1" using mem_inv_enqueue [OF inv0, of inp] assms(2) by simp
  have inv: "mem_inv q" using inv1 assms(3) queue_run_inv by blast
  have got: "mem_get (jb_id j) q1 = Some j \<and> job_key j = input_key inp"
  proof (cases "map_of (mq_byKey q0) (input_key inp)")
    case (Some i)
    then obtain j0 where j0: "j0 \<in> set (mq_byId q0)" "jb_id j0 = i" "job_key j0 = input_key inp"
      using inv0 index_ok_keyD [of q0 "input_key inp" i] by (auto simp: mem_inv_def)
    then have "mem_get i q0 = Some j0"
      using inv0 by (simp add: mem_get_iff mem_inv_def index_ok_def)
    with Some j0 assms(2) show ?thesis by (auto simp: mem_enqueue_def)
  next
    case None
    then have "j = new_job (''job-'' @ show_nat (mq_counter q0 + 1)) inp (mq_clock q0)"
      using assms(2) by (simp add: mem_enqueue_def Let_def)
    with None assms(2) mem_get_enqueue [OF inv0, of "jb_id j" inp] show ?thesis
      by (simp add: new_job_def)
  qed
  then obtain j' where j': "mem_get (jb_id j) q = Some j'" "same_identity j j'"
    using queue_run_identity [OF assms(3) inv1] by blast
  have "map_of (mq_byKey q) (job_key j') = Some (jb_id j')"
    using inv mem_get_mem [OF j'(1)] by (simp add: mem_inv_def index_ok_def)
  moreover have "job_key j' = input_key inp'" "jb_id j' = jb_id j"
    using got j'(2) same same_identity_key [of j j'] by simp_all
  ultimately have "mem_enqueue inp' q = (j', q)"
    using j'(1) by (simp add: mem_enqueue_def)
  with j'(2) show ?thesis by blast
qed

text \<open>
  A crashed worker wedges nothing: the reaper takes back exactly the running jobs whose
  lease has lapsed, each becomes claimable again if attempts remain and fails with a reason
  otherwise, and every other job is left alone.
\<close>

theorem queue_reaper_recovers:
  assumes "queue_run (empty_queue t) es q" and "mem_get i q = Some j"
  shows "\<exists>j'. mem_get i (snd (mem_reapExpired now q)) = Some j' \<and>
           \<not> lease_lapsed now j' \<and>
           (if lease_lapsed now j
            then same_identity j j' \<and> jb_attempts j' = jb_attempts j \<and>
                 (if jb_attempts j < jb_maxAttempts j then claimable now j'
                  else jb_state j' = JFailed \<and>
                       jb_lastError j' = Some ''lease expired and no attempts remain'')
            else j' = j)"
proof -
  have inv: "mem_inv q" using assms(1) queue_run_inv mem_inv_empty by blast
  then have ok: "job_ok j" using assms(2) mem_get_mem by (auto simp: mem_inv_def)
  let ?j' = "if lease_lapsed now j then reaped_job now j else j"
  have "mem_get i (snd (mem_reapExpired now q)) = Some ?j'"
    using assms(2) by (simp add: mem_get_reap)
  moreover have "\<not> lease_lapsed now ?j'"
    by (simp add: lease_lapsed_def reaped_job_def)
  moreover have "claimable now (reaped_job now j)" if "lease_lapsed now j" "jb_attempts j < jb_maxAttempts j"
    using that ok by (auto simp: claimable_def reaped_job_def lease_lapsed_def job_ok_def)
  moreover have "jb_attempts j \<ge> jb_maxAttempts j \<Longrightarrow> jb_state (reaped_job now j) = JFailed \<and>
      jb_lastError (reaped_job now j) = Some ''lease expired and no attempts remain''"
    by (simp add: reaped_job_def)
  ultimately show ?thesis by auto
qed

lemma claim_scan_fst:
  "fst (claim_scan now l js) = map_option (claimed now l) (find (claimable now) js)"
  by (induction js) (auto split: prod.splits)

text \<open>
  A claim hands out the first claimable job in the order of enqueuing, and fails to find one
  only when no job is claimable.
\<close>

theorem queue_claims_first_eligible:
  "fst (mem_claim w l q) =
     map_option (claimed (mq_clock q) l) (find (claimable (mq_clock q)) (mq_byId q))"
  by (simp add: mem_claim_def claim_scan_fst [symmetric] split: prod.splits)

subsection \<open>A concrete run\<close>

definition sample_input :: "nat enqueue_input" where
  "sample_input = \<lparr> ei_organizationId = ''o'', ei_kind = ''k'', ei_payload = 7,
                    ei_idempotencyKey = ''x'', ei_maxAttempts = Some 1 \<rparr>"

definition sample_q1 :: "nat mem_queue" where
  "sample_q1 = snd (mem_enqueue sample_input (empty_queue 0))"

definition sample_q2 :: "nat mem_queue" where
  "sample_q2 = snd (mem_claim ''w'' 10 sample_q1)"

definition sample_q3 :: "nat mem_queue" where
  "sample_q3 = mem_complete ''job-1'' sample_q2"

definition sample_job :: "nat job" where
  "sample_job = the (mem_get ''job-1'' sample_q2)"

lemma sample_enqueue: "mem_enqueue sample_input (empty_queue 0) = (the (mem_get ''job-1'' sample_q1), sample_q1)"
  by code_simp

lemma sample_claim: "mem_claim ''w'' 10 sample_q1 = (Some sample_job, sample_q2)"
  by code_simp

lemma sample_ids: "jb_id (the (mem_get ''job-1'' sample_q1)) = ''job-1''" "jb_id sample_job = ''job-1''"
  by code_simp+

lemma sample_run1: "queue_run (empty_queue 0) [Enqueued ''job-1''] sample_q1"
  using run_step [OF run_start step_enqueue [OF sample_enqueue]] by (simp add: sample_ids)

lemma sample_run2: "queue_run (empty_queue 0) [Enqueued ''job-1'', Claimed ''w'' ''job-1''] sample_q2"
  using run_step [OF sample_run1 step_claim [OF sample_claim]] by (simp add: sample_ids)

lemma sample_run3:
  "queue_run (empty_queue 0) [Enqueued ''job-1'', Claimed ''w'' ''job-1'', Completed ''job-1''] sample_q3"
  using run_step [OF sample_run2 step_complete [of _ "''job-1''"]] by (simp add: sample_q3_def)

lemma sample_get2: "mem_get ''job-1'' sample_q2 = Some sample_job"
  by code_simp

lemma sample_get3: "mem_get ''job-1'' sample_q3 = Some (completed_job 0 sample_job)"
  by code_simp

theorem queue_reachable_ok_witness: "jb_attempts sample_job \<le> jb_maxAttempts sample_job"
  using queue_reachable_ok [OF sample_run2 sample_get2] by simp

theorem queue_retry_budget_witness:
  "claims_of ''job-1'' [Enqueued ''job-1'', Claimed ''w'' ''job-1''] \<le> jb_maxAttempts sample_job + 0"
  using queue_retry_budget [OF sample_run2 sample_get2] by (simp add: defers_of_def)

theorem queue_only_complete_succeeds_witness:
  "Completed ''job-1'' \<in> set [Enqueued ''job-1'', Claimed ''w'' ''job-1'', Completed ''job-1'']"
  using queue_only_complete_succeeds [OF sample_run3 sample_get3] by simp


theorem queue_enqueue_idempotent_witness:
  "\<exists>j'. mem_enqueue (sample_input\<lparr> ei_payload := 9 \<rparr>) sample_q1 = (j', sample_q1) \<and>
        same_identity (the (mem_get ''job-1'' sample_q1)) j'"
  using queue_enqueue_idempotent [OF run_start sample_enqueue run_start, of "sample_input\<lparr> ei_payload := 9 \<rparr>"]
  by simp

theorem queue_reaper_recovers_witness:
  "\<exists>j'. mem_get ''job-1'' (snd (mem_reapExpired 10 sample_q2)) = Some j' \<and> jb_state j' = JFailed"
proof -
  have "lease_lapsed 10 sample_job" "\<not> jb_attempts sample_job < jb_maxAttempts sample_job"
    by code_simp+
  then show ?thesis using queue_reaper_recovers [OF sample_run2 sample_get2, of 10] by auto
qed

end
