(* ===== verification/Worker_Processor.thy ===== *)
theory Worker_Processor
  imports Job_Queue
begin

section \<open>apps/worker/processor.ts and applier.ts: the worker loop\<close>

text \<open>
  \<open>InProcessWorker\<close>: claim a job, run the handler of its kind, write the job's state as the
  handler's answer requires, then mirror the outcome with the applier.  The world is a pair of
  the queue's state and the environment the handlers and the applier act on; \<open>Date.now()\<close>
  reads the environment's clock.  The log lines are not modelled.  The client lemmas are proved
  in the locale of the queue's contract and used at its interpretations.
\<close>

record job_outcome =
  jo_jobId :: string
  jo_kind :: string
  jo_status :: engine_status
  jo_applied :: bool
  jo_reason :: "string option"

record job_context =
  jc_organizationId :: string
  jc_idempotencyKey :: string
  jc_timeoutMs :: millis

type_synonym ('e, 'p, 'v) job_handler = "'p \<Rightarrow> job_context \<Rightarrow> ('e, 'v adapter_result) io"
type_synonym ('e, 'p, 'v) job_outcome_writer = "'p job \<Rightarrow> 'v adapter_result \<Rightarrow> ('e, unit) io"

definition DEFAULT_POLL_BACKOFF_MS :: millis where
  "DEFAULT_POLL_BACKOFF_MS = 10000"

definition DEFAULT_POLL_CEILING_MS :: millis where
  "DEFAULT_POLL_CEILING_MS = 60 * 60000"

record ('q, 'e, 'p, 'v) worker_options =
  wo_queue :: "('q, 'p) queue_port"
  wo_handlers :: "(string \<times> ('e, 'p, 'v) job_handler) list"
  wo_workerId :: string
  wo_leaseMs :: "millis option"
  wo_defaultTimeoutMs :: "millis option"
  wo_pollBackoffMs :: "millis option"
  wo_pollCeilingMs :: "millis option"
  wo_apply :: "('e, 'p, 'v) job_outcome_writer option"
  wo_now :: "'e \<Rightarrow> millis"

subsection \<open>applier.ts\<close>

fun buildApplier :: "('e, 'p, 'v) job_outcome_writer list \<Rightarrow> ('e, 'p, 'v) job_outcome_writer" where
  "buildApplier [] job result = io_return ()"
| "buildApplier (ap # aps) job result = io_then (ap job result) (buildApplier aps job result)"

subsection \<open>tick\<close>

text \<open>\<open>Math.round(ms / 60000)\<close>, rounding halves up.\<close>

definition round_minutes :: "millis \<Rightarrow> int" where
  "round_minutes ms = (2 * ms + 60000) div 120000"

definition settle ::
  "('q, 'e, 'p, 'v) worker_options \<Rightarrow> 'p job \<Rightarrow> job_outcome \<Rightarrow> 'v adapter_result \<Rightarrow>
   ('q \<times> 'e, job_outcome option) io" where
  "settle opts job outcome result =
     (case wo_apply opts of
        None \<Rightarrow> io_return (Some outcome)
      | Some ap \<Rightarrow>
          io_then (on_snd (io_catch (ap job result) (\<lambda>_. io_return ())))
            (io_return (Some outcome)))"

definition outcome_of :: "'p job \<Rightarrow> engine_status \<Rightarrow> bool \<Rightarrow> string option \<Rightarrow> job_outcome" where
  "outcome_of job status isApplied reason =
     \<lparr> jo_jobId = jb_id job, jo_kind = jb_kind job, jo_status = status, jo_applied = isApplied,
       jo_reason = reason \<rparr>"

definition no_handler_reason :: "string \<Rightarrow> string" where
  "no_handler_reason kind = ''No handler registered for kind '' @ [CHR 0x27] @ kind @ [CHR 0x27] @ ''.''"

definition ceiling_reason :: "engine_status \<Rightarrow> millis \<Rightarrow> string" where
  "ceiling_reason status ceilingMs =
     ''The engine still reports this build '' @ status_name status @ '' after '' @
     show_int (round_minutes ceilingMs) @ '' minutes; it is not being worked on.''"

fun result_reason :: "'v adapter_result \<Rightarrow> string" where
  "result_reason (AOk status _) = ''Adapter returned '' @ status_name status @ ''.''"
| "result_reason (AErr _ reason) = reason"

text \<open>What \<open>tick\<close> does with the answer of a handler that returned.\<close>

definition act_on ::
  "('q, 'e, 'p, 'v) worker_options \<Rightarrow> 'p job \<Rightarrow> 'v adapter_result \<Rightarrow>
   ('q \<times> 'e, job_outcome option) io" where
  "act_on opts job result =
     (let port = wo_queue opts; status = result_status result; reason = result_reason result in
      if result_ok result \<and> status = Succeeded
      then io_then (on_fst (qp_complete port (jb_id job)))
             (settle opts job (outcome_of job status True None) result)
      else if status = Running \<or> status = Pending
      then io_bind (io_get (\<lambda>(q, e). wo_now opts e)) (\<lambda>now.
             let ceilingMs = or_else (wo_pollCeilingMs opts) DEFAULT_POLL_CEILING_MS;
                 ageMs = now - jb_createdAt job
             in if ageMs \<ge> ceilingMs
                then (let ceilingReason = ceiling_reason status ceilingMs in
                      io_then (on_fst (qp_terminate port (jb_id job) ceilingReason))
                        (settle opts job (outcome_of job status False (Some ceilingReason))
                          (AErr status ceilingReason)))
                else io_then
                       (on_fst (qp_defer port (jb_id job) reason
                         (or_else (wo_pollBackoffMs opts) DEFAULT_POLL_BACKOFF_MS)))
                       (settle opts job (outcome_of job status False None) result))
      else if status = NotConfigured \<or> status = Degraded
      then io_then (on_fst (qp_terminate port (jb_id job) reason))
             (settle opts job (outcome_of job status False (Some reason)) result)
      else io_then (on_fst (qp_fail port (jb_id job) reason))
             (settle opts job (outcome_of job status False (Some reason)) result))"

definition handler_context :: "('q, 'e, 'p, 'v) worker_options \<Rightarrow> 'p job \<Rightarrow> job_context" where
  "handler_context opts job =
     \<lparr> jc_organizationId = jb_organizationId job, jc_idempotencyKey = jb_idempotencyKey job,
       jc_timeoutMs = or_else (wo_defaultTimeoutMs opts) 30000 \<rparr>"

definition tick :: "('q, 'e, 'p, 'v) worker_options \<Rightarrow> ('q \<times> 'e, job_outcome option) io" where
  "tick opts =
     io_bind (on_fst (qp_claim (wo_queue opts) (wo_workerId opts) (or_else (wo_leaseMs opts) 60000)))
       (\<lambda>found. case found of
          None \<Rightarrow> io_return None
        | Some job \<Rightarrow>
            (case map_of (wo_handlers opts) (jb_kind job) of
               None \<Rightarrow>
                 (let reason = no_handler_reason (jb_kind job) in
                  io_then (on_fst (qp_terminate (wo_queue opts) (jb_id job) reason))
                    (settle opts job (outcome_of job NotConfigured False (Some reason))
                      (AErr NotConfigured reason)))
             | Some handler \<Rightarrow>
                 io_bind (io_attempt (on_snd (handler (jb_payload job) (handler_context opts job))))
                   (\<lambda>answer. case answer of
                      Inl reason \<Rightarrow>
                        io_then (on_fst (qp_fail (wo_queue opts) (jb_id job) reason))
                          (settle opts job (outcome_of job Failed False (Some reason)) (AErr Failed reason))
                    | Inr result \<Rightarrow> act_on opts job result)))"

fun drain :: "('q, 'e, 'p, 'v) worker_options \<Rightarrow> nat \<Rightarrow> ('q \<times> 'e, job_outcome list) io" where
  "drain opts 0 = io_return []"
| "drain opts (Suc n) =
     io_bind (tick opts) (\<lambda>found. case found of
        None \<Rightarrow> io_return []
      | Some outcome \<Rightarrow>
          io_bind (drain opts n) (\<lambda>outcomes. io_return (outcome # outcomes)))"

definition jobStateFor :: "job_outcome \<Rightarrow> job_state \<Rightarrow> job_state" where
  "jobStateFor outcome queueState = (if jo_applied outcome then JSucceeded else queueState)"

subsection \<open>The specification of a tick\<close>

text \<open>
  What a handler's answer means for the job: it was carried out, the engine is still at it, the
  attempt failed, or retrying cannot help.
\<close>

datatype verdict = Applied | InFlight string | Retry string | GiveUp string

definition answer_verdict :: "('q, 'e, 'p, 'v) worker_options \<Rightarrow> 'p job \<Rightarrow> 'v adapter_result \<Rightarrow> 'e \<Rightarrow> verdict" where
  "answer_verdict opts job result e =
     (case result of
        AOk Succeeded _ \<Rightarrow> Applied
      | _ \<Rightarrow>
          (if result_status result \<in> {Running, Pending}
           then if wo_now opts e - jb_createdAt job
                     < or_else (wo_pollCeilingMs opts) DEFAULT_POLL_CEILING_MS
                then InFlight (result_reason result)
                else GiveUp (ceiling_reason (result_status result)
                       (or_else (wo_pollCeilingMs opts) DEFAULT_POLL_CEILING_MS))
           else if result_status result \<in> {NotConfigured, Degraded}
           then GiveUp (result_reason result)
           else Retry (result_reason result)))"

definition verdict_of :: "('q, 'e, 'p, 'v) worker_options \<Rightarrow> 'p job \<Rightarrow> 'e \<Rightarrow> verdict" where
  "verdict_of opts job e =
     (case map_of (wo_handlers opts) (jb_kind job) of
        None \<Rightarrow> GiveUp (no_handler_reason (jb_kind job))
      | Some handler \<Rightarrow>
          (case handler (jb_payload job) (handler_context opts job) e of
             (Inl reason, _) \<Rightarrow> Retry reason
           | (Inr result, e') \<Rightarrow> answer_verdict opts job result e'))"

fun job_after :: "verdict \<Rightarrow> 'p job \<Rightarrow> 'p job \<Rightarrow> bool" where
  "job_after Applied j j' = settled_as JSucceeded None j j'"
| "job_after (InFlight reason) j j' = deferred_from reason j j'"
| "job_after (Retry reason) j j' = spent_or_requeued reason j j'"
| "job_after (GiveUp reason) j j' = settled_as JFailed (Some reason) j j'"

fun port_after :: "('q, 'p) queue_port \<Rightarrow> millis \<Rightarrow> verdict \<Rightarrow> string \<Rightarrow> ('q, unit) io" where
  "port_after port ms Applied i = qp_complete port i"
| "port_after port ms (InFlight reason) i = qp_defer port i reason ms"
| "port_after port ms (Retry reason) i = qp_fail port i reason"
| "port_after port ms (GiveUp reason) i = qp_terminate port i reason"

abbreviation backoff_ms :: "('q, 'e, 'p, 'v) worker_options \<Rightarrow> millis" where
  "backoff_ms opts \<equiv> or_else (wo_pollBackoffMs opts) DEFAULT_POLL_BACKOFF_MS"

abbreviation lease_ms :: "('q, 'e, 'p, 'v) worker_options \<Rightarrow> millis" where
  "lease_ms opts \<equiv> or_else (wo_leaseMs opts) 60000"

lemma outcome_of_sel [simp]:
  "jo_jobId (outcome_of job st b r) = jb_id job" "jo_kind (outcome_of job st b r) = jb_kind job"
  "jo_status (outcome_of job st b r) = st" "jo_applied (outcome_of job st b r) = b"
  "jo_reason (outcome_of job st b r) = r"
  by (simp_all add: outcome_of_def)

lemma settle_eq: "\<exists>e'. settle opts job outc result (q, e) = (Inr (Some outc), (q, e'))"
  by (auto simp: settle_def io_simps split: option.split prod.split sum.split)

text \<open>
  The shape of a tick that claimed a job: the queue operation of the verdict, then the applier;
  when the operation rejects, the tick rejects with it.
\<close>

definition acts_by :: "('q, unit) io \<Rightarrow> job_outcome \<Rightarrow> 'q \<Rightarrow> (string + job_outcome option) \<times> ('q \<times> 'e) \<Rightarrow> bool" where
  "acts_by op outc q res \<longleftrightarrow>
     (case op q of
        (Inl err, q') \<Rightarrow> (\<exists>e'. res = (Inl err, (q', e')))
      | (Inr _, q') \<Rightarrow> (\<exists>e'. res = (Inr (Some outc), (q', e'))))"

lemma acts_by_settle: "acts_by op outc q (io_then (on_fst op) (settle opts job outc result) (q, e))"
  using settle_eq [of opts job outc result]
  by (auto simp: acts_by_def io_simps split: prod.split sum.split)

lemma act_on_eq:
  "\<exists>st r. acts_by (port_after (wo_queue opts) (backoff_ms opts) (answer_verdict opts job result e) (jb_id job))
     (outcome_of job st (answer_verdict opts job result e = Applied) r) q (act_on opts job result (q, e))"
proof (cases result)
  case (AOk st v)
  then show ?thesis
    by (cases st) (auto simp: act_on_def answer_verdict_def Let_def io_bind_apply io_get_apply
                        intro!: exI acts_by_settle)
next
  case (AErr st r)
  then show ?thesis
    by (cases st) (auto simp: act_on_def answer_verdict_def Let_def io_bind_apply io_get_apply
                        intro!: exI acts_by_settle)
qed

text \<open>A tick claims and then performs exactly the queue operation of the verdict.\<close>

lemma tick_eq:
  assumes "qp_claim (wo_queue opts) (wo_workerId opts) (lease_ms opts) q = (Inr (Some job), q1)"
  shows "\<exists>st r. acts_by (port_after (wo_queue opts) (backoff_ms opts) (verdict_of opts job e) (jb_id job))
     (outcome_of job st (verdict_of opts job e = Applied) r) q1 (tick opts (q, e))"
proof (cases "map_of (wo_handlers opts) (jb_kind job)")
  case None
  with assms show ?thesis
    by (auto simp: tick_def verdict_of_def Let_def io_bind_apply on_fst_apply intro!: exI acts_by_settle)
next
  case (Some handler)
  obtain answer e1 where h: "handler (jb_payload job) (handler_context opts job) e = (answer, e1)"
    by (cases "handler (jb_payload job) (handler_context opts job) e")
  show ?thesis
  proof (cases answer)
    case (Inl reason)
    with assms Some h show ?thesis
      by (auto simp: tick_def verdict_of_def io_bind_apply io_attempt_apply on_fst_apply on_snd_apply
               intro!: exI acts_by_settle)
  next
    case (Inr result)
    with assms Some h act_on_eq [of opts job result e1 q1] show ?thesis
      by (simp add: tick_def verdict_of_def io_bind_apply io_attempt_apply on_fst_apply on_snd_apply)
  qed
qed

lemma job_after_fun:
  "job_after Applied = settled_as JSucceeded None" "job_after (InFlight e) = deferred_from e"
  "job_after (Retry e) = spent_or_requeued e" "job_after (GiveUp e) = settled_as JFailed (Some e)"
  by (intro ext; simp)+

context job_queue
begin

lemma port_after_law:
  assumes "inv q" "look q i = Some j" "jb_state j = JRunning" "port_after port ms v i q = (r, q')"
  shows "inv q' \<and> effect_on i (job_after v) (look q) r (look q')"
proof (cases v)
  case Applied
  with assms complete_law [of q i j r q'] show ?thesis by (simp add: job_after_fun)
next
  case (InFlight e)
  with assms defer_law [of q i j e ms r q'] show ?thesis by (simp add: job_after_fun)
next
  case (Retry e)
  with assms fail_law [of q i j e r q'] show ?thesis by (simp add: job_after_fun)
next
  case (GiveUp e)
  with assms terminate_law [of q i j e r q'] show ?thesis by (simp add: job_after_fun)
qed

text \<open>
  The tick refines its specification on every queue that meets the contract: when it resolves,
  the claimed job is as the verdict requires and no other job has changed.
\<close>

lemma tick_refines:
  assumes opts: "wo_queue opts = port" and inv: "inv q"
    and claim: "qp_claim port (wo_workerId opts) (lease_ms opts) q = (Inr (Some job), q1)"
    and run: "tick opts (q, e) = (res, (q', e'))"
  shows "inv q' \<and> (\<exists>j0. look q (jb_id job) = Some j0 \<and> took_claim j0 job) \<and>
    (case res of
       Inl _ \<Rightarrow> look q' = (look q)(jb_id job \<mapsto> job)
     | Inr out \<Rightarrow>
         (\<exists>st r j'. out = Some (outcome_of job st (verdict_of opts job e = Applied) r) \<and>
            job_after (verdict_of opts job e) job j' \<and> look q' = (look q)(jb_id job \<mapsto> j')))"
proof -
  let ?v = "verdict_of opts job e"
  let ?op = "port_after port (backoff_ms opts) ?v (jb_id job)"
  obtain j0 where j0: "look q (jb_id job) = Some j0" "took_claim j0 job" "look q1 = (look q)(jb_id job \<mapsto> job)"
    using claim_takes [OF inv claim] by blast
  have inv1: "inv q1" using claim_inv [OF inv claim] .
  have got: "look q1 (jb_id job) = Some job" and running: "jb_state job = JRunning"
    using j0 by (simp_all add: took_claim_def)
  obtain st r where acts: "acts_by ?op (outcome_of job st (?v = Applied) r) q1 (res, (q', e'))"
    using tick_eq [of opts q job q1 e] opts claim run by auto
  obtain a q2 where op: "?op q1 = (a, q2)" by (cases "?op q1")
  have law: "inv q2" "effect_on (jb_id job) (job_after ?v) (look q1) a (look q2)"
    using port_after_law [OF inv1 got running op] by auto
  show ?thesis
  proof (cases a)
    case (Inl err)
    with acts op have "res = Inl err" "q' = q2" by (auto simp: acts_by_def)
    with law j0 Inl show ?thesis by (auto simp: effect_on_def)
  next
    case (Inr u)
    with acts op have "res = Inr (Some (outcome_of job st (?v = Applied) r))" "q' = q2"
      by (auto simp: acts_by_def)
    with law j0 got Inr show ?thesis by (auto simp: effect_on_def)
  qed
qed

text \<open>
  What one tick can have changed: the invariant is kept, a newly succeeded job is the one whose
  handler's answer was applied, and a tick that resolves leaves no job running that was not
  running before.
\<close>

lemma job_after_state:
  "job_after v j j' \<Longrightarrow> jb_state j' \<noteq> JRunning \<and> (jb_state j' = JSucceeded \<longrightarrow> v = Applied)"
  by (cases v) (auto simp: settled_as_def spent_or_requeued_def deferred_from_def split: if_splits)

lemma tick_step:
  assumes opts: "wo_queue opts = port" and inv: "inv q" and run: "tick opts (q, e) = (res, (q', e'))"
  shows "inv q' \<and>
    (look q' i = Some j' \<and> jb_state j' = JSucceeded \<longrightarrow>
       look q i = Some j' \<or> (\<exists>out. res = Inr (Some out) \<and> jo_jobId out = i \<and> jo_applied out)) \<and>
    (look q' i = Some j' \<and> jb_state j' = JRunning \<and> res \<in> range Inr \<longrightarrow> look q i = Some j')"
proof -
  obtain c q1 where claim: "qp_claim port (wo_workerId opts) (lease_ms opts) q = (c, q1)"
    by (cases "qp_claim port (wo_workerId opts) (lease_ms opts) q")
  show ?thesis
  proof (cases "\<exists>job. c = Inr (Some job)")
    case False
    then have none: "c \<in> {Inr None} \<union> range Inl"
    proof (cases c)
      case (Inr b)
      with False show ?thesis by (cases b) auto
    qed simp
    have "q' = q1" using False run claim opts
      by (auto simp: tick_def io_bind_apply on_fst_apply io_return_apply
               split: sum.splits option.splits)
    with claim_none [OF inv claim none] claim_inv [OF inv claim] show ?thesis by auto
  next
    case True
    then obtain job where claim: "qp_claim port (wo_workerId opts) (lease_ms opts) q = (Inr (Some job), q1)"
      using claim by auto
    obtain j0 where j0: "look q (jb_id job) = Some j0" "took_claim j0 job"
      using claim_takes [OF inv claim] by blast
    note refines = tick_refines [OF opts inv claim run]
    show ?thesis
    proof (cases res)
      case (Inl err)
      with refines j0 show ?thesis by (auto simp: took_claim_def)
    next
      case (Inr out)
      then obtain st r j1 where *: "out = Some (outcome_of job st (verdict_of opts job e = Applied) r)"
        "job_after (verdict_of opts job e) job j1" "look q' = (look q)(jb_id job \<mapsto> j1)"
        using refines by auto
      with refines Inr job_after_state [OF *(2)] show ?thesis by auto
    qed
  qed
qed

lemma drain_step:
  assumes "wo_queue opts = port" "inv q" "drain opts n (q, e) = (Inr outs, (q', e'))"
    and "look q' i = Some j'"
  shows "inv q' \<and>
    (jb_state j' = JSucceeded \<longrightarrow>
       look q i = Some j' \<or> (\<exists>out \<in> set outs. jo_jobId out = i \<and> jo_applied out)) \<and>
    (jb_state j' = JRunning \<longrightarrow> look q i = Some j')"
  using assms(2,3)
proof (induction n arbitrary: q e outs)
  case 0
  with assms(4) show ?case by (simp add: io_return_apply)
next
  case (Suc n)
  obtain res q1 e1 where t: "tick opts (q, e) = (res, (q1, e1))" by (metis prod.exhaust)
  note step = tick_step [OF assms(1) Suc.prems(1) t]
  from Suc.prems(2) t obtain out where res: "res = Inr out"
    by (cases res) (auto simp: io_bind_apply)
  show ?case
  proof (cases out)
    case None
    with t res step [of i j'] Suc.prems assms(4) show ?thesis
      by (auto simp: io_bind_apply io_return_apply)
  next
    case (Some o1)
    obtain rest where rest: "drain opts n (q1, e1) = (Inr rest, (q', e'))" "outs = o1 # rest"
      using Suc.prems(2) t res Some
      by (auto simp: io_bind_apply io_return_apply split: prod.splits sum.splits)
    have "inv q1" using step by blast
    note ih = Suc.IH [OF this rest(1)]
    with step [of i j'] res Some rest(2) show ?thesis by auto
  qed
qed

end

context reliable_queue
begin

lemma port_after_total: "\<exists>q'. port_after port ms v i q = (Inr (), q')"
  using complete_total fail_total terminate_total defer_total by (cases v) simp_all

text \<open>A worker on a reliable queue never rejects, whatever its handlers and applier do.\<close>

lemma tick_total:
  assumes "wo_queue opts = port"
  shows "\<exists>out w'. tick opts (q, e) = (Inr out, w')"
proof -
  obtain c q1 where claim: "qp_claim port (wo_workerId opts) (lease_ms opts) q = (Inr c, q1)"
    using claim_total by blast
  show ?thesis
  proof (cases c)
    case None
    with claim assms show ?thesis
      by (simp add: tick_def io_bind_apply on_fst_apply io_return_apply)
  next
    case (Some job)
    obtain q2 where "port_after port (backoff_ms opts) (verdict_of opts job e) (jb_id job) q1 = (Inr (), q2)"
      using port_after_total by blast
    with tick_eq [of opts q job q1 e] claim Some assms show ?thesis by (auto simp: acts_by_def)
  qed
qed

lemma drain_total:
  assumes "wo_queue opts = port"
  shows "\<exists>outs w'. drain opts n (q, e) = (Inr outs, w')"
proof (induction n arbitrary: q e)
  case (Suc n)
  obtain out q1 e1 where "tick opts (q, e) = (Inr out, (q1, e1))"
    using tick_total [OF assms] by (metis prod.exhaust)
  with Suc [of q1 e1] show ?case
    by (cases out) (auto simp: io_bind_apply io_return_apply)
qed (simp add: io_return_apply)

end

lemma drain_length: "drain opts n w = (Inr outs, w') \<Longrightarrow> length outs \<le> n"
proof (induction n arbitrary: w outs)
  case (Suc n)
  then show ?case
    by (auto simp: io_bind_apply io_return_apply split: prod.splits sum.splits option.splits)
qed (simp add: io_return_apply)

subsection \<open>The worker on the in-memory queue\<close>

text \<open>
  C2. A tick performs exactly what the handler's answer warrants: the job is completed if and
  only if the handler returned ok with \<open>succeeded\<close>, goes back without spending an attempt while
  the engine works and the ceiling is not reached, spends an attempt when the handler threw or
  failed, and is failed for good when no handler exists, the engine is unconfigured or degraded,
  or the ceiling is reached; the outcome says so and no other job is touched.
\<close>

theorem worker_tick_refines_verdict:
  assumes "wo_queue opts = mem_port" "mem_inv q"
    and "mem_claim (wo_workerId opts) (or_else (wo_leaseMs opts) 60000) q = (Some job, q1)"
  shows "\<exists>st r q' e' j0 j'. tick opts (q, e) =
           (Inr (Some (outcome_of job st (verdict_of opts job e = Applied) r)), (q', e')) \<and>
         mem_get (jb_id job) q = Some j0 \<and> took_claim j0 job \<and>
         job_after (verdict_of opts job e) job j' \<and>
         mem_look q' = (mem_look q)(jb_id job \<mapsto> j')"
proof -
  obtain out q' e' where t: "tick opts (q, e) = (Inr out, (q', e'))"
    using mem.tick_total [OF assms(1)] by (metis prod.exhaust)
  have "qp_claim mem_port (wo_workerId opts) (lease_ms opts) q = (Inr (Some job), q1)"
    using assms(3) by simp
  from mem.tick_refines [OF assms(1,2) this t] t show ?thesis by auto
qed


text \<open>
  Polling an engine that is still working costs nothing and has a real interval: the job is
  queued again with the attempts it had before it was claimed, and no worker can claim it before
  the poll interval has passed.
\<close>

theorem worker_polls_without_spending:
  assumes "wo_queue opts = mem_port" "mem_inv q"
    and "mem_claim (wo_workerId opts) (or_else (wo_leaseMs opts) 60000) q = (Some job, q1)"
    and "verdict_of opts job e = InFlight reason"
    and "or_else (wo_pollBackoffMs opts) DEFAULT_POLL_BACKOFF_MS > 0"
  shows "\<exists>j0 j'. mem_get (jb_id job) q = Some j0 \<and>
           mem_get (jb_id job) (fst (snd (tick opts (q, e)))) = Some j' \<and>
           jb_state j' = JQueued \<and> jb_attempts j' = jb_attempts j0 \<and>
           (\<forall>t < mq_clock q + or_else (wo_pollBackoffMs opts) DEFAULT_POLL_BACKOFF_MS.
              \<not> claimable t j')"
proof -
  obtain j0 where j0: "mem_get (jb_id job) q = Some j0" "took_claim j0 job"
    "mem_get (jb_id job) q1 = Some job" "q1 = on_job (jb_id job) (claimed (mq_clock q) (lease_ms opts)) q"
    using mem_claim_takes [OF assms(2,3)] by blast
  have clock: "mq_clock q1 = mq_clock q" using j0(4) by (simp add: on_job_def)
  have "fst (snd (tick opts (q, e))) = mem_defer (jb_id job) reason (backoff_ms opts) q1"
    using tick_eq [of opts q job q1 e] assms by (auto simp: acts_by_def)
  with j0 assms(5) clock show ?thesis
    by (auto simp: deferred_job_def claimable_def took_claim_def)
qed

text \<open>
  C32. A drain that stops before its limit stopped because nothing was left to do: no job of the
  queue is claimable at the queue's time.
\<close>

theorem worker_drain_exhausts:
  assumes "wo_queue opts = mem_port" "drain opts n (q, e) = (Inr outs, (q', e'))" "length outs < n"
  shows "\<forall>j \<in> set (mq_byId q'). \<not> claimable (mq_clock q') j"
  using assms(2,3)
proof (induction n arbitrary: q e outs)
  case (Suc n)
  let ?c = "mem_claim (wo_workerId opts) (lease_ms opts) q"
  show ?case
  proof (cases "fst ?c")
    case None
    then obtain q1 where c: "?c = (None, q1)" by (metis prod.collapse)
    then have "drain opts (Suc n) (q, e) = (Inr [], (q1, e))"
      by (simp add: tick_def assms(1) io_bind_apply on_fst_apply io_return_apply)
    with Suc.prems mem_claim_None [OF c] show ?thesis by auto
  next
    case (Some job)
    then obtain q1 where c: "?c = (Some job, q1)" by (metis prod.collapse)
    obtain q2 where op: "port_after mem_port (backoff_ms opts) (verdict_of opts job e) (jb_id job) q1 =
        (Inr (), q2)"
      using mem.port_after_total by blast
    then obtain out e2 where t: "tick opts (q, e) = (Inr (Some out), (q2, e2))"
      using tick_eq [of opts q job q1 e] assms(1) c by (auto simp: acts_by_def)
    then obtain rest where "drain opts n (q2, e2) = (Inr rest, (q', e'))" "outs = out # rest"
      using Suc.prems(1) by (auto simp: io_bind_apply io_return_apply split: prod.splits sum.splits)
    with Suc.IH Suc.prems(2) show ?thesis by simp
  qed
qed (simp add: io_return_apply)

subsection \<open>A concrete worker\<close>

definition sample_worker :: "nat adapter_result \<Rightarrow> (nat mem_queue, nat, nat, nat) worker_options" where
  "sample_worker answer =
     \<lparr> wo_queue = mem_port,
       wo_handlers = [(''k'', \<lambda>p ctx e. (Inr answer, e + p))],
       wo_workerId = ''w'', wo_leaseMs = Some 10, wo_defaultTimeoutMs = None,
       wo_pollBackoffMs = None, wo_pollCeilingMs = None,
       wo_apply = Some (\<lambda>job result e. (Inr (), e + 1)), wo_now = (\<lambda>_. 100) \<rparr>"

lemma sample_worker_port: "wo_queue (sample_worker a) = mem_port"
  by (simp add: sample_worker_def)

lemma sample_q1_inv: "mem_inv sample_q1"
  using queue_run_inv [OF sample_run1 mem_inv_empty] .

lemma sample_worker_claims:
  "mem_claim (wo_workerId (sample_worker a)) (or_else (wo_leaseMs (sample_worker a)) 60000) sample_q1 =
     (Some sample_job, sample_q2)"
  by (simp add: sample_worker_def sample_claim)

theorem worker_tick_refines_verdict_witness:
  "\<exists>st r q' e'. tick (sample_worker (AOk Succeeded 1)) (sample_q1, 0) =
     (Inr (Some (outcome_of sample_job st True r)), (q', e'))"
proof -
  have "verdict_of (sample_worker (AOk Succeeded 1)) sample_job 0 = Applied" by code_simp
  then show ?thesis
    using worker_tick_refines_verdict [OF sample_worker_port sample_q1_inv sample_worker_claims,
        of "AOk Succeeded 1" 0] by auto
qed

lemma sample_drain:
  "drain (sample_worker (AOk Succeeded 1)) 5 (sample_q1, 0) =
     (Inr [outcome_of sample_job Succeeded True None], (sample_q3, 8))"
  by code_simp


theorem worker_polls_without_spending_witness:
  "\<exists>j'. mem_get ''job-1'' (fst (snd (tick (sample_worker (AOk Running 1)) (sample_q1, 0)))) = Some j' \<and>
        jb_state j' = JQueued \<and> \<not> claimable 9999 j'"
proof -
  have v: "verdict_of (sample_worker (AOk Running 1)) sample_job 0 = InFlight ''Adapter returned running.''"
    by code_simp
  have b: "or_else (wo_pollBackoffMs (sample_worker a)) DEFAULT_POLL_BACKOFF_MS = 10000" for a
    by (simp add: sample_worker_def DEFAULT_POLL_BACKOFF_MS_def)
  have c: "mq_clock sample_q1 = 0" by code_simp
  show ?thesis
    using worker_polls_without_spending [OF sample_worker_port sample_q1_inv sample_worker_claims v]
    by (auto simp: b c sample_ids)
qed

theorem worker_drain_exhausts_witness:
  "filter (claimable (mq_clock sample_q3)) (mq_byId sample_q3) = []"
  using worker_drain_exhausts [OF sample_worker_port sample_drain] by (simp add: filter_empty_conv)

end
