(* ===== verification/Control_Plane.thy ===== *)
theory Control_Plane
  imports Contracts
begin

section \<open>packages/database: the control-plane store\<close>

text \<open>
  The service-role operations of \<open>packages/database/src/supabase-store.ts\<close> the worker uses, over
  the tables they read and patch: deployments, projects, preview targets, environments and
  usage.  A table is a list of rows; a PostgREST filter is a filter of the list, a \<open>PATCH\<close> an
  update of the rows it matches.  Whether the database answers is a field of the state: a
  request that is not answered rejects with a \<open>ControlPlaneUnavailableError\<close>.  The production
  pointer moves by the database function of migration 0014.
\<close>

subsection \<open>Rows\<close>

record deployment_row =
  dr_id :: string
  dr_organizationId :: string
  dr_projectId :: string
  dr_status :: engine_status
  dr_url :: "string option"
  dr_kind :: build_kind
  dr_environmentId :: "string option"
  dr_staged :: bool
  dr_gitBranch :: "string option"
  dr_gitCommit :: "string option"
  dr_pullRequest :: "int option"
  dr_previewKey :: "string option"
  dr_providerResourceId :: "string option"
  dr_deploymentResourceId :: "string option"
  dr_buildProviderResourceId :: "string option"
  dr_buildProvider :: "string option"
  dr_isCurrent :: bool
  dr_failureReason :: "string option"
  dr_createdAt :: timestamp
  dr_gitRepository :: "string option"
  dr_buildPack :: "string option"
  dr_rootDirectory :: "string option"
  dr_startedAt :: "millis option"
  dr_finishedAt :: "millis option"
  dr_idempotencyKey :: string
  dr_requestedBy :: string
  dr_provider :: "string option"

record project_row =
  pj_id :: string
  pj_organizationId :: string
  pj_name :: string
  pj_slug :: string
  pj_provider :: "string option"
  pj_providerResourceId :: "string option"
  pj_executionModel :: "string option"
  pj_rootDirectory :: "string option"
  pj_productionDeploymentId :: "string option"

record preview_row =
  pv_organizationId :: string
  pv_projectId :: string
  pv_previewKey :: string
  pv_branch :: "string option"
  pv_pullRequest :: "int option"
  pv_provider :: "string option"
  pv_providerResourceId :: "string option"

datatype environment_kind = EnvProduction | EnvPreview | EnvCustom

record environment_row =
  en_id :: string
  en_organizationId :: string
  en_projectId :: string
  en_name :: string
  en_kind :: environment_kind
  en_isDefault :: bool

record usage_row =
  us_organizationId :: string
  us_metric :: string
  us_quantity :: int
  us_recordedAt :: millis

record control_plane =
  cp_deployments :: "deployment_row list"
  cp_projects :: "project_row list"
  cp_previews :: "preview_row list"
  cp_environments :: "environment_row list"
  cp_usage :: "usage_row list"
  cp_now :: millis
  cp_up :: bool

subsection \<open>Requests\<close>

definition unavailable :: "string \<Rightarrow> string \<Rightarrow> string" where
  "unavailable operation reason = ''Control-plane database '' @ operation @ '' failed: '' @ reason"

definition db_read :: "string \<Rightarrow> (control_plane \<Rightarrow> 'a) \<Rightarrow> (control_plane, 'a) io" where
  "db_read operation f =
     (\<lambda>s. if cp_up s then (Inr (f s), s) else (Inl (unavailable operation ''unreachable''), s))"

definition db_write :: "string \<Rightarrow> (control_plane \<Rightarrow> control_plane) \<Rightarrow> (control_plane, unit) io" where
  "db_write operation f =
     (\<lambda>s. if cp_up s then (Inr (), f s) else (Inl (unavailable operation ''unreachable''), s))"

text \<open>The first row of a filtered table, as \<open>found[0]\<close>.\<close>

definition first_where :: "('r \<Rightarrow> bool) \<Rightarrow> 'r list \<Rightarrow> 'r option" where
  "first_where P rows = find P rows"

definition patch_where :: "('r \<Rightarrow> bool) \<Rightarrow> ('r \<Rightarrow> 'r) \<Rightarrow> 'r list \<Rightarrow> 'r list" where
  "patch_where P f rows = map (\<lambda>r. if P r then f r else r) rows"

definition executionModel :: "string option \<Rightarrow> execution_model" where
  "executionModel column = (if column = Some ''serverless'' then Serverless else Container)"

subsection \<open>Projects and previews\<close>

record deployment_target =
  dt_provider :: "string option"
  dt_providerResourceId :: "string option"
  dt_executionModel :: execution_model
  dt_rootDirectory :: "string option"

definition is_project :: "string \<Rightarrow> string \<Rightarrow> project_row \<Rightarrow> bool" where
  "is_project organizationId projectId r \<longleftrightarrow>
     pj_id r = projectId \<and> pj_organizationId r = organizationId"

definition getProjectDeploymentTargetForService ::
  "string \<Rightarrow> string \<Rightarrow> (control_plane, deployment_target option) io" where
  "getProjectDeploymentTargetForService organizationId projectId =
     db_read ''getProjectDeploymentTargetForService'' (\<lambda>s.
       map_option (\<lambda>r. \<lparr> dt_provider = pj_provider r, dt_providerResourceId = pj_providerResourceId r,
                        dt_executionModel = executionModel (pj_executionModel r),
                        dt_rootDirectory = pj_rootDirectory r \<rparr>)
         (first_where (is_project organizationId projectId) (cp_projects s)))"

definition setProjectProviderResource ::
  "string \<Rightarrow> string \<Rightarrow> string \<Rightarrow> string \<Rightarrow> (control_plane, unit) io" where
  "setProjectProviderResource organizationId projectId provider providerResourceId =
     db_write ''setProjectProviderResource'' (\<lambda>s.
       s\<lparr> cp_projects := patch_where (is_project organizationId projectId)
            (\<lambda>r. r\<lparr> pj_provider := Some provider, pj_providerResourceId := Some providerResourceId \<rparr>)
            (cp_projects s) \<rparr>)"

record preview_target =
  pt_provider :: "string option"
  pt_providerResourceId :: "string option"

definition is_preview_of :: "string \<Rightarrow> string \<Rightarrow> string \<Rightarrow> preview_row \<Rightarrow> bool" where
  "is_preview_of organizationId projectId previewKey r \<longleftrightarrow>
     pv_organizationId r = organizationId \<and> pv_projectId r = projectId \<and> pv_previewKey r = previewKey"

definition getPreviewTargetForService ::
  "string \<Rightarrow> string \<Rightarrow> string \<Rightarrow> (control_plane, preview_target option) io" where
  "getPreviewTargetForService organizationId projectId previewKey =
     db_read ''getPreviewTargetForService'' (\<lambda>s.
       map_option (\<lambda>r. \<lparr> pt_provider = pv_provider r, pt_providerResourceId = pv_providerResourceId r \<rparr>)
         (first_where (is_preview_of organizationId projectId previewKey) (cp_previews s)))"

definition setPreviewTargetProvider ::
  "string \<Rightarrow> string \<Rightarrow> string \<Rightarrow> string \<Rightarrow> string \<Rightarrow> (control_plane, unit) io" where
  "setPreviewTargetProvider organizationId projectId previewKey provider providerResourceId =
     db_write ''setPreviewTargetProvider'' (\<lambda>s.
       s\<lparr> cp_previews := patch_where (is_preview_of organizationId projectId previewKey)
            (\<lambda>r. r\<lparr> pv_provider := Some provider, pv_providerResourceId := Some providerResourceId \<rparr>)
            (cp_previews s) \<rparr>)"

text \<open>\<open>order=kind.asc,name.asc\<close>: the kind is a text column, so the order is that of its names.\<close>

fun kind_name :: "environment_kind \<Rightarrow> string" where
  "kind_name EnvProduction = ''production''"
| "kind_name EnvPreview = ''preview''"
| "kind_name EnvCustom = ''custom''"

definition listed_order :: "environment_row list \<Rightarrow> environment_row list" where
  "listed_order rows = sort_by_text (\<lambda>r. kind_name (en_kind r)) (sort_by_text en_name rows)"

definition listEnvironmentsForService ::
  "string \<Rightarrow> string \<Rightarrow> (control_plane, environment_row list) io" where
  "listEnvironmentsForService organizationId projectId =
     db_read ''listEnvironmentsForService'' (\<lambda>s.
       listed_order (filter (\<lambda>r. en_organizationId r = organizationId \<and> en_projectId r = projectId)
         (cp_environments s)))"

subsection \<open>Deployments\<close>

definition is_deployment :: "string \<Rightarrow> string \<Rightarrow> deployment_row \<Rightarrow> bool" where
  "is_deployment organizationId deploymentId r \<longleftrightarrow>
     dr_organizationId r = organizationId \<and> dr_id r = deploymentId"

definition getDeploymentForService ::
  "string \<Rightarrow> string \<Rightarrow> (control_plane, deployment_row option) io" where
  "getDeploymentForService organizationId deploymentId =
     db_read ''getDeploymentForService'' (\<lambda>s.
       first_where (is_deployment organizationId deploymentId) (cp_deployments s))"

definition MAX_LIST_LIMIT :: int where
  "MAX_LIST_LIMIT = 200"

definition DEFAULT_LIST_LIMIT :: int where
  "DEFAULT_LIST_LIMIT = 100"

definition resolveListLimit :: "js_number option \<Rightarrow> int \<Rightarrow> int" where
  "resolveListLimit limit fallback =
     (case limit of
        None \<Rightarrow> fallback
      | Some l \<Rightarrow> if \<not> is_integer l \<or> l < 1 then fallback else min \<lfloor>l\<rfloor> MAX_LIST_LIMIT)"

fun created_before :: "deployment_row \<Rightarrow> deployment_row \<Rightarrow> bool" where
  "created_before a b =
     (case (dr_createdAt a, dr_createdAt b) of
        (At x, At y) \<Rightarrow> x \<le> y
      | _ \<Rightarrow> True)"

fun insert_by_age :: "deployment_row \<Rightarrow> deployment_row list \<Rightarrow> deployment_row list" where
  "insert_by_age r [] = [r]"
| "insert_by_age r (x # xs) = (if created_before r x then r # x # xs else x # insert_by_age r xs)"

definition sort_by_age :: "deployment_row list \<Rightarrow> deployment_row list" where
  "sort_by_age rows = foldr insert_by_age rows []"

definition listStrandedDeploymentsForService ::
  "millis \<Rightarrow> js_number option \<Rightarrow> (control_plane, deployment_row list) io" where
  "listStrandedDeploymentsForService olderThan limit =
     db_read ''listStrandedDeploymentsForService'' (\<lambda>s.
       take (nat (resolveListLimit limit DEFAULT_LIST_LIMIT))
         (sort_by_age (filter (\<lambda>r.
            (dr_status r = Pending \<or> dr_status r = Running) \<and>
            (case dr_createdAt r of At t \<Rightarrow> t < olderThan | Unparsable _ \<Rightarrow> False))
          (cp_deployments s))))"

text \<open>
  A field that may be absent, null or present is an option of an option (\<open>None\<close>: absent, leave
  the column).  The handles are \<open>string option\<close>: the code treats null like absent.
\<close>

record deployment_status_input =
  du_id :: string
  du_organizationId :: string
  du_status :: engine_status
  du_url :: "string option option"
  du_failureReason :: "string option option"
  du_providerResourceId :: "string option"
  du_deploymentResourceId :: "string option"
  du_buildProviderResourceId :: "string option"
  du_buildProvider :: "string option"
  du_startedAt :: "millis option option"
  du_finishedAt :: "millis option option"

definition leave_or :: "'a option \<Rightarrow> 'a \<Rightarrow> 'a" where
  "leave_or new old = (case new of None \<Rightarrow> old | Some x \<Rightarrow> x)"

definition set_or_leave :: "string option \<Rightarrow> string option \<Rightarrow> string option" where
  "set_or_leave new old = (case new of None \<Rightarrow> old | Some x \<Rightarrow> Some x)"

definition patch_deployment :: "deployment_status_input \<Rightarrow> deployment_row \<Rightarrow> deployment_row" where
  "patch_deployment i r =
     r\<lparr> dr_status := du_status i,
       dr_url := leave_or (du_url i) (dr_url r),
       dr_failureReason := leave_or (du_failureReason i) (dr_failureReason r),
       dr_providerResourceId := set_or_leave (du_providerResourceId i) (dr_providerResourceId r),
       dr_deploymentResourceId := set_or_leave (du_deploymentResourceId i) (dr_deploymentResourceId r),
       dr_buildProviderResourceId :=
         set_or_leave (du_buildProviderResourceId i) (dr_buildProviderResourceId r),
       dr_buildProvider := set_or_leave (du_buildProvider i) (dr_buildProvider r),
       dr_startedAt := leave_or (du_startedAt i) (dr_startedAt r),
       dr_finishedAt := leave_or (du_finishedAt i) (dr_finishedAt r) \<rparr>"

definition updateDeploymentStatus :: "deployment_status_input \<Rightarrow> (control_plane, unit) io" where
  "updateDeploymentStatus i =
     db_write ''updateDeploymentStatus'' (\<lambda>s.
       s\<lparr> cp_deployments := patch_where (is_deployment (du_organizationId i) (du_id i))
            (patch_deployment i) (cp_deployments s) \<rparr>)"

subsection \<open>The production pointer and usage\<close>

text \<open>The function \<open>promote_deployment\<close> of migration 0014, one transaction.\<close>

definition promotable :: "string \<Rightarrow> string \<Rightarrow> string \<Rightarrow> deployment_row \<Rightarrow> bool" where
  "promotable organizationId projectId deploymentId d \<longleftrightarrow>
     dr_id d = deploymentId \<and> dr_projectId d = projectId \<and> dr_organizationId d = organizationId \<and>
     dr_kind d = Production \<and> dr_status d = Succeeded"

definition promote_deployment :: "string \<Rightarrow> string \<Rightarrow> string \<Rightarrow> control_plane \<Rightarrow> bool \<times> control_plane" where
  "promote_deployment organizationId projectId deploymentId s =
     (if \<not> list_ex (promotable organizationId projectId deploymentId) (cp_deployments s) then (False, s)
      else
        (let cleared = patch_where
               (\<lambda>d. dr_projectId d = projectId \<and> dr_organizationId d = organizationId \<and> dr_isCurrent d)
               (\<lambda>d. d\<lparr> dr_isCurrent := False \<rparr>) (cp_deployments s);
             flagged = patch_where
               (\<lambda>d. dr_id d = deploymentId \<and> dr_projectId d = projectId \<and> dr_organizationId d = organizationId)
               (\<lambda>d. d\<lparr> dr_isCurrent := True \<rparr>) cleared
         in (True, s\<lparr> cp_deployments := flagged,
                     cp_projects := patch_where (is_project organizationId projectId)
                       (\<lambda>r. r\<lparr> pj_productionDeploymentId := Some deploymentId \<rparr>) (cp_projects s) \<rparr>)))"

record promote_result =
  pm_deployment :: "deployment_row option"
  pm_previousDeploymentId :: "string option"

definition promoteDeployment :: "string \<Rightarrow> string \<Rightarrow> string \<Rightarrow> (control_plane, promote_result) io" where
  "promoteDeployment organizationId projectId deploymentId =
     io_bind (db_read ''promoteDeployment:project'' (\<lambda>s.
       Option.bind (first_where (is_project organizationId projectId) (cp_projects s))
         pj_productionDeploymentId)) (\<lambda>previous.
     io_bind (\<lambda>s. if cp_up s
                  then (case promote_deployment organizationId projectId deploymentId s of
                          (moved, s') \<Rightarrow> (Inr moved, s'))
                  else (Inl (unavailable ''promoteDeployment'' ''unreachable''), s)) (\<lambda>moved.
       if \<not> moved then io_return \<lparr> pm_deployment = None, pm_previousDeploymentId = previous \<rparr>
       else io_bind (db_read ''promoteDeployment:read'' (\<lambda>s.
              first_where (is_deployment organizationId deploymentId) (cp_deployments s))) (\<lambda>row.
              io_return \<lparr> pm_deployment = row, pm_previousDeploymentId = previous \<rparr>)))"

definition recordUsage :: "string \<Rightarrow> string \<Rightarrow> int \<Rightarrow> (control_plane, unit) io" where
  "recordUsage organizationId metric quantity =
     db_write ''recordUsage'' (\<lambda>s.
       s\<lparr> cp_usage := cp_usage s @ [\<lparr> us_organizationId = organizationId, us_metric = metric,
            us_quantity = quantity, us_recordedAt = cp_now s \<rparr>] \<rparr>)"

subsection \<open>Views and lemmas\<close>

definition deployment_of :: "string \<Rightarrow> string \<Rightarrow> control_plane \<Rightarrow> deployment_row option" where
  "deployment_of organizationId deploymentId s =
     find (is_deployment organizationId deploymentId) (cp_deployments s)"

lemma find_patch_same:
  "(\<And>r. P r \<Longrightarrow> P (f r)) \<Longrightarrow> find P (patch_where P f rows) = map_option f (find P rows)"
  by (induction rows) (auto simp: patch_where_def)

lemma find_patch_other:
  "(\<And>r. P r \<Longrightarrow> \<not> Q r \<and> \<not> Q (f r)) \<Longrightarrow> find Q (patch_where P f rows) = find Q rows"
  by (induction rows) (auto simp: patch_where_def)

lemma find_patch_view:
  assumes "\<And>r. Q r \<Longrightarrow> P (f r) = P r" "\<And>r. Q r \<Longrightarrow> g (f r) = g r"
  shows "map_option g (find P (patch_where Q f rows)) = map_option g (find P rows)"
  by (induction rows) (auto simp: patch_where_def assms)

lemma patch_deployment_keeps [simp]:
  "dr_id (patch_deployment i r) = dr_id r"
  "dr_organizationId (patch_deployment i r) = dr_organizationId r"
  "dr_projectId (patch_deployment i r) = dr_projectId r"
  "dr_kind (patch_deployment i r) = dr_kind r"
  "dr_staged (patch_deployment i r) = dr_staged r"
  "dr_isCurrent (patch_deployment i r) = dr_isCurrent r"
  "dr_createdAt (patch_deployment i r) = dr_createdAt r"
  "dr_status (patch_deployment i r) = du_status i"
  by (simp_all add: patch_deployment_def)

lemma is_deployment_patch [simp]: "is_deployment o' d (patch_deployment i r) = is_deployment o' d r"
  by (simp add: is_deployment_def)

lemma db_read_up [simp]: "cp_up s \<Longrightarrow> db_read op f s = (Inr (f s), s)"
  by (simp add: db_read_def)

lemma db_write_up [simp]: "cp_up s \<Longrightarrow> db_write op f s = (Inr (), f s)"
  by (simp add: db_write_def)

lemma db_read_state: "snd (db_read op f s) = s"
  by (simp add: db_read_def)

lemma updateDeploymentStatus_up:
  "cp_up s \<Longrightarrow> updateDeploymentStatus i s =
     (Inr (), s\<lparr> cp_deployments := patch_where (is_deployment (du_organizationId i) (du_id i))
            (patch_deployment i) (cp_deployments s) \<rparr>)"
  by (simp add: updateDeploymentStatus_def)

lemma deployment_of_update:
  "deployment_of org d (s\<lparr> cp_deployments := patch_where (is_deployment (du_organizationId i) (du_id i))
            (patch_deployment i) (cp_deployments s) \<rparr>) =
   (if org = du_organizationId i \<and> d = du_id i
    then map_option (patch_deployment i) (deployment_of org d s) else deployment_of org d s)"
proof (cases "org = du_organizationId i \<and> d = du_id i")
  case True
  then show ?thesis by (simp add: deployment_of_def find_patch_same)
next
  case False
  then show ?thesis
    by (auto simp: deployment_of_def is_deployment_def intro!: find_patch_other)
qed

lemma getDeploymentForService_up:
  "cp_up s \<Longrightarrow> getDeploymentForService org d s = (Inr (deployment_of org d s), s)"
  by (simp add: getDeploymentForService_def deployment_of_def first_where_def)

subsection \<open>One live deployment per project\<close>

definition live_of :: "string \<Rightarrow> string \<Rightarrow> control_plane \<Rightarrow> string list" where
  "live_of organizationId projectId s =
     map dr_id (filter (\<lambda>d. dr_organizationId d = organizationId \<and> dr_projectId d = projectId \<and> dr_isCurrent d)
       (cp_deployments s))"

lemma filter_unique_key:
  assumes "distinct (map key xs)" "x \<in> set xs" "P x" "\<And>y. y \<in> set xs \<Longrightarrow> P y \<Longrightarrow> key y = key x"
  shows "filter P xs = [x]"
  using assms
proof (induction xs)
  case (Cons a xs)
  show ?case
  proof (cases "a = x")
    case True
    have "\<not> P y" if "y \<in> set xs" for y
    proof
      assume "P y"
      then have "key y = key x" using Cons.prems(4) that by simp
      with Cons.prems(1) that True show False by (auto simp: image_iff)
    qed
    then have "filter P xs = []" by (simp add: filter_empty_conv)
    with True Cons.prems(3) show ?thesis by simp
  next
    case False
    then have "x \<in> set xs" using Cons.prems(2) by simp
    moreover have "\<not> P a"
    proof
      assume "P a"
      then have "key a = key x" using Cons.prems(4) by simp
      with Cons.prems(1) \<open>x \<in> set xs\<close> show False by (auto simp: image_iff)
    qed
    moreover have "filter P xs = [x]"
    proof (rule Cons.IH)
      show "distinct (map key xs)" using Cons.prems(1) by simp
      show "x \<in> set xs" by fact
      show "P x" by (fact Cons.prems(3))
      show "key y = key x" if "y \<in> set xs" "P y" for y using Cons.prems(4) that by simp
    qed
    ultimately show ?thesis by simp
  qed
qed simp

definition repoint :: "string \<Rightarrow> string \<Rightarrow> string \<Rightarrow> deployment_row \<Rightarrow> deployment_row" where
  "repoint organizationId projectId deploymentId r =
     (let r' = (if dr_projectId r = projectId \<and> dr_organizationId r = organizationId \<and> dr_isCurrent r
                then r\<lparr> dr_isCurrent := False \<rparr> else r)
      in if dr_id r' = deploymentId \<and> dr_projectId r' = projectId \<and> dr_organizationId r' = organizationId
         then r'\<lparr> dr_isCurrent := True \<rparr> else r')"

lemma repoint_sel [simp]:
  "dr_id (repoint org p d r) = dr_id r" "dr_projectId (repoint org p d r) = dr_projectId r"
  "dr_organizationId (repoint org p d r) = dr_organizationId r"
  "dr_isCurrent (repoint org p d r) \<longleftrightarrow>
     (if dr_projectId r = p \<and> dr_organizationId r = org then dr_id r = d else dr_isCurrent r)"
  by (simp_all add: repoint_def Let_def)

lemma promote_exclusive:
  assumes ids: "distinct (map dr_id (cp_deployments s))"
    and run: "promote_deployment organizationId projectId deploymentId s = (moved, s')"
  shows "(moved \<longleftrightarrow> (\<exists>d \<in> set (cp_deployments s). promotable organizationId projectId deploymentId d)) \<and>
         (\<not> moved \<longrightarrow> s' = s) \<and>
         (moved \<longrightarrow> live_of organizationId projectId s' = [deploymentId]) \<and>
         (moved \<longrightarrow> (\<forall>org proj. (org, proj) \<noteq> (organizationId, projectId) \<longrightarrow>
            live_of org proj s' = live_of org proj s))"
proof (cases "list_ex (promotable organizationId projectId deploymentId) (cp_deployments s)")
  case False
  with run show ?thesis by (auto simp: promote_deployment_def list_ex_iff)
next
  case True
  then obtain d where d: "d \<in> set (cp_deployments s)" "promotable organizationId projectId deploymentId d"
    by (auto simp: list_ex_iff)
  let ?f = "repoint organizationId projectId deploymentId"
  have rows: "cp_deployments s' = map ?f (cp_deployments s)" and moved
    using run True by (auto simp: promote_deployment_def Let_def patch_where_def repoint_def)
  let ?live = "\<lambda>org proj r. dr_organizationId r = org \<and> dr_projectId r = proj \<and> dr_isCurrent r"
  have live: "live_of org proj s' = map dr_id (filter (\<lambda>r. ?live org proj (?f r)) (cp_deployments s))" for org proj
  proof -
    have "map dr_id (filter (?live org proj) (map ?f rs)) = map dr_id (filter (\<lambda>r. ?live org proj (?f r)) rs)"
      for rs by (induction rs) auto
    then show ?thesis by (simp only: live_of_def rows)
  qed
  have "filter (\<lambda>r. ?live organizationId projectId (?f r)) (cp_deployments s) = [d]"
  proof (rule filter_unique_key)
    show "distinct (map dr_id (cp_deployments s))" "d \<in> set (cp_deployments s)" by (fact ids, fact d(1))
    show "?live organizationId projectId (?f d)" using d(2) by (simp add: promotable_def)
    show "dr_id y = dr_id d" if "?live organizationId projectId (?f y)" for y
      using that d(2) by (auto simp: promotable_def split: if_splits)
  qed
  then have "live_of organizationId projectId s' = [deploymentId]"
    using d(2) by (simp add: live promotable_def)
  moreover have "live_of org proj s' = live_of org proj s" if "(org, proj) \<noteq> (organizationId, projectId)" for org proj
  proof -
    have "?live org proj (?f r) = ?live org proj r" for r
      using that by auto
    then show ?thesis by (simp only: live) (simp add: live_of_def)
  qed
  ultimately show ?thesis using \<open>moved\<close> d by auto
qed

text \<open>
  The production pointer moves to a succeeded production deployment of the project or not at
  all: a refused promotion changes nothing, and an accepted one leaves exactly the promoted
  deployment live in its project, whatever was live before, and every other project as it was.
\<close>

theorem promotion_is_exclusive:
  assumes ids: "distinct (map dr_id (cp_deployments s))"
    and run: "promote_deployment organizationId projectId deploymentId s = (moved, s')"
  shows "(moved \<longleftrightarrow> (\<exists>d \<in> set (cp_deployments s). promotable organizationId projectId deploymentId d)) \<and>
         (\<not> moved \<longrightarrow> s' = s) \<and>
         (moved \<longrightarrow> live_of organizationId projectId s' = [deploymentId]) \<and>
         (moved \<longrightarrow> (\<forall>org proj. (org, proj) \<noteq> (organizationId, projectId) \<longrightarrow>
            live_of org proj s' = live_of org proj s))"
  using assms by (rule promote_exclusive)

subsection \<open>A concrete control plane\<close>

definition sample_deployment :: "string \<Rightarrow> engine_status \<Rightarrow> bool \<Rightarrow> deployment_row" where
  "sample_deployment i st live =
     \<lparr> dr_id = i, dr_organizationId = ''o'', dr_projectId = ''p'', dr_status = st, dr_url = None,
       dr_kind = Production, dr_environmentId = None, dr_staged = False, dr_gitBranch = Some ''main'',
       dr_gitCommit = None, dr_pullRequest = None, dr_previewKey = None, dr_providerResourceId = None,
       dr_deploymentResourceId = None, dr_buildProviderResourceId = None, dr_buildProvider = None,
       dr_isCurrent = live, dr_failureReason = None, dr_createdAt = At 0,
       dr_gitRepository = Some ''https://git/app'', dr_buildPack = None, dr_rootDirectory = None,
       dr_startedAt = None, dr_finishedAt = None, dr_idempotencyKey = i, dr_requestedBy = ''u'',
       dr_provider = Some ''coolify'' \<rparr>"

definition sample_project :: project_row where
  "sample_project = \<lparr> pj_id = ''p'', pj_organizationId = ''o'', pj_name = ''App'', pj_slug = ''app'', pj_provider = None,
     pj_providerResourceId = None, pj_executionModel = None, pj_rootDirectory = None,
     pj_productionDeploymentId = Some ''d1'' \<rparr>"

definition sample_plane :: control_plane where
  "sample_plane = \<lparr> cp_deployments = [sample_deployment ''d1'' Succeeded True,
                       sample_deployment ''d2'' Succeeded False, sample_deployment ''d3'' Pending False],
     cp_projects = [sample_project], cp_previews = [], cp_environments = [], cp_usage = [],
     cp_now = 100, cp_up = True \<rparr>"

theorem promotion_is_exclusive_witness:
  "live_of ''o'' ''p'' (snd (promote_deployment ''o'' ''p'' ''d2'' sample_plane)) = [''d2'']"
proof -
  have ids: "distinct (map dr_id (cp_deployments sample_plane))" by code_simp
  have run: "promote_deployment ''o'' ''p'' ''d2'' sample_plane =
      (True, snd (promote_deployment ''o'' ''p'' ''d2'' sample_plane))" by code_simp
  from promotion_is_exclusive [OF ids run] show ?thesis by simp
qed

end
