(* ===== verification/Sql_Queue.thy ===== *)
theory Sql_Queue
  imports Worker_Processor Control_Plane
begin

section \<open>packages/database/sql-queue.ts: the job queue in the database\<close>

text \<open>
  \<open>SqlJobQueue\<close> over the table \<open>orchestration_jobs\<close>: the PostgREST calls the class makes, with
  the constraint and the functions of the migrations they reach (0003, 0008, 0028).  The table
  is a list of rows; the database's clock, the draw of \<open>gen_random_uuid\<close> and whether the
  database answers are part of its state.  The worker's clock, from which the class writes
  \<open>finished_at\<close>, is taken to agree with the database's.  The queue is a second instance of the
  contract, so every lemma of a worker on a queue holds for it too.
\<close>

record 'p sql_row = "'p job" +
  rw_worker_id :: "string option"

record 'p sql_table =
  tb_rows :: "'p sql_row list"
  tb_now :: millis
  tb_draws :: nat
  tb_up :: bool

definition toJob :: "'p sql_row \<Rightarrow> 'p job" where
  "toJob r =
     \<lparr> jb_id = jb_id r, jb_organizationId = jb_organizationId r, jb_kind = jb_kind r,
       jb_payload = jb_payload r, jb_idempotencyKey = jb_idempotencyKey r, jb_state = jb_state r,
       jb_attempts = jb_attempts r, jb_maxAttempts = jb_maxAttempts r, jb_createdAt = jb_createdAt r,
       jb_startedAt = jb_startedAt r, jb_finishedAt = jb_finishedAt r,
       jb_lastError = jb_lastError r, jb_leaseExpiresAt = jb_leaseExpiresAt r,
       jb_deferredUntil = jb_deferredUntil r \<rparr>"

definition DEFAULT_MAX_ATTEMPTS :: nat where
  "DEFAULT_MAX_ATTEMPTS = 3"

text \<open>
  \<open>must\<close>: a request that is not answered, or that the database refuses, rejects with a
  \<open>ControlPlaneUnavailableError\<close>, having changed no row.
\<close>

definition must :: "string \<Rightarrow> ('p sql_table, 'a) io \<Rightarrow> ('p sql_table, 'a) io" where
  "must operation req t =
     (if tb_up t
      then (case req t of
              (Inl reason, t') \<Rightarrow> (Inl (unavailable operation reason), t')
            | (Inr x, t') \<Rightarrow> (Inr x, t'))
      else (Inl (unavailable operation ''unreachable''), t))"

definition on_row :: "string \<Rightarrow> ('p sql_row \<Rightarrow> 'p sql_row) \<Rightarrow> 'p sql_table \<Rightarrow> 'p sql_table" where
  "on_row jobId f t = t\<lparr> tb_rows := map (\<lambda>r. if jb_id r = jobId then f r else r) (tb_rows t) \<rparr>"

definition row_of :: "string \<Rightarrow> 'p sql_table \<Rightarrow> 'p sql_row option" where
  "row_of jobId t = find (\<lambda>r. jb_id r = jobId) (tb_rows t)"

definition sql_get :: "string \<Rightarrow> ('p sql_table, 'p job option) io" where
  "sql_get jobId = must ''get'' (io_get (\<lambda>t. map_option toJob (row_of jobId t)))"

definition findByKey :: "string \<Rightarrow> string \<Rightarrow> string \<Rightarrow> ('p sql_table, 'p job option) io" where
  "findByKey organizationId kind idempotencyKey =
     must ''findByKey'' (io_get (\<lambda>t. map_option toJob
       (find (\<lambda>r. jb_organizationId r = organizationId \<and> jb_kind r = kind \<and>
                  jb_idempotencyKey r = idempotencyKey) (tb_rows t))))"

text \<open>
  The insert with \<open>resolution=ignore-duplicates\<close> on the unique index of migration 0003: the
  inserted row, or no row when one with the key exists.  A draw that is already an id violates
  the primary key, a budget of zero the check constraint; both are refused.
\<close>

definition insert_row ::
  "(nat \<Rightarrow> string) \<Rightarrow> 'p enqueue_input \<Rightarrow> ('p sql_table, 'p sql_row list) io" where
  "insert_row uuid i t =
     (let jobId = uuid (tb_draws t); t' = t\<lparr> tb_draws := tb_draws t + 1 \<rparr>;
          maxAttempts = or_else (ei_maxAttempts i) DEFAULT_MAX_ATTEMPTS;
          row = \<lparr> jb_id = jobId, jb_organizationId = ei_organizationId i, jb_kind = ei_kind i,
                  jb_payload = ei_payload i, jb_idempotencyKey = ei_idempotencyKey i,
                  jb_state = JQueued, jb_attempts = 0, jb_maxAttempts = maxAttempts,
                  jb_createdAt = tb_now t, jb_startedAt = None, jb_finishedAt = None,
                  jb_lastError = None, jb_leaseExpiresAt = None, jb_deferredUntil = None,
                  rw_worker_id = None \<rparr>
      in if maxAttempts = 0 then (Inl ''violates check constraint'', t')
         else if (\<exists>r \<in> set (tb_rows t). jb_organizationId r = ei_organizationId i \<and>
                    jb_kind r = ei_kind i \<and> jb_idempotencyKey r = ei_idempotencyKey i)
         then (Inr [], t')
         else if (\<exists>r \<in> set (tb_rows t). jb_id r = jobId)
         then (Inl ''duplicate key value violates unique constraint'', t')
         else (Inr [row], t'\<lparr> tb_rows := tb_rows t @ [row] \<rparr>))"

definition sql_enqueue :: "(nat \<Rightarrow> string) \<Rightarrow> 'p enqueue_input \<Rightarrow> ('p sql_table, 'p job) io" where
  "sql_enqueue uuid i =
     io_bind (must ''enqueue'' (insert_row uuid i)) (\<lambda>inserted.
       case inserted of
         r # _ \<Rightarrow> io_return (toJob r)
       | [] \<Rightarrow>
           io_bind (findByKey (ei_organizationId i) (ei_kind i) (ei_idempotencyKey i)) (\<lambda>existing.
             case existing of
               None \<Rightarrow> io_throw (unavailable ''enqueue''
                ''no row returned and no existing job found for the idempotency key'')
             | Some j \<Rightarrow> io_return j))"

subsection \<open>Claiming\<close>

definition ceil_seconds :: "millis \<Rightarrow> int" where
  "ceil_seconds ms = - ((- ms) div 1000)"

definition sql_claimable :: "millis \<Rightarrow> 'p sql_row \<Rightarrow> bool" where
  "sql_claimable now r \<longleftrightarrow>
     jb_state r = JQueued \<and> jb_attempts r < jb_maxAttempts r \<and>
     (case jb_deferredUntil r of None \<Rightarrow> True | Some t \<Rightarrow> t \<le> now)"

text \<open>\<open>order by created_at limit 1\<close>\<close>

fun oldest :: "'p sql_row list \<Rightarrow> 'p sql_row option" where
  "oldest [] = None"
| "oldest (r # rs) =
     (case oldest rs of
        None \<Rightarrow> Some r
      | Some s \<Rightarrow> if jb_createdAt s < jb_createdAt r then Some s else Some r)"

definition claimed_row :: "millis \<Rightarrow> string \<Rightarrow> int \<Rightarrow> 'p sql_row \<Rightarrow> 'p sql_row" where
  "claimed_row now workerId seconds r =
     r\<lparr> jb_state := JRunning, jb_attempts := jb_attempts r + 1, jb_startedAt := Some now,
       rw_worker_id := Some workerId, jb_leaseExpiresAt := Some (now + 1000 * seconds),
       jb_deferredUntil := None \<rparr>"

definition claim_orchestration_job :: "string \<Rightarrow> int \<Rightarrow> ('p sql_table, 'p sql_row list) io" where
  "claim_orchestration_job workerId seconds t =
     (if dropWhile (\<lambda>c. c = CHR '' '') workerId = []
      then (Inl ''a worker id is required to claim a job'', t)
      else if seconds \<le> 0 then (Inl ''a positive lease is required to claim a job'', t)
      else (case oldest (filter (sql_claimable (tb_now t)) (tb_rows t)) of
              None \<Rightarrow> (Inr [], t)
            | Some r \<Rightarrow>
                (Inr [claimed_row (tb_now t) workerId seconds r],
                 on_row (jb_id r) (claimed_row (tb_now t) workerId seconds) t)))"

definition sql_claim :: "string \<Rightarrow> millis \<Rightarrow> ('p sql_table, 'p job option) io" where
  "sql_claim workerId leaseMs =
     (let leaseSeconds = max 1 (ceil_seconds leaseMs) in
      io_bind (must ''claim'' (claim_orchestration_job workerId leaseSeconds)) (\<lambda>rows.
        io_return (case rows of [] \<Rightarrow> None | r # _ \<Rightarrow> Some (toJob r))))"

subsection \<open>Settling\<close>

definition sql_patch :: "string \<Rightarrow> (millis \<Rightarrow> 'p sql_row \<Rightarrow> 'p sql_row) \<Rightarrow> ('p sql_table, unit) io" where
  "sql_patch jobId f = must ''update'' (io_modify (\<lambda>t. on_row jobId (f (tb_now t)) t))"

definition sql_complete :: "string \<Rightarrow> ('p sql_table, unit) io" where
  "sql_complete jobId = sql_patch jobId (\<lambda>now r.
     r\<lparr> jb_state := JSucceeded, jb_finishedAt := Some now, jb_leaseExpiresAt := None,
       jb_lastError := None, jb_deferredUntil := None \<rparr>)"

definition sql_fail :: "string \<Rightarrow> string \<Rightarrow> ('p sql_table, unit) io" where
  "sql_fail jobId reason =
     io_bind (sql_get jobId) (\<lambda>current.
       case current of
         None \<Rightarrow> io_return ()
       | Some j \<Rightarrow>
           (let spent = jb_attempts j \<ge> jb_maxAttempts j in
            sql_patch jobId (\<lambda>now r.
              r\<lparr> jb_state := (if spent then JFailed else JQueued), jb_lastError := Some reason,
                jb_leaseExpiresAt := None, jb_finishedAt := (if spent then Some now else None),
                jb_deferredUntil := None \<rparr>)))"

definition sql_terminate :: "string \<Rightarrow> string \<Rightarrow> ('p sql_table, unit) io" where
  "sql_terminate jobId reason = sql_patch jobId (\<lambda>now r.
     r\<lparr> jb_state := JFailed, jb_lastError := Some reason, jb_finishedAt := Some now,
       jb_leaseExpiresAt := None, jb_deferredUntil := None \<rparr>)"

definition deferred_row :: "millis \<Rightarrow> string \<Rightarrow> int \<Rightarrow> 'p sql_row \<Rightarrow> 'p sql_row" where
  "deferred_row now reason seconds r =
     (if jb_state r = JRunning
      then r\<lparr> jb_state := JQueued, jb_attempts := jb_attempts r - 1, jb_startedAt := None,
             rw_worker_id := None, jb_leaseExpiresAt := None, jb_finishedAt := None,
             jb_lastError := Some reason,
             jb_deferredUntil := (if seconds > 0 then Some (now + 1000 * seconds) else None) \<rparr>
      else r)"

definition defer_orchestration_job :: "string \<Rightarrow> string \<Rightarrow> int \<Rightarrow> ('p sql_table, bool) io" where
  "defer_orchestration_job jobId reason seconds t =
     (if seconds < 0 then (Inl ''a non-negative defer interval is required'', t)
      else (Inr (\<exists>r \<in> set (tb_rows t). jb_id r = jobId \<and> jb_state r = JRunning),
            on_row jobId (deferred_row (tb_now t) reason seconds) t))"

definition sql_defer :: "string \<Rightarrow> string \<Rightarrow> millis \<Rightarrow> ('p sql_table, unit) io" where
  "sql_defer jobId reason deferMs =
     (let deferSeconds = (if deferMs > 0 then ceil_seconds deferMs else 0) in
      io_then (must ''defer'' (defer_orchestration_job jobId reason deferSeconds)) (io_return ()))"

definition reap_expired_jobs :: "millis \<Rightarrow> ('p sql_table, nat) io" where
  "reap_expired_jobs now t =
     (let lapsed = (\<lambda>r. jb_state r = JRunning \<and>
                        (case jb_leaseExpiresAt r of None \<Rightarrow> False | Some x \<Rightarrow> x \<le> now)) in
      (Inr (length (filter lapsed (tb_rows t))),
       t\<lparr> tb_rows := map (\<lambda>r. if lapsed r
            then r\<lparr> jb_state := (if jb_attempts r \<ge> jb_maxAttempts r then JFailed else JQueued),
                   jb_lastError := Some (if jb_attempts r \<ge> jb_maxAttempts r
                                         then ''lease expired and no attempts remain''
                                         else ''lease expired''),
                   jb_finishedAt := (if jb_attempts r \<ge> jb_maxAttempts r then Some now
                                     else jb_finishedAt r),
                   rw_worker_id := None, jb_leaseExpiresAt := None \<rparr>
            else r) (tb_rows t) \<rparr>))"

definition sql_reapExpired :: "('p sql_table, nat) io" where
  "sql_reapExpired = must ''reapExpired'' (\<lambda>t. reap_expired_jobs (tb_now t) t)"

definition sql_port :: "(nat \<Rightarrow> string) \<Rightarrow> ('p sql_table, 'p) queue_port" where
  "sql_port uuid =
     \<lparr> qp_enqueue = sql_enqueue uuid, qp_claim = sql_claim, qp_complete = sql_complete,
       qp_fail = sql_fail, qp_terminate = sql_terminate, qp_defer = sql_defer,
       qp_reapExpired = sql_reapExpired, qp_get = sql_get \<rparr>"

subsection \<open>The database queue meets the contract\<close>

definition sql_inv :: "'p sql_table \<Rightarrow> bool" where
  "sql_inv t \<longleftrightarrow> distinct (map jb_id (tb_rows t))"

definition sql_look :: "'p sql_table \<Rightarrow> string \<Rightarrow> 'p job option" where
  "sql_look t i = map_option toJob (row_of i t)"

lemma toJob_sel [simp]:
  "jb_id (toJob r) = jb_id r" "jb_organizationId (toJob r) = jb_organizationId r"
  "jb_kind (toJob r) = jb_kind r" "jb_payload (toJob r) = jb_payload r"
  "jb_idempotencyKey (toJob r) = jb_idempotencyKey r" "jb_state (toJob r) = jb_state r"
  "jb_attempts (toJob r) = jb_attempts r" "jb_maxAttempts (toJob r) = jb_maxAttempts r"
  "jb_createdAt (toJob r) = jb_createdAt r" "jb_startedAt (toJob r) = jb_startedAt r"
  "jb_finishedAt (toJob r) = jb_finishedAt r" "jb_lastError (toJob r) = jb_lastError r"
  "jb_leaseExpiresAt (toJob r) = jb_leaseExpiresAt r"
  "jb_deferredUntil (toJob r) = jb_deferredUntil r"
  by (simp_all add: toJob_def)

lemma row_of_on_row:
  assumes "\<And>r. jb_id (f r) = jb_id r"
  shows "row_of k (on_row i f t) = (if k = i then map_option f (row_of k t) else row_of k t)"
  unfolding row_of_def on_row_def by (simp add: find_key_update assms)

lemma sql_inv_on_row: "(\<And>r. jb_id (f r) = jb_id r) \<Longrightarrow> sql_inv (on_row i f t) \<longleftrightarrow> sql_inv t"
proof -
  assume "\<And>r. jb_id (f r) = jb_id r"
  then have "jb_id \<circ> (\<lambda>r. if jb_id r = i then f r else r) = jb_id" by (intro ext) simp
  then show ?thesis by (simp add: sql_inv_def on_row_def)
qed

lemma sql_look_on_row:
  assumes "row_of i t = Some r" "\<And>r. jb_id (f r) = jb_id r"
  shows "sql_look (on_row i f t) = (sql_look t)(i \<mapsto> toJob (f r))"
  using assms by (intro ext) (simp add: sql_look_def row_of_on_row)

lemma sql_look_Some: "sql_look t i = Some j \<Longrightarrow> \<exists>r. row_of i t = Some r \<and> j = toJob r"
  by (auto simp: sql_look_def)

lemma sql_patch_effect:
  assumes "sql_look t i = Some j" "sql_patch i f t = (res, t')" "\<And>now r. jb_id (f now r) = jb_id r"
    and "\<And>now r. toJob r = j \<Longrightarrow> R j (toJob (f now r))"
  shows "(sql_inv t \<longrightarrow> sql_inv t') \<and> effect_on i R (sql_look t) res (sql_look t')"
proof -
  obtain r where r: "row_of i t = Some r" "j = toJob r" using sql_look_Some [OF assms(1)] by blast
  show ?thesis
  proof (cases "tb_up t")
    case True
    then have "res = Inr ()" "t' = on_row i (f (tb_now t)) t"
      using assms(2) by (simp_all add: sql_patch_def must_def io_modify_apply)
    moreover have "R (toJob r) (toJob (f (tb_now t) r))" using assms(4) r(2) by simp
    ultimately show ?thesis using r assms(1,3)
      by (auto simp: sql_inv_on_row sql_look_on_row effect_on_def)
  next
    case False
    then show ?thesis using assms(2) by (auto simp: sql_patch_def must_def effect_on_def)
  qed
qed

lemma oldest_mem: "oldest rs = Some r \<Longrightarrow> r \<in> set rs"
  by (induction rs arbitrary: r) (auto split: option.splits if_splits)

lemma oldest_None [simp]: "oldest rs = None \<longleftrightarrow> rs = []"
  by (cases rs) (auto split: option.splits)

lemma oldest_least: "oldest rs = Some r \<Longrightarrow> s \<in> set rs \<Longrightarrow> jb_createdAt r \<le> jb_createdAt s"
proof (induction rs arbitrary: r)
  case (Cons a rs)
  then show ?case
    by (cases "oldest rs") (fastforce split: if_splits)+
qed simp

text \<open>A claim that resolves with a job is an update of the oldest claimable row.\<close>

lemma sql_claim_Some:
  assumes "sql_claim w l t = (Inr (Some j'), t')"
  obtains r where "oldest (filter (sql_claimable (tb_now t)) (tb_rows t)) = Some r"
    "j' = toJob (claimed_row (tb_now t) w (max 1 (ceil_seconds l)) r)"
    "t' = on_row (jb_id r) (claimed_row (tb_now t) w (max 1 (ceil_seconds l))) t"
  using assms that
  by (auto simp: sql_claim_def Let_def must_def claim_orchestration_job_def io_bind_apply io_return_apply
           split: if_splits option.splits prod.splits sum.splits list.splits)

lemma sql_claim_none:
  "sql_claim w l t = (c, t') \<Longrightarrow> c \<in> {Inr None} \<union> range Inl \<Longrightarrow> t' = t"
  by (auto simp: sql_claim_def Let_def must_def claim_orchestration_job_def io_bind_apply io_return_apply
           split: if_splits option.splits prod.splits sum.splits list.splits)

lemma claimed_row_id [simp]: "jb_id (claimed_row now w s r) = jb_id r"
  by (simp add: claimed_row_def)

lemma sql_claim_takes:
  assumes "sql_inv t" "sql_claim w l t = (Inr (Some j'), t')"
  shows "sql_inv t' \<and> (\<exists>j. sql_look t (jb_id j') = Some j \<and> took_claim j j' \<and>
           sql_look t' = (sql_look t)(jb_id j' \<mapsto> j'))"
proof -
  obtain r where r: "oldest (filter (sql_claimable (tb_now t)) (tb_rows t)) = Some r"
    "j' = toJob (claimed_row (tb_now t) w (max 1 (ceil_seconds l)) r)"
    "t' = on_row (jb_id r) (claimed_row (tb_now t) w (max 1 (ceil_seconds l))) t"
    using assms(2) by (rule sql_claim_Some)
  have mem: "r \<in> set (tb_rows t)" "sql_claimable (tb_now t) r"
    using oldest_mem [OF r(1)] by auto
  have row: "row_of (jb_id r) t = Some r"
    using assms(1) mem(1) by (simp add: row_of_def sql_inv_def find_key_iff)
  have "took_claim (toJob r) j'"
    using mem(2) by (simp add: r(2) took_claim_def same_identity_def sql_claimable_def)
      (simp add: claimed_row_def)
  with row r sql_inv_on_row [of "claimed_row (tb_now t) w (max 1 (ceil_seconds l))" "jb_id r" t] assms(1)
  show ?thesis by (auto simp: sql_look_on_row) (simp add: sql_look_def)
qed

lemma identity_toJob: "same_identity (toJob r) (toJob r') \<longleftrightarrow>
    jb_id r' = jb_id r \<and> jb_organizationId r' = jb_organizationId r \<and> jb_kind r' = jb_kind r \<and>
    jb_payload r' = jb_payload r \<and> jb_idempotencyKey r' = jb_idempotencyKey r \<and>
    jb_maxAttempts r' = jb_maxAttempts r \<and> jb_createdAt r' = jb_createdAt r"
  by (simp add: same_identity_def)

lemma sql_complete_law:
  "sql_look t i = Some j \<Longrightarrow> sql_complete i t = (res, t') \<Longrightarrow>
   (sql_inv t \<longrightarrow> sql_inv t') \<and> effect_on i (settled_as JSucceeded None) (sql_look t) res (sql_look t')"
  unfolding sql_complete_def
  by (erule sql_patch_effect, assumption) (auto simp: settled_as_def identity_toJob)

lemma sql_terminate_law:
  "sql_look t i = Some j \<Longrightarrow> sql_terminate i e t = (res, t') \<Longrightarrow>
   (sql_inv t \<longrightarrow> sql_inv t') \<and> effect_on i (settled_as JFailed (Some e)) (sql_look t) res (sql_look t')"
  unfolding sql_terminate_def
  by (erule sql_patch_effect, assumption) (auto simp: settled_as_def identity_toJob)

lemma sql_get_eq:
  "sql_get i t = (if tb_up t then (Inr (sql_look t i), t) else (Inl (unavailable ''get'' ''unreachable''), t))"
  by (simp add: sql_get_def must_def io_get_apply sql_look_def)

lemma sql_fail_law:
  assumes "sql_look t i = Some j" "sql_fail i e t = (res, t')"
  shows "(sql_inv t \<longrightarrow> sql_inv t') \<and> effect_on i (spent_or_requeued e) (sql_look t) res (sql_look t')"
proof (cases "tb_up t")
  case True
  with assms have "sql_patch i (\<lambda>now r.
      r\<lparr> jb_state := (if jb_attempts j \<ge> jb_maxAttempts j then JFailed else JQueued),
        jb_lastError := Some e, jb_leaseExpiresAt := None,
        jb_finishedAt := (if jb_attempts j \<ge> jb_maxAttempts j then Some now else None),
        jb_deferredUntil := None \<rparr>) t = (res, t')"
    by (simp add: sql_fail_def sql_get_eq io_bind_apply Let_def)
  from assms(1) this show ?thesis
    by (rule sql_patch_effect) (auto simp: spent_or_requeued_def settled_as_def identity_toJob)
next
  case False
  with assms show ?thesis by (auto simp: sql_fail_def sql_get_eq io_bind_apply effect_on_def)
qed

lemma ceil_seconds_nonneg: "0 < ms \<Longrightarrow> 0 < ceil_seconds ms"
  by (simp add: ceil_seconds_def)

lemma sql_defer_eq:
  "sql_defer i e ms t =
     (if tb_up t
      then (Inr (), on_row i (deferred_row (tb_now t) e (if ms > 0 then ceil_seconds ms else 0)) t)
      else (Inl (unavailable ''defer'' ''unreachable''), t))"
  using ceil_seconds_nonneg [of ms]
  by (auto simp: sql_defer_def Let_def must_def defer_orchestration_job_def io_then_apply io_return_apply)

lemma sql_defer_law:
  assumes "sql_look t i = Some j" "jb_state j = JRunning" "sql_defer i e ms t = (res, t')"
  shows "(sql_inv t \<longrightarrow> sql_inv t') \<and> effect_on i (deferred_from e) (sql_look t) res (sql_look t')"
proof (cases "tb_up t")
  case True
  let ?f = "deferred_row (tb_now t) e (if ms > 0 then ceil_seconds ms else 0)"
  from True assms(3) have t': "res = Inr ()" "t' = on_row i ?f t"
    by (auto simp: sql_defer_eq)
  obtain r where r: "row_of i t = Some r" "j = toJob r" using sql_look_Some [OF assms(1)] by blast
  have "deferred_from e (toJob r) (toJob (?f r))"
    using r(2) assms(2) by (simp add: deferred_from_def identity_toJob) (simp add: deferred_row_def)
  moreover have "sql_look (on_row i ?f t) = (sql_look t)(i \<mapsto> toJob (?f r))"
    by (rule sql_look_on_row [OF r(1)]) (simp add: deferred_row_def)
  moreover have "sql_inv (on_row i ?f t) \<longleftrightarrow> sql_inv t"
    by (rule sql_inv_on_row) (simp add: deferred_row_def)
  ultimately show ?thesis using t' r assms(1) by (auto simp: effect_on_def)
next
  case False
  with assms show ?thesis by (auto simp: sql_defer_eq effect_on_def)
qed

lemma sql_port_sel [simp]:
  "qp_claim (sql_port uuid) = sql_claim" "qp_complete (sql_port uuid) = sql_complete"
  "qp_fail (sql_port uuid) = sql_fail" "qp_terminate (sql_port uuid) = sql_terminate"
  "qp_defer (sql_port uuid) = sql_defer" "qp_get (sql_port uuid) = sql_get"
  "qp_enqueue (sql_port uuid) = sql_enqueue uuid" "qp_reapExpired (sql_port uuid) = sql_reapExpired"
  by (simp_all add: sql_port_def)

interpretation sql: job_queue "sql_port uuid" sql_inv sql_look
proof (unfold_locales, unfold sql_port_sel)
  fix t t' :: "'a sql_table" and w l i e c r j j' x ms
  show "sql_inv t \<Longrightarrow> sql_claim w l t = (c, t') \<Longrightarrow> sql_inv t'"
    using sql_claim_none [of w l t c t'] sql_claim_takes [of t w l _ t']
    by (cases c; cases "projr c") auto
  show "sql_inv t \<Longrightarrow> sql_claim w l t = (c, t') \<Longrightarrow> c \<in> {Inr None} \<union> range Inl \<Longrightarrow> sql_look t' = sql_look t"
    using sql_claim_none by blast
  show "sql_inv t \<Longrightarrow> sql_claim w l t = (Inr (Some j'), t') \<Longrightarrow>
      \<exists>j. sql_look t (jb_id j') = Some j \<and> took_claim j j' \<and> sql_look t' = (sql_look t)(jb_id j' \<mapsto> j')"
    using sql_claim_takes by blast
  show "sql_inv t \<Longrightarrow> sql_look t i = Some j \<Longrightarrow> sql_complete i t = (r, t') \<Longrightarrow>
      sql_inv t' \<and> effect_on i (settled_as JSucceeded None) (sql_look t) r (sql_look t')"
    using sql_complete_law by blast
  show "sql_inv t \<Longrightarrow> sql_look t i = Some j \<Longrightarrow> sql_fail i e t = (r, t') \<Longrightarrow>
      sql_inv t' \<and> effect_on i (spent_or_requeued e) (sql_look t) r (sql_look t')"
    using sql_fail_law by blast
  show "sql_inv t \<Longrightarrow> sql_look t i = Some j \<Longrightarrow> sql_terminate i e t = (r, t') \<Longrightarrow>
      sql_inv t' \<and> effect_on i (settled_as JFailed (Some e)) (sql_look t) r (sql_look t')"
    using sql_terminate_law by blast
  show "sql_inv t \<Longrightarrow> sql_look t i = Some j \<Longrightarrow> jb_state j = JRunning \<Longrightarrow>
      sql_defer i e ms t = (r, t') \<Longrightarrow>
      sql_inv t' \<and> effect_on i (deferred_from e) (sql_look t) r (sql_look t')"
    using sql_defer_law by blast
  show "sql_inv t \<Longrightarrow> sql_get i t = (Inr x, t') \<Longrightarrow> x = sql_look t i \<and> t' = t"
    by (auto simp: sql_get_eq split: if_splits)
qed

subsection \<open>What the database queue guarantees\<close>

text \<open>
  The same honest worker on the database queue, where any request may be refused or go
  unanswered: a tick that resolves or rejects leaves a newly \<open>succeeded\<close> job only where it
  resolved with an applied outcome for that job, and a tick that resolves leaves no job
  \<open>running\<close> that was not running before.
\<close>

theorem sql_worker_is_honest:
  assumes "wo_queue opts = sql_port uuid" "sql_inv t" "tick opts (t, e) = (res, (t', e'))"
    and "sql_look t' i = Some j"
  shows "sql_inv t' \<and>
         (jb_state j = JSucceeded \<longrightarrow>
            sql_look t i = Some j \<or>
            (\<exists>out. res = Inr (Some out) \<and> jo_jobId out = i \<and> jo_applied out)) \<and>
         (jb_state j = JRunning \<and> res \<in> range Inr \<longrightarrow> sql_look t i = Some j)"
  using sql.tick_step [OF assms(1,2,3), of i j] assms(4) by auto

text \<open>
  A claim in the database takes the oldest job that is queued, has attempts left and whose
  deferral has passed, and makes it running with a lease of at least a second; a second claim,
  by whichever worker, takes another job.
\<close>

theorem sql_claim_takes_the_oldest:
  assumes "sql_inv t" "sql_claim w l t = (Inr (Some j), t')"
  shows "(\<exists>r \<in> set (tb_rows t). jb_id r = jb_id j \<and> sql_claimable (tb_now t) r \<and>
            (\<forall>s \<in> set (tb_rows t). sql_claimable (tb_now t) s \<longrightarrow> jb_createdAt r \<le> jb_createdAt s)) \<and>
         jb_state j = JRunning \<and>
         (\<exists>x. jb_leaseExpiresAt j = Some x \<and> x \<ge> tb_now t + 1000) \<and>
         (\<forall>w' l' j2 t2. sql_claim w' l' t' = (Inr (Some j2), t2) \<longrightarrow> jb_id j2 \<noteq> jb_id j)"
proof -
  obtain r where r: "oldest (filter (sql_claimable (tb_now t)) (tb_rows t)) = Some r"
    "j = toJob (claimed_row (tb_now t) w (max 1 (ceil_seconds l)) r)"
    using assms(2) by (rule sql_claim_Some)
  have mem: "r \<in> set (tb_rows t)" "sql_claimable (tb_now t) r"
    using oldest_mem [OF r(1)] by auto
  have least: "jb_createdAt r \<le> jb_createdAt s" if "s \<in> set (tb_rows t)" "sql_claimable (tb_now t) s" for s
    using oldest_least [OF r(1), of s] that by simp
  have "jb_id j2 \<noteq> jb_id j" if again: "sql_claim w' l' t' = (Inr (Some j2), t2)" for w' l' j2 t2
  proof
    assume "jb_id j2 = jb_id j"
    have "sql_inv t'" "sql_look t' (jb_id j) = Some j"
      using sql_claim_takes [OF assms] by auto
    moreover from this(1) obtain j0 where "sql_look t' (jb_id j2) = Some j0" "took_claim j0 j2"
      using sql_claim_takes [OF _ again] by blast
    ultimately have "took_claim j j2" using \<open>jb_id j2 = jb_id j\<close> by simp
    then show False by (simp add: took_claim_def r(2) claimed_row_def)
  qed
  moreover have "jb_id r = jb_id j" "jb_state j = JRunning"
    "jb_leaseExpiresAt j = Some (tb_now t + 1000 * max 1 (ceil_seconds l))"
    by (simp_all add: r(2)) (simp_all add: claimed_row_def)
  ultimately show ?thesis using mem least by auto
qed

text \<open>
  The two queues do not follow the same rule on a deferral that comes late: the database
  leaves a job that is no longer running as it is, while the queue in memory puts any job back,
  a completed one included.
\<close>

theorem defer_of_settled_job_diverges:
  assumes settled: "mem_get i q = Some j" "sql_look t i = Some j" "isJobTerminal (jb_state j)"
    and up: "tb_up t"
  shows "(\<exists>j'. mem_get i (mem_defer i reason ms q) = Some j' \<and> jb_state j' = JQueued) \<and>
         fst (sql_defer i reason ms t) = Inr () \<and>
         sql_look (snd (sql_defer i reason ms t)) i = Some j"
proof -
  let ?f = "deferred_row (tb_now t) reason (if ms > 0 then ceil_seconds ms else 0)"
  obtain r where r: "row_of i t = Some r" "j = toJob r" using sql_look_Some [OF settled(2)] by blast
  have "?f r = r" using settled(3) r by (auto simp: isJobTerminal_def deferred_row_def)
  moreover have "sql_look (on_row i ?f t) = (sql_look t)(i \<mapsto> toJob (?f r))"
    by (rule sql_look_on_row [OF r(1)]) (simp add: deferred_row_def)
  ultimately show ?thesis using r settled(1) up by (simp add: sql_defer_eq deferred_job_def)
qed

subsection \<open>A concrete table\<close>

definition sample_row :: "string \<Rightarrow> millis \<Rightarrow> nat sql_row" where
  "sample_row i now =
     \<lparr> jb_id = i, jb_organizationId = ''o'', jb_kind = ''k'', jb_payload = 7,
       jb_idempotencyKey = i, jb_state = JQueued, jb_attempts = 0, jb_maxAttempts = 3,
       jb_createdAt = now, jb_startedAt = None, jb_finishedAt = None, jb_lastError = None,
       jb_leaseExpiresAt = None, jb_deferredUntil = None, rw_worker_id = None \<rparr>"

definition sample_table :: "nat sql_table" where
  "sample_table = \<lparr> tb_rows = [sample_row ''a'' 4, sample_row ''b'' 3], tb_now = 10, tb_draws = 0,
                    tb_up = True \<rparr>"

definition sample_sql_worker :: "(nat sql_table, nat, nat, nat) worker_options" where
  "sample_sql_worker =
     \<lparr> wo_queue = sql_port show_nat,
       wo_handlers = [(''k'', \<lambda>p ctx e. (Inr (AOk Succeeded 1), e + p))],
       wo_workerId = ''w'', wo_leaseMs = Some 10, wo_defaultTimeoutMs = None,
       wo_pollBackoffMs = None, wo_pollCeilingMs = None, wo_apply = None, wo_now = (\<lambda>_. 100) \<rparr>"

lemma sample_table_inv: "sql_inv sample_table"
  by (simp add: sql_inv_def sample_table_def sample_row_def)

definition sample_tick :: "(string + job_outcome option) \<times> (nat sql_table \<times> nat)" where
  "sample_tick = tick sample_sql_worker (sample_table, 0)"

lemma sample_tick_eq:
  "tick sample_sql_worker (sample_table, 0) =
     (fst sample_tick, (fst (snd sample_tick), snd (snd sample_tick)))"
  by (simp add: sample_tick_def)

lemma sample_tick_row:
  "map_option jb_state (sql_look (fst (snd sample_tick)) ''b'') = Some JSucceeded"
  "map_option jb_state (sql_look sample_table ''b'') = Some JQueued"
  by code_simp+

theorem sql_worker_is_honest_witness:
  "\<exists>out. fst sample_tick = Inr (Some out) \<and> jo_jobId out = ''b'' \<and> jo_applied out"
proof -
  have port: "wo_queue sample_sql_worker = sql_port show_nat" by (simp add: sample_sql_worker_def)
  obtain j where j: "sql_look (fst (snd sample_tick)) ''b'' = Some j" "jb_state j = JSucceeded"
    using sample_tick_row(1) by auto
  from sql_worker_is_honest [OF port sample_table_inv sample_tick_eq j(1)] j(2) sample_tick_row(2)
  show ?thesis by auto
qed

theorem sql_claim_takes_the_oldest_witness:
  "fst (sql_claim ''w'' 10 sample_table) =
     Inr (Some (toJob (claimed_row 10 ''w'' 1 (sample_row ''b'' 3)))) \<and>
   jb_state (toJob (claimed_row 10 ''w'' 1 (sample_row ''b'' 3))) = JRunning"
proof -
  have c: "sql_claim ''w'' 10 sample_table =
      (Inr (Some (toJob (claimed_row 10 ''w'' 1 (sample_row ''b'' 3)))), snd (sql_claim ''w'' 10 sample_table))"
    by code_simp
  from sql_claim_takes_the_oldest [OF sample_table_inv c] c show ?thesis by (metis fst_conv)
qed

definition settled_row :: "nat sql_row" where
  "settled_row = (sample_row ''a'' 4)\<lparr> jb_state := JSucceeded, jb_finishedAt := Some 9 \<rparr>"

theorem defer_of_settled_job_diverges_witness:
  "fst (sql_defer ''a'' ''late'' 0 (sample_table\<lparr> tb_rows := [settled_row] \<rparr>)) = Inr ()"
proof -
  have "mem_get ''a'' ((empty_queue 0)\<lparr> mq_byId := [toJob settled_row] \<rparr>) = Some (toJob settled_row)"
    "sql_look (sample_table\<lparr> tb_rows := [settled_row] \<rparr>) ''a'' = Some (toJob settled_row)"
    "isJobTerminal (jb_state (toJob settled_row))" "tb_up (sample_table\<lparr> tb_rows := [settled_row] \<rparr>)"
    by code_simp+
  from defer_of_settled_job_diverges [OF this, of "''late''" 0] show ?thesis by simp
qed

end
