(* ===== verification/Execution_Router.thy ===== *)
theory Execution_Router
  imports Contracts
begin

section \<open>packages/adapters: engine interfaces and the execution router\<close>

text \<open>
  The adapter contracts of \<open>packages/adapters/src/index.ts\<close> as records of effectful operations
  over an abstract world (the engines are services; nothing about them is assumed), the
  not-configured stand-ins of \<open>fakes.ts\<close>, and \<open>execution-router.ts\<close>: the uniform deployment
  port over a container or a serverless engine.
\<close>

subsection \<open>index.ts\<close>

record adapter_context =
  ac_organizationId :: string
  ac_idempotencyKey :: string
  ac_timeoutMs :: millis

text \<open>The optional, nullable \<open>reason\<close> is \<open>None\<close> both when absent and when null.\<close>

record deployment_state =
  ds_ref :: provider_ref
  ds_status :: engine_status
  ds_url :: "string option"
  ds_reason :: "string option"

record create_application_input =
  ca_name :: string
  ca_gitRepository :: "string option"
  ca_gitBranch :: "string option"
  ca_buildPack :: "string option"
  ca_rootDirectory :: "string option"

record log_page =
  lp_lines :: "string list"
  lp_cursor :: "string option"

record env_var_state =
  ev_key :: string
  ev_value :: string
  ev_isBuildTime :: bool
  ev_engineRef :: "string option"

record env_var_write =
  ew_key :: string
  ew_value :: string
  ew_isBuildTime :: "bool option"

datatype serverless_artifact =
    S3Artifact string string
  | ImageArtifact string

type_synonym ('e, 'a) engine_call = "('e, 'a adapter_result) io"

record 'e serverless_adapter =
  sa_notConfigured :: bool
  sa_createFunction ::
    "adapter_context \<Rightarrow> string \<Rightarrow> serverless_artifact option \<Rightarrow> ('e, operation_ref) engine_call"
  sa_deploy ::
    "adapter_context \<Rightarrow> provider_ref \<Rightarrow> serverless_artifact option \<Rightarrow> bool option \<Rightarrow>
     ('e, operation_ref) engine_call"
  sa_getDeployment :: "adapter_context \<Rightarrow> provider_ref \<Rightarrow> ('e, deployment_state) engine_call"
  sa_deleteFunction :: "adapter_context \<Rightarrow> provider_ref \<Rightarrow> ('e, unit) engine_call"
  sa_getLogs :: "adapter_context \<Rightarrow> provider_ref \<Rightarrow> string option \<Rightarrow> ('e, log_page) engine_call"

record 'e hosting_adapter =
  ha_notConfigured :: bool
  ha_createApplication :: "adapter_context \<Rightarrow> create_application_input \<Rightarrow> ('e, operation_ref) engine_call"
  ha_deploy :: "adapter_context \<Rightarrow> provider_ref \<Rightarrow> ('e, operation_ref) engine_call"
  ha_getDeployment :: "adapter_context \<Rightarrow> provider_ref \<Rightarrow> ('e, deployment_state) engine_call"
  ha_cancelDeployment :: "adapter_context \<Rightarrow> provider_ref \<Rightarrow> ('e, unit) engine_call"
  ha_rollback :: "adapter_context \<Rightarrow> provider_ref \<Rightarrow> string \<Rightarrow> ('e, operation_ref) engine_call"
  ha_getLogs :: "adapter_context \<Rightarrow> provider_ref \<Rightarrow> string option \<Rightarrow> ('e, log_page) engine_call"
  ha_listEnvVars :: "adapter_context \<Rightarrow> provider_ref \<Rightarrow> ('e, env_var_state list) engine_call"
  ha_createEnvVar :: "adapter_context \<Rightarrow> provider_ref \<Rightarrow> env_var_write \<Rightarrow> ('e, env_var_state) engine_call"
  ha_updateEnvVar :: "adapter_context \<Rightarrow> provider_ref \<Rightarrow> env_var_write \<Rightarrow> ('e, env_var_state) engine_call"
  ha_deleteEnvVar :: "adapter_context \<Rightarrow> provider_ref \<Rightarrow> string \<Rightarrow> ('e, unit) engine_call"
  ha_deleteApplication :: "adapter_context \<Rightarrow> provider_ref \<Rightarrow> ('e, unit) engine_call"
  ha_reconcile :: "adapter_context \<Rightarrow> provider_ref \<Rightarrow> ('e, deployment_state) engine_call"

subsection \<open>fakes.ts: engines without credentials\<close>

definition miss :: "string \<Rightarrow> string option \<Rightarrow> ('e, 'a) engine_call" where
  "miss engine hint =
     io_return (AErr NotConfigured
       (engine @ '' is not configured in this deployment.'' @
        (if truthy hint then '' '' @ the hint else [])))"

definition hostingNotConfigured :: "string \<Rightarrow> string option \<Rightarrow> 'e hosting_adapter" where
  "hostingNotConfigured engine hint =
     \<lparr> ha_notConfigured = True,
       ha_createApplication = (\<lambda>_ _. miss engine hint),
       ha_deploy = (\<lambda>_ _. miss engine hint),
       ha_getDeployment = (\<lambda>_ _. miss engine hint),
       ha_cancelDeployment = (\<lambda>_ _. miss engine hint),
       ha_rollback = (\<lambda>_ _ _. miss engine hint),
       ha_getLogs = (\<lambda>_ _ _. miss engine hint),
       ha_listEnvVars = (\<lambda>_ _. miss engine hint),
       ha_createEnvVar = (\<lambda>_ _ _. miss engine hint),
       ha_updateEnvVar = (\<lambda>_ _ _. miss engine hint),
       ha_deleteEnvVar = (\<lambda>_ _ _. miss engine hint),
       ha_deleteApplication = (\<lambda>_ _. miss engine hint),
       ha_reconcile = (\<lambda>_ _. miss engine hint) \<rparr>"

definition serverlessNotConfigured :: "string \<Rightarrow> string option \<Rightarrow> 'e serverless_adapter" where
  "serverlessNotConfigured engine hint =
     \<lparr> sa_notConfigured = True,
       sa_createFunction = (\<lambda>_ _ _. miss engine hint),
       sa_deploy = (\<lambda>_ _ _ _. miss engine hint),
       sa_getDeployment = (\<lambda>_ _. miss engine hint),
       sa_deleteFunction = (\<lambda>_ _. miss engine hint),
       sa_getLogs = (\<lambda>_ _ _. miss engine hint) \<rparr>"

subsection \<open>execution-router.ts\<close>

record target_input =
  ti_name :: string
  ti_gitRepository :: "string option"
  ti_gitBranch :: "string option"
  ti_buildPack :: "string option"
  ti_rootDirectory :: "string option"
  ti_artifact :: "serverless_artifact option"

record 'e deployment_engine =
  de_model :: execution_model
  de_ensureTarget :: "adapter_context \<Rightarrow> target_input \<Rightarrow> ('e, operation_ref) engine_call"
  de_deploy :: "adapter_context \<Rightarrow> provider_ref \<Rightarrow> serverless_artifact option \<Rightarrow> ('e, operation_ref) engine_call"
  de_getDeployment :: "adapter_context \<Rightarrow> provider_ref \<Rightarrow> ('e, deployment_state) engine_call"
  de_getLogs :: "adapter_context \<Rightarrow> provider_ref \<Rightarrow> string option \<Rightarrow> ('e, log_page) engine_call"
  de_rollback :: "adapter_context \<Rightarrow> provider_ref \<Rightarrow> string option \<Rightarrow> ('e, operation_ref) engine_call"
  de_cancel :: "adapter_context \<Rightarrow> provider_ref \<Rightarrow> ('e, unit) engine_call"
  de_destroy :: "adapter_context \<Rightarrow> provider_ref \<Rightarrow> ('e, unit) engine_call"

record 'e router_engines =
  re_hosting :: "'e hosting_adapter"
  re_serverless :: "'e serverless_adapter"

definition unsupported :: "string \<Rightarrow> ('e, 'a) engine_call" where
  "unsupported operation =
     io_return (AErr NotConfigured
       (''The serverless engine has no '' @ operation @
        '': that operation belongs to the container engine, '' @
        ''and this project'' @ [CHR 0x27] @ ''s execution model is serverless.''))"

definition missingArtifact :: "string \<Rightarrow> ('e, 'a) engine_call" where
  "missingArtifact action =
     io_return (AErr NotConfigured
       (''This project runs serverless, and '' @ action @
        '' needs a built artifact (an S3 object or an ECR image). '' @
        ''None reached the deploy, so the step is not performed rather than faked.''))"

text \<open>A conditional spread \<open>...(x ? { f: x } : {})\<close> drops an empty string as well as null.\<close>

definition if_truthy :: "string option \<Rightarrow> string option" where
  "if_truthy x = (if truthy x then x else None)"

definition containerDeploymentEngine :: "'e hosting_adapter \<Rightarrow> 'e deployment_engine" where
  "containerDeploymentEngine hosting =
     \<lparr> de_model = Container,
       de_ensureTarget = (\<lambda>ctx inp. ha_createApplication hosting ctx
         \<lparr> ca_name = ti_name inp, ca_gitRepository = if_truthy (ti_gitRepository inp),
           ca_gitBranch = if_truthy (ti_gitBranch inp), ca_buildPack = if_truthy (ti_buildPack inp),
           ca_rootDirectory = if_truthy (ti_rootDirectory inp) \<rparr>),
       de_deploy = (\<lambda>ctx ref _. ha_deploy hosting ctx ref),
       de_getDeployment = ha_getDeployment hosting,
       de_getLogs = ha_getLogs hosting,
       de_rollback = (\<lambda>ctx ref commit.
         if truthy commit then ha_rollback hosting ctx ref (the commit)
         else io_return (AErr NotConfigured
                ''A rollback needs the git revision to return to, and none was resolved.'')),
       de_cancel = ha_cancelDeployment hosting,
       de_destroy = ha_deleteApplication hosting \<rparr>"

definition serverlessDeploymentEngine :: "'e serverless_adapter \<Rightarrow> 'e deployment_engine" where
  "serverlessDeploymentEngine serverless =
     \<lparr> de_model = Serverless,
       de_ensureTarget = (\<lambda>ctx inp. sa_createFunction serverless ctx (ti_name inp) (ti_artifact inp)),
       de_deploy = (\<lambda>ctx ref artifact.
         case artifact of
           None \<Rightarrow> missingArtifact ''publishing new code''
         | Some a \<Rightarrow> sa_deploy serverless ctx ref (Some a) (Some True)),
       de_getDeployment = sa_getDeployment serverless,
       de_getLogs = sa_getLogs serverless,
       de_rollback = (\<lambda>_ _ _. unsupported ''rollback''),
       de_cancel = (\<lambda>_ _. unsupported ''cancel''),
       de_destroy = sa_deleteFunction serverless \<rparr>"

definition notConfiguredServerless :: "'e serverless_adapter \<Rightarrow> 'e deployment_engine" where
  "notConfiguredServerless serverless =
     \<lparr> de_model = Serverless,
       de_ensureTarget = (\<lambda>ctx inp. sa_createFunction serverless ctx (ti_name inp) (ti_artifact inp)),
       de_deploy = (\<lambda>ctx ref artifact. sa_deploy serverless ctx ref artifact None),
       de_getDeployment = sa_getDeployment serverless,
       de_getLogs = sa_getLogs serverless,
       de_rollback = (\<lambda>ctx ref _. sa_deploy serverless ctx ref None None),
       de_cancel = (\<lambda>ctx ref. sa_deleteFunction serverless ctx ref),
       de_destroy = (\<lambda>ctx ref. sa_deleteFunction serverless ctx ref) \<rparr>"

definition configured :: "bool \<Rightarrow> bool" where
  "configured brand \<longleftrightarrow> \<not> brand"

definition deploymentEngineFor :: "('e, 'z) router_engines_scheme \<Rightarrow> execution_model \<Rightarrow> 'e deployment_engine" where
  "deploymentEngineFor engines model =
     (if model = Serverless
      then if configured (sa_notConfigured (re_serverless engines))
           then serverlessDeploymentEngine (re_serverless engines)
           else notConfiguredServerless (re_serverless engines)
      else containerDeploymentEngine (re_hosting engines))"

subsection \<open>What a deployment may rely on\<close>

text \<open>
  The contract of a deployment port that the executor relies on: a rollback with no revision to
  return to is refused without touching the engine.
\<close>

locale deployment_port =
  fixes engine :: "'e deployment_engine"
  assumes rollback_needs_commit:
    "\<not> truthy commit \<Longrightarrow> \<exists>reason. de_rollback engine ctx ref commit w = (Inr (AErr NotConfigured reason), w)"
begin

lemma rollback_without_commit_not_ok:
  "\<not> truthy commit \<Longrightarrow> de_rollback engine ctx ref commit w = (Inr r, w') \<Longrightarrow> \<not> result_ok r \<and> w' = w"
  using rollback_needs_commit [of commit ctx ref w] by auto

end

interpretation container: deployment_port "containerDeploymentEngine hosting"
  by unfold_locales (simp add: containerDeploymentEngine_def io_return_apply)

interpretation serverless: deployment_port "serverlessDeploymentEngine adapter"
  by unfold_locales (simp add: serverlessDeploymentEngine_def unsupported_def io_return_apply)

interpretation unconfigured: deployment_port
  "notConfiguredServerless (serverlessNotConfigured engine hint)"
  by unfold_locales
    (simp add: notConfiguredServerless_def serverlessNotConfigured_def miss_def io_return_apply)

lemma deploymentEngineFor_cases:
  obtains "deploymentEngineFor engines model = containerDeploymentEngine (re_hosting engines)"
      "model = Container"
  | "deploymentEngineFor engines model = serverlessDeploymentEngine (re_serverless engines)"
      "model = Serverless" "\<not> sa_notConfigured (re_serverless engines)"
  | "deploymentEngineFor engines model = notConfiguredServerless (re_serverless engines)"
      "model = Serverless" "sa_notConfigured (re_serverless engines)"
  by (cases model) (auto simp: deploymentEngineFor_def configured_def)

text \<open>
  A project whose execution model is serverless can never reach the container engine, and
  without credentials nothing is performed for it: every operation of its port answers
  \<open>not_configured\<close> and leaves the world as it is, whatever the container engine is.
\<close>

theorem unconfigured_serverless_performs_nothing:
  "let port = deploymentEngineFor \<lparr> re_hosting = hosting,
                re_serverless = serverlessNotConfigured engine hint \<rparr> Serverless
   in \<exists>reason.
        de_ensureTarget port ctx inp w = (Inr (AErr NotConfigured reason), w) \<and>
        de_deploy port ctx ref artifact w = (Inr (AErr NotConfigured reason), w) \<and>
        de_getDeployment port ctx ref w = (Inr (AErr NotConfigured reason), w) \<and>
        de_getLogs port ctx ref cursor w = (Inr (AErr NotConfigured reason), w) \<and>
        de_rollback port ctx ref commit w = (Inr (AErr NotConfigured reason), w) \<and>
        de_cancel port ctx ref w = (Inr (AErr NotConfigured reason), w) \<and>
        de_destroy port ctx ref w = (Inr (AErr NotConfigured reason), w)"
  unfolding Let_def
  by (simp add: deploymentEngineFor_def configured_def serverlessNotConfigured_def
                notConfiguredServerless_def miss_def io_return_apply)

text \<open>
  A configured serverless engine is not asked for what it does not have: a deploy without
  built code, a rollback and a cancellation are refused with \<open>not_configured\<close> without a call, and
  a deploy with code publishes exactly that code.
\<close>

theorem serverless_port_refuses_what_it_lacks:
  assumes "\<not> sa_notConfigured (re_serverless engines)"
  shows "(\<exists>reason. de_deploy (deploymentEngineFor engines Serverless) ctx ref None w =
            (Inr (AErr NotConfigured reason), w)) \<and>
         (\<exists>reason. de_rollback (deploymentEngineFor engines Serverless) ctx ref commit w =
            (Inr (AErr NotConfigured reason), w)) \<and>
         (\<exists>reason. de_cancel (deploymentEngineFor engines Serverless) ctx ref w =
            (Inr (AErr NotConfigured reason), w)) \<and>
         de_deploy (deploymentEngineFor engines Serverless) ctx ref (Some a) w =
           sa_deploy (re_serverless engines) ctx ref (Some a) (Some True) w"
  using assms
  by (simp add: deploymentEngineFor_def configured_def serverlessDeploymentEngine_def
                missingArtifact_def unsupported_def io_return_apply)

definition sample_serverless :: "nat serverless_adapter" where
  "sample_serverless =
     (serverlessNotConfigured ''lambda'' None)\<lparr> sa_notConfigured := False,
       sa_deploy := (\<lambda>ctx ref a p w. (Inr (AErr Failed ''no such function''), w + 1)) \<rparr>"

theorem serverless_port_refuses_what_it_lacks_witness:
  "\<exists>reason. de_rollback (deploymentEngineFor
      \<lparr> re_hosting = hostingNotConfigured ''coolify'' None, re_serverless = sample_serverless \<rparr> Serverless)
      \<lparr> ac_organizationId = ''o'', ac_idempotencyKey = ''k'', ac_timeoutMs = 1 \<rparr>
      \<lparr> ref_organizationId = ''o'', ref_provider = ''lambda'', ref_resourceType = ''function'',
        ref_resourceId = ''f'' \<rparr> (Some ''abc'') (0 :: nat) = (Inr (AErr NotConfigured reason), 0)"
  using serverless_port_refuses_what_it_lacks
    [of "\<lparr> re_hosting = hostingNotConfigured ''coolify'' None, re_serverless = sample_serverless \<rparr>"]
  by (simp add: sample_serverless_def)

end
