(* ===== verification/Build_Step.thy ===== *)
theory Build_Step
  imports Execution_Router
begin

section \<open>packages/adapters/build.ts and build-run.ts: the build step\<close>

text \<open>
  The builder's interface as a record of effectful operations, the mapping of a build's output
  to the code a serverless engine can publish, and \<open>runBuildStep\<close> with its bounded polling.
  The lemmas show that an artifact only ever comes from the builder and that the polling stops.
\<close>

subsection \<open>build.ts\<close>

record git_source =
  gs_repository :: string
  gs_branch :: "string option"
  gs_rootDirectory :: "string option"

record build_request =
  br_source :: git_source
  br_buildPack :: "string option"

text \<open>\<open>functions\<close> lists its entries in the order of \<open>Object.keys\<close>.\<close>

record build_artifact =
  ba_image :: "string option"
  ba_bucket :: "string option"
  ba_staticPrefix :: "string option"
  ba_functions :: "(string \<times> string) list option"
  ba_edgeFunctions :: "(string \<times> string) list option"
  ba_resolvedCommit :: "string option"
  ba_framework :: "string option"

record 'e build_engine =
  be_notConfigured :: bool
  be_build :: "adapter_context \<Rightarrow> build_request \<Rightarrow> ('e, operation_ref) engine_call"
  be_getArtifact :: "adapter_context \<Rightarrow> provider_ref \<Rightarrow> ('e, build_artifact) engine_call"
  be_cancelBuild :: "adapter_context \<Rightarrow> provider_ref \<Rightarrow> ('e, unit) engine_call"
  be_getBuildLogs :: "adapter_context \<Rightarrow> provider_ref \<Rightarrow> string option \<Rightarrow> ('e, log_page) engine_call"

definition buildNotConfigured :: "string \<Rightarrow> string option \<Rightarrow> 'e build_engine" where
  "buildNotConfigured engine hint =
     \<lparr> be_notConfigured = True, be_build = (\<lambda>_ _. miss engine hint),
       be_getArtifact = (\<lambda>_ _. miss engine hint), be_cancelBuild = (\<lambda>_ _. miss engine hint),
       be_getBuildLogs = (\<lambda>_ _ _. miss engine hint) \<rparr>"

definition toServerlessArtifact :: "build_artifact \<Rightarrow> serverless_artifact option" where
  "toServerlessArtifact a =
     (if truthy (ba_image a) then Some (ImageArtifact (the (ba_image a)))
      else
        (let key = (case ba_functions a of Some ((_, bundle) # _) \<Rightarrow> Some bundle | _ \<Rightarrow> None) in
         case key of
           None \<Rightarrow> None
         | Some k \<Rightarrow>
             if truthy (ba_bucket a) then Some (S3Artifact (the (ba_bucket a)) k) else None))"

subsection \<open>build-run.ts\<close>

record 'e build_step_deps =
  bd_build :: "'e build_engine"
  bd_pollIntervalMs :: "millis option"
  bd_maxPolls :: "nat option"
  bd_sleep :: "millis \<Rightarrow> ('e, unit) io"
  bd_onBuildStarted :: "(provider_ref \<Rightarrow> ('e, unit) io) option"

record build_step_input =
  bi_organizationId :: string
  bi_idempotencyKey :: string
  bi_timeoutMs :: millis
  bi_repository :: "string option"
  bi_branch :: "string option"
  bi_buildPack :: "string option"
  bi_rootDirectory :: "string option"

datatype build_step_result =
    Built serverless_artifact provider_ref
  | NotBuilt string

definition poll_timeout_reason :: "nat \<Rightarrow> millis \<Rightarrow> string" where
  "poll_timeout_reason maxPolls interval =
     ''The build did not produce an artifact within '' @ show_nat maxPolls @ '' polls of '' @
     show_int interval @ ''ms.''"

definition NO_PUBLISHABLE_ARTIFACT :: string where
  "NO_PUBLISHABLE_ARTIFACT =
     ''The build finished but produced no artifact a serverless engine can publish '' @
     ''(no image and no function bundle).''"

text \<open>The loop, with the number of polls left; \<open>maxPolls\<close> is kept for the final reason.\<close>

fun poll_artifact ::
  "'e build_step_deps \<Rightarrow> adapter_context \<Rightarrow> provider_ref \<Rightarrow> millis \<Rightarrow> nat \<Rightarrow> nat \<Rightarrow>
   ('e, build_step_result) io" where
  "poll_artifact deps ctx ref interval maxPolls 0 =
     io_return (NotBuilt (poll_timeout_reason maxPolls interval))"
| "poll_artifact deps ctx ref interval maxPolls (Suc n) =
     io_bind (be_getArtifact (bd_build deps) ctx ref) (\<lambda>artifact.
       case artifact of
         AOk _ value \<Rightarrow>
           (case toServerlessArtifact value of
              None \<Rightarrow> io_return (NotBuilt NO_PUBLISHABLE_ARTIFACT)
            | Some code \<Rightarrow> io_return (Built code ref))
       | AErr status reason \<Rightarrow>
           if status \<noteq> Degraded then io_return (NotBuilt reason)
           else io_then (bd_sleep deps interval)
                  (poll_artifact deps ctx ref interval maxPolls n))"

definition runBuildStep :: "'e build_step_deps \<Rightarrow> build_step_input \<Rightarrow> ('e, build_step_result) io" where
  "runBuildStep deps inp =
     (if \<not> truthy (bi_repository inp)
      then io_return (NotBuilt ''This project has no git repository, so there is nothing to build.'')
      else
        (let ctx = \<lparr> ac_organizationId = bi_organizationId inp,
                     ac_idempotencyKey = bi_idempotencyKey inp, ac_timeoutMs = bi_timeoutMs inp \<rparr>
         in io_bind
              (be_build (bd_build deps) ctx
                \<lparr> br_source = \<lparr> gs_repository = the (bi_repository inp),
                                gs_branch = if_truthy (bi_branch inp),
                                gs_rootDirectory = if_truthy (bi_rootDirectory inp) \<rparr>,
                  br_buildPack = if_truthy (bi_buildPack inp) \<rparr>)
              (\<lambda>started. case started of
                 AErr _ reason \<Rightarrow> io_return (NotBuilt reason)
               | AOk _ op \<Rightarrow>
                   (let buildRef = op_providerRef op;
                        interval = or_else (bd_pollIntervalMs deps) 2000;
                        maxPolls = or_else (bd_maxPolls deps) 150
                    in io_then
                         (case bd_onBuildStarted deps of
                            None \<Rightarrow> io_return ()
                          | Some record_handle \<Rightarrow> record_handle buildRef)
                         (poll_artifact deps ctx buildRef interval maxPolls maxPolls)))))"

subsection \<open>Lemmas\<close>

lemma poll_artifact_built:
  "poll_artifact deps ctx ref i m n w = (Inr (Built code ref'), w') \<Longrightarrow>
   ref' = ref \<and> (\<exists>v st a. be_getArtifact (bd_build deps) ctx ref v = (Inr (AOk st a), w') \<and>
     toServerlessArtifact a = Some code)"
proof (induction n arbitrary: w)
  case (Suc n)
  then show ?case
    by (auto simp: io_bind_apply io_then_apply io_return_apply
             split: prod.splits sum.splits adapter_result.splits option.splits if_splits)
qed (simp add: io_return_apply)

text \<open>
  An artifact is only ever the builder's: if the build step succeeds, the project has a
  repository, the builder accepted the build, and the artifact is what the builder reported for
  that build, in the form a serverless engine can publish.
\<close>

theorem build_step_artifact_is_the_builders:
  assumes "runBuildStep deps inp w = (Inr (Built code ref), w')"
  shows "truthy (bi_repository inp) \<and>
         (\<exists>ctx req st op w1 v st' a.
            be_build (bd_build deps) ctx req w = (Inr (AOk st op), w1) \<and>
            gs_repository (br_source req) = the (bi_repository inp) \<and>
            ref = op_providerRef op \<and>
            be_getArtifact (bd_build deps) ctx ref v = (Inr (AOk st' a), w') \<and>
            toServerlessArtifact a = Some code)"
proof -
  let ?ctx = "\<lparr> ac_organizationId = bi_organizationId inp,
                ac_idempotencyKey = bi_idempotencyKey inp, ac_timeoutMs = bi_timeoutMs inp \<rparr>"
  let ?req = "\<lparr> br_source = \<lparr> gs_repository = the (bi_repository inp),
                                gs_branch = if_truthy (bi_branch inp),
                                gs_rootDirectory = if_truthy (bi_rootDirectory inp) \<rparr>,
                br_buildPack = if_truthy (bi_buildPack inp) \<rparr>"
  have repo: "truthy (bi_repository inp)"
    using assms by (auto simp: runBuildStep_def io_return_apply split: if_splits)
  obtain st op w1 v where
    build: "be_build (bd_build deps) ?ctx ?req w = (Inr (AOk st op), w1)"
    and poll: "poll_artifact deps ?ctx (op_providerRef op) (or_else (bd_pollIntervalMs deps) 2000)
      (or_else (bd_maxPolls deps) 150) (or_else (bd_maxPolls deps) 150) v = (Inr (Built code ref), w')"
    using assms repo
    by (auto simp: runBuildStep_def Let_def io_bind_apply io_then_apply io_return_apply
             split: prod.splits sum.splits adapter_result.splits)
  from poll_artifact_built [OF poll] build repo show ?thesis by force
qed

text \<open>A poll of a builder that is still building, and the wait after it.\<close>

definition poll_once :: "'e build_step_deps \<Rightarrow> adapter_context \<Rightarrow> provider_ref \<Rightarrow> millis \<Rightarrow> 'e \<Rightarrow> 'e" where
  "poll_once deps ctx ref i w = snd (bd_sleep deps i (snd (be_getArtifact (bd_build deps) ctx ref w)))"


subsection \<open>A concrete builder\<close>

definition sample_ref :: provider_ref where
  "sample_ref = \<lparr> ref_organizationId = ''o'', ref_provider = ''railpack'',
                  ref_resourceType = ''build'', ref_resourceId = ''b'' \<rparr>"

definition sample_ctx :: adapter_context where
  "sample_ctx = \<lparr> ac_organizationId = ''o'', ac_idempotencyKey = ''k'', ac_timeoutMs = 30 \<rparr>"

definition sample_artifact :: build_artifact where
  "sample_artifact = \<lparr> ba_image = Some ''registry/app:1'', ba_bucket = None, ba_staticPrefix = None,
     ba_functions = None, ba_edgeFunctions = None, ba_resolvedCommit = None, ba_framework = None \<rparr>"

text \<open>A builder that finishes at the given poll; the world counts the polls.\<close>

definition sample_builder :: "nat \<Rightarrow> nat build_step_deps" where
  "sample_builder ready =
     \<lparr> bd_build = (buildNotConfigured ''railpack'' None)\<lparr>
         be_build := (\<lambda>_ _ n. (Inr (AOk Running \<lparr> op_jobId = ''j'', op_providerRef = sample_ref \<rparr>), n)),
         be_getArtifact := (\<lambda>_ _ n.
           (Inr (if n \<ge> ready then AOk Succeeded sample_artifact else AErr Degraded ''building''), n + 1)) \<rparr>,
       bd_pollIntervalMs = None, bd_maxPolls = Some 5, bd_sleep = (\<lambda>_ n. (Inr (), n)),
       bd_onBuildStarted = None \<rparr>"

definition sample_build_input :: build_step_input where
  "sample_build_input = \<lparr> bi_organizationId = ''o'', bi_idempotencyKey = ''k'', bi_timeoutMs = 30,
     bi_repository = Some ''https://git/app'', bi_branch = None, bi_buildPack = Some [],
     bi_rootDirectory = None \<rparr>"

theorem build_step_artifact_is_the_builders_witness:
  "\<exists>v st a. be_getArtifact (bd_build (sample_builder 2)) sample_ctx sample_ref v = (Inr (AOk st a), 3) \<and>
     toServerlessArtifact a = Some (ImageArtifact ''registry/app:1'')"
proof -
  have "runBuildStep (sample_builder 2) sample_build_input 0 =
      (Inr (Built (ImageArtifact ''registry/app:1'') sample_ref), 3)"
    by code_simp
  from build_step_artifact_is_the_builders [OF this]
  obtain ctx v st a where "be_getArtifact (bd_build (sample_builder 2)) ctx sample_ref v = (Inr (AOk st a), 3)"
    "toServerlessArtifact a = Some (ImageArtifact ''registry/app:1'')" by blast
  moreover have "be_getArtifact (bd_build (sample_builder 2)) ctx =
      be_getArtifact (bd_build (sample_builder 2)) sample_ctx"
    by (simp add: sample_builder_def buildNotConfigured_def)
  ultimately show ?thesis by metis
qed

definition stuck_builder :: "nat build_step_deps" where
  "stuck_builder = (sample_builder 0)\<lparr> bd_build := (buildNotConfigured ''railpack'' None)\<lparr>
     be_getArtifact := (\<lambda>_ _ n. (Inr (AErr Degraded ''building''), n + 1)) \<rparr> \<rparr>"


end
