(* ===== verification/Deployment_Executor.thy ===== *)
theory Deployment_Executor
  imports Build_Step Control_Plane
begin

section \<open>apps/worker/deployment-executor.ts: one deployment job\<close>

text \<open>
  \<open>executeDeployment\<close>: resolve the application, poll a build already in flight, roll back, or
  create the target if there is none, push the environment, build for a serverless engine,
  deploy, and read the engine's state back.  The store is the port \<open>execution_writes\<close>, the
  engines are the records of \<open>Execution_Router\<close> and \<open>Build_Step\<close>; \<open>worker_writes\<close> is the port as
  \<open>apps/worker/runtime.ts\<close> wires it, over a world whose first part is the control plane.
\<close>

subsection \<open>Ports, input and result\<close>

record stored_handle =
  sh_status :: engine_status
  sh_providerResourceId :: "string option"
  sh_deploymentResourceId :: "string option"

record in_flight_mark =
  fm_organizationId :: string
  fm_deploymentId :: string
  fm_status :: engine_status
  fm_providerResourceId :: "string option"
  fm_deploymentResourceId :: "string option"

record 'e execution_writes =
  xw_getProjectDeploymentTarget :: "string \<Rightarrow> string \<Rightarrow> ('e, deployment_target option) io"
  xw_setProjectProviderResource :: "string \<Rightarrow> string \<Rightarrow> string \<Rightarrow> string \<Rightarrow> ('e, unit) io"
  xw_getPreviewTarget :: "string \<Rightarrow> string \<Rightarrow> string \<Rightarrow> ('e, preview_target option) io"
  xw_setPreviewTargetProvider :: "string \<Rightarrow> string \<Rightarrow> string \<Rightarrow> string \<Rightarrow> string \<Rightarrow> ('e, unit) io"
  xw_getDeployment :: "(string \<Rightarrow> string \<Rightarrow> ('e, stored_handle option) io) option"
  xw_markDeploymentInFlight :: "(in_flight_mark \<Rightarrow> ('e, unit) io) option"
  xw_markDeploymentBuildHandle :: "(string \<Rightarrow> string \<Rightarrow> string \<Rightarrow> string \<Rightarrow> ('e, unit) io) option"
  xw_listEnvironments :: "(string \<Rightarrow> string \<Rightarrow> ('e, environment_row list) io) option"

type_synonym 'e env_var_sync = "adapter_context \<Rightarrow> provider_ref \<Rightarrow> string \<Rightarrow> string \<Rightarrow> ('e, unit) io"

record 'e engines = "'e router_engines" +
  eg_build :: "'e build_engine"

record 'e executor_deps =
  xd_engines :: "'e engines"
  xd_writes :: "'e execution_writes"
  xd_envVars :: "'e env_var_sync option"
  xd_sleep :: "millis \<Rightarrow> ('e, unit) io"

record execute_input =
  xi_organizationId :: string
  xi_projectId :: string
  xi_projectSlug :: string
  xi_deploymentId :: string
  xi_idempotencyKey :: string
  xi_action :: job_action
  xi_gitRepository :: "string option"
  xi_gitBranch :: "string option"
  xi_buildPack :: "string option"
  xi_rootDirectory :: "string option"
  xi_commit :: "string option"
  xi_timeoutMs :: millis
  xi_kind :: build_kind
  xi_previewKey :: "string option"
  xi_environmentId :: "string option"

record execution_result =
  xr_status :: engine_status
  xr_url :: "string option"
  xr_providerResourceId :: "string option"
  xr_deploymentResourceId :: "string option"
  xr_buildProviderResourceId :: "string option"
  xr_buildProvider :: "string option"
  xr_reason :: "string option"

definition refused :: "engine_status \<Rightarrow> string option \<Rightarrow> string option \<Rightarrow> execution_result" where
  "refused status providerResourceId reason =
     \<lparr> xr_status = status, xr_url = None, xr_providerResourceId = providerResourceId,
       xr_deploymentResourceId = None, xr_buildProviderResourceId = None, xr_buildProvider = None,
       xr_reason = reason \<rparr>"

definition adapter_ctx :: "execute_input \<Rightarrow> adapter_context" where
  "adapter_ctx i = \<lparr> ac_organizationId = xi_organizationId i,
                     ac_idempotencyKey = xi_idempotencyKey i, ac_timeoutMs = xi_timeoutMs i \<rparr>"

subsection \<open>Resolving the application\<close>

definition is_preview :: "execute_input \<Rightarrow> bool" where
  "is_preview i \<longleftrightarrow> xi_kind i = Preview \<and> xi_previewKey i \<noteq> None"

definition application_ref :: "string \<Rightarrow> string option \<Rightarrow> string option \<Rightarrow> provider_ref option" where
  "application_ref organizationId provider resourceId =
     (if truthy resourceId
      then Some \<lparr> ref_organizationId = organizationId, ref_provider = or_else provider ''coolify'',
                  ref_resourceType = ''application'', ref_resourceId = the resourceId \<rparr>
      else None)"

definition resolveApplication ::
  "'e executor_deps \<Rightarrow> execute_input \<Rightarrow> deployment_target option \<Rightarrow>
   ('e, execution_model \<times> provider_ref option) io" where
  "resolveApplication deps i target =
     (if is_preview i
      then io_bind (xw_getPreviewTarget (xd_writes deps) (xi_organizationId i) (xi_projectId i)
                      (the (xi_previewKey i))) (\<lambda>preview.
             io_return (Container,
               case preview of
                 None \<Rightarrow> None
               | Some t \<Rightarrow> application_ref (xi_organizationId i) (pt_provider t) (pt_providerResourceId t)))
      else io_return
             (case target of
                None \<Rightarrow> (Container, None)
              | Some t \<Rightarrow> (dt_executionModel t,
                           application_ref (xi_organizationId i) (dt_provider t) (dt_providerResourceId t))))"

subsection \<open>Resuming, confirming, rolling back\<close>

definition resumeRunningDeployment ::
  "'e executor_deps \<Rightarrow> 'e deployment_engine \<Rightarrow> execute_input \<Rightarrow> provider_ref option \<Rightarrow>
   ('e, execution_result option) io" where
  "resumeRunningDeployment deps engine i application =
     (case xw_getDeployment (xd_writes deps) of
        None \<Rightarrow> io_return None
      | Some read \<Rightarrow>
          io_bind (read (xi_organizationId i) (xi_deploymentId i)) (\<lambda>found.
            case found of
              None \<Rightarrow> io_return None
            | Some stored \<Rightarrow>
                (case sh_deploymentResourceId stored of
                   None \<Rightarrow> io_return None
                 | Some handle \<Rightarrow>
                     if sh_status stored \<noteq> Running \<and> sh_status stored \<noteq> Pending then io_return None
                     else
                       (let ref = \<lparr> ref_organizationId = xi_organizationId i,
                                    ref_provider = (case application of None \<Rightarrow> ''coolify''
                                                                      | Some a \<Rightarrow> ref_provider a),
                                    ref_resourceType = ''deployment'', ref_resourceId = handle \<rparr>
                        in io_bind (de_getDeployment engine (adapter_ctx i) ref) (\<lambda>state.
                             io_return (Some
                               (case state of
                                  AErr status reason \<Rightarrow>
                                    (refused status (sh_providerResourceId stored) (Some reason))
                                      \<lparr> xr_deploymentResourceId := Some handle \<rparr>
                                | AOk _ value \<Rightarrow>
                                    (refused (ds_status value) (sh_providerResourceId stored) (ds_reason value))
                                      \<lparr> xr_url := ds_url value, xr_deploymentResourceId := Some handle \<rparr>)))))))"

definition build_handle :: "provider_ref option \<Rightarrow> execution_result \<Rightarrow> execution_result" where
  "build_handle buildRef r =
     (case buildRef of
        None \<Rightarrow> r\<lparr> xr_buildProviderResourceId := None, xr_buildProvider := None \<rparr>
      | Some b \<Rightarrow> r\<lparr> xr_buildProviderResourceId := Some (ref_resourceId b),
                     xr_buildProvider := Some (ref_provider b) \<rparr>)"

definition confirm ::
  "'e executor_deps \<Rightarrow> 'e deployment_engine \<Rightarrow> operation_ref adapter_result \<Rightarrow> string option \<Rightarrow>
   execute_input \<Rightarrow> provider_ref option \<Rightarrow> ('e, execution_result) io" where
  "confirm deps engine action providerResourceId i buildRef =
     (case action of
        AErr status reason \<Rightarrow>
          io_return (build_handle buildRef (refused status providerResourceId (Some reason)))
      | AOk actionStatus op \<Rightarrow>
          (let ref = op_providerRef op;
               resolvedId = or_else providerResourceId (ref_resourceId ref);
               deploymentResourceId =
                 (if ref_resourceType ref = ''deployment'' then Some (ref_resourceId ref) else None)
           in io_then
                (case (deploymentResourceId, xw_markDeploymentInFlight (xd_writes deps)) of
                   (Some h, Some mark) \<Rightarrow>
                     mark \<lparr> fm_organizationId = xi_organizationId i, fm_deploymentId = xi_deploymentId i,
                            fm_status = actionStatus, fm_providerResourceId = Some resolvedId,
                            fm_deploymentResourceId = Some h \<rparr>
                 | _ \<Rightarrow> io_return ())
                (io_bind (de_getDeployment engine (adapter_ctx i) ref) (\<lambda>state.
                   let (status, url, reason) =
                     (case state of
                        AErr _ _ \<Rightarrow> (actionStatus, None, None)
                      | AOk _ value \<Rightarrow>
                          (ds_status value, ds_url value,
                           if ds_status value \<noteq> Succeeded \<and> ds_status value \<noteq> Running \<and>
                              ds_status value \<noteq> Pending
                           then ds_reason value else None))
                   in io_return (build_handle buildRef
                        ((refused status (Some resolvedId) reason)
                           \<lparr> xr_url := url, xr_deploymentResourceId := deploymentResourceId \<rparr>))))))"

definition NOTHING_TO_ROLL_BACK :: string where
  "NOTHING_TO_ROLL_BACK =
     ''This project has no application on the hosting engine yet, so there is nothing to roll back.''"

definition rollback ::
  "'e executor_deps \<Rightarrow> 'e deployment_engine \<Rightarrow> execute_input \<Rightarrow> provider_ref option \<Rightarrow>
   ('e, execution_result) io" where
  "rollback deps engine i application =
     (if application = None \<or> \<not> truthy (xi_commit i)
      then io_return (refused NotConfigured (map_option ref_resourceId application)
                        (Some NOTHING_TO_ROLL_BACK))
      else io_bind (de_rollback engine (adapter_ctx i) (the application) (xi_commit i)) (\<lambda>result.
             confirm deps engine result None i None))"

subsection \<open>Creating, building, deploying\<close>

definition defaultEnvironmentIdFor ::
  "'e executor_deps \<Rightarrow> string \<Rightarrow> string \<Rightarrow> ('e, string option) io" where
  "defaultEnvironmentIdFor deps organizationId projectId =
     (case xw_listEnvironments (xd_writes deps) of
        None \<Rightarrow> io_return None
      | Some list_environments \<Rightarrow>
          io_bind (list_environments organizationId projectId) (\<lambda>environments.
            io_return (map_option en_id
              (case find en_isDefault environments of
                 Some e \<Rightarrow> Some e
               | None \<Rightarrow> (case environments of [] \<Rightarrow> None | e # _ \<Rightarrow> Some e)))))"

text \<open>The application to deploy to: the existing one, or the one just created and recorded.\<close>

definition ensureApplication ::
  "'e executor_deps \<Rightarrow> 'e deployment_engine \<Rightarrow> execute_input \<Rightarrow> string option \<Rightarrow> provider_ref option \<Rightarrow>
   ('e, execution_result + provider_ref) io" where
  "ensureApplication deps engine i rootDirectory application =
     (case application of
        Some a \<Rightarrow> io_return (Inr a)
      | None \<Rightarrow>
          io_bind (de_ensureTarget engine (adapter_ctx i)
              \<lparr> ti_name = (if is_preview i
                          then xi_projectSlug i @ ''-'' @ the (xi_previewKey i) else xi_projectSlug i),
                ti_gitRepository = xi_gitRepository i, ti_gitBranch = xi_gitBranch i,
                ti_buildPack = xi_buildPack i, ti_rootDirectory = rootDirectory, ti_artifact = None \<rparr>)
            (\<lambda>created. case created of
               AErr status reason \<Rightarrow> io_return (Inl (refused status None (Some reason)))
             | AOk _ op \<Rightarrow>
                 (let a = op_providerRef op in
                  io_then
                    (if is_preview i
                     then xw_setPreviewTargetProvider (xd_writes deps) (xi_organizationId i)
                            (xi_projectId i) (the (xi_previewKey i)) (ref_provider a) (ref_resourceId a)
                     else xw_setProjectProviderResource (xd_writes deps) (xi_organizationId i)
                            (xi_projectId i) (ref_provider a) (ref_resourceId a))
                    (io_return (Inr a)))))"

definition syncEnvironment ::
  "'e executor_deps \<Rightarrow> 'e deployment_engine \<Rightarrow> execute_input \<Rightarrow> provider_ref \<Rightarrow> ('e, unit) io" where
  "syncEnvironment deps engine i application =
     (case xd_envVars deps of
        None \<Rightarrow> io_return ()
      | Some sync \<Rightarrow>
          if de_model engine \<noteq> Container then io_return ()
          else io_bind
                 (case xi_environmentId i of
                    Some e \<Rightarrow> io_return (Some e)
                  | None \<Rightarrow> defaultEnvironmentIdFor deps (xi_organizationId i) (xi_projectId i))
                 (\<lambda>environmentId.
                    if truthy environmentId
                    then sync (adapter_ctx i) application (xi_projectId i) (the environmentId)
                    else io_return ()))"

definition buildFor ::
  "'e executor_deps \<Rightarrow> 'e deployment_engine \<Rightarrow> execute_input \<Rightarrow> string option \<Rightarrow>
   ('e, (string + serverless_artifact \<times> provider_ref) option) io" where
  "buildFor deps engine i rootDirectory =
     (if de_model engine \<noteq> Serverless then io_return None
      else io_bind
        (runBuildStep
          \<lparr> bd_build = eg_build (xd_engines deps), bd_pollIntervalMs = None, bd_maxPolls = None,
            bd_sleep = xd_sleep deps,
            bd_onBuildStarted = map_option (\<lambda>mark. \<lambda>ref.
              mark (xi_organizationId i) (xi_deploymentId i) (ref_provider ref) (ref_resourceId ref))
              (xw_markDeploymentBuildHandle (xd_writes deps)) \<rparr>
          \<lparr> bi_organizationId = xi_organizationId i, bi_idempotencyKey = xi_idempotencyKey i @ '':build'',
            bi_timeoutMs = xi_timeoutMs i, bi_repository = xi_gitRepository i,
            bi_branch = xi_gitBranch i, bi_buildPack = xi_buildPack i,
            bi_rootDirectory = rootDirectory \<rparr>)
        (\<lambda>built. io_return (Some
          (case built of NotBuilt reason \<Rightarrow> Inl reason | Built artifact ref \<Rightarrow> Inr (artifact, ref)))))"

definition deployTo ::
  "'e executor_deps \<Rightarrow> 'e deployment_engine \<Rightarrow> execute_input \<Rightarrow> string option \<Rightarrow> provider_ref \<Rightarrow>
   ('e, execution_result) io" where
  "deployTo deps engine i rootDirectory application =
     io_then (syncEnvironment deps engine i application)
       (io_bind (buildFor deps engine i rootDirectory) (\<lambda>built.
          case built of
            Some (Inl reason) \<Rightarrow>
              io_return (refused Failed (Some (ref_resourceId application)) (Some reason))
          | Some (Inr (artifact, buildRef)) \<Rightarrow>
              io_bind (de_deploy engine (adapter_ctx i) application (Some artifact)) (\<lambda>deployed.
                confirm deps engine deployed (Some (ref_resourceId application)) i (Some buildRef))
          | None \<Rightarrow>
              io_bind (de_deploy engine (adapter_ctx i) application None) (\<lambda>deployed.
                confirm deps engine deployed (Some (ref_resourceId application)) i None)))"

definition executeDeployment :: "'e executor_deps \<Rightarrow> execute_input \<Rightarrow> ('e, execution_result) io" where
  "executeDeployment deps i =
     io_bind (xw_getProjectDeploymentTarget (xd_writes deps) (xi_organizationId i) (xi_projectId i)) (\<lambda>target.
       let rootDirectory = (case xi_rootDirectory i of
                              Some d \<Rightarrow> Some d
                            | None \<Rightarrow> Option.bind target dt_rootDirectory)
       in io_bind (resolveApplication deps i target) (\<lambda>(model, application).
            let engine = deploymentEngineFor (xd_engines deps) model in
            io_bind (resumeRunningDeployment deps engine i application) (\<lambda>resumed.
              case resumed of
                Some r \<Rightarrow> io_return r
              | None \<Rightarrow>
                  if xi_action i = Rollback then rollback deps engine i application
                  else io_bind (ensureApplication deps engine i rootDirectory application) (\<lambda>ensured.
                         case ensured of
                           Inl r \<Rightarrow> io_return r
                         | Inr a \<Rightarrow> deployTo deps engine i rootDirectory a))))"

subsection \<open>The store as the worker wires it\<close>

definition deploymentWrites :: "(control_plane \<times> 'x) execution_writes" where
  "deploymentWrites =
     \<lparr> xw_getProjectDeploymentTarget = (\<lambda>o' p. on_fst (getProjectDeploymentTargetForService o' p)),
       xw_setProjectProviderResource = (\<lambda>o' p pr res. on_fst (setProjectProviderResource o' p pr res)),
       xw_getPreviewTarget = (\<lambda>o' p k. on_fst (getPreviewTargetForService o' p k)),
       xw_setPreviewTargetProvider = (\<lambda>o' p k pr res. on_fst (setPreviewTargetProvider o' p k pr res)),
       xw_getDeployment = Some (\<lambda>o' d. on_fst (io_bind (getDeploymentForService o' d) (\<lambda>found.
         io_return (map_option (\<lambda>r. \<lparr> sh_status = dr_status r,
           sh_providerResourceId = dr_providerResourceId r,
           sh_deploymentResourceId = dr_deploymentResourceId r \<rparr>) found)))),
       xw_markDeploymentInFlight = Some (\<lambda>m. on_fst (updateDeploymentStatus
         \<lparr> du_id = fm_deploymentId m, du_organizationId = fm_organizationId m, du_status = fm_status m,
           du_url = None, du_failureReason = None, du_providerResourceId = fm_providerResourceId m,
           du_deploymentResourceId = fm_deploymentResourceId m, du_buildProviderResourceId = None,
           du_buildProvider = None, du_startedAt = None, du_finishedAt = None \<rparr>)),
       xw_markDeploymentBuildHandle = Some (\<lambda>o' d provider resourceId. on_fst (updateDeploymentStatus
         \<lparr> du_id = d, du_organizationId = o', du_status = Running, du_url = None,
           du_failureReason = None, du_providerResourceId = None, du_deploymentResourceId = None,
           du_buildProviderResourceId = Some resourceId, du_buildProvider = Some provider,
           du_startedAt = None, du_finishedAt = None \<rparr>)),
       xw_listEnvironments = None \<rparr>"

subsection \<open>Reading the wired store\<close>

definition target_of :: "string \<Rightarrow> string \<Rightarrow> control_plane \<Rightarrow> deployment_target option" where
  "target_of org p s =
     map_option (\<lambda>r. \<lparr> dt_provider = pj_provider r, dt_providerResourceId = pj_providerResourceId r,
                      dt_executionModel = executionModel (pj_executionModel r),
                      dt_rootDirectory = pj_rootDirectory r \<rparr>)
       (find (is_project org p) (cp_projects s))"

definition preview_of :: "string \<Rightarrow> string \<Rightarrow> string \<Rightarrow> control_plane \<Rightarrow> preview_target option" where
  "preview_of org p k s =
     map_option (\<lambda>r. \<lparr> pt_provider = pv_provider r, pt_providerResourceId = pv_providerResourceId r \<rparr>)
       (find (is_preview_of org p k) (cp_previews s))"

definition handle_of :: "deployment_row \<Rightarrow> stored_handle" where
  "handle_of r = \<lparr> sh_status = dr_status r, sh_providerResourceId = dr_providerResourceId r,
                   sh_deploymentResourceId = dr_deploymentResourceId r \<rparr>"

lemma handle_of_sel [simp]:
  "sh_status (handle_of r) = dr_status r"
  "sh_providerResourceId (handle_of r) = dr_providerResourceId r"
  "sh_deploymentResourceId (handle_of r) = dr_deploymentResourceId r"
  by (simp_all add: handle_of_def)

lemma wired_reads:
  assumes "cp_up s"
  shows "xw_getProjectDeploymentTarget deploymentWrites org p (s, x) = (Inr (target_of org p s), (s, x))"
    "xw_getPreviewTarget deploymentWrites org p k (s, x) = (Inr (preview_of org p k s), (s, x))"
  using assms
  by (simp_all add: deploymentWrites_def on_fst_apply getProjectDeploymentTargetForService_def
      getPreviewTargetForService_def target_of_def preview_of_def first_where_def)

text \<open>What the executor resolves from the store: the execution model and the application.\<close>

definition resolved :: "execute_input \<Rightarrow> control_plane \<Rightarrow> execution_model \<times> provider_ref option" where
  "resolved i s =
     (if is_preview i
      then (Container,
            Option.bind (preview_of (xi_organizationId i) (xi_projectId i) (the (xi_previewKey i)) s)
              (\<lambda>t. application_ref (xi_organizationId i) (pt_provider t) (pt_providerResourceId t)))
      else (case target_of (xi_organizationId i) (xi_projectId i) s of
              None \<Rightarrow> (Container, None)
            | Some t \<Rightarrow> (dt_executionModel t,
                         application_ref (xi_organizationId i) (dt_provider t) (dt_providerResourceId t))))"

lemma resolveApplication_wired:
  "cp_up s \<Longrightarrow> xd_writes deps = deploymentWrites \<Longrightarrow>
   resolveApplication deps i (target_of (xi_organizationId i) (xi_projectId i) s) (s, x) =
     (Inr (resolved i s), (s, x))"
  by (auto simp: resolveApplication_def resolved_def wired_reads io_bind_apply io_return_apply
           split: option.split)

definition row_of_input :: "execute_input \<Rightarrow> control_plane \<Rightarrow> deployment_row option" where
  "row_of_input i s = deployment_of (xi_organizationId i) (xi_deploymentId i) s"

definition in_flight :: "deployment_row \<Rightarrow> bool" where
  "in_flight r \<longleftrightarrow> dr_deploymentResourceId r \<noteq> None \<and> (dr_status r = Running \<or> dr_status r = Pending)"

definition run_ref :: "execute_input \<Rightarrow> provider_ref option \<Rightarrow> deployment_row \<Rightarrow> provider_ref" where
  "run_ref i application r =
     \<lparr> ref_organizationId = xi_organizationId i,
       ref_provider = (case application of None \<Rightarrow> ''coolify'' | Some a \<Rightarrow> ref_provider a),
       ref_resourceType = ''deployment'', ref_resourceId = the (dr_deploymentResourceId r) \<rparr>"

fun poll_result :: "deployment_row \<Rightarrow> deployment_state adapter_result \<Rightarrow> execution_result" where
  "poll_result r (AErr status reason) =
     (refused status (dr_providerResourceId r) (Some reason))
       \<lparr> xr_deploymentResourceId := dr_deploymentResourceId r \<rparr>"
| "poll_result r (AOk _ value) =
     (refused (ds_status value) (dr_providerResourceId r) (ds_reason value))
       \<lparr> xr_url := ds_url value, xr_deploymentResourceId := dr_deploymentResourceId r \<rparr>"

lemma resume_wired:
  assumes "cp_up s" "xd_writes deps = deploymentWrites"
  shows "resumeRunningDeployment deps engine i application (s, x) =
    (case row_of_input i s of
       None \<Rightarrow> (Inr None, (s, x))
     | Some r \<Rightarrow>
         if in_flight r
         then io_bind (de_getDeployment engine (adapter_ctx i) (run_ref i application r))
                (\<lambda>state. io_return (Some (poll_result r state))) (s, x)
         else (Inr None, (s, x)))"
proof -
  have read: "the (xw_getDeployment (xd_writes deps)) (xi_organizationId i) (xi_deploymentId i) (s, x) =
      (Inr (map_option handle_of (row_of_input i s)), (s, x))"
    using assms
    by (simp add: deploymentWrites_def on_fst_apply io_bind_apply io_return_apply
        getDeploymentForService_up handle_of_def [abs_def] row_of_input_def)
  have port: "xw_getDeployment (xd_writes deps) = Some (the (xw_getDeployment (xd_writes deps)))"
    using assms by (simp add: deploymentWrites_def)
  have poll: "(case st of
        AErr status reason \<Rightarrow> (refused status (sh_providerResourceId (handle_of r)) (Some reason))
          \<lparr> xr_deploymentResourceId := Some h \<rparr>
      | AOk _ value \<Rightarrow> (refused (ds_status value) (sh_providerResourceId (handle_of r)) (ds_reason value))
          \<lparr> xr_url := ds_url value, xr_deploymentResourceId := Some h \<rparr>) = poll_result r st"
    if "dr_deploymentResourceId r = Some h" for r h st
    using that by (cases st) simp_all
  show ?thesis
  proof (cases "row_of_input i s")
    case None
    with read show ?thesis
      by (subst resumeRunningDeployment_def, subst port) (simp add: io_bind_apply io_return_apply)
  next
    case (Some r)
    show ?thesis
    proof (cases "in_flight r")
      case True
      then obtain h where h: "dr_deploymentResourceId r = Some h" by (auto simp: in_flight_def)
      with True Some read show ?thesis
        by (subst resumeRunningDeployment_def, subst port)
          (auto simp: io_bind_apply io_return_apply Let_def poll in_flight_def run_ref_def
                split: prod.split sum.split)
    next
      case False
      with Some read show ?thesis
        by (subst resumeRunningDeployment_def, subst port)
          (auto simp: io_bind_apply io_return_apply in_flight_def split: option.split)
    qed
  qed
qed

lemma execute_wired:
  assumes "cp_up s" "xd_writes deps = deploymentWrites"
  shows "executeDeployment deps i (s, x) =
    (let (model, application) = resolved i s; engine = deploymentEngineFor (xd_engines deps) model;
         rootDirectory = (case xi_rootDirectory i of Some d \<Rightarrow> Some d
            | None \<Rightarrow> Option.bind (target_of (xi_organizationId i) (xi_projectId i) s) dt_rootDirectory)
     in io_bind (resumeRunningDeployment deps engine i application) (\<lambda>resumed.
              case resumed of
                Some r \<Rightarrow> io_return r
              | None \<Rightarrow>
                  if xi_action i = Rollback then rollback deps engine i application
                  else io_bind (ensureApplication deps engine i rootDirectory application) (\<lambda>ensured.
                         case ensured of
                           Inl r \<Rightarrow> io_return r
                         | Inr a \<Rightarrow> deployTo deps engine i rootDirectory a)) (s, x))"
  using assms resolveApplication_wired [OF assms]
  by (simp add: executeDeployment_def io_bind_apply wired_reads Let_def split: prod.split)

text \<open>
  A redelivered job never starts a second build: when the row says a build is in flight (a
  handle, and a status that is not final), the executor asks the engine for the state of that
  build and does nothing else, whichever action the job is for, and reports what it answers.
\<close>

theorem redelivery_only_polls:
  assumes "cp_up s" "xd_writes deps = deploymentWrites"
    and "row_of_input i s = Some r" "in_flight r"
  shows "executeDeployment deps i (s, x) =
           (case de_getDeployment (deploymentEngineFor (xd_engines deps) (fst (resolved i s)))
                   (adapter_ctx i) (run_ref i (snd (resolved i s)) r) (s, x) of
              (Inl e, w) \<Rightarrow> (Inl e, w)
            | (Inr state, w) \<Rightarrow> (Inr (poll_result r state), w))"
  using assms
  by (simp add: execute_wired resume_wired io_bind_apply io_return_apply Let_def
           split: prod.split sum.split)

subsection \<open>One build for any number of deliveries\<close>

text \<open>
  What the container engine promises: it does not write the control plane, and a run starts
  exactly when \<open>deploy\<close> is accepted, which answers with a handle on the run.  \<open>started\<close> counts the
  runs in the engine's part of the world.
\<close>

definition touches_nothing ::
  "('x \<Rightarrow> nat) \<Rightarrow> (control_plane \<times> 'x, 'a) io \<Rightarrow> bool" where
  "touches_nothing started m \<longleftrightarrow>
     (\<forall>s x. fst (snd (m (s, x))) = s \<and> started (snd (snd (m (s, x)))) = started x)"

definition starts_a_run ::
  "('x \<Rightarrow> nat) \<Rightarrow> (control_plane \<times> 'x, operation_ref adapter_result) io \<Rightarrow> bool" where
  "starts_a_run started m \<longleftrightarrow>
     (\<forall>s x. fst (snd (m (s, x))) = s \<and>
        (case fst (m (s, x)) of
           Inr (AOk st op) \<Rightarrow>
             started (snd (snd (m (s, x)))) = Suc (started x) \<and> (st = Running \<or> st = Pending) \<and>
             ref_resourceType (op_providerRef op) = ''deployment''
         | _ \<Rightarrow> started (snd (snd (m (s, x)))) = started x))"

definition counts_runs ::
  "('x \<Rightarrow> nat) \<Rightarrow> (control_plane \<times> 'x) hosting_adapter \<Rightarrow> bool" where
  "counts_runs started h \<longleftrightarrow>
     (\<forall>ctx inp. touches_nothing started (ha_createApplication h ctx inp)) \<and>
     (\<forall>ctx ref. touches_nothing started (ha_getDeployment h ctx ref)) \<and>
     (\<forall>ctx ref. starts_a_run started (ha_deploy h ctx ref))"

definition sync_is_quiet :: "('x \<Rightarrow> nat) \<Rightarrow> (control_plane \<times> 'x) env_var_sync option \<Rightarrow> bool" where
  "sync_is_quiet started e \<longleftrightarrow>
     (\<forall>sync ctx ref p env. e = Some sync \<longrightarrow> touches_nothing started (sync ctx ref p env))"

fun deliveries :: "nat \<Rightarrow> 'e executor_deps \<Rightarrow> execute_input \<Rightarrow> 'e \<Rightarrow> 'e" where
  "deliveries 0 deps i w = w"
| "deliveries (Suc n) deps i w = deliveries n deps i (snd (executeDeployment deps i w))"

definition ready :: "execute_input \<Rightarrow> control_plane \<Rightarrow> bool" where
  "ready i s \<longleftrightarrow> cp_up s \<and> row_of_input i s \<noteq> None \<and> fst (resolved i s) = Container"

definition flying :: "execute_input \<Rightarrow> control_plane \<Rightarrow> bool" where
  "flying i s \<longleftrightarrow> ready i s \<and> (\<exists>r. row_of_input i s = Some r \<and> in_flight r)"

text \<open>The invariant of a delivery: fewer than \<open>n\<close> runs, or \<open>n\<close> of them and the row is in flight.\<close>

definition at_most_one :: "('x \<Rightarrow> nat) \<Rightarrow> nat \<Rightarrow> execute_input \<Rightarrow> control_plane \<times> 'x \<Rightarrow> bool" where
  "at_most_one started n i w \<longleftrightarrow>
     ready i (fst w) \<and> (started (snd w) < n \<or> started (snd w) = n \<and> flying i (fst w))"

definition none_yet :: "('x \<Rightarrow> nat) \<Rightarrow> nat \<Rightarrow> execute_input \<Rightarrow> control_plane \<times> 'x \<Rightarrow> bool" where
  "none_yet started n i w \<longleftrightarrow> ready i (fst w) \<and> started (snd w) < n"

lemma none_yet_at_most_one: "none_yet started n i w \<Longrightarrow> at_most_one started n i w"
  by (simp add: none_yet_def at_most_one_def)

lemma touches_keeps:
  assumes "touches_nothing started m"
  shows "keeps (none_yet started n i) m" "keeps (at_most_one started n i) m"
  using assms by (auto simp: keeps_def touches_nothing_def none_yet_def at_most_one_def)

lemma touches_nothing_apply:
  "touches_nothing started m \<Longrightarrow> \<exists>r x'. m (s, x) = (r, (s, x')) \<and> started x' = started x"
  unfolding touches_nothing_def by (metis prod.collapse)

definition stored_model :: "execute_input \<Rightarrow> control_plane \<Rightarrow> string option option" where
  "stored_model i s = map_option pj_executionModel
     (find (is_project (xi_organizationId i) (xi_projectId i)) (cp_projects s))"

lemma resolved_model:
  "fst (resolved i s) =
     (if is_preview i then Container
      else case stored_model i s of None \<Rightarrow> Container | Some m \<Rightarrow> executionModel m)"
  by (auto simp: resolved_def target_of_def stored_model_def split: option.split)

lemma ready_set_provider:
  assumes "ready i s"
  shows "ready i (snd (setProjectProviderResource o' p pr res s))"
    "ready i (snd (setPreviewTargetProvider o' p k pr res s))"
proof -
  have up: "cp_up s" using assms by (simp add: ready_def)
  have "stored_model i (snd (setProjectProviderResource o' p pr res s)) = stored_model i s"
    using up by (simp add: stored_model_def setProjectProviderResource_def find_patch_view is_project_def)
  with assms up show "ready i (snd (setProjectProviderResource o' p pr res s))"
    by (auto simp: ready_def resolved_model row_of_input_def deployment_of_def setProjectProviderResource_def
        split: if_splits)
  from assms up show "ready i (snd (setPreviewTargetProvider o' p k pr res s))"
    by (auto simp: ready_def resolved_model row_of_input_def deployment_of_def setPreviewTargetProvider_def
        stored_model_def split: if_splits)
qed

lemma on_fst_none_yet:
  assumes "\<And>s. ready i s \<Longrightarrow> ready i (snd (m s))"
  shows "keeps (none_yet started n i) (on_fst m)"
proof (rule keepsI)
  fix w assume "none_yet started n i w"
  with assms [of "fst w"] show "none_yet started n i (snd (on_fst m w))"
    by (cases w) (auto simp: none_yet_def on_fst_apply split: prod.split)
qed


text \<open>From a state of one kind to a state of another.\<close>

definition leads :: "('w \<Rightarrow> bool) \<Rightarrow> ('w \<Rightarrow> bool) \<Rightarrow> ('w, 'e, 'a) eio \<Rightarrow> bool" where
  "leads P Q m \<longleftrightarrow> (\<forall>w. P w \<longrightarrow> Q (snd (m w)))"

lemma leadsD: "leads P Q m \<Longrightarrow> P w \<Longrightarrow> Q (snd (m w))"
  by (simp add: leads_def)

lemma leads_return: "(\<And>w. P w \<Longrightarrow> Q w) \<Longrightarrow> leads P Q (io_return x)"
  by (simp add: leads_def io_return_apply)

lemma leads_bind:
  assumes "keeps P m" "\<And>w. P w \<Longrightarrow> Q w" "\<And>x. leads P Q (k x)"
  shows "leads P Q (io_bind m k)"
  using assms by (auto simp: leads_def keeps_def io_bind_def split: prod.splits sum.splits)

lemma leads_then:
  "keeps P m \<Longrightarrow> (\<And>w. P w \<Longrightarrow> Q w) \<Longrightarrow> leads P Q n \<Longrightarrow> leads P Q (io_then m n)"
  unfolding io_then_def by (rule leads_bind)

definition wired_for :: "('x \<Rightarrow> nat) \<Rightarrow> (control_plane \<times> 'x) executor_deps \<Rightarrow> bool" where
  "wired_for started deps \<longleftrightarrow> xd_writes deps = deploymentWrites \<and>
     counts_runs started (re_hosting (xd_engines deps)) \<and> sync_is_quiet started (xd_envVars deps)"

abbreviation container_of :: "'e executor_deps \<Rightarrow> 'e deployment_engine" where
  "container_of deps \<equiv> deploymentEngineFor (xd_engines deps) Container"

lemma wired_engine:
  assumes "wired_for started deps"
  shows "touches_nothing started (de_ensureTarget (container_of deps) ctx inp)"
    "touches_nothing started (de_getDeployment (container_of deps) ctx ref)"
    "starts_a_run started (de_deploy (container_of deps) ctx ref a)"
    "de_model (container_of deps) = Container"
  using assms
  by (simp_all add: wired_for_def counts_runs_def deploymentEngineFor_def containerDeploymentEngine_def)

lemma ensure_none_yet:
  assumes "wired_for started deps"
  shows "keeps (none_yet started n i) (ensureApplication deps (container_of deps) i rootDirectory application)"
proof (cases application)
  case (Some a)
  then show ?thesis by (simp add: ensureApplication_def)
next
  case None
  have writes: "xw_setPreviewTargetProvider (xd_writes deps) = (\<lambda>o' p k pr res. on_fst (setPreviewTargetProvider o' p k pr res))"
    "xw_setProjectProviderResource (xd_writes deps) = (\<lambda>o' p pr res. on_fst (setProjectProviderResource o' p pr res))"
    using assms by (simp_all add: wired_for_def deploymentWrites_def)
  have store: "keeps (none_yet started n i) (on_fst (setPreviewTargetProvider o' p k pr res))"
    "keeps (none_yet started n i) (on_fst (setProjectProviderResource o' p pr res))" for o' p k pr res
    by (rule on_fst_none_yet, erule ready_set_provider)+
  show ?thesis
    unfolding ensureApplication_def writes None option.case
    apply (rule keeps_bind, rule touches_keeps, rule wired_engine [OF assms])
    subgoal for created
      by (cases created) (auto simp: Let_def intro!: keeps_then keeps_if store)
    done
qed

lemma sync_none_yet:
  assumes "wired_for started deps"
  shows "keeps (none_yet started n i) (syncEnvironment deps engine i a)"
proof -
  have "xw_listEnvironments (xd_writes deps) = None"
    using assms by (simp add: wired_for_def deploymentWrites_def)
  with assms show ?thesis
    unfolding syncEnvironment_def defaultEnvironmentIdFor_def
    by (auto intro!: keeps_bind touches_keeps simp: wired_for_def sync_is_quiet_def split: option.split)
qed


text \<open>After an accepted deploy the row is marked, so the run it started is the one it names.\<close>

lemma mark_flies:
  assumes "ready i s" "st = Running \<or> st = Pending"
  shows "\<exists>s'. updateDeploymentStatus \<lparr> du_id = xi_deploymentId i,
      du_organizationId = xi_organizationId i, du_status = st, du_url = None, du_failureReason = None,
      du_providerResourceId = pr, du_deploymentResourceId = Some h, du_buildProviderResourceId = None,
      du_buildProvider = None, du_startedAt = None, du_finishedAt = None \<rparr> s = (Inr (), s') \<and> flying i s'"
proof -
  let ?u = "\<lparr> du_id = xi_deploymentId i,
      du_organizationId = xi_organizationId i, du_status = st, du_url = None, du_failureReason = None,
      du_providerResourceId = pr, du_deploymentResourceId = Some h, du_buildProviderResourceId = None,
      du_buildProvider = None, du_startedAt = None, du_finishedAt = None \<rparr>"
  let ?s = "s\<lparr> cp_deployments := patch_where (is_deployment (xi_organizationId i) (xi_deploymentId i))
            (patch_deployment ?u) (cp_deployments s) \<rparr>"
  obtain r where r: "row_of_input i s = Some r" and up: "cp_up s"
    and model: "fst (resolved i s) = Container"
    using assms(1) by (auto simp: ready_def)
  have "row_of_input i ?s = Some (patch_deployment ?u r)"
    using r deployment_of_update [where i = ?u and s = s]
    by (simp add: row_of_input_def)
  moreover have "in_flight (patch_deployment ?u r)"
    using assms(2) by (simp add: in_flight_def patch_deployment_def set_or_leave_def)
  moreover have "resolved i ?s = resolved i s"
    by (simp add: resolved_def target_of_def preview_of_def)
  ultimately have "flying i ?s"
    using up model by (simp add: flying_def ready_def)
  with up show ?thesis by (simp add: updateDeploymentStatus_up)
qed

lemma confirm_world:
  assumes "xw_markDeploymentInFlight (xd_writes deps) = Some mark"
    and "ref_resourceType (op_providerRef op) = ''deployment''"
    and "mark \<lparr> fm_organizationId = xi_organizationId i, fm_deploymentId = xi_deploymentId i, fm_status = st,
           fm_providerResourceId = Some (or_else p (ref_resourceId (op_providerRef op))),
           fm_deploymentResourceId = Some (ref_resourceId (op_providerRef op)) \<rparr> w = (Inr (), w')"
    and "de_getDeployment engine (adapter_ctx i) (op_providerRef op) w' = (state, w'')"
  shows "snd (confirm deps engine (AOk st op) p i b w) = w''"
  using assms
  by (cases state)
    (simp_all add: confirm_def Let_def io_then_apply io_bind_apply io_return_apply split: adapter_result.split)

lemma deploy_confirm_once:
  assumes w: "wired_for started deps"
  shows "leads (none_yet started n i) (at_most_one started n i)
    (io_bind (de_deploy (container_of deps) ctx ref a) (\<lambda>deployed.
       confirm deps (container_of deps) deployed p i b))"
  unfolding leads_def
proof (intro allI impI)
  fix v assume v: "none_yet started n i v"
  obtain s x where sx: "v = (s, x)" by (cases v)
  from v sx have ready: "ready i s" and le: "started x < n" by (simp_all add: none_yet_def)
  have deploy: "starts_a_run started (de_deploy (container_of deps) ctx ref a)"
    by (rule wired_engine [OF w])
  then have "fst (snd (de_deploy (container_of deps) ctx ref a (s, x))) = s"
    unfolding starts_a_run_def by blast
  then obtain r x' where run: "de_deploy (container_of deps) ctx ref a (s, x) = (r, (s, x'))"
    by (cases "de_deploy (container_of deps) ctx ref a (s, x)") auto
  note eff = deploy [unfolded starts_a_run_def, rule_format, of s x, unfolded run, simplified]
  have idle: "at_most_one started n i (s, x')" if "started x' = started x"
    using that ready le by (simp add: at_most_one_def)
  show "at_most_one started n i (snd (io_bind (de_deploy (container_of deps) ctx ref a) (\<lambda>deployed.
       confirm deps (container_of deps) deployed p i b) v))"
  proof (cases "\<exists>st op. r = Inr (AOk st op)")
    case False
    then have "started x' = started x"
      using eff by (auto split: sum.splits adapter_result.splits)
    then show ?thesis
      using False idle sx run
      by (auto simp: io_bind_apply confirm_def io_return_apply split: sum.split adapter_result.split)
  next
    case True
    then obtain st op where r: "r = Inr (AOk st op)" by blast
    with eff have st: "st = Running \<or> st = Pending" and rtype: "ref_resourceType (op_providerRef op) = ''deployment''"
      and more: "started x' = Suc (started x)" by auto
    let ?h = "ref_resourceId (op_providerRef op)"
    from mark_flies [OF ready st, of "Some (or_else p ?h)" ?h] obtain s' where
      s': "updateDeploymentStatus \<lparr> du_id = xi_deploymentId i, du_organizationId = xi_organizationId i,
        du_status = st, du_url = None, du_failureReason = None, du_providerResourceId = Some (or_else p ?h),
        du_deploymentResourceId = Some ?h, du_buildProviderResourceId = None,
      du_buildProvider = None, du_startedAt = None, du_finishedAt = None \<rparr> s = (Inr (), s')"
      and fl: "flying i s'" by blast
    have "touches_nothing started (de_getDeployment (container_of deps) (adapter_ctx i) (op_providerRef op))"
      by (rule wired_engine [OF w])
    then obtain st' x'' where read: "de_getDeployment (container_of deps) (adapter_ctx i) (op_providerRef op) (s', x') = (st', (s', x''))"
      and same: "started x'' = started x'"
      by (blast dest: touches_nothing_apply)
    have "at_most_one started n i (s', x'')"
      using fl same more le by (auto simp: at_most_one_def flying_def)
    moreover have "snd (confirm deps (container_of deps) (AOk st op) p i b (s, x')) = (s', x'')"
    proof (rule confirm_world)
      show "xw_markDeploymentInFlight (xd_writes deps) = Some (the (xw_markDeploymentInFlight deploymentWrites))"
        using w by (simp add: wired_for_def deploymentWrites_def)
      show "the (xw_markDeploymentInFlight deploymentWrites)
          \<lparr> fm_organizationId = xi_organizationId i, fm_deploymentId = xi_deploymentId i, fm_status = st,
            fm_providerResourceId = Some (or_else p ?h), fm_deploymentResourceId = Some ?h \<rparr> (s, x') =
          (Inr (), (s', x'))"
        by (simp add: deploymentWrites_def on_fst_apply s')
    qed (fact rtype, fact read)
    ultimately show ?thesis
      by (simp add: sx io_bind_apply run r)
  qed
qed


lemma deployTo_once:
  assumes "wired_for started deps"
  shows "leads (none_yet started n i) (at_most_one started n i)
    (deployTo deps (container_of deps) i rootDirectory a)"
proof -
  have "buildFor deps (container_of deps) i rootDirectory = io_return None"
    by (simp add: buildFor_def wired_engine [OF assms])
  then show ?thesis
    unfolding deployTo_def
    by (auto intro!: leads_then sync_none_yet [OF assms] none_yet_at_most_one deploy_confirm_once [OF assms])
qed

lemma execute_at_most_one:
  assumes w: "wired_for started deps" and create: "xi_action i = Create" and v: "at_most_one started n i v"
  shows "at_most_one started n i (snd (executeDeployment deps i v))"
proof -
  obtain s x where sx: "v = (s, x)" by (cases v)
  with v have ready: "ready i s" and up: "cp_up s" and model: "fst (resolved i s) = Container"
    by (auto simp: at_most_one_def ready_def)
  from ready obtain r where r: "row_of_input i s = Some r" by (auto simp: ready_def)
  have store: "xd_writes deps = deploymentWrites" using w by (simp add: wired_for_def)
  obtain application where res: "resolved i s = (Container, application)"
    using model by (cases "resolved i s") auto
  show ?thesis
  proof (cases "in_flight r")
    case True
    obtain st x' where read: "de_getDeployment (container_of deps) (adapter_ctx i) (run_ref i application r) (s, x) = (st, (s, x'))"
      and same: "started x' = started x"
      using touches_nothing_apply [OF wired_engine(2) [OF w]] by blast
    have "snd (executeDeployment deps i v) = (s, x')"
      using True r res read
      by (simp add: sx execute_wired [OF up store] resume_wired [OF up store] io_bind_apply io_return_apply
          split: sum.split)
    with v same show ?thesis by (simp add: sx at_most_one_def)
  next
    case False
    then have "none_yet started n i v"
      using v r by (auto simp: sx at_most_one_def none_yet_def flying_def)
    moreover define rootDirectory where "rootDirectory = (case xi_rootDirectory i of Some d \<Rightarrow> Some d
            | None \<Rightarrow> Option.bind (target_of (xi_organizationId i) (xi_projectId i) s) dt_rootDirectory)"
    have "executeDeployment deps i v =
        io_bind (ensureApplication deps (container_of deps) i rootDirectory application) (\<lambda>ensured.
           case ensured of Inl r \<Rightarrow> io_return r | Inr a \<Rightarrow> deployTo deps (container_of deps) i rootDirectory a) v"
      using False r res create
      by (simp add: sx execute_wired [OF up store] resume_wired [OF up store] io_bind_apply Let_def
          rootDirectory_def [symmetric])
    moreover have "leads (none_yet started n i) (at_most_one started n i)
       (case ensured of Inl r \<Rightarrow> io_return r | Inr a \<Rightarrow> deployTo deps (container_of deps) i rootDirectory a)" for ensured
      by (cases ensured) (auto intro: leads_return none_yet_at_most_one deployTo_once [OF w])
    then have "leads (none_yet started n i) (at_most_one started n i)
       (io_bind (ensureApplication deps (container_of deps) i rootDirectory application) (\<lambda>ensured.
          case ensured of Inl r \<Rightarrow> io_return r | Inr a \<Rightarrow> deployTo deps (container_of deps) i rootDirectory a))"
      by (intro leads_bind ensure_none_yet [OF w]) (simp_all add: none_yet_at_most_one)
    ultimately show ?thesis
      by (metis leadsD)
  qed
qed



subsection \<open>Success is the engine's word\<close>

definition posts :: "('a \<Rightarrow> 'w \<Rightarrow> bool) \<Rightarrow> ('w, 'e, 'a) eio \<Rightarrow> bool" where
  "posts Q m \<longleftrightarrow> (\<forall>w r w'. m w = (Inr r, w') \<longrightarrow> Q r w')"

lemma posts_return: "(\<And>w. Q x w) \<Longrightarrow> posts Q (io_return x)"
  by (simp add: posts_def io_return_apply)

lemma posts_bind:
  assumes "posts P m" "\<And>x. (\<exists>w. P x w) \<Longrightarrow> posts Q (k x)"
  shows "posts Q (io_bind m k)"
  using assms by (fastforce simp: posts_def io_bind_apply split: prod.splits sum.splits)

lemma posts_at:
  assumes "\<And>x w w' r w''. m w = (Inr x, w') \<Longrightarrow> k x w' = (Inr r, w'') \<Longrightarrow> Q r w''"
  shows "posts Q (io_bind m k)"
  unfolding posts_def io_bind_apply using assms by (auto split: prod.splits sum.splits)

lemma posts_any: "(\<And>x. posts Q (k x)) \<Longrightarrow> posts Q (io_bind m k)"
  by (rule posts_bind [where P = "\<lambda>_ _. True"]) (simp_all add: posts_def)

lemma posts_then: "posts Q n \<Longrightarrow> posts Q (io_then m n)"
  unfolding io_then_def by (rule posts_any)

text \<open>
  What the adapters document: an accepted action is not a finished one, and a refusal is never a
  success.
\<close>

definition never_succeeds :: "('e, 'a adapter_result) io \<Rightarrow> bool" where
  "never_succeeds m \<longleftrightarrow> (\<forall>w. case fst (m w) of Inr r \<Rightarrow> result_status r \<noteq> Succeeded | Inl _ \<Rightarrow> True)"

definition refusals_are_honest :: "('e, 'a adapter_result) io \<Rightarrow> bool" where
  "refusals_are_honest m \<longleftrightarrow> (\<forall>w. case fst (m w) of Inr (AErr st _) \<Rightarrow> st \<noteq> Succeeded | _ \<Rightarrow> True)"

definition honest_engine :: "'e deployment_engine \<Rightarrow> bool" where
  "honest_engine e \<longleftrightarrow>
     (\<forall>ctx ref a. never_succeeds (de_deploy e ctx ref a)) \<and>
     (\<forall>ctx ref c. never_succeeds (de_rollback e ctx ref c)) \<and>
     (\<forall>ctx inp. refusals_are_honest (de_ensureTarget e ctx inp)) \<and>
     (\<forall>ctx ref. refusals_are_honest (de_getDeployment e ctx ref))"

definition read_as_succeeded ::
  "'e deployment_engine \<Rightarrow> execute_input \<Rightarrow> execution_result \<Rightarrow> 'e \<Rightarrow> bool" where
  "read_as_succeeded e i r w' \<longleftrightarrow> (xr_status r = Succeeded \<longrightarrow>
     (\<exists>ref w st v. de_getDeployment e (adapter_ctx i) ref w = (Inr (AOk st v), w') \<and>
        ds_status v = Succeeded \<and> xr_url r = ds_url v))"

lemma read_as_succeeded_other: "xr_status r \<noteq> Succeeded \<Longrightarrow> read_as_succeeded e i r w"
  by (simp add: read_as_succeeded_def)

lemma read_as_succeededI:
  "de_getDeployment e (adapter_ctx i) ref w = (Inr (AOk st v), w') \<Longrightarrow> xr_status r = ds_status v \<Longrightarrow>
   xr_url r = ds_url v \<Longrightarrow> read_as_succeeded e i r w'"
  unfolding read_as_succeeded_def by auto

lemma refused_status [simp]: "xr_status (refused st p reason) = st"
  by (simp add: refused_def)

lemma build_handle_sel [simp]:
  "xr_status (build_handle b r) = xr_status r" "xr_url (build_handle b r) = xr_url r"
  by (simp_all add: build_handle_def split: option.split)

lemma confirm_succeeded:
  assumes "honest_engine e" "result_status action \<noteq> Succeeded"
  shows "posts (read_as_succeeded e i) (confirm deps e action p i b)"
proof (cases action)
  case (AErr st reason)
  with assms show ?thesis by (auto simp: confirm_def intro!: posts_return read_as_succeeded_other)
next
  case (AOk st op)
  show ?thesis
    unfolding AOk confirm_def Let_def adapter_result.case
  proof (rule posts_then)
    show "posts (read_as_succeeded e i)
       (io_bind (de_getDeployment e (adapter_ctx i) (op_providerRef op)) (\<lambda>state.
          case (case state of AErr _ _ \<Rightarrow> (st, None, None)
                | AOk _ value \<Rightarrow> (ds_status value, ds_url value,
                    if ds_status value \<noteq> Succeeded \<and> ds_status value \<noteq> Running \<and> ds_status value \<noteq> Pending
                    then ds_reason value else None)) of
            (status, url, reason) \<Rightarrow> io_return (build_handle b
               ((refused status (Some (or_else p (ref_resourceId (op_providerRef op)))) reason)
                 \<lparr> xr_url := url, xr_deploymentResourceId :=
                    (if ref_resourceType (op_providerRef op) = ''deployment''
                     then Some (ref_resourceId (op_providerRef op)) else None) \<rparr>))))"
      using assms(2) AOk
      by (intro posts_at) (auto simp: io_return_apply intro: read_as_succeeded_other read_as_succeededI split: adapter_result.splits)
  qed
qed

lemma resume_succeeded:
  assumes "honest_engine e"
  shows "posts (\<lambda>r w. \<forall>x. r = Some x \<longrightarrow> read_as_succeeded e i x w) (resumeRunningDeployment deps e i a)"
proof -
  have poll: "posts (\<lambda>r w. \<forall>x. r = Some x \<longrightarrow> read_as_succeeded e i x w)
     (io_bind (de_getDeployment e (adapter_ctx i) ref) (\<lambda>state. io_return (Some
        (case state of
           AErr status reason \<Rightarrow> (refused status p (Some reason))\<lparr> xr_deploymentResourceId := h \<rparr>
         | AOk _ value \<Rightarrow> (refused (ds_status value) p (ds_reason value))
             \<lparr> xr_url := ds_url value, xr_deploymentResourceId := h \<rparr>))))" for ref p h
  proof -
    have h: "refusals_are_honest (de_getDeployment e (adapter_ctx i) ref)"
      using assms by (simp add: honest_engine_def)
    have no: "st \<noteq> Succeeded" if "de_getDeployment e (adapter_ctx i) ref w = (Inr (AErr st reason), w')" for w st reason w'
      using h that unfolding refusals_are_honest_def by (auto dest: spec [of _ w])
    show ?thesis
      by (intro posts_at) (auto simp: io_return_apply intro: read_as_succeededI read_as_succeeded_other dest!: no
            split: adapter_result.splits)
  qed
  show ?thesis
    unfolding resumeRunningDeployment_def Let_def
    by (auto intro!: posts_return posts_any poll split: option.split)
qed

lemma never_succeeds_posts:
  assumes "never_succeeds m"
  shows "posts (\<lambda>r _. result_status r \<noteq> Succeeded) m"
  unfolding posts_def
proof (intro allI impI)
  fix w r w' assume "m w = (Inr r, w')"
  then show "result_status r \<noteq> Succeeded"
    using assms [unfolded never_succeeds_def, rule_format, of w] by simp
qed

lemma action_never_succeeds:
  assumes "honest_engine e"
  shows "posts (\<lambda>r _. result_status r \<noteq> Succeeded) (de_deploy e ctx ref a)"
    "posts (\<lambda>r _. result_status r \<noteq> Succeeded) (de_rollback e ctx ref c)"
  using assms by (auto simp: honest_engine_def intro!: never_succeeds_posts)

lemma act_and_confirm_succeeded:
  assumes "honest_engine e"
  shows "posts (read_as_succeeded e i)
       (io_bind (de_deploy e ctx ref a) (\<lambda>deployed. confirm deps e deployed p i b))"
    "posts (read_as_succeeded e i)
       (io_bind (de_rollback e ctx ref c) (\<lambda>done. confirm deps e done p i b))"
  by (rule posts_bind, rule action_never_succeeds [OF assms], auto intro: confirm_succeeded [OF assms])+

lemma deployTo_succeeded:
  assumes "honest_engine e"
  shows "posts (read_as_succeeded e i) (deployTo deps e i rootDirectory a)"
  unfolding deployTo_def
  by (auto intro!: posts_then posts_any posts_return act_and_confirm_succeeded [OF assms] read_as_succeeded_other
      split: option.split sum.split)

lemma rollback_succeeded:
  assumes "honest_engine e"
  shows "posts (read_as_succeeded e i) (rollback deps e i a)"
  unfolding rollback_def
  by (auto intro!: posts_return act_and_confirm_succeeded [OF assms] read_as_succeeded_other)

lemma ensure_refusal:
  assumes "honest_engine e"
  shows "posts (\<lambda>r _. \<forall>x. r = Inl x \<longrightarrow> xr_status x \<noteq> Succeeded) (ensureApplication deps e i rootDirectory a)"
proof -
  have h: "refusals_are_honest (de_ensureTarget e ctx inp)" for ctx inp
    using assms by (simp add: honest_engine_def)
  have no: "posts (\<lambda>r _. \<forall>st reason. r = AErr st reason \<longrightarrow> st \<noteq> Succeeded) (de_ensureTarget e ctx inp)" for ctx inp
    unfolding posts_def
  proof (intro allI impI)
    fix w r w' st reason
    assume "de_ensureTarget e ctx inp w = (Inr r, w')" "r = AErr st reason"
    then show "st \<noteq> Succeeded" using h [of ctx inp] unfolding refusals_are_honest_def by (auto dest: spec [of _ w])
  qed
  show ?thesis
    unfolding ensureApplication_def Let_def
    by (auto intro!: posts_return posts_bind [OF no] posts_then split: option.split adapter_result.split)
qed


text \<open>
  A rollback with nothing to return to (no application yet, or no revision) is refused with
  the sentence that says so, and neither the engine nor the store is touched; it does not fall
  through to a fresh build.
\<close>

theorem rollback_needs_a_revision:
  assumes "cp_up s" "xd_writes deps = deploymentWrites" "xi_action i = Rollback"
    and "row_of_input i s = Some r" "\<not> in_flight r"
    and "snd (resolved i s) = None \<or> \<not> truthy (xi_commit i)"
  shows "executeDeployment deps i (s, x) =
    (Inr (refused NotConfigured (map_option ref_resourceId (snd (resolved i s))) (Some NOTHING_TO_ROLL_BACK)),
     (s, x))"
  using assms
  by (auto simp: execute_wired resume_wired io_bind_apply io_return_apply Let_def rollback_def
           split: prod.split)

subsection \<open>A concrete engine\<close>

text \<open>
  An engine whose part of the world is the number of runs it accepted; every run is read as \<open>st\<close>.
\<close>

definition counting_hosting :: "engine_status \<Rightarrow> (control_plane \<times> nat) hosting_adapter" where
  "counting_hosting st = hostingNotConfigured ''Coolify'' None
     \<lparr> ha_notConfigured := False,
       ha_createApplication := (\<lambda>ctx inp. io_return (AOk Succeeded \<lparr> op_jobId = ''j'',
         op_providerRef = \<lparr> ref_organizationId = ac_organizationId ctx, ref_provider = ''coolify'',
           ref_resourceType = ''application'', ref_resourceId = ca_name inp \<rparr> \<rparr>)),
       ha_deploy := (\<lambda>ctx ref. on_snd (\<lambda>n. (Inr (AOk Running \<lparr> op_jobId = ''j'',
         op_providerRef = \<lparr> ref_organizationId = ac_organizationId ctx, ref_provider = ''coolify'',
           ref_resourceType = ''deployment'', ref_resourceId = show_nat n \<rparr> \<rparr>), Suc n))),
       ha_getDeployment := (\<lambda>ctx ref. io_return (AOk Succeeded \<lparr> ds_ref = ref, ds_status = st,
         ds_url = (if st = Succeeded then Some ''https://app'' else None), ds_reason = None \<rparr>)),
       ha_rollback := (\<lambda>ctx ref commit. io_return (AOk Running \<lparr> op_jobId = ''j'', op_providerRef = ref \<rparr>)) \<rparr>"

definition counting_deps :: "engine_status \<Rightarrow> (control_plane \<times> nat) executor_deps" where
  "counting_deps st = \<lparr> xd_engines = \<lparr> re_hosting = counting_hosting st,
       re_serverless = serverlessNotConfigured ''Lambda'' None, eg_build = buildNotConfigured ''Railpack'' None \<rparr>,
     xd_writes = deploymentWrites, xd_envVars = None, xd_sleep = (\<lambda>_. io_return ()) \<rparr>"

definition sample_execute :: "job_action \<Rightarrow> build_kind \<Rightarrow> string option \<Rightarrow> execute_input" where
  "sample_execute a k key = \<lparr> xi_organizationId = ''o'', xi_projectId = ''p'', xi_projectSlug = ''app'',
     xi_deploymentId = ''d3'', xi_idempotencyKey = ''k'', xi_action = a, xi_gitRepository = Some ''https://git/app'',
     xi_gitBranch = Some ''main'', xi_buildPack = None, xi_rootDirectory = None, xi_commit = None,
     xi_timeoutMs = 1000, xi_kind = k, xi_previewKey = key, xi_environmentId = None \<rparr>"

lemma counting_hosting_counts: "counts_runs id (counting_hosting st)"
  by (simp add: counts_runs_def counting_hosting_def touches_nothing_def starts_a_run_def
      io_return_apply on_snd_apply)

lemma counting_wired: "wired_for id (counting_deps st)"
  by (simp add: wired_for_def counting_deps_def counting_hosting_counts sync_is_quiet_def)

lemma counting_honest:
  "honest_engine (deploymentEngineFor (xd_engines (counting_deps st)) m)"
  by (cases m)
    (auto simp: honest_engine_def never_succeeds_def refusals_are_honest_def deploymentEngineFor_def
      configured_def counting_deps_def counting_hosting_def containerDeploymentEngine_def
      notConfiguredServerless_def serverlessNotConfigured_def miss_def io_return_apply on_snd_def
      split: prod.split)

definition flying_row :: deployment_row where
  "flying_row = (sample_deployment ''d3'' Running False)\<lparr> dr_deploymentResourceId := Some ''h'' \<rparr>"

definition flying_plane :: control_plane where
  "flying_plane = sample_plane\<lparr> cp_deployments := [flying_row] \<rparr>"

abbreviation sample_create :: execute_input where
  "sample_create \<equiv> sample_execute Create Production None"

lemma flying_plane_facts:
  "cp_up flying_plane" "xd_writes (counting_deps st) = deploymentWrites"
  "row_of_input sample_create flying_plane = Some flying_row" "in_flight flying_row"
  "resolved sample_create flying_plane = (Container, None)"
  by (simp_all add: flying_plane_def sample_plane_def counting_deps_def row_of_input_def deployment_of_def
      is_deployment_def flying_row_def sample_execute_def sample_deployment_def in_flight_def resolved_def
      is_preview_def target_of_def sample_project_def is_project_def executionModel_def application_ref_def)

lemma counting_reads:
  "de_getDeployment (deploymentEngineFor (xd_engines (counting_deps st)) Container) ctx ref w =
     (Inr (AOk Succeeded \<lparr> ds_ref = ref, ds_status = st,
        ds_url = (if st = Succeeded then Some ''https://app'' else None), ds_reason = None \<rparr>), w)"
  by (simp add: deploymentEngineFor_def containerDeploymentEngine_def counting_deps_def
      counting_hosting_def io_return_apply)

theorem redelivery_only_polls_witness:
  "\<exists>r. executeDeployment (counting_deps Running) sample_create (flying_plane, 7) = (Inr r, (flying_plane, 7)) \<and>
       xr_status r = Running \<and> xr_deploymentResourceId r = Some ''h''"
  using redelivery_only_polls [OF flying_plane_facts(1) flying_plane_facts(2) [of Running] flying_plane_facts(3,4), where x = 7]
  by (simp add: flying_plane_facts counting_reads) (simp add: flying_row_def)

theorem rollback_needs_a_revision_witness:
  "executeDeployment (counting_deps Running) (sample_execute Rollback Production None) (sample_plane, 7) =
    (Inr (refused NotConfigured None (Some NOTHING_TO_ROLL_BACK)), (sample_plane, 7))"
proof -
  let ?i = "sample_execute Rollback Production None"
  have "cp_up sample_plane" "xd_writes (counting_deps Running) = deploymentWrites" "xi_action ?i = Rollback"
    by (simp_all add: sample_plane_def counting_deps_def sample_execute_def)
  moreover have "row_of_input ?i sample_plane = Some (sample_deployment ''d3'' Pending False)" by code_simp
  moreover have "\<not> in_flight (sample_deployment ''d3'' Pending False)"
    by (simp add: in_flight_def sample_deployment_def)
  moreover have none: "snd (resolved ?i sample_plane) = None" by code_simp
  ultimately show ?thesis
    using rollback_needs_a_revision [of sample_plane "counting_deps Running" ?i _ 7] by simp
qed




end
