(* ===== verification/Deployment_Job.thy ===== *)
theory Deployment_Job
  imports Deployment_Executor Worker_Processor
begin

section \<open>apps/worker/deployment-job.ts: running a deployment job and mirroring its result\<close>

text \<open>
  The handler runs the executor and turns its result into the job's answer; the applier writes
  the deployment row, moves the production pointer and counts the usage.  \<open>deploymentOutcome\<close> is
  the writer as \<open>apps/worker/runtime.ts\<close> wires it.  The cast of an answer's value to an executor
  result is the type of the answer here: the value is always the one this handler put there.
\<close>

record 'e outcome_writer =
  ow_updateDeploymentStatus :: "deployment_status_input \<Rightarrow> ('e, unit) io"
  ow_promoteDeployment :: "string \<Rightarrow> string \<Rightarrow> string \<Rightarrow> ('e, unit) io"
  ow_recordUsage :: "string \<Rightarrow> string \<Rightarrow> int \<Rightarrow> ('e, unit) io"

record 'e deployment_job_deps = "'e executor_deps" +
  jd_outcome :: "'e outcome_writer"
  jd_now :: "'e \<Rightarrow> millis"

definition execute_input_of :: "deployment_job_payload \<Rightarrow> job_context \<Rightarrow> execute_input" where
  "execute_input_of p ctx =
     \<lparr> xi_organizationId = djp_organizationId p, xi_projectId = djp_projectId p,
       xi_projectSlug = djp_projectSlug p, xi_deploymentId = djp_deploymentId p,
       xi_idempotencyKey = jc_idempotencyKey ctx, xi_action = djp_action p,
       xi_gitRepository = djp_gitRepository p, xi_gitBranch = djp_gitBranch p,
       xi_buildPack = djp_buildPack p, xi_rootDirectory = djp_rootDirectory p,
       xi_commit = djp_commit p, xi_timeoutMs = jc_timeoutMs ctx,
       xi_kind = or_else (djp_kind p) Production, xi_previewKey = djp_previewKey p,
       xi_environmentId = djp_environmentId p \<rparr>"

definition answer_of :: "execution_result \<Rightarrow> execution_result adapter_result" where
  "answer_of r =
     (if xr_reason r = None \<and> (xr_status r = Succeeded \<or> xr_status r = Running \<or> xr_status r = Pending)
      then AOk (xr_status r) r
      else AErr (xr_status r)
             (or_else (xr_reason r) (''Deployment ended '' @ status_name (xr_status r) @ ''.'')))"

definition buildDeploymentJobHandler ::
  "'e deployment_job_deps \<Rightarrow> ('e, deployment_job_payload, execution_result) job_handler" where
  "buildDeploymentJobHandler deps payload ctx =
     io_bind (executeDeployment
        \<lparr> xd_engines = xd_engines deps, xd_writes = xd_writes deps, xd_envVars = xd_envVars deps,
          xd_sleep = xd_sleep deps \<rparr> (execute_input_of payload ctx))
       (\<lambda>result. io_return (answer_of result))"

definition deployment_isTerminal :: "engine_status \<Rightarrow> bool" where
  "deployment_isTerminal status \<longleftrightarrow> status \<noteq> Pending \<and> status \<noteq> Running"

definition buildDeploymentApplier ::
  "'e deployment_job_deps \<Rightarrow> ('e, deployment_job_payload, execution_result) job_outcome_writer" where
  "buildDeploymentApplier deps job result =
     (if jb_kind job \<noteq> DEPLOYMENT_JOB_KIND then io_return ()
      else io_bind (io_get (jd_now deps)) (\<lambda>finished.
        let payload = jb_payload job; outcome = jd_outcome deps in
        case result of
          AOk _ value \<Rightarrow>
            (let finalStatus = xr_status value in
             io_then (ow_updateDeploymentStatus outcome
                \<lparr> du_id = djp_deploymentId payload, du_organizationId = djp_organizationId payload,
                  du_status = finalStatus, du_url = Some (xr_url value), du_failureReason = Some None,
                  du_providerResourceId = xr_providerResourceId value,
                  du_deploymentResourceId = xr_deploymentResourceId value,
                  du_buildProviderResourceId = xr_buildProviderResourceId value,
                  du_buildProvider = xr_buildProvider value, du_startedAt = Some (Some finished),
                  du_finishedAt = Some (if deployment_isTerminal finalStatus then Some finished else None) \<rparr>)
               (if finalStatus = Succeeded
                then io_then
                  (if or_else (djp_kind payload) Production = Production \<and> djp_staged payload \<noteq> Some True
                   then ow_promoteDeployment outcome (djp_organizationId payload)
                          (djp_projectId payload) (djp_deploymentId payload)
                   else io_return ())
                  (ow_recordUsage outcome (djp_organizationId payload) ''deployments'' 1)
                else io_return ()))
        | AErr status reason \<Rightarrow>
            ow_updateDeploymentStatus outcome
              \<lparr> du_id = djp_deploymentId payload, du_organizationId = djp_organizationId payload,
                du_status = status, du_url = Some None, du_failureReason = Some (Some reason),
                du_providerResourceId = None, du_deploymentResourceId = None,
                du_buildProviderResourceId = None, du_buildProvider = None,
                du_startedAt = Some (Some finished),
                du_finishedAt = Some (if deployment_isTerminal status then Some finished else None) \<rparr>))"

definition deploymentOutcome :: "(control_plane \<times> 'x) outcome_writer" where
  "deploymentOutcome =
     \<lparr> ow_updateDeploymentStatus = (\<lambda>u. on_fst (updateDeploymentStatus u)),
       ow_promoteDeployment = (\<lambda>o' p d. on_fst (io_then (promoteDeployment o' p d) (io_return ()))),
       ow_recordUsage = (\<lambda>o' m n. on_fst (recordUsage o' m n)) \<rparr>"

subsection \<open>What settling a deployment does to the control plane\<close>

fun final_status :: "execution_result adapter_result \<Rightarrow> engine_status" where
  "final_status (AOk _ value) = xr_status value"
| "final_status (AErr status _) = status"

definition confirmed :: "execution_result adapter_result \<Rightarrow> bool" where
  "confirmed result \<longleftrightarrow> result_ok result \<and> final_status result = Succeeded"

definition goes_live :: "deployment_job_payload \<Rightarrow> execution_result adapter_result \<Rightarrow> bool" where
  "goes_live p result \<longleftrightarrow> confirmed result \<and> or_else (djp_kind p) Production = Production \<and> djp_staged p \<noteq> Some True"

definition written :: "deployment_status_input \<Rightarrow> control_plane \<Rightarrow> control_plane" where
  "written u s = s\<lparr> cp_deployments := patch_where (is_deployment (du_organizationId u) (du_id u))
            (patch_deployment u) (cp_deployments s) \<rparr>"

definition promoted :: "string \<Rightarrow> string \<Rightarrow> string \<Rightarrow> control_plane \<Rightarrow> control_plane" where
  "promoted org p d s = snd (promote_deployment org p d s)"

definition billed :: "string \<Rightarrow> control_plane \<Rightarrow> control_plane" where
  "billed org s = s\<lparr> cp_usage := cp_usage s @ [\<lparr> us_organizationId = org, us_metric = ''deployments'',
     us_quantity = 1, us_recordedAt = cp_now s \<rparr>] \<rparr>"

lemma promoted_sel [simp]:
  "cp_up (promoted org p d s) = cp_up s" "cp_usage (promoted org p d s) = cp_usage s"
  "cp_now (promoted org p d s) = cp_now s" "cp_previews (promoted org p d s) = cp_previews s"
  by (simp_all add: promoted_def promote_deployment_def Let_def)

lemma written_sel [simp]:
  "cp_up (written u s) = cp_up s" "cp_usage (written u s) = cp_usage s" "cp_projects (written u s) = cp_projects s"
  "cp_now (written u s) = cp_now s"
  by (simp_all add: written_def)

lemma billed_sel [simp]:
  "cp_up (billed org s) = cp_up s" "cp_deployments (billed org s) = cp_deployments s"
  "cp_projects (billed org s) = cp_projects s"
  by (simp_all add: billed_def)

lemma outcome_writes:
  assumes "cp_up s"
  shows "ow_updateDeploymentStatus deploymentOutcome u (s, x) = (Inr (), (written u s, x))"
    "ow_promoteDeployment deploymentOutcome org p d (s, x) = (Inr (), (promoted org p d s, x))"
    "ow_recordUsage deploymentOutcome org ''deployments'' 1 (s, x) = (Inr (), (billed org s, x))"
proof -
  show "ow_updateDeploymentStatus deploymentOutcome u (s, x) = (Inr (), (written u s, x))"
    using assms by (simp add: deploymentOutcome_def on_fst_apply updateDeploymentStatus_up written_def)
  show "ow_recordUsage deploymentOutcome org ''deployments'' 1 (s, x) = (Inr (), (billed org s, x))"
    using assms by (simp add: deploymentOutcome_def on_fst_apply recordUsage_def billed_def)
  obtain moved s' where m: "promote_deployment org p d s = (moved, s')" by fastforce
  then have "cp_up s'" using assms promoted_sel(1) [of org p d s] by (simp add: promoted_def)
  with m assms show "ow_promoteDeployment deploymentOutcome org p d (s, x) = (Inr (), (promoted org p d s, x))"
    by (cases moved)
      (simp_all add: deploymentOutcome_def on_fst_apply promoteDeployment_def io_then_apply io_bind_apply
        io_return_apply promoted_def)
qed

lemma written_live: "live_of org p (written u s) = live_of org p s"
proof -
  have "map dr_id (filter (\<lambda>d. dr_organizationId d = org \<and> dr_projectId d = p \<and> dr_isCurrent d)
          (patch_where Q (patch_deployment u) rows)) =
        map dr_id (filter (\<lambda>d. dr_organizationId d = org \<and> dr_projectId d = p \<and> dr_isCurrent d) rows)" for Q rows
    by (induction rows) (simp_all add: patch_where_def)
  then show ?thesis by (simp add: live_of_def written_def)
qed

lemma billed_live [simp]: "live_of org p (billed o' s) = live_of org p s"
  by (simp add: live_of_def)

lemma written_ids: "map dr_id (cp_deployments (written u s)) = map dr_id (cp_deployments s)"
proof -
  have "map dr_id (patch_where Q (patch_deployment u) rows) = map dr_id rows" for Q rows
    by (induction rows) (simp_all add: patch_where_def)
  then show ?thesis by (simp add: written_def)
qed

lemma written_row:
  "deployment_of org d (written u s) =
     (if org = du_organizationId u \<and> d = du_id u
      then map_option (patch_deployment u) (deployment_of org d s) else deployment_of org d s)"
  by (simp only: written_def deployment_of_update)

lemma promoted_status:
  "map_option dr_status (deployment_of org d (promoted o' p' d' s)) = map_option dr_status (deployment_of org d s)"
proof -
  have "map_option dr_status (find (is_deployment org d) (patch_where Q (\<lambda>r. r\<lparr> dr_isCurrent := b \<rparr>) rows)) =
        map_option dr_status (find (is_deployment org d) rows)" for Q b rows
    by (rule find_patch_view) (simp_all add: is_deployment_def)
  then show ?thesis
    by (simp add: deployment_of_def promoted_def promote_deployment_def Let_def)
qed

text \<open>Every branch of the applier is one row update, then the pointer and the usage of a success.\<close>

definition settled_plane ::
  "deployment_status_input \<Rightarrow> string \<Rightarrow> bool \<Rightarrow> bool \<Rightarrow> control_plane \<Rightarrow> control_plane" where
  "settled_plane u projectId live bill s =
     (let s1 = written u s;
          s2 = (if live then promoted (du_organizationId u) projectId (du_id u) s1 else s1)
      in if bill then billed (du_organizationId u) s2 else s2)"

lemma applier_settles:
  assumes "cp_up s" "jd_outcome deps = deploymentOutcome" "jb_kind job = DEPLOYMENT_JOB_KIND"
  obtains u where
    "du_id u = djp_deploymentId (jb_payload job)" "du_organizationId u = djp_organizationId (jb_payload job)"
    "du_status u = final_status result"
    "buildDeploymentApplier deps job result (s, x) =
       (Inr (), (settled_plane u (djp_projectId (jb_payload job)) (goes_live (jb_payload job) result)
                   (confirmed result) s, x))"
proof (cases result)
  case (AErr st reason)
  let ?u = "\<lparr> du_id = djp_deploymentId (jb_payload job),
          du_organizationId = djp_organizationId (jb_payload job),
          du_status = st, du_url = Some None, du_failureReason = Some (Some reason),
          du_providerResourceId = None, du_deploymentResourceId = None,
          du_buildProviderResourceId = None, du_buildProvider = None,
          du_startedAt = Some (Some (jd_now deps (s, x))),
          du_finishedAt = Some (if deployment_isTerminal st then Some (jd_now deps (s, x)) else None) \<rparr>"
  show ?thesis
    by (rule that [of ?u]) (simp_all add: assms AErr buildDeploymentApplier_def io_bind_apply io_get_apply
        Let_def outcome_writes settled_plane_def goes_live_def confirmed_def)
next
  case (AOk st val)
  let ?u = "\<lparr> du_id = djp_deploymentId (jb_payload job), du_organizationId = djp_organizationId (jb_payload job),
                  du_status = xr_status val, du_url = Some (xr_url val), du_failureReason = Some None,
                  du_providerResourceId = xr_providerResourceId val,
                  du_deploymentResourceId = xr_deploymentResourceId val,
                  du_buildProviderResourceId = xr_buildProviderResourceId val,
                  du_buildProvider = xr_buildProvider val, du_startedAt = Some (Some (jd_now deps (s, x))),
                  du_finishedAt = Some (if deployment_isTerminal (xr_status val) then Some (jd_now deps (s, x)) else None) \<rparr>"
  show ?thesis
    by (rule that [of ?u]) (simp_all add: assms AOk buildDeploymentApplier_def io_bind_apply io_get_apply
        io_then_apply io_return_apply Let_def outcome_writes settled_plane_def goes_live_def confirmed_def)
qed

lemma settled_plane_sel [simp]:
  "cp_up (settled_plane u p live bill s) = cp_up s"
  by (simp add: settled_plane_def Let_def)

lemma settled_status:
  "map_option dr_status (deployment_of org d (settled_plane u p live bill s)) =
     (if org = du_organizationId u \<and> d = du_id u
      then map_option (\<lambda>_. du_status u) (deployment_of org d s)
      else map_option dr_status (deployment_of org d s))"
proof -
  have bill: "deployment_of org d (billed o' s') = deployment_of org d s'" for o' s'
    by (simp add: deployment_of_def)
  have "map_option dr_status (deployment_of org d (settled_plane u p live bill s)) =
      map_option dr_status (deployment_of org d (written u s))"
    by (simp add: settled_plane_def Let_def bill promoted_status)
  then show ?thesis by (simp add: written_row option.map_comp comp_def)
qed

lemma settled_usage:
  "cp_usage (settled_plane u p live bill s) = cp_usage s @
     (if bill then [\<lparr> us_organizationId = du_organizationId u, us_metric = ''deployments'',
        us_quantity = 1, us_recordedAt = cp_now s \<rparr>] else [])"
  by (simp add: settled_plane_def Let_def billed_def)

lemma settled_live:
  assumes "distinct (map dr_id (cp_deployments s))"
  shows "\<not> live \<or> (org, proj) \<noteq> (du_organizationId u, p) \<Longrightarrow>
      live_of org proj (settled_plane u p live bill s) = live_of org proj s"
    and "live \<Longrightarrow> du_status u = Succeeded \<Longrightarrow> r \<in> set (cp_deployments s) \<Longrightarrow>
      dr_organizationId r = du_organizationId u \<Longrightarrow> dr_id r = du_id u \<Longrightarrow> dr_projectId r = p \<Longrightarrow>
      dr_kind r = Production \<Longrightarrow> live_of (du_organizationId u) p (settled_plane u p live bill s) = [du_id u]"
proof -
  have ids: "distinct (map dr_id (cp_deployments (written u s)))"
    using assms by (simp only: written_ids)
  obtain moved s' where m: "promote_deployment (du_organizationId u) p (du_id u) (written u s) = (moved, s')"
    by fastforce
  then have s': "promoted (du_organizationId u) p (du_id u) (written u s) = s'" by (simp add: promoted_def)
  note ex = promote_exclusive [OF ids m]
  show "live_of org proj (settled_plane u p live bill s) = live_of org proj s"
    if "\<not> live \<or> (org, proj) \<noteq> (du_organizationId u, p)"
    using that ex by (cases moved) (auto simp: settled_plane_def Let_def written_live s')
  show "live_of (du_organizationId u) p (settled_plane u p live bill s) = [du_id u]"
    if "live" "du_status u = Succeeded" "r \<in> set (cp_deployments s)" "dr_organizationId r = du_organizationId u"
      "dr_id r = du_id u" "dr_projectId r = p" "dr_kind r = Production"
  proof -
    have "patch_deployment u r \<in> set (cp_deployments (written u s))"
      using that by (auto simp: written_def patch_where_def is_deployment_def image_iff intro!: bexI [of _ r])
    moreover have "promotable (du_organizationId u) p (du_id u) (patch_deployment u r)"
      using that by (simp add: promotable_def)
    ultimately have moved using ex by blast
    with ex that(1) show ?thesis by (simp add: settled_plane_def Let_def s')
  qed
qed



subsection \<open>A concrete job\<close>

definition sample_payload :: deployment_job_payload where
  "sample_payload = \<lparr> djp_deploymentId = ''d3'', djp_organizationId = ''o'', djp_projectId = ''p'',
     djp_action = Create, djp_projectSlug = ''app'', djp_gitRepository = Some ''https://git/app'',
     djp_gitBranch = Some ''main'', djp_buildPack = None, djp_rootDirectory = None, djp_commit = None,
     djp_kind = None, djp_staged = None, djp_environmentId = None, djp_previewKey = None \<rparr>"

definition sample_deployment_job :: "deployment_job_payload job" where
  "sample_deployment_job = \<lparr> jb_id = ''j1'', jb_organizationId = ''o'', jb_kind = DEPLOYMENT_JOB_KIND,
     jb_payload = sample_payload, jb_idempotencyKey = ''k'', jb_state = JRunning, jb_attempts = 1,
     jb_maxAttempts = 3, jb_createdAt = 0, jb_startedAt = Some 1, jb_finishedAt = None, jb_lastError = None,
     jb_leaseExpiresAt = Some 60000, jb_deferredUntil = None \<rparr>"

definition counting_job_deps :: "engine_status \<Rightarrow> (control_plane \<times> nat) deployment_job_deps" where
  "counting_job_deps st = executor_deps.extend (counting_deps st)
     \<lparr> jd_outcome = deploymentOutcome, jd_now = (\<lambda>w. cp_now (fst w)) \<rparr>"


end
