(* ===== verification/Deployment_Reconcile.thy ===== *)
theory Deployment_Reconcile
  imports Deployment_Job
begin

section \<open>apps/worker/deployment-reconcile.ts: the sweep of stranded deployments\<close>

text \<open>
  The sweep reads the rows that are not final and older than a cutoff, asks each row's engine for
  the state of its run, and writes what the engine said, or a failure once the row has passed
  the hard ceiling.  \<open>reconcileWrites\<close> is the store as \<open>apps/worker/runtime.ts\<close> wires it.
\<close>

definition DEFAULT_STALE_AFTER_MS :: millis where
  "DEFAULT_STALE_AFTER_MS = 10 * 60000"

definition DEFAULT_HARD_CEILING_MS :: millis where
  "DEFAULT_HARD_CEILING_MS = 60 * 60000"

definition DEFAULT_SWEEP_LIMIT :: js_number where
  "DEFAULT_SWEEP_LIMIT = 50"

record stranded_deployment =
  sd_id :: string
  sd_organizationId :: string
  sd_projectId :: string
  sd_status :: engine_status
  sd_providerResourceId :: "string option"
  sd_deploymentResourceId :: "string option"
  sd_createdAt :: timestamp
  sd_kind :: build_kind
  sd_staged :: bool

record 'e reconcile_writes =
  rw_listStranded :: "millis \<Rightarrow> js_number option \<Rightarrow> ('e, stranded_deployment list) io"
  rw_getProjectModel :: "string \<Rightarrow> string \<Rightarrow> ('e, execution_model option) io"

record 'e reconciler_deps =
  rc_engines :: "'e engines"
  rc_writes :: "'e reconcile_writes"
  rc_outcome :: "'e outcome_writer"
  rc_now :: "'e \<Rightarrow> millis"
  rc_staleAfterMs :: "millis option"
  rc_hardCeilingMs :: "millis option"
  rc_limit :: "js_number option"
  rc_timeoutMs :: "millis option"

text \<open>\<open>None\<close> stands for \<open>Number.POSITIVE_INFINITY\<close>.\<close>

fun ageMs :: "timestamp \<Rightarrow> millis \<Rightarrow> millis option" where
  "ageMs (At created) now = Some (now - created)"
| "ageMs (Unparsable _) now = None"

definition younger_than :: "millis option \<Rightarrow> millis \<Rightarrow> bool" where
  "younger_than age limit = (case age of None \<Rightarrow> False | Some a \<Rightarrow> a < limit)"

definition unconfirmedReason :: "engine_status \<Rightarrow> millis \<Rightarrow> string \<Rightarrow> string" where
  "unconfirmedReason status ceilingMs detail =
     ''The deployment was still '' @ status_name status @ '' after '' @ show_int (round_minutes ceilingMs) @
     '' minutes and the engine could not confirm the build: '' @ detail"

definition writeSettled ::
  "'e reconciler_deps \<Rightarrow> stranded_deployment \<Rightarrow> engine_status \<Rightarrow> string option \<Rightarrow> string option \<Rightarrow>
   millis \<Rightarrow> ('e, bool) io" where
  "writeSettled deps row status url reason now =
     (let outcome = rc_outcome deps; terminal = (status \<noteq> Pending \<and> status \<noteq> Running) in
      io_then (ow_updateDeploymentStatus outcome
          \<lparr> du_id = sd_id row, du_organizationId = sd_organizationId row, du_status = status,
            du_url = Some url, du_failureReason = Some reason,
            du_providerResourceId = sd_providerResourceId row,
            du_deploymentResourceId = sd_deploymentResourceId row,
            du_buildProviderResourceId = None, du_buildProvider = None,
            du_startedAt = Some (Some now), du_finishedAt = Some (if terminal then Some now else None) \<rparr>)
        (io_then
          (if status = Succeeded
           then io_then
             (if sd_kind row = Production \<and> \<not> sd_staged row
              then ow_promoteDeployment outcome (sd_organizationId row) (sd_projectId row) (sd_id row)
              else io_return ())
             (ow_recordUsage outcome (sd_organizationId row) ''deployments'' 1)
           else io_return ())
          (io_return True)))"

definition stranded_ref :: "stranded_deployment \<Rightarrow> provider_ref option" where
  "stranded_ref row =
     (if truthy (sd_deploymentResourceId row)
      then Some \<lparr> ref_organizationId = sd_organizationId row, ref_provider = ''coolify'',
                  ref_resourceType = ''deployment'', ref_resourceId = the (sd_deploymentResourceId row) \<rparr>
      else if truthy (sd_providerResourceId row)
      then Some \<lparr> ref_organizationId = sd_organizationId row, ref_provider = ''coolify'',
                  ref_resourceType = ''application'', ref_resourceId = the (sd_providerResourceId row) \<rparr>
      else None)"

definition settleOne ::
  "'e reconciler_deps \<Rightarrow> stranded_deployment \<Rightarrow> millis \<Rightarrow> millis \<Rightarrow> millis \<Rightarrow> ('e, bool) io" where
  "settleOne deps row now hardCeilingMs timeoutMs =
     io_bind (rw_getProjectModel (rc_writes deps) (sd_organizationId row) (sd_projectId row)) (\<lambda>target.
       let model = (if sd_kind row = Preview then Container else or_else target Container);
           engine = deploymentEngineFor (rc_engines deps) model;
           ctx = \<lparr> ac_organizationId = sd_organizationId row,
                   ac_idempotencyKey = ''reconcile-deployment-'' @ sd_id row, ac_timeoutMs = timeoutMs \<rparr>;
           young = younger_than (ageMs (sd_createdAt row) now) hardCeilingMs;
           failed = (\<lambda>reason. writeSettled deps row Failed None (Some reason) now)
       in case stranded_ref row of
            None \<Rightarrow>
              if young then io_return False
              else failed (unconfirmedReason (sd_status row) hardCeilingMs ''no engine handle was ever recorded.'')
          | Some ref \<Rightarrow>
              io_bind (de_getDeployment engine ctx ref) (\<lambda>state.
                case state of
                  AOk _ value \<Rightarrow>
                    if ds_status value = Pending \<or> ds_status value = Running
                    then if young then io_return False
                         else failed (unconfirmedReason (sd_status row) hardCeilingMs
                                        ''the engine still reports it in flight.'')
                    else writeSettled deps row (ds_status value) (ds_url value) None now
                | AErr status reason \<Rightarrow>
                    if status = NotConfigured
                    then failed (''The engine has no record of this build: '' @ reason)
                    else if young then io_return False
                    else failed (unconfirmedReason (sd_status row) hardCeilingMs reason)))"

fun settle_rows ::
  "'e reconciler_deps \<Rightarrow> millis \<Rightarrow> millis \<Rightarrow> millis \<Rightarrow> stranded_deployment list \<Rightarrow> ('e, nat) io" where
  "settle_rows deps now ceil_ms timeout [] = io_return 0"
| "settle_rows deps now ceil_ms timeout (row # rows) =
     io_bind (settleOne deps row now ceil_ms timeout) (\<lambda>settledNow.
       io_bind (settle_rows deps now ceil_ms timeout rows) (\<lambda>settled.
         io_return (if settledNow then Suc settled else settled)))"

definition reconcileDeployments :: "'e reconciler_deps \<Rightarrow> ('e, nat) io" where
  "reconcileDeployments deps =
     io_bind (io_get (rc_now deps)) (\<lambda>now.
     io_bind (rw_listStranded (rc_writes deps) (now - or_else (rc_staleAfterMs deps) DEFAULT_STALE_AFTER_MS)
               (Some (or_else (rc_limit deps) DEFAULT_SWEEP_LIMIT))) (\<lambda>stranded.
       settle_rows deps now (or_else (rc_hardCeilingMs deps) DEFAULT_HARD_CEILING_MS)
         (or_else (rc_timeoutMs deps) 30000) stranded))"

definition stranded_of :: "deployment_row \<Rightarrow> stranded_deployment" where
  "stranded_of r =
     \<lparr> sd_id = dr_id r, sd_organizationId = dr_organizationId r, sd_projectId = dr_projectId r,
       sd_status = dr_status r, sd_providerResourceId = dr_providerResourceId r,
       sd_deploymentResourceId = dr_deploymentResourceId r, sd_createdAt = dr_createdAt r,
       sd_kind = dr_kind r, sd_staged = dr_staged r \<rparr>"

definition reconcileWrites :: "(control_plane \<times> 'x) reconcile_writes" where
  "reconcileWrites =
     \<lparr> rw_listStranded = (\<lambda>olderThan limit. on_fst
         (io_bind (listStrandedDeploymentsForService olderThan limit) (\<lambda>found.
            io_return (map stranded_of found)))),
       rw_getProjectModel = (\<lambda>org p. on_fst
         (io_bind (getProjectDeploymentTargetForService org p) (\<lambda>target.
            io_return (map_option dt_executionModel target)))) \<rparr>"

subsection \<open>The sweep and the applier do the same for a success\<close>

text \<open>
  A success the sweep settles is recorded exactly as the job's applier would have recorded
  it: the same row update, the same move of the production pointer, the same unit of usage, in
  the same order and on any store, including one that fails half way.
\<close>

theorem sweep_and_applier_agree:
  assumes "rc_outcome deps = jd_outcome jdeps" "jb_kind job = DEPLOYMENT_JOB_KIND"
    and "jb_payload job = payload" "djp_deploymentId payload = sd_id row"
    and "djp_organizationId payload = sd_organizationId row" "djp_projectId payload = sd_projectId row"
    and "or_else (djp_kind payload) Production = sd_kind row" "djp_staged payload = Some (sd_staged row)"
    and "answer = (refused Succeeded (sd_providerResourceId row) None)
           \<lparr> xr_url := url, xr_deploymentResourceId := sd_deploymentResourceId row \<rparr>"
    and "jd_now jdeps w = now"
  shows "writeSettled deps row Succeeded url None now w =
           (case buildDeploymentApplier jdeps job (AOk Succeeded answer) w of
              (Inl e, w') \<Rightarrow> (Inl e, w')
            | (Inr _, w') \<Rightarrow> (Inr True, w'))"
  using assms
  by (auto simp: writeSettled_def buildDeploymentApplier_def Let_def io_bind_apply io_then_apply
      io_get_apply io_return_apply deployment_isTerminal_def refused_def split: prod.split sum.split)

subsection \<open>What a sweep may do to a row\<close>

definition engine_said_succeeded :: "'e reconciler_deps \<Rightarrow> stranded_deployment \<Rightarrow> bool" where
  "engine_said_succeeded deps row \<longleftrightarrow>
     (\<exists>model ctx ref w st v w'. stranded_ref row = Some ref \<and>
        de_getDeployment (deploymentEngineFor (rc_engines deps) model) ctx ref w = (Inr (AOk st v), w') \<and>
        ds_status v = Succeeded)"

definition justified :: "'e reconciler_deps \<Rightarrow> stranded_deployment \<Rightarrow> engine_status \<Rightarrow> bool" where
  "justified deps row status \<longleftrightarrow> status \<noteq> Pending \<and> status \<noteq> Running \<and>
     (status = Succeeded \<longrightarrow> engine_said_succeeded deps row)"

lemma justified_failed [simp]: "justified deps row Failed"
  by (simp add: justified_def)

definition status_of :: "string \<Rightarrow> string \<Rightarrow> control_plane \<Rightarrow> engine_status option" where
  "status_of org d s = map_option dr_status (deployment_of org d s)"

text \<open>The statuses that differ are those of the rows, each with a status the engine justifies.\<close>

definition settled_by ::
  "'e reconciler_deps \<Rightarrow> stranded_deployment set \<Rightarrow> control_plane \<Rightarrow> control_plane \<Rightarrow> bool" where
  "settled_by deps rows s s' \<longleftrightarrow> cp_up s' = cp_up s \<and>
     (\<forall>org d. status_of org d s' \<noteq> status_of org d s \<longrightarrow>
        (\<exists>row \<in> rows. sd_organizationId row = org \<and> sd_id row = d \<and>
           (\<exists>status. status_of org d s' = Some status \<and> justified deps row status)))"

lemma settled_by_refl [simp]: "settled_by deps rows s s"
  by (simp add: settled_by_def)

lemma settled_by_trans:
  assumes "settled_by deps A s t" "settled_by deps B t u"
  shows "settled_by deps (A \<union> B) s u"
  using assms unfolding settled_by_def by (metis UnI1 UnI2)

lemma settled_plane_settles:
  assumes "du_organizationId u = sd_organizationId row" "du_id u = sd_id row" "justified deps row (du_status u)"
  shows "settled_by deps {row} s (settled_plane u p live bill s)"
  using assms by (cases "deployment_of (du_organizationId u) (du_id u) s")
    (auto simp: settled_by_def status_of_def settled_status)

lemma writeSettled_settles:
  assumes "cp_up s" "rc_outcome deps = deploymentOutcome" "justified deps row status"
  shows "\<exists>s'. writeSettled deps row status url reason now (s, x) = (Inr True, (s', x)) \<and>
           settled_by deps {row} s s'"
proof -
  let ?u = "\<lparr> du_id = sd_id row, du_organizationId = sd_organizationId row, du_status = status,
            du_url = Some url, du_failureReason = Some reason,
            du_providerResourceId = sd_providerResourceId row,
            du_deploymentResourceId = sd_deploymentResourceId row,
            du_buildProviderResourceId = None, du_buildProvider = None,
            du_startedAt = Some (Some now), du_finishedAt = Some (Some now) \<rparr>"
  have "status \<noteq> Pending" "status \<noteq> Running" using assms(3) by (simp_all add: justified_def)
  then have "writeSettled deps row status url reason now (s, x) =
      (Inr True, (settled_plane ?u (sd_projectId row)
         (status = Succeeded \<and> sd_kind row = Production \<and> \<not> sd_staged row) (status = Succeeded) s, x))"
    using assms(1,2) by (auto simp: writeSettled_def Let_def io_then_apply io_return_apply outcome_writes settled_plane_def)
  moreover have "settled_by deps {row} s (settled_plane ?u (sd_projectId row)
         (status = Succeeded \<and> sd_kind row = Production \<and> \<not> sd_staged row) (status = Succeeded) s)"
    by (rule settled_plane_settles) (simp_all add: assms(3))
  ultimately show ?thesis by blast
qed

text \<open>An engine read leaves the control plane alone.\<close>

definition reads_only :: "(control_plane \<times> 'x) engines \<Rightarrow> bool" where
  "reads_only es \<longleftrightarrow> (\<forall>model ctx ref w.
     fst (snd (de_getDeployment (deploymentEngineFor es model) ctx ref w)) = fst w)"

lemma settleOne_settles:
  assumes "cp_up s" "rc_outcome deps = deploymentOutcome" "rc_writes deps = reconcileWrites"
    "reads_only (rc_engines deps)"
    and run: "settleOne deps row now ceil_ms timeout (s, x) = (res, (s', x'))"
  shows "settled_by deps {row} s s'"
proof -
  define young where "young = younger_than (ageMs (sd_createdAt row) now) ceil_ms"
  define ctx where "ctx = \<lparr> ac_organizationId = sd_organizationId row,
                   ac_idempotencyKey = ''reconcile-deployment-'' @ sd_id row, ac_timeoutMs = timeout \<rparr>"
  define model where "model = (if sd_kind row = Preview then Container
     else or_else (map_option dt_executionModel (target_of (sd_organizationId row) (sd_projectId row) s)) Container)"
  let ?engine = "deploymentEngineFor (rc_engines deps) model"
  have target: "rw_getProjectModel (rc_writes deps) (sd_organizationId row) (sd_projectId row) (s, x) =
      (Inr (map_option dt_executionModel (target_of (sd_organizationId row) (sd_projectId row) s)), (s, x))"
    using assms(1,3) by (simp add: reconcileWrites_def on_fst_apply io_bind_apply io_return_apply
        getProjectDeploymentTargetForService_def target_of_def first_where_def)
  have wrote: "settled_by deps {row} t t'"
    if "writeSettled deps row st url reason now (t, y) = (r, (t', y'))" "justified deps row st" "cp_up t"
    for st url reason t y r t' y'
    using writeSettled_settles [OF that(3) assms(2) that(2), of url reason now y] that(1) by auto
  show ?thesis
  proof (cases "stranded_ref row")
    case None
    with run target show ?thesis
      by (auto simp: settleOne_def io_bind_apply Let_def io_return_apply assms(1) intro: wrote split: if_splits)
  next
    case (Some ref)
    obtain st t y where read: "de_getDeployment ?engine ctx ref (s, x) = (st, (t, y))" by (metis prod.collapse)
    have t: "t = s"
      using assms(4) read unfolding reads_only_def by (metis fst_conv snd_conv)
    have said: "justified deps row (ds_status v)"
      if "st = Inr (AOk q v)" "ds_status v \<noteq> Pending" "ds_status v \<noteq> Running" for q v
      using that read Some unfolding justified_def engine_said_succeeded_def by blast
    have "settleOne deps row now ceil_ms timeout (s, x) =
        (case st of Inl e \<Rightarrow> (Inl e, (s, y))
         | Inr (AOk q v) \<Rightarrow>
             (if ds_status v = Pending \<or> ds_status v = Running
              then if young then (Inr False, (s, y))
                   else writeSettled deps row Failed None (Some (unconfirmedReason (sd_status row) ceil_ms
                          ''the engine still reports it in flight.'')) now (s, y)
              else writeSettled deps row (ds_status v) (ds_url v) None now (s, y))
         | Inr (AErr status reason) \<Rightarrow>
             (if status = NotConfigured
              then writeSettled deps row Failed None (Some (''The engine has no record of this build: '' @ reason)) now (s, y)
              else if young then (Inr False, (s, y))
              else writeSettled deps row Failed None (Some (unconfirmedReason (sd_status row) ceil_ms reason)) now (s, y)))"
      using read Some target t
      by (simp add: settleOne_def io_bind_apply Let_def io_return_apply young_def ctx_def model_def
          split: sum.split adapter_result.split)
    with run show ?thesis
      using wrote [OF _ _ assms(1)] said
      by (auto split: sum.splits adapter_result.splits if_splits)
  qed
qed

lemma settle_rows_settles:
  assumes "rc_outcome deps = deploymentOutcome" "rc_writes deps = reconcileWrites" "reads_only (rc_engines deps)"
  shows "cp_up s \<Longrightarrow> settle_rows deps now ceil_ms timeout rows (s, x) = (res, (s', x')) \<Longrightarrow>
     settled_by deps (set rows) s s' \<and> (\<forall>n. res = Inr n \<longrightarrow> n \<le> length rows)"
proof (induction rows arbitrary: s x res s' x')
  case Nil
  then show ?case by (auto simp: io_return_apply)
next
  case (Cons row rows)
  obtain r1 s1 x1 where one: "settleOne deps row now ceil_ms timeout (s, x) = (r1, (s1, x1))"
    by (metis prod.collapse)
  have first: "settled_by deps {row} s s1"
    by (rule settleOne_settles [OF Cons.prems(1) assms one])
  then have up: "cp_up s1" using Cons.prems(1) by (simp add: settled_by_def)
  show ?case
  proof (cases r1)
    case (Inl e)
    have "settled_by deps ({row} \<union> set rows) s s1"
      by (rule settled_by_trans [OF first]) simp
    with Cons.prems(2) one Inl show ?thesis by (auto simp: io_bind_apply)
  next
    case (Inr b)
    obtain r2 s2 x2 where two: "settle_rows deps now ceil_ms timeout rows (s1, x1) = (r2, (s2, x2))"
      by (metis prod.collapse)
    note rest = Cons.IH [OF up two]
    then have "settled_by deps ({row} \<union> set rows) s s2"
      using settled_by_trans [OF first] by blast
    with Cons.prems(2) one Inr two rest show ?thesis
      by (auto simp: io_bind_apply io_return_apply split: sum.splits)
  qed
qed

lemma set_sort_by_age [simp]: "set (sort_by_age rows) = set rows"
proof -
  have "set (insert_by_age r rs) = insert r (set rs)" for r rs
    by (induction rs) auto
  then have "set (foldr insert_by_age rows []) = set rows" by (induction rows) simp_all
  then show ?thesis by (simp add: sort_by_age_def)
qed

lemma resolveListLimit_le: "fallback \<le> MAX_LIST_LIMIT \<Longrightarrow> resolveListLimit limit fallback \<le> MAX_LIST_LIMIT"
  by (simp add: resolveListLimit_def split: option.split)

text \<open>
  The sweep never invents an outcome: it changes the status of no deployment but a stranded
  one (not final, older than the cutoff), leaves it in a final state, and makes it succeeded only
  when the engine answered a read of that row's own handle with \<open>succeeded\<close>; it settles at
  most the list limit of rows, and this holds of what it has written when it stops half way too.
\<close>

theorem sweep_never_invents_success:
  assumes "cp_up s" "rc_outcome deps = deploymentOutcome" "rc_writes deps = reconcileWrites"
    and "reads_only (rc_engines deps)" and run: "reconcileDeployments deps (s, x) = (res, (s', x'))"
  shows "(\<forall>org d. status_of org d s' \<noteq> status_of org d s \<longrightarrow>
         (\<exists>r \<in> set (cp_deployments s). dr_organizationId r = org \<and> dr_id r = d \<and>
           (dr_status r = Pending \<or> dr_status r = Running) \<and>
           (\<exists>t. dr_createdAt r = At t \<and>
              t < rc_now deps (s, x) - or_else (rc_staleAfterMs deps) DEFAULT_STALE_AFTER_MS) \<and>
           (\<exists>status. status_of org d s' = Some status \<and> status \<noteq> Pending \<and> status \<noteq> Running \<and>
              (status = Succeeded \<longrightarrow> engine_said_succeeded deps (stranded_of r))))) \<and>
       (\<forall>n. res = Inr n \<longrightarrow> n \<le> 200)"
proof -
  let ?cutoff = "rc_now deps (s, x) - or_else (rc_staleAfterMs deps) DEFAULT_STALE_AFTER_MS"
  define rows where "rows = take (nat (resolveListLimit (Some (or_else (rc_limit deps) DEFAULT_SWEEP_LIMIT)) DEFAULT_LIST_LIMIT))
         (sort_by_age (filter (\<lambda>r. (dr_status r = Pending \<or> dr_status r = Running) \<and>
            (case dr_createdAt r of At t \<Rightarrow> t < ?cutoff | Unparsable _ \<Rightarrow> False)) (cp_deployments s)))"
  have "settle_rows deps (rc_now deps (s, x)) (or_else (rc_hardCeilingMs deps) DEFAULT_HARD_CEILING_MS)
         (or_else (rc_timeoutMs deps) 30000) (map stranded_of rows) (s, x) = (res, (s', x'))"
    using run assms(1,3)
    by (simp add: reconcileDeployments_def io_bind_apply io_get_apply reconcileWrites_def on_fst_apply
        listStrandedDeploymentsForService_def io_return_apply rows_def)
  from settle_rows_settles [OF assms(2-4) assms(1) this]
  have settled: "settled_by deps (set (map stranded_of rows)) s s'"
    and count: "\<And>n. res = Inr n \<Longrightarrow> n \<le> length rows" by auto
  have rows: "r \<in> set (cp_deployments s) \<and> (dr_status r = Pending \<or> dr_status r = Running) \<and>
      (\<exists>t. dr_createdAt r = At t \<and> t < ?cutoff)" if "r \<in> set rows" for r
    using that set_take_subset unfolding rows_def by (fastforce split: timestamp.splits)
  have changed: "\<exists>r \<in> set (cp_deployments s). dr_organizationId r = org \<and> dr_id r = d \<and>
           (dr_status r = Pending \<or> dr_status r = Running) \<and> (\<exists>t. dr_createdAt r = At t \<and> t < ?cutoff) \<and>
           (\<exists>status. status_of org d s' = Some status \<and> status \<noteq> Pending \<and> status \<noteq> Running \<and>
              (status = Succeeded \<longrightarrow> engine_said_succeeded deps (stranded_of r)))"
    if "status_of org d s' \<noteq> status_of org d s" for org d
  proof -
    from settled that have "\<exists>row \<in> set (map stranded_of rows). sd_organizationId row = org \<and> sd_id row = d \<and>
        (\<exists>status. status_of org d s' = Some status \<and> justified deps row status)"
      unfolding settled_by_def by blast
    then obtain r status where "r \<in> set rows" "sd_organizationId (stranded_of r) = org"
      "sd_id (stranded_of r) = d" "status_of org d s' = Some status" "justified deps (stranded_of r) status"
      by auto
    moreover from this(1) have "r \<in> set (cp_deployments s) \<and> (dr_status r = Pending \<or> dr_status r = Running) \<and>
      (\<exists>t. dr_createdAt r = At t \<and> t < ?cutoff)" by (rule rows)
    ultimately show ?thesis
      by (intro bexI [of _ r]) (simp_all add: stranded_of_def justified_def)
  qed
  have "length rows \<le> nat (resolveListLimit (Some (or_else (rc_limit deps) DEFAULT_SWEEP_LIMIT)) DEFAULT_LIST_LIMIT)"
    by (simp add: rows_def)
  also have "\<dots> \<le> 200"
    using resolveListLimit_le [of DEFAULT_LIST_LIMIT] by (simp add: DEFAULT_LIST_LIMIT_def MAX_LIST_LIMIT_def nat_le_iff)
  finally have "n \<le> 200" if "res = Inr n" for n
    using count [OF that] by simp
  with changed show ?thesis by blast
qed

subsection \<open>A concrete sweep\<close>

definition sample_reconciler :: "engine_status \<Rightarrow> (control_plane \<times> nat) reconciler_deps" where
  "sample_reconciler st = \<lparr> rc_engines = xd_engines (counting_deps st), rc_writes = reconcileWrites,
     rc_outcome = deploymentOutcome, rc_now = (\<lambda>w. cp_now (fst w)), rc_staleAfterMs = Some 50,
     rc_hardCeilingMs = None, rc_limit = None, rc_timeoutMs = None \<rparr>"

lemma counting_reads_only: "reads_only (xd_engines (counting_deps st))"
  unfolding reads_only_def
proof (intro allI)
  fix model ctx ref and w :: "control_plane \<times> nat"
  show "fst (snd (de_getDeployment (deploymentEngineFor (xd_engines (counting_deps st)) model) ctx ref w)) = fst w"
    by (cases model) (simp_all add: deploymentEngineFor_def configured_def counting_deps_def counting_hosting_def
      containerDeploymentEngine_def notConfiguredServerless_def serverlessNotConfigured_def miss_def io_return_apply)
qed

theorem sweep_never_invents_success_witness:
  "status_of ''o'' ''d3'' (fst (snd (reconcileDeployments (sample_reconciler Succeeded) (flying_plane, 7)))) = Some Succeeded \<and>
   engine_said_succeeded (sample_reconciler Succeeded) (stranded_of flying_row)"
proof -
  let ?d = "sample_reconciler Succeeded"
  have deps: "cp_up flying_plane" "rc_outcome ?d = deploymentOutcome" "rc_writes ?d = reconcileWrites"
    "reads_only (rc_engines ?d)"
    by (simp_all add: flying_plane_facts sample_reconciler_def counting_reads_only)
  obtain res s' x' where run: "reconcileDeployments ?d (flying_plane, 7) = (res, (s', x'))" by (metis prod.collapse)
  have "status_of ''o'' ''d3'' (fst (snd (reconcileDeployments ?d (flying_plane, 7)))) = Some Succeeded"
    by code_simp
  then have after: "status_of ''o'' ''d3'' s' = Some Succeeded" by (simp add: run)
  have "status_of ''o'' ''d3'' flying_plane = Some Running" by code_simp
  with after have "status_of ''o'' ''d3'' s' \<noteq> status_of ''o'' ''d3'' flying_plane" by simp
  with sweep_never_invents_success [OF deps run] after have
    "\<exists>r \<in> set (cp_deployments flying_plane). engine_said_succeeded ?d (stranded_of r)"
    by fastforce
  then have "engine_said_succeeded ?d (stranded_of flying_row)" by (simp add: flying_plane_def)
  with after run show ?thesis by simp
qed

theorem sweep_and_applier_agree_witness:
  "writeSettled (sample_reconciler Running) (stranded_of flying_row) Succeeded None None 100 (flying_plane, 7) =
     (case buildDeploymentApplier (counting_job_deps Running)
             (sample_deployment_job\<lparr> jb_payload := sample_payload\<lparr> djp_staged := Some False \<rparr> \<rparr>)
             (AOk Succeeded ((refused Succeeded None None)\<lparr> xr_deploymentResourceId := Some ''h'' \<rparr>)) (flying_plane, 7) of
        (Inl e, w') \<Rightarrow> (Inl e, w') | (Inr _, w') \<Rightarrow> (Inr True, w'))"
  by (rule sweep_and_applier_agree [where payload = "sample_payload\<lparr> djp_staged := Some False \<rparr>"])
    (simp_all add: sample_reconciler_def counting_job_deps_def executor_deps.extend_def sample_deployment_job_def
      sample_payload_def stranded_of_def flying_row_def sample_deployment_def refused_def flying_plane_def sample_plane_def)

end
