(* ===== verification/Env_Sync.thy ===== *)
theory Env_Sync
  imports Deployment_Executor
begin

section \<open>apps/worker/env-sync.ts: pushing stored variables onto an application\<close>

text \<open>
  The reconciler a deployment calls before it builds: read the stored variables, read the engine's
  own list, and create or update each variable that decrypts.  The cipher is a parameter
  (\<open>None\<close>: no key is configured, so there is no reconciler); a value it cannot decrypt is \<open>None\<close>.
\<close>

record stored_env_var =
  se_key :: string
  se_valueEncrypted :: string
  se_isBuildTime :: bool

record 'e env_sync_store =
  es_listEnvVars :: "string \<Rightarrow> string \<Rightarrow> string \<Rightarrow> ('e, stored_env_var list) io"
  es_setEnvVarEngineRef ::
    "string \<Rightarrow> string \<Rightarrow> string \<Rightarrow> string \<Rightarrow> string \<Rightarrow> string \<Rightarrow> string \<Rightarrow> ('e, unit) io"

type_synonym secret_cipher = "string \<Rightarrow> string option"

definition push_var ::
  "'e hosting_adapter \<Rightarrow> 'e env_sync_store \<Rightarrow> secret_cipher \<Rightarrow> adapter_context \<Rightarrow> provider_ref \<Rightarrow>
   string \<Rightarrow> string \<Rightarrow> env_var_state list \<Rightarrow> stored_env_var \<Rightarrow> ('e, unit) io" where
  "push_var hosting store decrypt ctx applicationRef projectId environmentId existing variable =
     (case decrypt (se_valueEncrypted variable) of
        None \<Rightarrow> io_return ()
      | Some v \<Rightarrow>
          (let wr = \<lparr> ew_key = se_key variable, ew_value = v, ew_isBuildTime = Some (se_isBuildTime variable) \<rparr>;
               present = list_ex (\<lambda>item. ev_key item = se_key variable) existing
           in io_bind
                (if present then ha_updateEnvVar hosting ctx applicationRef wr
                 else ha_createEnvVar hosting ctx applicationRef wr)
                (\<lambda>result. case result of
                    AOk _ state \<Rightarrow>
                      es_setEnvVarEngineRef store (ac_organizationId ctx) projectId environmentId
                        (se_key variable) (or_else (ev_engineRef state) []) (ref_provider applicationRef)
                        (ref_resourceId applicationRef)
                  | AErr _ _ \<Rightarrow> io_return ())))"

fun push_vars ::
  "'e hosting_adapter \<Rightarrow> 'e env_sync_store \<Rightarrow> secret_cipher \<Rightarrow> adapter_context \<Rightarrow> provider_ref \<Rightarrow>
   string \<Rightarrow> string \<Rightarrow> env_var_state list \<Rightarrow> stored_env_var list \<Rightarrow> ('e, unit) io" where
  "push_vars hosting store decrypt ctx ref p env existing [] = io_return ()"
| "push_vars hosting store decrypt ctx ref p env existing (variable # variables) =
     io_then (push_var hosting store decrypt ctx ref p env existing variable)
       (push_vars hosting store decrypt ctx ref p env existing variables)"

definition buildEnvVarSync ::
  "'e hosting_adapter \<Rightarrow> 'e env_sync_store \<Rightarrow> secret_cipher option \<Rightarrow> 'e env_var_sync option" where
  "buildEnvVarSync hosting store cipher =
     (case cipher of
        None \<Rightarrow> None
      | Some decrypt \<Rightarrow> Some (\<lambda>ctx applicationRef projectId environmentId.
          io_bind (es_listEnvVars store (ac_organizationId ctx) projectId environmentId) (\<lambda>stored.
            if stored = [] then io_return ()
            else io_bind (ha_listEnvVars hosting ctx applicationRef) (\<lambda>existing.
              case existing of
                AErr _ _ \<Rightarrow> io_return ()
              | AOk _ items \<Rightarrow>
                  push_vars hosting store decrypt ctx applicationRef projectId environmentId items stored))))"

subsection \<open>What the engine ends with\<close>

text \<open>
  An engine's variables as a map, and what its operations do to it: a listing names the keys
  there are, a create adds a key that is not there, an update replaces one that is.
\<close>

type_synonym 'e env_view = "'e \<Rightarrow> string \<Rightarrow> (string \<times> bool) option"

definition sets_var :: "'e env_view \<Rightarrow> env_var_write \<Rightarrow> ('e, env_var_state adapter_result) io \<Rightarrow> 'e \<Rightarrow> bool" where
  "sets_var vars wr m w \<longleftrightarrow>
     (\<exists>st r w'. m w = (Inr (AOk st r), w') \<and>
        vars w' = (vars w)(ew_key wr \<mapsto> (ew_value wr, or_else (ew_isBuildTime wr) False)))"

definition env_engine :: "'e env_view \<Rightarrow> 'e hosting_adapter \<Rightarrow> bool" where
  "env_engine vars h \<longleftrightarrow>
     (\<forall>ctx ref w. \<exists>st items. ha_listEnvVars h ctx ref w = (Inr (AOk st items), w) \<and>
        ev_key ` set items = dom (vars w)) \<and>
     (\<forall>ctx ref wr w. vars w (ew_key wr) = None \<longrightarrow> sets_var vars wr (ha_createEnvVar h ctx ref wr) w) \<and>
     (\<forall>ctx ref wr w. vars w (ew_key wr) \<noteq> None \<longrightarrow> sets_var vars wr (ha_updateEnvVar h ctx ref wr) w)"

definition env_store :: "'e env_view \<Rightarrow> stored_env_var list \<Rightarrow> 'e env_sync_store \<Rightarrow> bool" where
  "env_store vars stored store \<longleftrightarrow>
     (\<forall>org p env w. es_listEnvVars store org p env w = (Inr stored, w)) \<and>
     (\<forall>org p env k e pr res w. \<exists>w'. es_setEnvVarEngineRef store org p env k e pr res w = (Inr (), w') \<and>
        vars w' = vars w)"

text \<open>The variables after the sync: the stored ones that decrypt, over what was there.\<close>

fun pushed :: "secret_cipher \<Rightarrow> stored_env_var list \<Rightarrow> (string \<Rightarrow> (string \<times> bool) option) \<Rightarrow>
    string \<Rightarrow> (string \<times> bool) option" where
  "pushed decrypt [] m = m"
| "pushed decrypt (v # vs) m =
     pushed decrypt vs (case decrypt (se_valueEncrypted v) of
        None \<Rightarrow> m | Some x \<Rightarrow> m(se_key v \<mapsto> (x, se_isBuildTime v)))"

lemma push_var_pushes:
  assumes e: "env_engine vars hosting" and st: "env_store vars stored store"
    and present: "list_ex (\<lambda>item. ev_key item = se_key v) items \<longleftrightarrow> vars w (se_key v) \<noteq> None"
  shows "\<exists>w'. push_var hosting store decrypt ctx ref p env items v w = (Inr (), w') \<and>
     vars w' = (case decrypt (se_valueEncrypted v) of
        None \<Rightarrow> vars w | Some x \<Rightarrow> (vars w)(se_key v \<mapsto> (x, se_isBuildTime v)))"
proof (cases "decrypt (se_valueEncrypted v)")
  case None
  then show ?thesis by (simp add: push_var_def io_return_apply)
next
  case (Some x)
  let ?wr = "\<lparr> ew_key = se_key v, ew_value = x, ew_isBuildTime = Some (se_isBuildTime v) \<rparr>"
  let ?call = "if vars w (se_key v) \<noteq> None then ha_updateEnvVar hosting ctx ref ?wr
     else ha_createEnvVar hosting ctx ref ?wr"
  have create: "vars w (ew_key wr) = None \<Longrightarrow> sets_var vars wr (ha_createEnvVar hosting ctx ref wr) w"
    and update: "vars w (ew_key wr) \<noteq> None \<Longrightarrow> sets_var vars wr (ha_updateEnvVar hosting ctx ref wr) w" for wr
    using e unfolding env_engine_def by blast+
  have "sets_var vars ?wr ?call w"
    using create [of ?wr] update [of ?wr] by (cases "vars w (se_key v)") auto
  then obtain q r w1 where call: "?call w = (Inr (AOk q r), w1)"
    and w1: "vars w1 = (vars w)(se_key v \<mapsto> (x, se_isBuildTime v))"
    by (auto simp: sets_var_def)
  obtain w2 where ref: "es_setEnvVarEngineRef store (ac_organizationId ctx) p env (se_key v)
      (or_else (ev_engineRef r) []) (ref_provider ref) (ref_resourceId ref) w1 = (Inr (), w2)" "vars w2 = vars w1"
    using st unfolding env_store_def by blast
  have "push_var hosting store decrypt ctx ref p env items v w = (Inr (), w2)"
    using call ref(1) by (simp add: push_var_def Some Let_def present io_bind_apply)
  with w1 ref(2) Some show ?thesis by auto
qed

lemma push_vars_pushes:
  assumes e: "env_engine vars hosting" and st: "env_store vars stored store"
  shows "distinct (map se_key vs) \<Longrightarrow>
    (\<forall>v \<in> set vs. list_ex (\<lambda>item. ev_key item = se_key v) items \<longleftrightarrow> vars w (se_key v) \<noteq> None) \<Longrightarrow>
    \<exists>w'. push_vars hosting store decrypt ctx ref p env items vs w = (Inr (), w') \<and>
         vars w' = pushed decrypt vs (vars w)"
proof (induction vs arbitrary: w)
  case Nil
  then show ?case by (simp add: io_return_apply)
next
  case (Cons v vs)
  from Cons.prems(2) have present: "list_ex (\<lambda>item. ev_key item = se_key v) items \<longleftrightarrow> vars w (se_key v) \<noteq> None"
    by simp
  from push_var_pushes [OF e st present] obtain w1 where
    one: "push_var hosting store decrypt ctx ref p env items v w = (Inr (), w1)"
    and w1: "vars w1 = (case decrypt (se_valueEncrypted v) of
        None \<Rightarrow> vars w | Some x \<Rightarrow> (vars w)(se_key v \<mapsto> (x, se_isBuildTime v)))" by blast
  have "vars w1 (se_key u) = vars w (se_key u)" if "u \<in> set vs" for u
    using that Cons.prems(1) by (auto simp: w1 image_iff split: option.split)
  with Cons.prems have "\<exists>w'. push_vars hosting store decrypt ctx ref p env items vs w1 = (Inr (), w') \<and>
         vars w' = pushed decrypt vs (vars w1)"
    by (intro Cons.IH) auto
  then show ?case by (auto simp: io_then_apply one w1)
qed

lemma pushed_other:
  "\<forall>v \<in> set vs. decrypt (se_valueEncrypted v) \<noteq> None \<longrightarrow> se_key v \<noteq> k \<Longrightarrow> pushed decrypt vs m k = m k"
  by (induction vs arbitrary: m) (auto split: option.splits)

lemma pushed_stored:
  "distinct (map se_key vs) \<Longrightarrow> v \<in> set vs \<Longrightarrow> decrypt (se_valueEncrypted v) = Some x \<Longrightarrow>
   pushed decrypt vs m (se_key v) = Some (x, se_isBuildTime v)"
proof (induction vs arbitrary: m)
  case (Cons u us)
  show ?case
  proof (cases "u = v")
    case True
    with Cons.prems have "\<forall>u \<in> set us. decrypt (se_valueEncrypted u) \<noteq> None \<longrightarrow> se_key u \<noteq> se_key v"
      by (auto simp: image_iff)
    from pushed_other [OF this] True Cons.prems show ?thesis by simp
  next
    case False
    with Cons show ?thesis by auto
  qed
qed simp

text \<open>
  After a sync the engine holds exactly the stored variables over its own: every stored
  variable that decrypts has its stored value and build-time flag, one that does not decrypt is
  left as the engine has it, and a variable the platform does not know is not touched.
\<close>

theorem env_sync_converges:
  assumes "env_engine vars hosting" "env_store vars stored store" "distinct (map se_key stored)"
    and "buildEnvVarSync hosting store (Some decrypt) = Some sync"
  shows "\<exists>w'. sync ctx ref p env w = (Inr (), w') \<and>
    (\<forall>v \<in> set stored. \<forall>x. decrypt (se_valueEncrypted v) = Some x \<longrightarrow>
       vars w' (se_key v) = Some (x, se_isBuildTime v)) \<and>
    (\<forall>k. (\<forall>v \<in> set stored. decrypt (se_valueEncrypted v) \<noteq> None \<longrightarrow> se_key v \<noteq> k) \<longrightarrow> vars w' k = vars w k)"
proof -
  obtain st items where items: "ha_listEnvVars hosting ctx ref w = (Inr (AOk st items), w)"
    "ev_key ` set items = dom (vars w)"
    using assms(1) unfolding env_engine_def by blast
  have "\<exists>w'. push_vars hosting store decrypt ctx ref p env items stored w = (Inr (), w') \<and>
         vars w' = pushed decrypt stored (vars w)"
  proof (rule push_vars_pushes [OF assms(1,2,3)], rule ballI)
    fix v
    have "list_ex (\<lambda>item. ev_key item = se_key v) items \<longleftrightarrow> se_key v \<in> ev_key ` set items"
      by (force simp: list_ex_iff image_iff)
    then show "list_ex (\<lambda>item. ev_key item = se_key v) items \<longleftrightarrow> vars w (se_key v) \<noteq> None"
      by (simp add: items(2) dom_def)
  qed
  then obtain w' where push: "push_vars hosting store decrypt ctx ref p env items stored w = (Inr (), w')"
    "vars w' = pushed decrypt stored (vars w)" by blast
  have list: "es_listEnvVars store (ac_organizationId ctx) p env w = (Inr stored, w)"
    using assms(2) by (simp add: env_store_def)
  have "sync ctx ref p env w = (Inr (), w')"
    using assms(4) push(1) items(1) list
    by (auto simp: buildEnvVarSync_def io_bind_apply io_return_apply)
  with push(2) show ?thesis
    using pushed_stored [OF assms(3)] pushed_other by (auto simp: push(2))
qed


subsection \<open>A concrete engine\<close>

text \<open>An engine that is an association of keys with values, and two stored variables.\<close>

type_synonym env_world = "(string \<times> (string \<times> bool)) list"

definition listing_hosting :: "env_world hosting_adapter" where
  "listing_hosting = hostingNotConfigured ''Coolify'' None
     \<lparr> ha_listEnvVars := (\<lambda>ctx ref w. (Inr (AOk Succeeded (map (\<lambda>(k, v, b).
         \<lparr> ev_key = k, ev_value = v, ev_isBuildTime = b, ev_engineRef = None \<rparr>) w)), w)),
       ha_createEnvVar := (\<lambda>ctx ref v w. (Inr (AOk Succeeded
         \<lparr> ev_key = ew_key v, ev_value = ew_value v, ev_isBuildTime = or_else (ew_isBuildTime v) False,
           ev_engineRef = None \<rparr>), (ew_key v, ew_value v, or_else (ew_isBuildTime v) False) # w)),
       ha_updateEnvVar := (\<lambda>ctx ref v w. (Inr (AOk Succeeded
         \<lparr> ev_key = ew_key v, ev_value = ew_value v, ev_isBuildTime = or_else (ew_isBuildTime v) False,
           ev_engineRef = None \<rparr>), (ew_key v, ew_value v, or_else (ew_isBuildTime v) False) # w)) \<rparr>"

definition sample_vars :: "stored_env_var list" where
  "sample_vars = [\<lparr> se_key = ''A'', se_valueEncrypted = ''1'', se_isBuildTime = True \<rparr>,
     \<lparr> se_key = ''B'', se_valueEncrypted = ''bad'', se_isBuildTime = False \<rparr>]"

definition sample_env_store :: "env_world env_sync_store" where
  "sample_env_store = \<lparr> es_listEnvVars = (\<lambda>_ _ _. io_return sample_vars),
     es_setEnvVarEngineRef = (\<lambda>_ _ _ _ _ _ _. io_return ()) \<rparr>"

definition sample_cipher :: secret_cipher where
  "sample_cipher s = (if s = ''bad'' then None else Some s)"

theorem env_sync_converges_witness:
  "\<exists>sync w'. buildEnvVarSync listing_hosting sample_env_store (Some sample_cipher) = Some sync \<and>
     sync \<lparr> ac_organizationId = ''o'', ac_idempotencyKey = ''k'', ac_timeoutMs = 1 \<rparr>
       \<lparr> ref_organizationId = ''o'', ref_provider = ''coolify'', ref_resourceType = ''application'',
         ref_resourceId = ''app'' \<rparr> ''p'' ''e'' [(''A'', ''old'', False), (''Z'', ''own'', False)] = (Inr (), w') \<and>
     map_of w' ''A'' = Some (''1'', True) \<and> map_of w' ''B'' = None \<and> map_of w' ''Z'' = Some (''own'', False)"
proof -
  have keys: "ev_key ` set (map (\<lambda>(k, v, b).
         \<lparr> ev_key = k, ev_value = v, ev_isBuildTime = b, ev_engineRef = None \<rparr>) w) = dom (map_of w)" for w
    by (induction w) auto
  have engine: "env_engine map_of listing_hosting"
    using keys by (auto simp: env_engine_def listing_hosting_def sets_var_def)
  have store: "env_store map_of sample_vars sample_env_store"
    by (simp add: env_store_def sample_env_store_def io_return_apply)
  have dist: "distinct (map se_key sample_vars)" by (simp add: sample_vars_def)
  obtain sync where sync: "buildEnvVarSync listing_hosting sample_env_store (Some sample_cipher) = Some sync"
    by (simp add: buildEnvVarSync_def)
  show ?thesis
    using sync env_sync_converges [OF engine store dist sync, of
      "\<lparr> ac_organizationId = ''o'', ac_idempotencyKey = ''k'', ac_timeoutMs = 1 \<rparr>"
      "\<lparr> ref_organizationId = ''o'', ref_provider = ''coolify'', ref_resourceType = ''application'',
         ref_resourceId = ''app'' \<rparr>" "''p''" "''e''" "[(''A'', ''old'', False), (''Z'', ''own'', False)]"]
    by (auto simp: sample_vars_def sample_cipher_def)
qed

end
