(* ===== verification/Policy.thy ===== *)
theory Policy
  imports Execution_Router
begin

section \<open>packages/security and apps/security-control: policies and incidents\<close>

text \<open>
  The policy vocabulary with its validation, the registry of active versions, the incident
  tracker, and \<open>distributePolicy\<close>.  Risk levels, actions and the like are the strings the code
  compares; a version is a JavaScript number, which the validation requires to be an integer.
  The registry and the tracker are the state of the service, the edge the rest of the world.
\<close>

subsection \<open>packages/security\<close>

datatype check = Valid | Invalid string

definition RISK_LEVELS :: "string list" where
  "RISK_LEVELS = [''low'', ''medium'', ''high'', ''critical'']"

definition ENFORCEMENT_ACTIONS :: "string list" where
  "ENFORCEMENT_ACTIONS = [''allow'', ''log'', ''challenge'', ''block'', ''quarantine'']"

record security_policy =
  sp_id :: string
  sp_organizationId :: string
  sp_name :: string
  sp_riskLevel :: string
  sp_action :: string
  sp_version :: js_number

record policy_version =
  pn_policyId :: string
  pn_version :: js_number

datatype incident_state = IncOpen | IncTriaged | IncResolved | IncFalsePositive

definition validatePolicy :: "'z security_policy_scheme \<Rightarrow> check" where
  "validatePolicy policy =
     (if length (trim (sp_name policy)) = 0 then Invalid ''A policy must have a name.''
      else if length (sp_name policy) > 120 then Invalid ''A policy name is at most 120 characters.''
      else if \<not> is_integer (sp_version policy) \<or> sp_version policy < 1
        then Invalid ''A policy version must be a positive integer.''
      else if sp_riskLevel policy \<notin> set RISK_LEVELS then Invalid ''Unknown risk level.''
      else if sp_action policy \<notin> set ENFORCEMENT_ACTIONS then Invalid ''Unknown enforcement action.''
      else Valid)"

text \<open>The rendering of a version, for the integers the validation admits.\<close>

definition show_version :: "js_number \<Rightarrow> string" where
  "show_version v = show_int \<lfloor>v\<rfloor>"

definition mayDistribute :: "policy_version \<Rightarrow> policy_version option \<Rightarrow> check" where
  "mayDistribute candidate active =
     (case active of
        None \<Rightarrow> Valid
      | Some a \<Rightarrow>
          if pn_policyId candidate \<noteq> pn_policyId a
          then Invalid ''The candidate policy is not the active policy.''
          else if pn_version candidate < pn_version a
          then Invalid (''Version '' @ show_version (pn_version candidate) @
                 '' is older than the active version '' @ show_version (pn_version a) @
                 ''. Policy never rolls backwards.'')
          else Valid)"

subsection \<open>The registry and the incident tracker\<close>

type_synonym version_registry = "string \<Rightarrow> policy_version option"

definition registry_record :: "string \<Rightarrow> policy_version \<Rightarrow> version_registry \<Rightarrow> version_registry" where
  "registry_record organizationId version active =
     (case active organizationId of
        Some current \<Rightarrow>
          if pn_policyId version = pn_policyId current \<and> pn_version version < pn_version current
          then active else active(organizationId \<mapsto> version)
      | None \<Rightarrow> active(organizationId \<mapsto> version))"

record incident =
  in_id :: string
  in_organizationId :: string
  in_kind :: string
  in_severity :: string
  in_state :: incident_state
  in_summary :: string
  in_openedAt :: millis
  in_closedAt :: "millis option"
  in_resolution :: "string option"

definition isIncidentOpen :: "incident \<Rightarrow> bool" where
  "isIncidentOpen i \<longleftrightarrow> in_state i = IncOpen \<or> in_state i = IncTriaged"

text \<open>\<open>byId\<close> is an insertion-ordered map: a list of incidents, replaced in place.\<close>

record control_state =
  cs_active :: version_registry
  cs_incidents :: "incident list"
  cs_counter :: nat
  cs_now :: millis

definition incident_id :: "nat \<Rightarrow> string" where
  "incident_id n = ''inc-'' @ show_nat n"

definition open_incident ::
  "string \<Rightarrow> string \<Rightarrow> string \<Rightarrow> string \<Rightarrow> control_state \<Rightarrow> incident \<times> control_state" where
  "open_incident organizationId kind severity summary s =
     (let n = Suc (cs_counter s);
          i = \<lparr> in_id = incident_id n, in_organizationId = organizationId, in_kind = kind,
                in_severity = severity, in_state = IncOpen, in_summary = summary,
                in_openedAt = cs_now s, in_closedAt = None, in_resolution = None \<rparr>
      in (i, s\<lparr> cs_counter := n, cs_incidents := cs_incidents s @ [i] \<rparr>))"

definition incident_get :: "string \<Rightarrow> control_state \<Rightarrow> incident option" where
  "incident_get i s = find (\<lambda>x. in_id x = i) (cs_incidents s)"

definition put_incident :: "incident \<Rightarrow> control_state \<Rightarrow> control_state" where
  "put_incident u s = s\<lparr> cs_incidents := map (\<lambda>x. if in_id x = in_id u then u else x) (cs_incidents s) \<rparr>"

definition triage_incident :: "string \<Rightarrow> control_state \<Rightarrow> incident option \<times> control_state" where
  "triage_incident incidentId s =
     (case incident_get incidentId s of
        None \<Rightarrow> (None, s)
      | Some i \<Rightarrow>
          if in_state i \<noteq> IncOpen then (None, s)
          else let u = i\<lparr> in_state := IncTriaged \<rparr> in (Some u, put_incident u s))"

definition close_incident ::
  "string \<Rightarrow> string \<Rightarrow> bool \<Rightarrow> control_state \<Rightarrow> incident option \<times> control_state" where
  "close_incident incidentId resolution falsePositive s =
     (case incident_get incidentId s of
        None \<Rightarrow> (None, s)
      | Some i \<Rightarrow>
          if \<not> isIncidentOpen i then (None, s)
          else if length (trim resolution) = 0 then (None, s)
          else let u = i\<lparr> in_state := (if falsePositive then IncFalsePositive else IncResolved),
                          in_resolution := Some resolution, in_closedAt := Some (cs_now s) \<rparr>
               in (Some u, put_incident u s))"

definition openIncidents :: "string \<Rightarrow> control_state \<Rightarrow> incident list" where
  "openIncidents organizationId s =
     filter (\<lambda>i. in_organizationId i = organizationId \<and> isIncidentOpen i) (cs_incidents s)"

subsection \<open>distributePolicy\<close>

text \<open>
  What the edge answers an applied policy with, and the part of \<open>SecurityEdgeAdapter\<close> the
  distribution calls.
\<close>

record applied_policy =
  ap_version :: js_number

record 'e edge_adapter =
  ea_applyPolicy :: "adapter_context \<Rightarrow> provider_ref \<Rightarrow> ('e, applied_policy) engine_call"

record distribution_outcome =
  do_distributed :: bool
  do_version :: policy_version
  do_reason :: string

definition acknowledged :: "js_number \<Rightarrow> js_number \<Rightarrow> js_number" where
  "acknowledged engineVersion sent = (if engineVersion > sent then engineVersion else sent)"

definition distributePolicy ::
  "'e edge_adapter \<Rightarrow> ('z security_policy_scheme \<Rightarrow> provider_ref) \<Rightarrow> 'z security_policy_scheme \<Rightarrow>
   adapter_context \<Rightarrow> (control_state \<times> 'e, distribution_outcome adapter_result) io" where
  "distributePolicy edge providerRef policy ctx =
     (case validatePolicy policy of
        Invalid reason \<Rightarrow> io_return (AErr Failed reason)
      | Valid \<Rightarrow>
          (let candidate = \<lparr> pn_policyId = sp_id policy, pn_version = sp_version policy \<rparr> in
           io_bind (io_get (\<lambda>(s, e). cs_active s (ac_organizationId ctx))) (\<lambda>active.
             case mayDistribute candidate active of
               Invalid reason \<Rightarrow> io_return (AErr Failed reason)
             | Valid \<Rightarrow>
                 io_bind (on_snd (ea_applyPolicy edge ctx (providerRef policy))) (\<lambda>applied.
                   case applied of
                     AErr status reason \<Rightarrow>
                       io_bind (on_fst (\<lambda>s. case open_incident (ac_organizationId ctx)
                             ''policy_distribution_rejected''
                             (if status = NotConfigured then ''medium'' else ''high'')
                             (''Policy '' @ sp_id policy @ '' v'' @ show_version (sp_version policy) @
                              '' was not applied: '' @ reason) s of (i, s') \<Rightarrow> (Inr i, s')))
                         (\<lambda>i. io_return (AErr status (reason @ '' (incident '' @ in_id i @ '')'')))
                   | AOk _ value \<Rightarrow>
                       (let recorded = \<lparr> pn_policyId = sp_id policy,
                              pn_version = acknowledged (ap_version value) (sp_version policy) \<rparr>
                        in io_then (on_fst (io_modify (\<lambda>s. s\<lparr> cs_active :=
                               registry_record (ac_organizationId ctx) recorded (cs_active s) \<rparr>)))
                             (io_return (AOk Succeeded \<lparr> do_distributed = True, do_version = recorded,
                                do_reason = ''applied'' \<rparr>)))))))"

subsection \<open>The service as a state machine\<close>

inductive control_step :: "'e edge_adapter \<Rightarrow> control_state \<Rightarrow> control_state \<Rightarrow> bool" for edge where
  step_distribute:
    "distributePolicy edge (\<lambda>_. ref) (policy :: security_policy) ctx (s, e) = (r, (s', e')) \<Longrightarrow> control_step edge s s'"
| step_open: "open_incident org kind severity summary s = (i, s') \<Longrightarrow> control_step edge s s'"
| step_triage: "triage_incident i s = (r, s') \<Longrightarrow> control_step edge s s'"
| step_close: "close_incident i resolution falsePositive s = (r, s') \<Longrightarrow> control_step edge s s'"
| step_wait: "cs_now s \<le> t \<Longrightarrow> control_step edge s (s\<lparr> cs_now := t \<rparr>)"

definition initial_control :: "control_state \<Rightarrow> bool" where
  "initial_control s \<longleftrightarrow> cs_active s = Map.empty \<and> cs_incidents s = [] \<and> cs_counter s = 0"

definition well_recorded :: "incident \<Rightarrow> bool" where
  "well_recorded i \<longleftrightarrow>
     (if isIncidentOpen i then in_resolution i = None \<and> in_closedAt i = None
      else (\<exists>r t. in_resolution i = Some r \<and> trim r \<noteq> [] \<and> in_closedAt i = Some t))"

definition tracker_ok :: "control_state \<Rightarrow> bool" where
  "tracker_ok s \<longleftrightarrow> distinct (map in_id (cs_incidents s)) \<and>
     (\<forall>i \<in> set (cs_incidents s). well_recorded i \<and> (\<exists>n. n \<le> cs_counter s \<and> in_id i = incident_id n))"

text \<open>What a step may do to an incident: nothing once it is closed, and never back to open.\<close>

definition advances :: "incident \<Rightarrow> incident \<Rightarrow> bool" where
  "advances i j \<longleftrightarrow>
     in_id j = in_id i \<and> in_organizationId j = in_organizationId i \<and> in_kind j = in_kind i \<and>
     in_severity j = in_severity i \<and> in_summary j = in_summary i \<and> in_openedAt j = in_openedAt i \<and>
     (\<not> isIncidentOpen i \<longrightarrow> j = i) \<and> (in_state i = IncTriaged \<longrightarrow> in_state j \<noteq> IncOpen)"

definition not_older :: "policy_version \<Rightarrow> policy_version \<Rightarrow> bool" where
  "not_older v w \<longleftrightarrow> pn_policyId w = pn_policyId v \<and> pn_version v \<le> pn_version w"

definition forward :: "control_state \<Rightarrow> control_state \<Rightarrow> bool" where
  "forward s s' \<longleftrightarrow>
     (\<forall>org v. cs_active s org = Some v \<longrightarrow> (\<exists>w. cs_active s' org = Some w \<and> not_older v w)) \<and>
     (\<forall>i \<in> set (cs_incidents s). \<exists>j \<in> set (cs_incidents s'). advances i j)"

lemma incident_id_inject [simp]: "incident_id m = incident_id n \<longleftrightarrow> m = n"
  by (simp add: incident_id_def)

lemma advances_refl [simp]: "advances i i"
  by (simp add: advances_def)

lemma advances_trans: "advances i j \<Longrightarrow> advances j k \<Longrightarrow> advances i k"
  by (cases "in_state i"; cases "in_state j"; cases "in_state k") (auto simp: advances_def isIncidentOpen_def)

lemma forwardI:
  assumes "\<And>org v. cs_active s org = Some v \<Longrightarrow> \<exists>w. cs_active s' org = Some w \<and> not_older v w"
    and "\<And>i. i \<in> set (cs_incidents s) \<Longrightarrow> \<exists>j \<in> set (cs_incidents s'). advances i j"
  shows "forward s s'"
  using assms unfolding forward_def by blast

lemma not_older_refl [simp]: "not_older v v"
  by (simp add: not_older_def)

lemma forward_same_incidents:
  "set (cs_incidents s) \<subseteq> set (cs_incidents s') \<Longrightarrow> cs_active s' = cs_active s \<Longrightarrow> forward s s'"
  by (rule forwardI) (auto intro: advances_refl)

lemma forward_refl [simp]: "forward s s"
  by (rule forward_same_incidents) simp_all

lemma forward_trans:
  assumes "forward s t" "forward t u" shows "forward s u"
proof (rule forwardI)
  fix org v assume "cs_active s org = Some v"
  with assms(1) obtain w where "cs_active t org = Some w" "not_older v w" unfolding forward_def by blast
  moreover with assms(2) obtain x where "cs_active u org = Some x" "not_older w x" unfolding forward_def by blast
  ultimately show "\<exists>w. cs_active u org = Some w \<and> not_older v w" by (auto simp: not_older_def)
next
  fix i assume "i \<in> set (cs_incidents s)"
  with assms(1) obtain j where "j \<in> set (cs_incidents t)" "advances i j" unfolding forward_def by blast
  moreover with assms(2) obtain k where "k \<in> set (cs_incidents u)" "advances j k" unfolding forward_def by blast
  ultimately show "\<exists>j \<in> set (cs_incidents u). advances i j" by (blast intro: advances_trans)
qed

lemma acknowledged_ge: "sent \<le> acknowledged engineVersion sent"
  by (simp add: acknowledged_def)

lemma mayDistribute_Valid:
  "mayDistribute c (Some a) = Valid \<Longrightarrow> not_older a c"
  by (simp add: mayDistribute_def not_older_def split: if_splits)

lemma open_incident_forward:
  assumes "open_incident org kind severity summary s = (i, s')"
  shows "forward s s'" "tracker_ok s \<Longrightarrow> tracker_ok s'" "cs_active s' = cs_active s"
    "cs_incidents s' = cs_incidents s @ [i]" "in_state i = IncOpen" "in_organizationId i = org"
proof -
  from assms have s': "s' = s\<lparr> cs_counter := Suc (cs_counter s), cs_incidents := cs_incidents s @ [i] \<rparr>"
    and i: "i = \<lparr> in_id = incident_id (Suc (cs_counter s)), in_organizationId = org, in_kind = kind,
                in_severity = severity, in_state = IncOpen, in_summary = summary,
                in_openedAt = cs_now s, in_closedAt = None, in_resolution = None \<rparr>"
    by (auto simp: open_incident_def Let_def)
  show "cs_active s' = cs_active s" "cs_incidents s' = cs_incidents s @ [i]" "in_state i = IncOpen"
    "in_organizationId i = org" by (simp_all add: s' i)
  show "forward s s'" by (rule forward_same_incidents) (auto simp: s')
  show "tracker_ok s'" if "tracker_ok s"
    using that by (fastforce simp: tracker_ok_def s' i well_recorded_def isIncidentOpen_def)
qed

lemma put_incident_forward:
  assumes "tracker_ok s" "incident_get k s = Some i" "advances i u" "well_recorded u"
  shows "forward s (put_incident u s)" "tracker_ok (put_incident u s)"
proof -
  from assms(2) have i: "i \<in> set (cs_incidents s)" by (auto simp: incident_get_def dest: find_Some_iff')
  have id: "in_id u = in_id i" using assms(3) by (simp add: advances_def)
  have only: "x = i" if "x \<in> set (cs_incidents s)" "in_id x = in_id u" for x
    using assms(1) i that id unfolding tracker_ok_def by (metis distinct_map inj_onD)
  have "\<exists>j \<in> set (cs_incidents (put_incident u s)). advances x j" if "x \<in> set (cs_incidents s)" for x
  proof (cases "in_id x = in_id u")
    case True
    then have "u \<in> set (cs_incidents (put_incident u s))" "advances x u"
      using that only assms(3) by (force simp: put_incident_def)+
    then show ?thesis by blast
  next
    case False
    then have "x \<in> set (cs_incidents (put_incident u s))" using that by (force simp: put_incident_def)
    then show ?thesis by (blast intro: advances_refl)
  qed
  then show "forward s (put_incident u s)"
    by (auto simp: forward_def put_incident_def not_older_def)
  have ids: "map in_id (cs_incidents (put_incident u s)) = map in_id (cs_incidents s)"
    by (simp add: put_incident_def)
  show "tracker_ok (put_incident u s)"
    using assms(1,4) i id unfolding tracker_ok_def ids by (auto simp: put_incident_def)
qed

lemma triage_forward:
  assumes "tracker_ok s" "triage_incident k s = (r, s')"
  shows "forward s s' \<and> tracker_ok s'"
proof (cases "incident_get k s")
  case None
  with assms show ?thesis by (simp add: triage_incident_def)
next
  case (Some i)
  then have "well_recorded i" using assms(1) by (auto simp: incident_get_def tracker_ok_def dest!: find_Some_iff')
  then have "in_state i = IncOpen \<Longrightarrow> well_recorded (i\<lparr> in_state := IncTriaged \<rparr>) \<and> advances i (i\<lparr> in_state := IncTriaged \<rparr>)"
    by (simp add: well_recorded_def isIncidentOpen_def advances_def)
  with Some assms show ?thesis
    by (auto simp: triage_incident_def Let_def put_incident_forward split: if_splits)
qed

lemma close_forward:
  assumes "tracker_ok s" "close_incident k resolution fp s = (r, s')"
  shows "forward s s' \<and> tracker_ok s'"
proof (cases "incident_get k s")
  case None
  with assms show ?thesis by (simp add: close_incident_def)
next
  case (Some i)
  let ?u = "i\<lparr> in_state := (if fp then IncFalsePositive else IncResolved),
               in_resolution := Some resolution, in_closedAt := Some (cs_now s) \<rparr>"
  have "isIncidentOpen i \<Longrightarrow> trim resolution \<noteq> [] \<Longrightarrow> well_recorded ?u \<and> advances i ?u"
    by (simp add: well_recorded_def isIncidentOpen_def advances_def)
  with Some assms show ?thesis
    by (auto simp: close_incident_def Let_def put_incident_forward split: if_splits)
qed

lemma registry_record_forward:
  assumes "\<And>a. active org = Some a \<Longrightarrow> not_older a v"
  shows "active o' = Some w \<Longrightarrow> \<exists>x. registry_record org v active o' = Some x \<and> not_older w x"
    and "registry_record org v active org = Some v"
  using assms by (auto simp: registry_record_def not_older_def split: option.splits)

text \<open>The three ways a distribution ends.\<close>

lemma distribute_cases:
  assumes "distributePolicy edge pref policy ctx (s, e) = (r, (s', e'))"
  shows "(s' = s \<and> (\<forall>a. r = Inr a \<longrightarrow> \<not> result_ok a)) \<or>
     (\<exists>status reason reason'. s' = snd (open_incident (ac_organizationId ctx) ''policy_distribution_rejected''
          (if status = NotConfigured then ''medium'' else ''high'')
          (''Policy '' @ sp_id policy @ '' v'' @ show_version (sp_version policy) @ '' was not applied: '' @ reason) s) \<and>
        r = Inr (AErr status reason') \<and>
        ea_applyPolicy edge ctx (pref policy) e = (Inr (AErr status reason), e')) \<or>
     (\<exists>st ack v. ea_applyPolicy edge ctx (pref policy) e = (Inr (AOk st ack), e') \<and>
        v = \<lparr> pn_policyId = sp_id policy, pn_version = acknowledged (ap_version ack) (sp_version policy) \<rparr> \<and>
        (\<forall>a. cs_active s (ac_organizationId ctx) = Some a \<longrightarrow> not_older a v) \<and>
        s' = s\<lparr> cs_active := registry_record (ac_organizationId ctx) v (cs_active s) \<rparr> \<and>
        r = Inr (AOk Succeeded \<lparr> do_distributed = True, do_version = v, do_reason = ''applied'' \<rparr>))"
proof (cases "validatePolicy policy")
  case (Invalid reason)
  with assms show ?thesis by (auto simp: distributePolicy_def io_return_apply)
next
  case valid: Valid
  let ?c = "\<lparr> pn_policyId = sp_id policy, pn_version = sp_version policy \<rparr>"
  show ?thesis
  proof (cases "mayDistribute ?c (cs_active s (ac_organizationId ctx))")
    case (Invalid reason)
    with valid assms show ?thesis
      by (auto simp: distributePolicy_def Let_def io_bind_apply io_get_apply io_return_apply)
  next
    case may: Valid
    obtain ans e1 where call: "ea_applyPolicy edge ctx (pref policy) e = (ans, e1)" by fastforce
    have newer: "not_older a \<lparr> pn_policyId = sp_id policy, pn_version = acknowledged n (sp_version policy) \<rparr>"
      if "cs_active s (ac_organizationId ctx) = Some a" for a n
      using may that mayDistribute_Valid [of ?c a] acknowledged_ge [of "sp_version policy" n]
      by (auto simp: not_older_def)
    show ?thesis
    proof (cases ans)
      case (Inl err)
      with valid may call assms show ?thesis
        by (auto simp: distributePolicy_def Let_def io_bind_apply io_get_apply on_snd_apply)
    next
      case (Inr a)
      show ?thesis
      proof (cases a)
        case (AErr st reason)
        with Inr valid may call assms show ?thesis
          by (auto simp: distributePolicy_def Let_def io_bind_apply io_get_apply on_snd_apply on_fst_apply
              io_return_apply split: prod.splits)
      next
        case (AOk st ack)
        with Inr valid may call assms newer show ?thesis
          by (auto simp: distributePolicy_def Let_def io_bind_apply io_get_apply on_snd_apply on_fst_apply
              io_then_apply io_modify_apply io_return_apply)
      qed
    qed
  qed
qed

lemma distribute_forward:
  assumes "tracker_ok s" "distributePolicy edge pref policy ctx (s, e) = (r, (s', e'))"
  shows "forward s s' \<and> tracker_ok s'"
  using distribute_cases [OF assms(2)]
proof (elim disjE exE conjE)
  assume "s' = s" then show ?thesis using assms(1) by simp
next
  fix status reason reason'
  assume "s' = snd (open_incident (ac_organizationId ctx) ''policy_distribution_rejected''
          (if status = NotConfigured then ''medium'' else ''high'')
          (''Policy '' @ sp_id policy @ '' v'' @ show_version (sp_version policy) @ '' was not applied: '' @ reason) s)"
  then show ?thesis using open_incident_forward(1,2) assms(1) by (metis prod.collapse)
next
  fix st ack v
  assume "\<forall>a. cs_active s (ac_organizationId ctx) = Some a \<longrightarrow> not_older a v"
    and s': "s' = s\<lparr> cs_active := registry_record (ac_organizationId ctx) v (cs_active s) \<rparr>"
  then have "forward s s'"
    by (intro forwardI) (auto simp: registry_record_forward intro: advances_refl)
  then show ?thesis using assms(1) by (simp add: tracker_ok_def s')
qed

lemma step_forward:
  assumes "control_step edge s s'" "tracker_ok s"
  shows "forward s s' \<and> tracker_ok s'"
  using assms
proof cases
  case (step_distribute ref policy ctx e r e')
  then show ?thesis by (intro distribute_forward [OF assms(2)])
next
  case (step_open org kind severity summary i)
  then show ?thesis using open_incident_forward(1,2) assms(2) by metis
next
  case (step_triage i r)
  then show ?thesis by (intro triage_forward [OF assms(2)])
next
  case (step_close i resolution falsePositive r)
  then show ?thesis by (intro close_forward [OF assms(2)])
next
  case (step_wait t)
  then show ?thesis using assms(2) forward_same_incidents [of s s'] by (simp add: tracker_ok_def)
qed

lemma run_forward:
  assumes "(control_step edge)\<^sup>*\<^sup>* s s'" "tracker_ok s"
  shows "forward s s' \<and> tracker_ok s'"
  using assms by (induction rule: rtranclp_induct) (auto intro: forward_trans dest: step_forward)

lemma initial_tracker_ok: "initial_control s \<Longrightarrow> tracker_ok s"
  by (simp add: initial_control_def tracker_ok_def)

text \<open>
  Policy never rolls backwards: whatever sequence of distributions and incident operations
  the service goes through, with whatever answers of the edge, the active version of an
  organization stays a version of the same policy and never decreases, and a distribution that
  succeeds makes a version active that is at least the one that was sent.
\<close>

theorem policy_never_rolls_back:
  assumes "initial_control s0" "(control_step edge)\<^sup>*\<^sup>* s0 s" "(control_step edge)\<^sup>*\<^sup>* s s'"
    and "cs_active s org = Some v"
  shows "\<exists>w. cs_active s' org = Some w \<and> pn_policyId w = pn_policyId v \<and> pn_version v \<le> pn_version w"
proof -
  have "tracker_ok s" using run_forward [OF assms(2) initial_tracker_ok [OF assms(1)]] by blast
  with run_forward [OF assms(3)] have "forward s s'" by blast
  with assms(4) show ?thesis by (auto simp: forward_def not_older_def)
qed

text \<open>
  An incident is never silently closed and never reopened: in every reachable state incident
  ids are unique, an incident has a resolution and a closing time exactly when it is closed, and
  the resolution is not blank; from there on no operation changes a closed incident or takes a
  triaged one back to open.
\<close>

theorem incidents_close_with_a_resolution:
  assumes "initial_control s0" "(control_step edge)\<^sup>*\<^sup>* s0 s" "(control_step edge)\<^sup>*\<^sup>* s s'"
    and "i \<in> set (cs_incidents s)"
  shows "distinct (map in_id (cs_incidents s)) \<and>
    (isIncidentOpen i \<longleftrightarrow> in_resolution i = None) \<and> (isIncidentOpen i \<longleftrightarrow> in_closedAt i = None) \<and>
    (\<forall>r. in_resolution i = Some r \<longrightarrow> trim r \<noteq> []) \<and>
    (\<exists>j \<in> set (cs_incidents s'). in_id j = in_id i \<and> (\<not> isIncidentOpen i \<longrightarrow> j = i) \<and>
       (in_state i = IncTriaged \<longrightarrow> in_state j \<noteq> IncOpen))"
proof -
  have ok: "tracker_ok s" using run_forward [OF assms(2) initial_tracker_ok [OF assms(1)]] by blast
  with run_forward [OF assms(3)] have "forward s s'" by blast
  with assms(4) obtain j where "j \<in> set (cs_incidents s')" "advances i j" by (auto simp: forward_def)
  moreover have "well_recorded i" using ok assms(4) by (auto simp: tracker_ok_def)
  ultimately show ?thesis using ok
    by (auto simp: tracker_ok_def well_recorded_def advances_def split: if_splits)
qed

text \<open>
  A distribution is recorded only when the edge accepted it: the registry changes only after
  an accepted call and then holds the version the edge acknowledged, never one below the version
  sent; a refused call opens exactly one incident of the organization, whose id the answer names,
  and leaves the registry alone.
\<close>

theorem distribution_follows_the_edge:
  assumes "distributePolicy edge pref policy ctx (s, e) = (r, (s', e'))"
  shows "(cs_active s' \<noteq> cs_active s \<longrightarrow>
       (\<exists>st ack. ea_applyPolicy edge ctx (pref policy) e = (Inr (AOk st ack), e')) \<and> validatePolicy policy = Valid) \<and>
    (\<forall>st v. r = Inr (AOk st v) \<longrightarrow>
       cs_active s' (ac_organizationId ctx) = Some (do_version v) \<and> sp_version policy \<le> pn_version (do_version v)) \<and>
    (cs_incidents s' \<noteq> cs_incidents s \<longrightarrow>
       cs_active s' = cs_active s \<and>
       (\<exists>i st reason reason'. cs_incidents s' = cs_incidents s @ [i] \<and> in_state i = IncOpen \<and>
          in_organizationId i = ac_organizationId ctx \<and> r = Inr (AErr st reason') \<and>
          ea_applyPolicy edge ctx (pref policy) e = (Inr (AErr st reason), e')))"
  using distribute_cases [OF assms]
proof (elim disjE exE conjE)
  assume "s' = s" "\<forall>a. r = Inr a \<longrightarrow> \<not> result_ok a" then show ?thesis by auto
next
  fix status reason reason'
  assume open': "s' = snd (open_incident (ac_organizationId ctx) ''policy_distribution_rejected''
          (if status = NotConfigured then ''medium'' else ''high'')
          (''Policy '' @ sp_id policy @ '' v'' @ show_version (sp_version policy) @ '' was not applied: '' @ reason) s)"
    and r: "r = Inr (AErr status reason')" "ea_applyPolicy edge ctx (pref policy) e = (Inr (AErr status reason), e')"
  obtain j where "open_incident (ac_organizationId ctx) ''policy_distribution_rejected''
          (if status = NotConfigured then ''medium'' else ''high'')
          (''Policy '' @ sp_id policy @ '' v'' @ show_version (sp_version policy) @ '' was not applied: '' @ reason) s = (j, s')"
    using open' by (metis prod.collapse)
  from open_incident_forward(3-6) [OF this] r show ?thesis by auto
next
  fix st ack v
  assume call: "ea_applyPolicy edge ctx (pref policy) e = (Inr (AOk st ack), e')"
    and v: "v = \<lparr> pn_policyId = sp_id policy, pn_version = acknowledged (ap_version ack) (sp_version policy) \<rparr>"
    and new: "\<forall>a. cs_active s (ac_organizationId ctx) = Some a \<longrightarrow> not_older a v"
    and s': "s' = s\<lparr> cs_active := registry_record (ac_organizationId ctx) v (cs_active s) \<rparr>"
    and r: "r = Inr (AOk Succeeded \<lparr> do_distributed = True, do_version = v, do_reason = ''applied'' \<rparr>)"
  have "validatePolicy policy = Valid"
    using assms r by (auto simp: distributePolicy_def io_return_apply split: check.splits)
  moreover have "registry_record (ac_organizationId ctx) v (cs_active s) (ac_organizationId ctx) = Some v"
    using new by (intro registry_record_forward(2)) blast
  ultimately show ?thesis using call acknowledged_ge by (auto simp: s' r v)
qed

subsection \<open>A concrete edge\<close>

definition agreeable_edge :: "nat edge_adapter" where
  "agreeable_edge = \<lparr> ea_applyPolicy = (\<lambda>_ _ n. (Inr (if n = 0 then AOk Succeeded \<lparr> ap_version = 7 \<rparr>
     else AErr Failed ''rejected''), Suc n)) \<rparr>"

definition sample_policy :: security_policy where
  "sample_policy = \<lparr> sp_id = ''pol'', sp_organizationId = ''o'', sp_name = ''Firewall'', sp_riskLevel = ''high'',
     sp_action = ''block'', sp_version = 5 \<rparr>"

definition sample_policy_ref :: provider_ref where
  "sample_policy_ref = \<lparr> ref_organizationId = ''o'', ref_provider = ''coraza'', ref_resourceType = ''policy'',
     ref_resourceId = ''pol'' \<rparr>"

definition sample_policy_ctx :: adapter_context where
  "sample_policy_ctx = \<lparr> ac_organizationId = ''o'', ac_idempotencyKey = ''k'', ac_timeoutMs = 1 \<rparr>"

definition control0 :: control_state where
  "control0 = \<lparr> cs_active = Map.empty, cs_incidents = [], cs_counter = 0, cs_now = 0 \<rparr>"

definition control1 :: control_state where
  "control1 = control0\<lparr> cs_active := [''o'' \<mapsto> \<lparr> pn_policyId = ''pol'', pn_version = 7 \<rparr>] \<rparr>"

definition control2 :: control_state where
  "control2 = snd (open_incident ''o'' ''probe'' ''low'' ''origin leak'' control1)"

definition control3 :: control_state where
  "control3 = snd (close_incident ''inc-1'' ''fixed'' False control2)"

lemma control_runs:
  "initial_control control0" "(control_step agreeable_edge)\<^sup>*\<^sup>* control0 control2"
  "(control_step agreeable_edge)\<^sup>*\<^sup>* control2 control3"
proof -
  show "initial_control control0" by (simp add: initial_control_def control0_def)
  have "fst (snd (distributePolicy agreeable_edge (\<lambda>_. sample_policy_ref) sample_policy sample_policy_ctx (control0, 0))) = control1"
  proof -
    have "validatePolicy sample_policy = Valid" by code_simp
    then show ?thesis
      by (simp add: distributePolicy_def Let_def io_bind_apply io_get_apply on_snd_apply on_fst_apply io_then_apply
          io_modify_apply io_return_apply agreeable_edge_def control0_def control1_def sample_policy_ctx_def
          mayDistribute_def registry_record_def sample_policy_def acknowledged_def)
  qed
  then have "control_step agreeable_edge control0 control1"
    by (metis prod.collapse step_distribute)
  moreover have "control_step agreeable_edge control1 control2"
    unfolding control2_def by (rule step_open) (rule prod.collapse [symmetric])
  ultimately show "(control_step agreeable_edge)\<^sup>*\<^sup>* control0 control2" by auto
  have "control_step agreeable_edge control2 control3"
    unfolding control3_def by (rule step_close) (rule prod.collapse [symmetric])
  then show "(control_step agreeable_edge)\<^sup>*\<^sup>* control2 control3" by auto
qed

theorem policy_never_rolls_back_witness:
  "\<exists>w. cs_active control3 ''o'' = Some w \<and> pn_policyId w = ''pol'' \<and> 7 \<le> pn_version w"
  using policy_never_rolls_back [OF control_runs, of "''o''" "\<lparr> pn_policyId = ''pol'', pn_version = 7 \<rparr>"]
  by (simp add: control2_def open_incident_def Let_def control1_def control0_def)

theorem incidents_close_with_a_resolution_witness:
  "\<exists>i. cs_incidents control2 = [i] \<and> isIncidentOpen i \<and> in_resolution i = None"
proof -
  obtain i where i: "cs_incidents control2 = [i]" "in_state i = IncOpen"
    by (simp add: control2_def open_incident_def Let_def control1_def control0_def)
  then have "isIncidentOpen i" by (simp add: isIncidentOpen_def)
  with incidents_close_with_a_resolution [OF control_runs, of i] i show ?thesis by simp
qed

theorem distribution_follows_the_edge_witness:
  "cs_active (fst (snd (distributePolicy agreeable_edge (\<lambda>_. sample_policy_ref) sample_policy sample_policy_ctx (control0, 3)))) = cs_active control0 \<and>
   (\<exists>i. cs_incidents (fst (snd (distributePolicy agreeable_edge (\<lambda>_. sample_policy_ref) sample_policy sample_policy_ctx (control0, 3)))) = [i])"
proof -
  obtain r s' e' where run: "distributePolicy agreeable_edge (\<lambda>_. sample_policy_ref) sample_policy sample_policy_ctx (control0, 3)
      = (r, (s', e'))" by (metis prod.collapse)
  have "length (cs_incidents (fst (snd (distributePolicy agreeable_edge (\<lambda>_. sample_policy_ref) sample_policy sample_policy_ctx (control0, 3))))) = 1"
  proof -
    have "validatePolicy sample_policy = Valid" by code_simp
    then show ?thesis
      by (simp add: distributePolicy_def Let_def io_bind_apply io_get_apply on_snd_apply on_fst_apply
          io_return_apply agreeable_edge_def control0_def sample_policy_ctx_def mayDistribute_def open_incident_def)
  qed
  then have "length (cs_incidents s') = 1" by (simp add: run)
  moreover have "cs_incidents control0 = []" by (simp add: control0_def)
  ultimately show ?thesis
    using distribution_follows_the_edge [OF run] run by fastforce
qed

end
