(* ===== verification/Policy_Job.thy ===== *)
theory Policy_Job
  imports Policy Worker_Processor
begin

section \<open>apps/worker/policy-job.ts: distributing a policy off the request path\<close>

text \<open>
  The handler re-reads the organization's policy and applies it at the edge; the applier activates
  the policy, or records the refusal and opens an incident.  \<open>policyWrites\<close> is the store as
  \<open>apps/worker/runtime.ts\<close> wires it, over the tables the job touches; \<open>newId\<close> draws from a
  sequence, and an event that fails leaves what was written before.
\<close>

record policy_row = security_policy +
  pl_state :: string
  pl_protectionMode :: string
  pl_protectionExpiresAt :: "millis option"

record policy_save =
  sv_id :: string
  sv_organizationId :: string
  sv_name :: string
  sv_riskLevel :: string
  sv_action :: string
  sv_state :: string
  sv_protectionMode :: string
  sv_protectionExpiresAt :: "millis option"
  sv_version :: js_number
  sv_createdBy :: string

record policy_event =
  pe_id :: string
  pe_organizationId :: string
  pe_policyId :: string
  pe_fromState :: "string option"
  pe_toState :: string
  pe_version :: js_number
  pe_actorId :: "string option"
  pe_actorEmail :: "string option"
  pe_detail :: "string option"

text \<open>The metadata of an audit row as its fields, rendered.\<close>

record audit_event =
  au_organizationId :: string
  au_actorId :: "string option"
  au_actorEmail :: "string option"
  au_event :: string
  au_targetType :: string
  au_targetId :: string
  au_metadata :: "(string \<times> string) list"

record incident_open =
  io_id :: string
  io_organizationId :: string
  io_kind :: string
  io_severity :: string
  io_summary :: string
  io_openedAt :: millis

record 'e policy_writes =
  pw_getSecurityPolicy :: "string \<Rightarrow> ('e, policy_row option) io"
  pw_saveSecurityPolicy :: "policy_save \<Rightarrow> ('e, policy_row) io"
  pw_recordPolicyEvent :: "policy_event \<Rightarrow> ('e, unit) io"
  pw_recordAuditEvent :: "audit_event \<Rightarrow> ('e, unit) io"
  pw_openSecurityIncident :: "(incident_open \<Rightarrow> ('e, unit) io) option"

record 'e policy_job_deps =
  pd_securityEdge :: "'e edge_adapter"
  pd_writes :: "'e policy_writes"
  pd_newId :: "('e, string) io"
  pd_now :: "'e \<Rightarrow> millis"

record policy_result =
  po_status :: engine_status
  po_state :: string
  po_version :: js_number
  po_distributed :: bool
  po_reason :: "string option"

definition buildPolicyJobHandler ::
  "'e policy_job_deps \<Rightarrow> ('e, policy_job_payload, policy_result) job_handler" where
  "buildPolicyJobHandler deps payload jobctx =
     io_bind (pw_getSecurityPolicy (pd_writes deps) (pjp_organizationId payload)) (\<lambda>found.
       case found of
         None \<Rightarrow> io_return (AErr Failed ''The policy this job names no longer exists.'')
       | Some policy \<Rightarrow>
           if sp_id policy \<noteq> pjp_policyId payload
           then io_return (AErr Failed ''The policy this job names no longer exists.'')
           else (case validatePolicy policy of
               Invalid reason \<Rightarrow> io_return (AErr Failed reason)
             | Valid \<Rightarrow>
                 (let v = \<lparr> pn_policyId = sp_id policy, pn_version = sp_version policy \<rparr>;
                      active = (if pl_state policy = ''active'' then Some v else None)
                  in case mayDistribute v active of
                       Invalid reason \<Rightarrow> io_return (AErr Degraded reason)
                     | Valid \<Rightarrow>
                         io_bind (ea_applyPolicy (pd_securityEdge deps)
                             \<lparr> ac_organizationId = sp_organizationId policy,
                               ac_idempotencyKey = ''distribute-'' @ sp_id policy @ ''-v'' @
                                 show_version (sp_version policy),
                               ac_timeoutMs = 20000 \<rparr>
                             \<lparr> ref_organizationId = sp_organizationId policy, ref_provider = ''coraza'',
                               ref_resourceType = ''policy'', ref_resourceId = sp_id policy \<rparr>)
                           (\<lambda>applied. case applied of
                               AErr status reason \<Rightarrow> io_return (AErr status reason)
                             | AOk status value \<Rightarrow>
                                 io_return (AOk status \<lparr> po_status = status, po_state = ''active'',
                                   po_version = acknowledged (ap_version value) (sp_version policy),
                                   po_distributed = True, po_reason = None \<rparr>)))))"

definition buildPolicyApplier ::
  "'e policy_job_deps \<Rightarrow> ('e, policy_job_payload, policy_result) job_outcome_writer" where
  "buildPolicyApplier deps job result =
     (if jb_kind job \<noteq> POLICY_JOB_KIND then io_return ()
      else let payload = jb_payload job; writes = pd_writes deps in
        io_bind (pw_getSecurityPolicy writes (pjp_organizationId payload)) (\<lambda>found.
          case found of
            None \<Rightarrow> io_return ()
          | Some policy \<Rightarrow>
              if sp_id policy \<noteq> pjp_policyId payload then io_return ()
              else (case result of
                AErr status reason \<Rightarrow>
                  io_bind (pd_newId deps) (\<lambda>eventId.
                  io_then (pw_recordPolicyEvent writes
                    \<lparr> pe_id = eventId, pe_organizationId = sp_organizationId policy, pe_policyId = sp_id policy,
                      pe_fromState = Some (pl_state policy), pe_toState = ''rejected'',
                      pe_version = sp_version policy, pe_actorId = Some (pjp_actorId payload),
                      pe_actorEmail = Some (pjp_actorEmail payload), pe_detail = Some reason \<rparr>)
                  (io_then (pw_recordAuditEvent writes
                    \<lparr> au_organizationId = sp_organizationId policy, au_actorId = Some (pjp_actorId payload),
                      au_actorEmail = Some (pjp_actorEmail payload), au_event = ''policy.rejected'',
                      au_targetType = ''security_policy'', au_targetId = sp_id policy,
                      au_metadata = [(''version'', show_version (sp_version policy)), (''status'', status_name status)] \<rparr>)
                  (case pw_openSecurityIncident writes of
                     None \<Rightarrow> io_return ()
                   | Some open' \<Rightarrow>
                       io_bind (pd_newId deps) (\<lambda>incidentId.
                       io_bind (io_get (pd_now deps)) (\<lambda>now.
                         open' \<lparr> io_id = incidentId, io_organizationId = sp_organizationId policy,
                           io_kind = ''policy_distribution_rejected'',
                           io_severity = (if status = NotConfigured then ''medium'' else ''high''),
                           io_summary = ''Policy v'' @ show_version (sp_version policy) @ '' was not applied: '' @ reason,
                           io_openedAt = now \<rparr>)))))
              | AOk _ value \<Rightarrow>
                  io_bind (pw_saveSecurityPolicy writes
                    \<lparr> sv_id = sp_id policy, sv_organizationId = sp_organizationId policy, sv_name = sp_name policy,
                      sv_riskLevel = sp_riskLevel policy, sv_action = sp_action policy, sv_state = ''active'',
                      sv_protectionMode = pl_protectionMode policy,
                      sv_protectionExpiresAt = pl_protectionExpiresAt policy,
                      sv_version = po_version value, sv_createdBy = pjp_actorId payload \<rparr>) (\<lambda>active.
                  io_bind (pd_newId deps) (\<lambda>eventId.
                  io_then (pw_recordPolicyEvent writes
                    \<lparr> pe_id = eventId, pe_organizationId = sp_organizationId policy, pe_policyId = sp_id policy,
                      pe_fromState = Some (pl_state policy), pe_toState = ''active'',
                      pe_version = sp_version active, pe_actorId = Some (pjp_actorId payload),
                      pe_actorEmail = Some (pjp_actorEmail payload),
                      pe_detail = Some ''Policy distributed and accepted by the edge.'' \<rparr>)
                  (pw_recordAuditEvent writes
                    \<lparr> au_organizationId = sp_organizationId policy, au_actorId = Some (pjp_actorId payload),
                      au_actorEmail = Some (pjp_actorEmail payload), au_event = ''policy.distributed'',
                      au_targetType = ''security_policy'', au_targetId = sp_id policy,
                      au_metadata = [(''version'', show_version (sp_version active))] \<rparr>))))))"

subsection \<open>The tables and the wiring\<close>

record policy_plane =
  pp_policies :: "policy_row list"
  pp_events :: "policy_event list"
  pp_audit :: "audit_event list"
  pp_incidents :: "incident_open list"
  pp_draws :: nat
  pp_now :: millis

text \<open>\<open>getSecurityPolicyForService\<close>: the row of the organization with the highest version.\<close>

fun newest :: "policy_row list \<Rightarrow> policy_row option" where
  "newest [] = None"
| "newest (r # rs) =
     (case newest rs of None \<Rightarrow> Some r | Some q \<Rightarrow> if sp_version r < sp_version q then Some q else Some r)"

definition policy_of :: "string \<Rightarrow> policy_plane \<Rightarrow> policy_row option" where
  "policy_of organizationId s = newest (filter (\<lambda>r. sp_organizationId r = organizationId) (pp_policies s))"

text \<open>
  \<open>saveSecurityPolicy\<close>: an upsert on the organization and the name; the columns of the input
  replace those of the row, the version included.
\<close>

definition row_of_save :: "policy_save \<Rightarrow> policy_row" where
  "row_of_save i =
     \<lparr> sp_id = sv_id i, sp_organizationId = sv_organizationId i, sp_name = sv_name i,
       sp_riskLevel = sv_riskLevel i, sp_action = sv_action i, sp_version = sv_version i,
       pl_state = sv_state i, pl_protectionMode = sv_protectionMode i,
       pl_protectionExpiresAt = sv_protectionExpiresAt i \<rparr>"

definition same_key :: "policy_row \<Rightarrow> policy_row \<Rightarrow> bool" where
  "same_key a b \<longleftrightarrow> sp_organizationId a = sp_organizationId b \<and> sp_name a = sp_name b"

definition saveSecurityPolicy :: "policy_save \<Rightarrow> policy_plane \<Rightarrow> policy_row \<times> policy_plane" where
  "saveSecurityPolicy i s =
     (let row = row_of_save i in
      (row, s\<lparr> pp_policies :=
         (if list_ex (same_key row) (pp_policies s)
          then map (\<lambda>r. if same_key row r then row else r) (pp_policies s)
          else pp_policies s @ [row]) \<rparr>))"

definition policyWrites :: "(policy_plane \<times> 'x) policy_writes" where
  "policyWrites =
     \<lparr> pw_getSecurityPolicy = (\<lambda>org. on_fst (io_get (policy_of org))),
       pw_saveSecurityPolicy = (\<lambda>i. on_fst (\<lambda>s. case saveSecurityPolicy i s of (r, s') \<Rightarrow> (Inr r, s'))),
       pw_recordPolicyEvent = (\<lambda>ev. on_fst (io_modify (\<lambda>s. s\<lparr> pp_events := pp_events s @ [ev] \<rparr>))),
       pw_recordAuditEvent = (\<lambda>ev. on_fst (io_modify (\<lambda>s. s\<lparr> pp_audit := pp_audit s @ [ev] \<rparr>))),
       pw_openSecurityIncident = Some (\<lambda>i. on_fst (io_modify (\<lambda>s. s\<lparr> pp_incidents := pp_incidents s @ [i] \<rparr>))) \<rparr>"

definition drawId :: "(nat \<Rightarrow> string) \<Rightarrow> (policy_plane \<times> 'x, string) io" where
  "drawId uuid = on_fst (\<lambda>s. (Inr (uuid (pp_draws s)), s\<lparr> pp_draws := Suc (pp_draws s) \<rparr>))"

subsection \<open>What the applier writes\<close>

lemma mayDistribute_same [simp]: "mayDistribute c None = Valid" "mayDistribute c (Some c) = Valid"
  by (simp_all add: mayDistribute_def)

lemma newest_in: "newest rows = Some r \<Longrightarrow> r \<in> set rows"
  by (induction rows arbitrary: r) (auto split: option.splits if_splits)

lemma policy_of_in:
  "policy_of org s = Some r \<Longrightarrow> r \<in> set (pp_policies s) \<and> sp_organizationId r = org"
  by (auto simp: policy_of_def dest: newest_in)

definition wired_policy :: "(policy_plane \<times> 'x) policy_job_deps \<Rightarrow> (nat \<Rightarrow> string) \<Rightarrow> bool" where
  "wired_policy deps uuid \<longleftrightarrow> pd_writes deps = policyWrites \<and> pd_newId deps = drawId uuid"

text \<open>The policies after the save of an accepted distribution.\<close>

definition activated :: "policy_row \<Rightarrow> js_number \<Rightarrow> policy_row" where
  "activated r v = r\<lparr> sp_version := v, pl_state := ''active'' \<rparr>"

lemma save_activates:
  assumes "policy_of org s = Some r"
  shows "saveSecurityPolicy \<lparr> sv_id = sp_id r, sv_organizationId = sp_organizationId r, sv_name = sp_name r,
       sv_riskLevel = sp_riskLevel r, sv_action = sp_action r, sv_state = ''active'',
       sv_protectionMode = pl_protectionMode r, sv_protectionExpiresAt = pl_protectionExpiresAt r,
       sv_version = v, sv_createdBy = by' \<rparr> s =
     (activated r v, s\<lparr> pp_policies := map (\<lambda>q. if same_key r q then activated r v else q) (pp_policies s) \<rparr>)"
proof -
  have row: "row_of_save \<lparr> sv_id = sp_id r, sv_organizationId = sp_organizationId r, sv_name = sp_name r,
       sv_riskLevel = sp_riskLevel r, sv_action = sp_action r, sv_state = ''active'',
       sv_protectionMode = pl_protectionMode r, sv_protectionExpiresAt = pl_protectionExpiresAt r,
       sv_version = v, sv_createdBy = by' \<rparr> = activated r v"
    by (simp add: row_of_save_def activated_def)
  have key: "same_key (activated r v) = same_key r"
    by (intro ext) (simp add: same_key_def activated_def)
  have "list_ex (same_key r) (pp_policies s)"
    using policy_of_in [OF assms] by (auto simp: list_ex_iff same_key_def)
  then show ?thesis by (simp add: saveSecurityPolicy_def row key Let_def)
qed

text \<open>
  The policy row changes only for an accepted distribution: then the row of the
  organization's policy becomes active at the acknowledged version, with its action, risk level
  and protection posture as they are stored, no other row changes and no incident opens; a
  refused one leaves every row as it is, records a \<open>rejected\<close> transition and opens one incident,
  whose severity says whether the edge was there at all.
\<close>

theorem policy_applier_records_the_answer:
  assumes "wired_policy deps uuid" "jb_kind job = POLICY_JOB_KIND"
    and "policy_of (pjp_organizationId (jb_payload job)) s = Some r" "sp_id r = pjp_policyId (jb_payload job)"
    and "buildPolicyApplier deps job result (s, x) = (a, (s', x'))"
  shows "a = Inr () \<and> x' = x \<and>
    (case result of
       AOk st v \<Rightarrow>
         pp_policies s' = map (\<lambda>q. if same_key r q then activated r (po_version v) else q) (pp_policies s) \<and>
         pp_incidents s' = pp_incidents s \<and>
         (\<exists>ev. pp_events s' = pp_events s @ [ev] \<and> pe_toState ev = ''active'' \<and> pe_version ev = po_version v)
     | AErr st reason \<Rightarrow>
         pp_policies s' = pp_policies s \<and>
         (\<exists>ev. pp_events s' = pp_events s @ [ev] \<and> pe_toState ev = ''rejected'' \<and> pe_detail ev = Some reason) \<and>
         (\<exists>i. pp_incidents s' = pp_incidents s @ [i] \<and> io_organizationId i = sp_organizationId r \<and>
            io_severity i = (if st = NotConfigured then ''medium'' else ''high''))) \<and>
    length (pp_audit s') = Suc (length (pp_audit s))"
proof (cases result)
  case (AErr st reason)
  then show ?thesis
    using assms(1-3,5) by (auto simp: assms(4) [symmetric] buildPolicyApplier_def Let_def wired_policy_def policyWrites_def drawId_def io_bind_apply
        io_then_apply on_fst_apply io_get_apply io_modify_apply)
next
  case (AOk st v)
  then show ?thesis
    using assms(1-3,5) by (auto simp: assms(4) [symmetric] buildPolicyApplier_def Let_def wired_policy_def policyWrites_def drawId_def io_bind_apply
        io_then_apply on_fst_apply io_get_apply io_modify_apply save_activates activated_def)
qed

text \<open>
  The save does not look at the version the row has: a policy saved at a newer version while its
  predecessor was being distributed is taken back to the older version, and marked active there.
\<close>

theorem policy_applier_can_rewind:
  assumes "wired_policy deps uuid" "jb_kind job = POLICY_JOB_KIND"
    and "policy_of (pjp_organizationId (jb_payload job)) s = Some r" "sp_id r = pjp_policyId (jb_payload job)"
    and "po_version v < sp_version r"
  shows "\<exists>q \<in> set (pp_policies (fst (snd (buildPolicyApplier deps job (AOk Succeeded v) (s, x))))).
     same_key r q \<and> pl_state q = ''active'' \<and> sp_version q < sp_version r"
proof -
  have rows: "pp_policies (fst (snd (buildPolicyApplier deps job (AOk Succeeded v) (s, x)))) =
      map (\<lambda>q. if same_key r q then activated r (po_version v) else q) (pp_policies s)"
    using assms(1-3)
    by (auto simp: assms(4) [symmetric] buildPolicyApplier_def Let_def wired_policy_def policyWrites_def drawId_def io_bind_apply
        io_then_apply on_fst_apply io_get_apply io_modify_apply save_activates)
  have "r \<in> set (pp_policies s)" using policy_of_in [OF assms(3)] by blast
  then have "activated r (po_version v) \<in> set (map (\<lambda>q. if same_key r q then activated r (po_version v) else q) (pp_policies s))"
    by (force simp: same_key_def)
  then show ?thesis
    unfolding rows using assms(5)
    by (intro bexI [of _ "activated r (po_version v)"]) (simp_all add: same_key_def activated_def)
qed

text \<open>
  What the handler answers is what the edge answered about the stored policy: an accepted
  answer means that the edge accepted the policy the organization holds now (not the one the
  payload was made from), that this policy is valid, and that the acknowledged version is not
  below the stored one; a job whose policy is gone or invalid never reaches the edge.
\<close>

theorem policy_handler_sends_the_stored_policy:
  assumes "wired_policy deps uuid"
    and "buildPolicyJobHandler deps payload ctx (s, x) = (Inr answer, w')"
  shows "(result_ok answer \<longrightarrow>
      (\<exists>r ctx' ref st ack v. policy_of (pjp_organizationId payload) s = Some r \<and> sp_id r = pjp_policyId payload \<and>
         validatePolicy r = Valid \<and> ref_resourceId ref = sp_id r \<and> ref_organizationId ref = pjp_organizationId payload \<and>
         ea_applyPolicy (pd_securityEdge deps) ctx' ref (s, x) = (Inr (AOk st ack), w') \<and>
         answer = AOk st v \<and> po_status v = st \<and> sp_version r \<le> po_version v)) \<and>
    ((\<nexists>r. policy_of (pjp_organizationId payload) s = Some r \<and> sp_id r = pjp_policyId payload \<and>
         validatePolicy r = Valid) \<longrightarrow> w' = (s, x) \<and> result_status answer = Failed)"
proof -
  have read: "pw_getSecurityPolicy (pd_writes deps) (pjp_organizationId payload) (s, x) =
      (Inr (policy_of (pjp_organizationId payload) s), (s, x))"
    using assms(1) by (simp add: wired_policy_def policyWrites_def on_fst_apply io_get_apply)
  show ?thesis
  proof (cases "policy_of (pjp_organizationId payload) s")
    case None
    with assms(2) read show ?thesis
      by (auto simp: buildPolicyJobHandler_def io_bind_apply io_return_apply)
  next
    case (Some r)
    then have org: "sp_organizationId r = pjp_organizationId payload" using policy_of_in by blast
    show ?thesis
    proof (cases "sp_id r = pjp_policyId payload \<and> validatePolicy r = Valid")
      case False
      with Some assms(2) read show ?thesis
        by (auto simp: buildPolicyJobHandler_def io_bind_apply io_return_apply split: check.splits if_splits)
    next
      case True
      let ?ctx = "\<lparr> ac_organizationId = sp_organizationId r,
                 ac_idempotencyKey = ''distribute-'' @ sp_id r @ ''-v'' @ show_version (sp_version r),
                 ac_timeoutMs = 20000 \<rparr>"
      let ?ref = "\<lparr> ref_organizationId = sp_organizationId r, ref_provider = ''coraza'',
                 ref_resourceType = ''policy'', ref_resourceId = sp_id r \<rparr>"
      obtain ans w1 where call: "ea_applyPolicy (pd_securityEdge deps) ?ctx ?ref (s, x) = (ans, w1)"
        by (metis prod.collapse)
      have "sp_id r = pjp_policyId payload" "validatePolicy r = Valid" using True by simp_all
      then have run: "buildPolicyJobHandler deps payload ctx (s, x) =
         (case ans of Inl err \<Rightarrow> (Inl err, w1)
          | Inr (AErr st reason) \<Rightarrow> (Inr (AErr st reason), w1)
          | Inr (AOk st ack) \<Rightarrow> (Inr (AOk st \<lparr> po_status = st, po_state = ''active'',
                po_version = acknowledged (ap_version ack) (sp_version r), po_distributed = True,
                po_reason = None \<rparr>), w1))"
        using call by (simp add: buildPolicyJobHandler_def io_bind_apply io_return_apply Let_def read Some
            split: sum.split adapter_result.split)
      show ?thesis
      proof (cases "\<exists>st ack. ans = Inr (AOk st ack)")
        case False
        with run assms(2) True Some show ?thesis by (auto split: sum.splits adapter_result.splits)
      next
        case answered: True
        then obtain st ack where ans: "ans = Inr (AOk st ack)" by blast
        show ?thesis
          using run assms(2) call True Some org unfolding ans
          by (intro conjI impI exI [of _ r] exI [of _ ?ctx] exI [of _ ?ref] exI [of _ st] exI [of _ ack])
            (auto simp: acknowledged_ge)
      qed
    qed
  qed
qed


subsection \<open>A concrete job\<close>

definition sample_policy_row :: policy_row where
  "sample_policy_row = security_policy.extend sample_policy
     \<lparr> pl_state = ''draft'', pl_protectionMode = ''normal'', pl_protectionExpiresAt = None \<rparr>"

definition sample_policy_plane :: policy_plane where
  "sample_policy_plane = \<lparr> pp_policies = [sample_policy_row], pp_events = [], pp_audit = [], pp_incidents = [],
     pp_draws = 0, pp_now = 0 \<rparr>"

definition sample_policy_payload :: policy_job_payload where
  "sample_policy_payload = \<lparr> pjp_organizationId = ''o'', pjp_policyId = ''pol'', pjp_version = 5,
     pjp_actorId = ''u'', pjp_actorEmail = ''u@x'' \<rparr>"

definition sample_policy_job :: "policy_job_payload job" where
  "sample_policy_job = \<lparr> jb_id = ''j'', jb_organizationId = ''o'', jb_kind = POLICY_JOB_KIND,
     jb_payload = sample_policy_payload, jb_idempotencyKey = ''k'', jb_state = JRunning, jb_attempts = 1,
     jb_maxAttempts = 3, jb_createdAt = 0, jb_startedAt = Some 1, jb_finishedAt = None, jb_lastError = None,
     jb_leaseExpiresAt = Some 60000, jb_deferredUntil = None \<rparr>"

definition sample_policy_deps :: "(policy_plane \<times> nat) policy_job_deps" where
  "sample_policy_deps = \<lparr>
     pd_securityEdge = \<lparr> ea_applyPolicy = (\<lambda>ctx ref. on_snd (ea_applyPolicy agreeable_edge ctx ref)) \<rparr>,
     pd_writes = policyWrites, pd_newId = drawId (\<lambda>n. ''id-'' @ show_nat n), pd_now = (\<lambda>(s, x). pp_now s) \<rparr>"

lemma sample_policy_facts:
  "wired_policy sample_policy_deps (\<lambda>n. ''id-'' @ show_nat n)"
  "jb_kind sample_policy_job = POLICY_JOB_KIND"
  "jb_payload sample_policy_job = sample_policy_payload"
  "policy_of (pjp_organizationId (jb_payload sample_policy_job)) sample_policy_plane = Some sample_policy_row"
  "sp_id sample_policy_row = pjp_policyId (jb_payload sample_policy_job)"
  by (simp_all add: wired_policy_def sample_policy_deps_def sample_policy_job_def policy_of_def
      sample_policy_plane_def sample_policy_payload_def sample_policy_row_def security_policy.extend_def
      sample_policy_def)

definition sample_acceptance :: policy_result where
  "sample_acceptance = \<lparr> po_status = Succeeded, po_state = ''active'', po_version = 7, po_distributed = True,
     po_reason = None \<rparr>"

theorem policy_applier_records_the_answer_witness:
  "map pl_state (pp_policies (fst (snd (buildPolicyApplier sample_policy_deps sample_policy_job
      (AOk Succeeded sample_acceptance) (sample_policy_plane, 0))))) = [''active'']"
proof -
  obtain a s' x' where run: "buildPolicyApplier sample_policy_deps sample_policy_job
      (AOk Succeeded sample_acceptance) (sample_policy_plane, 0) = (a, (s', x'))" by (metis prod.collapse)
  have "map pl_state (pp_policies s') = [''active'']"
    using policy_applier_records_the_answer [OF sample_policy_facts(1,2,4,5) run]
    by (simp add: sample_policy_plane_def same_key_def activated_def)
  with run show ?thesis by simp
qed

theorem policy_handler_sends_the_stored_policy_witness:
  "\<exists>v. fst (buildPolicyJobHandler sample_policy_deps sample_policy_payload
      \<lparr> jc_organizationId = ''o'', jc_idempotencyKey = ''k'', jc_timeoutMs = 1 \<rparr> (sample_policy_plane, 0)) =
      Inr (AOk Succeeded v) \<and> 5 \<le> po_version v"
proof -
  let ?c = "\<lparr> jc_organizationId = ''o'', jc_idempotencyKey = ''k'', jc_timeoutMs = 1 \<rparr>"
  have valid: "validatePolicy sample_policy_row = Valid" by code_simp
  have row: "policy_of ''o'' sample_policy_plane = Some sample_policy_row" "sp_id sample_policy_row = ''pol''"
    "sp_version sample_policy_row = 5"
    using sample_policy_facts(4,5)
    by (simp_all add: sample_policy_job_def sample_policy_payload_def sample_policy_row_def
        security_policy.extend_def sample_policy_def)
  have run: "buildPolicyJobHandler sample_policy_deps sample_policy_payload ?c (sample_policy_plane, 0) =
     (Inr (AOk Succeeded sample_acceptance), (sample_policy_plane, 1))"
    by (simp add: buildPolicyJobHandler_def io_bind_apply io_return_apply Let_def sample_policy_deps_def
        policyWrites_def on_fst_apply on_snd_apply io_get_apply agreeable_edge_def valid row
        sample_policy_payload_def sample_acceptance_def acknowledged_def)
  from policy_handler_sends_the_stored_policy [OF sample_policy_facts(1) run] obtain r where
    "policy_of ''o'' sample_policy_plane = Some r" "sp_version r \<le> po_version sample_acceptance"
    by (auto simp: sample_policy_payload_def)
  with row have "5 \<le> po_version sample_acceptance" by simp
  with run show ?thesis by simp
qed

end
