(* ===== verification/Data_Jobs.thy ===== *)
theory Data_Jobs
  imports Policy_Job
begin

section \<open>apps/worker/backup-job.ts and restore-job.ts: backups and restores\<close>

text \<open>
  Both handlers re-read the rows the payload names and take the engine's handles from them; both
  appliers write the row, an audit event and, for a backup the engine confirmed, one unit of
  usage.  The database engine and the store are ports over an abstract world.
\<close>

record data_resource =
  dv_id :: string
  dv_organizationId :: string
  dv_kind :: string
  dv_provider :: "string option"
  dv_providerResourceId :: "string option"

record data_backup =
  bk_id :: string
  bk_organizationId :: string
  bk_dataResourceId :: string
  bk_status :: engine_status
  bk_provider :: "string option"
  bk_providerResourceId :: "string option"

record status_write =
  st_id :: string
  st_organizationId :: string
  st_status :: engine_status
  st_providerResourceId :: "string option"
  st_finishedAt :: "millis option"

record 'e data_writes =
  dw_getDataResource :: "string \<Rightarrow> string \<Rightarrow> ('e, data_resource option) io"
  dw_getDataBackup :: "string \<Rightarrow> string \<Rightarrow> ('e, data_backup option) io"
  dw_updateDataBackupStatus :: "status_write \<Rightarrow> ('e, unit) io"
  dw_updateDataRestoreStatus :: "status_write \<Rightarrow> ('e, unit) io"
  dw_recordAuditEvent :: "audit_event \<Rightarrow> ('e, unit) io"
  dw_recordUsage :: "string \<Rightarrow> string \<Rightarrow> int \<Rightarrow> ('e, unit) io"

record 'e database_adapter =
  da_backup :: "adapter_context \<Rightarrow> provider_ref \<Rightarrow> ('e, provider_ref) engine_call"
  da_restore :: "adapter_context \<Rightarrow> provider_ref \<Rightarrow> provider_ref \<Rightarrow> ('e, operation_ref) engine_call"

record 'e data_job_deps =
  dj_database :: "'e database_adapter"
  dj_writes :: "'e data_writes"
  dj_now :: "'e \<Rightarrow> millis"

record data_result =
  dr'_status :: engine_status
  dr'_providerResourceId :: "string option"
  dr'_reason :: "string option"

definition data_ctx :: "job_context \<Rightarrow> data_resource \<Rightarrow> adapter_context" where
  "data_ctx ctx resource = \<lparr> ac_organizationId = dv_organizationId resource,
     ac_idempotencyKey = jc_idempotencyKey ctx, ac_timeoutMs = jc_timeoutMs ctx \<rparr>"

definition data_ref :: "string \<Rightarrow> string option \<Rightarrow> string \<Rightarrow> string option \<Rightarrow> provider_ref" where
  "data_ref organizationId provider resourceType resourceId =
     \<lparr> ref_organizationId = organizationId, ref_provider = or_else provider ''postgres'',
       ref_resourceType = resourceType, ref_resourceId = the resourceId \<rparr>"

definition buildBackupJobHandler ::
  "'e data_job_deps \<Rightarrow> ('e, backup_job_payload, data_result) job_handler" where
  "buildBackupJobHandler deps payload ctx =
     io_bind (dw_getDataResource (dj_writes deps) (bjp_organizationId payload) (bjp_dataResourceId payload)) (\<lambda>found.
       case found of
         None \<Rightarrow> io_return (AErr Failed ''The data resource this backup names no longer exists.'')
       | Some resource \<Rightarrow>
           if dv_organizationId resource \<noteq> bjp_organizationId payload
           then io_return (AErr Failed ''The data resource this backup names no longer exists.'')
           else if \<not> truthy (dv_providerResourceId resource)
           then io_return (AErr NotConfigured ''This resource has no engine handle, so it cannot be backed up.'')
           else if dv_kind resource \<noteq> ''postgres''
           then io_return (AErr NotConfigured
                  ''Backing up an object-storage bucket is not available in this build yet.'')
           else io_bind (da_backup (dj_database deps) (data_ctx ctx resource)
                  (data_ref (dv_organizationId resource) (dv_provider resource) ''database''
                     (dv_providerResourceId resource))) (\<lambda>taken.
                  case taken of
                    AOk status value \<Rightarrow>
                      io_return (AOk status \<lparr> dr'_status = status,
                        dr'_providerResourceId = Some (ref_resourceId value), dr'_reason = None \<rparr>)
                  | AErr status reason \<Rightarrow> io_return (AErr status reason)))"

fun data_status :: "data_result adapter_result \<Rightarrow> engine_status" where
  "data_status (AOk _ value) = dr'_status value"
| "data_status (AErr status _) = status"

fun data_handle :: "data_result adapter_result \<Rightarrow> string option" where
  "data_handle (AOk _ value) = dr'_providerResourceId value"
| "data_handle (AErr _ _) = None"

definition buildBackupApplier ::
  "'e data_job_deps \<Rightarrow> ('e, backup_job_payload, data_result) job_outcome_writer" where
  "buildBackupApplier deps job result =
     (if jb_kind job \<noteq> BACKUP_JOB_KIND then io_return ()
      else let payload = jb_payload job; writes = dj_writes deps; status = data_status result in
        io_bind (io_get (dj_now deps)) (\<lambda>finished.
        io_then (dw_updateDataBackupStatus writes
          \<lparr> st_id = bjp_backupId payload, st_organizationId = bjp_organizationId payload, st_status = status,
            st_providerResourceId = data_handle result, st_finishedAt = Some finished \<rparr>)
        (io_then (dw_recordAuditEvent writes
          \<lparr> au_organizationId = bjp_organizationId payload, au_actorId = Some (bjp_actorId payload),
            au_actorEmail = Some (bjp_actorEmail payload),
            au_event = (if status = Succeeded then ''data.backup_completed'' else ''data.backup_failed''),
            au_targetType = ''data_backup'', au_targetId = bjp_backupId payload,
            au_metadata = [(''dataResourceId'', bjp_dataResourceId payload), (''status'', status_name status)] \<rparr>)
        (if status = Succeeded then dw_recordUsage writes (bjp_organizationId payload) ''backups'' 1
         else io_return ()))))"

definition buildRestoreJobHandler ::
  "'e data_job_deps \<Rightarrow> ('e, restore_job_payload, data_result) job_handler" where
  "buildRestoreJobHandler deps payload ctx =
     io_bind (dw_getDataResource (dj_writes deps) (rjp_organizationId payload) (rjp_dataResourceId payload)) (\<lambda>found.
       case found of
         None \<Rightarrow> io_return (AErr Failed ''The data resource this restore names no longer exists.'')
       | Some resource \<Rightarrow>
           if dv_organizationId resource \<noteq> rjp_organizationId payload
           then io_return (AErr Failed ''The data resource this restore names no longer exists.'')
           else if dv_kind resource \<noteq> ''postgres''
           then io_return (AErr NotConfigured
                  ''Restoring an object-storage bucket is not available in this build yet.'')
           else if \<not> truthy (dv_providerResourceId resource)
           then io_return (AErr NotConfigured ''This resource has no engine handle, so it cannot be restored.'')
           else io_bind (dw_getDataBackup (dj_writes deps) (rjp_organizationId payload) (rjp_backupId payload)) (\<lambda>b.
             case b of
               None \<Rightarrow> io_return (AErr Failed
                         ''The backup this restore names no longer exists for this resource.'')
             | Some backup \<Rightarrow>
                 if bk_dataResourceId backup \<noteq> dv_id resource
                 then io_return (AErr Failed
                        ''The backup this restore names no longer exists for this resource.'')
                 else if bk_status backup \<noteq> Succeeded \<or> \<not> truthy (bk_providerResourceId backup)
                 then io_return (AErr Failed
                        ''That backup did not complete, so there is nothing to restore from it.'')
                 else io_bind (da_restore (dj_database deps) (data_ctx ctx resource)
                        (data_ref (dv_organizationId resource) (bk_provider backup) ''backup''
                           (bk_providerResourceId backup))
                        (data_ref (dv_organizationId resource) (dv_provider resource) ''database''
                           (dv_providerResourceId resource))) (\<lambda>performed.
                        case performed of
                          AOk status value \<Rightarrow>
                            io_return (AOk status \<lparr> dr'_status = status,
                              dr'_providerResourceId = Some (op_jobId value), dr'_reason = None \<rparr>)
                        | AErr status reason \<Rightarrow> io_return (AErr status reason))))"

definition buildRestoreApplier ::
  "'e data_job_deps \<Rightarrow> ('e, restore_job_payload, data_result) job_outcome_writer" where
  "buildRestoreApplier deps job result =
     (if jb_kind job \<noteq> RESTORE_JOB_KIND then io_return ()
      else let payload = jb_payload job; writes = dj_writes deps; status = data_status result in
        io_bind (io_get (dj_now deps)) (\<lambda>finished.
        io_then (dw_updateDataRestoreStatus writes
          \<lparr> st_id = rjp_restoreId payload, st_organizationId = rjp_organizationId payload, st_status = status,
            st_providerResourceId = data_handle result, st_finishedAt = Some finished \<rparr>)
        (dw_recordAuditEvent writes
          \<lparr> au_organizationId = rjp_organizationId payload, au_actorId = Some (rjp_actorId payload),
            au_actorEmail = Some (rjp_actorEmail payload),
            au_event = (if status = Succeeded then ''data.restore_completed'' else ''data.restore_failed''),
            au_targetType = ''data_restore'', au_targetId = rjp_restoreId payload,
            au_metadata = [(''dataResourceId'', rjp_dataResourceId payload),
              (''backupId'', rjp_backupId payload), (''status'', status_name status)] \<rparr>)))"

subsection \<open>What reaches the engine\<close>

definition restorable :: "restore_job_payload \<Rightarrow> data_resource \<Rightarrow> data_backup \<Rightarrow> bool" where
  "restorable payload resource backup \<longleftrightarrow>
     dv_organizationId resource = rjp_organizationId payload \<and> dv_kind resource = ''postgres'' \<and>
     truthy (dv_providerResourceId resource) \<and> bk_dataResourceId backup = dv_id resource \<and>
     bk_status backup = Succeeded \<and> truthy (bk_providerResourceId backup)"

text \<open>The store answers its reads from the world, without changing it.\<close>

definition reads_rows ::
  "'e data_writes \<Rightarrow> (string \<Rightarrow> string \<Rightarrow> 'e \<Rightarrow> data_resource option) \<Rightarrow>
   (string \<Rightarrow> string \<Rightarrow> 'e \<Rightarrow> data_backup option) \<Rightarrow> bool" where
  "reads_rows writes resources backups \<longleftrightarrow>
     (\<forall>org i w. dw_getDataResource writes org i w = (Inr (resources org i w), w)) \<and>
     (\<forall>org i w. dw_getDataBackup writes org i w = (Inr (backups org i w), w))"

text \<open>
  C38. A restore overwrites only the tenant's own database with that database's own completed
  backup: the engine is called exactly when the payload's resource is a database of the payload's
  organization with an engine handle and the backup is a succeeded backup of that same resource,
  with the handles of the two rows and nothing from the payload; otherwise the job is refused and
  the world is as it was.
\<close>

theorem restore_only_own_completed_backup:
  assumes "reads_rows (dj_writes deps) resources backups"
    and "buildRestoreJobHandler deps payload ctx w = (Inr answer, w')"
  shows "(\<exists>resource backup ans.
            resources (rjp_organizationId payload) (rjp_dataResourceId payload) w = Some resource \<and>
            backups (rjp_organizationId payload) (rjp_backupId payload) w = Some backup \<and>
            restorable payload resource backup \<and>
            da_restore (dj_database deps) (data_ctx ctx resource)
              (data_ref (rjp_organizationId payload) (bk_provider backup) ''backup'' (bk_providerResourceId backup))
              (data_ref (rjp_organizationId payload) (dv_provider resource) ''database'' (dv_providerResourceId resource)) w
              = (Inr ans, w') \<and> result_status answer = result_status ans \<and> result_ok answer = result_ok ans) \<or>
         (w' = w \<and> \<not> result_ok answer \<and> result_status answer \<noteq> Succeeded \<and>
          (\<nexists>resource backup. resources (rjp_organizationId payload) (rjp_dataResourceId payload) w = Some resource \<and>
            backups (rjp_organizationId payload) (rjp_backupId payload) w = Some backup \<and>
            restorable payload resource backup))"
proof -
  note reads = assms(1) [unfolded reads_rows_def]
  show ?thesis
  proof (cases "\<exists>resource backup. resources (rjp_organizationId payload) (rjp_dataResourceId payload) w = Some resource \<and>
            backups (rjp_organizationId payload) (rjp_backupId payload) w = Some backup \<and>
            restorable payload resource backup")
    case False
    with assms(2) reads show ?thesis
      by (auto simp: buildRestoreJobHandler_def io_bind_apply io_return_apply restorable_def
          split: option.splits if_splits)
  next
    case True
    then obtain resource backup where rows:
      "resources (rjp_organizationId payload) (rjp_dataResourceId payload) w = Some resource"
      "backups (rjp_organizationId payload) (rjp_backupId payload) w = Some backup"
      "restorable payload resource backup" by blast
    with assms(2) reads show ?thesis
      by (auto simp: buildRestoreJobHandler_def io_bind_apply io_return_apply restorable_def
          split: prod.splits sum.splits adapter_result.splits)
  qed
qed

text \<open>A concrete restore: the world records the references the engine was given.\<close>

definition sample_restore_deps ::
  "((provider_ref \<times> provider_ref) list) data_job_deps" where
  "sample_restore_deps = \<lparr>
     dj_database = \<lparr>
       da_backup = (\<lambda>ctx ref w. (Inr (AErr NotConfigured ''none''), w)),
       da_restore = (\<lambda>ctx backup target w.
         (Inr (AOk Running \<lparr> op_jobId = ''restore-1'', op_providerRef = target \<rparr>), (backup, target) # w)) \<rparr>,
     dj_writes = \<lparr>
       dw_getDataResource = (\<lambda>org i w. (Inr (if i = ''db'' then Some \<lparr> dv_id = ''db'',
         dv_organizationId = org, dv_kind = ''postgres'', dv_provider = None,
         dv_providerResourceId = Some ''pg-7'' \<rparr> else None), w)),
       dw_getDataBackup = (\<lambda>org i w. (Inr (Some \<lparr> bk_id = i, bk_organizationId = org,
         bk_dataResourceId = ''db'', bk_status = Succeeded, bk_provider = None,
         bk_providerResourceId = Some ''snap-3'' \<rparr>), w)),
       dw_updateDataBackupStatus = (\<lambda>_. io_return ()),
       dw_updateDataRestoreStatus = (\<lambda>_. io_return ()),
       dw_recordAuditEvent = (\<lambda>_. io_return ()),
       dw_recordUsage = (\<lambda>_ _ _. io_return ()) \<rparr>,
     dj_now = (\<lambda>_. 0) \<rparr>"

definition sample_restore_payload :: restore_job_payload where
  "sample_restore_payload = \<lparr> rjp_restoreId = ''r'', rjp_organizationId = ''o'', rjp_backupId = ''b'',
     rjp_dataResourceId = ''db'', rjp_actorId = ''u'', rjp_actorEmail = ''u@x'' \<rparr>"

lemma sample_restore_reads:
  "reads_rows (dj_writes sample_restore_deps)
     (\<lambda>org i w. if i = ''db'' then Some \<lparr> dv_id = ''db'', dv_organizationId = org, dv_kind = ''postgres'',
        dv_provider = None, dv_providerResourceId = Some ''pg-7'' \<rparr> else None)
     (\<lambda>org i w. Some \<lparr> bk_id = i, bk_organizationId = org, bk_dataResourceId = ''db'',
        bk_status = Succeeded, bk_provider = None, bk_providerResourceId = Some ''snap-3'' \<rparr>)"
  by (simp add: reads_rows_def sample_restore_deps_def)

theorem restore_only_own_completed_backup_witness:
  "map (\<lambda>(b, t). (ref_resourceId b, ref_resourceId t)) (snd (buildRestoreJobHandler sample_restore_deps
     sample_restore_payload \<lparr> jc_organizationId = ''o'', jc_idempotencyKey = ''k'', jc_timeoutMs = 1 \<rparr> []))
   = [(''snap-3'', ''pg-7'')]"
proof -
  let ?c = "\<lparr> jc_organizationId = ''o'', jc_idempotencyKey = ''k'', jc_timeoutMs = 1 \<rparr>"
  let ?run = "buildRestoreJobHandler sample_restore_deps sample_restore_payload ?c []"
  have "\<exists>v. fst ?run = Inr v" by (simp add: buildRestoreJobHandler_def io_bind_apply io_return_apply
      sample_restore_deps_def sample_restore_payload_def)
  then obtain v w' where run: "?run = (Inr v, w')" by (metis prod.collapse)
  from restore_only_own_completed_backup [OF sample_restore_reads run] show ?thesis unfolding run
    by (auto simp: sample_restore_payload_def restorable_def sample_restore_deps_def
        data_ref_def)
qed

end
