(* ===== verification/Regex.thy ===== *)
theory Regex
  imports Prelude
begin

section \<open>Regular expressions\<close>

text \<open>
  The expressions the validators are written with: classes of characters, sequence, alternative,
  bounded repetition \<open>r{m,n}\<close> and \<open>r+\<close>.  \<open>lang\<close> says what an expression means, \<open>rest\<close> computes the
  remainders of a subject after every way of matching a prefix, and \<open>accepts\<close> is the test of an
  expression anchored at both ends, \<open>/^r$/.test(s)\<close>.
\<close>

datatype rexp =
    Empty
  | Cls "char \<Rightarrow> bool"
  | Then rexp rexp
  | Or rexp rexp
  | Rep rexp nat nat
  | Many rexp

primrec lang :: "rexp \<Rightarrow> string set" where
  "lang Empty = {[]}"
| "lang (Cls P) = {[c] | c. P c}"
| "lang (Then r s) = {u @ v | u v. u \<in> lang r \<and> v \<in> lang s}"
| "lang (Or r s) = lang r \<union> lang s"
| "lang (Rep r m n) = {concat ws | ws. set ws \<subseteq> lang r \<and> m \<le> length ws \<and> length ws \<le> n}"
| "lang (Many r) = {concat ws | ws. set ws \<subseteq> lang r \<and> ws \<noteq> []}"

text \<open>\<open>iter f m n s\<close> runs \<open>f\<close> between \<open>m\<close> and \<open>n\<close> times.\<close>

fun iter :: "(string \<Rightarrow> string list) \<Rightarrow> nat \<Rightarrow> nat \<Rightarrow> string \<Rightarrow> string list" where
  "iter f 0 0 s = [s]"
| "iter f 0 (Suc n) s = s # concat (map (iter f 0 n) (f s))"
| "iter f (Suc m) 0 s = []"
| "iter f (Suc m) (Suc n) s = concat (map (iter f m n) (f s))"

primrec rest :: "rexp \<Rightarrow> string \<Rightarrow> string list" where
  "rest Empty s = [s]"
| "rest (Cls P) s = (case s of [] \<Rightarrow> [] | c # t \<Rightarrow> if P c then [t] else [])"
| "rest (Then r q) s = concat (map (rest q) (rest r s))"
| "rest (Or r q) s = rest r s @ rest q s"
| "rest (Rep r m n) s = iter (rest r) m n s"
| "rest (Many r) s = iter (rest r) 1 (Suc (length s)) s"

definition accepts :: "rexp \<Rightarrow> string \<Rightarrow> bool" where
  "accepts r s = list_ex List.null (rest r s)"

definition accepts_prefix :: "rexp \<Rightarrow> string \<Rightarrow> bool" where
  "accepts_prefix r s = (rest r s \<noteq> [])"

text \<open>Literals and the usual classes.\<close>

definition Lit :: "string \<Rightarrow> rexp" where
  "Lit s = foldr (\<lambda>c. Then (Cls (\<lambda>d. d = c))) s Empty"

definition Opt :: "rexp \<Rightarrow> rexp" where
  "Opt r = Rep r 0 1"

definition one_of :: "string \<Rightarrow> char \<Rightarrow> bool" where
  "one_of cs c = (c \<in> set cs)"

definition low_alnum :: "char \<Rightarrow> bool" where
  "low_alnum c = (is_lower c \<or> is_digit c)"

definition hex_lower :: "char \<Rightarrow> bool" where
  "hex_lower c = (is_digit c \<or> one_of ''abcdef'' c)"

subsection \<open>The matcher decides the language\<close>

definition runs :: "string set \<Rightarrow> nat \<Rightarrow> nat \<Rightarrow> string \<Rightarrow> string \<Rightarrow> bool" where
  "runs L m n s t \<longleftrightarrow>
     (\<exists>ws. set ws \<subseteq> L \<and> m \<le> length ws \<and> length ws \<le> n \<and> s = concat ws @ t)"

lemma runs_0 [simp]: "runs L 0 0 s t \<longleftrightarrow> t = s" "\<not> runs L (Suc m) 0 s t"
  by (auto simp: runs_def)

lemma runs_Suc:
  "runs L (Suc m) (Suc n) s t \<longleftrightarrow> (\<exists>w \<in> L. \<exists>u. s = w @ u \<and> runs L m n u t)"
proof
  assume "runs L (Suc m) (Suc n) s t"
  then obtain ws where ws: "set ws \<subseteq> L" "Suc m \<le> length ws" "length ws \<le> Suc n" "s = concat ws @ t"
    by (auto simp: runs_def)
  then obtain w vs where "ws = w # vs" by (cases ws) auto
  with ws show "\<exists>w \<in> L. \<exists>u. s = w @ u \<and> runs L m n u t" by (auto simp: runs_def)
next
  assume "\<exists>w \<in> L. \<exists>u. s = w @ u \<and> runs L m n u t"
  then obtain w ws where "w \<in> L" "set ws \<subseteq> L" "m \<le> length ws" "length ws \<le> n" "s = w @ concat ws @ t"
    by (auto simp: runs_def)
  then show "runs L (Suc m) (Suc n) s t" unfolding runs_def by (intro exI [of _ "w # ws"]) simp
qed

lemma runs_0_Suc: "runs L 0 (Suc n) s t \<longleftrightarrow> t = s \<or> runs L (Suc 0) (Suc n) s t"
proof
  assume "runs L 0 (Suc n) s t"
  then obtain ws where ws: "set ws \<subseteq> L" "length ws \<le> Suc n" "s = concat ws @ t"
    by (auto simp: runs_def)
  then show "t = s \<or> runs L (Suc 0) (Suc n) s t"
    unfolding runs_def by (cases ws) (auto intro!: exI [of _ ws])
next
  assume "t = s \<or> runs L (Suc 0) (Suc n) s t"
  then show "runs L 0 (Suc n) s t"
    unfolding runs_def by (metis (no_types, lifting) concat.simps(1) empty_set empty_subsetI
        le0 list.size(3) self_append_conv2)
qed

lemma iter_runs:
  assumes f: "\<And>s. set (f s) = {t. \<exists>w \<in> L. s = w @ t}"
  shows "set (iter f m n s) = {t. runs L m n s t}"
proof (induction n arbitrary: m s)
  case 0
  then show ?case by (cases m) auto
next
  case (Suc n)
  have step: "(\<Union>u \<in> set (f s). set (iter f k n u)) = {t. runs L (Suc k) (Suc n) s t}" for k
    by (auto simp: Suc f runs_Suc)
  show ?case using step by (cases m) (auto simp: runs_0_Suc)
qed

lemma many_runs:
  "(\<exists>w \<in> lang (Many r). s = w @ t) \<longleftrightarrow> runs (lang r) 1 (Suc (length s)) s t"
proof
  assume "\<exists>w \<in> lang (Many r). s = w @ t"
  then obtain ws where ws: "set ws \<subseteq> lang r" "ws \<noteq> []" "s = concat ws @ t" by auto
  let ?vs = "filter (\<lambda>w. w \<noteq> []) ws"
  have same: "concat ?vs = concat ws" by (induction ws) auto
  have "length us \<le> length (concat us)" if "[] \<notin> set us" for us :: "string list"
    using that
  proof (induction us)
    case (Cons u us)
    then show ?case by (cases u) auto
  qed simp
  moreover have "[] \<notin> set ?vs" by simp
  ultimately have "length ?vs \<le> length (concat ?vs)" by blast
  with same ws(3) have short: "length ?vs \<le> length s" by simp
  show "runs (lang r) 1 (Suc (length s)) s t"
  proof (cases "?vs = []")
    case True
    with ws same show ?thesis unfolding runs_def
      by (intro exI [of _ "[hd ws]"]) (cases ws; auto)
  next
    case False
    with ws same short show ?thesis unfolding runs_def
      by (intro exI [of _ ?vs]) (auto simp: Suc_le_eq)
  qed
next
  assume "runs (lang r) 1 (Suc (length s)) s t"
  then show "\<exists>w \<in> lang (Many r). s = w @ t" by (force simp: runs_def)
qed

theorem set_rest: "set (rest r s) = {t. \<exists>w \<in> lang r. s = w @ t}"
proof (induction r arbitrary: s)
  case (Cls P)
  then show ?case by (cases s) auto
next
  case (Then r q)
  then show ?case by fastforce
next
  case (Rep r m n)
  then show ?case by (auto simp: iter_runs [OF Rep] runs_def)
next
  case (Many r)
  have "set (rest (Many r) s) = {t. runs (lang r) 1 (Suc (length s)) s t}"
    unfolding rest.simps by (rule iter_runs) (rule Many)
  then show ?case by (simp only: many_runs)
qed auto

lemma accepts_iff: "accepts r s \<longleftrightarrow> s \<in> lang r"
  by (auto simp: accepts_def list_ex_iff set_rest List.null_iff)

lemma accepts_prefix_iff: "accepts_prefix r s \<longleftrightarrow> (\<exists>w t. w \<in> lang r \<and> s = w @ t)"
  using set_rest [of r s] unfolding accepts_prefix_def by (auto simp: set_empty [symmetric] simp del: set_empty)

subsection \<open>The characters of an accepted text\<close>

primrec over :: "(char \<Rightarrow> bool) \<Rightarrow> rexp \<Rightarrow> bool" where
  "over P Empty \<longleftrightarrow> True"
| "over P (Cls Q) \<longleftrightarrow> (\<forall>c. Q c \<longrightarrow> P c)"
| "over P (Then r s) \<longleftrightarrow> over P r \<and> over P s"
| "over P (Or r s) \<longleftrightarrow> over P r \<and> over P s"
| "over P (Rep r m n) \<longleftrightarrow> over P r"
| "over P (Many r) \<longleftrightarrow> over P r"

lemma lang_over: "over P r \<Longrightarrow> w \<in> lang r \<Longrightarrow> c \<in> set w \<Longrightarrow> P c"
proof (induction r arbitrary: w c)
  case (Rep r m n)
  then obtain ws where "set ws \<subseteq> lang r" "w = concat ws" by auto
  with Rep show ?case by auto
next
  case (Many r)
  then obtain ws where "set ws \<subseteq> lang r" "w = concat ws" by auto
  with Many show ?case by auto
qed auto

lemma accepts_over: "over P r \<Longrightarrow> accepts r s \<Longrightarrow> c \<in> set s \<Longrightarrow> P c"
  using lang_over accepts_iff by blast

lemma over_Opt [simp]: "over P (Opt r) = over P r"
  by (simp add: Opt_def)

lemma over_Lit [simp]: "over P (Lit s) \<longleftrightarrow> (\<forall>c \<in> set s. P c)"
  by (induction s) (auto simp: Lit_def)

lemma lang_Lit [simp]: "lang (Lit s) = {s}"
  by (induction s) (auto simp: Lit_def)

end
