(* ===== verification/Security_Edge.thy ===== *)
theory Security_Edge
  imports Policy Regex
begin

section \<open>packages/adapters/security-edge.ts: the policy compiler\<close>

text \<open>
  The validators of the values a customer or an operator supplies, with the expressions they test,
  and \<open>compileEdge\<close>, which turns a policy, its allow and deny lists, its rate limits and the routes
  of an organization into the Coraza directives, the decision ladder and the Envoy route fragments
  of one artifact.
\<close>

text \<open>The severities and disruptive actions; an unknown key renders as \<open>undefined\<close>.\<close>

definition CORAZA_SEVERITY :: "string \<Rightarrow> string" where
  "CORAZA_SEVERITY level =
     (if level = ''low'' then ''notice'' else if level = ''medium'' then ''warning''
      else if level = ''high'' then ''error'' else if level = ''critical'' then ''critical''
      else ''undefined'')"

definition CORAZA_ACTION :: "string \<Rightarrow> string" where
  "CORAZA_ACTION action =
     (if action = ''allow'' \<or> action = ''log'' then ''pass''
      else if action = ''challenge'' \<or> action = ''block'' \<or> action = ''quarantine'' then ''deny''
      else ''undefined'')"

subsection \<open>The expressions\<close>

definition BOT_NAME :: rexp where
  "BOT_NAME = Then (Cls low_alnum) (Rep (Cls (\<lambda>c. low_alnum c \<or> c = CHR ''-'')) 0 39)"

definition LABEL :: rexp where
  "LABEL = Then (Cls low_alnum)
     (Opt (Then (Rep (Cls (\<lambda>c. low_alnum c \<or> c = CHR ''-'')) 0 61) (Cls low_alnum)))"

definition HOST_PATTERN :: rexp where
  "HOST_PATTERN = Then LABEL (Many (Then (Lit ''.'') LABEL))"

definition PATH_PATTERN :: rexp where
  "PATH_PATTERN = Then (Lit ''/'') (Rep (Cls (\<lambda>c. is_alnum c \<or> one_of ''-._~/'' c)) 0 200)"

text \<open>\<open>PRIVATE_HOST\<close> is anchored at its start only.\<close>

definition PRIVATE_HOST :: rexp where
  "PRIVATE_HOST =
     Or (Lit ''10.'') (Or (Lit ''127.'')
     (Or (Then (Lit ''172.'') (Then (Or (Then (Lit ''1'') (Cls (one_of ''6789'')))
            (Or (Then (Lit ''2'') (Cls is_digit)) (Then (Lit ''3'') (Cls (one_of ''01''))))) (Lit ''.'')))
     (Or (Lit ''192.168.'') (Or (Lit ''169.254.'')
        (Then (Opt (Lit ''['')) (Then (Lit ''f'') (Then (Cls (one_of ''cd''))
           (Then (Rep (Cls hex_lower) 2 2) (Lit '':'')))))))))"

definition QUAD :: rexp where
  "QUAD = Then (Rep (Then (Rep (Cls is_digit) 1 3) (Lit ''.'')) 3 3) (Rep (Cls is_digit) 1 3)"

definition IPV4 :: rexp where
  "IPV4 = QUAD"

definition CIDR :: rexp where
  "CIDR = Then QUAD (Then (Lit ''/'') (Rep (Cls is_digit) 1 2))"

definition ASN :: rexp where
  "ASN = Then (Lit ''AS'') (Rep (Cls is_digit) 1 10)"

definition UA_VALUE :: rexp where
  "UA_VALUE = Rep (Cls (\<lambda>c. is_alnum c \<or> one_of '' ._/+()-'' c)) 1 120"

definition HEADER_NAME :: rexp where
  "HEADER_NAME = Then (Cls is_alnum) (Rep (Cls (\<lambda>c. is_alnum c \<or> c = CHR ''-'')) 0 60)"

definition BASIC_USER :: rexp where
  "BASIC_USER = Rep (Cls (\<lambda>c. is_alnum c \<or> one_of ''._@-'' c)) 1 64"

definition SHA256_HEX :: rexp where
  "SHA256_HEX = Rep (Cls hex_lower) 64 64"

subsection \<open>Bots, deny rules, trusted sources, rate limits\<close>

record verified_bot =
  vb_name :: string
  vb_userAgent :: string
  vb_confirmSuffix :: string

definition validateVerifiedBot :: "verified_bot \<Rightarrow> check" where
  "validateVerifiedBot b =
     (if \<not> accepts BOT_NAME (vb_name b) then Invalid ''A bot name is 1-40 [a-z0-9-].''
      else if \<not> accepts UA_VALUE (vb_userAgent b)
      then Invalid ''A bot user-agent is 1-120 plain characters.''
      else if \<not> accepts HOST_PATTERN (vb_confirmSuffix b)
      then Invalid ''A confirm suffix must be a DNS name.''
      else Valid)"

definition VERIFIED_BOTS :: "verified_bot list" where
  "VERIFIED_BOTS = map (\<lambda>(name, userAgent, suffix).
     \<lparr> vb_name = name, vb_userAgent = userAgent, vb_confirmSuffix = suffix \<rparr>)
     [(''googlebot'', ''Googlebot'', ''googlebot.com''),
      (''google-other'', ''Google'', ''google.com''),
      (''bingbot'', ''bingbot'', ''search.msn.com''),
      (''duckduckbot'', ''DuckDuckBot'', ''duckduckgo.com''),
      (''yandexbot'', ''YandexBot'', ''yandex.ru''),
      (''baiduspider'', ''Baiduspider'', ''baidu.com''),
      (''applebot'', ''Applebot'', ''applebot.apple.com''),
      (''uptimerobot'', ''UptimeRobot'', ''uptimerobot.com''),
      (''pingdom'', ''Pingdom'', ''pingdom.com'')]"

datatype deny_kind = DenyIp | DenyCidr | DenyAsn | DenyUserAgent

fun deny_kind_name :: "deny_kind \<Rightarrow> string" where
  "deny_kind_name DenyIp = ''ip''"
| "deny_kind_name DenyCidr = ''cidr''"
| "deny_kind_name DenyAsn = ''asn''"
| "deny_kind_name DenyUserAgent = ''user-agent''"

record deny_rule =
  dn_kind :: deny_kind
  dn_value :: string

definition validateDenyRule :: "deny_rule \<Rightarrow> check" where
  "validateDenyRule rule =
     (case dn_kind rule of
        DenyIp \<Rightarrow> if \<not> accepts IPV4 (dn_value rule) then Invalid ''Not an IPv4 address.'' else Valid
      | DenyCidr \<Rightarrow> if \<not> accepts CIDR (dn_value rule) then Invalid ''Not an IPv4 CIDR block.'' else Valid
      | DenyAsn \<Rightarrow> if \<not> accepts ASN (dn_value rule) then Invalid ''An ASN is written AS<number>.'' else Valid
      | DenyUserAgent \<Rightarrow> if \<not> accepts UA_VALUE (dn_value rule)
                         then Invalid ''A user-agent value is 1-120 plain characters.'' else Valid)"

datatype address_kind = AddressIp | AddressCidr

record trusted_source =
  ts_kind :: address_kind
  ts_value :: string

definition validateTrustedSource :: "trusted_source \<Rightarrow> check" where
  "validateTrustedSource source =
     (case ts_kind source of
        AddressIp \<Rightarrow> if \<not> accepts IPV4 (ts_value source) then Invalid ''Not an IPv4 address.'' else Valid
      | AddressCidr \<Rightarrow> if \<not> accepts CIDR (ts_value source) then Invalid ''Not an IPv4 CIDR block.'' else Valid)"

definition RATE_LIMIT_KEYS :: "string list" where
  "RATE_LIMIT_KEYS = [''ip'', ''header'', ''global'']"

record rate_limit_rule =
  rl_id :: string
  rl_key :: string
  rl_headerName :: "string option"
  rl_limit :: js_number
  rl_windowSeconds :: js_number

definition validateRateLimitRule :: "rate_limit_rule \<Rightarrow> check" where
  "validateRateLimitRule rule =
     (if rl_key rule \<notin> set RATE_LIMIT_KEYS then Invalid ''Unknown rate-limit key.''
      else if \<not> is_integer (rl_limit rule) \<or> rl_limit rule < 1 \<or> rl_limit rule > 1000000
      then Invalid ''A rate limit is an integer between 1 and 1000000.''
      else if \<not> is_integer (rl_windowSeconds rule) \<or> rl_windowSeconds rule < 1 \<or> rl_windowSeconds rule > 86400
      then Invalid ''A rate-limit window is 1 to 86400 seconds.''
      else if rl_key rule = ''header''
      then if \<not> truthy (rl_headerName rule) \<or> \<not> accepts HEADER_NAME (the (rl_headerName rule))
           then Invalid ''A header-keyed limit needs a plain header name.''
           else Valid
      else if rl_headerName rule \<noteq> None
      then Invalid ''Only a header-keyed limit may name a header.''
      else Valid)"

record compiled_rate_limit =
  cr_descriptor :: string
  cr_limit :: js_number
  cr_windowSeconds :: js_number

subsection \<open>Deployment protection\<close>

record protection =
  pt_mode :: string
  pt_basicUser :: "string option"
  pt_basicPasswordSha256 :: "string option"
  pt_allowedCidrs :: "string list option"

definition PROTECTION_MODES :: "string list" where
  "PROTECTION_MODES = [''none'', ''password'', ''ip'']"

definition open_posture :: protection where
  "open_posture = \<lparr> pt_mode = ''none'', pt_basicUser = None, pt_basicPasswordSha256 = None,
     pt_allowedCidrs = None \<rparr>"

fun first_invalid :: "string list \<Rightarrow> check" where
  "first_invalid [] = Valid"
| "first_invalid (v # vs) =
     (case validateTrustedSource \<lparr> ts_kind = AddressCidr, ts_value = v \<rparr> of
        Invalid reason \<Rightarrow> Invalid reason
      | Valid \<Rightarrow> first_invalid vs)"

definition validateProtection :: "protection \<Rightarrow> check" where
  "validateProtection p =
     (let cidrs = or_else (pt_allowedCidrs p) [] in
      if pt_mode p \<notin> set PROTECTION_MODES then Invalid ''Unknown protection mode.''
      else if pt_mode p = ''none''
      then if truthy (pt_basicUser p) \<or> truthy (pt_basicPasswordSha256 p)
           then Invalid ''An open posture may not carry credentials.''
           else if cidrs \<noteq> [] then Invalid ''An open posture may not carry an allow-list.''
           else Valid
      else if pt_mode p = ''password''
      then if \<not> truthy (pt_basicUser p) \<or> \<not> accepts BASIC_USER (the (pt_basicUser p))
           then Invalid ''A password posture needs a plain basic-auth user.''
           else if \<not> truthy (pt_basicPasswordSha256 p) \<or> \<not> accepts SHA256_HEX (the (pt_basicPasswordSha256 p))
           then Invalid ''A password posture needs a SHA-256 password digest.''
           else if cidrs \<noteq> [] then Invalid ''A password posture may not also carry an allow-list.''
           else Valid
      else if cidrs = [] then Invalid ''An IP posture needs at least one address.''
      else (case first_invalid cidrs of
              Invalid reason \<Rightarrow> Invalid reason
            | Valid \<Rightarrow>
                if truthy (pt_basicUser p) \<or> truthy (pt_basicPasswordSha256 p)
                then Invalid ''An IP posture may not also carry credentials.''
                else Valid))"

definition protectionInput :: "protection option \<Rightarrow> protection" where
  "protectionInput p =
     (case p of
        None \<Rightarrow> open_posture
      | Some q \<Rightarrow> if validateProtection q = Valid then q else open_posture)"

subsection \<open>Routes and the artifact\<close>

record edge_route =
  er_host :: string
  er_origin :: string
  er_pathPrefix :: string
  er_organizationId :: string
  er_protection :: "protection option"

definition validateEdgeRoute :: "edge_route \<Rightarrow> check" where
  "validateEdgeRoute route =
     (if \<not> accepts HOST_PATTERN (er_host route) then Invalid ''Host is not a valid DNS name.''
      else if \<not> accepts PATH_PATTERN (er_pathPrefix route) then Invalid ''Path prefix is not valid.''
      else if \<not> accepts_prefix PRIVATE_HOST (er_origin route)
      then Invalid ''Origin must be a private address; a public origin would be reachable directly.''
      else Valid)"

datatype decision_stage =
  Protect | AllowVerifiedBot | AllowInternal | AllowTrustedIp | BlockDenyList | RateLimit |
  Challenge | Waf | LogStage | PassStage

record ladder_step =
  ls_id :: nat
  ls_stage :: decision_stage
  ls_action :: string
  ls_directive :: string

record input_policy =
  ip_riskLevel :: string
  ip_action :: string
  ip_version :: js_number

record compile_input =
  ci_route :: edge_route
  ci_routes :: "edge_route list option"
  ci_policy :: "input_policy option"
  ci_protection :: "string option"
  ci_botAllowList :: "verified_bot list option"
  ci_denyList :: "deny_rule list option"
  ci_trustedSources :: "trusted_source list option"
  ci_rateLimits :: "rate_limit_rule list option"

record envoy_fragment =
  ef_host :: string
  ef_pathPrefix :: string
  ef_cluster :: string
  ef_privateOrigin :: string
  ef_wafEnabled :: bool
  ef_challengeBrowsers :: bool
  ef_skipChallengeAddresses :: "string list"
  ef_skipChallengeForVerifiedBots :: bool
  ef_protection :: protection

record compiled_edge =
  ce_corazaDirectives :: "string list"
  ce_envoyConfig :: envoy_fragment
  ce_envoyRoutes :: "envoy_fragment list"
  ce_ladder :: "ladder_step list"
  ce_rateLimits :: "compiled_rate_limit list"
  ce_protection :: protection
  ce_version :: js_number

end
