(* ===== verification/Edge_Compiler.thy ===== *)
theory Edge_Compiler
  imports Security_Edge
begin

section \<open>packages/adapters/security-edge.ts: compileEdge\<close>

text \<open>
  The compilation as the code performs it: a running state holds the next rule id, the directives,
  the ladder and the rate-limit descriptors, every stage appends to it, and the route fragments are
  built last.  A directive is the text the code's templates produce.
\<close>

definition quote_mark :: char where
  "quote_mark = CHR 0x22"

definition new_line :: char where
  "new_line = CHR 0x0A"

definition backslash :: string where
  "backslash = [CHR 0x5C]"

definition quoted :: "string \<Rightarrow> string" where
  "quoted s = quote_mark # s @ [quote_mark]"

text \<open>The comma-separated actions of a rule.\<close>

definition acts :: "string list \<Rightarrow> string" where
  "acts words = join_with '','' words"

definition sec_rule :: "string \<Rightarrow> string \<Rightarrow> string list \<Rightarrow> string" where
  "sec_rule variables operator actions =
     ''SecRule '' @ variables @ '' '' @ quoted operator @ '' '' @ quoted (acts actions)"

definition sec_action :: "string list \<Rightarrow> string" where
  "sec_action actions = ''SecAction '' @ quoted (acts actions)"

text \<open>\<open>id:n\<close> and \<open>msg:'...'\<close>.\<close>

definition id_word :: "nat \<Rightarrow> string" where
  "id_word i = ''id:'' @ show_nat i"

definition msg_word :: "string \<Rightarrow> string" where
  "msg_word text = ''msg:'' @ [CHR 0x27] @ text @ [CHR 0x27]"

definition INTERNAL_REQUEST_HEADER :: string where
  "INTERNAL_REQUEST_HEADER = ''x-cloud-wai-internal''"

definition INTERNAL_MARKER_VARIABLE :: string where
  "INTERNAL_MARKER_VARIABLE = ''cloud_wai_internal''"

definition BOT_CONFIRM_VARIABLE :: string where
  "BOT_CONFIRM_VARIABLE = ''cloud_wai_bot_confirm''"

definition BOT_MARKER_VARIABLE :: string where
  "BOT_MARKER_VARIABLE = ''cloud_wai_bot''"

definition denyOperator :: "deny_rule \<Rightarrow> string \<times> string" where
  "denyOperator rule =
     (case dn_kind rule of
        DenyIp \<Rightarrow> (''REMOTE_ADDR'', ''@ipMatch '' @ dn_value rule)
      | DenyCidr \<Rightarrow> (''REMOTE_ADDR'', ''@ipMatch '' @ dn_value rule)
      | DenyAsn \<Rightarrow> (''TX:CLOUD_WAI_ASN'', ''@streq '' @ dn_value rule)
      | DenyUserAgent \<Rightarrow> (''REQUEST_HEADERS:User-Agent'', ''@contains '' @ dn_value rule))"

definition escape_dots :: "string \<Rightarrow> string" where
  "escape_dots s = concat (map (\<lambda>c. if c = CHR ''.'' then backslash @ ''.'' else [c]) s)"

definition botConfirmPattern :: "string \<Rightarrow> string" where
  "botConfirmPattern name = ''(^|'' @ backslash @ ''.)'' @ escape_dots name @ ''$''"

definition verifiedBotDirectives :: "nat \<Rightarrow> verified_bot \<Rightarrow> string list" where
  "verifiedBotDirectives i b =
     [sec_rule ''REQUEST_HEADERS:User-Agent'' (''@contains '' @ vb_userAgent b)
        [id_word i, ''phase:1'', ''pass'', ''nolog'', ''chain'', msg_word (''cloud-wai verified bot: '' @ vb_name b)],
      sec_rule (''TX:'' @ BOT_CONFIRM_VARIABLE) (''@rx '' @ botConfirmPattern (vb_confirmSuffix b))
        [''t:none'', ''setvar:tx.'' @ BOT_MARKER_VARIABLE @ ''='' @ show_nat i]]"

definition rateLimitDescriptor :: "rate_limit_rule \<Rightarrow> string" where
  "rateLimitDescriptor rule =
     (if rl_key rule = ''ip'' then ''remote_address''
      else if rl_key rule = ''header'' then ''header:'' @ or_else (rl_headerName rule) []
      else ''route_global'')"

subsection \<open>The running state\<close>

record emission =
  em_nextId :: nat
  em_directives :: "string list"
  em_ladder :: "ladder_step list"
  em_rateLimits :: "compiled_rate_limit list"

text \<open>\<open>directives.push(...)\<close> and \<open>ladder.push(...)\<close> under one fresh id.\<close>

definition emit :: "decision_stage \<Rightarrow> string \<Rightarrow> (nat \<Rightarrow> string list) \<Rightarrow> emission \<Rightarrow> emission" where
  "emit stage action lines e =
     (let i = em_nextId e in
      e\<lparr> em_nextId := Suc i,
         em_directives := em_directives e @ lines i,
         em_ladder := em_ladder e @
           [\<lparr> ls_id = i, ls_stage = stage, ls_action = action,
              ls_directive = join_with [new_line] (lines i) \<rparr>] \<rparr>)"

definition start_emission :: "edge_route \<Rightarrow> emission" where
  "start_emission route =
     \<lparr> em_nextId = 10,
       em_directives = [''SecRuleEngine On'',
         sec_rule ''REQUEST_URI'' (''@beginsWith '' @ er_pathPrefix route)
           [''id:1'', ''phase:1'', ''pass'', ''nolog'', ''ctl:ruleEngine=On'']],
       em_ladder = [], em_rateLimits = [] \<rparr>"

definition push_bot :: "verified_bot \<Rightarrow> emission \<Rightarrow> emission" where
  "push_bot b e =
     (if validateVerifiedBot b = Valid
      then emit AllowVerifiedBot ''allow'' (\<lambda>i. verifiedBotDirectives i b) e else e)"

definition push_internal :: "emission \<Rightarrow> emission" where
  "push_internal =
     emit AllowInternal ''allow'' (\<lambda>i.
       [sec_rule (''REQUEST_HEADERS:'' @ INTERNAL_REQUEST_HEADER) ''@streq 1''
          [id_word i, ''phase:1'', ''pass'', ''nolog'', ''setvar:tx.'' @ INTERNAL_MARKER_VARIABLE @ ''=1'']])"

definition push_trusted :: "trusted_source \<Rightarrow> emission \<Rightarrow> emission" where
  "push_trusted source e =
     (if validateTrustedSource source = Valid
      then emit AllowTrustedIp ''allow'' (\<lambda>i.
        [sec_rule ''REMOTE_ADDR'' (''@ipMatch '' @ ts_value source)
           [id_word i, ''phase:1'', ''pass'', ''nolog'', ''setvar:tx.cloud_wai_trusted=1'']]) e
      else e)"

definition deny_lines :: "deny_rule \<Rightarrow> nat \<Rightarrow> string list" where
  "deny_lines rule i =
     (case denyOperator rule of (target, operator) \<Rightarrow>
       [sec_rule target operator [id_word i, ''phase:1'', ''deny'', ''status:403'', ''log'',
          msg_word (''cloud-wai deny list: '' @ deny_kind_name (dn_kind rule)), ''chain''],
        sec_rule ''TX:cloud_wai_trusted'' ''!@streq 1'' [''t:none'', ''chain''],
        sec_rule (''TX:'' @ INTERNAL_MARKER_VARIABLE) ''!@streq 1'' [''t:none'', ''chain''],
        sec_rule (''TX:'' @ BOT_MARKER_VARIABLE) (''!@rx ^'' @ backslash @ ''d+$'') [''t:none'']])"

definition push_deny :: "deny_rule \<Rightarrow> emission \<Rightarrow> emission" where
  "push_deny rule e =
     (if validateDenyRule rule = Valid then emit BlockDenyList ''block'' (deny_lines rule) e else e)"

definition push_rate :: "rate_limit_rule \<Rightarrow> emission \<Rightarrow> emission" where
  "push_rate rule e =
     (if validateRateLimitRule rule = Valid
      then (emit RateLimit ''log'' (\<lambda>i.
          [sec_action [id_word i, ''phase:1'', ''pass'', ''nolog'',
             ''setvar:tx.cloud_wai_rate_limit='' @ show_version (rl_limit rule) @ ''/'' @
               show_version (rl_windowSeconds rule) @ ''s'',
             ''setvar:tx.cloud_wai_rate_key='' @ rl_key rule]]) e)
        \<lparr> em_rateLimits := em_rateLimits e @
            [\<lparr> cr_descriptor = rateLimitDescriptor rule, cr_limit = rl_limit rule,
               cr_windowSeconds = rl_windowSeconds rule \<rparr>] \<rparr>
      else e)"

definition push_challenge :: "bool \<Rightarrow> emission \<Rightarrow> emission" where
  "push_challenge attackMode e =
     (if attackMode
      then emit Challenge ''challenge'' (\<lambda>i.
        [sec_action [id_word i, ''phase:1'', ''pass'', ''nolog'', ''setvar:tx.cloud_wai_challenge_browsers=1'']]) e
      else e)"

definition waf_threshold :: "string \<Rightarrow> nat" where
  "waf_threshold level = (if level = ''critical'' then 1 else if level = ''high'' then 3 else 5)"

definition waf_rule :: "input_policy \<Rightarrow> nat \<Rightarrow> string" where
  "waf_rule policy i =
     sec_rule ''TX:BLOCKING_INBOUND_ANOMALY_SCORE'' ''@ge %{tx.inbound_anomaly_score_threshold}''
       [id_word i, ''phase:2'', ''severity:'' @ CORAZA_SEVERITY (ip_riskLevel policy),
        CORAZA_ACTION (ip_action policy), ''status:403'', ''log'']"

definition push_waf :: "input_policy option \<Rightarrow> emission \<Rightarrow> emission" where
  "push_waf policy e =
     (case policy of
        None \<Rightarrow> e
      | Some p \<Rightarrow>
          (let thresholdId = em_nextId e; ruleId = Suc thresholdId in
           e\<lparr> em_nextId := Suc ruleId,
              em_directives := em_directives e @
                [sec_action [id_word thresholdId, ''phase:1'', ''pass'', ''nolog'',
                   ''setvar:tx.inbound_anomaly_score_threshold='' @ show_nat (waf_threshold (ip_riskLevel p))],
                 waf_rule p ruleId],
              em_ladder := em_ladder e @
                [\<lparr> ls_id = ruleId, ls_stage = Waf, ls_action = ip_action p,
                   ls_directive = waf_rule p ruleId \<rparr>] \<rparr>))"

subsection \<open>The route fragments\<close>

fun unseen_hosts :: "string set \<Rightarrow> edge_route list \<Rightarrow> edge_route list" where
  "unseen_hosts seen [] = []"
| "unseen_hosts seen (r # rs) =
     (if er_host r \<in> seen then unseen_hosts seen rs
      else r # unseen_hosts (insert (er_host r) seen) rs)"

definition skip_addresses :: "compile_input \<Rightarrow> string list" where
  "skip_addresses input =
     map ts_value (filter (\<lambda>s. validateTrustedSource s = Valid) (or_else (ci_trustedSources input) []))"

definition fragment :: "compile_input \<Rightarrow> edge_route \<Rightarrow> envoy_fragment" where
  "fragment input one =
     (let attackMode = (ci_protection input = Some ''attack'') in
      \<lparr> ef_host = er_host one, ef_pathPrefix = er_pathPrefix one,
        ef_cluster = ''origin-'' @ map (\<lambda>c. if c = CHR ''.'' then CHR ''-'' else c) (er_host one),
        ef_privateOrigin = er_origin one,
        ef_wafEnabled = (ci_policy input \<noteq> None),
        ef_challengeBrowsers = attackMode,
        ef_skipChallengeAddresses = skip_addresses input,
        ef_skipChallengeForVerifiedBots = attackMode,
        ef_protection = protectionInput (er_protection one) \<rparr>)"

definition fragments :: "compile_input \<Rightarrow> envoy_fragment list" where
  "fragments input =
     map (fragment input) (unseen_hosts {} (ci_route input # or_else (ci_routes input) []))"

definition push_protect :: "envoy_fragment list \<Rightarrow> emission \<Rightarrow> emission" where
  "push_protect routes e =
     (if list_ex (\<lambda>f. pt_mode (ef_protection f) \<noteq> ''none'') routes
      then e\<lparr> em_nextId := Suc (em_nextId e),
              em_ladder := em_ladder e @
                [\<lparr> ls_id = em_nextId e, ls_stage = Protect, ls_action = ''challenge'',
                   ls_directive = ''// Deployment protection is enforced by Envoy per route; see the route fragment's `protection`.'' \<rparr>] \<rparr>
      else e)"

definition rules_of :: "compile_input \<Rightarrow> emission" where
  "rules_of input =
     push_waf (ci_policy input)
     (push_challenge (ci_protection input = Some ''attack'')
     (fold push_rate (or_else (ci_rateLimits input) [])
     (fold push_deny (or_else (ci_denyList input) [])
     (fold push_trusted (or_else (ci_trustedSources input) [])
     (push_internal
     (fold push_bot (VERIFIED_BOTS @ or_else (ci_botAllowList input) [])
       (start_emission (ci_route input))))))))"

definition compileEdge :: "compile_input \<Rightarrow> compiled_edge" where
  "compileEdge input =
     (let routes = fragments input;
          e = push_protect routes (rules_of input) in
      \<lparr> ce_corazaDirectives = em_directives e,
        ce_envoyConfig = hd routes,
        ce_envoyRoutes = routes,
        ce_ladder = em_ladder e,
        ce_rateLimits = em_rateLimits e,
        ce_protection = ef_protection (hd routes),
        ce_version = (case ci_policy input of Some p \<Rightarrow> ip_version p | None \<Rightarrow> 1) \<rparr>)"

subsection \<open>A concrete input\<close>

text \<open>
  A policy under attack, with a deny rule, a deny rule that is directive syntax, a trusted source, a
  rate limit and a second, protected host.
\<close>

definition sample_route :: edge_route where
  "sample_route = \<lparr> er_host = ''app.example.com'', er_origin = ''10.0.0.7:8080'', er_pathPrefix = ''/'',
     er_organizationId = ''o'', er_protection = None \<rparr>"

definition sample_protected_route :: edge_route where
  "sample_protected_route = \<lparr> er_host = ''dev.example.com'', er_origin = ''10.0.0.7:8080'', er_pathPrefix = ''/'',
     er_organizationId = ''o'', er_protection = Some \<lparr> pt_mode = ''ip'', pt_basicUser = None,
       pt_basicPasswordSha256 = None, pt_allowedCidrs = Some [''198.51.100.0/24''] \<rparr> \<rparr>"

definition sample_input :: compile_input where
  "sample_input = \<lparr> ci_route = sample_route, ci_routes = Some [sample_protected_route],
     ci_policy = Some \<lparr> ip_riskLevel = ''high'', ip_action = ''block'', ip_version = 3 \<rparr>,
     ci_protection = Some ''attack'', ci_botAllowList = None,
     ci_denyList = Some [\<lparr> dn_kind = DenyIp, dn_value = ''203.0.113.9'' \<rparr>,
       \<lparr> dn_kind = DenyUserAgent, dn_value = ''x',pass'' \<rparr>],
     ci_trustedSources = Some [\<lparr> ts_kind = AddressIp, ts_value = ''192.0.2.4'' \<rparr>],
     ci_rateLimits = Some [\<lparr> rl_id = ''r'', rl_key = ''ip'', rl_headerName = None, rl_limit = 60,
       rl_windowSeconds = 60 \<rparr>] \<rparr>"

end
