(* ===== verification/Edge_Directives.thy ===== *)
theory Edge_Directives
  imports Edge_Compiler
begin

section \<open>The directives of an artifact\<close>

text \<open>
  The directives read back the way an engine splits them, and the proof that nothing a customer or
  an operator supplies becomes part of one except as the argument of an operator.
\<close>

subsection \<open>Reading a directive back\<close>

text \<open>
  A directive as an engine splits it: at the double quotes, and its actions at the commas.
\<close>

definition parse_rule :: "string \<Rightarrow> (string \<times> string \<times> string list) option" where
  "parse_rule d =
     (case split_on quote_mark d of
        [pre, op, sep, words, close] \<Rightarrow>
          if sep = '' '' \<and> close = [] then Some (butlast (drop 8 pre), op, split_on (CHR '','') words) else None
      | [pre, words, close] \<Rightarrow>
          if pre = ''SecAction '' \<and> close = [] then Some ([], [], split_on (CHR '','') words) else None
      | _ \<Rightarrow> None)"

definition plain :: "char \<Rightarrow> bool" where
  "plain c \<longleftrightarrow> c \<noteq> quote_mark \<and> c \<noteq> new_line \<and> c \<noteq> CHR '',''"

definition plain_text :: "string \<Rightarrow> bool" where
  "plain_text s = list_all plain s"

definition unquoted :: "string \<Rightarrow> bool" where
  "unquoted s = list_all (\<lambda>c. c \<noteq> quote_mark \<and> c \<noteq> new_line) s"

lemma plain_text_simps [simp]:
  "plain_text []" "plain_text (c # s) \<longleftrightarrow> plain c \<and> plain_text s"
  "plain_text (s @ t) \<longleftrightarrow> plain_text s \<and> plain_text t"
  by (simp_all add: plain_text_def)

lemma unquoted_simps [simp]:
  "unquoted []" "unquoted (c # s) \<longleftrightarrow> c \<noteq> quote_mark \<and> c \<noteq> new_line \<and> unquoted s"
  "unquoted (s @ t) \<longleftrightarrow> unquoted s \<and> unquoted t"
  by (simp_all add: unquoted_def)

lemma plain_unquoted: "plain_text s \<Longrightarrow> unquoted s"
  by (auto simp: plain_text_def unquoted_def plain_def list_all_iff)

lemma plain_textI: "(\<And>c. c \<in> set s \<Longrightarrow> plain c) \<Longrightarrow> plain_text s"
  by (simp add: plain_text_def list_all_iff)

lemma plain_digit: "is_digit c \<Longrightarrow> plain c"
  by (auto simp: is_digit_def plain_def quote_mark_def new_line_def)

lemma plain_alnum: "is_alnum c \<Longrightarrow> plain c"
  by (auto simp: is_alnum_def is_digit_def is_lower_def is_upper_def plain_def quote_mark_def new_line_def)

lemma plain_low_alnum: "low_alnum c \<Longrightarrow> plain c"
  by (auto simp: low_alnum_def is_alnum_def intro: plain_alnum)

lemma plain_literal [simp]:
  "plain (Char b0 b1 b2 b3 b4 b5 b6 b7) \<longleftrightarrow>
     Char b0 b1 b2 b3 b4 b5 b6 b7 \<noteq> CHR 0x22 \<and> Char b0 b1 b2 b3 b4 b5 b6 b7 \<noteq> CHR 0x0A \<and>
     Char b0 b1 b2 b3 b4 b5 b6 b7 \<noteq> CHR '',''"
  by (simp add: plain_def quote_mark_def new_line_def)

lemma plain_show_nat [simp]: "plain_text (show_nat n)"
  using digits_show_nat plain_digit by (blast intro: plain_textI)

lemma plain_show_version [simp]: "plain_text (show_version v)"
  unfolding show_version_def
  by (rule plain_textI) (auto dest!: digits_show_int intro: plain_digit)

lemmas pattern_defs =
  BOT_NAME_def LABEL_def HOST_PATTERN_def PATH_PATTERN_def QUAD_def IPV4_def CIDR_def ASN_def UA_VALUE_def

lemma patterns_plain:
  "over plain BOT_NAME" "over plain HOST_PATTERN" "over plain PATH_PATTERN" "over plain IPV4"
  "over plain CIDR" "over plain ASN" "over plain UA_VALUE"
  by (auto simp: pattern_defs one_of_def plain_digit plain_alnum plain_low_alnum)

lemma accepted_plain [simp]:
  "accepts BOT_NAME s \<Longrightarrow> plain_text s" "accepts HOST_PATTERN s \<Longrightarrow> plain_text s"
  "accepts PATH_PATTERN s \<Longrightarrow> plain_text s" "accepts IPV4 s \<Longrightarrow> plain_text s"
  "accepts CIDR s \<Longrightarrow> plain_text s" "accepts ASN s \<Longrightarrow> plain_text s"
  "accepts UA_VALUE s \<Longrightarrow> plain_text s"
  using patterns_plain accepts_over by (blast intro: plain_textI)+

lemma split_on_first: "c \<notin> set a \<Longrightarrow> split_on c (a @ c # b) = a # split_on c b"
  by (induction a) auto

lemma split_on_none: "c \<notin> set a \<Longrightarrow> split_on c a = [a]"
  by (induction a) auto

lemma split_acts:
  assumes "ws \<noteq> []" "list_all plain_text ws"
  shows "split_on (CHR '','') (acts ws) = ws"
  using assms unfolding acts_def
proof (induction "'','' :: string" ws rule: join_with.induct)
  case (2 w)
  then have "CHR '','' \<notin> set w" by (auto simp: plain_text_def plain_def list_all_iff)
  then show ?case by (simp add: split_on_none)
next
  case (3 w v ws)
  then have "CHR '','' \<notin> set w" by (auto simp: plain_text_def plain_def list_all_iff)
  with 3 show ?case by (simp add: split_on_first)
qed simp

lemma unquoted_acts: "list_all plain_text ws \<Longrightarrow> unquoted (acts ws)"
  unfolding acts_def
  by (induction "'','' :: string" ws rule: join_with.induct)
    (auto simp: plain_unquoted quote_mark_def new_line_def)

lemma parse_sec_rule:
  assumes "plain_text v" "unquoted op" "ws \<noteq> []" "list_all plain_text ws"
  shows "parse_rule (sec_rule v op ws) = Some (v, op, ws)"
proof -
  have "quote_mark \<notin> set v" "quote_mark \<notin> set op" "quote_mark \<notin> set (acts ws)"
    using assms unquoted_acts [of ws] by (auto simp: unquoted_def plain_text_def plain_def list_all_iff)
  moreover have "quote_mark \<notin> set ''SecRule ''" by (simp add: quote_mark_def)
  moreover have "quote_mark \<notin> set '' ''" by (simp add: quote_mark_def)
  ultimately have "split_on quote_mark (sec_rule v op ws) =
      [''SecRule '' @ v @ '' '', op, '' '', acts ws, []]"
    using split_on_first [of quote_mark "''SecRule '' @ v @ '' ''"] split_on_first [of quote_mark op]
      split_on_first [of quote_mark "'' ''"] split_on_first [of quote_mark "acts ws" "[]"]
    by (simp add: sec_rule_def quoted_def)
  with assms show ?thesis by (simp add: parse_rule_def split_acts butlast_append)
qed

lemma parse_sec_action:
  assumes "ws \<noteq> []" "list_all plain_text ws"
  shows "parse_rule (sec_action ws) = Some ([], [], ws)"
proof -
  have "quote_mark \<notin> set (acts ws)" "quote_mark \<notin> set ''SecAction ''"
    using assms unquoted_acts [of ws] by (auto simp: unquoted_def list_all_iff quote_mark_def)
  then have "split_on quote_mark (sec_action ws) = [''SecAction '', acts ws, []]"
    using split_on_first [of quote_mark "''SecAction ''"] split_on_first [of quote_mark "acts ws" "[]"]
    by (simp add: sec_action_def quoted_def)
  with assms show ?thesis by (simp add: parse_rule_def split_acts)
qed

subsection \<open>Every directive is the compiler's own\<close>

definition TARGETS :: "string list" where
  "TARGETS = [[], ''REQUEST_URI'', ''REQUEST_HEADERS:User-Agent'', ''TX:cloud_wai_bot_confirm'',
     ''REQUEST_HEADERS:x-cloud-wai-internal'', ''REMOTE_ADDR'', ''TX:CLOUD_WAI_ASN'', ''TX:cloud_wai_trusted'',
     ''TX:cloud_wai_internal'', ''TX:cloud_wai_bot'', ''TX:BLOCKING_INBOUND_ANOMALY_SCORE'']"

definition FIXED_WORDS :: "string list" where
  "FIXED_WORDS = [''id:1'', ''phase:1'', ''phase:2'', ''pass'', ''deny'', ''nolog'', ''log'', ''chain'',
     ''status:403'', ''t:none'', ''ctl:ruleEngine=On'', ''undefined'',
     ''setvar:tx.cloud_wai_internal=1'', ''setvar:tx.cloud_wai_trusted=1'',
     ''setvar:tx.cloud_wai_challenge_browsers=1'',
     ''setvar:tx.inbound_anomaly_score_threshold=1'', ''setvar:tx.inbound_anomaly_score_threshold=3'',
     ''setvar:tx.inbound_anomaly_score_threshold=5'',
     ''severity:notice'', ''severity:warning'', ''severity:error'', ''severity:critical'', ''severity:undefined'']"

definition rate_word :: "js_number \<Rightarrow> js_number \<Rightarrow> string" where
  "rate_word limit window =
     ''setvar:tx.cloud_wai_rate_limit='' @ show_version limit @ ''/'' @ show_version window @ ''s''"

definition engine_word :: "string \<Rightarrow> bool" where
  "engine_word w \<longleftrightarrow> w \<in> set FIXED_WORDS \<or> (\<exists>n. w = id_word n) \<or>
     (\<exists>n. w = ''setvar:tx.cloud_wai_bot='' @ show_nat n) \<or>
     (\<exists>name. accepts BOT_NAME name \<and> w = msg_word (''cloud-wai verified bot: '' @ name)) \<or>
     (\<exists>kind. w = msg_word (''cloud-wai deny list: '' @ deny_kind_name kind)) \<or>
     (\<exists>limit window. 1 \<le> limit \<and> limit \<le> 1000000 \<and> 1 \<le> window \<and> window \<le> 86400 \<and> w = rate_word limit window) \<or>
     (\<exists>key \<in> set RATE_LIMIT_KEYS. w = ''setvar:tx.cloud_wai_rate_key='' @ key)"

definition may_deny :: "compile_input \<Rightarrow> string \<Rightarrow> string \<Rightarrow> bool" where
  "may_deny input target operator \<longleftrightarrow>
     (\<exists>rule \<in> set (or_else (ci_denyList input) []).
        validateDenyRule rule = Valid \<and> denyOperator rule = (target, operator)) \<or>
     (\<exists>p. ci_policy input = Some p \<and> ip_action p \<in> {''challenge'', ''block'', ''quarantine''})"

definition own_line :: "compile_input \<Rightarrow> string \<Rightarrow> bool" where
  "own_line input d \<longleftrightarrow> new_line \<notin> set d \<and>
     (\<exists>target operator words. parse_rule d = Some (target, operator, words) \<and> target \<in> set TARGETS \<and>
        list_all engine_word words \<and> (''deny'' \<in> set words \<longrightarrow> may_deny input target operator))"

lemma no_new_line: "unquoted s \<Longrightarrow> new_line \<notin> set s"
  by (auto simp: unquoted_def list_all_iff)

lemma new_line_not_quote [simp]: "new_line \<noteq> quote_mark" "quote_mark \<noteq> new_line"
  by (simp_all add: new_line_def quote_mark_def)

lemma TARGETS_plain: "v \<in> set TARGETS \<Longrightarrow> plain_text v"
  by (auto simp: TARGETS_def)

lemma own_sec_rule:
  assumes "v \<in> set TARGETS" "unquoted op" "ws \<noteq> []" "list_all plain_text ws" "list_all engine_word ws"
    and "''deny'' \<in> set ws \<Longrightarrow> may_deny input v op"
  shows "own_line input (sec_rule v op ws)"
proof -
  have "new_line \<notin> set (sec_rule v op ws)"
    using no_new_line [OF plain_unquoted [OF TARGETS_plain [OF assms(1)]]] no_new_line [OF assms(2)]
      no_new_line [OF unquoted_acts [OF assms(4)]]
    by (simp add: sec_rule_def quoted_def) (simp add: new_line_def)
  then show ?thesis
    using assms parse_sec_rule [OF TARGETS_plain [OF assms(1)] assms(2-4)] by (simp add: own_line_def)
qed

lemma own_sec_action:
  assumes "ws \<noteq> []" "list_all plain_text ws" "list_all engine_word ws" "''deny'' \<notin> set ws"
  shows "own_line input (sec_action ws)"
proof -
  have "new_line \<notin> set (sec_action ws)"
    using no_new_line [OF unquoted_acts [OF assms(2)]]
    by (simp add: sec_action_def quoted_def) (simp add: new_line_def)
  then show ?thesis
    using assms parse_sec_action [OF assms(1,2)] by (simp add: own_line_def TARGETS_def)
qed

lemma words_plain [simp]:
  "plain_text (id_word n)" "plain_text (msg_word t) \<longleftrightarrow> plain_text t"
  by (simp_all add: id_word_def msg_word_def)

lemma words_not_deny [simp]:
  "id_word n \<noteq> ''deny''" "''deny'' \<noteq> id_word n" "msg_word t \<noteq> ''deny''" "''deny'' \<noteq> msg_word t"
  by (simp_all add: id_word_def msg_word_def)

lemma engine_word_id [simp]: "engine_word (id_word n)"
  by (auto simp: engine_word_def)

lemma engine_word_fixed: "w \<in> set FIXED_WORDS \<Longrightarrow> engine_word w"
  by (simp add: engine_word_def)

lemma fixed_word [simp]:
  "engine_word ''id:1''" "engine_word ''phase:1''" "engine_word ''phase:2''" "engine_word ''pass''"
  "engine_word ''deny''" "engine_word ''nolog''" "engine_word ''log''" "engine_word ''chain''"
  "engine_word ''status:403''" "engine_word ''t:none''" "engine_word ''ctl:ruleEngine=On''"
  "engine_word ''setvar:tx.cloud_wai_internal=1''" "engine_word ''setvar:tx.cloud_wai_trusted=1''"
  "engine_word ''setvar:tx.cloud_wai_challenge_browsers=1''"
  by (rule engine_word_fixed, simp add: FIXED_WORDS_def)+

definition own_rules :: "compile_input \<Rightarrow> emission \<Rightarrow> bool" where
  "own_rules input e \<longleftrightarrow> (\<forall>d \<in> set (em_directives e). d \<noteq> ''SecRuleEngine On'' \<longrightarrow> own_line input d)"

lemma own_emit:
  "own_rules input e \<Longrightarrow> list_all (own_line input) (lines (em_nextId e)) \<Longrightarrow>
     own_rules input (emit stage action lines e)"
  by (auto simp: own_rules_def emit_def Let_def list_all_iff)

lemma own_start:
  "accepts PATH_PATTERN (er_pathPrefix route) \<Longrightarrow> own_rules input (start_emission route)"
  unfolding own_rules_def start_emission_def
  by (auto intro!: own_sec_rule simp: plain_unquoted TARGETS_def quote_mark_def new_line_def)

lemma validateVerifiedBot_Valid:
  "validateVerifiedBot b = Valid \<longleftrightarrow> accepts BOT_NAME (vb_name b) \<and> accepts UA_VALUE (vb_userAgent b) \<and>
     accepts HOST_PATTERN (vb_confirmSuffix b)"
  by (simp add: validateVerifiedBot_def)

lemma unquoted_escape_dots: "plain_text s \<Longrightarrow> unquoted (escape_dots s)"
  by (induction s) (auto simp: escape_dots_def backslash_def plain_def quote_mark_def new_line_def)

lemma unquoted_pattern: "plain_text s \<Longrightarrow> unquoted (botConfirmPattern s)"
  using unquoted_escape_dots by (simp add: botConfirmPattern_def backslash_def quote_mark_def new_line_def)

lemma own_bot: "own_rules input e \<Longrightarrow> own_rules input (push_bot b e)"
proof (cases "validateVerifiedBot b = Valid")
  case True
  assume e: "own_rules input e"
  from True have plain: "plain_text (vb_name b)" "plain_text (vb_userAgent b)" "plain_text (vb_confirmSuffix b)"
    by (simp_all add: validateVerifiedBot_Valid)
  have name: "engine_word (msg_word (''cloud-wai verified bot: '' @ vb_name b))"
    using True unfolding engine_word_def validateVerifiedBot_Valid by blast
  have marker: "engine_word (''setvar:tx.cloud_wai_bot='' @ show_nat i)" for i
    unfolding engine_word_def by blast
  have "list_all (own_line input) (verifiedBotDirectives i b)" for i
    unfolding verifiedBotDirectives_def list.pred_inject BOT_MARKER_VARIABLE_def
    by (intro conjI own_sec_rule)
      (use plain name marker [of i] in \<open>simp_all add: TARGETS_def plain_unquoted unquoted_pattern quote_mark_def
        new_line_def BOT_CONFIRM_VARIABLE_def\<close>)
  with e True show ?thesis by (simp add: push_bot_def own_emit)
qed (simp add: push_bot_def)

lemma own_internal: "own_rules input e \<Longrightarrow> own_rules input (push_internal e)"
  unfolding push_internal_def
  by (rule own_emit, assumption)
    (auto intro!: own_sec_rule simp: TARGETS_def quote_mark_def new_line_def INTERNAL_MARKER_VARIABLE_def
      INTERNAL_REQUEST_HEADER_def)

lemma trusted_plain: "validateTrustedSource s = Valid \<Longrightarrow> plain_text (ts_value s)"
  by (auto simp: validateTrustedSource_def split: address_kind.splits if_splits)

lemma own_trusted: "own_rules input e \<Longrightarrow> own_rules input (push_trusted s e)"
  unfolding push_trusted_def
  by (auto intro!: own_emit own_sec_rule dest!: trusted_plain
      simp: TARGETS_def plain_unquoted quote_mark_def new_line_def)

lemma deny_plain: "validateDenyRule r = Valid \<Longrightarrow> plain_text (dn_value r)"
  by (auto simp: validateDenyRule_def split: deny_kind.splits if_splits)

lemma own_deny:
  assumes "own_rules input e" "rule \<in> set (or_else (ci_denyList input) [])"
  shows "own_rules input (push_deny rule e)"
proof (cases "validateDenyRule rule = Valid")
  case True
  obtain target operator where t: "denyOperator rule = (target, operator)" by fastforce
  then have target: "target \<in> set TARGETS" "unquoted operator"
    using deny_plain [OF True] by (auto simp: denyOperator_def TARGETS_def plain_unquoted quote_mark_def
        new_line_def split: deny_kind.splits)
  have deny: "may_deny input target operator" using t True assms(2) unfolding may_deny_def by blast
  have kind: "engine_word (msg_word (''cloud-wai deny list: '' @ deny_kind_name (dn_kind rule)))"
    unfolding engine_word_def by blast
  have "plain_text (deny_kind_name (dn_kind rule))" by (cases "dn_kind rule") simp_all
  then have "list_all (own_line input) (deny_lines rule i)" for i
    unfolding deny_lines_def t list.pred_inject prod.case
    by (intro conjI own_sec_rule)
      (use target deny kind in \<open>simp_all add: TARGETS_def quote_mark_def new_line_def backslash_def
        INTERNAL_MARKER_VARIABLE_def BOT_MARKER_VARIABLE_def\<close>)
  with assms(1) True show ?thesis by (simp add: push_deny_def own_emit)
qed (simp add: push_deny_def assms)

lemma validRate:
  "validateRateLimitRule r = Valid \<Longrightarrow>
     rl_key r \<in> set RATE_LIMIT_KEYS \<and> 1 \<le> rl_limit r \<and> rl_limit r \<le> 1000000 \<and>
     1 \<le> rl_windowSeconds r \<and> rl_windowSeconds r \<le> 86400"
  by (auto simp: validateRateLimitRule_def split: if_splits)

lemma own_rate: "own_rules input e \<Longrightarrow> own_rules input (push_rate rule e)"
proof (cases "validateRateLimitRule rule = Valid")
  case True
  assume e: "own_rules input e"
  note valid = validRate [OF True]
  have words: "engine_word (rate_word (rl_limit rule) (rl_windowSeconds rule))"
    "engine_word (''setvar:tx.cloud_wai_rate_key='' @ rl_key rule)"
    using valid unfolding engine_word_def by blast+
  have key: "plain_text (rl_key rule)" using valid by (auto simp: RATE_LIMIT_KEYS_def)
  have "own_line input (sec_action [id_word i, ''phase:1'', ''pass'', ''nolog'',
      ''setvar:tx.cloud_wai_rate_limit='' @ show_version (rl_limit rule) @ ''/'' @
        show_version (rl_windowSeconds rule) @ ''s'',
      ''setvar:tx.cloud_wai_rate_key='' @ rl_key rule])" for i
    by (rule own_sec_action) (use words key in \<open>simp_all add: rate_word_def\<close>)
  with e True show ?thesis by (auto simp: push_rate_def own_rules_def emit_def Let_def)
qed (simp add: push_rate_def)

lemma own_challenge: "own_rules input e \<Longrightarrow> own_rules input (push_challenge attack e)"
  unfolding push_challenge_def by (auto intro!: own_emit own_sec_action)

lemma show_thresholds: "show_nat 1 = ''1''" "show_nat 3 = ''3''" "show_nat 5 = ''5''"
  by code_simp+

lemma threshold_words:
  "engine_word (''setvar:tx.inbound_anomaly_score_threshold='' @ show_nat (waf_threshold level))"
  by (rule engine_word_fixed) (simp add: waf_threshold_def FIXED_WORDS_def show_thresholds del: One_nat_def)

lemma severity_words: "engine_word (''severity:'' @ CORAZA_SEVERITY level)"
  by (rule engine_word_fixed) (simp add: CORAZA_SEVERITY_def FIXED_WORDS_def)

lemma action_words: "engine_word (CORAZA_ACTION action)" "plain_text (CORAZA_ACTION action)"
  by (rule engine_word_fixed) (simp_all add: CORAZA_ACTION_def FIXED_WORDS_def)

lemma severity_plain [simp]: "plain_text (CORAZA_SEVERITY level)"
  by (simp add: CORAZA_SEVERITY_def)

lemma own_waf:
  assumes "own_rules input e" "ci_policy input = policy"
  shows "own_rules input (push_waf policy e)"
proof (cases policy)
  case (Some p)
  have "own_line input (waf_rule p i)" for i
    unfolding waf_rule_def
    by (rule own_sec_rule)
      (use assms(2) Some severity_words action_words in
        \<open>auto simp: TARGETS_def quote_mark_def new_line_def may_deny_def CORAZA_ACTION_def split: if_splits\<close>)
  moreover have "own_line input (sec_action [id_word i, ''phase:1'', ''pass'', ''nolog'',
      ''setvar:tx.inbound_anomaly_score_threshold='' @ show_nat (waf_threshold level)])" for i level
    by (rule own_sec_action) (use threshold_words [of level] in simp_all)
  ultimately show ?thesis
    using assms Some by (auto simp: push_waf_def own_rules_def Let_def)
qed (simp add: push_waf_def assms)

lemma rules_of_induct:
  assumes "I (start_emission (ci_route input))"
    and "\<And>b e. I e \<Longrightarrow> I (push_bot b e)"
    and "\<And>e. I e \<Longrightarrow> I (push_internal e)"
    and "\<And>s e. I e \<Longrightarrow> I (push_trusted s e)"
    and "\<And>r e. r \<in> set (or_else (ci_denyList input) []) \<Longrightarrow> I e \<Longrightarrow> I (push_deny r e)"
    and "\<And>r e. I e \<Longrightarrow> I (push_rate r e)"
    and "\<And>a e. I e \<Longrightarrow> I (push_challenge a e)"
    and "\<And>e. I e \<Longrightarrow> I (push_waf (ci_policy input) e)"
  shows "I (rules_of input)"
  unfolding rules_of_def
  by (intro assms fold_invariant [where Q = "\<lambda>_. True" and P = I]
      fold_invariant [where Q = "\<lambda>r. r \<in> set (or_else (ci_denyList input) [])" and P = I]) auto

lemma compile_directives: "ce_corazaDirectives (compileEdge input) = em_directives (rules_of input)"
  by (simp add: compileEdge_def Let_def push_protect_def)

text \<open>
  C39. Customer input never becomes a directive: whatever the lists of the input hold, every
  directive of the artifact is one line that an engine reads back as one of the compiler's own
  targets and the compiler's own actions, so a supplied value can only be the operator's argument;
  and a directive that denies is a validated deny rule with that rule's own target and operator, or
  exists under a policy that blocks.
\<close>

theorem customer_values_never_become_directives:
  assumes "accepts PATH_PATTERN (er_pathPrefix (ci_route input))"
    and "d \<in> set (ce_corazaDirectives (compileEdge input))" and "d \<noteq> ''SecRuleEngine On''"
  shows "new_line \<notin> set d \<and>
    (\<exists>target operator words. parse_rule d = Some (target, operator, words) \<and> target \<in> set TARGETS \<and>
       list_all engine_word words \<and> (''deny'' \<in> set words \<longrightarrow> may_deny input target operator))"
proof -
  have "own_rules input (rules_of input)"
    by (rule rules_of_induct [where I = "own_rules input"])
      (simp_all add: own_start assms(1) own_bot own_internal own_trusted own_deny own_rate own_challenge own_waf)
  with assms(2,3) have "own_line input d" by (simp add: own_rules_def compile_directives)
  then show ?thesis by (simp add: own_line_def)
qed

subsection \<open>A concrete directive\<close>

definition sample_deny :: string where
  "sample_deny = sec_rule ''REMOTE_ADDR'' ''@ipMatch 203.0.113.9''
     [''id:21'', ''phase:1'', ''deny'', ''status:403'', ''log'', msg_word ''cloud-wai deny list: ip'', ''chain'']"

lemma sample_deny_facts:
  "accepts PATH_PATTERN (er_pathPrefix (ci_route sample_input))"
  "sample_deny \<in> set (ce_corazaDirectives (compileEdge sample_input))"
  "sample_deny \<noteq> ''SecRuleEngine On''"
  "parse_rule sample_deny = Some (''REMOTE_ADDR'', ''@ipMatch 203.0.113.9'',
     [''id:21'', ''phase:1'', ''deny'', ''status:403'', ''log'', msg_word ''cloud-wai deny list: ip'', ''chain''])"
  by code_simp+

theorem customer_values_never_become_directives_witness:
  "may_deny sample_input ''REMOTE_ADDR'' ''@ipMatch 203.0.113.9'' \<and> new_line \<notin> set sample_deny"
  using customer_values_never_become_directives [OF sample_deny_facts(1-3)] sample_deny_facts(4) by auto

text \<open>
  What the addresses of an origin are tested for is only how they start: a public name that starts
  like a private address passes.
\<close>

lemma public_name_passes_as_private:
  "validateEdgeRoute (sample_route\<lparr> er_origin := ''10.evil.example:443'' \<rparr>) = Valid"
  by code_simp

end
