(* ===== verification/Edge_Ladder.thy ===== *)
theory Edge_Ladder
  imports Edge_Compiler
begin

section \<open>The ladder and the routes of an artifact\<close>

text \<open>
  The order and the identity of the decision ladder's steps, the entries the compiler drops, what
  attack mode adds, and the route fragments.
\<close>

subsection \<open>Order\<close>

fun stage_rank :: "decision_stage \<Rightarrow> nat" where
  "stage_rank AllowVerifiedBot = 1"
| "stage_rank AllowInternal = 2"
| "stage_rank AllowTrustedIp = 3"
| "stage_rank BlockDenyList = 4"
| "stage_rank RateLimit = 5"
| "stage_rank Challenge = 6"
| "stage_rank Waf = 7"
| "stage_rank Protect = 8"
| "stage_rank LogStage = 9"
| "stage_rank PassStage = 10"

definition ladder_ok :: "nat \<Rightarrow> emission \<Rightarrow> bool" where
  "ladder_ok k e \<longleftrightarrow>
     sorted_wrt (\<lambda>a b. ls_id a < ls_id b \<and> stage_rank (ls_stage a) \<le> stage_rank (ls_stage b)) (em_ladder e) \<and>
     (\<forall>s \<in> set (em_ladder e). 10 \<le> ls_id s \<and> ls_id s < em_nextId e \<and> stage_rank (ls_stage s) \<le> k) \<and>
     10 \<le> em_nextId e"

lemma ladder_ok_mono: "ladder_ok k e \<Longrightarrow> k \<le> l \<Longrightarrow> ladder_ok l e"
  by (force simp: ladder_ok_def)

lemma ladder_ok_push:
  assumes "ladder_ok k e" "stage_rank (ls_stage s) = k" "em_nextId e \<le> ls_id s" "ls_id s < em_nextId e'"
    and "em_ladder e' = em_ladder e @ [s]"
  shows "ladder_ok k e'"
  using assms by (force simp: ladder_ok_def sorted_wrt_append)

lemma ladder_ok_emit: "ladder_ok k e \<Longrightarrow> stage_rank stage = k \<Longrightarrow> ladder_ok k (emit stage action lines e)"
  by (erule ladder_ok_push) (auto simp: emit_def Let_def)

lemma ladder_ok_rates [simp]: "ladder_ok k (e\<lparr> em_rateLimits := x \<rparr>) = ladder_ok k e"
  by (simp add: ladder_ok_def)

lemma ladder_ok_fold:
  "(\<And>x e. ladder_ok k e \<Longrightarrow> ladder_ok k (f x e)) \<Longrightarrow> ladder_ok k e \<Longrightarrow> ladder_ok k (fold f xs e)"
  by (induction xs arbitrary: e) auto

lemma ladder_ok_pushes:
  "ladder_ok 1 e \<Longrightarrow> ladder_ok 1 (push_bot b e)"
  "ladder_ok 2 e \<Longrightarrow> ladder_ok 2 (push_internal e)"
  "ladder_ok 3 e \<Longrightarrow> ladder_ok 3 (push_trusted s e)"
  "ladder_ok 4 e \<Longrightarrow> ladder_ok 4 (push_deny d e)"
  "ladder_ok 5 e \<Longrightarrow> ladder_ok 5 (push_rate r e)"
  "ladder_ok 6 e \<Longrightarrow> ladder_ok 6 (push_challenge a e)"
  by (simp_all add: push_bot_def push_internal_def push_trusted_def push_deny_def push_rate_def
      push_challenge_def ladder_ok_emit)

lemma ladder_ok_waf: "ladder_ok 7 e \<Longrightarrow> ladder_ok 7 (push_waf policy e)"
  unfolding push_waf_def by (auto split: option.split simp: Let_def elim!: ladder_ok_push)

lemma ladder_ok_protect: "ladder_ok 8 e \<Longrightarrow> ladder_ok 8 (push_protect routes e)"
  unfolding push_protect_def by (auto elim!: ladder_ok_push)

lemma ladder_ok_rules: "ladder_ok 7 (rules_of input)"
proof -
  have start: "ladder_ok 1 (start_emission route)" for route
    by (simp add: ladder_ok_def start_emission_def)
  show ?thesis unfolding rules_of_def
    by (rule ladder_ok_waf, rule ladder_ok_mono [of 6], rule ladder_ok_pushes, rule ladder_ok_mono [of 5],
        rule ladder_ok_fold, erule ladder_ok_pushes, rule ladder_ok_mono [of 4], rule ladder_ok_fold,
        erule ladder_ok_pushes, rule ladder_ok_mono [of 3], rule ladder_ok_fold, erule ladder_ok_pushes,
        rule ladder_ok_mono [of 2], rule ladder_ok_pushes, rule ladder_ok_mono [of 1], rule ladder_ok_fold,
        erule ladder_ok_pushes, rule start) simp_all
qed

text \<open>
  The ladder is evaluated in the documented order: every step carries a fresh id above the last
  one, every allow step comes before every deny, rate-limit, challenge and inspection step, and the
  protection step the edge may record comes last.
\<close>

theorem ladder_is_ordered:
  "sorted_wrt (\<lambda>a b. ls_id a < ls_id b \<and> stage_rank (ls_stage a) \<le> stage_rank (ls_stage b))
     (ce_ladder (compileEdge input))"
  using ladder_ok_protect [OF ladder_ok_mono [OF ladder_ok_rules]]
  by (simp add: compileEdge_def Let_def ladder_ok_def)

subsection \<open>Invalid entries\<close>

definition drop_invalid :: "compile_input \<Rightarrow> compile_input" where
  "drop_invalid input = input
     \<lparr> ci_botAllowList := Some (filter (\<lambda>b. validateVerifiedBot b = Valid) (or_else (ci_botAllowList input) [])),
       ci_denyList := Some (filter (\<lambda>r. validateDenyRule r = Valid) (or_else (ci_denyList input) [])),
       ci_trustedSources := Some (filter (\<lambda>s. validateTrustedSource s = Valid) (or_else (ci_trustedSources input) [])),
       ci_rateLimits := Some (filter (\<lambda>r. validateRateLimitRule r = Valid) (or_else (ci_rateLimits input) [])),
       ci_route := (ci_route input)\<lparr> er_protection := Some (protectionInput (er_protection (ci_route input))) \<rparr>,
       ci_routes := map_option (map (\<lambda>r. r\<lparr> er_protection := Some (protectionInput (er_protection r)) \<rparr>))
         (ci_routes input) \<rparr>"

lemma fold_filter_skip: "(\<And>x e. \<not> P x \<Longrightarrow> f x e = e) \<Longrightarrow> fold f (filter P xs) e = fold f xs e"
  by (induction xs arbitrary: e) auto

lemma open_posture_Valid: "validateProtection open_posture = Valid"
  by (simp add: validateProtection_def open_posture_def PROTECTION_MODES_def)

lemma protectionInput_Valid: "validateProtection (protectionInput p) = Valid"
  by (simp add: protectionInput_def open_posture_Valid split: option.split)

lemma protectionInput_idem [simp]: "protectionInput (Some (protectionInput p)) = protectionInput p"
  using protectionInput_Valid [of p] by (simp add: protectionInput_def)

lemma unseen_hosts_map:
  "(\<And>r. er_host (f r) = er_host r) \<Longrightarrow> unseen_hosts seen (map f rs) = map f (unseen_hosts seen rs)"
  by (induction rs arbitrary: seen) auto

text \<open>
  An entry that does not validate has no effect: compiling an input gives exactly the artifact
  of the input with its invalid bots, deny rules, trusted sources and rate limits removed and its
  invalid protection postures opened, directives, ladder, fragments and descriptors alike.
\<close>

theorem invalid_entries_have_no_effect: "compileEdge (drop_invalid input) = compileEdge input"
proof -
  have "fold push_bot (VERIFIED_BOTS @ filter (\<lambda>b. validateVerifiedBot b = Valid) bots) e =
      fold push_bot (VERIFIED_BOTS @ bots) e" for bots e
    by (simp add: fold_filter_skip push_bot_def)
  moreover have "start_emission (ci_route (drop_invalid input)) = start_emission (ci_route input)"
    by (simp add: start_emission_def drop_invalid_def)
  ultimately have rules: "rules_of (drop_invalid input) = rules_of input"
    unfolding rules_of_def
    by (simp add: drop_invalid_def fold_filter_skip push_deny_def push_trusted_def push_rate_def)
  let ?norm = "\<lambda>r. r\<lparr> er_protection := Some (protectionInput (er_protection r)) \<rparr>"
  have routes: "ci_route (drop_invalid input) # or_else (ci_routes (drop_invalid input)) [] =
      map ?norm (ci_route input # or_else (ci_routes input) [])"
    by (cases "ci_routes input") (simp_all add: drop_invalid_def)
  have "skip_addresses (drop_invalid input) = skip_addresses input"
    by (simp add: skip_addresses_def drop_invalid_def)
  then have "fragment (drop_invalid input) (?norm r) = fragment input r" for r
    by (simp add: fragment_def drop_invalid_def)
  then have "fragments (drop_invalid input) = fragments input"
    unfolding fragments_def routes by (simp add: unseen_hosts_map o_def)
  with rules show ?thesis by (simp add: compileEdge_def drop_invalid_def)
qed

subsection \<open>Attack mode\<close>

definition base_rules :: "compile_input \<Rightarrow> emission" where
  "base_rules input =
     fold push_rate (or_else (ci_rateLimits input) [])
     (fold push_deny (or_else (ci_denyList input) [])
     (fold push_trusted (or_else (ci_trustedSources input) [])
     (push_internal
     (fold push_bot (VERIFIED_BOTS @ or_else (ci_botAllowList input) [])
       (start_emission (ci_route input))))))"

lemma rules_of_base:
  "rules_of input =
     push_waf (ci_policy input) (push_challenge (ci_protection input = Some ''attack'') (base_rules input))"
  by (simp add: rules_of_def base_rules_def)

lemma base_rules_protection: "base_rules (input\<lparr> ci_protection := m \<rparr>) = base_rules input"
  by (simp add: base_rules_def)

lemma base_ranks: "s \<in> set (em_ladder (base_rules input)) \<Longrightarrow> stage_rank (ls_stage s) \<le> 5"
proof -
  have start: "ladder_ok 1 (start_emission route)" for route
    by (simp add: ladder_ok_def start_emission_def)
  have "ladder_ok 5 (base_rules input)" unfolding base_rules_def
    by (rule ladder_ok_fold, erule ladder_ok_pushes, rule ladder_ok_mono [of 4], rule ladder_ok_fold,
        erule ladder_ok_pushes, rule ladder_ok_mono [of 3], rule ladder_ok_fold, erule ladder_ok_pushes,
        rule ladder_ok_mono [of 2], rule ladder_ok_pushes, rule ladder_ok_mono [of 1], rule ladder_ok_fold,
        erule ladder_ok_pushes, rule start) simp_all
  then show "s \<in> set (em_ladder (base_rules input)) \<Longrightarrow> stage_rank (ls_stage s) \<le> 5"
    by (simp add: ladder_ok_def)
qed

text \<open>The steps before the challenge, and what the artifact says beside the ladder.\<close>

definition steps_before_challenge :: "compiled_edge \<Rightarrow> ladder_step list" where
  "steps_before_challenge c = filter (\<lambda>s. stage_rank (ls_stage s) < 6) (ce_ladder c)"

definition actions_at :: "decision_stage \<Rightarrow> compiled_edge \<Rightarrow> string list" where
  "actions_at stage c = map ls_action (filter (\<lambda>s. ls_stage s = stage) (ce_ladder c))"

definition unchallenged :: "envoy_fragment \<Rightarrow> envoy_fragment" where
  "unchallenged f = f\<lparr> ef_challengeBrowsers := False, ef_skipChallengeForVerifiedBots := False \<rparr>"

lemma base_filters [simp]:
  "filter (\<lambda>s. stage_rank (ls_stage s) < 6) (em_ladder (base_rules input)) = em_ladder (base_rules input)"
  "filter (\<lambda>s. ls_stage s = Waf) (em_ladder (base_rules input)) = []"
  "filter (\<lambda>s. ls_stage s = Challenge) (em_ladder (base_rules input)) = []"
  using base_ranks [of _ input]
  by (auto simp: filter_empty_conv intro!: filter_True) (force dest: base_ranks)+

lemmas ladder_unfold =
  compileEdge_def Let_def rules_of_base push_challenge_def emit_def push_waf_def push_protect_def

lemma ladder_parts:
  "steps_before_challenge (compileEdge input) = em_ladder (base_rules input)"
  "actions_at Waf (compileEdge input) = (case ci_policy input of None \<Rightarrow> [] | Some p \<Rightarrow> [ip_action p])"
  "actions_at Challenge (compileEdge input) =
     (if ci_protection input = Some ''attack'' then [''challenge''] else [])"
  "ce_rateLimits (compileEdge input) = em_rateLimits (base_rules input)"
  by (simp_all add: ladder_unfold steps_before_challenge_def actions_at_def split: option.split)

text \<open>
  Attack mode adds a challenge and weakens nothing: against the same input in normal mode the
  artifact has the same allow, deny and rate-limit steps, the same inspection rule and descriptors
  and the same fragments but for the challenge itself; and only an input in attack mode challenges.
\<close>

theorem attack_mode_only_challenges:
  fixes input :: compile_input
  defines "attack \<equiv> compileEdge (input\<lparr> ci_protection := Some ''attack'' \<rparr>)"
    and "normal \<equiv> compileEdge (input\<lparr> ci_protection := Some ''normal'' \<rparr>)"
  shows "steps_before_challenge attack = steps_before_challenge normal \<and>
    actions_at Waf attack = actions_at Waf normal \<and>
    actions_at Challenge attack = [''challenge''] \<and> actions_at Challenge normal = [] \<and>
    ce_rateLimits attack = ce_rateLimits normal \<and>
    map unchallenged (ce_envoyRoutes attack) = map unchallenged (ce_envoyRoutes normal) \<and>
    list_all ef_challengeBrowsers (ce_envoyRoutes attack) \<and>
    \<not> list_ex ef_challengeBrowsers (ce_envoyRoutes normal)"
proof -
  have "ce_envoyRoutes (compileEdge i) = fragments i" for i
    by (simp add: compileEdge_def Let_def)
  moreover have "unchallenged (fragment (input\<lparr> ci_protection := m \<rparr>) r) =
      unchallenged (fragment (input\<lparr> ci_protection := n \<rparr>) r)" for m n r
    by (simp add: unchallenged_def fragment_def skip_addresses_def Let_def)
  ultimately show ?thesis
    unfolding attack_def normal_def
    by (simp add: ladder_parts base_rules_protection fragments_def)
      (auto simp: list_all_iff list_ex_iff fragment_def Let_def)
qed

subsection \<open>The fragments\<close>

lemma unseen_hosts_props:
  "distinct (map er_host (unseen_hosts seen rs)) \<and>
   er_host ` set (unseen_hosts seen rs) = er_host ` set rs - seen"
proof (induction rs arbitrary: seen)
  case (Cons r rs)
  then show ?case by (auto simp: Cons)
qed simp

lemma unseen_hosts_sub: "set (unseen_hosts seen rs) \<subseteq> set rs"
  by (induction rs arbitrary: seen) auto

definition address_literal :: "string \<Rightarrow> bool" where
  "address_literal a \<longleftrightarrow> accepts IPV4 a \<or> accepts CIDR a"

lemma validateTrustedSource_literal: "validateTrustedSource s = Valid \<Longrightarrow> address_literal (ts_value s)"
  by (auto simp: validateTrustedSource_def address_literal_def split: address_kind.splits if_splits)

lemma served_hosts:
  "distinct (map ef_host (ce_envoyRoutes (compileEdge input)))"
  "ef_host ` set (ce_envoyRoutes (compileEdge input)) =
     er_host ` set (ci_route input # or_else (ci_routes input) [])"
  "ef_host (hd (ce_envoyRoutes (compileEdge input))) = er_host (ci_route input)"
  "list_all (\<lambda>f. ef_wafEnabled f \<longleftrightarrow> ci_policy input \<noteq> None) (ce_envoyRoutes (compileEdge input))"
proof -
  let ?routes = "ci_route input # or_else (ci_routes input) []"
  have served: "ce_envoyRoutes (compileEdge input) = map (fragment input) (unseen_hosts {} ?routes)"
    by (simp add: compileEdge_def Let_def fragments_def)
  have host: "ef_host (fragment input r) = er_host r" for r
    by (simp add: fragment_def Let_def)
  show "distinct (map ef_host (ce_envoyRoutes (compileEdge input)))"
    "ef_host ` set (ce_envoyRoutes (compileEdge input)) = er_host ` set ?routes"
    using unseen_hosts_props [of "{}" ?routes] unfolding served
    by (simp_all only: map_map o_def host set_map image_image Diff_empty)
  show "ef_host (hd (ce_envoyRoutes (compileEdge input))) = er_host (ci_route input)"
    by (simp add: served host)
  show "list_all (\<lambda>f. ef_wafEnabled f \<longleftrightarrow> ci_policy input \<noteq> None) (ce_envoyRoutes (compileEdge input))"
    by (simp add: served list_all_iff fragment_def Let_def)
qed

text \<open>
  One fragment per host: the fragments name every host of the input exactly once, the primary
  first; each serves a route of the input, is inspected exactly when there is a policy, exempts only
  address literals from the challenge and carries a posture that validates, the route's own when
  that one does.
\<close>

theorem one_fragment_per_host:
  fixes input :: compile_input
  defines "routes \<equiv> ci_route input # or_else (ci_routes input) []"
    and "served \<equiv> ce_envoyRoutes (compileEdge input)"
  shows "distinct (map ef_host served) \<and> ef_host ` set served = er_host ` set routes \<and>
    ce_envoyConfig (compileEdge input) = hd served \<and> ef_host (hd served) = er_host (ci_route input) \<and>
    list_all (\<lambda>f. list_ex (\<lambda>r. er_host r = ef_host f \<and> er_origin r = ef_privateOrigin f \<and>
          ef_protection f = protectionInput (er_protection r)) routes \<and>
        (ef_wafEnabled f \<longleftrightarrow> ci_policy input \<noteq> None) \<and>
        list_all address_literal (ef_skipChallengeAddresses f) \<and>
        validateProtection (ef_protection f) = Valid) served"
proof -
  have served: "served = map (fragment input) (unseen_hosts {} routes)"
    by (simp add: served_def routes_def compileEdge_def Let_def fragments_def)
  have "distinct (map ef_host served)" "ef_host ` set served = er_host ` set routes"
    "ef_host (hd served) = er_host (ci_route input)"
    unfolding served_def routes_def by (rule served_hosts)+
  moreover have "ce_envoyConfig (compileEdge input) = hd served"
    by (simp add: served_def compileEdge_def Let_def)
  moreover have "list_all address_literal (skip_addresses input)"
    by (auto simp: list_all_iff skip_addresses_def intro: validateTrustedSource_literal)
  ultimately show ?thesis
    using unseen_hosts_sub [of "{}" routes]
    by (auto simp: served list_all_iff list_ex_iff fragment_def Let_def protectionInput_Valid)
qed

subsection \<open>The rules do not depend on the routes\<close>

definition same_rules :: "emission \<Rightarrow> emission \<Rightarrow> bool" where
  "same_rules d e \<longleftrightarrow> em_nextId d = em_nextId e \<and> em_ladder d = em_ladder e \<and> em_rateLimits d = em_rateLimits e"

lemma same_rules_push:
  assumes "same_rules d e"
  shows "same_rules (push_bot b d) (push_bot b e)" "same_rules (push_internal d) (push_internal e)"
    "same_rules (push_trusted s d) (push_trusted s e)" "same_rules (push_deny r d) (push_deny r e)"
    "same_rules (push_rate l d) (push_rate l e)" "same_rules (push_challenge a d) (push_challenge a e)"
    "same_rules (push_waf p d) (push_waf p e)"
  using assms
  by (simp_all add: same_rules_def push_bot_def push_internal_def push_trusted_def push_deny_def push_rate_def
      push_challenge_def push_waf_def emit_def Let_def split: option.split)

lemma same_rules_fold:
  "(\<And>x d e. same_rules d e \<Longrightarrow> same_rules (f x d) (f x e)) \<Longrightarrow> same_rules d e \<Longrightarrow>
     same_rules (fold f xs d) (fold f xs e)"
  by (induction xs arbitrary: d e) auto

lemma rules_ignore_routes: "same_rules (rules_of (i\<lparr> ci_route := r, ci_routes := rs \<rparr>)) (rules_of i)"
proof -
  have "same_rules (start_emission r) (start_emission q)" for q
    by (simp add: same_rules_def start_emission_def)
  then show ?thesis
    unfolding rules_of_def by (simp, intro same_rules_push same_rules_fold)
qed

text \<open>The steps an artifact decides by, the recorded protection step apart.\<close>

definition decisions :: "compiled_edge \<Rightarrow> ladder_step list" where
  "decisions c = filter (\<lambda>s. ls_stage s \<noteq> Protect) (ce_ladder c)"

lemma decisions_rules: "decisions (compileEdge input) = em_ladder (rules_of input)"
  using ladder_ok_rules [of input]
  by (auto simp: decisions_def compileEdge_def Let_def push_protect_def ladder_ok_def filter_id_conv)

lemma decisions_ignore_routes:
  "decisions (compileEdge (i\<lparr> ci_route := r, ci_routes := rs \<rparr>)) = decisions (compileEdge i)"
  using rules_ignore_routes [where i = i and r = r and rs = rs] by (simp add: decisions_rules same_rules_def)

end
