(* ===== verification/Http_Client.thy ===== *)
theory Http_Client
  imports Prelude Contracts
begin

section \<open>packages/adapters/http.ts: requests to an engine\<close>

text \<open>
  The network is a port: \<open>fetch\<close> answers a request with a status and a body, or fails.  A body is what
  \<open>JSON.parse\<close> makes of the text, \<open>None\<close> where the text is empty or not JSON.
\<close>

datatype json =
    JNull
  | JBool bool
  | JNumber js_number
  | JString string
  | JArray "json list"
  | JObject "(string \<times> json) list"

fun field :: "string \<Rightarrow> json option \<Rightarrow> json option" where
  "field key (Some (JObject entries)) = map_of entries key"
| "field key _ = None"

record 'b engine_request =
  rq_method :: string
  rq_url :: string
  rq_headers :: "(string \<times> string) list"
  rq_body :: "'b option"
  rq_timeoutMs :: int

record http_answer =
  ha_status :: int
  ha_body :: "json option"

record engine_response =
  rs_statusCode :: int
  rs_value :: "json option"

datatype fetch_failure = AbortError | OtherError string

type_synonym ('w, 'b) fetch = "'b engine_request \<Rightarrow> ('w, fetch_failure, http_answer) eio"

datatype classification = ClassOk | ClassDegraded | ClassFailed

definition defaultClassify :: "int \<Rightarrow> classification" where
  "defaultClassify statusCode =
     (if 200 \<le> statusCode \<and> statusCode < 300 then ClassOk
      else if 500 \<le> statusCode \<or> statusCode = 429 then ClassDegraded
      else ClassFailed)"

definition redactUrl :: "string \<Rightarrow> string" where
  "redactUrl url =
     (if CHR ''?'' \<in> set url then takeWhile (\<lambda>c. c \<noteq> CHR ''?'') url @ ''?[redacted]'' else url)"

fun first_message :: "string list \<Rightarrow> json option \<Rightarrow> string option" where
  "first_message [] parsed = None"
| "first_message (key # keys) parsed =
     (case field key parsed of
        Some (JString message) \<Rightarrow>
          if 0 < length message \<and> length message < 300 then Some message else first_message keys parsed
      | _ \<Rightarrow> first_message keys parsed)"

definition extractMessage :: "json option \<Rightarrow> string option" where
  "extractMessage = first_message [''message'', ''error'', ''detail'']"

text \<open>The headers of the call: a later key replaces an earlier one.\<close>

definition request_headers :: "'b engine_request \<Rightarrow> (string \<times> string) list" where
  "request_headers req =
     [(''accept'', ''application/json'')] @
     (if rq_body req = None then [] else [(''content-type'', ''application/json'')]) @ rq_headers req"

definition request ::
  "('w, 'b) fetch \<Rightarrow> (int \<Rightarrow> classification) option \<Rightarrow> 'b engine_request \<Rightarrow>
   ('w, string, engine_response adapter_result) eio" where
  "request doFetch classify req =
     io_catch
       (io_bind (doFetch (req\<lparr> rq_headers := request_headers req \<rparr>)) (\<lambda>response.
          let class = (or_else classify defaultClassify) (ha_status response);
              where_to = rq_method req @ '' '' @ redactUrl (rq_url req) in
          if class = ClassOk
          then io_return (AOk Succeeded \<lparr> rs_statusCode = ha_status response, rs_value = ha_body response \<rparr>)
          else io_return (AErr (if class = ClassDegraded then Degraded else Failed)
                 (where_to @ '' returned '' @ show_int (ha_status response) @
                  (case extractMessage (ha_body response) of
                     Some detail \<Rightarrow> '': '' @ detail
                   | None \<Rightarrow> ''.'')))))
       (\<lambda>error. let where_to = rq_method req @ '' '' @ redactUrl (rq_url req) in
          case error of
            AbortError \<Rightarrow> io_return (AErr Failed
              (where_to @ '' timed out after '' @ show_int (rq_timeoutMs req) @ ''ms.''))
          | OtherError reason \<Rightarrow> io_return (AErr Degraded (where_to @ '' unreachable: '' @ reason)))"

subsection \<open>Values in a URL\<close>

definition hex_digit :: "nat \<Rightarrow> char" where
  "hex_digit n = ''0123456789ABCDEF'' ! n"

definition percent :: "nat \<Rightarrow> string" where
  "percent byte = [CHR ''%'', hex_digit (byte div 16 mod 16), hex_digit (byte mod 16)]"

definition encode_char :: "char \<Rightarrow> string" where
  "encode_char c =
     (if is_alnum c \<or> c \<in> set ''-_.!~*()'' \<or> c = CHR 0x27 then [c]
      else if code_unit c < 128 then percent (code_unit c)
      else percent (192 + code_unit c div 64) @ percent (128 + code_unit c mod 64))"

definition encodeURIComponent :: "string \<Rightarrow> string" where
  "encodeURIComponent s = concat (map encode_char s)"

definition strip_slash :: "string \<Rightarrow> string" where
  "strip_slash url = (if url \<noteq> [] \<and> last url = CHR ''/'' then butlast url else url)"

fun occurs :: "string \<Rightarrow> string \<Rightarrow> bool" where
  "occurs pat [] \<longleftrightarrow> pat = []"
| "occurs pat (c # s) \<longleftrightarrow> take (length pat) (c # s) = pat \<or> occurs pat s"

subsection \<open>What a caller learns\<close>

text \<open>A request never throws, and only a status the classification accepts is a success.\<close>

lemma request_cases:
  assumes "doFetch (req\<lparr> rq_headers := request_headers req \<rparr>) w = (answer, w')"
  shows "\<exists>result. request doFetch classify req w = (Inr result, w') \<and>
    (result_ok result \<longleftrightarrow>
       (\<exists>response. answer = Inr response \<and> (or_else classify defaultClassify) (ha_status response) = ClassOk)) \<and>
    (\<forall>status value. result = AOk status value \<longrightarrow> status = Succeeded \<and>
       (\<exists>response. answer = Inr response \<and> rs_value value = ha_body response))"
  using assms unfolding request_def
  by (auto simp: io_catch_apply io_bind_apply io_return_apply Let_def split: sum.split fetch_failure.split)

text \<open>A query string, which can carry a token, never reaches a reason.\<close>

lemma redactUrl_hides:
  "url = before @ CHR ''?'' # query \<Longrightarrow> CHR ''?'' \<notin> set before \<Longrightarrow> redactUrl url = before @ ''?[redacted]''"
  by (induction before arbitrary: url) (auto simp: redactUrl_def)

lemma redactUrl_same: "CHR ''?'' \<notin> set url \<Longrightarrow> redactUrl url = url"
  by (simp add: redactUrl_def)

definition url_mark :: "char \<Rightarrow> bool" where
  "url_mark c \<longleftrightarrow> c = CHR ''/'' \<or> c = CHR ''?'' \<or> c = CHR ''#''"

lemma hex_digit_safe: "n < 16 \<Longrightarrow> \<not> url_mark (hex_digit n)"
proof -
  have "list_all (\<lambda>c. \<not> url_mark c) ''0123456789ABCDEF''" by (simp add: url_mark_def)
  moreover assume "n < 16"
  ultimately show ?thesis unfolding hex_digit_def list_all_length by simp
qed

lemma percent_safe: "d \<in> set (percent b) \<Longrightarrow> \<not> url_mark d"
  using hex_digit_safe [of "b div 16 mod 16"] hex_digit_safe [of "b mod 16"]
  by (auto simp: percent_def) (simp add: url_mark_def)

lemma encode_char_safe: "d \<in> set (encode_char c) \<Longrightarrow> \<not> url_mark d"
proof (cases "is_alnum c \<or> c \<in> set ''-_.!~*()'' \<or> c = CHR 0x27")
  case True
  moreover assume "d \<in> set (encode_char c)"
  ultimately show ?thesis
    by (auto simp: encode_char_def url_mark_def is_alnum_def is_digit_def is_lower_def is_upper_def)
next
  case False
  moreover assume "d \<in> set (encode_char c)"
  ultimately show ?thesis
    using percent_safe by (auto simp only: encode_char_def if_False set_append Un_iff split: if_splits)
qed

lemma encodeURIComponent_safe: "d \<in> set (encodeURIComponent s) \<Longrightarrow> \<not> url_mark d"
  using encode_char_safe by (auto simp: encodeURIComponent_def)

end
