(* ===== verification/Edge_Adapter.thy ===== *)
theory Edge_Adapter
  imports Edge_Ladder Http_Client
begin

section \<open>packages/adapters/security-edge.ts: createEnvoySecurityEdge\<close>

text \<open>
  The adapter the API and the worker call: it resolves a reference to the stored route or policy,
  refuses what is unknown, invalid or unconfigured before anything reaches the network, and posts the
  compiled artifact.
\<close>

datatype edge_body = ArtifactBody compiled_edge | QuarantineBody provider_ref

record 'w edge_options =
  eo_credentials :: "string \<Rightarrow> (string \<times> string) option"
  eo_resolveRoute :: "(provider_ref \<Rightarrow> edge_route option) option"
  eo_resolvePolicy :: "(provider_ref \<Rightarrow> compile_input option) option"
  eo_loadRoute :: "(provider_ref \<Rightarrow> ('w, edge_route option) io) option"
  eo_loadPolicy :: "(provider_ref \<Rightarrow> ('w, compile_input option) io) option"
  eo_fetch :: "('w, edge_body) fetch"
  eo_classify :: "(int \<Rightarrow> classification) option"

text \<open>The interface of the adapter, \<open>SecurityEdgeAdapter\<close>.\<close>

record 'w security_edge = "'w edge_adapter" +
  se_publishRoute :: "adapter_context \<Rightarrow> provider_ref \<Rightarrow> ('w, operation_ref) engine_call"
  se_removeRoute :: "adapter_context \<Rightarrow> provider_ref \<Rightarrow> ('w, unit) engine_call"
  se_quarantine :: "adapter_context \<Rightarrow> provider_ref \<Rightarrow> ('w, unit) engine_call"
  se_inspectHealth :: "adapter_context \<Rightarrow> provider_ref \<Rightarrow> ('w, bool) engine_call"

definition routeFor :: "'w edge_options \<Rightarrow> provider_ref \<Rightarrow> ('w, edge_route option) io" where
  "routeFor options ref =
     (case eo_loadRoute options of
        Some load \<Rightarrow> load ref
      | None \<Rightarrow> io_return (case eo_resolveRoute options of Some f \<Rightarrow> f ref | None \<Rightarrow> None))"

definition policyFor :: "'w edge_options \<Rightarrow> provider_ref \<Rightarrow> ('w, compile_input option) io" where
  "policyFor options ref =
     (case eo_loadPolicy options of
        Some load \<Rightarrow> load ref
      | None \<Rightarrow> io_return (case eo_resolvePolicy options of Some f \<Rightarrow> f ref | None \<Rightarrow> None))"

definition credentialsFor :: "'w edge_options \<Rightarrow> adapter_context \<Rightarrow> (string \<times> string) option" where
  "credentialsFor options ctx =
     (case eo_credentials options (ac_organizationId ctx) of
        None \<Rightarrow> None
      | Some (adminUrl, token) \<Rightarrow> if trim adminUrl = [] \<or> trim token = [] then None else Some (adminUrl, token))"

definition edge_unconfigured :: "adapter_context \<Rightarrow> 'a adapter_result" where
  "edge_unconfigured ctx = AErr NotConfigured
     (''The security edge is not configured for organization '' @ ac_organizationId ctx @
      ''. Provision edge credentials for this organization.'')"

definition edge_request ::
  "adapter_context \<Rightarrow> string \<times> string \<Rightarrow> string \<Rightarrow> string \<Rightarrow> edge_body option \<Rightarrow> edge_body engine_request" where
  "edge_request ctx creds verb path body =
     \<lparr> rq_method = verb, rq_url = strip_slash (fst creds) @ path,
       rq_headers = [(''authorization'', ''Bearer '' @ snd creds)], rq_body = body,
       rq_timeoutMs = ac_timeoutMs ctx \<rparr>"

definition edge_call ::
  "'w edge_options \<Rightarrow> adapter_context \<Rightarrow> string \<times> string \<Rightarrow> string \<Rightarrow> string \<Rightarrow> edge_body option \<Rightarrow>
   ('w, engine_response) engine_call" where
  "edge_call options ctx creds verb path body =
     request (eo_fetch options) (eo_classify options) (edge_request ctx creds verb path body)"

definition staleVersion :: "string \<Rightarrow> bool" where
  "staleVersion reason \<longleftrightarrow> occurs ''version'' reason \<or> occurs ''stale'' reason \<or> occurs ''409'' reason"

text \<open>What a publication compiles: the organization's policy with every host it names, or the bare route.\<close>

definition publication :: "edge_route \<Rightarrow> compile_input option \<Rightarrow> compiled_edge" where
  "publication route policy =
     (case policy of
        Some p \<Rightarrow> compileEdge (p\<lparr> ci_route := route,
          ci_routes := Some (filter (\<lambda>one. er_host one \<noteq> er_host route)
            (ci_route p # or_else (ci_routes p) [])) \<rparr>)
      | None \<Rightarrow> compileEdge \<lparr> ci_route = route, ci_routes = None, ci_policy = None, ci_protection = None,
          ci_botAllowList = None, ci_denyList = None, ci_trustedSources = None, ci_rateLimits = None \<rparr>)"

definition publishRoute ::
  "'w edge_options \<Rightarrow> adapter_context \<Rightarrow> provider_ref \<Rightarrow> ('w, operation_ref) engine_call" where
  "publishRoute options ctx routeRef =
     io_bind (routeFor options routeRef) (\<lambda>found.
       case found of
         None \<Rightarrow> io_return (AErr Failed (''No route is known for '' @ ref_resourceId routeRef @ ''.''))
       | Some route \<Rightarrow>
          (case validateEdgeRoute route of
             Invalid reason \<Rightarrow> io_return (AErr Failed reason)
           | Valid \<Rightarrow>
              (case credentialsFor options ctx of
                 None \<Rightarrow> io_return (edge_unconfigured ctx)
               | Some creds \<Rightarrow>
                   io_bind (policyFor options routeRef) (\<lambda>policy.
                   io_bind (edge_call options ctx creds ''POST'' ''/edge/v1/routes''
                       (Some (ArtifactBody (publication route policy)))) (\<lambda>response.
                     case response of
                       AErr status reason \<Rightarrow> io_return (AErr status reason)
                     | AOk _ _ \<Rightarrow> io_return (AOk Succeeded
                         \<lparr> op_jobId = ''edge-route-'' @ er_host route,
                           op_providerRef = \<lparr> ref_organizationId = ac_organizationId ctx, ref_provider = ''envoy'',
                             ref_resourceType = ''route'', ref_resourceId = er_host route \<rparr> \<rparr>))))))"

definition removeRoute ::
  "'w edge_options \<Rightarrow> adapter_context \<Rightarrow> provider_ref \<Rightarrow> ('w, unit) engine_call" where
  "removeRoute options ctx routeRef =
     (case credentialsFor options ctx of
        None \<Rightarrow> io_return (edge_unconfigured ctx)
      | Some creds \<Rightarrow>
          io_bind (edge_call options ctx creds ''DELETE''
              (''/edge/v1/routes/'' @ encodeURIComponent (ref_resourceId routeRef)) None) (\<lambda>response.
            case response of
              AErr status reason \<Rightarrow> io_return (AErr status reason)
            | AOk _ _ \<Rightarrow> io_return (AOk Succeeded ())))"

text \<open>The version the edge echoes, a number where the answer carries one.\<close>

definition echoed_version :: "json option \<Rightarrow> js_number option" where
  "echoed_version body = (case field ''version'' body of Some (JNumber v) \<Rightarrow> Some v | _ \<Rightarrow> None)"

definition applyPolicy ::
  "'w edge_options \<Rightarrow> adapter_context \<Rightarrow> provider_ref \<Rightarrow> ('w, applied_policy) engine_call" where
  "applyPolicy options ctx ref =
     io_bind (policyFor options ref) (\<lambda>found.
       case found of
         None \<Rightarrow> io_return (AErr Failed (''No policy is known for '' @ ref_resourceId ref @ ''.''))
       | Some policy \<Rightarrow>
          (case credentialsFor options ctx of
             None \<Rightarrow> io_return (edge_unconfigured ctx)
           | Some creds \<Rightarrow>
               (let compiled = compileEdge policy in
                io_bind (edge_call options ctx creds ''POST'' ''/edge/v1/policies''
                    (Some (ArtifactBody compiled))) (\<lambda>response.
                  case response of
                    AErr status reason \<Rightarrow>
                      if staleVersion reason
                      then io_return (AErr Failed ''The edge is holding a newer policy version.'')
                      else io_return (AErr status reason)
                  | AOk _ answer \<Rightarrow> io_return (AOk Succeeded
                      \<lparr> ap_version = or_else (echoed_version (rs_value answer)) (ce_version compiled) \<rparr>)))))"

definition quarantine ::
  "'w edge_options \<Rightarrow> adapter_context \<Rightarrow> provider_ref \<Rightarrow> ('w, unit) engine_call" where
  "quarantine options ctx ref =
     (case credentialsFor options ctx of
        None \<Rightarrow> io_return (edge_unconfigured ctx)
      | Some creds \<Rightarrow>
          io_bind (edge_call options ctx creds ''POST'' ''/edge/v1/quarantine'' (Some (QuarantineBody ref)))
            (\<lambda>response. case response of
                 AErr status reason \<Rightarrow> io_return (AErr status reason)
               | AOk _ _ \<Rightarrow> io_return (AOk Succeeded ())))"

definition inspectHealth ::
  "'w edge_options \<Rightarrow> adapter_context \<Rightarrow> provider_ref \<Rightarrow> ('w, bool) engine_call" where
  "inspectHealth options ctx ref =
     (case credentialsFor options ctx of
        None \<Rightarrow> io_return (edge_unconfigured ctx)
      | Some creds \<Rightarrow>
          io_bind (edge_call options ctx creds ''GET''
              (''/edge/v1/health/'' @ encodeURIComponent (ref_resourceId ref)) None) (\<lambda>response.
            case response of
              AErr status reason \<Rightarrow> io_return (AErr status reason)
            | AOk _ answer \<Rightarrow> io_return (AOk Succeeded (field ''healthy'' (rs_value answer) = Some (JBool True)))))"

definition createEnvoySecurityEdge :: "'w edge_options \<Rightarrow> 'w security_edge" where
  "createEnvoySecurityEdge options =
     \<lparr> ea_applyPolicy = applyPolicy options,
       se_publishRoute = publishRoute options,
       se_removeRoute = removeRoute options,
       se_quarantine = quarantine options,
       se_inspectHealth = inspectHealth options \<rparr>"

text \<open>\<open>createControlPlaneSecurityEdge\<close> of \<open>engines.ts\<close>: a token per organization, the loaders of the store.\<close>

definition createControlPlaneSecurityEdge ::
  "string \<Rightarrow> (string \<Rightarrow> string option) \<Rightarrow> (provider_ref \<Rightarrow> ('w, edge_route option) io) \<Rightarrow>
   (provider_ref \<Rightarrow> ('w, compile_input option) io) \<Rightarrow> ('w, edge_body) fetch \<Rightarrow> 'w edge_options" where
  "createControlPlaneSecurityEdge edgeUrl tokenFor loadRoute loadPolicy fetch =
     (let adminUrl = trim edgeUrl in
      \<lparr> eo_credentials = (\<lambda>organizationId.
          case tokenFor organizationId of
            None \<Rightarrow> None
          | Some token \<Rightarrow> if adminUrl = [] \<or> trim token = [] then None else Some (adminUrl, token)),
        eo_resolveRoute = None, eo_resolvePolicy = None,
        eo_loadRoute = Some loadRoute, eo_loadPolicy = Some loadPolicy,
        eo_fetch = fetch, eo_classify = None \<rparr>)"

subsection \<open>What reaches the edge\<close>

text \<open>
  \<open>sent\<close> reads the requests the network has carried out of the world: every call of \<open>fetch\<close> adds its
  request, and the loaders, which read the control plane, add none.
\<close>

definition carries :: "('w \<Rightarrow> edge_body engine_request list) \<Rightarrow> 'w edge_options \<Rightarrow> bool" where
  "carries sent options \<longleftrightarrow>
     (\<forall>req w. sent (snd (eo_fetch options req w)) = sent w @ [req]) \<and>
     (\<forall>ref w. sent (snd (routeFor options ref w)) = sent w) \<and>
     (\<forall>ref w. sent (snd (policyFor options ref w)) = sent w)"

definition wire :: "'b engine_request \<Rightarrow> 'b engine_request" where
  "wire req = req\<lparr> rq_headers := request_headers req \<rparr>"

lemma edge_call_runs:
  assumes "carries sent options"
  obtains result w' where "edge_call options ctx creds verb path body w = (Inr result, w')"
    and "sent w' = sent w @ [wire (edge_request ctx creds verb path body)]"
proof -
  obtain answer w' where fetched: "eo_fetch options (wire (edge_request ctx creds verb path body)) w = (answer, w')"
    by (metis prod.collapse)
  then have "sent w' = sent w @ [wire (edge_request ctx creds verb path body)]"
    using assms unfolding carries_def by (metis snd_conv)
  then show thesis
    using that request_cases [where doFetch = "eo_fetch options" and classify = "eo_classify options",
        OF fetched [unfolded wire_def]]
    unfolding edge_call_def by blast
qed

lemma carries_loaders:
  "carries sent options \<Longrightarrow> routeFor options ref w = (r, w') \<Longrightarrow> sent w' = sent w"
  "carries sent options \<Longrightarrow> policyFor options ref w = (p, w') \<Longrightarrow> sent w' = sent w"
  unfolding carries_def by (metis snd_conv)+

text \<open>The hosts a stored policy names.\<close>

definition policy_hosts :: "compile_input option \<Rightarrow> string set" where
  "policy_hosts policy =
     (case policy of None \<Rightarrow> {} | Some p \<Rightarrow> er_host ` set (ci_route p # or_else (ci_routes p) []))"

lemma publication_hosts:
  "ef_host ` set (ce_envoyRoutes (publication route policy)) = insert (er_host route) (policy_hosts policy)"
  by (cases policy) (auto simp: publication_def served_hosts policy_hosts_def)

lemma publication_inspected:
  "list_all (\<lambda>f. ef_wafEnabled f \<longleftrightarrow> (\<exists>p. policy = Some p \<and> ci_policy p \<noteq> None))
     (ce_envoyRoutes (publication route policy))"
proof (cases policy)
  case None
  then show ?thesis by (simp add: publication_def compileEdge_def Let_def fragments_def fragment_def)
next
  case (Some p)
  then show ?thesis
    using served_hosts(4) [of "p\<lparr> ci_route := route, ci_routes := Some (filter (\<lambda>one. er_host one \<noteq> er_host route)
            (ci_route p # or_else (ci_routes p) [])) \<rparr>"]
    by (simp add: publication_def)
qed

lemma publication_decides: "decisions (publication route (Some p)) = decisions (compileEdge p)"
  by (simp add: publication_def decisions_ignore_routes)

text \<open>
  Publishing a host never drops a protection that is in force: either nothing reaches the edge
  and the publication fails, or the edge receives one artifact, whose primary host passed the
  route grammar, which still serves every host the stored policy names, each inspected exactly when
  the organization has a policy, and which decides by that policy's whole ladder.
\<close>

theorem publication_keeps_every_host:
  assumes carried: "carries sent options"
    and run: "publishRoute options ctx ref w = (Inr answer, w')"
  shows "(sent w' = sent w \<and> \<not> result_ok answer) \<or>
    (\<exists>route policy creds c w1 w2.
       routeFor options ref w = (Inr (Some route), w1) \<and> policyFor options ref w1 = (Inr policy, w2) \<and>
       credentialsFor options ctx = Some creds \<and> validateEdgeRoute route = Valid \<and>
       sent w' = sent w @ [wire (edge_request ctx creds ''POST'' ''/edge/v1/routes'' (Some (ArtifactBody c)))] \<and>
       ef_host ` set (ce_envoyRoutes c) = insert (er_host route) (policy_hosts policy) \<and>
       list_all (\<lambda>f. ef_wafEnabled f \<longleftrightarrow> (\<exists>p. policy = Some p \<and> ci_policy p \<noteq> None)) (ce_envoyRoutes c) \<and>
       (\<forall>p. policy = Some p \<longrightarrow> decisions c = decisions (compileEdge p)))"
proof -
  obtain found w1 where r: "routeFor options ref w = (found, w1)" by (metis prod.collapse)
  note sent1 = carries_loaders(1) [OF carried r]
  show ?thesis
  proof (cases "\<exists>route creds. found = Inr (Some route) \<and> validateEdgeRoute route = Valid \<and>
      credentialsFor options ctx = Some creds")
    case False
    with run r sent1 show ?thesis
      by (auto simp: publishRoute_def io_bind_apply io_return_apply edge_unconfigured_def
          split: sum.splits option.splits check.splits)
  next
    case True
    then obtain route creds where found: "found = Inr (Some route)" "validateEdgeRoute route = Valid"
      "credentialsFor options ctx = Some creds" by blast
    obtain pol w2 where p: "policyFor options ref w1 = (pol, w2)" by (metis prod.collapse)
    note sent2 = carries_loaders(2) [OF carried p]
    from run r p found obtain policy where pol: "pol = Inr policy"
      by (auto simp: publishRoute_def io_bind_apply split: sum.splits)
    let ?c = "publication route policy"
    obtain result w3 where call: "edge_call options ctx creds ''POST'' ''/edge/v1/routes''
        (Some (ArtifactBody ?c)) w2 = (Inr result, w3)"
      "sent w3 = sent w2 @ [wire (edge_request ctx creds ''POST'' ''/edge/v1/routes'' (Some (ArtifactBody ?c)))]"
      by (rule edge_call_runs [OF carried])
    have "w' = w3" using run r p found pol call(1)
      by (auto simp: publishRoute_def io_bind_apply io_return_apply split: adapter_result.splits)
    have "decisions ?c = decisions (compileEdge q)" if "policy = Some q" for q
      using that by (simp add: publication_decides)
    with \<open>w' = w3\<close> r p pol found call(2) sent1 sent2 publication_hosts [of route policy]
      publication_inspected [of policy route]
    show ?thesis by (metis (no_types, lifting))
  qed
qed

text \<open>A distribution posts the compiled policy, once, and only to a configured edge.\<close>

lemma applyPolicy_runs:
  assumes carried: "carries sent options"
    and run: "applyPolicy options ctx ref w = (Inr answer, w')"
  shows "(sent w' = sent w \<and> \<not> result_ok answer) \<or>
    (\<exists>input creds w1. policyFor options ref w = (Inr (Some input), w1) \<and>
       credentialsFor options ctx = Some creds \<and>
       sent w' = sent w @ [wire (edge_request ctx creds ''POST'' ''/edge/v1/policies''
         (Some (ArtifactBody (compileEdge input))))])"
proof -
  obtain found w1 where p: "policyFor options ref w = (found, w1)" by (metis prod.collapse)
  note sent1 = carries_loaders(2) [OF carried p]
  show ?thesis
  proof (cases "\<exists>input creds. found = Inr (Some input) \<and> credentialsFor options ctx = Some creds")
    case False
    with run p sent1 show ?thesis
      by (auto simp: applyPolicy_def io_bind_apply io_return_apply edge_unconfigured_def
          split: sum.splits option.splits)
  next
    case True
    then obtain input creds where found: "found = Inr (Some input)" "credentialsFor options ctx = Some creds"
      by blast
    obtain result w3 where call: "edge_call options ctx creds ''POST'' ''/edge/v1/policies''
        (Some (ArtifactBody (compileEdge input))) w1 = (Inr result, w3)"
      "sent w3 = sent w1 @ [wire (edge_request ctx creds ''POST'' ''/edge/v1/policies''
        (Some (ArtifactBody (compileEdge input))))]"
      by (rule edge_call_runs [OF carried])
    have "w' = w3" using run p found call(1)
      by (auto simp: applyPolicy_def io_bind_apply io_return_apply Let_def split: adapter_result.splits if_splits)
    with p found call(2) sent1 show ?thesis by (metis (no_types, lifting))
  qed
qed

text \<open>Nothing reaches an organization's edge without that organization's credentials.\<close>

lemma unconfigured_edge_is_silent:
  assumes "credentialsFor options ctx = None"
  shows "removeRoute options ctx ref w = (Inr (edge_unconfigured ctx), w)"
    and "quarantine options ctx ref w = (Inr (edge_unconfigured ctx), w)"
    and "inspectHealth options ctx ref w = (Inr (edge_unconfigured ctx), w)"
  using assms by (simp_all add: removeRoute_def quarantine_def inspectHealth_def io_return_apply)

subsection \<open>A concrete publication\<close>

definition sample_edge :: "edge_body engine_request list edge_options" where
  "sample_edge = createControlPlaneSecurityEdge ''https://edge.internal:9443/'' (\<lambda>org. Some ''token'')
     (\<lambda>ref. io_return (Some (sample_route\<lparr> er_host := ref_resourceId ref \<rparr>)))
     (\<lambda>ref. io_return (Some sample_input))
     (\<lambda>req w. (Inr \<lparr> ha_status = 200, ha_body = None \<rparr>, w @ [req]))"

definition sample_edge_ctx :: adapter_context where
  "sample_edge_ctx = \<lparr> ac_organizationId = ''o'', ac_idempotencyKey = ''k'', ac_timeoutMs = 1000 \<rparr>"

definition sample_edge_ref :: provider_ref where
  "sample_edge_ref = \<lparr> ref_organizationId = ''o'', ref_provider = ''envoy'', ref_resourceType = ''route'',
     ref_resourceId = ''new.example.com'' \<rparr>"

lemma sample_edge_carries: "carries (\<lambda>w. w) sample_edge"
  by (simp add: carries_def sample_edge_def createControlPlaneSecurityEdge_def Let_def routeFor_def policyFor_def
      io_return_apply)

lemma sample_edge_credentials: "credentialsFor sample_edge sample_edge_ctx = Some (''https://edge.internal:9443/'', ''token'')"
  by code_simp

lemma sample_edge_route: "validateEdgeRoute (sample_route\<lparr> er_host := ''new.example.com'' \<rparr>) = Valid"
  by code_simp

theorem publication_keeps_every_host_witness:
  "\<exists>c. map rq_body (snd (publishRoute sample_edge sample_edge_ctx sample_edge_ref [])) = [Some (ArtifactBody c)] \<and>
     ef_host ` set (ce_envoyRoutes c) = {''new.example.com'', ''app.example.com'', ''dev.example.com''}"
proof -
  have route: "routeFor sample_edge sample_edge_ref w =
      (Inr (Some (sample_route\<lparr> er_host := ''new.example.com'' \<rparr>)), w)" for w
    by (simp add: sample_edge_def createControlPlaneSecurityEdge_def Let_def routeFor_def io_return_apply
        sample_edge_ref_def)
  have policy: "policyFor sample_edge sample_edge_ref w = (Inr (Some sample_input), w)" for w
    by (simp add: sample_edge_def createControlPlaneSecurityEdge_def Let_def policyFor_def io_return_apply)
  let ?call = "edge_call sample_edge sample_edge_ctx (''https://edge.internal:9443/'', ''token'') ''POST''
    ''/edge/v1/routes'' (Some (ArtifactBody (publication (sample_route\<lparr> er_host := ''new.example.com'' \<rparr>)
      (Some sample_input)))) []"
  obtain result w3 where call: "?call = (Inr result, w3)" by (rule edge_call_runs [OF sample_edge_carries])
  then have "result = AOk Succeeded \<lparr> rs_statusCode = 200, rs_value = None \<rparr>"
    by (simp add: edge_call_def request_def sample_edge_def createControlPlaneSecurityEdge_def Let_def
        io_catch_apply io_bind_apply io_return_apply defaultClassify_def)
  with call route policy have run: "\<exists>v. publishRoute sample_edge sample_edge_ctx sample_edge_ref [] =
      (Inr (AOk Succeeded v), w3)"
    by (simp add: publishRoute_def io_bind_apply io_return_apply sample_edge_credentials sample_edge_route)
  then obtain v where run: "publishRoute sample_edge sample_edge_ctx sample_edge_ref [] = (Inr (AOk Succeeded v), w3)"
    by blast
  have hosts: "policy_hosts (Some sample_input) = {''app.example.com'', ''dev.example.com''}"
    by (simp add: policy_hosts_def sample_input_def sample_route_def sample_protected_route_def)
  from publication_keeps_every_host [OF sample_edge_carries run] show ?thesis
  proof (elim disjE exE conjE)
    assume "\<not> result_ok (AOk Succeeded v)"
    then show ?thesis by simp
  next
    fix r p creds c w1 w2
    assume "routeFor sample_edge sample_edge_ref [] = (Inr (Some r), w1)"
      and "policyFor sample_edge sample_edge_ref w1 = (Inr p, w2)"
      and sent: "w3 = [] @ [wire (edge_request sample_edge_ctx creds ''POST'' ''/edge/v1/routes'' (Some (ArtifactBody c)))]"
      and served: "ef_host ` set (ce_envoyRoutes c) = insert (er_host r) (policy_hosts p)"
    then have "er_host r = ''new.example.com''" "p = Some sample_input" by (auto simp: route policy)
    moreover have "map rq_body w3 = [Some (ArtifactBody c)]"
      by (simp add: sent wire_def edge_request_def)
    ultimately show ?thesis
      by (intro exI [of _ c] conjI) (simp_all only: run snd_conv served hosts)
  qed
qed


text \<open>
  The test for a stale version reads the whole reason: an outage whose message mentions a version
  is taken for a refusal of an older policy.
\<close>

lemma outage_reads_as_stale:
  "staleVersion ''POST https://edge.internal/edge/v1/policies returned 503: unsupported TLS version''"
  by code_simp

end
