(* ===== verification/Edge_Loaders.thy ===== *)
theory Edge_Loaders
  imports Edge_Adapter Policy_Job
begin

section \<open>packages/database/edge-loaders.ts and protection.ts: what an artifact is compiled from\<close>

text \<open>
  The expiry rules of the two protections, the edge configuration read from the environment, and the
  loaders the adapter resolves its references through.  The store is a port; \<open>edgeStore\<close> is the
  one of \<open>supabase-store.ts\<close> over its tables.  The posture cache the loaders close over is a
  component of the world they run in.
\<close>

subsection \<open>Protection\<close>

definition still_on :: "millis option \<Rightarrow> millis \<Rightarrow> bool" where
  "still_on expiresAt now = (case expiresAt of None \<Rightarrow> True | Some t \<Rightarrow> now < t)"

definition protectionIsActive :: "policy_row \<Rightarrow> millis \<Rightarrow> bool" where
  "protectionIsActive policy now =
     (if pl_protectionMode policy \<noteq> ''attack'' then False else still_on (pl_protectionExpiresAt policy) now)"

record protection_row =
  dp_organizationId :: string
  dp_projectId :: string
  dp_mode :: string
  dp_basicUser :: "string option"
  dp_allowedCidrs :: "string list"
  dp_protectionExpiresAt :: "millis option"
  dp_basicPasswordHash :: "string option"

definition deploymentProtectionIsActive :: "protection_row \<Rightarrow> millis \<Rightarrow> bool" where
  "deploymentProtectionIsActive p now =
     (if dp_mode p = ''none'' then False else still_on (dp_protectionExpiresAt p) now)"

definition compiledProtectionFor :: "protection_row option \<Rightarrow> string option \<Rightarrow> millis \<Rightarrow> protection" where
  "compiledProtectionFor p passwordHash now =
     (case p of
        None \<Rightarrow> open_posture
      | Some q \<Rightarrow>
          if \<not> deploymentProtectionIsActive q now then open_posture
          else if dp_mode q = ''ip''
          then \<lparr> pt_mode = ''ip'', pt_basicUser = None, pt_basicPasswordSha256 = None,
                 pt_allowedCidrs = Some (dp_allowedCidrs q) \<rparr>
          else if \<not> truthy passwordHash then open_posture
          else \<lparr> pt_mode = ''password'', pt_basicUser = Some (or_else (dp_basicUser q) []),
                 pt_basicPasswordSha256 = passwordHash, pt_allowedCidrs = None \<rparr>)"

subsection \<open>Configuration\<close>

record edge_env_config =
  ee_edgeUrl :: string
  ee_origin :: string
  ee_tokens :: "(string \<times> string) list"
  ee_botAllowList :: "verified_bot list"

fun parse_bots :: "string list \<Rightarrow> verified_bot list" where
  "parse_bots [] = []"
| "parse_bots (entry # entries) =
     (let trimmed = trim entry in
      if trimmed = [] then parse_bots entries
      else (case split_on (CHR '':'') trimmed of
          [name, userAgent, confirmSuffix] \<Rightarrow>
            (let b = \<lparr> vb_name = trim name, vb_userAgent = trim userAgent, vb_confirmSuffix = trim confirmSuffix \<rparr>
             in if validateVerifiedBot b = Valid then b # parse_bots entries else parse_bots entries)
        | _ \<Rightarrow> parse_bots entries))"

definition parseBotAllowList :: "string option \<Rightarrow> verified_bot list" where
  "parseBotAllowList raw = (if \<not> truthy raw then [] else parse_bots (split_on (CHR '';'') (the raw)))"

text \<open>\<open>/^SECURITY_EDGE_TOKEN__(.+)$/\<close>: the organization a token's variable names.\<close>

definition token_owner :: "string \<Rightarrow> string option" where
  "token_owner key =
     (let prefix = ''SECURITY_EDGE_TOKEN__''; owner = drop (length prefix) key in
      if take (length prefix) key = prefix \<and> owner \<noteq> [] \<and>
         list_all (\<lambda>c. code_unit c \<noteq> 10 \<and> code_unit c \<noteq> 13) owner
      then Some owner else None)"

definition edge_tokens :: "(string \<times> string) list \<Rightarrow> (string \<times> string) list" where
  "edge_tokens env = List.map_filter (\<lambda>(key, val).
     case token_owner key of
       None \<Rightarrow> None
     | Some owner \<Rightarrow> if trim val = [] then None else Some (owner, trim val)) env"

definition securityEdgeConfigFromEnv :: "(string \<times> string) list \<Rightarrow> edge_env_config option" where
  "securityEdgeConfigFromEnv env =
     (let edgeUrl = map_option trim (map_of env ''SECURITY_EDGE_URL'');
          origin = map_option trim (map_of env ''SECURITY_EDGE_ORIGIN'');
          tokens = edge_tokens env in
      if \<not> truthy edgeUrl \<or> \<not> truthy origin then None
      else if \<not> accepts_prefix PRIVATE_HOST (the origin) then None
      else if tokens = [] then None
      else Some \<lparr> ee_edgeUrl = the edgeUrl, ee_origin = the origin, ee_tokens = tokens,
             ee_botAllowList = parseBotAllowList (map_of env ''SECURITY_EDGE_BOT_ALLOWLIST'') \<rparr>)"

subsection \<open>The store port\<close>

record domain_row =
  dm_organizationId :: string
  dm_projectId :: "string option"
  dm_hostname :: string
  dm_verified :: bool
  dm_verifiedAt :: "millis option"

record rule_row =
  sr_organizationId :: string
  sr_kind :: deny_kind
  sr_value :: string
  sr_createdAt :: millis

record trusted_row =
  tr_organizationId :: string
  tr_kind :: string
  tr_value :: string
  tr_createdAt :: millis

record limit_row =
  lr_organizationId :: string
  lr_id :: string
  lr_key :: string
  lr_headerName :: "string option"
  lr_limit :: js_number
  lr_windowSeconds :: js_number
  lr_createdAt :: millis

record 'w edge_store =
  es_findDomainByHostname :: "string \<Rightarrow> string \<Rightarrow> ('w, domain_row option) io"
  es_getSecurityPolicy :: "string \<Rightarrow> ('w, policy_row option) io"
  es_listRoutableDomains :: "string \<Rightarrow> ('w, domain_row list) io"
  es_listSecurityRules :: "string \<Rightarrow> ('w, rule_row list) io"
  es_listTrustedSources :: "string \<Rightarrow> ('w, trusted_row list) io"
  es_listRateLimits :: "string \<Rightarrow> ('w, limit_row list) io"
  es_getDeploymentProtection :: "(string \<Rightarrow> string \<Rightarrow> ('w, protection_row option) io) option"
  es_getPasswordHash :: "(string \<Rightarrow> string \<Rightarrow> ('w, string option) io) option"
  es_now :: "'w \<Rightarrow> millis"

subsection \<open>The loaders\<close>

type_synonym posture_cache = "string \<Rightarrow> protection option option"

definition edge_routeFor :: "edge_env_config \<Rightarrow> string \<Rightarrow> string \<Rightarrow> protection option \<Rightarrow> edge_route" where
  "edge_routeFor config host organizationId posture =
     \<lparr> er_host = host, er_origin = ee_origin config, er_pathPrefix = ''/'',
       er_organizationId = organizationId, er_protection = posture \<rparr>"

definition read_posture ::
  "'w edge_store \<Rightarrow> (string \<Rightarrow> string \<Rightarrow> ('w, protection_row option) io) \<Rightarrow> string \<Rightarrow> string \<Rightarrow>
   ('w, protection option) io" where
  "read_posture store get organizationId projectId =
     io_bind (get organizationId projectId) (\<lambda>found.
     io_bind (case (found, es_getPasswordHash store) of
                (Some p, Some hashOf) \<Rightarrow>
                  if dp_mode p = ''password'' then hashOf organizationId projectId else io_return None
              | _ \<Rightarrow> io_return None) (\<lambda>hash.
     io_bind (io_get (es_now store)) (\<lambda>now.
       let compiled = compiledProtectionFor found hash now in
       io_return (if pt_mode compiled = ''none'' then None else Some compiled))))"

definition protectionForProject ::
  "'w edge_store \<Rightarrow> string \<Rightarrow> string option \<Rightarrow> ('w \<times> posture_cache, protection option) io" where
  "protectionForProject store organizationId projectId =
     (if \<not> truthy projectId then io_return None
      else let pid = the projectId in
        io_bind (io_get (\<lambda>(w, cache). cache pid)) (\<lambda>cached.
          case cached of
            Some (Some posture) \<Rightarrow> io_return (Some posture)
          | _ \<Rightarrow>
             (case es_getDeploymentProtection store of
                None \<Rightarrow> io_return None
              | Some get \<Rightarrow>
                  io_bind (on_fst (read_posture store get organizationId pid)) (\<lambda>answer.
                  io_then (on_snd (io_modify (\<lambda>cache. cache(pid \<mapsto> answer)))) (io_return answer)))))"

definition loadRoute ::
  "'w edge_store \<Rightarrow> edge_env_config \<Rightarrow> provider_ref \<Rightarrow> ('w \<times> posture_cache, edge_route option) io" where
  "loadRoute store config ref =
     io_bind (on_fst (es_findDomainByHostname store (ref_organizationId ref) (ref_resourceId ref))) (\<lambda>found.
       case found of
         None \<Rightarrow> io_return None
       | Some domain \<Rightarrow>
           if \<not> dm_verified domain then io_return None
           else io_bind (protectionForProject store (ref_organizationId ref) (dm_projectId domain)) (\<lambda>posture.
             io_return (Some (edge_routeFor config (dm_hostname domain) (ref_organizationId ref) posture))))"

fun map_domains ::
  "'w edge_store \<Rightarrow> edge_env_config \<Rightarrow> string \<Rightarrow> domain_row list \<Rightarrow>
   ('w \<times> posture_cache, edge_route list) io" where
  "map_domains store config organizationId [] = io_return []"
| "map_domains store config organizationId (domain # domains) =
     io_bind (protectionForProject store organizationId (dm_projectId domain)) (\<lambda>posture.
     io_bind (map_domains store config organizationId domains) (\<lambda>rest.
       io_return (edge_routeFor config (dm_hostname domain) organizationId posture # rest)))"

definition trusted_of :: "trusted_row list \<Rightarrow> trusted_source list" where
  "trusted_of = List.map_filter (\<lambda>row.
     if tr_kind row = ''ip'' then Some \<lparr> ts_kind = AddressIp, ts_value = tr_value row \<rparr>
     else if tr_kind row = ''cidr'' then Some \<lparr> ts_kind = AddressCidr, ts_value = tr_value row \<rparr>
     else None)"

definition limit_of :: "limit_row \<Rightarrow> rate_limit_rule" where
  "limit_of row = \<lparr> rl_id = lr_id row, rl_key = lr_key row,
     rl_headerName = (if lr_key row = ''header'' \<and> truthy (lr_headerName row) then lr_headerName row else None),
     rl_limit = lr_limit row, rl_windowSeconds = lr_windowSeconds row \<rparr>"

definition loadPolicy ::
  "'w edge_store \<Rightarrow> edge_env_config \<Rightarrow> provider_ref \<Rightarrow> ('w \<times> posture_cache, compile_input option) io" where
  "loadPolicy store config ref =
     (let org = ref_organizationId ref in
      io_bind (on_fst (es_getSecurityPolicy store org)) (\<lambda>found.
        case found of
          None \<Rightarrow> io_return None
        | Some policy \<Rightarrow>
            io_bind (on_fst (es_listRoutableDomains store org)) (\<lambda>routes.
              if routes = [] then io_return None
              else
                io_bind (on_fst (es_listSecurityRules store org)) (\<lambda>rules.
                io_bind (on_fst (es_listTrustedSources store org)) (\<lambda>trusted.
                io_bind (on_fst (es_listRateLimits store org)) (\<lambda>limits.
                io_bind (map_domains store config org routes) (\<lambda>mapped.
                io_bind (io_get (\<lambda>(w, cache). es_now store w)) (\<lambda>now.
                  io_return (Some
                    \<lparr> ci_route = hd mapped, ci_routes = Some (tl mapped),
                      ci_policy = Some \<lparr> ip_riskLevel = sp_riskLevel policy, ip_action = sp_action policy,
                        ip_version = sp_version policy \<rparr>,
                      ci_protection = Some (if protectionIsActive policy now then ''attack'' else ''normal''),
                      ci_botAllowList = (if ee_botAllowList config \<noteq> [] then Some (ee_botAllowList config) else None),
                      ci_denyList = Some (map (\<lambda>rule. \<lparr> dn_kind = sr_kind rule, dn_value = sr_value rule \<rparr>) rules),
                      ci_trustedSources = Some (trusted_of trusted),
                      ci_rateLimits = Some (map limit_of limits) \<rparr>)))))))))"

text \<open>\<open>buildDeploymentEngines\<close>: the edge of a configured deployment, \<open>None\<close> standing for the unconfigured one.\<close>

definition deploymentEdge ::
  "(string \<times> string) list \<Rightarrow> 'w edge_store \<Rightarrow> ('w \<times> posture_cache, edge_body) fetch \<Rightarrow>
   ('w \<times> posture_cache) edge_options option" where
  "deploymentEdge env store fetch =
     (case securityEdgeConfigFromEnv env of
        None \<Rightarrow> None
      | Some config \<Rightarrow> Some (createControlPlaneSecurityEdge (ee_edgeUrl config) (map_of (ee_tokens config))
          (loadRoute store config) (loadPolicy store config) fetch))"

end
