(* ===== verification/Edge_Store.thy ===== *)
theory Edge_Store
  imports Edge_Loaders
begin

section \<open>The edge loaders over the control-plane tables\<close>

text \<open>
  The reads of \<open>supabase-store.ts\<close> the loaders use, over their tables, and what a distribution
  through the wired adapter sends.
\<close>

record edge_tables =
  et_policies :: "policy_row list"
  et_domains :: "domain_row list"
  et_rules :: "rule_row list"
  et_trusted :: "trusted_row list"
  et_limits :: "limit_row list"
  et_protections :: "protection_row list"
  et_now :: millis

definition findDomainByHostname :: "string \<Rightarrow> string \<Rightarrow> edge_tables \<Rightarrow> domain_row option" where
  "findDomainByHostname org hostname t =
     List.find (\<lambda>d. dm_organizationId d = org \<and> dm_hostname d = hostname) (et_domains t)"

definition edge_policy_of :: "string \<Rightarrow> edge_tables \<Rightarrow> policy_row option" where
  "edge_policy_of org t = newest (filter (\<lambda>r. sp_organizationId r = org) (et_policies t))"

text \<open>Ordered by \<open>verified_at\<close>, the undated last.\<close>

definition listRoutableDomains :: "string \<Rightarrow> edge_tables \<Rightarrow> domain_row list" where
  "listRoutableDomains org t =
     (let ds = filter (\<lambda>d. dm_organizationId d = org \<and> dm_verified d) (et_domains t) in
      sort_key (\<lambda>d. the (dm_verifiedAt d)) (filter (\<lambda>d. dm_verifiedAt d \<noteq> None) ds) @
      filter (\<lambda>d. dm_verifiedAt d = None) ds)"

definition newest_200 :: "('r \<Rightarrow> millis) \<Rightarrow> 'r list \<Rightarrow> 'r list" where
  "newest_200 createdAt rows = take 200 (sort_key (\<lambda>r. - createdAt r) rows)"

definition protection_of :: "string \<Rightarrow> string \<Rightarrow> edge_tables \<Rightarrow> protection_row option" where
  "protection_of org projectId t =
     List.find (\<lambda>p. dp_organizationId p = org \<and> dp_projectId p = projectId) (et_protections t)"

definition password_hash_of :: "string \<Rightarrow> string \<Rightarrow> edge_tables \<Rightarrow> string option" where
  "password_hash_of org projectId t =
     (case protection_of org projectId t of None \<Rightarrow> None | Some p \<Rightarrow> dp_basicPasswordHash p)"

definition edgeStore :: "(edge_tables \<times> 'x) edge_store" where
  "edgeStore =
     \<lparr> es_findDomainByHostname = (\<lambda>org host. on_fst (io_get (findDomainByHostname org host))),
       es_getSecurityPolicy = (\<lambda>org. on_fst (io_get (edge_policy_of org))),
       es_listRoutableDomains = (\<lambda>org. on_fst (io_get (listRoutableDomains org))),
       es_listSecurityRules = (\<lambda>org. on_fst (io_get (\<lambda>t.
         newest_200 sr_createdAt (filter (\<lambda>r. sr_organizationId r = org) (et_rules t))))),
       es_listTrustedSources = (\<lambda>org. on_fst (io_get (\<lambda>t.
         newest_200 tr_createdAt (filter (\<lambda>r. tr_organizationId r = org) (et_trusted t))))),
       es_listRateLimits = (\<lambda>org. on_fst (io_get (\<lambda>t.
         newest_200 lr_createdAt (filter (\<lambda>r. lr_organizationId r = org) (et_limits t))))),
       es_getDeploymentProtection = Some (\<lambda>org pid. on_fst (io_get (protection_of org pid))),
       es_getPasswordHash = Some (\<lambda>org pid. on_fst (io_get (password_hash_of org pid))),
       es_now = (\<lambda>(t, x). et_now t) \<rparr>"

lemma edgeStore_reads:
  "es_getSecurityPolicy edgeStore org (t, x) = (Inr (edge_policy_of org t), (t, x))"
  "es_listRoutableDomains edgeStore org (t, x) = (Inr (listRoutableDomains org t), (t, x))"
  "es_listSecurityRules edgeStore org (t, x) =
     (Inr (newest_200 sr_createdAt (filter (\<lambda>r. sr_organizationId r = org) (et_rules t))), (t, x))"
  "es_listTrustedSources edgeStore org (t, x) =
     (Inr (newest_200 tr_createdAt (filter (\<lambda>r. tr_organizationId r = org) (et_trusted t))), (t, x))"
  "es_listRateLimits edgeStore org (t, x) =
     (Inr (newest_200 lr_createdAt (filter (\<lambda>r. lr_organizationId r = org) (et_limits t))), (t, x))"
  "es_now edgeStore (t, x) = et_now t"
  by (simp_all add: edgeStore_def io_get_apply on_fst_apply)

subsection \<open>Postures\<close>

definition posture_hash :: "edge_tables \<Rightarrow> string \<Rightarrow> string \<Rightarrow> string option" where
  "posture_hash t org projectId =
     (case protection_of org projectId t of
        Some p \<Rightarrow> if dp_mode p = ''password'' then dp_basicPasswordHash p else None
      | None \<Rightarrow> None)"

definition posture_of :: "edge_tables \<Rightarrow> string \<Rightarrow> string option \<Rightarrow> protection option" where
  "posture_of t org projectId =
     (if \<not> truthy projectId then None
      else let compiled = compiledProtectionFor (protection_of org (the projectId) t)
             (posture_hash t org (the projectId)) (et_now t) in
        if pt_mode compiled = ''none'' then None else Some compiled)"

text \<open>Every posture the cache holds is the one the tables give now.\<close>

definition cache_fresh :: "edge_tables \<Rightarrow> string \<Rightarrow> posture_cache \<Rightarrow> bool" where
  "cache_fresh t org cache \<longleftrightarrow>
     (\<forall>pid p. cache pid = Some (Some p) \<longrightarrow> posture_of t org (Some pid) = Some p)"

lemma read_posture_store:
  "pid \<noteq> [] \<Longrightarrow>
   read_posture edgeStore (\<lambda>org pid. on_fst (io_get (protection_of org pid))) org pid (t, x) =
     (Inr (posture_of t org (Some pid)), (t, x))"
  by (auto simp: read_posture_def edgeStore_def io_bind_apply io_get_apply on_fst_apply io_return_apply Let_def
      posture_of_def posture_hash_def compiledProtectionFor_def password_hash_of_def split: option.split)

lemma protectionForProject_store:
  obtains answer cache' where
    "protectionForProject edgeStore org pid ((t, x), cache) = (Inr answer, ((t, x), cache'))"
    "cache_fresh t org cache \<longrightarrow> answer = posture_of t org pid \<and> cache_fresh t org cache'"
proof (cases "truthy pid")
  case False
  with that show thesis by (simp add: protectionForProject_def io_return_apply posture_of_def)
next
  case True
  then obtain p where p: "pid = Some p" "p \<noteq> []" by (auto simp: truthy_iff)
  show thesis
  proof (cases "\<exists>posture. cache p = Some (Some posture)")
    case True
    then obtain posture where hit: "cache p = Some (Some posture)" by blast
    have "protectionForProject edgeStore org pid ((t, x), cache) = (Inr (Some posture), ((t, x), cache))"
      using p hit by (simp add: protectionForProject_def io_bind_apply io_get_apply io_return_apply)
    moreover have "cache_fresh t org cache \<Longrightarrow> Some posture = posture_of t org pid"
      using hit p by (simp add: cache_fresh_def)
    ultimately show thesis using that by blast
  next
    case False
    let ?answer = "posture_of t org pid"
    have "protectionForProject edgeStore org pid ((t, x), cache) = (Inr ?answer, ((t, x), cache(p \<mapsto> ?answer)))"
      using p False read_posture_store [OF p(2), of org t x]
      by (simp add: protectionForProject_def io_bind_apply io_get_apply io_return_apply io_then_apply
          io_modify_apply on_snd_apply on_fst_apply edgeStore_def split: option.split)
    moreover have "cache_fresh t org cache \<Longrightarrow> cache_fresh t org (cache(p \<mapsto> ?answer))"
      using p by (simp add: cache_fresh_def)
    ultimately show thesis using that by blast
  qed
qed


subsection \<open>What a distribution sends\<close>

definition routes_of ::
  "edge_env_config \<Rightarrow> string \<Rightarrow> domain_row list \<Rightarrow> protection option list \<Rightarrow> edge_route list" where
  "routes_of config org domains postures =
     map2 (\<lambda>d posture. edge_routeFor config (dm_hostname d) org posture) domains postures"

lemma map_domains_store:
  obtains postures cache' where
    "map_domains edgeStore config org domains ((t, x), cache) =
       (Inr (routes_of config org domains postures), ((t, x), cache'))"
    "length postures = length domains"
    "cache_fresh t org cache \<longrightarrow> postures = map (\<lambda>d. posture_of t org (dm_projectId d)) domains"
proof (induction domains arbitrary: cache thesis)
  case Nil
  show ?case by (rule Nil [of "[]" cache]) (simp_all add: io_return_apply routes_of_def)
next
  case (Cons d domains)
  obtain answer c1 where one: "protectionForProject edgeStore org (dm_projectId d) ((t, x), cache) =
      (Inr answer, ((t, x), c1))"
    "cache_fresh t org cache \<longrightarrow> answer = posture_of t org (dm_projectId d) \<and> cache_fresh t org c1"
    by (rule protectionForProject_store)
  obtain postures c2 where rest: "map_domains edgeStore config org domains ((t, x), c1) =
      (Inr (routes_of config org domains postures), ((t, x), c2))"
    "length postures = length domains"
    "cache_fresh t org c1 \<longrightarrow> postures = map (\<lambda>d. posture_of t org (dm_projectId d)) domains"
    using Cons.IH [of c1] by blast
  show ?case
    by (rule Cons.prems [of "answer # postures" c2])
      (use one rest in \<open>simp_all add: io_bind_apply io_return_apply routes_of_def\<close>)
qed

lemma set_listRoutable:
  "set (listRoutableDomains org t) = {d \<in> set (et_domains t). dm_organizationId d = org \<and> dm_verified d}"
  by (auto simp: listRoutableDomains_def Let_def)

definition attack_label :: "bool \<Rightarrow> string" where
  "attack_label on = (if on then ''attack'' else ''normal'')"

text \<open>What the loader answers over the tables.\<close>

lemma loadPolicy_store:
  obtains input cache' where
    "loadPolicy edgeStore config ref ((t, x), cache) = (Inr input, ((t, x), cache'))"
    "input = None \<longleftrightarrow> edge_policy_of (ref_organizationId ref) t = None \<or>
       listRoutableDomains (ref_organizationId ref) t = []"
    "\<And>i. input = Some i \<Longrightarrow> \<exists>policy postures. edge_policy_of (ref_organizationId ref) t = Some policy \<and>
       ci_policy i = Some \<lparr> ip_riskLevel = sp_riskLevel policy, ip_action = sp_action policy,
         ip_version = sp_version policy \<rparr> \<and>
       ci_protection i = Some (attack_label (protectionIsActive policy (et_now t))) \<and>
       length postures = length (listRoutableDomains (ref_organizationId ref) t) \<and>
       ci_route i # or_else (ci_routes i) [] =
         routes_of config (ref_organizationId ref) (listRoutableDomains (ref_organizationId ref) t) postures \<and>
       (cache_fresh t (ref_organizationId ref) cache \<longrightarrow>
         postures = map (\<lambda>d. posture_of t (ref_organizationId ref) (dm_projectId d))
           (listRoutableDomains (ref_organizationId ref) t))"
proof -
  let ?org = "ref_organizationId ref" and ?ds = "listRoutableDomains (ref_organizationId ref) t"
  show thesis
  proof (cases "edge_policy_of ?org t = None \<or> ?ds = []")
    case True
    then have "loadPolicy edgeStore config ref ((t, x), cache) = (Inr None, ((t, x), cache))"
      by (auto simp: loadPolicy_def edgeStore_reads io_bind_apply on_fst_apply io_return_apply Let_def
          split: option.split)
    with True show thesis by (intro that) auto
  next
    case False
    then obtain policy where policy: "edge_policy_of ?org t = Some policy" "?ds \<noteq> []" by auto
    obtain postures cache' where mapped: "map_domains edgeStore config ?org ?ds ((t, x), cache) =
        (Inr (routes_of config ?org ?ds postures), ((t, x), cache'))" "length postures = length ?ds"
      "cache_fresh t ?org cache \<longrightarrow> postures = map (\<lambda>d. posture_of t ?org (dm_projectId d)) ?ds"
      by (rule map_domains_store)
    have "routes_of config ?org ?ds postures \<noteq> []"
      using policy(2) mapped(2) by (cases ?ds; cases postures) (auto simp: routes_of_def)
    moreover obtain i where "loadPolicy edgeStore config ref ((t, x), cache) = (Inr (Some i), ((t, x), cache'))"
      "ci_route i = hd (routes_of config ?org ?ds postures)"
      "ci_routes i = Some (tl (routes_of config ?org ?ds postures))"
      "ci_policy i = Some \<lparr> ip_riskLevel = sp_riskLevel policy, ip_action = sp_action policy,
         ip_version = sp_version policy \<rparr>"
      "ci_protection i = Some (attack_label (protectionIsActive policy (et_now t)))"
    proof
      let ?i = "\<lparr> ci_route = hd (routes_of config ?org ?ds postures),
        ci_routes = Some (tl (routes_of config ?org ?ds postures)),
        ci_policy = Some \<lparr> ip_riskLevel = sp_riskLevel policy, ip_action = sp_action policy,
          ip_version = sp_version policy \<rparr>,
        ci_protection = Some (attack_label (protectionIsActive policy (et_now t))),
        ci_botAllowList = (if ee_botAllowList config \<noteq> [] then Some (ee_botAllowList config) else None),
        ci_denyList = Some (map (\<lambda>rule. \<lparr> dn_kind = sr_kind rule, dn_value = sr_value rule \<rparr>)
          (newest_200 sr_createdAt (filter (\<lambda>r. sr_organizationId r = ?org) (et_rules t)))),
        ci_trustedSources = Some (trusted_of
          (newest_200 tr_createdAt (filter (\<lambda>r. tr_organizationId r = ?org) (et_trusted t)))),
        ci_rateLimits = Some (map limit_of
          (newest_200 lr_createdAt (filter (\<lambda>r. lr_organizationId r = ?org) (et_limits t)))) \<rparr>"
      show "loadPolicy edgeStore config ref ((t, x), cache) = (Inr (Some ?i), ((t, x), cache'))"
        using policy mapped(1)
        by (simp add: loadPolicy_def io_bind_apply io_get_apply on_fst_apply io_return_apply Let_def
            edgeStore_reads attack_label_def)
    qed simp_all
    ultimately show thesis using policy mapped(2,3) by (intro that) auto
  qed
qed

lemma loadRoute_store:
  obtains r cache' where "loadRoute edgeStore config ref ((t, x), cache) = (Inr r, ((t, x), cache'))"
proof -
  have find_run: "es_findDomainByHostname edgeStore org host (t, x) = (Inr (findDomainByHostname org host t), (t, x))"
    for org host by (simp add: edgeStore_def io_get_apply on_fst_apply)
  obtain answer cache' where "protectionForProject edgeStore (ref_organizationId ref)
      (dm_projectId (the (findDomainByHostname (ref_organizationId ref) (ref_resourceId ref) t))) ((t, x), cache) =
      (Inr answer, ((t, x), cache'))"
    by (rule protectionForProject_store)
  with find_run have "\<exists>r cache'. loadRoute edgeStore config ref ((t, x), cache) = (Inr r, ((t, x), cache'))"
    by (cases "findDomainByHostname (ref_organizationId ref) (ref_resourceId ref) t")
      (auto simp: loadRoute_def io_bind_apply on_fst_apply io_return_apply)
  with that show thesis by blast
qed

text \<open>The network of a process, beside the tables and the cache; \<open>journal\<close> reads its requests.\<close>

definition edge_net :: "('x, edge_body) fetch \<Rightarrow> ((edge_tables \<times> 'x) \<times> posture_cache, edge_body) fetch" where
  "edge_net net req = on_fst (on_snd (net req))"

definition sent_by :: "('x \<Rightarrow> edge_body engine_request list) \<Rightarrow> (edge_tables \<times> 'x) \<times> posture_cache \<Rightarrow>
    edge_body engine_request list" where
  "sent_by journal w = journal (snd (fst w))"

definition journals :: "('x \<Rightarrow> edge_body engine_request list) \<Rightarrow> ('x, edge_body) fetch \<Rightarrow> bool" where
  "journals journal net \<longleftrightarrow> (\<forall>req x. journal (snd (net req x)) = journal x @ [req])"

lemma deploymentEdge_policyFor:
  assumes "deploymentEdge env edgeStore fetch = Some options"
  obtains config where "securityEdgeConfigFromEnv env = Some config"
    and "policyFor options = loadPolicy edgeStore config" and "routeFor options = loadRoute edgeStore config"
    and "eo_fetch options = fetch"
  using assms
  by (fastforce simp: deploymentEdge_def createControlPlaneSecurityEdge_def Let_def policyFor_def routeFor_def fun_eq_iff
      split: option.splits)

lemma deploymentEdge_carries:
  assumes "deploymentEdge env edgeStore (edge_net net) = Some options" "journals journal net"
  shows "carries (sent_by journal) options"
proof -
  obtain config where o: "policyFor options = loadPolicy edgeStore config"
    "routeFor options = loadRoute edgeStore config" "eo_fetch options = edge_net net"
    by (rule deploymentEdge_policyFor [OF assms(1)])
  have "sent_by journal (snd (edge_net net req w)) = sent_by journal w @ [req]" for req w
  proof -
    obtain t x cache where w: "w = ((t, x), cache)" by (metis prod.collapse)
    obtain a x' where "net req x = (a, x')" by (metis prod.collapse)
    with assms(2) w show ?thesis
      by (auto simp: sent_by_def edge_net_def on_fst_apply on_snd_apply journals_def)
        (metis snd_conv)
  qed
  moreover have "sent_by journal (snd (loadRoute edgeStore config ref w)) = sent_by journal w" for ref w
  proof -
    obtain t x cache where w: "w = ((t, x), cache)" by (metis prod.collapse)
    obtain r cache' where "loadRoute edgeStore config ref ((t, x), cache) = (Inr r, ((t, x), cache'))"
      by (rule loadRoute_store)
    with w show ?thesis by (simp add: sent_by_def)
  qed
  moreover have "sent_by journal (snd (loadPolicy edgeStore config ref w)) = sent_by journal w" for ref w
  proof -
    obtain t x cache where w: "w = ((t, x), cache)" by (metis prod.collapse)
    obtain r cache' where "loadPolicy edgeStore config ref ((t, x), cache) = (Inr r, ((t, x), cache'))"
      by (rule loadPolicy_store)
    with w show ?thesis by (simp add: sent_by_def)
  qed
  ultimately show ?thesis by (simp add: carries_def o)
qed

lemma config_is_private:
  "securityEdgeConfigFromEnv env = Some config \<Longrightarrow> accepts_prefix PRIVATE_HOST (ee_origin config)"
  by (auto simp: securityEdgeConfigFromEnv_def Let_def split: if_splits)

lemma served_fragment:
  "f \<in> set (ce_envoyRoutes (compileEdge i)) \<Longrightarrow>
     \<exists>r \<in> set (ci_route i # or_else (ci_routes i) []). f = fragment i r"
  using unseen_hosts_sub [of "{}" "ci_route i # or_else (ci_routes i) []"]
  by (auto simp: compileEdge_def Let_def fragments_def)

text \<open>The fragment a verified domain of the organization is owed.\<close>

definition owed :: "edge_tables \<Rightarrow> edge_env_config \<Rightarrow> policy_row \<Rightarrow> string \<Rightarrow> envoy_fragment \<Rightarrow> domain_row \<Rightarrow> bool" where
  "owed t config policy org f d \<longleftrightarrow>
     dm_hostname d = ef_host f \<and> ef_privateOrigin f = ee_origin config \<and>
     accepts PATH_PATTERN (ef_pathPrefix f) \<and> ef_wafEnabled f \<and>
     (ef_challengeBrowsers f \<longleftrightarrow> protectionIsActive policy (et_now t)) \<and>
     ef_protection f = protectionInput (posture_of t org (dm_projectId d))"


text \<open>
  The cache outlives the row: once a project's posture has been compiled, the loader answers with it
  whatever the tables hold afterwards, for as long as the loader lives.
\<close>

theorem posture_cache_outlives_the_row:
  assumes "protectionForProject edgeStore org (Some pid) ((t, x), cache) = (Inr (Some posture), ((t, x), cache'))"
  shows "protectionForProject edgeStore org (Some pid) ((later, y), cache') = (Inr (Some posture), ((later, y), cache'))"
proof -
  have "cache' pid = Some (Some posture)" "pid \<noteq> []"
    using assms read_posture_store [of pid org t x]
    by (auto simp: protectionForProject_def io_bind_apply io_get_apply io_return_apply io_then_apply
        io_modify_apply on_snd_apply on_fst_apply Let_def split: option.splits if_splits prod.splits sum.splits)
  then show ?thesis
    by (simp add: protectionForProject_def io_bind_apply io_get_apply io_return_apply)
qed

subsection \<open>A concrete distribution\<close>

definition sample_env :: "(string \<times> string) list" where
  "sample_env = [(''SECURITY_EDGE_URL'', ''https://edge.internal''), (''SECURITY_EDGE_ORIGIN'', ''10.0.0.7:8080''),
     (''SECURITY_EDGE_TOKEN__o'', ''token'')]"

definition sample_tables :: edge_tables where
  "sample_tables = \<lparr> et_policies = [sample_policy_row],
     et_domains = [\<lparr> dm_organizationId = ''o'', dm_projectId = None, dm_hostname = ''app.example.com'',
       dm_verified = True, dm_verifiedAt = Some 5 \<rparr>],
     et_rules = [], et_trusted = [], et_limits = [], et_protections = [], et_now = 9 \<rparr>"

definition sample_net :: "(edge_body engine_request list, edge_body) fetch" where
  "sample_net req x = (Inr \<lparr> ha_status = 200, ha_body = None \<rparr>, x @ [req])"

definition sample_distribution_ref :: provider_ref where
  "sample_distribution_ref = \<lparr> ref_organizationId = ''o'', ref_provider = ''coraza'', ref_resourceType = ''policy'',
     ref_resourceId = ''pol'' \<rparr>"

definition sample_config :: edge_env_config where
  "sample_config = \<lparr> ee_edgeUrl = ''https://edge.internal'', ee_origin = ''10.0.0.7:8080'',
     ee_tokens = [(''o'', ''token'')], ee_botAllowList = [] \<rparr>"

lemma sample_env_config: "securityEdgeConfigFromEnv sample_env = Some sample_config"
  by code_simp

definition sample_options where
  "sample_options = createControlPlaneSecurityEdge (ee_edgeUrl sample_config) (map_of (ee_tokens sample_config))
     (loadRoute edgeStore sample_config) (loadPolicy edgeStore sample_config) (edge_net sample_net)"

lemma sample_wired: "deploymentEdge sample_env edgeStore (edge_net sample_net) = Some sample_options"
  by (simp add: deploymentEdge_def sample_env_config sample_options_def)

lemma sample_journals: "journals (\<lambda>x. x) sample_net"
  by (simp add: journals_def sample_net_def)

lemma sample_fresh: "cache_fresh sample_tables (ref_organizationId sample_distribution_ref) (\<lambda>_. None)"
  by (simp add: cache_fresh_def)

lemma sample_credentials: "credentialsFor sample_options sample_edge_ctx = Some (''https://edge.internal'', ''token'')"
  by (simp add: credentialsFor_def sample_options_def createControlPlaneSecurityEdge_def Let_def sample_config_def
      sample_edge_ctx_def trim_def js_space_def)

lemma sample_call:
  "\<exists>w'. edge_call sample_options ctx creds verb path body ((t, x), cache) =
     (Inr (AOk Succeeded \<lparr> rs_statusCode = 200, rs_value = None \<rparr>), w')"
proof -
  have "eo_fetch sample_options = edge_net sample_net" "eo_classify sample_options = None"
    by (simp_all add: sample_options_def createControlPlaneSecurityEdge_def Let_def)
  then show ?thesis
    by (simp add: edge_call_def request_def io_catch_apply io_bind_apply io_return_apply Let_def defaultClassify_def
        edge_net_def on_fst_apply on_snd_apply sample_net_def)
qed


definition sample_protected_tables :: edge_tables where
  "sample_protected_tables = sample_tables\<lparr> et_protections := [\<lparr> dp_organizationId = ''o'', dp_projectId = ''p'',
     dp_mode = ''ip'', dp_basicUser = None, dp_allowedCidrs = [''198.51.100.0/24''],
     dp_protectionExpiresAt = Some 20, dp_basicPasswordHash = None \<rparr>] \<rparr>"

text \<open>After the row is gone and its expiry has passed the tables give no posture, and the loader still one.\<close>

theorem posture_cache_outlives_the_row_witness:
  "posture_of (sample_tables\<lparr> et_now := 30 \<rparr>) ''o'' (Some ''p'') = None \<and>
   (\<exists>posture cache. fst (protectionForProject edgeStore ''o'' (Some ''p'')
      ((sample_tables\<lparr> et_now := 30 \<rparr>, ()), cache)) = Inr (Some posture) \<and> pt_mode posture = ''ip'')"
proof -
  have now: "posture_of (sample_tables\<lparr> et_now := 30 \<rparr>) ''o'' (Some ''p'') = None" by code_simp
  obtain posture where posture: "posture_of sample_protected_tables ''o'' (Some ''p'') = Some posture"
    "pt_mode posture = ''ip''"
  proof
    show "posture_of sample_protected_tables ''o'' (Some ''p'') = Some \<lparr> pt_mode = ''ip'', pt_basicUser = None,
        pt_basicPasswordSha256 = None, pt_allowedCidrs = Some [''198.51.100.0/24''] \<rparr>"
      by code_simp
  qed simp
  have fresh: "cache_fresh sample_protected_tables ''o'' (\<lambda>_. None)" by (simp add: cache_fresh_def)
  obtain answer cache' where run: "protectionForProject edgeStore ''o'' (Some ''p'')
      ((sample_protected_tables, ()), \<lambda>_. None) = (Inr answer, ((sample_protected_tables, ()), cache'))"
    "cache_fresh sample_protected_tables ''o'' (\<lambda>_. None) \<longrightarrow>
       answer = posture_of sample_protected_tables ''o'' (Some ''p'') \<and> cache_fresh sample_protected_tables ''o'' cache'"
    by (rule protectionForProject_store)
  with fresh posture have "protectionForProject edgeStore ''o'' (Some ''p'')
      ((sample_protected_tables, ()), \<lambda>_. None) = (Inr (Some posture), ((sample_protected_tables, ()), cache'))"
    by simp
  from posture_cache_outlives_the_row [OF this, of "sample_tables\<lparr> et_now := 30 \<rparr>" "()"] posture(2) now
  show ?thesis by (metis fst_conv)
qed

end
