(* ===== verification/Calendar.thy ===== *)
theory Calendar
  imports Prelude
begin

section \<open>The calendar of a \<open>Date\<close>\<close>

text \<open>
  \<open>getUTCFullYear\<close>, \<open>getUTCMonth\<close> and \<open>Date.UTC\<close> of the language, on milliseconds since the epoch:
  the proleptic Gregorian calendar.  The lemmas show that the year and the month of a day are the ones
  whose first days enclose it.
\<close>

definition day_of :: "millis \<Rightarrow> int" where
  "day_of t = t div 86400000"

definition leap :: "int \<Rightarrow> bool" where
  "leap y \<longleftrightarrow> y mod 4 = 0 \<and> (y mod 100 \<noteq> 0 \<or> y mod 400 = 0)"

definition day_from_year :: "int \<Rightarrow> int" where
  "day_from_year y = 365 * (y - 1970) + (y - 1969) div 4 - (y - 1901) div 100 + (y - 1601) div 400"

definition year_of_day :: "int \<Rightarrow> int" where
  "year_of_day d =
     (let e = 1970 + (400 * d) div 146097
      in if d < day_from_year e then e - 1
         else if day_from_year (e + 1) \<le> d then e + 1 else e)"

text \<open>The first day of each month within its year.\<close>

definition month_starts :: "bool \<Rightarrow> int list" where
  "month_starts l =
     (let b = (if l then 1 else 0)
      in [0, 31, 59 + b, 90 + b, 120 + b, 151 + b, 181 + b, 212 + b, 243 + b, 273 + b, 304 + b, 334 + b,
          365 + b])"

definition month_of :: "bool \<Rightarrow> int \<Rightarrow> nat" where
  "month_of l dayInYear = length (filter (\<lambda>s. s \<le> dayInYear) (month_starts l)) - 1"

definition date_UTC :: "int \<Rightarrow> nat \<Rightarrow> millis" where
  "date_UTC year month = 86400000 * (day_from_year year + month_starts (leap year) ! month)"

definition getUTCFullYear :: "millis \<Rightarrow> int" where
  "getUTCFullYear t = year_of_day (day_of t)"

definition getUTCMonth :: "millis \<Rightarrow> nat" where
  "getUTCMonth t =
     (let y = getUTCFullYear t in month_of (leap y) (day_of t - day_from_year y))"

subsection \<open>Years\<close>

lemma div_step:
  fixes a n :: int
  assumes "0 < n"
  shows "(a + 1) div n - a div n = (if (a + 1) mod n = 0 then 1 else 0)"
proof (cases "(a + 1) mod n = 0")
  case True
  then obtain k where k: "a + 1 = n * k" by (auto simp: mod_eq_0_iff_dvd)
  then have "a = n * (k - 1) + (n - 1)" by (simp add: algebra_simps)
  with assms have "a div n = k - 1" by (metis div_mult_self4 div_pos_pos_trivial add.commute
    add.right_neutral diff_ge_0_iff_ge int_one_le_iff_zero_less less_diff_eq less_irrefl zle_diff1_eq
    div_mult_self2 less_add_one add_diff_cancel_right' not_less)
  with True k assms show ?thesis by simp
next
  case False
  define r where "r = (a + 1) mod n"
  have r: "0 < r" "r < n"
    using False pos_mod_sign [OF assms, of "a + 1"] pos_mod_bound [OF assms, of "a + 1"]
    unfolding r_def by linarith+
  have "a + 1 = n * ((a + 1) div n) + r" by (simp add: r_def)
  then have "a = (r - 1) + n * ((a + 1) div n)" by linarith
  then have "a div n = ((r - 1) + n * ((a + 1) div n)) div n" by simp
  also have "\<dots> = (a + 1) div n" using r assms by (simp add: div_pos_pos_trivial)
  finally show ?thesis using False by simp
qed

lemma mod_shift:
  fixes y n :: int
  shows "(y - n * k) mod n = 0 \<longleftrightarrow> y mod n = 0"
  by (simp add: mod_eq_0_iff_dvd dvd_diff_left_iff)

lemma regroup:
  fixes k a b c a' b' c' :: int
  shows "365 * (k + 1) + a - b + c - (365 * k + a' - b' + c') = 365 + (a - a') - (b - b') + (c - c')"
  by simp

lemma leap_sum:
  assumes "c400 \<Longrightarrow> c100" "c100 \<Longrightarrow> c4"
  shows "365 + (if c4 then 1 else 0) - (if c100 then 1 else 0) + (if c400 then 1 else 0) =
         365 + (if c4 \<and> (\<not> c100 \<or> c400) then 1 else (0 :: int))"
  using assms by (cases c4; cases c100; cases c400) simp_all

lemma day_from_year_step: "day_from_year (y + 1) = day_from_year y + 365 + (if leap y then 1 else 0)"
proof -
  have 4: "(y - 1968) div 4 - (y - 1969) div 4 = (if y mod 4 = 0 then 1 else 0)"
    using div_step [of 4 "y - 1969"] mod_shift [of y 4 492] by simp
  have 100: "(y - 1900) div 100 - (y - 1901) div 100 = (if y mod 100 = 0 then 1 else 0)"
    using div_step [of 100 "y - 1901"] mod_shift [of y 100 19] by simp
  have 400: "(y - 1600) div 400 - (y - 1601) div 400 = (if y mod 400 = 0 then 1 else 0)"
    using div_step [of 400 "y - 1601"] mod_shift [of y 400 4] by simp
  have "(100 :: int) dvd 400" "(4 :: int) dvd 100" by simp_all
  then have sub: "y mod 400 = 0 \<Longrightarrow> y mod 100 = 0" "y mod 100 = 0 \<Longrightarrow> y mod 4 = 0"
    unfolding mod_eq_0_iff_dvd using dvd_trans by blast+
  have "day_from_year (y + 1) - day_from_year y = 365 + (if y mod 4 = 0 then 1 else 0)
      - (if y mod 100 = 0 then 1 else 0) + (if y mod 400 = 0 then 1 else 0)"
  proof -
    have e: "y + 1 - 1970 = y - 1970 + 1" "y + 1 - 1969 = y - 1968" "y + 1 - 1901 = y - 1900"
      "y + 1 - 1601 = y - 1600"
      by simp_all
    have "day_from_year (y + 1) = 365 * (y - 1970 + 1) + (y - 1968) div 4 - (y - 1900) div 100
        + (y - 1600) div 400"
      unfolding day_from_year_def e ..
    then show ?thesis
      unfolding day_from_year_def [of y] 4 [symmetric] 100 [symmetric] 400 [symmetric]
      by (simp only: regroup)
  qed
  moreover have "\<dots> = 365 + (if leap y then 1 else 0)"
    unfolding leap_def by (rule leap_sum [OF sub])
  ultimately show ?thesis by linarith
qed

lemma day_from_year_mono: "y \<le> z \<Longrightarrow> day_from_year y \<le> day_from_year z"
proof (induction "nat (z - y)" arbitrary: z)
  case (Suc n)
  then have "day_from_year y \<le> day_from_year (z - 1)" by simp
  also have "\<dots> \<le> day_from_year z" using day_from_year_step [of "z - 1"] by simp
  finally show ?case .
qed simp

lemma day_from_year_near:
  "146097 * (y - 1970) - 506 \<le> 400 * day_from_year y"
  "400 * day_from_year y \<le> 146097 * (y - 1970) + 589"
proof -
  define a b c where "a = (y - 1969) div 4" and "b = (y - 1901) div 100" and "c = (y - 1601) div 400"
  have "4 * a \<le> y - 1969" "y - 1969 \<le> 4 * a + 3" "100 * b \<le> y - 1901" "y - 1901 \<le> 100 * b + 99"
    "400 * c \<le> y - 1601" "y - 1601 \<le> 400 * c + 399"
    unfolding a_def b_def c_def by linarith+
  then have "100 * (y - 1969) - 300 - 4 * (y - 1901) + (y - 1601) - 399 \<le> 400 * a - 400 * b + 400 * c"
    "400 * a - 400 * b + 400 * c \<le> 100 * (y - 1969) - 4 * (y - 1901) + 396 + (y - 1601)"
    by simp_all
  then show "146097 * (y - 1970) - 506 \<le> 400 * day_from_year y"
    "400 * day_from_year y \<le> 146097 * (y - 1970) + 589"
    by (simp_all add: day_from_year_def a_def [symmetric] b_def [symmetric] c_def [symmetric] algebra_simps)
qed

lemma year_encloses: "day_from_year (year_of_day d) \<le> d" "d < day_from_year (year_of_day d + 1)"
proof -
  define q where "q = (400 * d) div 146097"
  have q: "146097 * q \<le> 400 * d" "400 * d < 146097 * q + 146097"
    unfolding q_def by linarith+
  have "400 * day_from_year (1970 + q - 1) \<le> 146097 * (q - 1) + 589"
    using day_from_year_near(2) [of "1970 + q - 1"] by (simp add: algebra_simps)
  also have "\<dots> = 146097 * q - 145508" by simp
  also have "\<dots> \<le> 400 * d" using q(1) by simp
  finally have low: "day_from_year (1970 + q - 1) \<le> d" by simp
  have "400 * d < 146097 * q + 291688" using q(2) by simp
  also have "\<dots> = 146097 * (q + 2) - 506" by simp
  also have "\<dots> \<le> 400 * day_from_year (1970 + q + 2)"
    using day_from_year_near(1) [of "1970 + q + 2"] by (simp add: algebra_simps)
  finally have high: "d < day_from_year (1970 + q + 2)" by simp
  show "day_from_year (year_of_day d) \<le> d" "d < day_from_year (year_of_day d + 1)"
    using low high unfolding year_of_day_def Let_def q_def [symmetric]
    by (auto simp: add.assoc [symmetric] not_less add.commute)
qed

lemma year_unique: "day_from_year y \<le> d \<Longrightarrow> d < day_from_year (y + 1) \<Longrightarrow> year_of_day d = y"
proof -
  assume y: "day_from_year y \<le> d" "d < day_from_year (y + 1)"
  have "\<not> year_of_day d < y"
    using day_from_year_mono [of "year_of_day d + 1" y] year_encloses(2) [of d] y by linarith
  moreover have "\<not> y < year_of_day d"
    using day_from_year_mono [of "y + 1" "year_of_day d"] year_encloses(1) [of d] y by linarith
  ultimately show ?thesis by simp
qed

subsection \<open>Months\<close>

lemma month_encloses:
  assumes "0 \<le> k" "k < 365 + (if l then 1 else 0)"
  shows "month_of l k < 12" "month_starts l ! month_of l k \<le> k" "k < month_starts l ! Suc (month_of l k)"
  using assms by (cases l; simp add: month_of_def month_starts_def Let_def numeral_eq_Suc split: if_splits)+

lemma month_cases: "m < 12 \<Longrightarrow> m \<in> {0, 1, 2, 3, 4, 5, 6, 7, 8, 9, 10, 11 :: nat}"
  by (simp add: numeral_eq_Suc less_Suc_eq)

lemma month_of_start: "m < 12 \<Longrightarrow> month_of l (month_starts l ! m) = m"
  by (cases l; drule month_cases) (auto simp: month_of_def month_starts_def Let_def)

lemma month_starts_bounds:
  "m < 12 \<Longrightarrow> 0 \<le> month_starts l ! m \<and> month_starts l ! m < 365 + (if l then 1 else 0)"
  by (cases l; drule month_cases) (auto simp: month_starts_def Let_def)

text \<open>The first instant of the month of an instant, and of the month after it.\<close>

definition month_begins :: "millis \<Rightarrow> millis" where
  "month_begins t = date_UTC (getUTCFullYear t) (getUTCMonth t)"

definition month_ends :: "millis \<Rightarrow> millis" where
  "month_ends t = date_UTC (getUTCFullYear t) (Suc (getUTCMonth t))"

lemma month_encloses_instant: "month_begins t \<le> t" "t < month_ends t" "getUTCMonth t < 12"
proof -
  let ?y = "getUTCFullYear t"
  let ?k = "day_of t - day_from_year ?y"
  have "0 \<le> ?k" "?k < 365 + (if leap ?y then 1 else 0)"
    using year_encloses [of "day_of t"] day_from_year_step [of ?y] by (simp_all add: getUTCFullYear_def)
  from month_encloses [OF this]
  have m: "getUTCMonth t < 12" "month_starts (leap ?y) ! getUTCMonth t \<le> ?k"
    "?k < month_starts (leap ?y) ! Suc (getUTCMonth t)"
    by (simp_all add: getUTCMonth_def Let_def)
  have "86400000 * day_of t \<le> t" "t < 86400000 * day_of t + 86400000"
    unfolding day_of_def by linarith+
  with m show "month_begins t \<le> t" "t < month_ends t"
    by (simp_all add: month_begins_def month_ends_def date_UTC_def algebra_simps)
  show "getUTCMonth t < 12" by (fact m)
qed

lemma month_begins_fields:
  "getUTCFullYear (month_begins t) = getUTCFullYear t \<and> getUTCMonth (month_begins t) = getUTCMonth t"
proof -
  let ?y = "getUTCFullYear t" and ?m = "getUTCMonth t"
  have b: "0 \<le> month_starts (leap ?y) ! ?m" "month_starts (leap ?y) ! ?m < 365 + (if leap ?y then 1 else 0)"
    using month_starts_bounds [OF month_encloses_instant(3)] by blast+
  have day: "day_of (month_begins t) = day_from_year ?y + month_starts (leap ?y) ! ?m"
    by (simp add: day_of_def month_begins_def date_UTC_def)
  have "year_of_day (day_of (month_begins t)) = ?y"
    by (rule year_unique) (use b day day_from_year_step [of ?y] in simp_all)
  then have y: "getUTCFullYear (month_begins t) = ?y" by (simp add: getUTCFullYear_def)
  moreover have "getUTCMonth (month_begins t) = ?m"
    using month_of_start [OF month_encloses_instant(3), of "leap ?y" t]
    by (simp add: getUTCMonth_def [of "month_begins t"] Let_def y day)
  ultimately show ?thesis ..
qed

lemma month_begins_idem [simp]: "month_begins (month_begins t) = month_begins t"
  using month_begins_fields [of t] by (subst month_begins_def) (simp, simp add: month_begins_def)

end
