(* ===== verification/Billing.thy ===== *)
theory Billing
  imports Http_Client Calendar Control_Plane Request_Context
begin

section \<open>apps/api/procedures/billing.ts: usage, budgets and the hard cap\<close>

text \<open>
  The billing procedures over the store they are given: a record of effectful operations, the
  optional ones options.  The store records of the procedures extend one another, because the code
  passes one store object to all of them.  A timestamp the code renders with \<open>toISOString\<close> is its
  milliseconds.
\<close>

subsection \<open>The store\<close>

record audit_entry =
  ad_organizationId :: string
  ad_actorId :: "string option"
  ad_actorEmail :: "string option"
  ad_event :: string
  ad_targetType :: "string option"
  ad_targetId :: "string option"
  ad_metadata :: "(string \<times> json) list"

record audit_row = audit_entry +
  ad_createdAt :: millis

record budget =
  bg_organizationId :: string
  bg_metric :: string
  bg_limitQuantity :: js_number
  bg_hardCap :: bool
  bg_updatedBy :: "string option"

record 'w audit_store =
  as_recordAuditEvent :: "audit_entry \<Rightarrow> ('w, failure, unit) eio"

record 'w billing_store = "'w audit_store" +
  bs_listUsageRecords :: "string \<Rightarrow> string \<Rightarrow> ('w, failure, usage_row list) eio"
  bs_listUsageForService :: "(string \<Rightarrow> string \<Rightarrow> millis \<Rightarrow> ('w, failure, usage_row list) eio) option"
  bs_listBudgets :: "(string \<Rightarrow> string \<Rightarrow> ('w, failure, budget list) eio) option"
  bs_getBudgetForService :: "(string \<Rightarrow> string \<Rightarrow> ('w, failure, budget option) eio) option"
  bs_saveBudget :: "(budget \<Rightarrow> ('w, failure, budget) eio) option"
  bs_deleteBudget :: "(string \<Rightarrow> string \<Rightarrow> string \<Rightarrow> ('w, failure, bool) eio) option"

text \<open>A guard that throws, as a step of a procedure.\<close>

definition check_that :: "failure + 'a \<Rightarrow> ('w, failure, 'a) eio" where
  "check_that r = (case r of Inl e \<Rightarrow> io_throw e | Inr x \<Rightarrow> io_return x)"

lemma check_that_apply [io_simps]:
  "check_that r w = (case r of Inl e \<Rightarrow> (Inl e, w) | Inr x \<Rightarrow> (Inr x, w))"
  by (simp add: check_that_def io_simps split: sum.split)

lemma keeps_check_that [keeps_rules, intro!, simp]: "keeps I (check_that r)"
  by (simp add: keeps_def check_that_apply split: sum.split)

definition audit_by :: "request_context \<Rightarrow> string \<Rightarrow> string \<Rightarrow> string \<Rightarrow> string \<Rightarrow>
    (string \<times> json) list \<Rightarrow> audit_entry" where
  "audit_by ctx organizationId event targetType targetId metadata =
     \<lparr> ad_organizationId = organizationId, ad_actorId = Some (pr_userId (cx_principal ctx)),
       ad_actorEmail = Some (pr_email (cx_principal ctx)), ad_event = event,
       ad_targetType = Some targetType, ad_targetId = Some targetId, ad_metadata = metadata \<rparr>"

subsection \<open>Numbers and order\<close>

text \<open>
  A number in a template literal, for numbers with at most fifteen decimal digits, and the order of
  \<open>localeCompare\<close> on the metric names, which are lower-case words.
\<close>

fun fraction_digits :: "nat \<Rightarrow> js_number \<Rightarrow> string" where
  "fraction_digits 0 r = []"
| "fraction_digits (Suc n) r =
     (if r = 0 then [] else digit_char (nat \<lfloor>10 * r\<rfloor>) # fraction_digits n (10 * r - of_int \<lfloor>10 * r\<rfloor>))"

definition show_number :: "js_number \<Rightarrow> string" where
  "show_number r =
     (if is_integer r then show_int \<lfloor>r\<rfloor>
      else (if r < 0 then [CHR ''-''] else []) @ show_int \<lfloor>\<bar>r\<bar>\<rfloor> @ [CHR ''.''] @
           fraction_digits 15 (\<bar>r\<bar> - of_int \<lfloor>\<bar>r\<bar>\<rfloor>))"

subsection \<open>readUsage\<close>

record usage_total =
  ut_metric :: string
  ut_total :: int
  ut_records :: nat
  ut_lastRecordedAt :: "millis option"

record usage_report =
  ur_totals :: "usage_total list"
  ur_records :: "usage_row list"

text \<open>The \<open>Map\<close> of running totals, in the order its keys were first set.\<close>

definition add_usage :: "usage_total \<Rightarrow> usage_row \<Rightarrow> usage_total" where
  "add_usage t r =
     \<lparr> ut_metric = ut_metric t, ut_total = ut_total t + us_quantity r, ut_records = ut_records t + 1,
       ut_lastRecordedAt =
         (case ut_lastRecordedAt t of
            None \<Rightarrow> Some (us_recordedAt r)
          | Some latest \<Rightarrow> if us_recordedAt r > latest then Some (us_recordedAt r) else Some latest) \<rparr>"

fun roll_into :: "usage_row \<Rightarrow> usage_total list \<Rightarrow> usage_total list" where
  "roll_into r [] = [add_usage \<lparr> ut_metric = us_metric r, ut_total = 0, ut_records = 0,
                                  ut_lastRecordedAt = None \<rparr> r]"
| "roll_into r (t # ts) =
     (if ut_metric t = us_metric r then add_usage t r # ts else t # roll_into r ts)"

definition rolled :: "usage_row list \<Rightarrow> usage_total list" where
  "rolled records = foldl (\<lambda>ts r. roll_into r ts) [] records"

definition readUsage ::
  "request_context \<Rightarrow> ('w, 'z) billing_store_scheme \<Rightarrow> string \<Rightarrow> ('w, failure, usage_report) eio" where
  "readUsage ctx store organizationId =
     io_then (check_that (requireCapability ctx organizationId BillingRead))
       (io_bind (bs_listUsageRecords store (pr_userId (cx_principal ctx)) organizationId) (\<lambda>records.
          io_return \<lparr> ur_totals = sort_by_text ut_metric (rolled records), ur_records = records \<rparr>))"

subsection \<open>Budgets\<close>

record budget_status =
  bd_metric :: string
  bd_limitQuantity :: js_number
  bd_hardCap :: bool
  bd_usedQuantity :: int
  bd_ratio :: js_number
  bd_exceeded :: bool

record budget_report =
  br_budgets :: "budget_status list"
  br_periodStart :: millis

definition monthlyPeriodStart :: "millis \<Rightarrow> millis" where
  "monthlyPeriodStart now = date_UTC (getUTCFullYear now) (getUTCMonth now)"

definition total_quantity :: "usage_row list \<Rightarrow> int" where
  "total_quantity records = foldl (\<lambda>sum record. sum + us_quantity record) 0 records"

definition usageSince ::
  "('w, 'z) billing_store_scheme \<Rightarrow> string \<Rightarrow> string \<Rightarrow> millis \<Rightarrow> ('w, failure, int) eio" where
  "usageSince store organizationId metric since =
     (case bs_listUsageForService store of
        None \<Rightarrow> io_return 0
      | Some list_usage \<Rightarrow>
          io_bind (list_usage organizationId metric since) (\<lambda>records. io_return (total_quantity records)))"

fun budget_statuses ::
  "('w, 'z) billing_store_scheme \<Rightarrow> string \<Rightarrow> millis \<Rightarrow> budget list \<Rightarrow> ('w, failure, budget_status list) eio" where
  "budget_statuses store organizationId periodStart [] = io_return []"
| "budget_statuses store organizationId periodStart (b # bs) =
     io_bind (usageSince store organizationId (bg_metric b) periodStart) (\<lambda>used.
     io_bind (budget_statuses store organizationId periodStart bs) (\<lambda>rest.
       io_return (\<lparr> bd_metric = bg_metric b, bd_limitQuantity = bg_limitQuantity b,
                    bd_hardCap = bg_hardCap b, bd_usedQuantity = used,
                    bd_ratio = (if bg_limitQuantity b > 0 then of_int used / bg_limitQuantity b else 0),
                    bd_exceeded = (bg_hardCap b \<and> of_int used \<ge> bg_limitQuantity b) \<rparr> # rest)))"

definition unavailable_yet :: "string \<Rightarrow> failure" where
  "unavailable_yet what = ApiError EngineUnavailable (''This deployment cannot '' @ what @ '' yet.'')"

definition readBudgets ::
  "request_context \<Rightarrow> ('w, 'z) billing_store_scheme \<Rightarrow> ('w \<Rightarrow> millis) \<Rightarrow> string \<Rightarrow>
   ('w, failure, budget_report) eio" where
  "readBudgets ctx store clock organizationId =
     io_then (check_that (requireCapability ctx organizationId BillingRead))
       (io_bind (io_get clock) (\<lambda>now.
          let periodStart = monthlyPeriodStart now in
          case bs_listBudgets store of
            None \<Rightarrow> io_throw (unavailable_yet ''read a budget'')
          | Some list_budgets \<Rightarrow>
              io_bind (list_budgets (pr_userId (cx_principal ctx)) organizationId) (\<lambda>rows.
              io_bind (budget_statuses store organizationId periodStart rows) (\<lambda>budgets.
                io_return \<lparr> br_budgets = sort_by_text bd_metric budgets, br_periodStart = periodStart \<rparr>))))"

record cap_refusal =
  cr_message :: string
  cr_metric :: string
  cr_limitQuantity :: js_number
  cr_usedQuantity :: int

definition cap_message :: "js_number \<Rightarrow> string \<Rightarrow> string" where
  "cap_message limit metric =
     ''This organization has reached its hard cap of '' @ show_number limit @ '' '' @ metric @
     '' for this month. Raise the cap in Billing to continue.''"

definition hardCapRefusal ::
  "('w, 'z) billing_store_scheme \<Rightarrow> ('w \<Rightarrow> millis) \<Rightarrow> string \<Rightarrow> string \<Rightarrow> ('w, failure, cap_refusal option) eio" where
  "hardCapRefusal store clock organizationId metric =
     (case bs_getBudgetForService store of
        None \<Rightarrow> io_return None
      | Some get_budget \<Rightarrow>
          io_bind (get_budget organizationId metric) (\<lambda>found.
            case found of
              None \<Rightarrow> io_return None
            | Some b \<Rightarrow>
                if \<not> bg_hardCap b then io_return None
                else io_bind (io_get clock) (\<lambda>now.
                     io_bind (usageSince store organizationId metric (monthlyPeriodStart now)) (\<lambda>used.
                       if of_int used < bg_limitQuantity b then io_return None
                       else io_return (Some
                         \<lparr> cr_message = cap_message (bg_limitQuantity b) metric, cr_metric = metric,
                           cr_limitQuantity = bg_limitQuantity b, cr_usedQuantity = used \<rparr>)))))"

definition assertWithinBudget ::
  "('w, 'z) billing_store_scheme \<Rightarrow> ('w \<Rightarrow> millis) \<Rightarrow> string \<Rightarrow> string \<Rightarrow> ('w, failure, unit) eio" where
  "assertWithinBudget store clock organizationId metric =
     io_bind (hardCapRefusal store clock organizationId metric) (\<lambda>refusal.
       case refusal of
         None \<Rightarrow> io_return ()
       | Some r \<Rightarrow> io_throw (ApiError BudgetExceeded (cr_message r)))"

subsection \<open>saveBudget and removeBudget\<close>

definition USAGE_METRICS :: "string list" where
  "USAGE_METRICS = [''deployments'', ''backups'']"

text \<open>The limit a caller sends: \<open>None\<close> is anything that is not a finite number.\<close>

record save_budget_input =
  sb_organizationId :: string
  sb_metric :: string
  sb_limitQuantity :: "js_number option"
  sb_hardCap :: bool

definition saveBudget ::
  "request_context \<Rightarrow> ('w, 'z) billing_store_scheme \<Rightarrow> save_budget_input \<Rightarrow> ('w, failure, budget) eio" where
  "saveBudget ctx store inp =
     io_then (check_that (requireCapability ctx (sb_organizationId inp) BillingManage))
       (case bs_saveBudget store of
          None \<Rightarrow> io_throw (unavailable_yet ''record a budget'')
        | Some save_budget \<Rightarrow>
            (let metric = trim (sb_metric inp) in
             if metric \<notin> set USAGE_METRICS
             then io_throw (ApiError InvalidInput
                    (''Unknown metric '' @ [CHR 0x27] @ metric @ [CHR 0x27] @ ''. Recorded metrics: '' @
                     join_with '', '' USAGE_METRICS @ ''.''))
             else case sb_limitQuantity inp of
               None \<Rightarrow> io_throw (ApiError InvalidInput ''The limit must be a non-negative number.'')
             | Some limit \<Rightarrow>
                 if limit < 0
                 then io_throw (ApiError InvalidInput ''The limit must be a non-negative number.'')
                 else io_bind (save_budget
                        \<lparr> bg_organizationId = sb_organizationId inp, bg_metric = metric,
                          bg_limitQuantity = limit, bg_hardCap = sb_hardCap inp,
                          bg_updatedBy = Some (pr_userId (cx_principal ctx)) \<rparr>) (\<lambda>saved.
                      io_then (as_recordAuditEvent store
                        (audit_by ctx (sb_organizationId inp) ''billing.budget_saved'' ''budget'' metric
                          [(''metric'', JString metric), (''limitQuantity'', JNumber limit),
                           (''hardCap'', JBool (sb_hardCap inp))]))
                      (io_return saved))))"

definition removeBudget ::
  "request_context \<Rightarrow> ('w, 'z) billing_store_scheme \<Rightarrow> string \<Rightarrow> string \<Rightarrow> ('w, failure, bool) eio" where
  "removeBudget ctx store organizationId metric =
     io_then (check_that (requireCapability ctx organizationId BillingManage))
       (case bs_deleteBudget store of
          None \<Rightarrow> io_throw (unavailable_yet ''record a budget'')
        | Some delete_budget \<Rightarrow>
            io_bind (delete_budget (pr_userId (cx_principal ctx)) organizationId metric) (\<lambda>removed.
            io_then
              (if removed
               then as_recordAuditEvent store
                      (audit_by ctx organizationId ''billing.budget_removed'' ''budget'' metric
                        [(''metric'', JString metric)])
               else io_return ())
              (io_return removed)))"

end
