(* ===== verification/Root_Directory.thy ===== *)
theory Root_Directory
  imports Request_Context
begin

section \<open>apps/api/root-directory.ts: the monorepo root directory\<close>

text \<open>
  \<open>parseRootDirectory\<close>, the validator both write paths of a project's root directory share, and
  what it guarantees of the value that reaches the engine's \<open>base_directory\<close>.
\<close>

subsection \<open>The parser\<close>

definition segment_char :: "char \<Rightarrow> bool" where
  "segment_char c \<longleftrightarrow> is_alnum c \<or> c = CHR ''.'' \<or> c = CHR ''_'' \<or> c = CHR ''-''"

text \<open>\<open>SEGMENT.test\<close>: one or more characters of the class.\<close>

definition SEGMENT :: "string \<Rightarrow> bool" where
  "SEGMENT s \<longleftrightarrow> s \<noteq> [] \<and> list_all segment_char s"

definition MAX_ROOT_LENGTH :: nat where
  "MAX_ROOT_LENGTH = 200"

text \<open>\<open>replace(/^[.][/]+/, "")\<close> and \<open>replace(/[/]+$/, "")\<close>.\<close>

definition drop_dot_slash :: "string \<Rightarrow> string" where
  "drop_dot_slash s =
     (case s of
        c # d # rest \<Rightarrow> if c = CHR ''.'' \<and> d = CHR ''/'' then dropWhile (\<lambda>x. x = CHR ''/'') rest else s
      | _ \<Rightarrow> s)"

definition drop_trailing_slashes :: "string \<Rightarrow> string" where
  "drop_trailing_slashes s = rev (dropWhile (\<lambda>x. x = CHR ''/'') (rev s))"

definition invalid_input :: "string \<Rightarrow> failure" where
  "invalid_input message = ApiError InvalidInput message"

definition parseRootDirectory :: "string option \<Rightarrow> failure + string option" where
  "parseRootDirectory input =
     (let trimmed = trim (or_else input [])
      in if trimmed = [] then Inr None
         else
           (let normalised = drop_trailing_slashes (drop_dot_slash trimmed);
                segments = split_on (CHR ''/'') normalised
            in if normalised = [] then Inr None
               else if hd normalised = CHR ''/'' \<or> CHR 0x5C \<in> set normalised
               then Inl (invalid_input ''Root directory must be a relative path inside the repository.'')
               else if list_ex (\<lambda>s. s = [] \<or> s = ''.'' \<or> s = ''..'') segments
               then Inl (invalid_input
                      (''Root directory cannot contain '' @ [CHR 0x27] @ ''..'' @ [CHR 0x27] @ '', '' @
                       [CHR 0x27] @ ''.'' @ [CHR 0x27] @ '' or an empty path segment.''))
               else if \<not> list_all SEGMENT segments
               then Inl (invalid_input
                      (''Root directory may contain letters, digits, '' @ [CHR 0x27] @ ''.'' @ [CHR 0x27] @
                       '', '' @ [CHR 0x27] @ ''_'' @ [CHR 0x27] @ '', '' @ [CHR 0x27] @ ''-'' @ [CHR 0x27] @
                       '' and '' @ [CHR 0x27] @ ''/'' @ [CHR 0x27] @ '' only.''))
               else if length normalised > MAX_ROOT_LENGTH
               then Inl (invalid_input
                      (''Root directory must be '' @ show_nat MAX_ROOT_LENGTH @ '' characters or fewer.''))
               else Inr (Some normalised)))"

subsection \<open>Walking a path\<close>

text \<open>
  Where a path leads, read segment by segment from a directory given by its names below the
  checkout: \<open>None\<close> is outside the checkout.
\<close>

fun walk :: "string list \<Rightarrow> string list \<Rightarrow> string list option" where
  "walk here [] = Some here"
| "walk here (s # ss) =
     (if s = [] \<or> s = ''.'' then walk here ss
      else if s = ''..'' then (case here of [] \<Rightarrow> None | _ # up \<Rightarrow> walk up ss)
      else walk (s # here) ss)"

definition directory_of :: "string \<Rightarrow> string list option" where
  "directory_of path = (if path \<noteq> [] \<and> hd path = CHR ''/'' then None else walk [] (split_on (CHR ''/'') path))"

lemma walk_plain:
  "list_all (\<lambda>s. s \<noteq> [] \<and> s \<noteq> ''.'' \<and> s \<noteq> ''..'') ss \<Longrightarrow> walk here ss = Some (rev ss @ here)"
  by (induction ss arbitrary: here) auto

subsection \<open>What an accepted value is\<close>

definition plain_path :: "string \<Rightarrow> bool" where
  "plain_path d \<longleftrightarrow>
     d \<noteq> [] \<and> length d \<le> MAX_ROOT_LENGTH \<and>
     list_all (\<lambda>s. SEGMENT s \<and> s \<noteq> ''.'' \<and> s \<noteq> ''..'') (split_on (CHR ''/'') d)"

lemma parse_plain:
  assumes "parseRootDirectory v = Inr (Some d)"
  shows "plain_path d"
  using assms
  by (auto simp: parseRootDirectory_def plain_path_def Let_def list_ex_iff list_all_iff split: if_splits)

lemma plain_path_chars:
  assumes "plain_path d" "c \<in> set d"
  shows "segment_char c \<or> c = CHR ''/''"
proof (cases "c = CHR ''/''")
  case False
  with assms(2) have "c \<in> (\<Union>w \<in> set (split_on (CHR ''/'') d). set w)"
    by (simp add: set_split_on)
  with assms(1) show ?thesis by (auto simp: plain_path_def list_all_iff SEGMENT_def)
qed simp

lemma segment_char_facts:
  "segment_char c \<Longrightarrow> \<not> js_space c" "segment_char c \<Longrightarrow> c \<noteq> CHR 0x5C" "\<not> js_space (CHR ''/'')"
proof -
  show "\<not> js_space c" if "segment_char c"
  proof
    assume "js_space c"
    then have "code_unit c \<in> {9, 10, 11, 12, 13, 32, 160}" by (simp add: js_space_def)
    with that show False
      by (auto simp: segment_char_def is_alnum_def is_digit_def is_lower_def is_upper_def)
  qed
  show "c \<noteq> CHR 0x5C" if "segment_char c"
    using that by (auto simp: segment_char_def is_alnum_def is_digit_def is_lower_def is_upper_def)
  show "\<not> js_space (CHR ''/'')" by (simp add: js_space_def)
qed

lemma split_on_append_sep: "split_on c (xs @ [c]) = split_on c xs @ [[]]"
  by (induction xs) (auto split: list.splits)

lemma plain_path_normal:
  assumes "plain_path d"
  shows "trim d = d" "drop_dot_slash d = d" "drop_trailing_slashes d = d" "hd d \<noteq> CHR ''/''"
    "CHR 0x5C \<notin> set d"
proof -
  have segs: "s \<noteq> []" "s \<noteq> ''.''" if "s \<in> set (split_on (CHR ''/'') d)" for s
    using assms that by (auto simp: plain_path_def list_all_iff SEGMENT_def)
  have chars: "segment_char c \<or> c = CHR ''/''" if "c \<in> set d" for c
    using plain_path_chars [OF assms that] .
  show "trim d = d"
    by (rule trim_no_space) (use chars segment_char_facts in blast)
  show "CHR 0x5C \<notin> set d"
    using chars [of "CHR 0x5C"] segment_char_facts(2) by auto
  obtain c rest where d: "d = c # rest" using assms by (cases d) (auto simp: plain_path_def)
  show head: "hd d \<noteq> CHR ''/''"
    using segs(1) [of "[]"] by (auto simp: d)
  show "drop_dot_slash d = d"
  proof (cases rest)
    case (Cons e more)
    have False if "c = CHR ''.''" "e = CHR ''/''"
      using segs(2) [of "''.''"] that by (auto simp: d Cons split: list.splits)
    then show ?thesis by (auto simp: drop_dot_slash_def d Cons)
  qed (simp add: drop_dot_slash_def d)
  show "drop_trailing_slashes d = d"
  proof -
    obtain init l where d': "d = init @ [l]" by (metis d rev_exhaust list.distinct(1))
    have "l \<noteq> CHR ''/''"
    proof
      assume "l = CHR ''/''"
      then have "[] \<in> set (split_on (CHR ''/'') d)" by (simp add: d' split_on_append_sep)
      then show False using segs(1) by blast
    qed
    then show ?thesis by (simp add: drop_trailing_slashes_def d')
  qed
qed

lemma parse_fixpoint:
  assumes "plain_path d"
  shows "parseRootDirectory (Some d) = Inr (Some d)"
  using assms plain_path_normal [OF assms]
  by (auto simp: parseRootDirectory_def Let_def plain_path_def list_ex_iff list_all_iff SEGMENT_def
           not_less)

text \<open>
  A root directory that is accepted stays inside the checkout: read segment by segment it
  never leaves the repository and ends in the directory it spells, it has at most 200 characters
  of the safe class, and parsing what was accepted accepts it unchanged, so the projects page and
  the deploy procedure cannot store two spellings of it.
\<close>

theorem root_directory_stays_inside:
  assumes "parseRootDirectory v = Inr (Some d)"
  shows "directory_of d = Some (rev (split_on (CHR ''/'') d)) \<and>
         length d \<le> 200 \<and> set d \<subseteq> Collect segment_char \<union> {CHR ''/''} \<and>
         parseRootDirectory (Some d) = Inr (Some d)"
proof (intro conjI)
  have plain: "plain_path d" using assms by (rule parse_plain)
  from plain have "list_all (\<lambda>s. s \<noteq> [] \<and> s \<noteq> ''.'' \<and> s \<noteq> ''..'') (split_on (CHR ''/'') d)"
    by (auto simp: plain_path_def list_all_iff SEGMENT_def)
  with plain_path_normal(4) [OF plain] show "directory_of d = Some (rev (split_on (CHR ''/'') d))"
    by (simp add: directory_of_def walk_plain)
  show "length d \<le> 200" using plain by (simp add: plain_path_def MAX_ROOT_LENGTH_def)
  show "set d \<subseteq> Collect segment_char \<union> {CHR ''/''}" using plain_path_chars [OF plain] by blast
  show "parseRootDirectory (Some d) = Inr (Some d)" using plain by (rule parse_fixpoint)
qed

theorem root_directory_stays_inside_witness:
  "directory_of ''apps/web'' = Some [''web'', ''apps'']"
proof -
  have "parseRootDirectory (Some '' ./apps/web// '') = Inr (Some ''apps/web'')" by code_simp
  from root_directory_stays_inside [OF this]
  have "directory_of ''apps/web'' = Some (rev (split_on (CHR ''/'') ''apps/web''))" by blast
  then show ?thesis by simp
qed

end
