(* ===== verification/Deployment_Inputs.thy ===== *)
theory Deployment_Inputs
  imports Job_Queue Deployment_Executor Billing Root_Directory
begin

section \<open>apps/api/procedures/deployments.ts: what a request may ask\<close>

text \<open>
  The helpers the deployment procedures share: the store they are given, its write half, the preview
  key, what a request may name, who may act on a project, and what an idempotency key already answers.
  An exception of the store, of an engine or of the queue ends the procedure; \<open>thrown\<close> gives one whose
  error is only a message.
\<close>

subsection \<open>The store and the dependencies\<close>

record 'w project_store = "'w billing_store" +
  ps_getProject :: "string \<Rightarrow> string \<Rightarrow> ('w, failure, project_row option) eio"

record deployment_create_input =
  dc_organizationId :: string
  dc_projectId :: string
  dc_idempotencyKey :: string
  dc_requestedBy :: string
  dc_status :: engine_status
  dc_provider :: "string option"
  dc_kind :: build_kind
  dc_environmentId :: "string option"
  dc_staged :: bool
  dc_gitBranch :: "string option"
  dc_gitCommit :: "string option"
  dc_pullRequest :: "int option"
  dc_previewKey :: "string option"
  dc_gitRepository :: "string option"
  dc_buildPack :: "string option"
  dc_rootDirectory :: "string option"

record preview_create_input =
  pc_organizationId :: string
  pc_projectId :: string
  pc_previewKey :: string
  pc_branch :: "string option"
  pc_pullRequest :: "int option"
  pc_createdBy :: string

record list_page_options =
  lo_before :: "string option"
  lo_limit :: "js_number option"

record 'w deployment_store = "'w project_store" +
  st_listDeployments :: "string \<Rightarrow> string \<Rightarrow> list_page_options \<Rightarrow> ('w, failure, deployment_row list) eio"
  st_listOrganizationDeployments ::
    "string \<Rightarrow> string \<Rightarrow> list_page_options \<Rightarrow> ('w, failure, deployment_row list) eio"
  st_listAuditEvents :: "string \<Rightarrow> string \<Rightarrow> list_page_options \<Rightarrow> ('w, failure, audit_row list) eio"
  st_listEnvironments :: "(string \<Rightarrow> string \<Rightarrow> ('w, failure, environment_row list) eio) option"
  st_createDeployment :: "(deployment_create_input \<Rightarrow> ('w, failure, deployment_row) eio) option"
  st_updateDeploymentStatus ::
    "(deployment_status_input \<Rightarrow> ('w, failure, deployment_row option) eio) option"
  st_findDeploymentByIdempotencyKey ::
    "(string \<Rightarrow> string \<Rightarrow> string \<Rightarrow> ('w, failure, deployment_row option) eio) option"
  st_getProjectDeploymentTarget ::
    "(string \<Rightarrow> string \<Rightarrow> ('w, failure, deployment_target option) eio) option"
  st_setProjectProviderResource ::
    "(string \<Rightarrow> string \<Rightarrow> string \<Rightarrow> string \<Rightarrow> ('w, failure, unit) eio) option"
  st_getDeployment :: "(string \<Rightarrow> string \<Rightarrow> ('w, failure, deployment_row option) eio) option"
  st_getPreviewTargetForService ::
    "(string \<Rightarrow> string \<Rightarrow> string \<Rightarrow> ('w, failure, preview_target option) eio) option"
  st_createPreviewTarget :: "(preview_create_input \<Rightarrow> ('w, failure, unit) eio) option"
  st_setPreviewTargetProvider ::
    "(string \<Rightarrow> string \<Rightarrow> string \<Rightarrow> string \<Rightarrow> string \<Rightarrow> ('w, failure, unit) eio) option"
  st_promoteDeployment :: "(string \<Rightarrow> string \<Rightarrow> string \<Rightarrow> ('w, failure, promote_result) eio) option"

record 'w deployment_deps =
  dd_store :: "'w deployment_store"
  dd_engines :: "'w engines"
  dd_newId :: "('w, failure, string) eio"
  dd_now :: "'w \<Rightarrow> millis"
  dd_sleep :: "millis \<Rightarrow> ('w, unit) io"
  dd_queue :: "('w, deployment_job_payload) queue_port option"

definition thrown :: "('w, 'a) io \<Rightarrow> ('w, failure, 'a) eio" where
  "thrown m = io_catch m (\<lambda>message. io_throw (OtherError message))"

fun failure_text :: "failure \<Rightarrow> string" where
  "failure_text (ApiError _ message) = message"
| "failure_text UnauthenticatedError = ''Authentication required.''"
| "failure_text (OtherError message) = message"

definition lowered :: "('w, failure, 'a) eio \<Rightarrow> ('w, 'a) io" where
  "lowered m = io_catch m (\<lambda>e. io_throw (failure_text e))"

definition ADAPTER_TIMEOUT_MS :: millis where
  "ADAPTER_TIMEOUT_MS = 30000"

definition HOSTING_PROVIDER :: string where
  "HOSTING_PROVIDER = ''coolify''"

definition SERVERLESS_PROVIDER :: string where
  "SERVERLESS_PROVIDER = ''lambda''"

subsection \<open>The write half of the store\<close>

record 'w deployment_writes =
  wr_createDeployment :: "deployment_create_input \<Rightarrow> ('w, failure, deployment_row) eio"
  wr_updateDeploymentStatus :: "deployment_status_input \<Rightarrow> ('w, failure, deployment_row option) eio"
  wr_findDeploymentByIdempotencyKey ::
    "string \<Rightarrow> string \<Rightarrow> string \<Rightarrow> ('w, failure, deployment_row option) eio"
  wr_getProjectDeploymentTarget :: "string \<Rightarrow> string \<Rightarrow> ('w, failure, deployment_target option) eio"
  wr_setProjectProviderResource :: "string \<Rightarrow> string \<Rightarrow> string \<Rightarrow> string \<Rightarrow> ('w, failure, unit) eio"

definition missing_writes :: "('w, 'z) deployment_store_scheme \<Rightarrow> string list" where
  "missing_writes store = map snd (filter (\<lambda>(missing, _). missing)
     [(st_createDeployment store = None, ''createDeployment''),
      (st_updateDeploymentStatus store = None, ''updateDeploymentStatus''),
      (st_findDeploymentByIdempotencyKey store = None, ''findDeploymentByIdempotencyKey''),
      (st_getProjectDeploymentTarget store = None, ''getProjectDeploymentTarget''),
      (st_setProjectProviderResource store = None, ''setProjectProviderResource'')])"

definition writesFor :: "('w, 'z) deployment_store_scheme \<Rightarrow> failure + 'w deployment_writes" where
  "writesFor store =
     (if missing_writes store \<noteq> []
      then Inl (unavailable_yet (''record '' @ join_with '', '' (missing_writes store)))
      else Inr
        \<lparr> wr_createDeployment = the (st_createDeployment store),
          wr_updateDeploymentStatus = the (st_updateDeploymentStatus store),
          wr_findDeploymentByIdempotencyKey = the (st_findDeploymentByIdempotencyKey store),
          wr_getProjectDeploymentTarget = the (st_getProjectDeploymentTarget store),
          wr_setProjectProviderResource = the (st_setProjectProviderResource store) \<rparr>)"

definition previewWritesAvailable :: "('w, 'z) deployment_store_scheme \<Rightarrow> bool" where
  "previewWritesAvailable store \<longleftrightarrow>
     st_getPreviewTargetForService store \<noteq> None \<and> st_createPreviewTarget store \<noteq> None \<and>
     st_setPreviewTargetProvider store \<noteq> None"

fun kind_of_environment :: "environment_kind \<Rightarrow> build_kind option" where
  "kind_of_environment EnvProduction = Some Production"
| "kind_of_environment EnvPreview = Some Preview"
| "kind_of_environment EnvCustom = None"

definition environmentIdFor ::
  "('w, 'z) deployment_store_scheme \<Rightarrow> string \<Rightarrow> string \<Rightarrow> build_kind \<Rightarrow> ('w, failure, string option) eio" where
  "environmentIdFor store userId projectId kind =
     (case st_listEnvironments store of
        None \<Rightarrow> io_return None
      | Some list_environments \<Rightarrow>
          io_bind (list_environments userId projectId) (\<lambda>environments.
            io_return (map_option en_id
              (find (\<lambda>e. kind_of_environment (en_kind e) = Some kind) environments))))"

subsection \<open>The preview key\<close>

definition slug_char :: "char \<Rightarrow> bool" where
  "slug_char c \<longleftrightarrow> is_lower c \<or> is_digit c"

text \<open>\<open>replace(/[^a-z0-9]+/g, "-")\<close>: a run of other characters becomes one dash; then the dashes at
  both ends go, and the first hundred characters stay.\<close>

fun dashed :: "bool \<Rightarrow> string \<Rightarrow> string" where
  "dashed in_run [] = []"
| "dashed in_run (c # cs) =
     (if slug_char c then c # dashed False cs
      else if in_run then dashed True cs else CHR ''-'' # dashed True cs)"

definition strip_dashes :: "string \<Rightarrow> string" where
  "strip_dashes s = rev (dropWhile (\<lambda>c. c = CHR ''-'') (rev (dropWhile (\<lambda>c. c = CHR ''-'') s)))"

definition slug :: "string \<Rightarrow> string" where
  "slug s = take 100 (strip_dashes (dashed False (to_lower s)))"

definition previewKeyFor :: "int option \<Rightarrow> string option \<Rightarrow> string option \<Rightarrow> string" where
  "previewKeyFor pullRequest branch commit =
     (case pullRequest of
        Some n \<Rightarrow> ''pr-'' @ show_int n
      | None \<Rightarrow>
          if truthy branch
          then (let key = ''branch-'' @ slug (the branch)
                in if key = ''branch-'' then ''branch-unknown'' else key)
          else if truthy commit
          then (let short = take 40 (filter slug_char (to_lower (the commit)))
                in if short \<noteq> [] then ''commit-'' @ short else ''commit-unknown'')
          else ''preview-unknown'')"

definition ensurePreviewTarget ::
  "('w, 'z) deployment_store_scheme \<Rightarrow> preview_create_input \<Rightarrow> ('w, failure, unit) eio" where
  "ensurePreviewTarget store inp =
     (case (st_getPreviewTargetForService store, st_createPreviewTarget store) of
        (Some get_target, Some create_target) \<Rightarrow>
          io_bind (get_target (pc_organizationId inp) (pc_projectId inp) (pc_previewKey inp)) (\<lambda>existing.
            if existing = None then create_target inp else io_return ())
      | _ \<Rightarrow> io_throw (unavailable_yet ''record preview targets''))"

subsection \<open>What a request may name\<close>

definition normaliseIdempotencyKey ::
  "string option \<Rightarrow> ('w, failure, string) eio \<Rightarrow> ('w, failure, string) eio" where
  "normaliseIdempotencyKey presented newId =
     (let key = trim (or_else presented []) in
      if key = [] then newId
      else if length key > 200 then io_throw (invalid_input ''The idempotency key is too long.'')
      else io_return key)"

definition ref_char :: "char \<Rightarrow> bool" where
  "ref_char c \<longleftrightarrow> is_alnum c \<or> c \<in> {CHR ''.'', CHR ''_'', CHR ''/'', CHR ''-''}"

definition REF_PATTERN :: "string \<Rightarrow> bool" where
  "REF_PATTERN s \<longleftrightarrow> s \<noteq> [] \<and> is_alnum (hd s) \<and> list_all ref_char (tl s) \<and> length s \<le> 200"

definition REPO_PATTERN :: "string \<Rightarrow> bool" where
  "REPO_PATTERN s \<longleftrightarrow>
     list_ex (\<lambda>p. take (length p) s = p \<and>
                  (let tail = drop (length p) s
                   in list_all (\<lambda>c. \<not> js_space c) tail \<and> 3 \<le> length tail \<and> length tail \<le> 297))
       [''https://'', ''http://'', ''git@'']"

definition optionalRef :: "string option \<Rightarrow> string \<Rightarrow> failure + string option" where
  "optionalRef presented label =
     (let trimmed = trim (or_else presented []) in
      if trimmed = [] then Inr None
      else if \<not> REF_PATTERN trimmed
      then Inl (invalid_input (label @ '' is not a valid git reference.''))
      else Inr (Some trimmed))"

definition optionalRepository :: "string option \<Rightarrow> failure + string option" where
  "optionalRepository presented =
     (let trimmed = trim (or_else presented []) in
      if trimmed = [] then Inr None
      else if \<not> REPO_PATTERN trimmed
      then Inl (invalid_input ''Repository must be an https://, http:// or git@ URL.'')
      else Inr (Some trimmed))"

definition BUILD_PACKS :: "string list" where
  "BUILD_PACKS = [''nixpacks'', ''railpack'', ''static'', ''dockerfile'', ''dockercompose'']"

definition optionalBuildPack :: "string option \<Rightarrow> failure + string option" where
  "optionalBuildPack presented =
     (let trimmed = trim (or_else presented []) in
      if trimmed = [] then Inr None
      else if trimmed \<notin> set BUILD_PACKS
      then Inl (invalid_input (''Build pack must be one of: '' @ join_with '', '' BUILD_PACKS @ ''.''))
      else Inr (Some trimmed))"

text \<open>
  The input: \<open>rootDirectory\<close> may be absent (\<open>None\<close>), null or a string; \<open>staged\<close> says whether the
  field is \<open>true\<close>.
\<close>

record create_deployment_request =
  cq_projectId :: string
  cq_idempotencyKey :: "string option"
  cq_gitRepository :: "string option"
  cq_gitBranch :: "string option"
  cq_commit :: "string option"
  cq_buildPack :: "string option"
  cq_rootDirectory :: "string option option"
  cq_kind :: "string option"
  cq_staged :: bool
  cq_pullRequest :: "js_number option"

text \<open>What the checks of the request leave: the attributes of the row, the job and the engine call.\<close>

record build_spec =
  sp_gitBranch :: "string option"
  sp_commit :: "string option"
  sp_gitRepository :: "string option"
  sp_buildPack :: "string option"
  sp_rootDirectory :: "string option"
  sp_kind :: build_kind
  sp_pullRequest :: "int option"
  sp_previewKey :: "string option"
  sp_staged :: bool

definition try_then :: "'e + 'a \<Rightarrow> ('a \<Rightarrow> 'e + 'b) \<Rightarrow> 'e + 'b" where
  "try_then r k = (case r of Inl e \<Rightarrow> Inl e | Inr x \<Rightarrow> k x)"

definition build_spec_of :: "project_row \<Rightarrow> create_deployment_request \<Rightarrow> failure + build_spec" where
  "build_spec_of project inp =
     try_then (optionalRef (cq_gitBranch inp) ''Branch'') (\<lambda>gitBranch.
     try_then (optionalRef (cq_commit inp) ''Commit'') (\<lambda>commit.
     try_then (optionalRepository (cq_gitRepository inp)) (\<lambda>gitRepository.
     try_then (optionalBuildPack (cq_buildPack inp)) (\<lambda>buildPack.
     try_then (case cq_rootDirectory inp of
                 Some presented \<Rightarrow> parseRootDirectory presented
               | None \<Rightarrow> Inr (pj_rootDirectory project)) (\<lambda>rootDirectory.
       let kind = (if cq_kind inp = Some ''preview'' then Preview else Production);
           pullRequest = (case cq_pullRequest inp of
                            Some n \<Rightarrow> if kind = Preview \<and> n > 0 then Some \<lfloor>n\<rfloor> else None
                          | None \<Rightarrow> None);
           previewKey = (if kind = Preview then Some (previewKeyFor pullRequest gitBranch commit) else None)
       in if cq_staged inp \<and> kind \<noteq> Production
          then Inl (invalid_input
                 ''Only a production deployment can be staged; a preview always has its own URL.'')
          else Inr \<lparr> sp_gitBranch = gitBranch, sp_commit = commit, sp_gitRepository = gitRepository,
                     sp_buildPack = buildPack, sp_rootDirectory = rootDirectory, sp_kind = kind,
                     sp_pullRequest = pullRequest, sp_previewKey = previewKey,
                     sp_staged = (kind = Production \<and> cq_staged inp) \<rparr>)))))"

subsection \<open>Who may, and what was asked before\<close>

definition PROJECT_NOT_FOUND :: failure where
  "PROJECT_NOT_FOUND = ApiError NotFound ''Project not found.''"

text \<open>The first lines of every procedure of a project.\<close>

definition authorized_project ::
  "request_context \<Rightarrow> ('w, 'z) project_store_scheme \<Rightarrow> string \<Rightarrow> capability \<Rightarrow> ('w, failure, project_row) eio" where
  "authorized_project ctx store projectId c =
     io_bind (ps_getProject store (pr_userId (cx_principal ctx)) projectId) (\<lambda>found.
       case found of
         None \<Rightarrow> io_throw PROJECT_NOT_FOUND
       | Some project \<Rightarrow>
           io_then (check_that (requireCapability ctx (pj_organizationId project) c))
             (io_return project))"

record deployment_request_result =
  rr_deployment :: deployment_row
  rr_replayed :: bool
  rr_engineReason :: "string option"

definition KEY_OF_ANOTHER_PROJECT :: failure where
  "KEY_OF_ANOTHER_PROJECT =
     ApiError Conflict ''This idempotency key was already used for a deployment in another project.''"

text \<open>
  The key and what it already answers: \<open>Inl\<close> the result of a replay, \<open>Inr\<close> the key of new work.
  A row of another project under the key is refused.
\<close>

definition replay_or_key ::
  "request_context \<Rightarrow> 'w deployment_deps \<Rightarrow> 'w deployment_writes \<Rightarrow> project_row \<Rightarrow> string option \<Rightarrow>
   ('w, failure, deployment_request_result + string) eio" where
  "replay_or_key ctx deps writes project presented =
     io_bind (normaliseIdempotencyKey presented (dd_newId deps)) (\<lambda>key.
     io_bind (wr_findDeploymentByIdempotencyKey writes (pr_userId (cx_principal ctx))
                (pj_organizationId project) key) (\<lambda>existing.
       case existing of
         None \<Rightarrow> io_return (Inr key)
       | Some row \<Rightarrow>
           if dr_projectId row \<noteq> pj_id project then io_throw KEY_OF_ANOTHER_PROJECT
           else io_return (Inl \<lparr> rr_deployment = row, rr_replayed = True,
                                 rr_engineReason = dr_failureReason row \<rparr>)))"

end
