(* ===== verification/Deployment_Requests.thy ===== *)
theory Deployment_Requests
  imports Deployment_Inputs
begin

section \<open>apps/api/procedures/deployments.ts: requesting a deployment and a rollback\<close>

text \<open>
  \<open>requestDeployment\<close> and \<open>rollbackDeployment\<close>: the row that is written before anything runs, the
  job of the durable path, and the engine calls of the synchronous one.
\<close>

subsection \<open>Writing a transition\<close>

record transition =
  tr_status :: engine_status
  tr_url :: "string option"
  tr_failureReason :: "string option"
  tr_providerResourceId :: "string option"
  tr_deploymentResourceId :: "string option"
  tr_buildProviderResourceId :: "string option"
  tr_buildProvider :: "string option"

definition persistTransition ::
  "'w deployment_writes \<Rightarrow> ('w \<Rightarrow> millis) \<Rightarrow> string \<Rightarrow> deployment_row \<Rightarrow> transition \<Rightarrow>
   ('w, failure, deployment_row) eio" where
  "persistTransition writes clock organizationId current t =
     io_bind (io_get clock) (\<lambda>startedAt.
     io_bind (wr_updateDeploymentStatus writes
        \<lparr> du_id = dr_id current, du_organizationId = organizationId, du_status = tr_status t,
          du_url = Some (tr_url t), du_failureReason = Some (tr_failureReason t),
          du_providerResourceId = tr_providerResourceId t,
          du_deploymentResourceId = tr_deploymentResourceId t,
          du_buildProviderResourceId = tr_buildProviderResourceId t,
          du_buildProvider = tr_buildProvider t,
          du_startedAt = Some (Some startedAt),
          du_finishedAt = Some (if tr_status t \<noteq> Pending \<and> tr_status t \<noteq> Running
                                then Some startedAt else None) \<rparr>) (\<lambda>updated.
       io_return (or_else updated current)))"

subsection \<open>The row and the job\<close>

text \<open>\<open>...(x ? { k: x } : {})\<close> in a metadata object.\<close>

definition if_given :: "string \<Rightarrow> string option \<Rightarrow> (string \<times> json) list" where
  "if_given key x = (if truthy x then [(key, JString (the x))] else [])"

definition row_input_of ::
  "request_context \<Rightarrow> project_row \<Rightarrow> string \<Rightarrow> string option \<Rightarrow> build_spec \<Rightarrow> deployment_create_input" where
  "row_input_of ctx project key environmentId spec =
     \<lparr> dc_organizationId = pj_organizationId project, dc_projectId = pj_id project,
       dc_idempotencyKey = key, dc_requestedBy = pr_userId (cx_principal ctx), dc_status = Pending,
       dc_provider = Some HOSTING_PROVIDER, dc_kind = sp_kind spec, dc_environmentId = environmentId,
       dc_staged = sp_staged spec, dc_gitBranch = sp_gitBranch spec, dc_gitCommit = sp_commit spec,
       dc_pullRequest = sp_pullRequest spec, dc_previewKey = sp_previewKey spec,
       dc_gitRepository = sp_gitRepository spec, dc_buildPack = sp_buildPack spec,
       dc_rootDirectory = sp_rootDirectory spec \<rparr>"

definition create_payload ::
  "project_row \<Rightarrow> deployment_row \<Rightarrow> string option \<Rightarrow> build_spec \<Rightarrow> deployment_job_payload" where
  "create_payload project deployment environmentId spec =
     \<lparr> djp_deploymentId = dr_id deployment, djp_organizationId = pj_organizationId project,
       djp_projectId = pj_id project, djp_action = Create, djp_projectSlug = pj_slug project,
       djp_gitRepository = sp_gitRepository spec, djp_gitBranch = sp_gitBranch spec,
       djp_buildPack = sp_buildPack spec, djp_rootDirectory = sp_rootDirectory spec,
       djp_commit = sp_commit spec, djp_kind = Some (sp_kind spec), djp_staged = Some (sp_staged spec),
       djp_environmentId = environmentId, djp_previewKey = sp_previewKey spec \<rparr>"

definition deployment_job ::
  "project_row \<Rightarrow> string \<Rightarrow> deployment_job_payload \<Rightarrow> deployment_job_payload enqueue_input" where
  "deployment_job project key payload =
     \<lparr> ei_organizationId = pj_organizationId project, ei_kind = DEPLOYMENT_JOB_KIND,
       ei_payload = payload, ei_idempotencyKey = key, ei_maxAttempts = None \<rparr>"

definition enqueued ::
  "request_context \<Rightarrow> 'w deployment_deps \<Rightarrow> ('w, deployment_job_payload) queue_port \<Rightarrow> project_row \<Rightarrow>
   string \<Rightarrow> deployment_row \<Rightarrow> deployment_job_payload \<Rightarrow> string \<Rightarrow> (string \<times> json) list \<Rightarrow>
   ('w, failure, deployment_request_result) eio" where
  "enqueued ctx deps queue project key deployment payload event metadata =
     io_then (thrown (qp_enqueue queue (deployment_job project key payload)))
    (io_then (as_recordAuditEvent (dd_store deps)
        (audit_by ctx (pj_organizationId project) event ''deployment'' (dr_id deployment) metadata))
       (io_return \<lparr> rr_deployment = deployment, rr_replayed = False, rr_engineReason = None \<rparr>))"

subsection \<open>The synchronous path\<close>

definition request_adapter_ctx :: "project_row \<Rightarrow> string \<Rightarrow> adapter_context" where
  "request_adapter_ctx project key =
     \<lparr> ac_organizationId = pj_organizationId project, ac_idempotencyKey = key,
       ac_timeoutMs = ADAPTER_TIMEOUT_MS \<rparr>"

definition preview_path :: "'w deployment_deps \<Rightarrow> build_spec \<Rightarrow> bool" where
  "preview_path deps spec \<longleftrightarrow>
     sp_kind spec = Preview \<and> truthy (sp_previewKey spec) \<and> previewWritesAvailable (dd_store deps)"

text \<open>Which engine runs the deploy, and the application it already has.\<close>

definition sync_target ::
  "request_context \<Rightarrow> 'w deployment_deps \<Rightarrow> 'w deployment_writes \<Rightarrow> project_row \<Rightarrow> build_spec \<Rightarrow>
   ('w, failure, execution_model \<times> provider_ref option) eio" where
  "sync_target ctx deps writes project spec =
     (let org = pj_organizationId project in
      if preview_path deps spec
      then io_bind (the (st_getPreviewTargetForService (dd_store deps)) org (pj_id project)
                      (the (sp_previewKey spec))) (\<lambda>target.
             io_return (Container,
               case target of
                 None \<Rightarrow> None
               | Some t \<Rightarrow> application_ref org (pt_provider t) (pt_providerResourceId t)))
      else io_bind (wr_getProjectDeploymentTarget writes (pr_userId (cx_principal ctx)) (pj_id project)) (\<lambda>probe.
             io_return
               (case probe of
                  None \<Rightarrow> (executionModel (pj_executionModel project), None)
                | Some t \<Rightarrow> (dt_executionModel t,
                             application_ref org (dt_provider t) (dt_providerResourceId t)))))"

text \<open>The application to deploy to, or the engine's refusal to create one.\<close>

definition sync_ensure ::
  "'w deployment_deps \<Rightarrow> 'w deployment_writes \<Rightarrow> 'w deployment_engine \<Rightarrow> project_row \<Rightarrow> string \<Rightarrow>
   build_spec \<Rightarrow> provider_ref option \<Rightarrow> ('w, failure, engine_status \<times> string + provider_ref) eio" where
  "sync_ensure deps writes engine project key spec application =
     (case application of
        Some a \<Rightarrow> io_return (Inr a)
      | None \<Rightarrow>
          io_bind (thrown (de_ensureTarget engine (request_adapter_ctx project key)
              \<lparr> ti_name = (if sp_kind spec = Preview \<and> truthy (sp_previewKey spec)
                          then pj_slug project @ ''-'' @ the (sp_previewKey spec) else pj_slug project),
                ti_gitRepository = sp_gitRepository spec, ti_gitBranch = sp_gitBranch spec,
                ti_buildPack = sp_buildPack spec, ti_rootDirectory = sp_rootDirectory spec,
                ti_artifact = None \<rparr>)) (\<lambda>created.
            case created of
              AErr status reason \<Rightarrow> io_return (Inl (status, reason))
            | AOk _ op \<Rightarrow>
                (let a = op_providerRef op; org = pj_organizationId project in
                 io_then
                   (if preview_path deps spec
                    then the (st_setPreviewTargetProvider (dd_store deps)) org (pj_id project)
                           (the (sp_previewKey spec)) (ref_provider a) (ref_resourceId a)
                    else wr_setProjectProviderResource writes org (pj_id project)
                           (ref_provider a) (ref_resourceId a))
                   (io_return (Inr a)))))"

text \<open>
  The builder's handle is a local variable the callback assigns: the build step runs on the world
  beside that variable.
\<close>

definition with_local :: "'l \<Rightarrow> ('w \<times> 'l, 'e, 'a) eio \<Rightarrow> ('w, 'e, 'a \<times> 'l) eio" where
  "with_local init m = (\<lambda>w. case m (w, init) of
     (Inl e, (w', _)) \<Rightarrow> (Inl e, w')
   | (Inr x, (w', l)) \<Rightarrow> (Inr (x, l), w'))"

definition beside :: "'w build_engine \<Rightarrow> ('w \<times> 'l) build_engine" where
  "beside b =
     \<lparr> be_notConfigured = be_notConfigured b, be_build = (\<lambda>c r. on_fst (be_build b c r)),
       be_getArtifact = (\<lambda>c r. on_fst (be_getArtifact b c r)),
       be_cancelBuild = (\<lambda>c r. on_fst (be_cancelBuild b c r)),
       be_getBuildLogs = (\<lambda>c r x. on_fst (be_getBuildLogs b c r x)) \<rparr>"

definition sync_build ::
  "'w deployment_deps \<Rightarrow> 'w deployment_writes \<Rightarrow> project_row \<Rightarrow> string \<Rightarrow> build_spec \<Rightarrow> deployment_row \<Rightarrow>
   provider_ref \<Rightarrow> ('w, failure, build_step_result \<times> provider_ref option) eio" where
  "sync_build deps writes project key spec deployment application =
     thrown (with_local None (runBuildStep
       \<lparr> bd_build = beside (eg_build (dd_engines deps)), bd_pollIntervalMs = None, bd_maxPolls = None,
         bd_sleep = (\<lambda>ms. on_fst (dd_sleep deps ms)),
         bd_onBuildStarted = Some (\<lambda>ref.
           io_then (on_snd (io_modify (\<lambda>_. Some ref)))
             (on_fst (lowered (io_then
               (persistTransition writes (dd_now deps) (pj_organizationId project) deployment
                 \<lparr> tr_status = Running, tr_url = None, tr_failureReason = None,
                   tr_providerResourceId = Some (ref_resourceId application),
                   tr_deploymentResourceId = None,
                   tr_buildProviderResourceId = Some (ref_resourceId ref),
                   tr_buildProvider = Some (ref_provider ref) \<rparr>)
               (io_return ()))))) \<rparr>
       \<lparr> bi_organizationId = pj_organizationId project, bi_idempotencyKey = key @ '':build'',
         bi_timeoutMs = ADAPTER_TIMEOUT_MS, bi_repository = sp_gitRepository spec,
         bi_branch = sp_gitBranch spec, bi_buildPack = sp_buildPack spec,
         bi_rootDirectory = sp_rootDirectory spec \<rparr>))"

definition sync_deploy ::
  "'w deployment_deps \<Rightarrow> 'w deployment_engine \<Rightarrow> project_row \<Rightarrow> string \<Rightarrow> provider_ref \<Rightarrow>
   serverless_artifact option \<Rightarrow> transition \<Rightarrow> ('w, failure, transition) eio" where
  "sync_deploy deps engine project key application artifact t =
     (let actx = request_adapter_ctx project key in
      io_bind (thrown (de_deploy engine actx application artifact)) (\<lambda>deployed.
        case deployed of
          AErr status reason \<Rightarrow> io_return (t\<lparr> tr_status := status, tr_failureReason := Some reason \<rparr>)
        | AOk status op \<Rightarrow>
            io_bind (thrown (de_getDeployment engine actx (op_providerRef op))) (\<lambda>state.
              let t' = t\<lparr> tr_status := status,
                         tr_deploymentResourceId := Some (ref_resourceId (op_providerRef op)) \<rparr>
              in io_return
                   (case state of
                      AErr _ _ \<Rightarrow> t'
                    | AOk _ v \<Rightarrow> t'\<lparr> tr_status := ds_status v, tr_url := ds_url v \<rparr>))))"

definition untouched :: transition where
  "untouched = \<lparr> tr_status = Pending, tr_url = None, tr_failureReason = None,
     tr_providerResourceId = None, tr_deploymentResourceId = None,
     tr_buildProviderResourceId = None, tr_buildProvider = None \<rparr>"

text \<open>What the engine made of the request: the transition the row then takes.\<close>

definition sync_run ::
  "request_context \<Rightarrow> 'w deployment_deps \<Rightarrow> 'w deployment_writes \<Rightarrow> project_row \<Rightarrow> string \<Rightarrow>
   build_spec \<Rightarrow> deployment_row \<Rightarrow> ('w, failure, transition) eio" where
  "sync_run ctx deps writes project key spec deployment =
     io_bind (sync_target ctx deps writes project spec) (\<lambda>(model, found).
       let engine = deploymentEngineFor (dd_engines deps) model in
       io_bind (sync_ensure deps writes engine project key spec found) (\<lambda>ensured.
         case ensured of
           Inl (status, reason) \<Rightarrow>
             io_return (untouched\<lparr> tr_status := status, tr_failureReason := Some reason \<rparr>)
         | Inr application \<Rightarrow>
             (let t = untouched\<lparr> tr_providerResourceId := Some (ref_resourceId application) \<rparr> in
              if de_model engine \<noteq> Serverless
              then sync_deploy deps engine project key application None t
              else io_bind (sync_build deps writes project key spec deployment application) (\<lambda>(built, handle).
                let t' = t\<lparr> tr_buildProviderResourceId := map_option ref_resourceId handle,
                           tr_buildProvider := map_option ref_provider handle \<rparr>
                in case built of
                     NotBuilt reason \<Rightarrow>
                       io_return (t'\<lparr> tr_status := Failed, tr_failureReason := Some reason \<rparr>)
                   | Built artifact _ \<Rightarrow>
                       sync_deploy deps engine project key application (Some artifact) t'))))"

subsection \<open>requestDeployment\<close>

definition run_now ::
  "request_context \<Rightarrow> 'w deployment_deps \<Rightarrow> 'w deployment_writes \<Rightarrow> project_row \<Rightarrow> string \<Rightarrow>
   build_spec \<Rightarrow> deployment_row \<Rightarrow> ('w, failure, deployment_request_result) eio" where
  "run_now ctx deps writes project key spec deployment =
     io_bind (sync_run ctx deps writes project key spec deployment) (\<lambda>t.
     io_bind (persistTransition writes (dd_now deps) (pj_organizationId project) deployment t) (\<lambda>settled.
     io_then
       (if tr_status t = Succeeded \<and> sp_kind spec = Production \<and> \<not> sp_staged spec
        then (case st_promoteDeployment (dd_store deps) of
                None \<Rightarrow> io_return ()
              | Some promote \<Rightarrow>
                  io_then (promote (pj_organizationId project) (pj_id project) (dr_id settled)) (io_return ()))
        else io_return ())
    (io_then (as_recordAuditEvent (dd_store deps)
        (audit_by ctx (pj_organizationId project) ''deployment.created'' ''deployment'' (dr_id settled)
          ([(''projectId'', JString (pj_id project)), (''status'', JString (status_name (tr_status t))),
            (''idempotencyKey'', JString key)] @
           if_given ''branch'' (sp_gitBranch spec) @ if_given ''commit'' (sp_commit spec))))
       (io_return \<lparr> rr_deployment = settled, rr_replayed = False,
                    rr_engineReason = tr_failureReason t \<rparr>))))"

text \<open>New work under a fresh key: the cap, the row, the preview target, then the job or the engine.\<close>

definition new_deployment ::
  "request_context \<Rightarrow> 'w deployment_deps \<Rightarrow> 'w deployment_writes \<Rightarrow> project_row \<Rightarrow> build_spec \<Rightarrow> string \<Rightarrow>
   ('w, failure, deployment_request_result) eio" where
  "new_deployment ctx deps writes project spec key =
     io_then (assertWithinBudget (dd_store deps) (dd_now deps) (pj_organizationId project) ''deployments'')
    (io_bind (environmentIdFor (dd_store deps) (pr_userId (cx_principal ctx)) (pj_id project) (sp_kind spec))
       (\<lambda>environmentId.
     io_bind (wr_createDeployment writes (row_input_of ctx project key environmentId spec)) (\<lambda>deployment.
     io_then
       (if sp_kind spec = Preview \<and> truthy (sp_previewKey spec)
        then ensurePreviewTarget (dd_store deps)
               \<lparr> pc_organizationId = pj_organizationId project, pc_projectId = pj_id project,
                 pc_previewKey = the (sp_previewKey spec), pc_branch = sp_gitBranch spec,
                 pc_pullRequest = sp_pullRequest spec, pc_createdBy = pr_userId (cx_principal ctx) \<rparr>
        else io_return ())
       (case dd_queue deps of
          Some queue \<Rightarrow>
            enqueued ctx deps queue project key deployment
              (create_payload project deployment environmentId spec) ''deployment.enqueued''
              ([(''projectId'', JString (pj_id project)), (''idempotencyKey'', JString key)] @
               if_given ''branch'' (sp_gitBranch spec) @ if_given ''commit'' (sp_commit spec))
        | None \<Rightarrow> run_now ctx deps writes project key spec deployment))))"

definition requestDeployment ::
  "request_context \<Rightarrow> 'w deployment_deps \<Rightarrow> create_deployment_request \<Rightarrow>
   ('w, failure, deployment_request_result) eio" where
  "requestDeployment ctx deps inp =
     io_bind (authorized_project ctx (dd_store deps) (cq_projectId inp) DeploymentCreate) (\<lambda>project.
     io_bind (check_that (writesFor (dd_store deps))) (\<lambda>writes.
     io_bind (check_that (build_spec_of project inp)) (\<lambda>spec.
     io_bind (replay_or_key ctx deps writes project (cq_idempotencyKey inp)) (\<lambda>r.
       case r of
         Inl replayed \<Rightarrow> io_return replayed
       | Inr key \<Rightarrow> new_deployment ctx deps writes project spec key))))"

subsection \<open>rollbackDeployment\<close>

record rollback_request =
  rq_projectId :: string
  rq_commit :: "string option"
  rq_idempotencyKey :: "string option"

definition rollback_row ::
  "request_context \<Rightarrow> project_row \<Rightarrow> string \<Rightarrow> string option \<Rightarrow> deployment_create_input" where
  "rollback_row ctx project key environmentId =
     \<lparr> dc_organizationId = pj_organizationId project, dc_projectId = pj_id project,
       dc_idempotencyKey = key, dc_requestedBy = pr_userId (cx_principal ctx), dc_status = Pending,
       dc_provider = Some HOSTING_PROVIDER, dc_kind = Production, dc_environmentId = environmentId,
       dc_staged = False, dc_gitBranch = None, dc_gitCommit = None, dc_pullRequest = None,
       dc_previewKey = None, dc_gitRepository = None, dc_buildPack = None, dc_rootDirectory = None \<rparr>"

definition rollback_payload ::
  "project_row \<Rightarrow> deployment_row \<Rightarrow> string option \<Rightarrow> string \<Rightarrow> deployment_job_payload" where
  "rollback_payload project deployment environmentId commit =
     \<lparr> djp_deploymentId = dr_id deployment, djp_organizationId = pj_organizationId project,
       djp_projectId = pj_id project, djp_action = Rollback, djp_projectSlug = pj_slug project,
       djp_gitRepository = None, djp_gitBranch = None, djp_buildPack = None, djp_rootDirectory = None,
       djp_commit = Some commit, djp_kind = Some Production, djp_staged = Some False,
       djp_environmentId = environmentId, djp_previewKey = None \<rparr>"

definition rollback_run ::
  "'w deployment_deps \<Rightarrow> project_row \<Rightarrow> string \<Rightarrow> string \<Rightarrow> deployment_target option \<Rightarrow>
   ('w, failure, transition) eio" where
  "rollback_run deps project key commit target =
     (let actx = request_adapter_ctx project key;
          known = Option.bind target dt_providerResourceId;
          engine = deploymentEngineFor (dd_engines deps)
            (case target of None \<Rightarrow> executionModel (pj_executionModel project) | Some t \<Rightarrow> dt_executionModel t);
          t0 = untouched\<lparr> tr_providerResourceId := known \<rparr>
      in case application_ref (pj_organizationId project) (Option.bind target dt_provider) known of
           None \<Rightarrow>
             io_return (t0\<lparr> tr_status := NotConfigured, tr_failureReason := Some NOTHING_TO_ROLL_BACK \<rparr>)
         | Some application \<Rightarrow>
             io_bind (thrown (de_rollback engine actx application (Some commit))) (\<lambda>result.
               case result of
                 AErr status reason \<Rightarrow>
                   io_return (t0\<lparr> tr_status := status, tr_failureReason := Some reason \<rparr>)
               | AOk status op \<Rightarrow>
                   (let ref = op_providerRef op in
                    io_bind (thrown (de_getDeployment engine actx ref)) (\<lambda>state.
                      let t = t0\<lparr> tr_status := status, tr_providerResourceId := Some (ref_resourceId ref),
                                 tr_deploymentResourceId :=
                                   (if ref_resourceType ref = ''deployment'' then Some (ref_resourceId ref)
                                    else None) \<rparr>
                      in io_return
                           (case state of
                              AErr _ _ \<Rightarrow> t
                            | AOk _ v \<Rightarrow> t\<lparr> tr_status := ds_status v, tr_url := ds_url v \<rparr>)))))"

definition new_rollback ::
  "request_context \<Rightarrow> 'w deployment_deps \<Rightarrow> 'w deployment_writes \<Rightarrow> project_row \<Rightarrow> string \<Rightarrow> string \<Rightarrow>
   ('w, failure, deployment_request_result) eio" where
  "new_rollback ctx deps writes project commit key =
     io_then (assertWithinBudget (dd_store deps) (dd_now deps) (pj_organizationId project) ''deployments'')
    (io_bind (environmentIdFor (dd_store deps) (pr_userId (cx_principal ctx)) (pj_id project) Production)
       (\<lambda>environmentId.
     io_bind (wr_createDeployment writes (rollback_row ctx project key environmentId)) (\<lambda>deployment.
     io_bind (wr_getProjectDeploymentTarget writes (pr_userId (cx_principal ctx)) (pj_id project)) (\<lambda>target.
       case dd_queue deps of
         Some queue \<Rightarrow>
           enqueued ctx deps queue project key deployment
             (rollback_payload project deployment environmentId commit) ''deployment.rollback_enqueued''
             [(''projectId'', JString (pj_id project)), (''commit'', JString commit),
              (''idempotencyKey'', JString key)]
       | None \<Rightarrow>
           io_bind (rollback_run deps project key commit target) (\<lambda>t.
           io_bind (persistTransition writes (dd_now deps) (pj_organizationId project) deployment t) (\<lambda>settled.
           io_then (as_recordAuditEvent (dd_store deps)
               (audit_by ctx (pj_organizationId project) ''deployment.rolled_back'' ''deployment''
                 (dr_id settled)
                 [(''projectId'', JString (pj_id project)), (''status'', JString (status_name (tr_status t))),
                  (''commit'', JString commit), (''idempotencyKey'', JString key)]))
             (io_return \<lparr> rr_deployment = settled, rr_replayed = False,
                          rr_engineReason = tr_failureReason t \<rparr>)))))))"

definition rollbackDeployment ::
  "request_context \<Rightarrow> 'w deployment_deps \<Rightarrow> rollback_request \<Rightarrow> ('w, failure, deployment_request_result) eio" where
  "rollbackDeployment ctx deps inp =
     io_bind (authorized_project ctx (dd_store deps) (rq_projectId inp) DeploymentRollback) (\<lambda>project.
     io_bind (check_that (writesFor (dd_store deps))) (\<lambda>writes.
       let commit = trim (or_else (rq_commit inp) []) in
       if \<not> REF_PATTERN commit
       then io_throw (invalid_input ''A rollback needs the commit to return to.'')
       else io_bind (replay_or_key ctx deps writes project (rq_idempotencyKey inp)) (\<lambda>r.
              case r of
                Inl replayed \<Rightarrow> io_return replayed
              | Inr key \<Rightarrow> new_rollback ctx deps writes project commit key)))"

end
