(* ===== verification/Deployment_Controls.thy ===== *)
theory Deployment_Controls
  imports Deployment_Requests
begin

section \<open>apps/api/procedures/deployments.ts: lists, redeploy, cancel, promote and logs\<close>

text \<open>
  The remaining deployment procedures.  \<open>Date.parse\<close> of a cursor is a parameter: whether the
  language's parser reads the text is not modelled, only what the procedure does with the answer.
\<close>

subsection \<open>Lists\<close>

record list_input =
  li_scope :: string
  li_before :: "string option"
  li_limit :: "js_number option"

definition pageOf :: "(string \<Rightarrow> bool) \<Rightarrow> list_input \<Rightarrow> list_page_options" where
  "pageOf parses inp =
     \<lparr> lo_before = (case li_before inp of
                      Some b \<Rightarrow> if parses b then Some b else None
                    | None \<Rightarrow> None),
       lo_limit = li_limit inp \<rparr>"

definition listDeployments ::
  "(string \<Rightarrow> bool) \<Rightarrow> request_context \<Rightarrow> 'w deployment_store \<Rightarrow> list_input \<Rightarrow>
   ('w, failure, deployment_row list) eio" where
  "listDeployments parses ctx store inp =
     io_bind (authorized_project ctx store (li_scope inp) DeploymentRead) (\<lambda>_.
       st_listDeployments store (pr_userId (cx_principal ctx)) (li_scope inp) (pageOf parses inp))"

definition listOrganizationDeployments ::
  "(string \<Rightarrow> bool) \<Rightarrow> request_context \<Rightarrow> 'w deployment_store \<Rightarrow> list_input \<Rightarrow>
   ('w, failure, deployment_row list) eio" where
  "listOrganizationDeployments parses ctx store inp =
     io_then (check_that (requireCapability ctx (li_scope inp) DeploymentRead))
       (st_listOrganizationDeployments store (pr_userId (cx_principal ctx)) (li_scope inp) (pageOf parses inp))"

definition listAuditEvents ::
  "(string \<Rightarrow> bool) \<Rightarrow> request_context \<Rightarrow> 'w deployment_store \<Rightarrow> list_input \<Rightarrow>
   ('w, failure, audit_row list) eio" where
  "listAuditEvents parses ctx store inp =
     io_then (check_that (requireCapability ctx (li_scope inp) AuditRead))
       (st_listAuditEvents store (pr_userId (cx_principal ctx)) (li_scope inp) (pageOf parses inp))"

subsection \<open>Reading one deployment of a project\<close>

record deployment_input =
  di_projectId :: string
  di_deploymentId :: string

definition DEPLOYMENT_NOT_FOUND :: failure where
  "DEPLOYMENT_NOT_FOUND = ApiError NotFound ''Deployment not found.''"

text \<open>The row, if it is one of the project's; another tenant's id and an unknown one read alike.\<close>

definition deployment_of_project ::
  "request_context \<Rightarrow> (string \<Rightarrow> string \<Rightarrow> ('w, failure, deployment_row option) eio) \<Rightarrow> project_row \<Rightarrow>
   string \<Rightarrow> ('w, failure, deployment_row) eio" where
  "deployment_of_project ctx read project deploymentId =
     io_bind (read (pr_userId (cx_principal ctx)) deploymentId) (\<lambda>found.
       case found of
         None \<Rightarrow> io_throw DEPLOYMENT_NOT_FOUND
       | Some row \<Rightarrow>
           if dr_projectId row \<noteq> pj_id project then io_throw DEPLOYMENT_NOT_FOUND else io_return row)"

subsection \<open>redeployDeployment\<close>

definition redeploy_request :: "project_row \<Rightarrow> string option \<Rightarrow> deployment_row \<Rightarrow> create_deployment_request" where
  "redeploy_request project idempotencyKey source =
     \<lparr> cq_projectId = pj_id project, cq_idempotencyKey = if_truthy idempotencyKey,
       cq_gitRepository = if_truthy (dr_gitRepository source), cq_gitBranch = if_truthy (dr_gitBranch source),
       cq_commit = None, cq_buildPack = if_truthy (dr_buildPack source),
       cq_rootDirectory = map_option Some (if_truthy (dr_rootDirectory source)),
       cq_kind = Some (case dr_kind source of Production \<Rightarrow> ''production'' | Preview \<Rightarrow> ''preview''),
       cq_staged = dr_staged source, cq_pullRequest = map_option of_int (dr_pullRequest source) \<rparr>"

definition redeployDeployment ::
  "request_context \<Rightarrow> 'w deployment_deps \<Rightarrow> deployment_input \<Rightarrow> string option \<Rightarrow>
   ('w, failure, deployment_request_result) eio" where
  "redeployDeployment ctx deps inp idempotencyKey =
     io_bind (authorized_project ctx (dd_store deps) (di_projectId inp) DeploymentCreate) (\<lambda>project.
     io_then (check_that (writesFor (dd_store deps)))
       (case st_getDeployment (dd_store deps) of
          None \<Rightarrow> io_throw (unavailable_yet ''read a deployment'')
        | Some read \<Rightarrow>
            io_bind (deployment_of_project ctx read project (di_deploymentId inp)) (\<lambda>source.
              if \<not> truthy (dr_gitRepository source) \<and> \<not> truthy (dr_gitBranch source)
              then io_throw (ApiError Conflict
                ''This deployment recorded no source to replay. Deploy with an explicit repository instead.'')
              else requestDeployment ctx deps (redeploy_request project idempotencyKey source))))"

subsection \<open>cancelDeployment\<close>

record cancel_result =
  cn_deployment :: deployment_row
  cn_engineReason :: "string option"

definition NEVER_REACHED :: string where
  "NEVER_REACHED = ''This deployment never reached the hosting engine, so there was no build to cancel.''"

definition CANCELLED_BY_CUSTOMER :: string where
  "CANCELLED_BY_CUSTOMER = ''Cancelled by the customer.''"

definition cancel_write ::
  "string \<Rightarrow> deployment_row \<Rightarrow> engine_status \<Rightarrow> string \<Rightarrow> millis \<Rightarrow> millis option \<Rightarrow> deployment_status_input" where
  "cancel_write organizationId row status reason startedAt finishedAt =
     \<lparr> du_id = dr_id row, du_organizationId = organizationId, du_status = status,
       du_url = Some (dr_url row), du_failureReason = Some (Some reason),
       du_providerResourceId = dr_providerResourceId row,
       du_deploymentResourceId = dr_deploymentResourceId row, du_buildProviderResourceId = None,
       du_buildProvider = None, du_startedAt = Some (Some startedAt), du_finishedAt = Some finishedAt \<rparr>"

text \<open>The cancellation at the engine: \<open>Inl\<close> its refusal, \<open>Inr\<close> the reason the row is closed with.\<close>

definition cancel_at_engine ::
  "'w deployment_deps \<Rightarrow> project_row \<Rightarrow> deployment_row \<Rightarrow> ('w, failure, string + string) eio" where
  "cancel_at_engine deps project row =
     (let engine = deploymentEngineFor (dd_engines deps) (executionModel (pj_executionModel project)) in
      if \<not> truthy (dr_deploymentResourceId row) then io_return (Inr NEVER_REACHED)
      else io_bind (thrown (de_cancel engine
               \<lparr> ac_organizationId = pj_organizationId project,
                 ac_idempotencyKey = ''cancel-'' @ dr_id row, ac_timeoutMs = ADAPTER_TIMEOUT_MS \<rparr>
               \<lparr> ref_organizationId = pj_organizationId project,
                 ref_provider = (if de_model engine = Serverless then SERVERLESS_PROVIDER else HOSTING_PROVIDER),
                 ref_resourceType = ''deployment'', ref_resourceId = the (dr_deploymentResourceId row) \<rparr>))
             (\<lambda>result. io_return (case result of
                AErr _ reason \<Rightarrow> Inl reason
              | AOk _ _ \<Rightarrow> Inr CANCELLED_BY_CUSTOMER)))"

text \<open>What the row is closed with, or told why it is not.\<close>

definition close_cancelled ::
  "request_context \<Rightarrow> 'w deployment_deps \<Rightarrow> 'w deployment_writes \<Rightarrow> project_row \<Rightarrow> deployment_row \<Rightarrow>
   string + string \<Rightarrow> ('w, failure, cancel_result) eio" where
  "close_cancelled ctx deps writes project row asked =
     (case asked of
        Inl reason \<Rightarrow>
          io_bind (io_get (dd_now deps)) (\<lambda>now.
          io_bind (wr_updateDeploymentStatus writes
            (cancel_write (pj_organizationId project) row (dr_status row) reason now None)) (\<lambda>unchanged.
            io_return \<lparr> cn_deployment = or_else unchanged row, cn_engineReason = Some reason \<rparr>))
      | Inr reason \<Rightarrow>
          io_bind (io_get (dd_now deps)) (\<lambda>now.
          io_bind (wr_updateDeploymentStatus writes
            (cancel_write (pj_organizationId project) row Failed reason now (Some now))) (\<lambda>updated.
          io_then (as_recordAuditEvent (dd_store deps)
            (audit_by ctx (pj_organizationId project) ''deployment.cancelled'' ''deployment'' (dr_id row)
              [(''projectId'', JString (pj_id project)),
               (''status'', JString (case updated of None \<Rightarrow> ''failed''
                                                   | Some u \<Rightarrow> status_name (dr_status u)))]))
            (io_return \<lparr> cn_deployment = or_else updated row, cn_engineReason = Some reason \<rparr>))))"

definition cancelDeployment ::
  "request_context \<Rightarrow> 'w deployment_deps \<Rightarrow> deployment_input \<Rightarrow> ('w, failure, cancel_result) eio" where
  "cancelDeployment ctx deps inp =
     io_bind (authorized_project ctx (dd_store deps) (di_projectId inp) DeploymentCancel) (\<lambda>project.
     io_bind (check_that (writesFor (dd_store deps))) (\<lambda>writes.
       case st_getDeployment (dd_store deps) of
         None \<Rightarrow> io_throw (unavailable_yet ''read a deployment'')
       | Some read \<Rightarrow>
           io_bind (deployment_of_project ctx read project (di_deploymentId inp)) (\<lambda>row.
             if dr_status row \<noteq> Pending \<and> dr_status row \<noteq> Running
             then io_throw (ApiError Conflict
               (''Only a pending or running deployment can be cancelled; this one is '' @
                status_name (dr_status row) @ ''.''))
             else io_bind (cancel_at_engine deps project row) (close_cancelled ctx deps writes project row))))"

subsection \<open>promoteDeployment\<close>

record promote_outcome =
  po_deployment :: deployment_row
  po_previousDeploymentId :: "string option"

definition promotable_row :: "deployment_row \<Rightarrow> failure + unit" where
  "promotable_row row =
     (if dr_kind row \<noteq> Production
      then Inl (ApiError Conflict
        ''Only a production deployment can be live. A preview has its own URL and is never promoted.'')
      else if dr_status row \<noteq> Succeeded
      then Inl (ApiError Conflict
        (''Only a succeeded deployment can be promoted; this one is '' @ status_name (dr_status row) @ ''.''))
      else Inr ())"

definition promote_procedure ::
  "request_context \<Rightarrow> 'w deployment_deps \<Rightarrow> deployment_input \<Rightarrow> ('w, failure, promote_outcome) eio" where
  "promote_procedure ctx deps inp =
     io_bind (authorized_project ctx (dd_store deps) (di_projectId inp) DeploymentRollback) (\<lambda>project.
     io_then (check_that (writesFor (dd_store deps)))
       (case st_getDeployment (dd_store deps) of
          None \<Rightarrow> io_throw (unavailable_yet ''read a deployment'')
        | Some read \<Rightarrow>
           (case st_promoteDeployment (dd_store deps) of
              None \<Rightarrow> io_throw (unavailable_yet ''move a production pointer'')
            | Some promote \<Rightarrow>
                io_bind (deployment_of_project ctx read project (di_deploymentId inp)) (\<lambda>row.
                io_then (check_that (promotable_row row))
               (io_bind (promote (pj_organizationId project) (pj_id project) (dr_id row)) (\<lambda>result.
                  case pm_deployment result of
                    None \<Rightarrow> io_throw (ApiError Conflict ''The production pointer could not be moved.'')
                  | Some live \<Rightarrow>
                      io_then (as_recordAuditEvent (dd_store deps)
                        (audit_by ctx (pj_organizationId project) ''deployment.promoted'' ''deployment'' (dr_id row)
                          [(''projectId'', JString (pj_id project)),
                           (''previousDeploymentId'',
                             case pm_previousDeploymentId result of None \<Rightarrow> JNull | Some p \<Rightarrow> JString p)]))
                        (io_return \<lparr> po_deployment = live,
                                     po_previousDeploymentId = pm_previousDeploymentId result \<rparr>)))))))"

subsection \<open>deploymentsLogs\<close>

datatype log_source = LogBuild | LogDeployment | LogApplication

record logs_result =
  lg_lines :: "string list"
  lg_cursor :: "string option"
  lg_source :: "log_source option"
  lg_engineReason :: "string option"

definition no_lines :: "log_source option \<Rightarrow> string \<Rightarrow> logs_result" where
  "no_lines source reason =
     \<lparr> lg_lines = [], lg_cursor = None, lg_source = source, lg_engineReason = Some reason \<rparr>"

fun logs_of :: "log_source \<Rightarrow> log_page adapter_result \<Rightarrow> logs_result" where
  "logs_of source (AOk _ page) =
     \<lparr> lg_lines = lp_lines page, lg_cursor = lp_cursor page, lg_source = Some source, lg_engineReason = None \<rparr>"
| "logs_of source (AErr _ reason) = no_lines (Some source) reason"

text \<open>Where the runtime's log is: the run, if the row has its handle, else the application.\<close>

definition runtime_log_ref ::
  "project_row \<Rightarrow> deployment_row option \<Rightarrow> deployment_target option \<Rightarrow>
   execution_model \<times> (provider_ref \<times> log_source) option" where
  "runtime_log_ref project found target =
     (let model = (case target of None \<Rightarrow> executionModel (pj_executionModel project)
                                | Some t \<Rightarrow> dt_executionModel t);
          provider = (if model = Serverless then SERVERLESS_PROVIDER else HOSTING_PROVIDER);
          handle = Option.bind found dr_deploymentResourceId;
          application = Option.bind target dt_providerResourceId
      in (model,
          if truthy handle
          then Some (\<lparr> ref_organizationId = pj_organizationId project, ref_provider = provider,
                       ref_resourceType = ''deployment'', ref_resourceId = the handle \<rparr>, LogDeployment)
          else if truthy application
          then Some (\<lparr> ref_organizationId = pj_organizationId project,
                       ref_provider = or_else (Option.bind target dt_provider) provider,
                       ref_resourceType = ''application'', ref_resourceId = the application \<rparr>, LogApplication)
          else None))"

definition log_ctx :: "project_row \<Rightarrow> string \<Rightarrow> string \<Rightarrow> adapter_context" where
  "log_ctx project tag deploymentId =
     \<lparr> ac_organizationId = pj_organizationId project, ac_idempotencyKey = tag @ deploymentId,
       ac_timeoutMs = ADAPTER_TIMEOUT_MS \<rparr>"

definition deploymentsLogs ::
  "request_context \<Rightarrow> 'w deployment_deps \<Rightarrow> deployment_input \<Rightarrow> string option \<Rightarrow>
   ('w, failure, logs_result) eio" where
  "deploymentsLogs ctx deps inp cursor =
     io_bind (authorized_project ctx (dd_store deps) (di_projectId inp) DeploymentRead) (\<lambda>project.
     io_bind (check_that (writesFor (dd_store deps))) (\<lambda>writes.
     io_bind (case st_getDeployment (dd_store deps) of
                None \<Rightarrow> io_return None
              | Some read \<Rightarrow> read (pr_userId (cx_principal ctx)) (di_deploymentId inp)) (\<lambda>found.
     io_bind (wr_getProjectDeploymentTarget writes (pr_userId (cx_principal ctx)) (pj_id project)) (\<lambda>target.
       let built = Option.bind found dr_buildProviderResourceId in
       if truthy built
       then io_bind (thrown (be_getBuildLogs (eg_build (dd_engines deps))
                (log_ctx project ''build-logs-'' (di_deploymentId inp))
                \<lparr> ref_organizationId = pj_organizationId project,
                  ref_provider = or_else (Option.bind found dr_buildProvider) SERVERLESS_PROVIDER,
                  ref_resourceType = ''build'', ref_resourceId = the built \<rparr> cursor)) (\<lambda>page.
              io_return (logs_of LogBuild page))
       else (case runtime_log_ref project found target of
               (model, None) \<Rightarrow>
                 io_return (no_lines None
                   ''This project has no application on the hosting engine yet, so it has no logs.'')
             | (model, Some (ref, source)) \<Rightarrow>
                 io_bind (thrown (de_getLogs (deploymentEngineFor (dd_engines deps) model)
                    (log_ctx project ''logs-'' (di_deploymentId inp)) ref cursor)) (\<lambda>page.
                   io_return (logs_of source page)))))))"

end
