(* ===== verification/Git_Links.thy ===== *)
theory Git_Links
  imports Deployment_Controls
begin

section \<open>apps/api/procedures/git-links.ts and packages/auth/secrets.ts: connected repositories\<close>

text \<open>
  Connecting a repository, listing and removing links, the manual deploy of a link, and the
  verification of a webhook delivery.  The cipher and the HMAC are parameters: node's cryptography.
  What the code does with them, the decoding of the presented signature and the comparison, is
  modelled.
\<close>

subsection \<open>secrets.ts: comparing what was presented\<close>

text \<open>A presented signature is decoded as an API key's digest is, by \<open>Buffer.from(s, "hex")\<close>.\<close>

definition after_equals :: "string \<Rightarrow> string" where
  "after_equals s = (if CHR ''='' \<in> set s then tl (dropWhile (\<lambda>c. c \<noteq> CHR ''='') s) else s)"

definition signatureMatches :: "string \<Rightarrow> string option \<Rightarrow> bool" where
  "signatureMatches expectedHex presented =
     (if \<not> truthy presented then False
      else (let candidate = from_hex (to_lower (trim (after_equals (the presented))));
                expected = from_hex (to_lower expectedHex)
            in candidate \<noteq> [] \<and> candidate = expected))"

text \<open>The bytes of two strings are equal exactly if the strings are.\<close>

definition tokenMatches :: "string \<Rightarrow> string option \<Rightarrow> bool" where
  "tokenMatches secret presented = (truthy presented \<and> the presented = secret)"

definition secretPrefix :: "string \<Rightarrow> string" where
  "secretPrefix secret = ''whsec_'' @ take 4 secret"

record 'w secret_box =
  sx_encrypt :: "string \<Rightarrow> ('w, failure, string) eio"
  sx_decrypt :: "string \<Rightarrow> string option"

subsection \<open>Links\<close>

datatype git_provider = Github | Gitlab | Bitbucket | Generic

fun provider_of_name :: "string \<Rightarrow> git_provider option" where
  "provider_of_name s =
     (if s = ''github'' then Some Github else if s = ''gitlab'' then Some Gitlab
      else if s = ''bitbucket'' then Some Bitbucket else if s = ''generic'' then Some Generic else None)"

fun provider_name_of :: "git_provider \<Rightarrow> string" where
  "provider_name_of Github = ''github''"
| "provider_name_of Gitlab = ''gitlab''"
| "provider_name_of Bitbucket = ''bitbucket''"
| "provider_name_of Generic = ''generic''"

record git_link =
  gl_id :: string
  gl_organizationId :: string
  gl_projectId :: string
  gl_provider :: git_provider
  gl_repository :: string
  gl_productionBranch :: string
  gl_previewsEnabled :: bool
  gl_secretPrefix :: string
  gl_createdBy :: string

fun cloneUrlFor :: "git_provider \<Rightarrow> string \<Rightarrow> string option" where
  "cloneUrlFor Github repository = Some (''https://github.com/'' @ repository @ ''.git'')"
| "cloneUrlFor Gitlab repository = Some (''https://gitlab.com/'' @ repository @ ''.git'')"
| "cloneUrlFor Bitbucket repository = Some (''https://bitbucket.org/'' @ repository @ ''.git'')"
| "cloneUrlFor Generic repository = None"

text \<open>\<open>createGitLink\<close> takes the link and the ciphertext of its secret.\<close>

record 'w git_store = "'w deployment_store" +
  gt_listGitLinks :: "string \<Rightarrow> string \<Rightarrow> ('w, failure, git_link list) eio"
  gt_createGitLink :: "(git_link \<Rightarrow> string \<Rightarrow> ('w, failure, git_link) eio) option"
  gt_getGitLinkForService :: "(string \<Rightarrow> string \<Rightarrow> ('w, failure, git_link option) eio) option"
  gt_getGitLinkSecret :: "(string \<Rightarrow> string \<Rightarrow> ('w, failure, string option) eio) option"
  gt_deleteGitLink :: "(string \<Rightarrow> string \<Rightarrow> string \<Rightarrow> ('w, failure, bool) eio) option"
  gt_getProjectForService :: "(string \<Rightarrow> string \<Rightarrow> ('w, failure, project_row option) eio) option"
  gt_findDeploymentByIdempotencyKeyForService ::
    "(string \<Rightarrow> string \<Rightarrow> ('w, failure, deployment_row option) eio) option"
  gt_listEnvironmentsForService :: "(string \<Rightarrow> string \<Rightarrow> ('w, failure, environment_row list) eio) option"

record 'w git_link_deps =
  gd_store :: "'w git_store"
  gd_newId :: "('w, failure, string) eio"
  gd_cipher :: "'w secret_box option"
  gd_newSecret :: "('w, failure, string) eio"

definition missing_git_writes :: "('w, 'z) git_store_scheme \<Rightarrow> string list" where
  "missing_git_writes store = map snd (filter (\<lambda>(missing, _). missing)
     [(gt_createGitLink store = None, ''createGitLink''),
      (gt_getGitLinkForService store = None, ''getGitLinkForService''),
      (gt_getGitLinkSecret store = None, ''getGitLinkSecret''),
      (gt_deleteGitLink store = None, ''deleteGitLink'')])"

definition git_writesFor :: "('w, 'z) git_store_scheme \<Rightarrow> failure + unit" where
  "git_writesFor store =
     (if missing_git_writes store \<noteq> []
      then Inl (unavailable_yet (''record '' @ join_with '', '' (missing_git_writes store)))
      else Inr ())"

subsection \<open>Names\<close>

text \<open>\<open>replace(/^https?:[/][/][^/]+[/]/, "")\<close>: a scheme, a host, and the slash after it.\<close>

definition drop_scheme_host :: "string \<Rightarrow> string" where
  "drop_scheme_host s =
     (case find (\<lambda>p. take (length p) s = p) [''https://'', ''http://''] of
        None \<Rightarrow> s
      | Some p \<Rightarrow>
          (let tail = drop (length p) s; host = takeWhile (\<lambda>c. c \<noteq> CHR ''/'') tail;
               path = dropWhile (\<lambda>c. c \<noteq> CHR ''/'') tail
           in if host \<noteq> [] \<and> path \<noteq> [] then tl path else s))"

definition drop_git_suffix :: "string \<Rightarrow> string" where
  "drop_git_suffix s = (if 4 \<le> length s \<and> drop (length s - 4) s = ''.git'' then take (length s - 4) s else s)"

definition strip_slashes :: "string \<Rightarrow> string" where
  "strip_slashes s = drop_trailing_slashes (dropWhile (\<lambda>c. c = CHR ''/'') s)"

definition repository_char :: "char \<Rightarrow> bool" where
  "repository_char c \<longleftrightarrow> is_lower c \<or> is_digit c \<or> c \<in> {CHR ''.'', CHR ''_'', CHR ''-''}"

definition REPOSITORY_PATTERN :: "string \<Rightarrow> bool" where
  "REPOSITORY_PATTERN s \<longleftrightarrow>
     (case split_on (CHR ''/'') s of
        [owner, repo] \<Rightarrow> owner \<noteq> [] \<and> repo \<noteq> [] \<and> list_all repository_char owner \<and> list_all repository_char repo
      | _ \<Rightarrow> False)"

definition normaliseRepository :: "string \<Rightarrow> failure + string" where
  "normaliseRepository presented =
     (let repository = strip_slashes (drop_git_suffix (drop_scheme_host (to_lower (trim presented))))
      in if \<not> REPOSITORY_PATTERN repository
         then Inl (invalid_input ''Repository must be in the form owner/name.'') else Inr repository)"

definition normaliseBranch :: "string \<Rightarrow> string \<Rightarrow> failure + string" where
  "normaliseBranch presented label =
     (let branch = trim presented
      in if \<not> REF_PATTERN branch then Inl (invalid_input (label @ '' is not a valid git branch.''))
         else Inr branch)"

subsection \<open>Connecting, listing, disconnecting\<close>

record connect_input =
  ct_projectId :: string
  ct_provider :: string
  ct_repository :: string
  ct_productionBranch :: "string option"
  ct_previewsEnabled :: bool

definition connectGitLink ::
  "request_context \<Rightarrow> 'w git_link_deps \<Rightarrow> connect_input \<Rightarrow> ('w, failure, git_link \<times> string) eio" where
  "connectGitLink ctx deps inp =
     io_bind (authorized_project ctx (gd_store deps) (ct_projectId inp) ProjectUpdate) (\<lambda>project.
       case gd_cipher deps of
         None \<Rightarrow> io_throw (ApiError EngineUnavailable
           ''Set CLOUD_WAI_SECRET_ENCRYPTION_KEY to store a webhook secret for this repository.'')
       | Some box \<Rightarrow>
          (case provider_of_name (ct_provider inp) of
             None \<Rightarrow> io_throw (invalid_input ''Unknown git provider.'')
           | Some provider \<Rightarrow>
              io_bind (check_that (normaliseRepository (ct_repository inp))) (\<lambda>repository.
              io_bind (check_that (normaliseBranch (or_else (ct_productionBranch inp) ''main'')
                                     ''Production branch'')) (\<lambda>productionBranch.
              io_bind (gt_listGitLinks (gd_store deps) (pr_userId (cx_principal ctx)) (pj_id project)) (\<lambda>existing.
                if list_ex (\<lambda>l. gl_provider l = provider \<and> gl_repository l = repository) existing
                then io_throw (ApiError Conflict ''That repository is already linked to this project.'')
                else io_then (check_that (git_writesFor (gd_store deps)))
                    (io_bind (gd_newSecret deps) (\<lambda>secret.
                     io_bind (gd_newId deps) (\<lambda>newId.
                     io_bind (sx_encrypt box secret) (\<lambda>ciphertext.
                     io_bind (the (gt_createGitLink (gd_store deps))
                       \<lparr> gl_id = newId, gl_organizationId = pj_organizationId project,
                         gl_projectId = pj_id project, gl_provider = provider, gl_repository = repository,
                         gl_productionBranch = productionBranch, gl_previewsEnabled = ct_previewsEnabled inp,
                         gl_secretPrefix = secretPrefix secret, gl_createdBy = pr_userId (cx_principal ctx) \<rparr>
                       ciphertext) (\<lambda>link.
                     io_then (as_recordAuditEvent (gd_store deps)
                       (audit_by ctx (pj_organizationId project) ''git.linked'' ''project_git_link'' (gl_id link)
                         [(''projectId'', JString (pj_id project)),
                          (''provider'', JString (provider_name_of provider)),
                          (''repository'', JString repository)]))
                       (io_return (link, secret))))))))))))"

definition listGitLinks ::
  "request_context \<Rightarrow> 'w git_link_deps \<Rightarrow> string \<Rightarrow> ('w, failure, git_link list) eio" where
  "listGitLinks ctx deps projectId =
     io_bind (authorized_project ctx (gd_store deps) projectId ProjectRead) (\<lambda>project.
       gt_listGitLinks (gd_store deps) (pr_userId (cx_principal ctx)) (pj_id project))"

definition disconnectGitLink ::
  "request_context \<Rightarrow> 'w git_link_deps \<Rightarrow> string \<Rightarrow> string \<Rightarrow> ('w, failure, bool) eio" where
  "disconnectGitLink ctx deps projectId linkId =
     io_bind (authorized_project ctx (gd_store deps) projectId ProjectUpdate) (\<lambda>project.
     io_then (check_that (git_writesFor (gd_store deps)))
    (io_bind (the (gt_deleteGitLink (gd_store deps)) (pr_userId (cx_principal ctx))
               (pj_organizationId project) linkId) (\<lambda>removed.
     io_then
       (if removed
        then as_recordAuditEvent (gd_store deps)
               (audit_by ctx (pj_organizationId project) ''git.unlinked'' ''project_git_link'' linkId
                 [(''projectId'', JString (pj_id project))])
        else io_return ())
       (io_return removed))))"

definition deploymentSourceForProject ::
  "'w git_link_deps \<Rightarrow> string \<Rightarrow> string \<Rightarrow> ('w, failure, (string \<times> string) option) eio" where
  "deploymentSourceForProject deps userId projectId =
     io_bind (gt_listGitLinks (gd_store deps) userId projectId) (\<lambda>links.
       io_return (case links of
          [] \<Rightarrow> None
        | link # _ \<Rightarrow> map_option (\<lambda>url. (url, gl_productionBranch link))
            (cloneUrlFor (gl_provider link) (gl_repository link))))"

definition deployFromLink ::
  "request_context \<Rightarrow> 'w git_link_deps \<Rightarrow>
   (request_context \<Rightarrow> create_deployment_request \<Rightarrow> ('w, failure, deployment_request_result) eio) \<Rightarrow>
   string \<Rightarrow> string option \<Rightarrow> ('w, failure, deployment_request_result) eio" where
  "deployFromLink ctx deps deploy projectId idempotencyKey =
     io_bind (authorized_project ctx (gd_store deps) projectId DeploymentCreate) (\<lambda>project.
     io_bind (deploymentSourceForProject deps (pr_userId (cx_principal ctx)) (pj_id project)) (\<lambda>source.
       case source of
         None \<Rightarrow> io_throw (invalid_input
           (''Connect a repository to this project first, or deploy with an explicit repository '' @
            ''from the Deployments page.''))
       | Some (repository, branch) \<Rightarrow>
           deploy ctx \<lparr> cq_projectId = pj_id project, cq_idempotencyKey = if_truthy idempotencyKey,
             cq_gitRepository = Some repository, cq_gitBranch = Some branch, cq_commit = None,
             cq_buildPack = None, cq_rootDirectory = None, cq_kind = Some ''production'',
             cq_staged = False, cq_pullRequest = None \<rparr>))"

subsection \<open>Verifying a delivery\<close>

datatype delivery_refusal = UnknownLink | CipherNotConfigured | BadSignature

record delivery_input =
  dv_organizationId :: string
  dv_linkId :: string
  dv_body :: string
  dv_signature :: "string option"
  dv_token :: "string option"

definition verifyGitDelivery ::
  "(string \<Rightarrow> string \<Rightarrow> string) \<Rightarrow> ('w, 'z) git_store_scheme \<Rightarrow> 'w secret_box option \<Rightarrow> delivery_input \<Rightarrow>
   ('w, failure, delivery_refusal + git_link) eio" where
  "verifyGitDelivery hmac store cipher inp =
     (case cipher of
        None \<Rightarrow> io_return (Inl CipherNotConfigured)
      | Some box \<Rightarrow>
         (case (gt_getGitLinkForService store, gt_getGitLinkSecret store) of
            (Some get_link, Some get_secret) \<Rightarrow>
              io_bind (get_link (dv_organizationId inp) (dv_linkId inp)) (\<lambda>found.
                case found of
                  None \<Rightarrow> io_return (Inl UnknownLink)
                | Some link \<Rightarrow>
                    io_bind (get_secret (dv_organizationId inp) (dv_linkId inp)) (\<lambda>ciphertext.
                      if \<not> truthy ciphertext then io_return (Inl UnknownLink)
                      else case sx_decrypt box (the ciphertext) of
                        None \<Rightarrow> io_return (Inl CipherNotConfigured)
                      | Some secret \<Rightarrow>
                          if signatureMatches (hmac secret (dv_body inp)) (dv_signature inp) \<or>
                             tokenMatches secret (dv_token inp)
                          then io_return (Inr link) else io_return (Inl BadSignature)))
          | _ \<Rightarrow> io_throw (ApiError EngineUnavailable
                   ''This deployment cannot verify a webhook delivery.'')))"

end
