(* ===== verification/Git_Hook.thy ===== *)
theory Git_Hook
  imports Git_Links
begin

section \<open>apps/api/git-hook.ts: the webhook receiver\<close>

text \<open>
  A delivery is parsed to a branch, a commit and a pull request, verified against its link, and
  deployed: a row and a job, or an answer that says why not.  \<open>parse\<close> is the language's
  \<open>JSON.parse\<close>, with \<open>None\<close> for text that is not JSON; a property that is present with any value is not
  \<open>undefined\<close>.
\<close>

subsection \<open>parseGitDelivery\<close>

fun asRecord :: "json option \<Rightarrow> json option" where
  "asRecord (Some (JObject entries)) = Some (JObject entries)"
| "asRecord _ = None"

fun stringAt :: "json option \<Rightarrow> string option" where
  "stringAt (Some (JString s)) = (if s \<noteq> [] then Some s else None)"
| "stringAt _ = None"

fun numberAt :: "json option \<Rightarrow> js_number option" where
  "numberAt (Some (JNumber n)) = Some n"
| "numberAt _ = None"

fun firstOf :: "json option \<Rightarrow> json option" where
  "firstOf (Some (JArray (x # _))) = Some x"
| "firstOf _ = None"

text \<open>\<open>a ?? b\<close> on nullable values.\<close>

fun orelse_opt :: "'a option \<Rightarrow> 'a option \<Rightarrow> 'a option" where
  "orelse_opt (Some x) _ = Some x"
| "orelse_opt None y = y"

definition has_text :: "string \<Rightarrow> string \<Rightarrow> bool" where
  "has_text needle s \<longleftrightarrow> list_ex (\<lambda>n. take (length needle) (drop n s) = needle) [0..<Suc (length s)]"

record parsed_delivery =
  pd_branch :: "string option"
  pd_commit :: "string option"
  pd_pullRequest :: "int option"
  pd_event :: string
  pd_isPullRequest :: bool

definition unknown_delivery :: parsed_delivery where
  "unknown_delivery = \<lparr> pd_branch = None, pd_commit = None, pd_pullRequest = None,
     pd_event = ''unknown'', pd_isPullRequest = False \<rparr>"

definition BRANCH_REF :: string where
  "BRANCH_REF = ''refs/heads/''"

definition commit_hash :: "string \<Rightarrow> bool" where
  "commit_hash s \<longleftrightarrow> 7 \<le> length s \<and> length s \<le> 40 \<and> list_all (\<lambda>c. hex_value c \<noteq> None) s \<and>
     \<not> list_all (\<lambda>c. c = CHR ''0'') s"

definition parsed_pull_request :: "json option \<Rightarrow> parsed_delivery" where
  "parsed_pull_request doc =
     (let pr = asRecord (field ''pull_request'' doc);
          mr = asRecord (field ''object_attributes'' doc);
          bb = asRecord (field ''pullrequest'' doc);
          number = orelse_opt (numberAt (field ''number'' pr))
                     (orelse_opt (numberAt (field ''iid'' mr)) (numberAt (field ''id'' bb)));
          branch = orelse_opt (stringAt (field ''ref'' (asRecord (field ''head'' pr))))
                     (orelse_opt (stringAt (field ''source_branch'' mr))
                       (stringAt (field ''name'' (asRecord (field ''branch'' (asRecord (field ''source'' bb)))))));
          commit = orelse_opt (stringAt (field ''sha'' (asRecord (field ''head'' pr))))
                     (orelse_opt (stringAt (field ''id'' (asRecord (field ''last_commit'' mr))))
                       (stringAt (field ''hash'' (asRecord (field ''commit'' (asRecord (field ''source'' bb)))))))
      in \<lparr> pd_branch = branch, pd_commit = commit,
           pd_pullRequest = (case number of Some n \<Rightarrow> if n > 0 then Some \<lfloor>n\<rfloor> else None | None \<Rightarrow> None),
           pd_event = ''pull_request'', pd_isPullRequest = True \<rparr>)"

definition parsed_push :: "string \<Rightarrow> json option \<Rightarrow> parsed_delivery" where
  "parsed_push event doc =
     (let ref = stringAt (field ''ref'' doc);
          named = (case ref of
                     Some r \<Rightarrow> if take (length BRANCH_REF) r = BRANCH_REF
                              then Some (drop (length BRANCH_REF) r) else None
                   | None \<Rightarrow> None);
          branch = orelse_opt named
                     (stringAt (field ''name'' (asRecord (field ''new''
                       (asRecord (firstOf (field ''changes'' (asRecord (field ''push'' doc)))))))));
          after = stringAt (field ''after'' doc)
      in \<lparr> pd_branch = branch,
           pd_commit = (case after of Some a \<Rightarrow> if commit_hash a then Some a else None | None \<Rightarrow> None),
           pd_pullRequest = None, pd_event = (if event = ''unknown'' then ''push'' else event),
           pd_isPullRequest = False \<rparr>)"

definition parseGitDelivery :: "(string \<Rightarrow> json option) \<Rightarrow> string option \<Rightarrow> string \<Rightarrow> parsed_delivery" where
  "parseGitDelivery parse eventHeader body =
     (case asRecord (parse body) of
        None \<Rightarrow> unknown_delivery
      | Some doc \<Rightarrow>
          (let objectKind = stringAt (field ''object_kind'' (Some doc));
               event = to_lower (or_else (orelse_opt eventHeader objectKind) ''unknown'')
           in if has_text ''pull_request'' event \<or> has_text ''pullrequest'' event \<or>
                 objectKind = Some ''merge_request'' \<or> field ''pull_request'' (Some doc) \<noteq> None \<or>
                 field ''pullrequest'' (Some doc) \<noteq> None
              then parsed_pull_request (Some doc) else parsed_push event (Some doc)))"

subsection \<open>deployFromDelivery\<close>

record hook_outcome =
  ho_status :: nat
  ho_ok :: bool
  ho_reason :: "string option"

definition outcome :: "nat \<Rightarrow> bool \<Rightarrow> string \<Rightarrow> hook_outcome" where
  "outcome status accepted reason = \<lparr> ho_status = status, ho_ok = accepted, ho_reason = Some reason \<rparr>"

record 'w hook_deps =
  hd_store :: "'w git_store"
  hd_queue :: "('w, deployment_job_payload) queue_port"
  hd_cipher :: "'w secret_box option"
  hd_now :: "'w \<Rightarrow> millis"

definition missing_hook_writes :: "('w, 'z) git_store_scheme \<Rightarrow> string list" where
  "missing_hook_writes store = map snd (filter (\<lambda>(missing, _). missing)
     [(gt_getGitLinkForService store = None, ''getGitLinkForService''),
      (gt_getProjectForService store = None, ''getProjectForService''),
      (st_createDeployment store = None, ''createDeployment''),
      (gt_findDeploymentByIdempotencyKeyForService store = None, ''findDeploymentByIdempotencyKeyForService'')])"

definition hook_writesFor :: "('w, 'z) git_store_scheme \<Rightarrow> failure + unit" where
  "hook_writesFor store =
     (if missing_hook_writes store \<noteq> []
      then Inl (OtherError (''This deployment cannot receive a webhook: it cannot '' @
             join_with '', '' (missing_hook_writes store) @ ''.''))
      else Inr ())"

definition environmentIdForHook ::
  "('w, 'z) git_store_scheme \<Rightarrow> string \<Rightarrow> string \<Rightarrow> build_kind \<Rightarrow> ('w, failure, string option) eio" where
  "environmentIdForHook store organizationId projectId kind =
     (case gt_listEnvironmentsForService store of
        None \<Rightarrow> io_return None
      | Some list_environments \<Rightarrow>
          io_bind (list_environments organizationId projectId) (\<lambda>environments.
            io_return (map_option en_id
              (find (\<lambda>e. kind_of_environment (en_kind e) = Some kind) environments))))"

definition delivery_kind :: "git_link \<Rightarrow> parsed_delivery \<Rightarrow> build_kind" where
  "delivery_kind link d =
     (if pd_pullRequest d \<noteq> None \<or> pd_branch d \<noteq> Some (gl_productionBranch link) then Preview else Production)"

definition delivery_key :: "git_link \<Rightarrow> parsed_delivery \<Rightarrow> string" where
  "delivery_key link d =
     ''webhook:'' @ gl_id link @ '':'' @
     (case pd_pullRequest d of
        Some n \<Rightarrow> ''pr-'' @ show_int n
      | None \<Rightarrow> ''branch-'' @ or_else (pd_branch d) ''null'') @ '':'' @ or_else (pd_commit d) ''latest''"

definition delivery_preview_key :: "git_link \<Rightarrow> parsed_delivery \<Rightarrow> string option" where
  "delivery_preview_key link d =
     (if delivery_kind link d = Preview
      then Some (previewKeyFor (pd_pullRequest d) (pd_branch d) (pd_commit d)) else None)"

definition delivery_row ::
  "git_link \<Rightarrow> project_row \<Rightarrow> parsed_delivery \<Rightarrow> string \<Rightarrow> string option \<Rightarrow> deployment_create_input" where
  "delivery_row link project d gitRepository environmentId =
     \<lparr> dc_organizationId = gl_organizationId link, dc_projectId = gl_projectId link,
       dc_idempotencyKey = delivery_key link d, dc_requestedBy = gl_createdBy link, dc_status = Pending,
       dc_provider = Some HOSTING_PROVIDER, dc_kind = delivery_kind link d,
       dc_environmentId = environmentId, dc_staged = False, dc_gitBranch = pd_branch d,
       dc_gitCommit = pd_commit d, dc_pullRequest = pd_pullRequest d,
       dc_previewKey = delivery_preview_key link d, dc_gitRepository = Some gitRepository,
       dc_buildPack = None, dc_rootDirectory = pj_rootDirectory project \<rparr>"

definition delivery_payload ::
  "git_link \<Rightarrow> project_row \<Rightarrow> parsed_delivery \<Rightarrow> string \<Rightarrow> string option \<Rightarrow> deployment_row \<Rightarrow>
   deployment_job_payload" where
  "delivery_payload link project d gitRepository environmentId deployment =
     \<lparr> djp_deploymentId = dr_id deployment, djp_organizationId = gl_organizationId link,
       djp_projectId = gl_projectId link, djp_action = Create, djp_projectSlug = pj_slug project,
       djp_gitRepository = Some gitRepository, djp_gitBranch = pd_branch d, djp_buildPack = None,
       djp_rootDirectory = pj_rootDirectory project, djp_commit = pd_commit d,
       djp_kind = Some (delivery_kind link d), djp_staged = Some False,
       djp_environmentId = environmentId, djp_previewKey = delivery_preview_key link d \<rparr>"

definition hook_audit :: "git_link \<Rightarrow> string \<Rightarrow> string \<Rightarrow> string \<Rightarrow> (string \<times> json) list \<Rightarrow> audit_entry" where
  "hook_audit link event targetType targetId metadata =
     \<lparr> ad_organizationId = gl_organizationId link, ad_actorId = None, ad_actorEmail = None,
       ad_event = event, ad_targetType = Some targetType, ad_targetId = Some targetId,
       ad_metadata = metadata \<rparr>"

definition delivery_job ::
  "git_link \<Rightarrow> project_row \<Rightarrow> parsed_delivery \<Rightarrow> string \<Rightarrow> string option \<Rightarrow> deployment_row \<Rightarrow>
   deployment_job_payload enqueue_input" where
  "delivery_job link project d gitRepository environmentId deployment =
     \<lparr> ei_organizationId = gl_organizationId link, ei_kind = DEPLOYMENT_JOB_KIND,
       ei_payload = delivery_payload link project d gitRepository environmentId deployment,
       ei_idempotencyKey = delivery_key link d, ei_maxAttempts = None \<rparr>"

definition delivery_audit :: "git_link \<Rightarrow> parsed_delivery \<Rightarrow> deployment_row \<Rightarrow> audit_entry" where
  "delivery_audit link d deployment =
     hook_audit link
       (if delivery_kind link d = Preview then ''deployment.preview.triggered'' else ''deployment.triggered'')
       ''deployment'' (dr_id deployment)
       ([(''projectId'', JString (gl_projectId link)), (''linkId'', JString (gl_id link)),
         (''provider'', JString (provider_name_of (gl_provider link))),
         (''branch'', case pd_branch d of None \<Rightarrow> JNull | Some b \<Rightarrow> JString b)] @
        if_given ''commit'' (pd_commit d) @
        (case pd_pullRequest d of
           None \<Rightarrow> []
         | Some n \<Rightarrow> if n = 0 then [] else [(''pullRequest'', JNumber (of_int n))]))"

definition preview_of_delivery :: "'w hook_deps \<Rightarrow> git_link \<Rightarrow> parsed_delivery \<Rightarrow> ('w, failure, unit) eio" where
  "preview_of_delivery deps link d =
     (if truthy (delivery_preview_key link d)
      then ensurePreviewTarget (hd_store deps)
             \<lparr> pc_organizationId = gl_organizationId link, pc_projectId = gl_projectId link,
               pc_previewKey = the (delivery_preview_key link d), pc_branch = pd_branch d,
               pc_pullRequest = pd_pullRequest d, pc_createdBy = gl_createdBy link \<rparr>
      else io_return ())"

text \<open>The deployment of a delivery that nothing refused: the row, the preview target, the job, the audit.\<close>

definition trigger_delivery ::
  "'w hook_deps \<Rightarrow> git_link \<Rightarrow> project_row \<Rightarrow> parsed_delivery \<Rightarrow> string \<Rightarrow> ('w, failure, hook_outcome) eio" where
  "trigger_delivery deps link project d gitRepository =
     io_bind (environmentIdForHook (hd_store deps) (gl_organizationId link) (gl_projectId link)
                (delivery_kind link d)) (\<lambda>environmentId.
     io_bind (the (st_createDeployment (hd_store deps))
                (delivery_row link project d gitRepository environmentId)) (\<lambda>deployment.
     io_then (preview_of_delivery deps link d)
    (io_then (thrown (qp_enqueue (hd_queue deps)
                (delivery_job link project d gitRepository environmentId deployment)))
    (io_then (as_recordAuditEvent (hd_store deps) (delivery_audit link d deployment))
       (io_return \<lparr> ho_status = 202, ho_ok = True, ho_reason = None \<rparr>)))))"

definition deployFromDelivery ::
  "'w hook_deps \<Rightarrow> git_link \<Rightarrow> parsed_delivery \<Rightarrow> ('w, failure, hook_outcome) eio" where
  "deployFromDelivery deps link d =
     io_then (check_that (hook_writesFor (hd_store deps)))
    (io_bind (the (gt_getProjectForService (hd_store deps)) (gl_organizationId link) (gl_projectId link)) (\<lambda>found.
       case found of
         None \<Rightarrow> io_return (outcome 202 True ''project_not_found'')
       | Some project \<Rightarrow>
           io_bind (hardCapRefusal (hd_store deps) (hd_now deps) (gl_organizationId link) ''deployments'') (\<lambda>refusal.
             case refusal of
               Some r \<Rightarrow>
                 io_then (as_recordAuditEvent (hd_store deps)
                   (hook_audit link ''deployment.cap_refused'' ''project'' (gl_projectId link)
                     [(''reason'', JString ''budget_exceeded''), (''metric'', JString (cr_metric r))]))
                   (io_return (outcome 202 True ''budget_exceeded''))
             | None \<Rightarrow>
                 if pd_branch d = None \<and> pd_pullRequest d = None
                 then io_return (outcome 202 True ''not_a_deployable_event'')
                 else if delivery_kind link d = Preview \<and> \<not> gl_previewsEnabled link
                 then io_return (outcome 202 True ''previews_disabled'')
                 else io_bind (the (gt_findDeploymentByIdempotencyKeyForService (hd_store deps))
                                 (gl_organizationId link) (delivery_key link d)) (\<lambda>existing.
                   if existing \<noteq> None then io_return (outcome 200 True ''replayed'')
                   else case cloneUrlFor (gl_provider link) (gl_repository link) of
                     None \<Rightarrow> io_return (outcome 202 True ''repository_url_unknown'')
                   | Some gitRepository \<Rightarrow> trigger_delivery deps link project d gitRepository))))"

record hook_input =
  hi_organizationId :: string
  hi_linkId :: string
  hi_event :: "string option"
  hi_signature :: "string option"
  hi_token :: "string option"
  hi_body :: string

definition receiveGitDelivery ::
  "(string \<Rightarrow> string \<Rightarrow> string) \<Rightarrow> (string \<Rightarrow> json option) \<Rightarrow> 'w hook_deps \<Rightarrow> hook_input \<Rightarrow>
   ('w, failure, hook_outcome) eio" where
  "receiveGitDelivery hmac parse deps inp =
     io_bind (verifyGitDelivery hmac (hd_store deps) (hd_cipher deps)
        \<lparr> dv_organizationId = hi_organizationId inp, dv_linkId = hi_linkId inp, dv_body = hi_body inp,
          dv_signature = hi_signature inp, dv_token = hi_token inp \<rparr>) (\<lambda>verified.
       case verified of
         Inl CipherNotConfigured \<Rightarrow> io_return (outcome 503 False ''not_configured'')
       | Inl _ \<Rightarrow> io_return (outcome 401 False ''invalid_signature'')
       | Inr link \<Rightarrow> deployFromDelivery deps link (parseGitDelivery parse (hi_event inp) (hi_body inp)))"

end
