(* ===== verification/Api_Store.thy ===== *)
theory Api_Store
  imports Git_Hook Deployment_Job
begin

section \<open>packages/database/supabase-store.ts: the store the procedures are given\<close>

text \<open>
  The member-scoped reads and the writes of the API over the control-plane tables.  A read of a
  member joins the membership of the caller, as the query does; a service read has the organization
  in its filter.  The world is the queue, the control plane, the tables only the API uses and the
  rest.  \<open>date_of\<close> is the database's reading of a cursor.
\<close>

subsection \<open>Tables\<close>

record api_tables =
  at_memberships :: "membership list"
  at_audit :: "audit_row list"
  at_budgets :: "budget list"
  at_links :: "(git_link \<times> string) list"
  at_nextId :: nat

type_synonym ('q, 'x) api_world = "'q \<times> control_plane \<times> api_tables \<times> 'x"

definition api_op ::
  "string \<Rightarrow> (control_plane \<Rightarrow> api_tables \<Rightarrow> (failure + 'a) \<times> control_plane \<times> api_tables) \<Rightarrow>
   (('q, 'x) api_world, failure, 'a) eio" where
  "api_op operation f = (\<lambda>(q, s, t, x).
     if cp_up s then (case f s t of (r, s', t') \<Rightarrow> (r, (q, s', t', x)))
     else (Inl (OtherError (unavailable operation ''unreachable'')), (q, s, t, x)))"

definition api_read ::
  "string \<Rightarrow> (control_plane \<Rightarrow> api_tables \<Rightarrow> 'a) \<Rightarrow> (('q, 'x) api_world, failure, 'a) eio" where
  "api_read operation f = api_op operation (\<lambda>s t. (Inr (f s t), s, t))"

definition belongs :: "api_tables \<Rightarrow> string \<Rightarrow> string \<Rightarrow> bool" where
  "belongs t userId organizationId \<longleftrightarrow>
     list_ex (\<lambda>m. mb_userId m = userId \<and> mb_organizationId m = organizationId) (at_memberships t)"

subsection \<open>Reads\<close>

definition membershipsFor :: "string \<Rightarrow> (('q, 'x) api_world, failure, membership list) eio" where
  "membershipsFor userId = api_read ''membershipsFor'' (\<lambda>s t.
     filter (\<lambda>m. mb_userId m = userId) (at_memberships t))"

definition getProject :: "string \<Rightarrow> string \<Rightarrow> (('q, 'x) api_world, failure, project_row option) eio" where
  "getProject userId projectId = api_read ''getProject'' (\<lambda>s t.
     first_where (\<lambda>r. pj_id r = projectId \<and> belongs t userId (pj_organizationId r)) (cp_projects s))"

definition getProjectForService :: "string \<Rightarrow> string \<Rightarrow> (('q, 'x) api_world, failure, project_row option) eio" where
  "getProjectForService organizationId projectId = api_read ''getProjectForService'' (\<lambda>s t.
     first_where (is_project organizationId projectId) (cp_projects s))"

definition page_of_rows ::
  "(string \<Rightarrow> millis option) \<Rightarrow> list_page_options \<Rightarrow> deployment_row list \<Rightarrow> deployment_row list" where
  "page_of_rows date_of options rows =
     take (nat (resolveListLimit (lo_limit options) DEFAULT_LIST_LIMIT))
       (rev (sort_by_age (filter (\<lambda>r. case lo_before options of
            None \<Rightarrow> True
          | Some b \<Rightarrow> (case (dr_createdAt r, date_of b) of (At c, Some d) \<Rightarrow> c < d | _ \<Rightarrow> False)) rows)))"

definition listDeployments_rows ::
  "(string \<Rightarrow> millis option) \<Rightarrow> string \<Rightarrow> string \<Rightarrow> list_page_options \<Rightarrow>
   (('q, 'x) api_world, failure, deployment_row list) eio" where
  "listDeployments_rows date_of userId projectId options = api_read ''listDeployments'' (\<lambda>s t.
     page_of_rows date_of options
       (filter (\<lambda>r. dr_projectId r = projectId \<and> belongs t userId (dr_organizationId r)) (cp_deployments s)))"

definition listOrganizationDeployments_rows ::
  "(string \<Rightarrow> millis option) \<Rightarrow> string \<Rightarrow> string \<Rightarrow> list_page_options \<Rightarrow>
   (('q, 'x) api_world, failure, deployment_row list) eio" where
  "listOrganizationDeployments_rows date_of userId organizationId options =
     api_read ''listOrganizationDeployments'' (\<lambda>s t.
       page_of_rows date_of options
         (filter (\<lambda>r. dr_organizationId r = organizationId \<and> belongs t userId (dr_organizationId r))
           (cp_deployments s)))"

definition getDeployment :: "string \<Rightarrow> string \<Rightarrow> (('q, 'x) api_world, failure, deployment_row option) eio" where
  "getDeployment userId deploymentId = api_read ''getDeployment'' (\<lambda>s t.
     first_where (\<lambda>r. dr_id r = deploymentId \<and> belongs t userId (dr_organizationId r)) (cp_deployments s))"

definition DEFAULT_AUDIT_LIMIT :: int where
  "DEFAULT_AUDIT_LIMIT = 200"

definition listAuditEvents_rows ::
  "(string \<Rightarrow> millis option) \<Rightarrow> string \<Rightarrow> string \<Rightarrow> list_page_options \<Rightarrow>
   (('q, 'x) api_world, failure, audit_row list) eio" where
  "listAuditEvents_rows date_of userId organizationId options = api_read ''listAuditEvents'' (\<lambda>s t.
     take (nat (resolveListLimit (lo_limit options) DEFAULT_AUDIT_LIMIT))
       (sort_key (\<lambda>a. - ad_createdAt a) (filter (\<lambda>a.
          ad_organizationId a = organizationId \<and> belongs t userId organizationId \<and>
          (case lo_before options of
             None \<Rightarrow> True
           | Some b \<Rightarrow> (case date_of b of Some d \<Rightarrow> ad_createdAt a < d | None \<Rightarrow> False))) (at_audit t))))"

definition listEnvironments_rows ::
  "string \<Rightarrow> string \<Rightarrow> (('q, 'x) api_world, failure, environment_row list) eio" where
  "listEnvironments_rows userId projectId = api_read ''listEnvironments'' (\<lambda>s t.
     listed_order (filter (\<lambda>e. en_projectId e = projectId \<and> belongs t userId (en_organizationId e))
       (cp_environments s)))"

definition listEnvironments_service ::
  "string \<Rightarrow> string \<Rightarrow> (('q, 'x) api_world, failure, environment_row list) eio" where
  "listEnvironments_service organizationId projectId = api_read ''listEnvironmentsForService'' (\<lambda>s t.
     listed_order (filter (\<lambda>e. en_organizationId e = organizationId \<and> en_projectId e = projectId)
       (cp_environments s)))"

definition findDeploymentByIdempotencyKey ::
  "string \<Rightarrow> string \<Rightarrow> string \<Rightarrow> (('q, 'x) api_world, failure, deployment_row option) eio" where
  "findDeploymentByIdempotencyKey userId organizationId key = api_read ''findDeploymentByIdempotencyKey'' (\<lambda>s t.
     first_where (\<lambda>r. dr_organizationId r = organizationId \<and> dr_idempotencyKey r = key \<and>
                      belongs t userId (dr_organizationId r)) (cp_deployments s))"

definition findDeploymentByIdempotencyKeyForService ::
  "string \<Rightarrow> string \<Rightarrow> (('q, 'x) api_world, failure, deployment_row option) eio" where
  "findDeploymentByIdempotencyKeyForService organizationId key =
     api_read ''findDeploymentByIdempotencyKeyForService'' (\<lambda>s t.
       first_where (\<lambda>r. dr_organizationId r = organizationId \<and> dr_idempotencyKey r = key) (cp_deployments s))"

definition target_columns :: "project_row \<Rightarrow> deployment_target" where
  "target_columns r =
     \<lparr> dt_provider = pj_provider r, dt_providerResourceId = pj_providerResourceId r,
       dt_executionModel = executionModel (pj_executionModel r), dt_rootDirectory = pj_rootDirectory r \<rparr>"

definition getProjectDeploymentTarget ::
  "string \<Rightarrow> string \<Rightarrow> (('q, 'x) api_world, failure, deployment_target option) eio" where
  "getProjectDeploymentTarget userId projectId = api_read ''getProjectDeploymentTarget'' (\<lambda>s t.
     map_option target_columns
       (first_where (\<lambda>r. pj_id r = projectId \<and> belongs t userId (pj_organizationId r)) (cp_projects s)))"

definition newest_usage :: "usage_row list \<Rightarrow> usage_row list" where
  "newest_usage rows = sort_key (\<lambda>r. - us_recordedAt r) rows"

definition listUsageRecords :: "string \<Rightarrow> string \<Rightarrow> (('q, 'x) api_world, failure, usage_row list) eio" where
  "listUsageRecords userId organizationId = api_read ''listUsageRecords'' (\<lambda>s t.
     take 500 (newest_usage
       (filter (\<lambda>r. us_organizationId r = organizationId \<and> belongs t userId organizationId) (cp_usage s))))"

definition usage_since :: "string \<Rightarrow> string \<Rightarrow> millis \<Rightarrow> control_plane \<Rightarrow> usage_row list" where
  "usage_since organizationId metric since s =
     take 5000 (filter (\<lambda>r. us_organizationId r = organizationId \<and> us_metric r = metric \<and>
                            us_recordedAt r \<ge> since) (cp_usage s))"

definition listUsageForService ::
  "string \<Rightarrow> string \<Rightarrow> millis \<Rightarrow> (('q, 'x) api_world, failure, usage_row list) eio" where
  "listUsageForService organizationId metric since =
     api_read ''listUsageForService'' (\<lambda>s t. usage_since organizationId metric since s)"

definition listBudgets :: "string \<Rightarrow> string \<Rightarrow> (('q, 'x) api_world, failure, budget list) eio" where
  "listBudgets userId organizationId = api_read ''listBudgets'' (\<lambda>s t.
     sort_by_text bg_metric
       (filter (\<lambda>b. bg_organizationId b = organizationId \<and> belongs t userId organizationId) (at_budgets t)))"

definition budget_of :: "string \<Rightarrow> string \<Rightarrow> api_tables \<Rightarrow> budget option" where
  "budget_of organizationId metric t =
     first_where (\<lambda>b. bg_organizationId b = organizationId \<and> bg_metric b = metric) (at_budgets t)"

definition getBudgetForService :: "string \<Rightarrow> string \<Rightarrow> (('q, 'x) api_world, failure, budget option) eio" where
  "getBudgetForService organizationId metric =
     api_read ''getBudgetForService'' (\<lambda>s t. budget_of organizationId metric t)"

definition previewTarget_service ::
  "string \<Rightarrow> string \<Rightarrow> string \<Rightarrow> (('q, 'x) api_world, failure, preview_target option) eio" where
  "previewTarget_service organizationId projectId previewKey = api_read ''getPreviewTargetForService'' (\<lambda>s t.
     map_option (\<lambda>r. \<lparr> pt_provider = pv_provider r, pt_providerResourceId = pv_providerResourceId r \<rparr>)
       (first_where (is_preview_of organizationId projectId previewKey) (cp_previews s)))"

definition listGitLinks_rows :: "string \<Rightarrow> string \<Rightarrow> (('q, 'x) api_world, failure, git_link list) eio" where
  "listGitLinks_rows userId projectId = api_read ''listGitLinks'' (\<lambda>s t.
     rev (map fst (filter (\<lambda>(l, _). gl_projectId l = projectId \<and> belongs t userId (gl_organizationId l))
       (at_links t))))"

definition link_of :: "string \<Rightarrow> string \<Rightarrow> api_tables \<Rightarrow> (git_link \<times> string) option" where
  "link_of organizationId linkId t =
     first_where (\<lambda>(l, _). gl_id l = linkId \<and> gl_organizationId l = organizationId) (at_links t)"

definition getGitLinkForService :: "string \<Rightarrow> string \<Rightarrow> (('q, 'x) api_world, failure, git_link option) eio" where
  "getGitLinkForService organizationId linkId =
     api_read ''getGitLinkForService'' (\<lambda>s t. map_option fst (link_of organizationId linkId t))"

definition getGitLinkSecret :: "string \<Rightarrow> string \<Rightarrow> (('q, 'x) api_world, failure, string option) eio" where
  "getGitLinkSecret organizationId linkId =
     api_read ''getGitLinkSecret'' (\<lambda>s t. map_option snd (link_of organizationId linkId t))"

subsection \<open>Writes\<close>

definition recordAuditEvent :: "audit_entry \<Rightarrow> (('q, 'x) api_world, failure, unit) eio" where
  "recordAuditEvent a = api_op ''recordAuditEvent'' (\<lambda>s t.
     (Inr (), s, t\<lparr> at_audit := at_audit t @ [audit_entry.extend a \<lparr> ad_createdAt = cp_now s \<rparr>] \<rparr>))"

definition created_row :: "deployment_create_input \<Rightarrow> string \<Rightarrow> millis \<Rightarrow> deployment_row" where
  "created_row i rowId now =
     \<lparr> dr_id = rowId, dr_organizationId = dc_organizationId i, dr_projectId = dc_projectId i,
       dr_status = dc_status i, dr_url = None, dr_kind = dc_kind i,
       dr_environmentId = if_truthy (dc_environmentId i), dr_staged = dc_staged i,
       dr_gitBranch = dc_gitBranch i, dr_gitCommit = dc_gitCommit i, dr_pullRequest = dc_pullRequest i,
       dr_previewKey = dc_previewKey i, dr_providerResourceId = None, dr_deploymentResourceId = None,
       dr_buildProviderResourceId = None, dr_buildProvider = None, dr_isCurrent = False,
       dr_failureReason = None, dr_createdAt = At now, dr_gitRepository = dc_gitRepository i,
       dr_buildPack = dc_buildPack i, dr_rootDirectory = dc_rootDirectory i, dr_startedAt = None,
       dr_finishedAt = None, dr_idempotencyKey = dc_idempotencyKey i, dr_requestedBy = dc_requestedBy i,
       dr_provider = dc_provider i \<rparr>"

text \<open>The generated id, and the unique key \<open>(organization_id, idempotency_key)\<close> of the table.\<close>

definition generated_id :: "nat \<Rightarrow> string" where
  "generated_id n = ''row-'' @ show_nat n"

definition createDeployment :: "deployment_create_input \<Rightarrow> (('q, 'x) api_world, failure, deployment_row) eio" where
  "createDeployment i = api_op ''createDeployment'' (\<lambda>s t.
     if list_ex (\<lambda>r. dr_organizationId r = dc_organizationId i \<and> dr_idempotencyKey r = dc_idempotencyKey i)
          (cp_deployments s)
     then (Inl (OtherError (unavailable ''createDeployment'' ''POST /deployments returned 409.'')), s, t)
     else (let row = created_row i (generated_id (at_nextId t)) (cp_now s)
           in (Inr row, s\<lparr> cp_deployments := cp_deployments s @ [row] \<rparr>, t\<lparr> at_nextId := at_nextId t + 1 \<rparr>)))"

definition updateDeployment_row ::
  "deployment_status_input \<Rightarrow> (('q, 'x) api_world, failure, deployment_row option) eio" where
  "updateDeployment_row u = api_op ''updateDeploymentStatus'' (\<lambda>s t.
     (Inr (deployment_of (du_organizationId u) (du_id u) (written u s)), written u s, t))"

definition setProjectProvider ::
  "string \<Rightarrow> string \<Rightarrow> string \<Rightarrow> string \<Rightarrow> (('q, 'x) api_world, failure, unit) eio" where
  "setProjectProvider organizationId projectId provider resourceId = api_op ''setProjectProviderResource'' (\<lambda>s t.
     (Inr (), snd (setProjectProviderResource organizationId projectId provider resourceId s), t))"

definition createPreviewTarget :: "preview_create_input \<Rightarrow> (('q, 'x) api_world, failure, unit) eio" where
  "createPreviewTarget i = api_op ''createPreviewTarget'' (\<lambda>s t.
     if list_ex (\<lambda>r. pv_projectId r = pc_projectId i \<and> pv_previewKey r = pc_previewKey i) (cp_previews s)
     then (Inl (OtherError (unavailable ''createPreviewTarget'' ''POST /preview_targets returned 409.'')), s, t)
     else (Inr (), s\<lparr> cp_previews := cp_previews s @
            [\<lparr> pv_organizationId = pc_organizationId i, pv_projectId = pc_projectId i,
               pv_previewKey = pc_previewKey i, pv_branch = pc_branch i, pv_pullRequest = pc_pullRequest i,
               pv_provider = None, pv_providerResourceId = None \<rparr>] \<rparr>, t))"

definition setPreviewProvider ::
  "string \<Rightarrow> string \<Rightarrow> string \<Rightarrow> string \<Rightarrow> string \<Rightarrow> (('q, 'x) api_world, failure, unit) eio" where
  "setPreviewProvider organizationId projectId previewKey provider resourceId =
     api_op ''setPreviewTargetProvider'' (\<lambda>s t.
       (Inr (), snd (setPreviewTargetProvider organizationId projectId previewKey provider resourceId s), t))"

definition promote_row ::
  "string \<Rightarrow> string \<Rightarrow> string \<Rightarrow> (('q, 'x) api_world, failure, promote_result) eio" where
  "promote_row organizationId projectId deploymentId = api_op ''promoteDeployment'' (\<lambda>s t.
     case promoteDeployment organizationId projectId deploymentId s of
       (Inl message, s') \<Rightarrow> (Inl (OtherError message), s', t)
     | (Inr r, s') \<Rightarrow> (Inr r, s', t))"

definition saveBudget_row :: "budget \<Rightarrow> (('q, 'x) api_world, failure, budget) eio" where
  "saveBudget_row b = api_op ''saveBudget'' (\<lambda>s t.
     (let same = (\<lambda>r. bg_organizationId r = bg_organizationId b \<and> bg_metric r = bg_metric b)
      in (Inr b, s, t\<lparr> at_budgets := (if list_ex same (at_budgets t) then patch_where same (\<lambda>_. b) (at_budgets t)
                                      else at_budgets t @ [b]) \<rparr>)))"

definition deleteBudget :: "string \<Rightarrow> string \<Rightarrow> string \<Rightarrow> (('q, 'x) api_world, failure, bool) eio" where
  "deleteBudget userId organizationId metric = api_op ''deleteBudget'' (\<lambda>s t.
     (let hit = (\<lambda>b. bg_organizationId b = organizationId \<and> bg_metric b = metric \<and> belongs t userId organizationId)
      in (Inr (list_ex hit (at_budgets t)), s, t\<lparr> at_budgets := filter (\<lambda>b. \<not> hit b) (at_budgets t) \<rparr>)))"

definition createGitLink :: "git_link \<Rightarrow> string \<Rightarrow> (('q, 'x) api_world, failure, git_link) eio" where
  "createGitLink link ciphertext = api_op ''createGitLink'' (\<lambda>s t.
     if list_ex (\<lambda>(l, _). gl_organizationId l = gl_organizationId link \<and> gl_provider l = gl_provider link \<and>
                         gl_repository l = gl_repository link) (at_links t)
     then (Inl (OtherError (unavailable ''createGitLink'' ''POST /project_git_links returned 409.'')), s, t)
     else (Inr link, s, t\<lparr> at_links := at_links t @ [(link, ciphertext)] \<rparr>))"

definition deleteGitLink :: "string \<Rightarrow> string \<Rightarrow> string \<Rightarrow> (('q, 'x) api_world, failure, bool) eio" where
  "deleteGitLink userId organizationId linkId = api_op ''deleteGitLink'' (\<lambda>s t.
     (let hit = (\<lambda>(l, c). gl_id l = linkId \<and> gl_organizationId l = organizationId \<and> belongs t userId organizationId)
      in (Inr (list_ex hit (at_links t)), s, t\<lparr> at_links := filter (\<lambda>l. \<not> hit l) (at_links t) \<rparr>)))"

subsection \<open>The store\<close>

definition apiStore :: "(string \<Rightarrow> millis option) \<Rightarrow> ('q, 'x) api_world git_store" where
  "apiStore date_of =
     \<lparr> as_recordAuditEvent = recordAuditEvent,
       bs_listUsageRecords = listUsageRecords, bs_listUsageForService = Some listUsageForService,
       bs_listBudgets = Some listBudgets, bs_getBudgetForService = Some getBudgetForService,
       bs_saveBudget = Some saveBudget_row, bs_deleteBudget = Some deleteBudget,
       ps_getProject = getProject,
       st_listDeployments = listDeployments_rows date_of,
       st_listOrganizationDeployments = listOrganizationDeployments_rows date_of,
       st_listAuditEvents = listAuditEvents_rows date_of,
       st_listEnvironments = Some listEnvironments_rows, st_createDeployment = Some createDeployment,
       st_updateDeploymentStatus = Some updateDeployment_row,
       st_findDeploymentByIdempotencyKey = Some findDeploymentByIdempotencyKey,
       st_getProjectDeploymentTarget = Some getProjectDeploymentTarget,
       st_setProjectProviderResource = Some setProjectProvider, st_getDeployment = Some getDeployment,
       st_getPreviewTargetForService = Some previewTarget_service,
       st_createPreviewTarget = Some createPreviewTarget,
       st_setPreviewTargetProvider = Some setPreviewProvider, st_promoteDeployment = Some promote_row,
       gt_listGitLinks = listGitLinks_rows, gt_createGitLink = Some createGitLink,
       gt_getGitLinkForService = Some getGitLinkForService, gt_getGitLinkSecret = Some getGitLinkSecret,
       gt_deleteGitLink = Some deleteGitLink, gt_getProjectForService = Some getProjectForService,
       gt_findDeploymentByIdempotencyKeyForService = Some findDeploymentByIdempotencyKeyForService,
       gt_listEnvironmentsForService = Some listEnvironments_service \<rparr>"

text \<open>The queue as the API reaches it: the first part of its world.\<close>

definition api_queue :: "('q, 'p) queue_port \<Rightarrow> ('q \<times> 'e, 'p) queue_port" where
  "api_queue port =
     \<lparr> qp_enqueue = (\<lambda>i. on_fst (qp_enqueue port i)), qp_claim = (\<lambda>w l. on_fst (qp_claim port w l)),
       qp_complete = (\<lambda>i. on_fst (qp_complete port i)), qp_fail = (\<lambda>i e. on_fst (qp_fail port i e)),
       qp_terminate = (\<lambda>i e. on_fst (qp_terminate port i e)),
       qp_defer = (\<lambda>i e ms. on_fst (qp_defer port i e ms)), qp_reapExpired = on_fst (qp_reapExpired port),
       qp_get = (\<lambda>i. on_fst (qp_get port i)) \<rparr>"

end
