(* ===== verification/Billing_Laws.thy ===== *)
theory Billing_Laws
  imports Api_Store "HOL-Library.Multiset"
begin

section \<open>What the billing procedures answer\<close>

text \<open>
  The usage report agrees with the records beside it, the billing period is the calendar month of the
  instant, and the hard cap over the wired store: what it refuses, and the limit above which it never
  does because the store reads at most 5000 records.
\<close>

named_theorems api_simps "evaluation of the wired store while the database answers"

lemma api_op_up [api_simps]:
  "cp_up s \<Longrightarrow> api_op operation f (q, s, t, x) = (case f s t of (r, s', t') \<Rightarrow> (r, (q, s', t', x)))"
  by (simp add: api_op_def)

lemma api_read_up [api_simps]:
  "cp_up s \<Longrightarrow> api_read operation f (q, s, t, x) = (Inr (f s t), (q, s, t, x))"
  by (simp add: api_read_def api_op_def)

lemma api_read_state: "snd (api_read operation f w) = w"
  by (cases w) (simp add: api_read_def api_op_def)

lemma api_down: "\<not> cp_up s \<Longrightarrow> \<exists>e. api_op operation f (q, s, t, x) = (Inl e, (q, s, t, x))"
  by (simp add: api_op_def)

subsection \<open>The successful runs of a procedure\<close>

text \<open>
  A procedure that resolves did every step before its last: these rules read a successful run as the
  conjunction of its steps.
\<close>

named_theorems io_ok "successful runs, step by step"

lemma io_bind_ok [io_ok]:
  "io_bind m k w = (Inr x, w') \<longleftrightarrow> (\<exists>y v. m w = (Inr y, v) \<and> k y v = (Inr x, w'))"
  by (auto simp: io_bind_apply split: prod.splits sum.splits)

lemma io_then_ok [io_ok]:
  "io_then m n w = (Inr x, w') \<longleftrightarrow> (\<exists>y v. m w = (Inr y, v) \<and> n v = (Inr x, w'))"
  by (simp add: io_then_def io_bind_ok)

lemma io_return_ok [io_ok]: "io_return y w = (Inr x, w') \<longleftrightarrow> y = x \<and> w = w'"
  by (auto simp: io_return_apply)

lemma io_throw_ok [io_ok]: "io_throw e w = (Inr x, w') \<longleftrightarrow> False"
  by (simp add: io_throw_apply)

lemma io_get_ok [io_ok]: "io_get f w = (Inr x, w') \<longleftrightarrow> f w = x \<and> w = w'"
  by (auto simp: io_get_apply)

lemma check_that_ok [io_ok]: "check_that r w = (Inr x, w') \<longleftrightarrow> r = Inr x \<and> w = w'"
  by (auto simp: check_that_apply split: sum.splits)

lemma thrown_ok [io_ok]: "thrown m w = (Inr x, w') \<longleftrightarrow> m w = (Inr x, w')"
  by (auto simp: thrown_def io_catch_apply io_throw_apply split: prod.splits sum.splits)

subsection \<open>The roll-up\<close>

text \<open>What a total should be: computed from the records of its metric.\<close>

definition usage_total_of :: "string \<Rightarrow> usage_row list \<Rightarrow> usage_total" where
  "usage_total_of m records =
     (let rs = filter (\<lambda>r. us_metric r = m) records
      in \<lparr> ut_metric = m, ut_total = (\<Sum>r\<leftarrow>rs. us_quantity r), ut_records = length rs,
           ut_lastRecordedAt = (if rs = [] then None else Some (Max (us_recordedAt ` set rs))) \<rparr>)"

lemma add_usage_metric [simp]: "ut_metric (add_usage t r) = ut_metric t"
  by (simp add: add_usage_def)

lemma add_usage_total:
  "add_usage (usage_total_of (us_metric r) rs) r = usage_total_of (us_metric r) (rs @ [r])"
proof -
  define fs where "fs = filter (\<lambda>x. us_metric x = us_metric r) rs"
  define M where "M = Max (us_recordedAt ` set fs)"
  have grown: "Max (insert (us_recordedAt r) (us_recordedAt ` set fs)) =
      (if us_recordedAt r > M then us_recordedAt r else M)" if "fs \<noteq> []"
  proof -
    have "Max (insert (us_recordedAt r) (us_recordedAt ` set fs)) = max (us_recordedAt r) M"
      unfolding M_def using that by (intro Max_insert) simp_all
    also have "\<dots> = (if us_recordedAt r > M then us_recordedAt r else M)" by (simp add: max_def)
    finally show ?thesis .
  qed
  have "usage_total_of (us_metric r) (rs @ [r]) =
      \<lparr> ut_metric = us_metric r, ut_total = (\<Sum>x\<leftarrow>fs. us_quantity x) + us_quantity r,
        ut_records = length fs + 1,
        ut_lastRecordedAt = Some (Max (insert (us_recordedAt r) (us_recordedAt ` set fs))) \<rparr>"
    by (simp add: usage_total_of_def Let_def fs_def del: set_filter)
  moreover have "usage_total_of (us_metric r) rs =
      \<lparr> ut_metric = us_metric r, ut_total = (\<Sum>x\<leftarrow>fs. us_quantity x), ut_records = length fs,
        ut_lastRecordedAt = (if fs = [] then None else Some M) \<rparr>"
    by (simp add: usage_total_of_def Let_def fs_def M_def del: set_filter)
  ultimately show ?thesis using grown by (cases "fs = []") (simp_all add: add_usage_def)
qed

lemma usage_total_of_other: "us_metric r \<noteq> m \<Longrightarrow> usage_total_of m (rs @ [r]) = usage_total_of m rs"
  by (simp add: usage_total_of_def)

lemma usage_total_of_metric [simp]: "ut_metric (usage_total_of m rs) = m"
  by (simp add: usage_total_of_def Let_def)

lemma usage_total_of_none:
  "m \<notin> us_metric ` set rs \<Longrightarrow>
   usage_total_of m rs = \<lparr> ut_metric = m, ut_total = 0, ut_records = 0, ut_lastRecordedAt = None \<rparr>"
  by (auto simp: usage_total_of_def Let_def filter_empty_conv)

lemma metrics_roll_into:
  "map ut_metric (roll_into r ts) =
     (if us_metric r \<in> set (map ut_metric ts) then map ut_metric ts else map ut_metric ts @ [us_metric r])"
  by (induction ts) auto


lemma roll_into_agrees:
  assumes "ts = map (\<lambda>m. usage_total_of m rs) ms" "distinct ms" "set ms = us_metric ` set rs"
  shows "roll_into r ts = map (\<lambda>m. usage_total_of m (rs @ [r]))
           (if us_metric r \<in> set ms then ms else ms @ [us_metric r])"
proof -
  have step: "roll_into r (map (\<lambda>m. usage_total_of m rs) ns) =
      map (\<lambda>m. usage_total_of m (rs @ [r])) (if us_metric r \<in> set ns then ns else ns @ [us_metric r])"
    if "distinct ns" "us_metric r \<notin> set ns \<Longrightarrow> us_metric r \<notin> us_metric ` set rs" for ns
    using that
  proof (induction ns)
    case Nil
    then show ?case
      using add_usage_total [of r rs] by (simp add: usage_total_of_none)
  next
    case (Cons m ns)
    show ?case
    proof (cases "us_metric r = m")
      case True
      have "map (\<lambda>m. usage_total_of m (rs @ [r])) ns = map (\<lambda>m. usage_total_of m rs) ns"
        using Cons.prems(1) True by (intro map_cong refl usage_total_of_other) auto
      with True show ?thesis using add_usage_total [of r rs] by simp
    next
      case False
      have "roll_into r (map (\<lambda>m. usage_total_of m rs) ns) =
          map (\<lambda>m. usage_total_of m (rs @ [r])) (if us_metric r \<in> set ns then ns else ns @ [us_metric r])"
        by (rule Cons.IH) (use Cons.prems False in auto)
      with False show ?thesis by (auto simp: usage_total_of_other)
    qed
  qed
  show ?thesis unfolding assms(1) by (rule step) (use assms in auto)
qed

lemma rolled_agrees:
  "\<exists>ms. rolled rs = map (\<lambda>m. usage_total_of m rs) ms \<and> distinct ms \<and> set ms = us_metric ` set rs"
proof (induction rs rule: rev_induct)
  case Nil
  then show ?case by (simp add: rolled_def)
next
  case (snoc r rs)
  then obtain ms where ms: "rolled rs = map (\<lambda>m. usage_total_of m rs) ms" "distinct ms"
    "set ms = us_metric ` set rs" by blast
  have "rolled (rs @ [r]) = roll_into r (rolled rs)" by (simp add: rolled_def)
  also have "\<dots> = map (\<lambda>m. usage_total_of m (rs @ [r])) (if us_metric r \<in> set ms then ms else ms @ [us_metric r])"
    by (rule roll_into_agrees [OF ms])
  finally show ?case using ms
    by (intro exI [of _ "if us_metric r \<in> set ms then ms else ms @ [us_metric r]"]) auto
qed

lemma text_le_total: "text_le s t \<or> text_le t s"
proof (induction s arbitrary: t)
  case (Cons c cs)
  show ?case
  proof (cases t)
    case Nil
    then show ?thesis by simp
  next
    case (Cons d ds)
    have "c = d \<or> code_unit c < code_unit d \<or> code_unit d < code_unit c"
      by (metis linorder_neqE_nat of_char_eq_iff)
    then show ?thesis using Cons.IH [of ds] by (auto simp: Cons)
  qed
qed simp

lemma text_le_trans: "text_le s t \<Longrightarrow> text_le t u \<Longrightarrow> text_le s u"
proof (induction s arbitrary: t u)
  case (Cons c cs)
  from Cons.prems obtain d ds e es where "t = d # ds" "u = e # es"
    by (cases t; cases u) auto
  with Cons show ?case by (auto dest: Cons.IH)
qed simp

lemma mset_insert_by_text [simp]: "mset (insert_by_text f x xs) = add_mset x (mset xs)"
  by (induction xs) auto

lemma mset_sort_by_text [simp]: "mset (sort_by_text f xs) = mset xs"
proof -
  have "mset (foldr (insert_by_text f) xs []) = mset xs" by (induction xs) auto
  then show ?thesis by (simp add: sort_by_text_def)
qed

lemma sorted_insert_by_text:
  "sorted_wrt (\<lambda>a b. text_le (f a) (f b)) xs \<Longrightarrow>
   sorted_wrt (\<lambda>a b. text_le (f a) (f b)) (insert_by_text f x xs)"
proof (induction xs)
  case (Cons y ys)
  have in_set: "z \<in> set (insert_by_text f x ys) \<Longrightarrow> z = x \<or> z \<in> set ys" for z
    by (metis mset_insert_by_text set_mset_add_mset_insert set_mset_mset insert_iff)
  show ?case
  proof (cases "text_le (f x) (f y)")
    case True
    with Cons.prems show ?thesis by (auto intro: text_le_trans)
  next
    case False
    then have "text_le (f y) (f x)" using text_le_total by blast
    with Cons False in_set show ?thesis by auto
  qed
qed simp

lemma sorted_sort_by_text: "sorted_wrt (\<lambda>a b. text_le (f a) (f b)) (sort_by_text f xs)"
proof -
  have "sorted_wrt (\<lambda>a b. text_le (f a) (f b)) (foldr (insert_by_text f) xs [])"
    by (induction xs) (auto intro: sorted_insert_by_text)
  then show ?thesis by (simp add: sort_by_text_def)
qed

text \<open>
  The roll-up cannot disagree with the records it is shown with: a usage report has exactly one
  total for each metric that occurs in its records, each total is the sum, the count and the latest
  time of the records of that metric, and the totals are in the order of their names.
\<close>

theorem usage_report_agrees:
  assumes "readUsage ctx store organizationId w = (Inr report, w')"
  shows "set (ur_totals report) =
           (\<lambda>m. usage_total_of m (ur_records report)) ` us_metric ` set (ur_records report) \<and>
         distinct (map ut_metric (ur_totals report)) \<and>
         sorted_wrt (\<lambda>a b. text_le (ut_metric a) (ut_metric b)) (ur_totals report)"
proof -
  have totals: "ur_totals report = sort_by_text ut_metric (rolled (ur_records report))"
    using assms by (auto simp: readUsage_def io_ok)
  obtain ms where ms: "rolled (ur_records report) = map (\<lambda>m. usage_total_of m (ur_records report)) ms"
    "distinct ms" "set ms = us_metric ` set (ur_records report)" using rolled_agrees by blast
  have perm: "mset (ur_totals report) = mset (rolled (ur_records report))" by (simp add: totals)
  have "set (ur_totals report) = set (rolled (ur_records report))" by (rule mset_eq_setD [OF perm])
  moreover have "mset (map ut_metric (ur_totals report)) = mset ms"
  proof -
    have "mset (map ut_metric (ur_totals report)) = mset (map ut_metric (rolled (ur_records report)))"
      using perm by (simp only: mset_map)
    also have "map ut_metric (rolled (ur_records report)) = ms"
      unfolding ms(1) by (simp add: comp_def)
    finally show ?thesis .
  qed
  then have "distinct (map ut_metric (ur_totals report))"
    using ms(2) by (metis mset_eq_imp_distinct_iff)
  moreover have "sorted_wrt (\<lambda>a b. text_le (ut_metric a) (ut_metric b)) (ur_totals report)"
    unfolding totals by (rule sorted_sort_by_text)
  ultimately show ?thesis unfolding ms(1) by (simp only: ms(3) set_map)
qed

subsection \<open>The billing period\<close>

lemma month_unique:
  assumes "m < 12" "month_starts l ! m \<le> k" "k < month_starts l ! Suc m"
  shows "month_of l k = m"
proof -
  from assms(1) have "m \<in> {0, 1, 2, 3, 4, 5, 6, 7, 8, 9, 10, 11}" by (rule month_cases)
  with assms(2,3) show ?thesis
    by (cases l) (auto simp: month_of_def month_starts_def Let_def)
qed

lemma month_starts_limits:
  "m < 12 \<Longrightarrow> 0 \<le> month_starts l ! m \<and> month_starts l ! Suc m \<le> 365 + (if l then 1 else 0)"
  by (cases l; drule month_cases) (auto simp: month_starts_def Let_def)

lemma day_of_ge: "86400000 * d \<le> u \<Longrightarrow> d \<le> day_of u"
  using zdiv_mono1 [of "86400000 * d" u 86400000] by (simp add: day_of_def)

lemma day_of_less: "u < 86400000 * d \<Longrightarrow> day_of u < d"
proof (rule ccontr)
  assume u: "u < 86400000 * d" and "\<not> day_of u < d"
  then have "86400000 * d \<le> 86400000 * day_of u" by simp
  also have "\<dots> \<le> u" using pos_mod_sign [of 86400000 u] minus_mod_eq_mult_div [of u 86400000]
    by (simp add: day_of_def)
  finally show False using u by simp
qed

lemma same_month:
  assumes "month_begins t \<le> u" "u < month_ends t"
  shows "month_begins u = month_begins t"
proof -
  let ?y = "getUTCFullYear t" and ?m = "getUTCMonth t"
  have m: "?m < 12" by (rule month_encloses_instant(3))
  have day: "day_from_year ?y + month_starts (leap ?y) ! ?m \<le> day_of u"
    "day_of u < day_from_year ?y + month_starts (leap ?y) ! Suc ?m"
  proof -
    have "86400000 * (day_from_year ?y + month_starts (leap ?y) ! ?m) \<le> u"
      "u < 86400000 * (day_from_year ?y + month_starts (leap ?y) ! Suc ?m)"
      using assms by (simp_all add: month_begins_def month_ends_def date_UTC_def)
    then show "day_from_year ?y + month_starts (leap ?y) ! ?m \<le> day_of u"
      "day_of u < day_from_year ?y + month_starts (leap ?y) ! Suc ?m"
      using day_of_ge day_of_less by blast+
  qed
  have "year_of_day (day_of u) = ?y"
    by (rule year_unique)
      (use day month_starts_limits [OF m, of "leap ?y"] day_from_year_step [of ?y] in linarith)+
  then have y: "getUTCFullYear u = ?y" by (simp add: getUTCFullYear_def)
  have "month_of (leap ?y) (day_of u - day_from_year ?y) = ?m"
    by (rule month_unique [OF m]) (use day in linarith)+
  then have "getUTCMonth u = ?m" by (simp add: getUTCMonth_def [of u] Let_def y)
  with y show ?thesis by (simp add: month_begins_def)
qed

lemma monthlyPeriodStart_eq: "monthlyPeriodStart t = month_begins t"
  by (simp add: monthlyPeriodStart_def month_begins_def)

text \<open>
  The billing period is the calendar month: it starts at or before the instant, the instant is
  before the next month, every instant of the month has the same period start, its own start
  included, and no instant of another month has it.
\<close>

theorem billing_period_is_the_month:
  "monthlyPeriodStart now \<le> now \<and> now < month_ends now \<and>
   {t. monthlyPeriodStart t = monthlyPeriodStart now} = {monthlyPeriodStart now ..< month_ends now}"
proof (intro conjI)
  show "monthlyPeriodStart now \<le> now" "now < month_ends now"
    using month_encloses_instant by (simp_all add: monthlyPeriodStart_eq)
  have ends: "month_ends t = month_ends now" if "month_begins t = month_begins now" for t
  proof -
    have "getUTCFullYear (month_begins u) = getUTCFullYear u \<and> getUTCMonth (month_begins u) = getUTCMonth u" for u
      by (rule month_begins_fields)
    then have "getUTCFullYear t = getUTCFullYear now" "getUTCMonth t = getUTCMonth now"
      using that by metis+
    then show ?thesis by (simp add: month_ends_def)
  qed
  show "{t. monthlyPeriodStart t = monthlyPeriodStart now} = {monthlyPeriodStart now ..< month_ends now}"
  proof (intro set_eqI iffI)
    fix t assume "t \<in> {t. monthlyPeriodStart t = monthlyPeriodStart now}"
    then show "t \<in> {monthlyPeriodStart now ..< month_ends now}"
      using month_encloses_instant [of t] ends [of t] by (simp add: monthlyPeriodStart_eq)
  next
    fix t assume "t \<in> {monthlyPeriodStart now ..< month_ends now}"
    then show "t \<in> {t. monthlyPeriodStart t = monthlyPeriodStart now}"
      using same_month [of now t] by (simp add: monthlyPeriodStart_eq)
  qed
qed

subsection \<open>The hard cap over the wired store\<close>

text \<open>What the API's store counts of a metric since the start of the month.\<close>

definition counted :: "string \<Rightarrow> string \<Rightarrow> control_plane \<Rightarrow> int" where
  "counted organizationId metric s =
     (\<Sum>r\<leftarrow>usage_since organizationId metric (monthlyPeriodStart (cp_now s)) s. us_quantity r)"

definition api_clock :: "('q, 'x) api_world \<Rightarrow> millis" where
  "api_clock = (\<lambda>(q, s, t, x). cp_now s)"

definition capped :: "string \<Rightarrow> string \<Rightarrow> control_plane \<Rightarrow> api_tables \<Rightarrow> bool" where
  "capped organizationId metric s t \<longleftrightarrow>
     (case budget_of organizationId metric t of
        None \<Rightarrow> False
      | Some b \<Rightarrow> bg_hardCap b \<and> bg_limitQuantity b \<le> of_int (counted organizationId metric s))"

lemma total_quantity_sum: "total_quantity rs = (\<Sum>r\<leftarrow>rs. us_quantity r)"
proof -
  have "foldl (\<lambda>sum record. sum + us_quantity record) a rs = a + (\<Sum>r\<leftarrow>rs. us_quantity r)" for a
    by (induction rs arbitrary: a) simp_all
  then show ?thesis by (simp add: total_quantity_def)
qed

text \<open>A store that reads budgets and usage as the wired one does.\<close>

definition bills :: "(('q, 'x) api_world, 'z) billing_store_scheme \<Rightarrow> bool" where
  "bills store \<longleftrightarrow> bs_getBudgetForService store = Some getBudgetForService \<and>
     bs_listUsageForService store = Some listUsageForService"

lemma hardCapRefusal_wired:
  assumes "cp_up s" "bills store"
  shows "hardCapRefusal store api_clock org metric (q, s, t, x) =
    (Inr (if capped org metric s t
          then Some \<lparr> cr_message = cap_message (bg_limitQuantity (the (budget_of org metric t))) metric,
                      cr_metric = metric,
                      cr_limitQuantity = bg_limitQuantity (the (budget_of org metric t)),
                      cr_usedQuantity = counted org metric s \<rparr>
          else None), (q, s, t, x))"
  using assms
  by (auto simp: hardCapRefusal_def bills_def getBudgetForService_def listUsageForService_def usageSince_def
      api_simps io_simps api_clock_def capped_def counted_def total_quantity_sum split: option.split)

lemma assertWithinBudget_wired:
  assumes "cp_up s" "bills store"
  shows "assertWithinBudget store api_clock org metric (q, s, t, x) =
    (if capped org metric s t
     then Inl (ApiError BudgetExceeded (cap_message (bg_limitQuantity (the (budget_of org metric t))) metric))
     else Inr (), (q, s, t, x))"
  using hardCapRefusal_wired [OF assms, of org metric q t x]
  by (simp add: assertWithinBudget_def io_simps)

lemma sum_list_ones:
  assumes "\<And>r. r \<in> set rs \<Longrightarrow> us_quantity r = 1"
  shows "(\<Sum>r\<leftarrow>rs. us_quantity r) = int (length rs)"
  using assms by (induction rs) simp_all

text \<open>
  A cap above 5000 is never enforced: the worker records one unit per row and the store reads at
  most 5000 rows of the month, so whatever the organization has used, the amount the cap is compared
  with never passes 5000 and a hard cap set above it refuses nothing.
\<close>

theorem large_caps_never_bind:
  assumes up: "cp_up s" and wired: "bills store"
    and units: "\<And>r. r \<in> set (cp_usage s) \<Longrightarrow> us_quantity r = 1"
    and cap: "budget_of org metric t = Some b" "bg_limitQuantity b > 5000"
  shows "counted org metric s \<le> 5000 \<and>
         hardCapRefusal store api_clock org metric (q, s, t, x) = (Inr None, (q, s, t, x)) \<and>
         assertWithinBudget store api_clock org metric (q, s, t, x) = (Inr (), (q, s, t, x))"
proof -
  let ?rows = "usage_since org metric (monthlyPeriodStart (cp_now s)) s"
  have "us_quantity r = 1" if "r \<in> set ?rows" for r
    using that units by (auto simp: usage_since_def dest: in_set_takeD)
  then have "counted org metric s = int (length ?rows)"
    unfolding counted_def by (rule sum_list_ones)
  then have small: "counted org metric s \<le> 5000" by (simp add: usage_since_def)
  then have "of_int (counted org metric s) < bg_limitQuantity b"
    using cap(2) by (metis of_int_le_iff of_int_numeral order_le_less_trans)
  then have "\<not> capped org metric s t" using cap(1) by (simp add: capped_def)
  with small show ?thesis using up wired by (simp add: hardCapRefusal_wired assertWithinBudget_wired)
qed

subsection \<open>A concrete organization\<close>

definition sample_tables :: api_tables where
  "sample_tables = \<lparr> at_memberships = [\<lparr> mb_organizationId = ''o'', mb_userId = ''u'', mb_role = Owner \<rparr>],
     at_audit = [], at_budgets = [\<lparr> bg_organizationId = ''o'', bg_metric = ''deployments'',
       bg_limitQuantity = 6000, bg_hardCap = True, bg_updatedBy = None \<rparr>],
     at_links = [], at_nextId = 0 \<rparr>"

definition sample_usage :: "string \<Rightarrow> int \<Rightarrow> millis \<Rightarrow> usage_row" where
  "sample_usage metric n at_time = \<lparr> us_organizationId = ''o'', us_metric = metric, us_quantity = n,
     us_recordedAt = at_time \<rparr>"

definition sample_owner :: request_context where
  "sample_owner = \<lparr> cx_principal = \<lparr> pr_userId = ''u'', pr_email = ''u@o'', pr_displayName = None \<rparr>,
     cx_memberships = [\<lparr> mb_organizationId = ''o'', mb_userId = ''u'', mb_role = Owner \<rparr>], cx_apiKey = None \<rparr>"

definition no_date :: "string \<Rightarrow> millis option" where
  "no_date s = None"

definition used_plane :: "nat \<Rightarrow> control_plane" where
  "used_plane n = sample_plane\<lparr> cp_usage := replicate n (sample_usage ''deployments'' 1 50) \<rparr>"

theorem usage_report_agrees_witness:
  "\<exists>report :: usage_report. set (ur_totals report) =
     {\<lparr> ut_metric = ''deployments'', ut_total = 2, ut_records = 2, ut_lastRecordedAt = Some 50 \<rparr>}"
proof -
  let ?run = "readUsage sample_owner (apiStore no_date) ''o'' ((), used_plane 2, sample_tables, ())"
  obtain report where report: "fst ?run = Inr report"
    and records: "ur_records report = [sample_usage ''deployments'' 1 50, sample_usage ''deployments'' 1 50]"
  proof
    show "fst ?run = Inr
        \<lparr> ur_totals = [\<lparr> ut_metric = ''deployments'', ut_total = 2, ut_records = 2,
                          ut_lastRecordedAt = Some 50 \<rparr>],
          ur_records = [sample_usage ''deployments'' 1 50, sample_usage ''deployments'' 1 50] \<rparr>" by code_simp
  qed simp
  then have run: "?run = (Inr report, snd ?run)" by (metis prod.collapse)
  have "set (ur_totals report) =
      (\<lambda>m. usage_total_of m (ur_records report)) ` us_metric ` set (ur_records report)"
    using usage_report_agrees [OF run] by blast
  also have "\<dots> = {usage_total_of ''deployments'' ([sample_usage ''deployments'' 1 50, sample_usage ''deployments'' 1 50])}"
    by (simp add: records sample_usage_def)
  also have "usage_total_of ''deployments'' ([sample_usage ''deployments'' 1 50, sample_usage ''deployments'' 1 50]) =
      \<lparr> ut_metric = ''deployments'', ut_total = 2, ut_records = 2, ut_lastRecordedAt = Some 50 \<rparr>"
    by (simp add: usage_total_of_def Let_def sample_usage_def)
  finally show ?thesis by (intro exI [where x = report])
qed

theorem large_caps_never_bind_witness:
  "assertWithinBudget (apiStore no_date) api_clock ''o'' ''deployments''
     ((), used_plane 100000, sample_tables, ()) = (Inr (), ((), used_plane 100000, sample_tables, ()))"
proof -
  have up: "cp_up (used_plane 100000)" by (simp add: used_plane_def sample_plane_def)
  have wired: "bills (apiStore no_date)" by (simp add: bills_def apiStore_def)
  have units: "us_quantity r = 1" if "r \<in> set (cp_usage (used_plane 100000))" for r
    using that by (simp add: used_plane_def sample_usage_def)
  have "budget_of ''o'' ''deployments'' sample_tables = Some \<lparr> bg_organizationId = ''o'',
      bg_metric = ''deployments'', bg_limitQuantity = 6000, bg_hardCap = True, bg_updatedBy = None \<rparr>"
    by code_simp
  from large_caps_never_bind [OF up wired units this, where q = "()" and x = "()"] show ?thesis by simp
qed

end
