(* ===== verification/Api_Wiring.thy ===== *)
theory Api_Wiring
  imports Billing_Laws
begin

section \<open>The procedures over the wired store\<close>

text \<open>
  How the API wires its procedures: the store of \<open>Api_Store\<close>, the database's clock, an identifier
  generator that touches neither the queue nor the tables, and the queue as the first part of the
  world.  \<open>ensures\<close> is the contract of a procedure, an invariant of the world it keeps whatever happens
  and a property of the values it resolves with, and the collection \<open>ensures_rules\<close> decomposes it.
\<close>

subsection \<open>Contracts\<close>

named_theorems ensures_rules "contracts of procedures, step by step"

definition ensures :: "('w \<Rightarrow> bool) \<Rightarrow> ('w, 'e, 'a) eio \<Rightarrow> ('a \<Rightarrow> bool) \<Rightarrow> bool" where
  "ensures I m P \<longleftrightarrow> (\<forall>w. I w \<longrightarrow> I (snd (m w)) \<and> (\<forall>v. fst (m w) = Inr v \<longrightarrow> P v))"

lemma ensuresD:
  assumes "ensures I m P" "I w" "m w = (r, w')"
  shows "I w'" "r = Inr v \<Longrightarrow> P v"
  using assms by (auto simp: ensures_def)

lemma ensures_weaken: "ensures I m P \<Longrightarrow> (\<And>v. P v \<Longrightarrow> Q v) \<Longrightarrow> ensures I m Q"
  by (auto simp: ensures_def)

lemma ensures_return: "P x \<Longrightarrow> ensures I (io_return x) P"
  by (simp add: ensures_def io_simps)

lemma ensures_throw [ensures_rules]: "ensures I (io_throw e) P"
  by (simp add: ensures_def io_simps)

lemma ensures_bind:
  assumes "ensures I m P" and "\<And>x. P x \<Longrightarrow> ensures I (k x) Q"
  shows "ensures I (io_bind m k) Q"
  unfolding ensures_def
proof (intro allI impI)
  fix w assume w: "I w"
  obtain r w' where m: "m w = (r, w')" by (cases "m w")
  have w': "I w'" by (rule ensuresD(1) [OF assms(1) w m])
  show "I (snd (io_bind m k w)) \<and> (\<forall>v. fst (io_bind m k w) = Inr v \<longrightarrow> Q v)"
  proof (cases r)
    case (Inl e)
    with m w' show ?thesis by (simp add: io_bind_apply)
  next
    case (Inr x)
    have "P x" by (rule ensuresD(2) [OF assms(1) w m Inr])
    from assms(2) [OF this] w' m Inr show ?thesis by (simp add: ensures_def io_bind_apply)
  qed
qed

lemma ensures_then:
  "ensures I m P \<Longrightarrow> (\<And>x. P x \<Longrightarrow> ensures I n Q) \<Longrightarrow> ensures I (io_then m n) Q"
  unfolding io_then_def by (rule ensures_bind)

lemma ensures_check: "ensures I (check_that r) (\<lambda>v. r = Inr v)"
  by (auto simp: ensures_def check_that_apply split: sum.splits)

lemma ensures_get: "ensures I (io_get f) (\<lambda>_. True)"
  by (simp add: ensures_def io_simps)

lemma ensures_option [ensures_rules]:
  "(x = None \<Longrightarrow> ensures I m P) \<Longrightarrow> (\<And>y. x = Some y \<Longrightarrow> ensures I (f y) P) \<Longrightarrow>
   ensures I (case x of None \<Rightarrow> m | Some y \<Rightarrow> f y) P"
  by (cases x) auto

lemma ensures_if [ensures_rules]:
  "(b \<Longrightarrow> ensures I m P) \<Longrightarrow> (\<not> b \<Longrightarrow> ensures I n P) \<Longrightarrow> ensures I (if b then m else n) P"
  by simp

lemma ensures_sum [ensures_rules]:
  "(\<And>a. x = Inl a \<Longrightarrow> ensures I (f a) P) \<Longrightarrow> (\<And>b. x = Inr b \<Longrightarrow> ensures I (g b) P) \<Longrightarrow>
   ensures I (case x of Inl a \<Rightarrow> f a | Inr b \<Rightarrow> g b) P"
  by (cases x) auto

subsection \<open>The wiring\<close>

definition on_rest :: "('x, 'e, 'a) eio \<Rightarrow> (('q, 'x) api_world, 'e, 'a) eio" where
  "on_rest m = (\<lambda>(q, s, t, x). case m x of (r, x') \<Rightarrow> (r, (q, s, t, x')))"

definition api_deps ::
  "(string \<Rightarrow> millis option) \<Rightarrow> ('q, 'x) api_world engines \<Rightarrow> ('x, failure, string) eio \<Rightarrow>
   (millis \<Rightarrow> (('q, 'x) api_world, unit) io) \<Rightarrow> ('q, deployment_job_payload) queue_port option \<Rightarrow>
   ('q, 'x) api_world deployment_deps" where
  "api_deps date_of engines ids sleep queue =
     \<lparr> dd_store = deployment_store.truncate (apiStore date_of), dd_engines = engines,
       dd_newId = on_rest ids, dd_now = api_clock, dd_sleep = sleep,
       dd_queue = map_option api_queue queue \<rparr>"

definition api_writes :: "('q, 'x) api_world deployment_writes" where
  "api_writes =
     \<lparr> wr_createDeployment = createDeployment, wr_updateDeploymentStatus = updateDeployment_row,
       wr_findDeploymentByIdempotencyKey = findDeploymentByIdempotencyKey,
       wr_getProjectDeploymentTarget = getProjectDeploymentTarget,
       wr_setProjectProviderResource = setProjectProvider \<rparr>"

lemma api_deps_sel [simp]:
  "dd_newId (api_deps d e g z p) = on_rest g" "dd_engines (api_deps d e g z p) = e"
  "dd_now (api_deps d e g z p) = api_clock" "dd_queue (api_deps d e g z p) = map_option api_queue p"
  by (simp_all add: api_deps_def)

lemma api_store_sel [simp]:
  "as_recordAuditEvent (dd_store (api_deps d e g z p)) = recordAuditEvent"
  "ps_getProject (dd_store (api_deps d e g z p)) = getProject"
  "st_getDeployment (dd_store (api_deps d e g z p)) = Some getDeployment"
  "st_listEnvironments (dd_store (api_deps d e g z p)) = Some listEnvironments_rows"
  "st_getPreviewTargetForService (dd_store (api_deps d e g z p)) = Some previewTarget_service"
  "st_createPreviewTarget (dd_store (api_deps d e g z p)) = Some createPreviewTarget"
  "st_promoteDeployment (dd_store (api_deps d e g z p)) = Some promote_row"
  by (simp_all add: api_deps_def deployment_store.defs apiStore_def)

lemma api_bills [simp]: "bills (dd_store (api_deps d e g z p))"
  by (simp add: bills_def api_deps_def deployment_store.defs apiStore_def)

lemma api_git_bills [simp]: "bills (apiStore d)"
  by (simp add: bills_def apiStore_def)

lemma writesFor_api [simp]: "writesFor (dd_store (api_deps d e g z p)) = Inr api_writes"
  by (simp add: writesFor_def missing_writes_def api_deps_def deployment_store.defs apiStore_def api_writes_def)

lemma api_writes_sel [simp]:
  "wr_createDeployment api_writes = createDeployment"
  "wr_updateDeploymentStatus api_writes = updateDeployment_row"
  "wr_findDeploymentByIdempotencyKey api_writes = findDeploymentByIdempotencyKey"
  "wr_getProjectDeploymentTarget api_writes = getProjectDeploymentTarget"
  "wr_setProjectProviderResource api_writes = setProjectProvider"
  by (simp_all add: api_writes_def)

subsection \<open>Steps that move neither the queue nor a table\<close>

definition unmoved :: "'q \<Rightarrow> control_plane \<Rightarrow> api_tables \<Rightarrow> ('q, 'x) api_world \<Rightarrow> bool" where
  "unmoved q s t = (\<lambda>(q', s', t', x). q' = q \<and> s' = s \<and> t' = t)"

lemma unmoved_iff [simp]: "unmoved q s t (q', s', t', x) \<longleftrightarrow> q' = q \<and> s' = s \<and> t' = t"
  by (simp add: unmoved_def)

lemma ensures_unmovedI:
  fixes m :: "(('q, 'x) api_world, 'e, 'a) eio"
  assumes step: "\<And>x. \<exists>x' r. m (q, s, t, x) = (r, (q, s, t, x')) \<and> (\<forall>v. r = Inr v \<longrightarrow> P v)"
  shows "ensures (unmoved q s t) m P"
  unfolding ensures_def
proof (intro allI impI)
  fix w :: "('q, 'x) api_world" assume "unmoved q s t w"
  then obtain x where w: "w = (q, s, t, x)" by (cases w) auto
  show "unmoved q s t (snd (m w)) \<and> (\<forall>v. fst (m w) = Inr v \<longrightarrow> P v)"
    using step [where x = x] by (auto simp: w)
qed

lemma ensures_api_read: "ensures (unmoved q s t) (api_read operation f) (\<lambda>v. cp_up s \<and> v = f s t)"
  by (rule ensures_unmovedI) (simp add: api_read_def api_op_def)

lemma ensures_on_rest: "ensures (unmoved q s t) (on_rest m) (\<lambda>_. True)"
  by (rule ensures_unmovedI) (simp add: on_rest_def split: prod.split)

lemma ensures_normaliseIdempotencyKey:
  "ensures (unmoved q s t) (normaliseIdempotencyKey presented (on_rest m)) (\<lambda>_. True)"
  unfolding normaliseIdempotencyKey_def Let_def
  by (intro ensures_rules ensures_on_rest ensures_return TrueI)

text \<open>The project a procedure works on: a row the caller belongs to, with the capability it needs.\<close>

definition project_for :: "request_context \<Rightarrow> string \<Rightarrow> control_plane \<Rightarrow> api_tables \<Rightarrow> project_row option" where
  "project_for ctx projectId s t =
     find (\<lambda>r. pj_id r = projectId \<and> belongs t (pr_userId (cx_principal ctx)) (pj_organizationId r)) (cp_projects s)"

lemma project_for_in:
  "project_for ctx projectId s t = Some p \<Longrightarrow>
   p \<in> set (cp_projects s) \<and> pj_id p = projectId \<and> belongs t (pr_userId (cx_principal ctx)) (pj_organizationId p)"
  unfolding project_for_def by (auto dest!: find_Some_iff')

lemma ensures_authorized:
  "ensures (unmoved q s t) (authorized_project ctx (dd_store (api_deps d e g z p)) projectId c)
     (\<lambda>project. cp_up s \<and> project_for ctx projectId s t = Some project \<and>
                requireCapability ctx (pj_organizationId project) c = Inr ())"
  unfolding authorized_project_def api_store_sel getProject_def first_where_def
  by (rule ensures_bind [OF ensures_api_read], rule ensures_option, rule ensures_throw,
      rule ensures_then [OF ensures_check], rule ensures_return)
    (simp add: project_for_def)

definition row_for_key :: "request_context \<Rightarrow> string \<Rightarrow> string \<Rightarrow> control_plane \<Rightarrow> api_tables \<Rightarrow> deployment_row option" where
  "row_for_key ctx organizationId key s t =
     find (\<lambda>r. dr_organizationId r = organizationId \<and> dr_idempotencyKey r = key \<and>
               belongs t (pr_userId (cx_principal ctx)) (dr_organizationId r)) (cp_deployments s)"

lemma ensures_replay_or_key:
  "ensures (unmoved q s t) (replay_or_key ctx (api_deps d e g z p) api_writes project presented)
     (\<lambda>r. case r of Inl replayed \<Rightarrow> rr_replayed replayed
                  | Inr key \<Rightarrow> row_for_key ctx (pj_organizationId project) key s t = None)"
  unfolding replay_or_key_def api_deps_sel api_writes_sel findDeploymentByIdempotencyKey_def first_where_def
  by (rule ensures_bind [OF ensures_normaliseIdempotencyKey], rule ensures_bind [OF ensures_api_read],
      rule ensures_option) (auto simp: row_for_key_def intro!: ensures_rules ensures_return)

subsection \<open>Successful steps over the wired store\<close>

lemma find_append: "find P (xs @ ys) = (case find P xs of None \<Rightarrow> find P ys | Some x \<Rightarrow> Some x)"
  by (induction xs) auto

lemma api_read_ok [io_ok]:
  "api_read operation f (q, s, t, x) = (Inr v, w') \<longleftrightarrow> cp_up s \<and> v = f s t \<and> w' = (q, s, t, x)"
  by (auto simp: api_read_def api_op_def)

lemma api_op_ok [io_ok]:
  "api_op operation f (q, s, t, x) = (Inr v, w') \<longleftrightarrow>
   cp_up s \<and> (\<exists>s' t'. f s t = (Inr v, s', t') \<and> w' = (q, s', t', x))"
  by (auto simp: api_op_def split: prod.splits)

lemma on_rest_ok [io_ok]:
  "on_rest m (q, s, t, x) = (Inr v, w') \<longleftrightarrow> (\<exists>x'. m x = (Inr v, x') \<and> w' = (q, s, t, x'))"
  by (auto simp: on_rest_def split: prod.splits)

lemma authorized_ok:
  "authorized_project ctx (dd_store (api_deps d e g z p)) projectId c (q, s, t, x) = (Inr project, w') \<longleftrightarrow>
   cp_up s \<and> project_for ctx projectId s t = Some project \<and>
   requireCapability ctx (pj_organizationId project) c = Inr () \<and> w' = (q, s, t, x)"
  by (auto simp: authorized_project_def getProject_def first_where_def project_for_def io_ok split: option.splits)

lemma on_fst_ok [io_ok]:
  "on_fst m (a, b) = (Inr v, w') \<longleftrightarrow> (\<exists>a'. m a = (Inr v, a') \<and> w' = (a', b))"
  by (auto simp: on_fst_apply split: prod.splits)

lemma api_queue_ok [io_ok]:
  "qp_enqueue (api_queue port) i (q, r) = (Inr v, w') \<longleftrightarrow> (\<exists>q'. qp_enqueue port i q = (Inr v, q') \<and> w' = (q', r))"
  by (simp add: api_queue_def io_ok)

lemma createDeployment_ok:
  "createDeployment i (q, s, t, x) = (Inr row, w') \<longleftrightarrow>
   cp_up s \<and> row = created_row i (generated_id (at_nextId t)) (cp_now s) \<and>
   (\<forall>r \<in> set (cp_deployments s).
      \<not> (dr_organizationId r = dc_organizationId i \<and> dr_idempotencyKey r = dc_idempotencyKey i)) \<and>
   w' = (q, s\<lparr> cp_deployments := cp_deployments s @ [row] \<rparr>, t\<lparr> at_nextId := at_nextId t + 1 \<rparr>, x)"
  by (auto simp: createDeployment_def io_ok Let_def list_ex_iff split: if_splits)

lemma recordAuditEvent_ok [io_ok]:
  "recordAuditEvent a (q, s, t, x) = (Inr u, w') \<longleftrightarrow>
   cp_up s \<and> w' = (q, s, t\<lparr> at_audit := at_audit t @ [audit_entry.extend a \<lparr> ad_createdAt = cp_now s \<rparr>] \<rparr>, x)"
  by (auto simp: recordAuditEvent_def io_ok)

lemma environmentIdFor_ok:
  "environmentIdFor (dd_store (api_deps d e g z p)) userId projectId kind (q, s, t, x) = (Inr v, w') \<Longrightarrow>
   cp_up s \<and> w' = (q, s, t, x)"
  by (auto simp: environmentIdFor_def listEnvironments_rows_def io_ok)

text \<open>Recording a preview target moves only the previews.\<close>

lemma ensurePreviewTarget_ok:
  "ensurePreviewTarget (dd_store (api_deps d e g z p)) i (q, s, t, x) = (Inr u, w') \<Longrightarrow>
   \<exists>previews. w' = (q, s\<lparr> cp_previews := previews \<rparr>, t, x)"
  by (auto simp: ensurePreviewTarget_def previewTarget_service_def createPreviewTarget_def io_ok
      split: if_splits intro: exI [of _ "cp_previews s"])

text \<open>A key the caller gives is used as it is, trimmed.\<close>

lemma normaliseIdempotencyKey_given:
  "presented = Some key \<Longrightarrow> trim key \<noteq> [] \<Longrightarrow>
   normaliseIdempotencyKey presented m w = (Inr k, w') \<longleftrightarrow> k = trim key \<and> length (trim key) \<le> 200 \<and> w' = w"
  by (auto simp: normaliseIdempotencyKey_def io_simps Let_def)

lemma replay_or_key_ok:
  "replay_or_key ctx (api_deps d e g z p) api_writes project presented (q, s, t, x) = (Inr (Inr key), w') \<longleftrightarrow>
   (\<exists>x'. normaliseIdempotencyKey presented (on_rest g) (q, s, t, x) = (Inr key, (q, s, t, x')) \<and>
         w' = (q, s, t, x')) \<and> cp_up s \<and>
   row_for_key ctx (pj_organizationId project) key s t = None" (is "?run \<longleftrightarrow> ?rhs")
proof
  assume ?run
  then obtain k w1 where key: "normaliseIdempotencyKey presented (on_rest g) (q, s, t, x) = (Inr k, w1)"
    and rest: "io_bind (findDeploymentByIdempotencyKey (pr_userId (cx_principal ctx)) (pj_organizationId project) k)
      (\<lambda>existing. case existing of None \<Rightarrow> io_return (Inr k)
        | Some row \<Rightarrow> if dr_projectId row \<noteq> pj_id project then io_throw KEY_OF_ANOTHER_PROJECT
            else io_return (Inl \<lparr> rr_deployment = row, rr_replayed = True,
                                  rr_engineReason = dr_failureReason row \<rparr>)) w1 = (Inr (Inr key), w')"
    by (auto simp: replay_or_key_def io_bind_ok)
  have "unmoved q s t w1"
    by (rule ensuresD(1) [OF ensures_normaliseIdempotencyKey _ key]) simp
  then obtain x' where w1: "w1 = (q, s, t, x')" by (cases w1) auto
  from rest show ?rhs unfolding w1
    by (auto simp: findDeploymentByIdempotencyKey_def first_where_def row_for_key_def io_ok key [unfolded w1]
        split: option.splits if_splits)
next
  assume ?rhs
  then show ?run
    by (auto simp: replay_or_key_def findDeploymentByIdempotencyKey_def first_where_def row_for_key_def io_ok)
qed

lemma replay_or_key_replays:
  assumes "cp_up s" "normaliseIdempotencyKey presented (on_rest g) (q, s, t, x) = (Inr key, (q, s, t, x'))"
    "row_for_key ctx (pj_organizationId project) key s t = Some row" "dr_projectId row = pj_id project"
  shows "replay_or_key ctx (api_deps d e g z p) api_writes project presented (q, s, t, x) =
    (Inr (Inl \<lparr> rr_deployment = row, rr_replayed = True, rr_engineReason = dr_failureReason row \<rparr>), (q, s, t, x'))"
  using assms
  by (auto simp: replay_or_key_def findDeploymentByIdempotencyKey_def first_where_def row_for_key_def io_ok)

end
