(* ===== verification/Deployment_Laws.thy ===== *)
theory Deployment_Laws
  imports Api_Wiring
begin

section \<open>What the deployment procedures do to the wired world\<close>

text \<open>
  A capped organization starts no work; a request under a key does its work once; a request that
  succeeds appends one pending row and hands exactly its description to the queue; what happens when
  the queue refuses.
\<close>

subsection \<open>The cap\<close>

lemma ensures_capped:
  assumes "capped org metric s t"
  shows "ensures (unmoved q s t) (assertWithinBudget (dd_store (api_deps d e g z p)) api_clock org metric) P"
proof (rule ensures_unmovedI)
  fix x
  show "\<exists>x' r. assertWithinBudget (dd_store (api_deps d e g z p)) api_clock org metric (q, s, t, x) =
      (r, (q, s, t, x')) \<and> (\<forall>v. r = Inr v \<longrightarrow> P v)"
  proof (cases "cp_up s")
    case True
    with assms show ?thesis by (simp add: assertWithinBudget_wired)
  next
    case False
    with api_bills [of d e g z p] show ?thesis
      by (simp add: assertWithinBudget_def hardCapRefusal_def bills_def io_simps getBudgetForService_def
          api_read_def api_op_def)
  qed
qed

lemma ensures_new_deployment:
  "capped (pj_organizationId project) ''deployments'' s t \<Longrightarrow>
   ensures (unmoved q s t) (new_deployment ctx (api_deps d e g z p) w project spec key) P"
  unfolding new_deployment_def api_deps_sel
  by (rule ensures_then [where P = "\<lambda>_. False"]) (auto intro: ensures_capped)

lemma ensures_new_rollback:
  "capped (pj_organizationId project) ''deployments'' s t \<Longrightarrow>
   ensures (unmoved q s t) (new_rollback ctx (api_deps d e g z p) w project commit key) P"
  unfolding new_rollback_def api_deps_sel
  by (rule ensures_then [where P = "\<lambda>_. False"]) (auto intro: ensures_capped)

lemma ensures_request:
  assumes "\<And>project. project_for ctx (cq_projectId inp) s t = Some project \<Longrightarrow>
             capped (pj_organizationId project) ''deployments'' s t"
  shows "ensures (unmoved q s t) (requestDeployment ctx (api_deps d e g z p) inp) rr_replayed"
  unfolding requestDeployment_def writesFor_api
  by (rule ensures_bind [OF ensures_authorized], rule ensures_bind [OF ensures_check],
      rule ensures_bind [OF ensures_check], simp, rule ensures_bind [OF ensures_replay_or_key],
      rule ensures_sum) (auto intro: ensures_return ensures_new_deployment assms)

lemma project_for_cap:
  assumes "\<And>project. project \<in> set (cp_projects s) \<Longrightarrow> pj_id project = projectId \<Longrightarrow>
             capped (pj_organizationId project) metric s t"
    and "project_for ctx projectId s t = Some project"
  shows "pj_id project = projectId" "capped (pj_organizationId project) metric s t"
  using assms project_for_in [OF assms(2)] by auto

text \<open>
  C7. A hard cap admits no new work: once the organization of a project has reached its cap on
  deployments, a deploy, a rollback and a redeploy of the project leave the queue, the control plane
  and every other table as they were, and the only answer they resolve with is the replay of an
  earlier request.
\<close>

theorem hard_cap_admits_nothing:
  assumes "\<And>project. project \<in> set (cp_projects s) \<Longrightarrow> pj_id project = projectId \<Longrightarrow>
             capped (pj_organizationId project) ''deployments'' s t"
  shows "ensures (unmoved q s t)
           (requestDeployment ctx (api_deps date_of engines ids sleep queue) (inp\<lparr> cq_projectId := projectId \<rparr>))
           rr_replayed \<and>
         ensures (unmoved q s t)
           (rollbackDeployment ctx (api_deps date_of engines ids sleep queue) (back\<lparr> rq_projectId := projectId \<rparr>))
           rr_replayed \<and>
         ensures (unmoved q s t)
           (redeployDeployment ctx (api_deps date_of engines ids sleep queue)
             \<lparr> di_projectId = projectId, di_deploymentId = deploymentId \<rparr> key)
           rr_replayed"
proof (intro conjI)
  note capped = project_for_cap [OF assms]
  show "ensures (unmoved q s t)
      (requestDeployment ctx (api_deps date_of engines ids sleep queue) (inp\<lparr> cq_projectId := projectId \<rparr>))
      rr_replayed"
    by (rule ensures_request) (simp add: capped(2) [of _ ctx])
  show "ensures (unmoved q s t)
      (rollbackDeployment ctx (api_deps date_of engines ids sleep queue) (back\<lparr> rq_projectId := projectId \<rparr>))
      rr_replayed"
    unfolding rollbackDeployment_def writesFor_api Let_def
    by (rule ensures_bind [OF ensures_authorized], rule ensures_bind [OF ensures_check], rule ensures_if,
        rule ensures_throw, simp, rule ensures_bind [OF ensures_replay_or_key], rule ensures_sum)
      (auto intro: ensures_return ensures_new_rollback capped(2))
  show "ensures (unmoved q s t)
      (redeployDeployment ctx (api_deps date_of engines ids sleep queue)
        \<lparr> di_projectId = projectId, di_deploymentId = deploymentId \<rparr> key) rr_replayed"
    unfolding redeployDeployment_def writesFor_api api_store_sel deployment_of_project_def
      getDeployment_def option.case
    by (rule ensures_bind [OF ensures_authorized], rule ensures_then [OF ensures_check],
        rule ensures_bind [where P = "\<lambda>_. True"], rule ensures_bind [OF ensures_api_read])
      (auto intro!: ensures_rules ensures_return ensures_request simp: redeploy_request_def capped(1) intro: capped(2))
qed

subsection \<open>A request under a key\<close>

lemma assertWithinBudget_ok:
  "assertWithinBudget (dd_store (api_deps d e g z p)) api_clock org metric (q, s, t, x) = (Inr u, w') \<longleftrightarrow>
   cp_up s \<and> \<not> capped org metric s t \<and> w' = (q, s, t, x)"
proof (cases "cp_up s")
  case True
  then show ?thesis by (auto simp: assertWithinBudget_wired)
next
  case False
  with api_bills [of d e g z p] show ?thesis
    by (simp add: assertWithinBudget_def hardCapRefusal_def bills_def io_simps getBudgetForService_def
        api_read_def api_op_def)
qed

text \<open>The audit row of a request the queue took.\<close>

definition request_audit ::
  "request_context \<Rightarrow> project_row \<Rightarrow> string \<Rightarrow> build_spec \<Rightarrow> string \<Rightarrow> millis \<Rightarrow> audit_row" where
  "request_audit ctx project key spec deploymentId now =
     audit_entry.extend
       (audit_by ctx (pj_organizationId project) ''deployment.enqueued'' ''deployment'' deploymentId
         ([(''projectId'', JString (pj_id project)), (''idempotencyKey'', JString key)] @
          if_given ''branch'' (sp_gitBranch spec) @ if_given ''commit'' (sp_commit spec)))
       \<lparr> ad_createdAt = now \<rparr>"

definition requested_row ::
  "request_context \<Rightarrow> project_row \<Rightarrow> string \<Rightarrow> string option \<Rightarrow> build_spec \<Rightarrow> control_plane \<Rightarrow> api_tables \<Rightarrow>
   deployment_row" where
  "requested_row ctx project key environmentId spec s t =
     created_row (row_input_of ctx project key environmentId spec) (generated_id (at_nextId t)) (cp_now s)"

lemma requested_row_sel [simp]:
  "dr_organizationId (requested_row ctx project key env spec s t) = pj_organizationId project"
  "dr_projectId (requested_row ctx project key env spec s t) = pj_id project"
  "dr_idempotencyKey (requested_row ctx project key env spec s t) = key"
  "dr_status (requested_row ctx project key env spec s t) = Pending"
  "dr_failureReason (requested_row ctx project key env spec s t) = None"
  by (simp_all add: requested_row_def created_row_def row_input_of_def)

definition fresh_key :: "string \<Rightarrow> string \<Rightarrow> control_plane \<Rightarrow> bool" where
  "fresh_key organizationId key s \<longleftrightarrow>
     (\<forall>r \<in> set (cp_deployments s). \<not> (dr_organizationId r = organizationId \<and> dr_idempotencyKey r = key))"

lemma new_deployment_enqueues:
  assumes "new_deployment ctx (api_deps d e g z (Some port)) api_writes project spec key (q, s, t, x) =
             (Inr r, (q', s', t', x'))"
  shows "\<exists>env job previews. let row = requested_row ctx project key env spec s t in
    r = \<lparr> rr_deployment = row, rr_replayed = False, rr_engineReason = None \<rparr> \<and>
    fresh_key (pj_organizationId project) key s \<and> \<not> capped (pj_organizationId project) ''deployments'' s t \<and>
    qp_enqueue port (deployment_job project key (create_payload project row env spec)) q = (Inr job, q') \<and>
    s' = s\<lparr> cp_deployments := cp_deployments s @ [row], cp_previews := previews \<rparr> \<and>
    t' = t\<lparr> at_nextId := at_nextId t + 1,
           at_audit := at_audit t @ [request_audit ctx project key spec (dr_id row) (cp_now s)] \<rparr> \<and> x' = x"
proof -
  let ?d = "api_deps d e g z (Some port)"
  from assms obtain env w1 where
    cap: "cp_up s" "\<not> capped (pj_organizationId project) ''deployments'' s t"
    and env: "environmentIdFor (dd_store ?d) (pr_userId (cx_principal ctx)) (pj_id project) (sp_kind spec)
      (q, s, t, x) = (Inr env, w1)"
    and rest: "io_bind (createDeployment (row_input_of ctx project key env spec)) (\<lambda>deployment.
       io_then
         (if sp_kind spec = Preview \<and> truthy (sp_previewKey spec)
          then ensurePreviewTarget (dd_store ?d)
                 \<lparr> pc_organizationId = pj_organizationId project, pc_projectId = pj_id project,
                   pc_previewKey = the (sp_previewKey spec), pc_branch = sp_gitBranch spec,
                   pc_pullRequest = sp_pullRequest spec, pc_createdBy = pr_userId (cx_principal ctx) \<rparr>
          else io_return ())
         (enqueued ctx ?d (api_queue port) project key deployment (create_payload project deployment env spec)
            ''deployment.enqueued''
            ([(''projectId'', JString (pj_id project)), (''idempotencyKey'', JString key)] @
             if_given ''branch'' (sp_gitBranch spec) @ if_given ''commit'' (sp_commit spec))))
       w1 = (Inr r, (q', s', t', x'))"
    by (auto simp: new_deployment_def io_ok assertWithinBudget_ok)
  have w1: "w1 = (q, s, t, x)" using environmentIdFor_ok [OF env] by simp
  let ?row = "requested_row ctx project key env spec s t"
  let ?s = "s\<lparr> cp_deployments := cp_deployments s @ [?row] \<rparr>" and ?t = "t\<lparr> at_nextId := at_nextId t + 1 \<rparr>"
  from rest [unfolded w1] obtain w2 where fresh: "fresh_key (pj_organizationId project) key s"
    and target: "(if sp_kind spec = Preview \<and> truthy (sp_previewKey spec)
          then ensurePreviewTarget (dd_store ?d)
                 \<lparr> pc_organizationId = pj_organizationId project, pc_projectId = pj_id project,
                   pc_previewKey = the (sp_previewKey spec), pc_branch = sp_gitBranch spec,
                   pc_pullRequest = sp_pullRequest spec, pc_createdBy = pr_userId (cx_principal ctx) \<rparr>
          else io_return ()) (q, ?s, ?t, x) = (Inr (), w2)"
    and queued: "enqueued ctx ?d (api_queue port) project key ?row (create_payload project ?row env spec)
            ''deployment.enqueued''
            ([(''projectId'', JString (pj_id project)), (''idempotencyKey'', JString key)] @
             if_given ''branch'' (sp_gitBranch spec) @ if_given ''commit'' (sp_commit spec)) w2 =
          (Inr r, (q', s', t', x'))"
    by (auto simp: io_bind_ok io_then_ok createDeployment_ok fresh_key_def row_input_of_def requested_row_def)
  obtain previews where w2: "w2 = (q, ?s\<lparr> cp_previews := previews \<rparr>, ?t, x)"
    using target ensurePreviewTarget_ok
    by (cases "sp_kind spec = Preview \<and> truthy (sp_previewKey spec)")
      (auto simp: io_ok intro: that [of "cp_previews s"] dest: ensurePreviewTarget_ok)
  from queued [unfolded w2] obtain job where
    "qp_enqueue port (deployment_job project key (create_payload project ?row env spec)) q = (Inr job, q')"
    "r = \<lparr> rr_deployment = ?row, rr_replayed = False, rr_engineReason = None \<rparr>"
    "s' = ?s\<lparr> cp_previews := previews \<rparr>" "x' = x"
    "t' = ?t\<lparr> at_audit := at_audit t @ [request_audit ctx project key spec (dr_id ?row) (cp_now s)] \<rparr>"
    by (auto simp: enqueued_def io_ok request_audit_def)
  with fresh cap(2) show ?thesis by (auto simp: Let_def)
qed

lemma request_runs:
  assumes "requestDeployment ctx (api_deps d e g z (Some port)) inp (q, s, t, x) = (Inr r, (q', s', t', x'))"
    and "\<not> rr_replayed r"
  obtains project spec key x1 where
    "cp_up s" "project_for ctx (cq_projectId inp) s t = Some project"
    "requireCapability ctx (pj_organizationId project) DeploymentCreate = Inr ()"
    "build_spec_of project inp = Inr spec"
    "normaliseIdempotencyKey (cq_idempotencyKey inp) (on_rest g) (q, s, t, x) = (Inr key, (q, s, t, x1))"
    "row_for_key ctx (pj_organizationId project) key s t = None"
    "new_deployment ctx (api_deps d e g z (Some port)) api_writes project spec key (q, s, t, x1) =
       (Inr r, (q', s', t', x'))"
proof -
  let ?d = "api_deps d e g z (Some port)"
  from assms(1) obtain project spec found w1 where
    run: "cp_up s" "project_for ctx (cq_projectId inp) s t = Some project"
    "requireCapability ctx (pj_organizationId project) DeploymentCreate = Inr ()"
    "build_spec_of project inp = Inr spec"
    "replay_or_key ctx ?d api_writes project (cq_idempotencyKey inp) (q, s, t, x) = (Inr found, w1)"
    "(case found of Inl replayed \<Rightarrow> io_return replayed
      | Inr key \<Rightarrow> new_deployment ctx ?d api_writes project spec key) w1 = (Inr r, (q', s', t', x'))"
    by (auto simp: requestDeployment_def io_bind_ok authorized_ok check_that_ok)
  have "unmoved q s t w1 \<and> (case found of Inl replayed \<Rightarrow> rr_replayed replayed
      | Inr key \<Rightarrow> row_for_key ctx (pj_organizationId project) key s t = None)"
    using ensuresD [OF ensures_replay_or_key _ run(5)] by simp
  with run(6) assms(2) obtain key where found: "found = Inr key"
    by (cases found) (auto simp: io_return_ok)
  from run(5) [unfolded found] obtain x1 where
    "normaliseIdempotencyKey (cq_idempotencyKey inp) (on_rest g) (q, s, t, x) = (Inr key, (q, s, t, x1))"
    "w1 = (q, s, t, x1)" "row_for_key ctx (pj_organizationId project) key s t = None"
    by (auto simp: replay_or_key_ok)
  with run found that show thesis by simp
qed

lemma request_replays:
  assumes "requestDeployment ctx (api_deps d e g z p) inp (q, s, t, x) = (Inr r, w')" "rr_replayed r"
    "cq_idempotencyKey inp = Some key" "trim key \<noteq> []" "p = Some port"
  shows "w' = (q, s, t, x) \<and> r = \<lparr> rr_deployment = rr_deployment r, rr_replayed = True,
           rr_engineReason = dr_failureReason (rr_deployment r) \<rparr>"
proof -
  from assms(1) obtain project spec found w1 where
    run: "replay_or_key ctx (api_deps d e g z p) api_writes project (cq_idempotencyKey inp) (q, s, t, x) =
      (Inr found, w1)"
    "(case found of Inl replayed \<Rightarrow> io_return replayed
      | Inr key \<Rightarrow> new_deployment ctx (api_deps d e g z p) api_writes project spec key) w1 = (Inr r, w')"
    by (auto simp: requestDeployment_def io_bind_ok authorized_ok check_that_ok)
  show ?thesis
  proof (cases found)
    case (Inl res)
    with run show ?thesis
      by (auto simp: replay_or_key_def findDeploymentByIdempotencyKey_def io_ok assms(3,4)
          normaliseIdempotencyKey_given split: option.splits if_splits)
  next
    case (Inr k)
    with run(1) obtain w: "w1 = (q, s, t, x)"
      by (auto simp: replay_or_key_ok assms(3,4) normaliseIdempotencyKey_given)
    obtain q' s' t' x' where w': "w' = (q', s', t', x')" by (cases w')
    from run(2) [unfolded Inr w w' sum.case assms(5)] have "\<not> rr_replayed r"
      by (auto dest!: new_deployment_enqueues simp: Let_def)
    with assms(2) show ?thesis by simp
  qed
qed

lemma request_replays_row:
  assumes "cp_up s" "project_for ctx (cq_projectId inp) s t = Some project"
    "requireCapability ctx (pj_organizationId project) DeploymentCreate = Inr ()"
    "build_spec_of project inp = Inr spec"
    "normaliseIdempotencyKey (cq_idempotencyKey inp) (on_rest g) (q, s, t, x) = (Inr key, (q, s, t, x))"
    "row_for_key ctx (pj_organizationId project) key s t = Some row" "dr_projectId row = pj_id project"
  shows "requestDeployment ctx (api_deps d e g z p) inp (q, s, t, x) =
    (Inr \<lparr> rr_deployment = row, rr_replayed = True, rr_engineReason = dr_failureReason row \<rparr>, (q, s, t, x))"
  using assms replay_or_key_replays [OF assms(1) assms(5,6,7)]
  by (simp add: requestDeployment_def io_bind_ok authorized_ok check_that_ok io_return_ok)

text \<open>The appended row is the one its key names, if the key was free.\<close>

lemma row_for_key_appended:
  assumes "row_for_key ctx org key s t = None" "dr_organizationId row = org" "dr_idempotencyKey row = key"
    "belongs t (pr_userId (cx_principal ctx)) org" "at_memberships t' = at_memberships t"
    "cp_deployments s' = cp_deployments s @ [row]"
  shows "row_for_key ctx org key s' t' = Some row"
proof -
  have belongs: "belongs t' = belongs t" using assms(5) by (simp add: fun_eq_iff belongs_def)
  show ?thesis using assms by (simp add: row_for_key_def belongs find_append)
qed

text \<open>
  C5. Deploying twice under one key is deploying once: the second request answers the row of the
  first, marked as a replay, and leaves the queue, the tables and the rest of the world as the first
  left them.
\<close>

theorem deploying_twice_is_deploying_once:
  assumes run: "requestDeployment ctx (api_deps date_of engines ids sleep (Some port)) inp w = (Inr r, w')"
    and key: "cq_idempotencyKey inp = Some key" "trim key \<noteq> []"
  shows "requestDeployment ctx (api_deps date_of engines ids sleep (Some port)) inp w' =
    (Inr \<lparr> rr_deployment = rr_deployment r, rr_replayed = True,
           rr_engineReason = dr_failureReason (rr_deployment r) \<rparr>, w')"
proof -
  obtain q s t x where w: "w = (q, s, t, x)" by (cases w)
  obtain q' s' t' x' where w': "w' = (q', s', t', x')" by (cases w')
  note given = normaliseIdempotencyKey_given [OF key(1,2)]
  show ?thesis
  proof (cases "rr_replayed r")
    case True
    from request_replays [OF run [unfolded w] this key refl] have "w' = w"
      "r = \<lparr> rr_deployment = rr_deployment r, rr_replayed = True,
             rr_engineReason = dr_failureReason (rr_deployment r) \<rparr>" by (simp_all add: w)
    with run show ?thesis by metis
  next
    case False
    from run [unfolded w w'] False obtain project spec k x1 where
      facts: "cp_up s" "project_for ctx (cq_projectId inp) s t = Some project"
      "requireCapability ctx (pj_organizationId project) DeploymentCreate = Inr ()"
      "build_spec_of project inp = Inr spec"
      and k: "normaliseIdempotencyKey (cq_idempotencyKey inp) (on_rest ids) (q, s, t, x) = (Inr k, (q, s, t, x1))"
      and free: "row_for_key ctx (pj_organizationId project) k s t = None"
      and new: "new_deployment ctx (api_deps date_of engines ids sleep (Some port)) api_writes project spec k
        (q, s, t, x1) = (Inr r, (q', s', t', x'))"
      by (rule request_runs)
    from new_deployment_enqueues [OF new] obtain env previews where
      row: "rr_deployment r = requested_row ctx project k env spec s t"
      and s': "s' = s\<lparr> cp_deployments := cp_deployments s @ [rr_deployment r], cp_previews := previews \<rparr>"
      and t': "at_memberships t' = at_memberships t"
      by (auto simp: Let_def)
    have same: "project_for ctx (cq_projectId inp) s' t' = Some project"
      using facts(2) t' by (simp add: project_for_def s' belongs_def)
    have found: "row_for_key ctx (pj_organizationId project) k s' t' = Some (rr_deployment r)"
      by (rule row_for_key_appended [OF free _ _ _ t']) (use row project_for_in [OF facts(2)] in \<open>simp_all add: s'\<close>)
    have "normaliseIdempotencyKey (cq_idempotencyKey inp) (on_rest ids) (q', s', t', x') = (Inr k, (q', s', t', x'))"
      using k by (simp add: given)
    from request_replays_row [OF _ same facts(3,4) this found] facts(1)
    show ?thesis unfolding w' by (simp add: row s')
  qed
qed


subsection \<open>When the queue refuses\<close>

lemma environmentIdFor_up:
  "cp_up s \<Longrightarrow> \<exists>env. environmentIdFor (dd_store (api_deps d e g z p)) userId projectId kind (q, s, t, x) =
     (Inr env, (q, s, t, x))"
  by (simp add: environmentIdFor_def listEnvironments_rows_def io_simps api_simps)

text \<open>
  C10. A request whose job the queue refuses is never carried out: the row stays pending with no job,
  and the same request sent again, to a queue that works, answers that row as a replay and enqueues
  nothing.
\<close>

theorem failed_enqueue_is_never_retried:
  assumes up: "cp_up s" and project: "project_for ctx (cq_projectId inp) s t = Some project"
    and may: "requireCapability ctx (pj_organizationId project) DeploymentCreate = Inr ()"
    and spec: "build_spec_of project inp = Inr spec" "sp_kind spec = Production"
    and key: "cq_idempotencyKey inp = Some key" "trim key \<noteq> []" "length (trim key) \<le> 200"
      "fresh_key (pj_organizationId project) (trim key) s"
    and cap: "\<not> capped (pj_organizationId project) ''deployments'' s t"
    and refuses: "\<And>job. qp_enqueue port job q = (Inl message, q')"
  shows "\<exists>row s' t'.
    requestDeployment ctx (api_deps date_of engines ids sleep (Some port)) inp (q, s, t, x) =
      (Inl (OtherError message), (q', s', t', x)) \<and>
    cp_deployments s' = cp_deployments s @ [row] \<and> dr_status row = Pending \<and>
    requestDeployment ctx (api_deps date_of engines ids sleep (Some works)) inp (q', s', t', x) =
      (Inr \<lparr> rr_deployment = row, rr_replayed = True, rr_engineReason = None \<rparr>, (q', s', t', x))"
proof -
  obtain env where env: "environmentIdFor (dd_store (api_deps date_of engines ids sleep (Some port)))
      (pr_userId (cx_principal ctx)) (pj_id project) Production (q, s, t, x) = (Inr env, (q, s, t, x))"
    by (rule exE [OF environmentIdFor_up [OF up]])
  define row where "row = requested_row ctx project (trim key) env spec s t"
  define s' where "s' = s\<lparr> cp_deployments := cp_deployments s @ [row] \<rparr>"
  define t' where "t' = t\<lparr> at_nextId := at_nextId t + 1 \<rparr>"
  have free: "row_for_key ctx (pj_organizationId project) (trim key) s t = None"
    using key(4) by (auto simp: row_for_key_def fresh_key_def find_None_iff)
  have given: "normaliseIdempotencyKey (cq_idempotencyKey inp) (on_rest ids) w = (Inr (trim key), w)" for w
    using key by (simp add: normaliseIdempotencyKey_given)
  have "replay_or_key ctx (api_deps date_of engines ids sleep (Some port)) api_writes project
      (cq_idempotencyKey inp) (q, s, t, x) = (Inr (Inr (trim key)), (q, s, t, x))"
    using free given up by (auto simp: replay_or_key_ok)
  moreover have "createDeployment (row_input_of ctx project (trim key) env spec) (q, s, t, x) =
      (Inr row, (q, s', t', x))"
    using key(4) up
    by (auto simp: createDeployment_ok row_def requested_row_def s'_def t'_def fresh_key_def row_input_of_def)
  ultimately have first: "requestDeployment ctx (api_deps date_of engines ids sleep (Some port)) inp (q, s, t, x) =
      (Inl (OtherError message), (q', s', t', x))"
    using up project may spec env refuses cap
    by (simp add: requestDeployment_def new_deployment_def enqueued_def io_bind_apply io_then_apply
        authorized_ok [THEN iffD2] check_that_apply assertWithinBudget_wired io_return_apply thrown_def
        io_catch_apply io_throw_apply api_queue_def on_fst_apply)
  have found: "row_for_key ctx (pj_organizationId project) (trim key) s' t' = Some row"
    by (rule row_for_key_appended [OF free])
      (use project_for_in [OF project] in \<open>simp_all add: row_def s'_def t'_def\<close>)
  have "requestDeployment ctx (api_deps date_of engines ids sleep (Some works)) inp (q', s', t', x) =
      (Inr \<lparr> rr_deployment = row, rr_replayed = True, rr_engineReason = dr_failureReason row \<rparr>, (q', s', t', x))"
  proof (rule request_replays_row [OF _ _ may spec(1) given found])
    show "cp_up s'" using up by (simp add: s'_def)
    show "project_for ctx (cq_projectId inp) s' t' = Some project"
      using project by (simp add: project_for_def s'_def t'_def belongs_def)
    show "dr_projectId row = pj_id project" by (simp add: row_def)
  qed
  then have second: "requestDeployment ctx (api_deps date_of engines ids sleep (Some works)) inp (q', s', t', x) =
      (Inr \<lparr> rr_deployment = row, rr_replayed = True, rr_engineReason = None \<rparr>, (q', s', t', x))"
    by (simp add: row_def)
  show ?thesis
    using first second by (intro exI [of _ row] exI [of _ s'] exI [of _ t']) (simp add: s'_def row_def)
qed

end
