(* ===== verification/Control_Laws.thy ===== *)
theory Control_Laws
  imports Deployment_Laws
begin

section \<open>What cancelling and reading logs do to the wired world\<close>

text \<open>
  A cancellation closes the row and leaves the job: the executor that works on the same control plane
  then delivers the job as if nothing had been built.  The logs of a deployment are served without
  asking whose deployment it is.
\<close>

subsection \<open>Cancelling\<close>

text \<open>A call that touches neither the queue nor the tables.\<close>

definition apart :: "(('q, 'x) api_world, 'e, 'a) eio \<Rightarrow> bool" where
  "apart m \<longleftrightarrow> (\<forall>q s t x. \<exists>r x'. m (q, s, t, x) = (r, (q, s, t, x')))"

lemma apart_ok: "apart m \<Longrightarrow> m (q, s, t, x) = (r, w') \<Longrightarrow> \<exists>x'. w' = (q, s, t, x')"
  by (metis apart_def prod.inject)

lemma apart_return: "apart (io_return v)"
  by (simp add: apart_def io_simps)

lemma apart_thrown: "apart m \<Longrightarrow> apart (thrown m)"
  unfolding apart_def
proof (intro allI)
  fix q s t x assume "\<forall>q s t x. \<exists>r x'. m (q, s, t, x) = (r, (q, s, t, x'))"
  then obtain r x' where "m (q, s, t, x) = (r, (q, s, t, x'))" by blast
  then show "\<exists>r x'. thrown m (q, s, t, x) = (r, (q, s, t, x'))"
    by (cases r) (simp_all add: thrown_def io_simps)
qed

lemma apart_bind:
  assumes "apart m" "\<And>v. apart (k v)"
  shows "apart (io_bind m k)"
  unfolding apart_def
proof (intro allI)
  fix q s t x
  obtain r x1 where m: "m (q, s, t, x) = (r, (q, s, t, x1))" using assms(1) unfolding apart_def by blast
  show "\<exists>r x'. io_bind m k (q, s, t, x) = (r, (q, s, t, x'))"
  proof (cases r)
    case (Inl e)
    with m show ?thesis by (simp add: io_bind_apply)
  next
    case (Inr v)
    with m assms(2) [of v] show ?thesis by (simp add: io_bind_apply apart_def)
  qed
qed

text \<open>The executor's work on a job of which nothing is in flight: \<open>executeDeployment\<close> without its resumption.\<close>

definition first_delivery :: "'e executor_deps \<Rightarrow> execute_input \<Rightarrow> ('e, execution_result) io" where
  "first_delivery deps i =
     io_bind (xw_getProjectDeploymentTarget (xd_writes deps) (xi_organizationId i) (xi_projectId i)) (\<lambda>target.
       let rootDirectory = (case xi_rootDirectory i of
                              Some d \<Rightarrow> Some d
                            | None \<Rightarrow> Option.bind target dt_rootDirectory)
       in io_bind (resolveApplication deps i target) (\<lambda>(model, application).
            let engine = deploymentEngineFor (xd_engines deps) model in
            if xi_action i = Rollback then rollback deps engine i application
            else io_bind (ensureApplication deps engine i rootDirectory application) (\<lambda>ensured.
                   case ensured of
                     Inl r \<Rightarrow> io_return r
                   | Inr a \<Rightarrow> deployTo deps engine i rootDirectory a)))"

lemma executes_first_delivery:
  assumes "cp_up s" "xd_writes deps = deploymentWrites"
    and "\<And>r. row_of_input i s = Some r \<Longrightarrow> \<not> in_flight r"
  shows "executeDeployment deps i (s, x) = first_delivery deps i (s, x)"
proof -
  have "resumeRunningDeployment deps engine i application (s, x) = (Inr None, (s, x))" for engine application
    using assms(3) by (simp add: resume_wired [OF assms(1,2)] split: option.split)
  then show ?thesis
    using resolveApplication_wired [OF assms(1,2)]
    by (simp add: execute_wired [OF assms(1,2)] first_delivery_def io_bind_apply wired_reads [OF assms(1)] assms(2)
        Let_def split: prod.split)
qed

text \<open>The deployment a member may read, of whichever project.\<close>

definition deployment_for :: "request_context \<Rightarrow> string \<Rightarrow> control_plane \<Rightarrow> api_tables \<Rightarrow> deployment_row option" where
  "deployment_for ctx deploymentId s t =
     find (\<lambda>r. dr_id r = deploymentId \<and> belongs t (pr_userId (cx_principal ctx)) (dr_organizationId r)) (cp_deployments s)"

lemma getDeployment_ok:
  "getDeployment (pr_userId (cx_principal ctx)) deploymentId (q, s, t, x) = (Inr found, w') \<longleftrightarrow>
   cp_up s \<and> found = deployment_for ctx deploymentId s t \<and> w' = (q, s, t, x)"
  by (auto simp: getDeployment_def api_read_ok first_where_def deployment_for_def)

lemma deployment_of_project_ok:
  "deployment_of_project ctx getDeployment project deploymentId (q, s, t, x) = (Inr row, w') \<longleftrightarrow>
   cp_up s \<and> deployment_for ctx deploymentId s t = Some row \<and> dr_projectId row = pj_id project \<and> w' = (q, s, t, x)"
  by (auto simp: deployment_of_project_def io_bind_ok getDeployment_ok io_return_ok io_throw_ok
      split: option.splits if_splits)

lemma cancel_runs:
  assumes run: "cancelDeployment ctx (api_deps date_of engines ids sleep queue)
                  \<lparr> di_projectId = projectId, di_deploymentId = deploymentId \<rparr> (q, s, t, x) =
                (Inr result, (q', s', t', x'))"
    and apart: "\<And>model c ref. apart (de_cancel (deploymentEngineFor engines model) c ref)"
    and closed: "dr_status (cn_deployment result) = Failed"
  obtains project :: project_row and row :: deployment_row and u where "cp_up s" "project_for ctx projectId s t = Some project"
    "dr_status row = Pending \<or> dr_status row = Running" "q' = q" "s' = written u s"
    "du_organizationId u = pj_organizationId project" "du_id u = deploymentId"
    "deployment_of (pj_organizationId project) deploymentId s' = Some (cn_deployment result)"
proof -
  let ?d = "api_deps date_of engines ids sleep queue"
  from run obtain project row where
    facts: "cp_up s" "project_for ctx projectId s t = Some project"
    and row: "deployment_for ctx deploymentId s t = Some row"
    and live: "dr_status row = Pending \<or> dr_status row = Running"
    and rest: "io_bind (cancel_at_engine ?d project row) (close_cancelled ctx ?d api_writes project row)
        (q, s, t, x) = (Inr result, (q', s', t', x'))"
    by (auto simp: cancelDeployment_def io_bind_ok [of _ _ "(q, s, t, x)"] authorized_ok check_that_ok
        deployment_of_project_ok io_throw_ok split: if_splits)
  have id: "dr_id row = deploymentId"
    using row by (auto simp: deployment_for_def dest!: find_Some_iff')
  from rest obtain asked w1 where asked: "cancel_at_engine ?d project row (q, s, t, x) = (Inr asked, w1)"
    and close: "close_cancelled ctx ?d api_writes project row asked w1 = (Inr result, (q', s', t', x'))"
    by (auto simp: io_bind_ok)
  have "apart (cancel_at_engine ?d project row)"
    unfolding cancel_at_engine_def Let_def api_deps_sel
    by (cases "truthy (dr_deploymentResourceId row)")
      (auto intro!: apart_return apart_bind apart_thrown apart)
  from apart_ok [OF this asked] obtain x1 where w1: "w1 = (q, s, t, x1)" by blast
  from close obtain u where
    wrote: "s' = written u s" "q' = q" "du_organizationId u = pj_organizationId project" "du_id u = deploymentId"
    and result: "cn_deployment result = or_else (deployment_of (pj_organizationId project) deploymentId (written u s)) row"
    by (cases asked)
      (auto simp: close_cancelled_def io_bind_ok io_then_ok io_return_ok io_get_ok w1 updateDeployment_row_def api_op_ok
        recordAuditEvent_ok cancel_write_def id)
  have "row \<noteq> cn_deployment result" using live closed by auto
  with result have "deployment_of (pj_organizationId project) deploymentId s' = Some (cn_deployment result)"
    unfolding wrote(1) by (cases "deployment_of (pj_organizationId project) deploymentId (written u s)") auto
  with facts live wrote that show thesis by blast
qed

text \<open>
  C8. Cancelling a deployment does not cancel its job: a cancellation that closes the row as failed,
  with or without the engine's consent, leaves the queue as it was, and an executor on the same
  control plane that is handed the job afterwards delivers it as if it were new, building and
  deploying what was cancelled, even where it would have only polled the build before.
\<close>

theorem cancelled_deployment_is_delivered_again:
  assumes run: "cancelDeployment ctx (api_deps date_of engines ids sleep queue)
                  \<lparr> di_projectId = projectId, di_deploymentId = deploymentId \<rparr> (q, s, t, x) =
                (Inr result, (q', s', t', x'))"
    and apart: "\<And>model c ref. apart (de_cancel (deploymentEngineFor engines model) c ref)"
    and closed: "dr_status (cn_deployment result) = Failed"
    and worker: "xd_writes deps = deploymentWrites" "xi_deploymentId i = deploymentId"
      "xi_organizationId i = dr_organizationId (cn_deployment result)"
  shows "q' = q \<and> row_of_input i s' = Some (cn_deployment result) \<and>
         executeDeployment deps i (s', y) = first_delivery deps i (s', y)"
proof -
  obtain project :: project_row and u where
    up: "cp_up s" and q: "q' = q" and s': "s' = written u s"
    and found: "deployment_of (pj_organizationId project) deploymentId s' = Some (cn_deployment result)"
    by (rule cancel_runs [OF run apart closed])
  have "dr_organizationId (cn_deployment result) = pj_organizationId project"
    using found by (auto simp: deployment_of_def is_deployment_def dest!: find_Some_iff')
  then have row: "row_of_input i s' = Some (cn_deployment result)"
    using found worker by (simp add: row_of_input_def)
  have "executeDeployment deps i (s', y) = first_delivery deps i (s', y)"
    by (rule executes_first_delivery) (use up s' row closed worker in \<open>auto simp: in_flight_def\<close>)
  with q row show ?thesis by simp
qed

subsection \<open>Logs\<close>

text \<open>
  C9. The logs of a deployment are served across tenants: the procedure authorises the caller for the
  project it names and then reads the deployment it names, of whichever project.  So where a caller, for
  instance a key of one organization, is refused the logs of a deployment through the project that owns
  it, the same caller gets the engine's log of that deployment through any project it may read.
\<close>

theorem logs_are_served_across_tenants:
  assumes up: "cp_up s" and project: "project_for ctx projectId s t = Some project"
    and may: "requireCapability ctx (pj_organizationId project) DeploymentRead = Inr ()"
    and row: "deployment_for ctx deploymentId s t = Some row" "dr_buildProviderResourceId row = None"
      "dr_deploymentResourceId row = Some handle" "handle \<noteq> []"
    and owner: "project_for ctx (dr_projectId row) s t = Some own"
      "requireCapability ctx (pj_organizationId own) DeploymentRead = Inl refusal"
    and container: "executionModel (pj_executionModel project) = Container"
    and engine: "de_getLogs (deploymentEngineFor engines Container) (log_ctx project ''logs-'' deploymentId)
        \<lparr> ref_organizationId = pj_organizationId project, ref_provider = HOSTING_PROVIDER,
          ref_resourceType = ''deployment'', ref_resourceId = handle \<rparr> cursor (q, s, t, x) =
        (Inr (AOk status page), w')"
  shows "deploymentsLogs ctx (api_deps date_of engines ids sleep queue)
           \<lparr> di_projectId = dr_projectId row, di_deploymentId = deploymentId \<rparr> cursor (q, s, t, x) =
           (Inl refusal, (q, s, t, x)) \<and>
         deploymentsLogs ctx (api_deps date_of engines ids sleep queue)
           \<lparr> di_projectId = projectId, di_deploymentId = deploymentId \<rparr> cursor (q, s, t, x) =
           (Inr \<lparr> lg_lines = lp_lines page, lg_cursor = lp_cursor page, lg_source = Some LogDeployment,
                  lg_engineReason = None \<rparr>, w')"
proof
  let ?d = "api_deps date_of engines ids sleep queue"
  have "authorized_project ctx (dd_store ?d) (dr_projectId row) DeploymentRead (q, s, t, x) = (Inl refusal, (q, s, t, x))"
    using up owner by (simp add: authorized_project_def getProject_def io_simps api_simps first_where_def
        project_for_def [symmetric])
  then show "deploymentsLogs ctx ?d \<lparr> di_projectId = dr_projectId row, di_deploymentId = deploymentId \<rparr> cursor
      (q, s, t, x) = (Inl refusal, (q, s, t, x))"
    by (simp add: deploymentsLogs_def io_bind_apply)
  have target: "getProjectDeploymentTarget (pr_userId (cx_principal ctx)) (pj_id project) (q, s, t, x) =
      (Inr (Some (target_columns project)), (q, s, t, x))"
    using up project project_for_in [OF project]
    by (simp add: getProjectDeploymentTarget_def api_simps first_where_def project_for_def)
  have read: "getDeployment (pr_userId (cx_principal ctx)) deploymentId (q, s, t, x) = (Inr (Some row), (q, s, t, x))"
    using up row(1) by (simp add: getDeployment_ok)
  have "authorized_project ctx (dd_store ?d) projectId DeploymentRead (q, s, t, x) = (Inr project, (q, s, t, x))"
    using up project may by (simp add: authorized_ok)
  then show "deploymentsLogs ctx ?d \<lparr> di_projectId = projectId, di_deploymentId = deploymentId \<rparr> cursor (q, s, t, x) =
      (Inr \<lparr> lg_lines = lp_lines page, lg_cursor = lp_cursor page, lg_source = Some LogDeployment,
             lg_engineReason = None \<rparr>, w')"
    using target read row engine container
    by (simp add: deploymentsLogs_def io_simps runtime_log_ref_def target_columns_def Let_def thrown_def)
qed

subsection \<open>Concrete runs\<close>

definition quiet_engines :: "'w engines" where
  "quiet_engines = \<lparr> re_hosting = hostingNotConfigured ''coolify'' None,
     re_serverless = serverlessNotConfigured ''lambda'' None, eg_build = buildNotConfigured ''railpack'' None \<rparr>"

text \<open>An engine whose log of a run is the run's handle.\<close>

definition echo_engines :: "'w engines" where
  "echo_engines = quiet_engines\<lparr> re_hosting := (hostingNotConfigured ''coolify'' None)
     \<lparr> ha_getLogs := \<lambda>_ ref _. io_return (AOk Succeeded \<lparr> lp_lines = [ref_resourceId ref], lp_cursor = None \<rparr>) \<rparr> \<rparr>"

definition sample_api :: "('q, deployment_job_payload) queue_port option \<Rightarrow> ('q, unit) api_world deployment_deps" where
  "sample_api queue = api_deps no_date quiet_engines (io_return ''id'') (\<lambda>_. io_return ()) queue"

definition sample_request :: create_deployment_request where
  "sample_request = \<lparr> cq_projectId = ''p'', cq_idempotencyKey = Some ''k'', cq_gitRepository = None,
     cq_gitBranch = Some ''main'', cq_commit = None, cq_buildPack = None, cq_rootDirectory = None,
     cq_kind = None, cq_staged = False, cq_pullRequest = None \<rparr>"

definition capped_tables :: api_tables where
  "capped_tables = sample_tables\<lparr> at_budgets := [\<lparr> bg_organizationId = ''o'', bg_metric = ''deployments'',
     bg_limitQuantity = 0, bg_hardCap = True, bg_updatedBy = None \<rparr>] \<rparr>"

type_synonym sample_world = "(deployment_job_payload mem_queue, unit) api_world"

theorem hard_cap_admits_nothing_witness:
  "snd (requestDeployment sample_owner (sample_api (Some mem_port)) (sample_request\<lparr> cq_projectId := ''p'' \<rparr>)
     (empty_queue 0, sample_plane, capped_tables, ())) = (empty_queue 0, sample_plane, capped_tables, ())"
proof -
  have cap: "capped (pj_organizationId project) ''deployments'' sample_plane capped_tables"
    if "project \<in> set (cp_projects sample_plane)" "pj_id project = ''p''" for project
  proof -
    have "project = sample_project" using that by (simp add: sample_plane_def)
    moreover have "capped (pj_organizationId sample_project) ''deployments'' sample_plane capped_tables" by code_simp
    ultimately show ?thesis by simp
  qed
  have "ensures (unmoved (empty_queue 0) sample_plane capped_tables)
      (requestDeployment sample_owner (sample_api (Some mem_port)) (sample_request\<lparr> cq_projectId := ''p'' \<rparr>)) rr_replayed"
    unfolding sample_api_def by (rule conjunct1 [OF hard_cap_admits_nothing [OF cap]])
  then have "unmoved (empty_queue 0) sample_plane capped_tables
      (snd (requestDeployment sample_owner (sample_api (Some mem_port)) (sample_request\<lparr> cq_projectId := ''p'' \<rparr>)
        (empty_queue 0, sample_plane, capped_tables, ())))"
    by (simp add: ensures_def)
  then show ?thesis by (auto simp: unmoved_def split: prod.splits)
qed

theorem deploying_twice_is_deploying_once_witness:
  "\<exists>(r :: deployment_request_result) (w' :: sample_world).
     requestDeployment sample_owner (sample_api (Some mem_port)) sample_request
       (empty_queue 0, sample_plane, sample_tables, ()) = (Inr r, w') \<and>
     requestDeployment sample_owner (sample_api (Some mem_port)) sample_request w' =
       (Inr \<lparr> rr_deployment = rr_deployment r, rr_replayed = True,
              rr_engineReason = dr_failureReason (rr_deployment r) \<rparr>, w')"
proof -
  let ?run = "requestDeployment sample_owner (sample_api (Some mem_port)) sample_request
       (empty_queue 0, sample_plane, sample_tables, ())"
  have "\<not> isl (fst ?run)" by code_simp
  then obtain r where "?run = (Inr r, snd ?run)" by (metis prod.collapse sum.collapse(2))
  note run = this
  have key: "cq_idempotencyKey sample_request = Some ''k''" "trim ''k'' \<noteq> []" by code_simp+
  show ?thesis
    using run deploying_twice_is_deploying_once [OF run [unfolded sample_api_def] key, folded sample_api_def]
    by (intro exI conjI)
qed


definition refusing_port :: "(deployment_job_payload mem_queue, deployment_job_payload) queue_port" where
  "refusing_port = mem_port\<lparr> qp_enqueue := \<lambda>_ q. (Inl ''down'', q) \<rparr>"

theorem failed_enqueue_is_never_retried_witness:
  "\<exists>row s' t'.
    requestDeployment sample_owner (sample_api (Some refusing_port)) sample_request
      (empty_queue 0, sample_plane, sample_tables, ()) =
      (Inl (OtherError ''down''), (empty_queue 0, s', t', ())) \<and>
    cp_deployments s' = cp_deployments sample_plane @ [row] \<and> dr_status row = Pending \<and>
    requestDeployment sample_owner (sample_api (Some mem_port)) sample_request (empty_queue 0, s', t', ()) =
      (Inr \<lparr> rr_deployment = row, rr_replayed = True, rr_engineReason = None \<rparr>, (empty_queue 0, s', t', ()))"
proof -
  have up: "cp_up sample_plane" by (simp add: sample_plane_def)
  have project: "project_for sample_owner (cq_projectId sample_request) sample_plane sample_tables = Some sample_project"
    and may: "requireCapability sample_owner (pj_organizationId sample_project) DeploymentCreate = Inr ()"
    and cap: "\<not> capped (pj_organizationId sample_project) ''deployments'' sample_plane sample_tables"
    and key: "cq_idempotencyKey sample_request = Some ''k''" "trim ''k'' \<noteq> []" "length (trim ''k'') \<le> 200"
    "fresh_key (pj_organizationId sample_project) (trim ''k'') sample_plane"
    by code_simp+
  obtain spec where spec: "build_spec_of sample_project sample_request = Inr spec" "sp_kind spec = Production"
  proof -
    have "case build_spec_of sample_project sample_request of Inl _ \<Rightarrow> False | Inr spec \<Rightarrow> sp_kind spec = Production"
      by code_simp
    with that show thesis by (auto split: sum.splits)
  qed
  have "qp_enqueue refusing_port job (empty_queue 0) = (Inl ''down'', empty_queue 0)" for job
    by (simp add: refusing_port_def)
  from failed_enqueue_is_never_retried [OF up project may spec key cap this, of no_date quiet_engines "io_return ''id''"
      "\<lambda>_. io_return ()" "()" mem_port, folded sample_api_def] show ?thesis .
qed

theorem cancelled_deployment_is_delivered_again_witness:
  "\<exists>(result :: cancel_result) s' t'.
     cancelDeployment sample_owner (sample_api (Some mem_port)) \<lparr> di_projectId = ''p'', di_deploymentId = ''d3'' \<rparr>
       (empty_queue 0, sample_plane, sample_tables, ()) = (Inr result, (empty_queue 0, s', t', ())) \<and>
     executeDeployment (counting_deps Succeeded) ((sample_execute Create Production None)\<lparr> xi_deploymentId := ''d3'' \<rparr>) (s', 0) =
       first_delivery (counting_deps Succeeded) ((sample_execute Create Production None)\<lparr> xi_deploymentId := ''d3'' \<rparr>) (s', 0)"
proof -
  let ?run = "cancelDeployment sample_owner (sample_api (Some mem_port))
     \<lparr> di_projectId = ''p'', di_deploymentId = ''d3'' \<rparr> (empty_queue 0, sample_plane, sample_tables, ())"
  have "(case fst ?run of Inl e \<Rightarrow> False | Inr result \<Rightarrow> dr_status (cn_deployment result) = Failed \<and>
      dr_organizationId (cn_deployment result) = ''o'')" by code_simp
  then obtain result where "fst ?run = Inr result" and closed: "dr_status (cn_deployment result) = Failed"
    and org: "dr_organizationId (cn_deployment result) = ''o''" by (auto split: sum.splits)
  then obtain q' s' t' where run: "?run = (Inr result, (q', s', t', ()))" by (cases ?run) auto
  have apart: "apart (de_cancel (deploymentEngineFor quiet_engines model) c ref)" for model c ref
    by (cases model) (simp_all add: apart_def deploymentEngineFor_def quiet_engines_def configured_def
        serverlessNotConfigured_def hostingNotConfigured_def containerDeploymentEngine_def
        notConfiguredServerless_def miss_def io_simps)
  have worker: "xd_writes (counting_deps Succeeded) = deploymentWrites"
    "xi_deploymentId ((sample_execute Create Production None)\<lparr> xi_deploymentId := ''d3'' \<rparr>) = ''d3''"
    "xi_organizationId ((sample_execute Create Production None)\<lparr> xi_deploymentId := ''d3'' \<rparr>) =
       dr_organizationId (cn_deployment result)"
    by (simp_all add: counting_deps_def sample_execute_def org)
  from cancelled_deployment_is_delivered_again [OF run [unfolded sample_api_def] apart closed worker, of 0]
  have again: "q' = empty_queue 0" "executeDeployment (counting_deps Succeeded)
      ((sample_execute Create Production None)\<lparr> xi_deploymentId := ''d3'' \<rparr>) (s', 0) =
    first_delivery (counting_deps Succeeded) ((sample_execute Create Production None)\<lparr> xi_deploymentId := ''d3'' \<rparr>) (s', 0)"
    by blast+
  from run again show ?thesis by blast
qed

text \<open>A caller with a key of the organization \<open>o\<close>, whose owner belongs to \<open>b\<close> as well.\<close>

definition keyed :: request_context where
  "keyed = \<lparr> cx_principal = cx_principal sample_owner,
     cx_memberships = [\<lparr> mb_organizationId = ''o'', mb_userId = ''u'', mb_role = Owner \<rparr>,
                       \<lparr> mb_organizationId = ''b'', mb_userId = ''u'', mb_role = Owner \<rparr>],
     cx_apiKey = Some \<lparr> kx_keyId = ''k'', kx_organizationId = ''o'', kx_scopes = [DeploymentRead] \<rparr> \<rparr>"

definition two_tenants :: control_plane where
  "two_tenants = sample_plane
     \<lparr> cp_projects := [sample_project, sample_project\<lparr> pj_id := ''s'', pj_organizationId := ''b'' \<rparr>],
       cp_deployments := [(sample_deployment ''d9'' Running False)
         \<lparr> dr_organizationId := ''b'', dr_projectId := ''s'', dr_deploymentResourceId := Some ''run'' \<rparr>] \<rparr>"

definition two_tables :: api_tables where
  "two_tables = sample_tables\<lparr> at_memberships := cx_memberships keyed \<rparr>"

theorem logs_are_served_across_tenants_witness:
  "deploymentsLogs keyed (api_deps no_date echo_engines (io_return ''id'') (\<lambda>_. io_return ()) (Some mem_port))
     \<lparr> di_projectId = ''p'', di_deploymentId = ''d9'' \<rparr> None (empty_queue 0, two_tenants, two_tables, ()) =
   (Inr \<lparr> lg_lines = [''run''], lg_cursor = None, lg_source = Some LogDeployment, lg_engineReason = None \<rparr>,
    (empty_queue 0, two_tenants, two_tables, ()))"
proof -
  let ?row = "(sample_deployment ''d9'' Running False)
     \<lparr> dr_organizationId := ''b'', dr_projectId := ''s'', dr_deploymentResourceId := Some ''run'' \<rparr>"
  let ?own = "sample_project\<lparr> pj_id := ''s'', pj_organizationId := ''b'' \<rparr>"
  let ?page = "\<lparr> lp_lines = [''run''], lp_cursor = None \<rparr>"
  have up: "cp_up two_tenants" by code_simp
  have facts: "project_for keyed ''p'' two_tenants two_tables = Some sample_project"
    "requireCapability keyed (pj_organizationId sample_project) DeploymentRead = Inr ()"
    "deployment_for keyed ''d9'' two_tenants two_tables = Some ?row"
    "dr_buildProviderResourceId ?row = None" "dr_deploymentResourceId ?row = Some ''run''" "''run'' \<noteq> []"
    "project_for keyed (dr_projectId ?row) two_tenants two_tables = Some ?own"
    "requireCapability keyed (pj_organizationId ?own) DeploymentRead = Inl ORG_NOT_FOUND"
    "executionModel (pj_executionModel sample_project) = Container"
    by code_simp+
  have engine: "de_getLogs (deploymentEngineFor echo_engines Container) (log_ctx sample_project ''logs-'' ''d9'')
      \<lparr> ref_organizationId = pj_organizationId sample_project, ref_provider = HOSTING_PROVIDER,
        ref_resourceType = ''deployment'', ref_resourceId = ''run'' \<rparr> None
      (empty_queue 0 :: deployment_job_payload mem_queue, two_tenants, two_tables, ()) =
      (Inr (AOk Succeeded ?page), (empty_queue 0, two_tenants, two_tables, ()))"
    by (simp add: echo_engines_def deploymentEngineFor_def containerDeploymentEngine_def quiet_engines_def io_simps)
  from logs_are_served_across_tenants [OF up facts engine, of no_date "io_return ''id''" "\<lambda>_. io_return ()" "Some mem_port"]
  show ?thesis by simp
qed

end
