(* ===== verification/Hook_Laws.thy ===== *)
theory Hook_Laws
  imports Control_Laws
begin

section \<open>What a webhook delivery does to the wired world\<close>

text \<open>
  A delivery that does not prove the link's secret changes nothing; one that names what an earlier one
  deployed is a replay; what a push and the Deploy button hand the worker agrees; the preview keys are
  ones the table accepts.
\<close>

definition api_hook ::
  "(string \<Rightarrow> millis option) \<Rightarrow> ('q, deployment_job_payload) queue_port \<Rightarrow> ('q, 'x) api_world secret_box option \<Rightarrow>
   ('q, 'x) api_world hook_deps" where
  "api_hook date_of port cipher =
     \<lparr> hd_store = apiStore date_of, hd_queue = api_queue port, hd_cipher = cipher, hd_now = api_clock \<rparr>"

lemma api_hook_sel [simp]:
  "hd_store (api_hook d port c) = apiStore d" "hd_queue (api_hook d port c) = api_queue port"
  "hd_cipher (api_hook d port c) = c" "hd_now (api_hook d port c) = api_clock"
  by (simp_all add: api_hook_def)

lemma apiStore_sel [simp]:
  "as_recordAuditEvent (apiStore d) = recordAuditEvent" "st_createDeployment (apiStore d) = Some createDeployment"
  "st_getPreviewTargetForService (apiStore d) = Some previewTarget_service"
  "st_createPreviewTarget (apiStore d) = Some createPreviewTarget"
  "gt_getGitLinkForService (apiStore d) = Some getGitLinkForService"
  "gt_getGitLinkSecret (apiStore d) = Some getGitLinkSecret"
  "gt_getProjectForService (apiStore d) = Some getProjectForService"
  "gt_findDeploymentByIdempotencyKeyForService (apiStore d) = Some findDeploymentByIdempotencyKeyForService"
  "gt_listEnvironmentsForService (apiStore d) = Some listEnvironments_service"
  by (simp_all add: apiStore_def)

lemma hook_writesFor_api [simp]: "hook_writesFor (apiStore d) = Inr ()"
  by (simp add: hook_writesFor_def missing_hook_writes_def)

subsection \<open>Proving the secret\<close>

text \<open>The delivery proves the secret of the link it names.\<close>

definition proves_secret ::
  "(string \<Rightarrow> string \<Rightarrow> string) \<Rightarrow> ('q, 'x) api_world secret_box \<Rightarrow> hook_input \<Rightarrow> api_tables \<Rightarrow> bool" where
  "proves_secret hmac box inp t \<longleftrightarrow>
     (\<exists>link ciphertext secret. link_of (hi_organizationId inp) (hi_linkId inp) t = Some (link, ciphertext) \<and>
        sx_decrypt box ciphertext = Some secret \<and>
        (signatureMatches (hmac secret (hi_body inp)) (hi_signature inp) \<or> tokenMatches secret (hi_token inp)))"

lemma verified_delivery:
  assumes "verifyGitDelivery hmac (apiStore d) cipher
      \<lparr> dv_organizationId = hi_organizationId inp, dv_linkId = hi_linkId inp, dv_body = hi_body inp,
        dv_signature = hi_signature inp, dv_token = hi_token inp \<rparr> (q, s, t, x) = (r, w')"
  shows "w' = (q, s, t, x)"
    "r = Inr (Inr link) \<Longrightarrow> \<exists>box. cipher = Some box \<and> proves_secret hmac box inp t"
proof -
  have "w' = (q, s, t, x) \<and> (\<forall>link. r = Inr (Inr link) \<longrightarrow> (\<exists>box. cipher = Some box \<and> proves_secret hmac box inp t))"
  proof (cases cipher)
    case None
    with assms show ?thesis by (auto simp: verifyGitDelivery_def io_simps)
  next
    case (Some box)
    show ?thesis
    proof (cases "cp_up s")
      case False
      with assms Some show ?thesis
        by (auto simp: verifyGitDelivery_def io_simps getGitLinkForService_def api_read_def api_op_def)
    next
      case True
      show ?thesis
      proof (cases "link_of (hi_organizationId inp) (hi_linkId inp) t")
        case None
        with assms Some True show ?thesis
          by (auto simp: verifyGitDelivery_def io_simps getGitLinkForService_def api_simps)
      next
        case (Some lc)
        obtain link ciphertext where lc: "lc = (link, ciphertext)" by (cases lc)
        show ?thesis
          using assms \<open>cipher = Some box\<close> True Some lc
          by (auto simp: verifyGitDelivery_def io_simps getGitLinkForService_def getGitLinkSecret_def api_simps
              proves_secret_def split: option.splits if_splits)
      qed
    qed
  qed
  then show "w' = (q, s, t, x)" "r = Inr (Inr link) \<Longrightarrow> \<exists>box. cipher = Some box \<and> proves_secret hmac box inp t"
    by blast+
qed

text \<open>
  C11. Only the secret moves anything: a delivery changes the queue, a table or the rest of the world, or
  is answered as accepted, only if it presented a signature or a token that matches the decrypted secret
  of the very link and organization it names; every other delivery is answered 401, 503 or an error and
  leaves the world as it was.
\<close>

theorem only_the_secret_moves_anything:
  assumes run: "receiveGitDelivery hmac parse (api_hook date_of port cipher) inp (q, s, t, x) = (r, w')"
    and moved: "w' \<noteq> (q, s, t, x) \<or> (\<exists>out. r = Inr out \<and> ho_ok out)"
  shows "\<exists>box. cipher = Some box \<and> proves_secret hmac box inp t"
proof -
  let ?dv = "\<lparr> dv_organizationId = hi_organizationId inp, dv_linkId = hi_linkId inp, dv_body = hi_body inp,
        dv_signature = hi_signature inp, dv_token = hi_token inp \<rparr>"
  obtain v w1 where v: "verifyGitDelivery hmac (apiStore date_of) cipher ?dv (q, s, t, x) = (v, w1)"
    by (rule prod.exhaust)
  have w1: "w1 = (q, s, t, x)" by (rule verified_delivery(1) [OF v])
  have "\<exists>link. v = Inr (Inr link)"
  proof (rule ccontr)
    assume none: "\<not> (\<exists>link. v = Inr (Inr link))"
    have "w' = (q, s, t, x) \<and> \<not> (\<exists>out. r = Inr out \<and> ho_ok out)"
    proof (cases v)
      case (Inl e)
      with run v w1 show ?thesis by (auto simp: receiveGitDelivery_def io_bind_apply)
    next
      case (Inr a)
      with none obtain refusal where "a = Inl refusal" by (cases a) auto
      with Inr run v w1 show ?thesis
        by (cases refusal) (auto simp: receiveGitDelivery_def io_bind_apply io_return_apply outcome_def)
    qed
    with moved show False by blast
  qed
  then show ?thesis using verified_delivery(2) [OF v] by blast
qed

subsection \<open>Redeliveries\<close>

definition delivered_row ::
  "git_link \<Rightarrow> project_row \<Rightarrow> parsed_delivery \<Rightarrow> string \<Rightarrow> string option \<Rightarrow> control_plane \<Rightarrow> api_tables \<Rightarrow>
   deployment_row" where
  "delivered_row link project d repository env s t =
     created_row (delivery_row link project d repository env) (generated_id (at_nextId t)) (cp_now s)"

lemma delivered_row_sel [simp]:
  "dr_organizationId (delivered_row link project d r env s t) = gl_organizationId link"
  "dr_idempotencyKey (delivered_row link project d r env s t) = delivery_key link d"
  "dr_status (delivered_row link project d r env s t) = Pending"
  by (simp_all add: delivered_row_def created_row_def delivery_row_def)

lemma ensurePreviewTarget_store_ok:
  "ensurePreviewTarget (apiStore d) i (q, s, t, x) = (Inr u, w') \<Longrightarrow>
   \<exists>previews. w' = (q, s\<lparr> cp_previews := previews \<rparr>, t, x)"
  by (auto simp: ensurePreviewTarget_def previewTarget_service_def createPreviewTarget_def io_ok
      split: if_splits intro: exI [of _ "cp_previews s"])

lemma environmentIdForHook_ok:
  "environmentIdForHook (apiStore d) organizationId projectId kind (q, s, t, x) = (Inr v, w') \<Longrightarrow>
   cp_up s \<and> w' = (q, s, t, x)"
  by (auto simp: environmentIdForHook_def listEnvironments_service_def io_ok)

lemma createDeployment_for:
  "createDeployment (delivery_row link project d r env) (q, s, t, x) = (Inr row, w') \<longleftrightarrow>
   cp_up s \<and> row = delivered_row link project d r env s t \<and>
   fresh_key (gl_organizationId link) (delivery_key link d) s \<and>
   w' = (q, s\<lparr> cp_deployments := cp_deployments s @ [row] \<rparr>, t\<lparr> at_nextId := at_nextId t + 1 \<rparr>, x)"
  by (auto simp: createDeployment_ok delivered_row_def fresh_key_def delivery_row_def)

text \<open>A triggered delivery appends its row, hands the queue its job and records one audit row.\<close>

lemma trigger_delivery_ok:
  assumes "trigger_delivery (api_hook date_of port cipher) link project d repository (q, s, t, x) =
             (Inr out, (q', s', t', x'))"
  shows "\<exists>env job previews a. let row = delivered_row link project d repository env s t in
    out = \<lparr> ho_status = 202, ho_ok = True, ho_reason = None \<rparr> \<and>
    fresh_key (gl_organizationId link) (delivery_key link d) s \<and>
    s' = s\<lparr> cp_deployments := cp_deployments s @ [row], cp_previews := previews \<rparr> \<and>
    t' = t\<lparr> at_nextId := at_nextId t + 1, at_audit := at_audit t @ [a] \<rparr> \<and> x' = x \<and>
    qp_enqueue port (delivery_job link project d repository env row) q = (Inr job, q')"
proof -
  let ?d = "api_hook date_of port cipher"
  from assms obtain env w1 where
    env: "environmentIdForHook (apiStore date_of) (gl_organizationId link) (gl_projectId link) (delivery_kind link d)
      (q, s, t, x) = (Inr env, w1)"
    and rest: "io_bind (createDeployment (delivery_row link project d repository env)) (\<lambda>deployment.
      io_then (preview_of_delivery ?d link d)
     (io_then (thrown (qp_enqueue (api_queue port) (delivery_job link project d repository env deployment)))
     (io_then (recordAuditEvent (delivery_audit link d deployment))
        (io_return \<lparr> ho_status = 202, ho_ok = True, ho_reason = None \<rparr>)))) w1 = (Inr out, (q', s', t', x'))"
    by (auto simp: trigger_delivery_def io_bind_ok [of _ _ "(q, s, t, x)"])
  have w1: "w1 = (q, s, t, x)" using environmentIdForHook_ok [OF env] by simp
  let ?row = "delivered_row link project d repository env s t"
  let ?s = "s\<lparr> cp_deployments := cp_deployments s @ [?row] \<rparr>" and ?t = "t\<lparr> at_nextId := at_nextId t + 1 \<rparr>"
  from rest [unfolded w1] obtain w2 where
    target: "preview_of_delivery ?d link d (q, ?s, ?t, x) = (Inr (), w2)"
    and fresh: "fresh_key (gl_organizationId link) (delivery_key link d) s"
    and rest2: "io_then (thrown (qp_enqueue (api_queue port) (delivery_job link project d repository env ?row)))
      (io_then (recordAuditEvent (delivery_audit link d ?row))
        (io_return \<lparr> ho_status = 202, ho_ok = True, ho_reason = None \<rparr>)) w2 = (Inr out, (q', s', t', x'))"
    by (auto simp: io_bind_ok io_then_ok [of "preview_of_delivery ?d link d"] createDeployment_for)
  obtain previews where w2: "w2 = (q, ?s\<lparr> cp_previews := previews \<rparr>, ?t, x)"
    using target
    by (cases "truthy (delivery_preview_key link d)")
      (auto simp: preview_of_delivery_def io_ok intro: that [of "cp_previews s"] dest: ensurePreviewTarget_store_ok)
  from rest2 [unfolded w2] fresh show ?thesis by (fastforce simp: Let_def io_ok)
qed

definition keyed_row :: "string \<Rightarrow> string \<Rightarrow> control_plane \<Rightarrow> deployment_row option" where
  "keyed_row organizationId key s =
     find (\<lambda>r. dr_organizationId r = organizationId \<and> dr_idempotencyKey r = key) (cp_deployments s)"

definition project_of_link :: "git_link \<Rightarrow> control_plane \<Rightarrow> project_row option" where
  "project_of_link link s = find (is_project (gl_organizationId link) (gl_projectId link)) (cp_projects s)"

text \<open>A delivery evaluated over the wired store.\<close>

lemma deployFromDelivery_wired:
  assumes "cp_up s"
  shows "deployFromDelivery (api_hook date_of port cipher) link d (q, s, t, x) =
    (case project_of_link link s of
       None \<Rightarrow> (Inr (outcome 202 True ''project_not_found''), (q, s, t, x))
     | Some project \<Rightarrow>
         if capped (gl_organizationId link) ''deployments'' s t
         then (Inr (outcome 202 True ''budget_exceeded''),
               (q, s, t\<lparr> at_audit := at_audit t @ [audit_entry.extend
                  (hook_audit link ''deployment.cap_refused'' ''project'' (gl_projectId link)
                     [(''reason'', JString ''budget_exceeded''), (''metric'', JString ''deployments'')])
                  \<lparr> ad_createdAt = cp_now s \<rparr>] \<rparr>, x))
         else if pd_branch d = None \<and> pd_pullRequest d = None
         then (Inr (outcome 202 True ''not_a_deployable_event''), (q, s, t, x))
         else if delivery_kind link d = Preview \<and> \<not> gl_previewsEnabled link
         then (Inr (outcome 202 True ''previews_disabled''), (q, s, t, x))
         else if keyed_row (gl_organizationId link) (delivery_key link d) s \<noteq> None
         then (Inr (outcome 200 True ''replayed''), (q, s, t, x))
         else case cloneUrlFor (gl_provider link) (gl_repository link) of
                None \<Rightarrow> (Inr (outcome 202 True ''repository_url_unknown''), (q, s, t, x))
              | Some repository \<Rightarrow>
                  trigger_delivery (api_hook date_of port cipher) link project d repository (q, s, t, x))"
proof (cases "project_of_link link s")
  case None
  with assms show ?thesis
    by (simp add: deployFromDelivery_def io_simps getProjectForService_def api_simps first_where_def project_of_link_def)
next
  case (Some project)
  have refusal: "hardCapRefusal (apiStore date_of) api_clock (gl_organizationId link) ''deployments'' (q, s, t, x) =
      (Inr (if capped (gl_organizationId link) ''deployments'' s t
            then Some \<lparr> cr_message = cap_message (bg_limitQuantity (the (budget_of (gl_organizationId link) ''deployments'' t)))
                          ''deployments'', cr_metric = ''deployments'',
                        cr_limitQuantity = bg_limitQuantity (the (budget_of (gl_organizationId link) ''deployments'' t)),
                        cr_usedQuantity = counted (gl_organizationId link) ''deployments'' s \<rparr>
            else None), (q, s, t, x))"
    using assms by (simp add: hardCapRefusal_wired)
  have key: "findDeploymentByIdempotencyKeyForService organizationId k (q, s, t, x) =
      (Inr (keyed_row organizationId k s), (q, s, t, x))" for organizationId k
    using assms by (simp add: findDeploymentByIdempotencyKeyForService_def api_simps first_where_def keyed_row_def)
  have project: "getProjectForService (gl_organizationId link) (gl_projectId link) (q, s, t, x) = (Inr (Some project), (q, s, t, x))"
    using assms Some by (simp add: getProjectForService_def api_simps first_where_def project_of_link_def)
  show ?thesis
    using assms Some refusal
    by (cases "capped (gl_organizationId link) ''deployments'' s t")
      (auto simp: deployFromDelivery_def io_bind_apply io_then_apply check_that_apply project key io_return_apply
        recordAuditEvent_def api_simps split: option.split)
qed

lemma deploy_down: "\<not> cp_up s \<Longrightarrow> \<exists>e. deployFromDelivery (api_hook d port c) link p (q, s, t, x) = (Inl e, (q, s, t, x))"
  by (simp add: deployFromDelivery_def io_bind_apply io_then_apply check_that_apply getProjectForService_def
      api_read_def api_op_def)

text \<open>A delivery that started a build did so through \<open>trigger_delivery\<close>, past every guard.\<close>

lemma triggered:
  assumes run: "deployFromDelivery (api_hook date_of port cipher) link d (q, s, t, x) = (Inr out, w')"
    and started: "ho_reason out = None"
  shows "cp_up s \<and> \<not> capped (gl_organizationId link) ''deployments'' s t \<and>
    \<not> (pd_branch d = None \<and> pd_pullRequest d = None) \<and>
    \<not> (delivery_kind link d = Preview \<and> \<not> gl_previewsEnabled link) \<and>
    keyed_row (gl_organizationId link) (delivery_key link d) s = None \<and>
    (\<exists>project repository. project_of_link link s = Some project \<and>
       cloneUrlFor (gl_provider link) (gl_repository link) = Some repository \<and>
       trigger_delivery (api_hook date_of port cipher) link project d repository (q, s, t, x) = (Inr out, w'))"
proof -
  have up: "cp_up s" using deploy_down [of s date_of port cipher link d q t x] run by auto
  show ?thesis
    using run started up
    by (auto simp: deployFromDelivery_wired outcome_def split: option.splits if_splits)
qed

lemma capped_cong:
  "cp_usage s' = cp_usage s \<Longrightarrow> cp_now s' = cp_now s \<Longrightarrow> at_budgets t' = at_budgets t \<Longrightarrow>
   capped org metric s' t' = capped org metric s t"
  by (simp add: capped_def counted_def usage_since_def budget_of_def split: option.split)

lemma same_target_replays:
  assumes run: "deployFromDelivery (api_hook date_of port cipher) link d (q, s, t, x) = (Inr out, (q', s', t', x'))"
    and started: "ho_reason out = None"
    and same: "pd_branch d' = pd_branch d" "pd_pullRequest d' = pd_pullRequest d" "pd_commit d' = pd_commit d"
  shows "deployFromDelivery (api_hook date_of port cipher) link d' (q', s', t', x') =
    (Inr (outcome 200 True ''replayed''), (q', s', t', x'))"
proof -
  from triggered [OF run started] obtain project repository where
    up: "cp_up s" and cap: "\<not> capped (gl_organizationId link) ''deployments'' s t"
    and deployable: "\<not> (pd_branch d = None \<and> pd_pullRequest d = None)"
    "\<not> (delivery_kind link d = Preview \<and> \<not> gl_previewsEnabled link)"
    and project: "project_of_link link s = Some project"
    and trigger: "trigger_delivery (api_hook date_of port cipher) link project d repository (q, s, t, x) =
      (Inr out, (q', s', t', x'))"
    by blast
  from trigger_delivery_ok [OF trigger] obtain env previews where
    s': "s' = s\<lparr> cp_deployments := cp_deployments s @ [delivered_row link project d repository env s t],
                cp_previews := previews \<rparr>"
    and t': "at_budgets t' = at_budgets t"
    and fresh: "fresh_key (gl_organizationId link) (delivery_key link d) s"
    by (auto simp: Let_def)
  have alike: "delivery_key link d' = delivery_key link d" "delivery_kind link d' = delivery_kind link d"
    using same by (simp_all add: delivery_key_def delivery_kind_def split: option.split)
  have none: "find (\<lambda>r. dr_organizationId r = gl_organizationId link \<and> dr_idempotencyKey r = delivery_key link d)
      (cp_deployments s) = None"
    using fresh by (simp add: find_None_iff fresh_key_def)
  have "keyed_row (gl_organizationId link) (delivery_key link d) s' \<noteq> None"
    by (simp add: keyed_row_def s' find_append none)
  moreover have "project_of_link link s' = Some project" using project by (simp add: project_of_link_def s')
  moreover have "\<not> capped (gl_organizationId link) ''deployments'' s' t'"
    using cap capped_cong [of s' s t' t] t' by (simp add: s')
  moreover have "cp_up s'" using up by (simp add: s')
  ultimately show ?thesis using deployable alike same by (auto simp: deployFromDelivery_wired)
qed

text \<open>
  A delivery is built once: after a delivery that started a build, every delivery of the same link
  for the same branch, pull request and commit, redelivered by the provider or not, is answered as a
  replay and changes nothing.
\<close>

theorem a_delivery_is_built_once:
  assumes "deployFromDelivery (api_hook date_of port cipher) link d (q, s, t, x) = (Inr out, w')"
    "ho_reason out = None"
    "pd_branch d' = pd_branch d" "pd_pullRequest d' = pd_pullRequest d" "pd_commit d' = pd_commit d"
  shows "deployFromDelivery (api_hook date_of port cipher) link d' w' =
    (Inr (outcome 200 True ''replayed''), w')"
  using assms by (cases w') (auto intro: same_target_replays)

subsection \<open>Bitbucket\<close>

text \<open>The body of Bitbucket's \<open>repo:push\<close>: the new head of each changed branch, and no \<open>after\<close>.\<close>

definition bitbucket_push :: "string \<Rightarrow> string \<Rightarrow> json" where
  "bitbucket_push branch hash = JObject [(''push'', JObject [(''changes'', JArray [JObject
     [(''new'', JObject [(''type'', JString ''branch''), (''name'', JString branch),
                         (''target'', JObject [(''hash'', JString hash)])])]])])]"

lemma bitbucket_parsed:
  assumes "parse body = Some (bitbucket_push branch hash)"
  shows "parseGitDelivery parse (Some ''repo:push'') body =
    \<lparr> pd_branch = (if branch = [] then None else Some branch), pd_commit = None, pd_pullRequest = None,
      pd_event = ''repo:push'', pd_isPullRequest = False \<rparr>"
proof -
  have "\<not> has_text ''pull_request'' (to_lower ''repo:push'')" "\<not> has_text ''pullrequest'' (to_lower ''repo:push'')"
    "to_lower ''repo:push'' = ''repo:push''"
    by code_simp+
  with assms show ?thesis
    by (simp add: parseGitDelivery_def bitbucket_push_def parsed_push_def Let_def)
qed

text \<open>
  From Bitbucket only the first push to a branch is ever built: its pushes name no \<open>after\<close>, so they
  are read without a commit, and every later push to the branch, whatever it brings, is answered as a
  replay of the first and changes nothing.
\<close>

theorem bitbucket_builds_a_branch_once:
  assumes "parse body = Some (bitbucket_push branch hash)" "parse later = Some (bitbucket_push branch hash')"
    and "deployFromDelivery (api_hook date_of port cipher) link
           (parseGitDelivery parse (Some ''repo:push'') body) (q, s, t, x) = (Inr out, (q', s', t', x'))"
    and "ho_reason out = None"
  shows "deployFromDelivery (api_hook date_of port cipher) link
           (parseGitDelivery parse (Some ''repo:push'') later) (q', s', t', x') =
         (Inr (outcome 200 True ''replayed''), (q', s', t', x'))"
  by (rule same_target_replays [OF assms(3,4)]) (use assms(1,2) in \<open>simp_all add: bitbucket_parsed\<close>)

subsection \<open>The webhook and the button\<close>

text \<open>The request a member would make for what the delivery asks.\<close>

definition request_for ::
  "git_link \<Rightarrow> project_row \<Rightarrow> parsed_delivery \<Rightarrow> string \<Rightarrow> create_deployment_request" where
  "request_for link project d repository =
     \<lparr> cq_projectId = pj_id project, cq_idempotencyKey = Some (delivery_key link d),
       cq_gitRepository = Some repository, cq_gitBranch = pd_branch d, cq_commit = pd_commit d,
       cq_buildPack = None, cq_rootDirectory = None,
       cq_kind = Some (if delivery_kind link d = Preview then ''preview'' else ''production''),
       cq_staged = False, cq_pullRequest = map_option of_int (pd_pullRequest d) \<rparr>"

definition plain_text_field :: "string option \<Rightarrow> bool" where
  "plain_text_field v \<longleftrightarrow> (\<forall>s. v = Some s \<longrightarrow> s \<noteq> [] \<and> trim s = s)"

lemma optionalRef_plain: "optionalRef v label = Inr r \<Longrightarrow> plain_text_field v \<Longrightarrow> r = v"
  by (cases v) (auto simp: optionalRef_def plain_text_field_def Let_def split: if_splits)

lemma optionalRepository_plain: "optionalRepository v = Inr r \<Longrightarrow> plain_text_field v \<Longrightarrow> r = v"
  by (cases v) (auto simp: optionalRepository_def plain_text_field_def Let_def split: if_splits)

lemma try_then_ok: "try_then r k = Inr y \<longleftrightarrow> (\<exists>x. r = Inr x \<and> k x = Inr y)"
  by (cases r) (simp_all add: try_then_def)


subsection \<open>Preview keys\<close>

text \<open>The check of the table's \<open>preview_key\<close> column (migration 0011).\<close>

definition key_char :: "char \<Rightarrow> bool" where
  "key_char c \<longleftrightarrow> slug_char c \<or> c = CHR ''-''"

definition preview_key_check :: "string \<Rightarrow> bool" where
  "preview_key_check s \<longleftrightarrow> s \<noteq> [] \<and> slug_char (hd s) \<and> list_all key_char (tl s) \<and> length (tl s) \<le> 118"

lemma dashed_chars: "c \<in> set (dashed b s) \<Longrightarrow> key_char c"
  by (induction b s rule: dashed.induct) (auto simp: key_char_def split: if_splits)

lemma slug_chars: "c \<in> set (slug s) \<Longrightarrow> key_char c"
  by (rule dashed_chars [of c False "to_lower s"])
    (auto simp: slug_def strip_dashes_def dest!: in_set_takeD set_dropWhileD)

lemma digit_slug: "is_digit c \<Longrightarrow> slug_char c"
  by (simp add: slug_char_def)

lemma length_show_nat: "n < 10 ^ k \<Longrightarrow> 0 < k \<Longrightarrow> length (show_nat n) \<le> k"
proof (induction n arbitrary: k rule: show_nat.induct)
  case (1 n)
  show ?case
  proof (cases "n < 10")
    case True
    with 1(3) show ?thesis by (subst show_nat.simps) simp
  next
    case False
    with 1(2,3) obtain j where k: "k = Suc j" "0 < j" by (cases k; cases "k - 1") auto
    have "n div 10 < 10 ^ j" using 1(2) k by (simp add: less_mult_imp_div_less mult.commute)
    from 1(1) [OF False this k(2)] False k show ?thesis by (subst show_nat.simps) simp
  qed
qed

text \<open>
  C13. Every preview key is one the table accepts: whatever the branch and the commit are called, the key
  of a pull request, a branch or a commit is lower-case letters, digits and dashes, does not start with a
  dash and has at most 119 characters.
\<close>

theorem preview_keys_are_storable:
  assumes "\<And>n. pullRequest = Some n \<Longrightarrow> 0 < n \<and> n < 10 ^ 21"
  shows "preview_key_check (previewKeyFor pullRequest branch commit)"
proof -
  have fixed: "preview_key_check ''branch-unknown''" "preview_key_check ''commit-unknown''"
    "preview_key_check ''preview-unknown''" by code_simp+
  have number: "preview_key_check (''pr-'' @ show_int n)" if "0 < n" "n < 10 ^ 21" for n
  proof -
    have "nat n < 10 ^ 21" using that by (simp add: nat_less_iff)
    then have "length (show_nat (nat n)) \<le> 21" by (rule length_show_nat) simp
    with that show ?thesis
      by (auto simp: preview_key_check_def show_int_def list_all_iff key_char_def slug_char_def is_lower_def
          dest: digits_show_nat)
  qed
  have branch: "preview_key_check (''branch-'' @ slug b)" for b
    by (auto simp: preview_key_check_def list_all_iff slug_char_def is_lower_def key_char_def slug_def
        dest: slug_chars [unfolded slug_def key_char_def slug_char_def])
  have commit: "preview_key_check (''commit-'' @ take 40 (filter slug_char c))" for c
    by (auto simp: preview_key_check_def list_all_iff slug_char_def is_lower_def key_char_def dest!: in_set_takeD)
  show ?thesis
    unfolding previewKeyFor_def Let_def
    using assms number branch commit fixed by (auto split: option.split)
qed

text \<open>But a key does not name a branch: the slug makes one key of two branches.\<close>

lemma branches_share_a_key:
  "previewKeyFor None (Some ''feature/x'') commit = previewKeyFor None (Some ''feature-x'') commit"
proof -
  have "slug ''feature/x'' = slug ''feature-x''" by code_simp
  then show ?thesis by (simp add: previewKeyFor_def)
qed

subsection \<open>Names that slip through\<close>

text \<open>Two spellings of one repository are two repositories, and the second clones a name that does not exist.\<close>

lemma repository_keeps_its_suffix:
  "normaliseRepository ''acme/app.git'' = Inr ''acme/app''"
  "normaliseRepository ''acme/app.git/'' = Inr ''acme/app.git''"
  "cloneUrlFor Github ''acme/app.git'' = Some ''https://github.com/acme/app.git.git''"
  by code_simp+

text \<open>The deletion of a branch, a push to an all-zero commit, is read as a push to the branch.\<close>

lemma branch_deletion_is_a_push:
  "parseGitDelivery (\<lambda>_. Some (JObject [(''ref'', JString ''refs/heads/old''),
       (''after'', JString ''0000000000000000000000000000000000000000''), (''deleted'', JBool True)]))
     (Some ''push'') body =
   \<lparr> pd_branch = Some ''old'', pd_commit = None, pd_pullRequest = None, pd_event = ''push'',
     pd_isPullRequest = False \<rparr>"
  by code_simp

subsection \<open>Concrete deliveries\<close>

definition sample_link :: git_link where
  "sample_link = \<lparr> gl_id = ''l'', gl_organizationId = ''o'', gl_projectId = ''p'', gl_provider = Bitbucket,
     gl_repository = ''acme/app'', gl_productionBranch = ''main'', gl_previewsEnabled = True,
     gl_secretPrefix = ''whsec_secr'', gl_createdBy = ''u'' \<rparr>"

definition linked_tables :: api_tables where
  "linked_tables = sample_tables\<lparr> at_links := [(sample_link, ''secret'')] \<rparr>"

definition open_box :: "'w secret_box" where
  "open_box = \<lparr> sx_encrypt = io_return, sx_decrypt = Some \<rparr>"

definition sample_hook :: "sample_world hook_deps" where
  "sample_hook = api_hook no_date mem_port (Some open_box)"

definition sample_delivery :: parsed_delivery where
  "sample_delivery = \<lparr> pd_branch = Some ''main'', pd_commit = Some ''abcdef0'', pd_pullRequest = None,
     pd_event = ''push'', pd_isPullRequest = False \<rparr>"

definition token_input :: hook_input where
  "token_input = \<lparr> hi_organizationId = ''o'', hi_linkId = ''l'', hi_event = None, hi_signature = None,
     hi_token = Some ''secret'', hi_body = ''x'' \<rparr>"

theorem only_the_secret_moves_anything_witness:
  "proves_secret (\<lambda>_ _. []) (open_box :: sample_world secret_box) token_input linked_tables"
proof -
  let ?run = "receiveGitDelivery (\<lambda>_ _. []) (\<lambda>_. None) sample_hook token_input
    (empty_queue 0, sample_plane, linked_tables, ())"
  have "(case fst ?run of Inl _ \<Rightarrow> False | Inr out \<Rightarrow> ho_ok out)" by code_simp
  then obtain out where out: "fst ?run = Inr out" "ho_ok out" by (auto split: sum.splits)
  then have "?run = (Inr out, snd ?run)" by (metis prod.collapse)
  from only_the_secret_moves_anything [OF this [unfolded sample_hook_def]] out show ?thesis by simp
qed

theorem a_delivery_is_built_once_witness:
  "\<exists>w' :: sample_world. deployFromDelivery sample_hook sample_link sample_delivery w' =
     (Inr (outcome 200 True ''replayed''), w')"
proof -
  let ?run = "deployFromDelivery sample_hook sample_link sample_delivery
    (empty_queue 0, sample_plane, linked_tables, ())"
  have "(case fst ?run of Inl _ \<Rightarrow> False | Inr out \<Rightarrow> ho_reason out = None)" by code_simp
  then obtain out where out: "fst ?run = Inr out" "ho_reason out = None" by (auto split: sum.splits)
  then have "?run = (Inr out, snd ?run)" by (metis prod.collapse)
  from a_delivery_is_built_once [OF this [unfolded sample_hook_def] out(2) refl refl refl, folded sample_hook_def]
  show ?thesis by blast
qed

theorem bitbucket_builds_a_branch_once_witness:
  "\<exists>w' :: sample_world. deployFromDelivery sample_hook sample_link
     (parseGitDelivery (\<lambda>body. Some (bitbucket_push ''main'' body)) (Some ''repo:push'') ''2222222'') w' =
     (Inr (outcome 200 True ''replayed''), w')"
proof -
  let ?parse = "\<lambda>body. Some (bitbucket_push ''main'' body)"
  let ?run = "deployFromDelivery sample_hook sample_link (parseGitDelivery ?parse (Some ''repo:push'') ''1111111'')
    (empty_queue 0, sample_plane, linked_tables, ())"
  have "(case fst ?run of Inl _ \<Rightarrow> False | Inr out \<Rightarrow> ho_reason out = None)" by code_simp
  then obtain out where out: "fst ?run = Inr out" "ho_reason out = None" by (auto split: sum.splits)
  then obtain q' s' t' where run: "?run = (Inr out, (q', s', t', ()))" by (cases ?run) auto
  from bitbucket_builds_a_branch_once [OF refl refl run [unfolded sample_hook_def] out(2), of "''2222222''",
      folded sample_hook_def]
  show ?thesis by blast
qed


theorem preview_keys_are_storable_witness: "preview_key_check ''pr-7''"
proof -
  have "previewKeyFor (Some 7) None None = ''pr-7''" by code_simp
  then show ?thesis using preview_keys_are_storable [of "Some 7" None None] by simp
qed

end
