(* ===== verification/Data_Procedures.thy ===== *)
theory Data_Procedures
  imports Git_Hook Data_Jobs
begin

section \<open>apps/api/procedures/data.ts: tenant databases and buckets\<close>

text \<open>
  Provisioning, backups, restores, credential rotation and logs.  Rows, references and job payloads are
  those of the worker's handlers (\<open>Data_Jobs\<close>), with the columns only the API reads added.
\<close>

subsection \<open>Rows and ports\<close>

datatype resource_state = Provisioning | Ready | Restoring | ResourceFailed | ResourceNotConfigured

fun state_name :: "resource_state \<Rightarrow> string" where
  "state_name Provisioning = ''provisioning''"
| "state_name Ready = ''ready''"
| "state_name Restoring = ''restoring''"
| "state_name ResourceFailed = ''failed''"
| "state_name ResourceNotConfigured = ''not_configured''"

record resource_row = data_resource +
  dx_projectId :: "string option"
  dx_name :: string
  dx_state :: resource_state

record data_restore =
  rx_id :: string
  rx_organizationId :: string
  rx_backupId :: string
  rx_dataResourceId :: string
  rx_provider :: "string option"
  rx_providerResourceId :: "string option"
  rx_status :: engine_status

record resource_state_input =
  si_id :: string
  si_organizationId :: string
  si_state :: resource_state
  si_provider :: "string option"
  si_providerResourceId :: "string option"

record 'w data_store = "'w git_store" +
  ts_createDataResource :: "(resource_row \<Rightarrow> ('w, failure, resource_row) eio) option"
  ts_getDataResource :: "(string \<Rightarrow> string \<Rightarrow> ('w, failure, resource_row option) eio) option"
  ts_setDataResourceState :: "(resource_state_input \<Rightarrow> ('w, failure, resource_row option) eio) option"
  ts_createDataBackup :: "(data_backup \<Rightarrow> ('w, failure, data_backup) eio) option"
  ts_updateDataBackupStatus :: "(status_write \<Rightarrow> ('w, failure, data_backup option) eio) option"
  ts_listDataBackups :: "(string \<Rightarrow> string \<Rightarrow> ('w, failure, data_backup list) eio) option"
  ts_getDataBackupForService :: "(string \<Rightarrow> string \<Rightarrow> ('w, failure, data_backup option) eio) option"
  ts_createDataRestore :: "(data_restore \<Rightarrow> ('w, failure, data_restore) eio) option"
  ts_updateDataRestoreStatus :: "(status_write \<Rightarrow> ('w, failure, data_restore option) eio) option"
  ts_listDataRestores :: "(string \<Rightarrow> string \<Rightarrow> ('w, failure, data_restore list) eio) option"

record 'w tenant_database = "'w database_adapter" +
  td_provision :: "adapter_context \<Rightarrow> string \<Rightarrow> ('w, provider_ref) engine_call"
  td_rotateCredentials :: "adapter_context \<Rightarrow> provider_ref \<Rightarrow> ('w, unit) engine_call"
  td_getLogs :: "adapter_context \<Rightarrow> provider_ref \<Rightarrow> ('w, log_page) engine_call"

text \<open>The two payloads the module puts on the queue.\<close>

datatype data_job = BackupJob backup_job_payload | RestoreJob restore_job_payload

record 'w data_deps =
  dp_store :: "'w data_store"
  dp_database :: "'w tenant_database"
  dp_createBucket :: "adapter_context \<Rightarrow> string \<Rightarrow> ('w, provider_ref) engine_call"
  dp_newId :: "('w, failure, string) eio"
  dp_now :: "'w \<Rightarrow> millis"
  dp_queue :: "('w, data_job) queue_port option"

definition missing_data_writes :: "'w data_store \<Rightarrow> string list" where
  "missing_data_writes store = map snd (filter (\<lambda>(missing, _). missing)
     [(ts_createDataResource store = None, ''createDataResource''),
      (ts_getDataResource store = None, ''getDataResource''),
      (ts_setDataResourceState store = None, ''setDataResourceState''),
      (ts_createDataBackup store = None, ''createDataBackup''),
      (ts_updateDataBackupStatus store = None, ''updateDataBackupStatus''),
      (ts_listDataBackups store = None, ''listDataBackups'')])"

definition data_writesFor :: "'w data_store \<Rightarrow> failure + unit" where
  "data_writesFor store =
     (if missing_data_writes store \<noteq> []
      then Inl (unavailable_yet (''record '' @ join_with '', '' (missing_data_writes store)))
      else Inr ())"

definition missing_restore_writes :: "'w data_store \<Rightarrow> string list" where
  "missing_restore_writes store = map snd (filter (\<lambda>(missing, _). missing)
     [(ts_getDataBackupForService store = None, ''getDataBackupForService''),
      (ts_createDataRestore store = None, ''createDataRestore''),
      (ts_updateDataRestoreStatus store = None, ''updateDataRestoreStatus''),
      (ts_listDataRestores store = None, ''listDataRestores'')])"

definition restoreWritesFor :: "'w data_store \<Rightarrow> failure + unit" where
  "restoreWritesFor store =
     (if missing_restore_writes store \<noteq> []
      then Inl (unavailable_yet
        (''record a restore ('' @ join_with '', '' (missing_restore_writes store) @ '')''))
      else Inr ())"

text \<open>Calling a method the store lacks is a TypeError of the language.\<close>

definition call_method :: "string \<Rightarrow> ('a \<Rightarrow> ('w, failure, 'b) eio) option \<Rightarrow> 'a \<Rightarrow> ('w, failure, 'b) eio" where
  "call_method name m x =
     (case m of None \<Rightarrow> io_throw (OtherError (''writes.'' @ name @ '' is not a function'')) | Some f \<Rightarrow> f x)"

subsection \<open>The resource a request names\<close>

definition RESOURCE_NOT_FOUND :: failure where
  "RESOURCE_NOT_FOUND = ApiError NotFound ''Data resource not found.''"

definition owned_resource ::
  "request_context \<Rightarrow> 'w data_store \<Rightarrow> string \<Rightarrow> string \<Rightarrow> ('w, failure, resource_row) eio" where
  "owned_resource ctx store organizationId resourceId =
     io_bind (call_method ''getDataResource'' (map_option (\<lambda>get. get (pr_userId (cx_principal ctx)))
        (ts_getDataResource store)) resourceId) (\<lambda>found.
       case found of
         None \<Rightarrow> io_throw RESOURCE_NOT_FOUND
       | Some r \<Rightarrow>
           if dv_organizationId r \<noteq> organizationId then io_throw RESOURCE_NOT_FOUND else io_return r)"

definition no_handle :: "string \<Rightarrow> failure" where
  "no_handle what = ApiError Conflict (''This resource has no engine handle yet, so '' @ what)"

definition bucket_unavailable :: "string \<Rightarrow> failure" where
  "bucket_unavailable what = ApiError EngineUnavailable what"

definition call_for :: "string \<Rightarrow> string \<Rightarrow> adapter_context" where
  "call_for organizationId key =
     \<lparr> ac_organizationId = organizationId, ac_idempotencyKey = key, ac_timeoutMs = 20000 \<rparr>"

definition database_ref :: "resource_row \<Rightarrow> provider_ref" where
  "database_ref r = data_ref (dv_organizationId r) (dv_provider r) ''database'' (dv_providerResourceId r)"

subsection \<open>Provisioning\<close>

definition DATA_RESOURCE_KINDS :: "string list" where
  "DATA_RESOURCE_KINDS = [''postgres'', ''object_storage'']"

definition provisioned_state ::
  "provider_ref adapter_result \<Rightarrow> resource_state \<times> string option \<times> string option \<times> string option" where
  "provisioned_state answer =
     (case answer of
        AErr st reason \<Rightarrow> (if st = NotConfigured then ResourceNotConfigured else ResourceFailed, None, None, Some reason)
      | AOk _ ref \<Rightarrow> (Ready, Some (ref_provider ref), Some (ref_resourceId ref), None))"

definition project_of_organization ::
  "request_context \<Rightarrow> 'w data_store \<Rightarrow> string \<Rightarrow> string option \<Rightarrow> ('w, failure, unit) eio" where
  "project_of_organization ctx store organizationId projectId =
     (if \<not> truthy projectId then io_return ()
      else io_bind (ps_getProject store (pr_userId (cx_principal ctx)) (the projectId)) (\<lambda>found.
        case found of
          None \<Rightarrow> io_throw PROJECT_NOT_FOUND
        | Some project \<Rightarrow>
            if pj_organizationId project \<noteq> organizationId then io_throw PROJECT_NOT_FOUND else io_return ()))"

definition requested_resource :: "string \<Rightarrow> string \<Rightarrow> string option \<Rightarrow> string \<Rightarrow> string \<Rightarrow> resource_row" where
  "requested_resource newId organizationId projectId kind name =
     \<lparr> dv_id = newId, dv_organizationId = organizationId, dv_kind = kind, dv_provider = None,
       dv_providerResourceId = None, dx_projectId = projectId, dx_name = name, dx_state = Provisioning \<rparr>"

definition provision_call ::
  "'w data_deps \<Rightarrow> string \<Rightarrow> adapter_context \<Rightarrow> string \<Rightarrow> ('w, provider_ref) engine_call" where
  "provision_call deps kind actx name =
     (if kind = ''postgres'' then td_provision (dp_database deps) actx name else dp_createBucket deps actx name)"

definition settle_provision ::
  "request_context \<Rightarrow> 'w data_deps \<Rightarrow> string \<Rightarrow> string \<Rightarrow> string \<Rightarrow> resource_row \<Rightarrow> provider_ref adapter_result \<Rightarrow>
   ('w, failure, resource_row \<times> string option) eio" where
  "settle_provision ctx deps organizationId newId kind resource answer =
     (case provisioned_state answer of (state, provider, handle, reason) \<Rightarrow>
        io_bind (call_method ''setDataResourceState'' (ts_setDataResourceState (dp_store deps))
           \<lparr> si_id = newId, si_organizationId = organizationId, si_state = state, si_provider = provider,
             si_providerResourceId = handle \<rparr>) (\<lambda>transitioned.
        io_then (as_recordAuditEvent (dp_store deps)
           (audit_by ctx organizationId (if state = Ready then ''data.ready'' else ''data.provision_failed'')
             ''data_resource'' newId [(''kind'', JString kind), (''state'', JString (state_name state))]))
          (io_return (or_else transitioned resource, reason))))"

definition provisionDataResource ::
  "request_context \<Rightarrow> 'w data_deps \<Rightarrow> string \<Rightarrow> string \<Rightarrow> string \<Rightarrow> string option \<Rightarrow>
   ('w, failure, resource_row \<times> string option) eio" where
  "provisionDataResource ctx deps organizationId presentedName kind projectId =
     io_then (check_that (requireCapability ctx organizationId DataCreate))
       (let name = trim presentedName in
        if length name < 1 \<or> length name > 120
        then io_throw (invalid_input ''A resource name must be 1-120 characters.'')
        else if kind \<notin> set DATA_RESOURCE_KINDS then io_throw (invalid_input ''Unknown data resource kind.'')
        else
          io_then (project_of_organization ctx (dp_store deps) organizationId projectId)
         (io_then (check_that (data_writesFor (dp_store deps)))
         (io_bind (dp_newId deps) (\<lambda>newId.
          io_bind (call_method ''createDataResource'' (ts_createDataResource (dp_store deps))
             (requested_resource newId organizationId projectId kind name)) (\<lambda>resource.
          io_bind (thrown (provision_call deps kind (call_for organizationId (''provision-'' @ newId)) name))
            (\<lambda>answer. settle_provision ctx deps organizationId newId kind resource answer))))))"

subsection \<open>Backups\<close>

definition backup_checks :: "resource_row \<Rightarrow> failure + unit" where
  "backup_checks r =
     (if \<not> truthy (dv_providerResourceId r) then Inl (no_handle ''it cannot be backed up.'')
      else if dv_kind r \<noteq> ''postgres''
      then Inl (bucket_unavailable ''Backing up an object-storage bucket is not available in this build yet.'')
      else Inr ())"

definition requested_backup :: "resource_row \<Rightarrow> string \<Rightarrow> data_backup" where
  "requested_backup r newId =
     \<lparr> bk_id = newId, bk_organizationId = dv_organizationId r, bk_dataResourceId = dv_id r,
       bk_status = Pending, bk_provider = Some (or_else (dv_provider r) ''postgres''),
       bk_providerResourceId = None \<rparr>"

definition backup_payload :: "request_context \<Rightarrow> resource_row \<Rightarrow> string \<Rightarrow> backup_job_payload" where
  "backup_payload ctx r newId =
     \<lparr> bjp_backupId = newId, bjp_organizationId = dv_organizationId r, bjp_dataResourceId = dv_id r,
       bjp_actorId = pr_userId (cx_principal ctx), bjp_actorEmail = pr_email (cx_principal ctx) \<rparr>"

definition data_enqueue :: "string \<Rightarrow> string \<Rightarrow> data_job \<Rightarrow> string \<Rightarrow> data_job enqueue_input" where
  "data_enqueue organizationId kind payload key =
     \<lparr> ei_organizationId = organizationId, ei_kind = kind, ei_payload = payload, ei_idempotencyKey = key,
       ei_maxAttempts = None \<rparr>"

text \<open>What a synchronous answer is: any success is \<open>succeeded\<close>, whatever status it carries.\<close>

definition taken_status :: "'a adapter_result \<Rightarrow> engine_status" where
  "taken_status taken = (case taken of AOk _ _ \<Rightarrow> Succeeded | AErr st _ \<Rightarrow> st)"

definition reason_of :: "'a adapter_result \<Rightarrow> string option" where
  "reason_of taken = (case taken of AOk _ _ \<Rightarrow> None | AErr _ reason \<Rightarrow> Some reason)"

definition settle_backup ::
  "request_context \<Rightarrow> 'w data_deps \<Rightarrow> resource_row \<Rightarrow> string \<Rightarrow> data_backup \<Rightarrow> provider_ref adapter_result \<Rightarrow>
   ('w, failure, data_backup \<times> string option) eio" where
  "settle_backup ctx deps r newId backup taken =
     io_bind (io_get (dp_now deps)) (\<lambda>now.
     io_bind (call_method ''updateDataBackupStatus'' (ts_updateDataBackupStatus (dp_store deps))
        \<lparr> st_id = newId, st_organizationId = dv_organizationId r, st_status = taken_status taken,
          st_providerResourceId = (case taken of AOk _ ref \<Rightarrow> Some (ref_resourceId ref) | AErr _ _ \<Rightarrow> None),
          st_finishedAt = Some now \<rparr>) (\<lambda>updated.
     io_then (as_recordAuditEvent (dp_store deps)
        (audit_by ctx (dv_organizationId r)
          (if taken_status taken = Succeeded then ''data.backup_completed'' else ''data.backup_failed'')
          ''data_backup'' newId
          [(''dataResourceId'', JString (dv_id r)), (''status'', JString (status_name (taken_status taken)))]))
       (io_return (or_else updated backup, reason_of taken))))"

definition backupDataResource ::
  "request_context \<Rightarrow> 'w data_deps \<Rightarrow> string \<Rightarrow> string \<Rightarrow> ('w, failure, data_backup \<times> string option) eio" where
  "backupDataResource ctx deps organizationId resourceId =
     io_then (check_that (requireCapability ctx organizationId Authorization.DataBackup))
    (io_then (check_that (data_writesFor (dp_store deps)))
    (io_bind (owned_resource ctx (dp_store deps) organizationId resourceId) (\<lambda>r.
     io_then (check_that (backup_checks r))
    (io_then (assertWithinBudget (dp_store deps) (dp_now deps) (dv_organizationId r) ''backups'')
    (io_bind (dp_newId deps) (\<lambda>newId.
     io_bind (call_method ''createDataBackup'' (ts_createDataBackup (dp_store deps)) (requested_backup r newId)) (\<lambda>backup.
       case dp_queue deps of
         Some queue \<Rightarrow>
           io_then (thrown (qp_enqueue queue (data_enqueue (dv_organizationId r) BACKUP_JOB_KIND
              (BackupJob (backup_payload ctx r newId)) (''backup-'' @ newId))))
          (io_then (as_recordAuditEvent (dp_store deps)
             (audit_by ctx (dv_organizationId r) ''data.backup_enqueued'' ''data_backup'' newId
               [(''dataResourceId'', JString (dv_id r))]))
             (io_return (backup, None)))
       | None \<Rightarrow>
           io_bind (thrown (da_backup (dp_database deps) (call_for (dv_organizationId r) (''backup-'' @ newId))
              (database_ref r))) (\<lambda>taken. settle_backup ctx deps r newId backup taken))))))))"

definition listDataBackups ::
  "request_context \<Rightarrow> 'w data_deps \<Rightarrow> string \<Rightarrow> string \<Rightarrow> ('w, failure, data_backup list) eio" where
  "listDataBackups ctx deps organizationId resourceId =
     io_then (check_that (requireCapability ctx organizationId DataRead))
    (io_then (check_that (data_writesFor (dp_store deps)))
    (io_then (owned_resource ctx (dp_store deps) organizationId resourceId)
       (call_method ''listDataBackups'' (map_option (\<lambda>list_backups. list_backups (pr_userId (cx_principal ctx)))
          (ts_listDataBackups (dp_store deps))) resourceId)))"

subsection \<open>Restores\<close>

definition restore_checks :: "resource_row \<Rightarrow> string \<Rightarrow> failure + unit" where
  "restore_checks r confirmName =
     (if dv_kind r \<noteq> ''postgres''
      then Inl (bucket_unavailable ''Restoring an object-storage bucket is not available in this build yet.'')
      else if \<not> truthy (dv_providerResourceId r) then Inl (no_handle ''it cannot be restored.'')
      else if trim confirmName \<noteq> dx_name r
      then Inl (invalid_input (''Type the database name ('' @ dx_name r @ '') to confirm the restore.''))
      else Inr ())"

definition restore_source :: "resource_row \<Rightarrow> data_backup option \<Rightarrow> failure + data_backup" where
  "restore_source r found =
     (case found of
        None \<Rightarrow> Inl (ApiError NotFound ''Backup not found for this resource.'')
      | Some b \<Rightarrow>
          if bk_dataResourceId b \<noteq> dv_id r then Inl (ApiError NotFound ''Backup not found for this resource.'')
          else if bk_status b \<noteq> Succeeded \<or> \<not> truthy (bk_providerResourceId b)
          then Inl (ApiError Conflict ''That backup did not complete, so there is nothing to restore from it.'')
          else Inr b)"

definition requested_restore :: "resource_row \<Rightarrow> data_backup \<Rightarrow> string \<Rightarrow> data_restore" where
  "requested_restore r b newId =
     \<lparr> rx_id = newId, rx_organizationId = dv_organizationId r, rx_backupId = bk_id b,
       rx_dataResourceId = dv_id r, rx_provider = Some (or_else (dv_provider r) ''postgres''),
       rx_providerResourceId = None, rx_status = Pending \<rparr>"

definition restore_payload :: "request_context \<Rightarrow> resource_row \<Rightarrow> data_backup \<Rightarrow> string \<Rightarrow> restore_job_payload" where
  "restore_payload ctx r b newId =
     \<lparr> rjp_restoreId = newId, rjp_organizationId = dv_organizationId r, rjp_backupId = bk_id b,
       rjp_dataResourceId = dv_id r, rjp_actorId = pr_userId (cx_principal ctx),
       rjp_actorEmail = pr_email (cx_principal ctx) \<rparr>"

definition backup_ref :: "resource_row \<Rightarrow> data_backup \<Rightarrow> provider_ref" where
  "backup_ref r b = data_ref (dv_organizationId r) (bk_provider b) ''backup'' (bk_providerResourceId b)"

definition settle_restore ::
  "request_context \<Rightarrow> 'w data_deps \<Rightarrow> resource_row \<Rightarrow> data_backup \<Rightarrow> string \<Rightarrow> data_restore \<Rightarrow>
   operation_ref adapter_result \<Rightarrow> ('w, failure, data_restore \<times> string option) eio" where
  "settle_restore ctx deps r b newId restore performed =
     io_bind (io_get (dp_now deps)) (\<lambda>now.
     io_bind (call_method ''updateDataRestoreStatus'' (ts_updateDataRestoreStatus (dp_store deps))
        \<lparr> st_id = newId, st_organizationId = dv_organizationId r, st_status = taken_status performed,
          st_providerResourceId = (case performed of AOk _ op \<Rightarrow> Some (op_jobId op) | AErr _ _ \<Rightarrow> None),
          st_finishedAt = Some now \<rparr>) (\<lambda>updated.
     io_then (as_recordAuditEvent (dp_store deps)
        (audit_by ctx (dv_organizationId r)
          (if taken_status performed = Succeeded then ''data.restore_completed'' else ''data.restore_failed'')
          ''data_restore'' newId
          [(''dataResourceId'', JString (dv_id r)), (''backupId'', JString (bk_id b)),
           (''status'', JString (status_name (taken_status performed)))]))
       (io_return (or_else updated restore, reason_of performed))))"

definition restoreDataResource ::
  "request_context \<Rightarrow> 'w data_deps \<Rightarrow> string \<Rightarrow> string \<Rightarrow> string \<Rightarrow> string \<Rightarrow>
   ('w, failure, data_restore \<times> string option) eio" where
  "restoreDataResource ctx deps organizationId resourceId backupId confirmName =
     io_then (check_that (requireCapability ctx organizationId Authorization.DataRestore))
    (io_then (check_that (restoreWritesFor (dp_store deps)))
    (io_bind (owned_resource ctx (dp_store deps) organizationId resourceId) (\<lambda>r.
     io_then (check_that (restore_checks r confirmName))
    (io_bind (call_method ''getDataBackupForService'' (map_option (\<lambda>get. get organizationId)
        (ts_getDataBackupForService (dp_store deps))) backupId) (\<lambda>found.
     io_bind (check_that (restore_source r found)) (\<lambda>b.
     io_bind (dp_newId deps) (\<lambda>newId.
     io_bind (call_method ''createDataRestore'' (ts_createDataRestore (dp_store deps)) (requested_restore r b newId))
       (\<lambda>restore.
       case dp_queue deps of
         Some queue \<Rightarrow>
           io_then (thrown (qp_enqueue queue (data_enqueue (dv_organizationId r) RESTORE_JOB_KIND
              (RestoreJob (restore_payload ctx r b newId)) (''restore-'' @ newId))))
          (io_then (as_recordAuditEvent (dp_store deps)
             (audit_by ctx (dv_organizationId r) ''data.restore_enqueued'' ''data_restore'' newId
               [(''dataResourceId'', JString (dv_id r)), (''backupId'', JString (bk_id b))]))
             (io_return (restore, None)))
       | None \<Rightarrow>
           io_bind (thrown (da_restore (dp_database deps) (call_for (dv_organizationId r) (''restore-'' @ newId))
              (backup_ref r b) (database_ref r))) (\<lambda>performed.
             settle_restore ctx deps r b newId restore performed)))))))))"

definition listDataRestores ::
  "request_context \<Rightarrow> 'w data_deps \<Rightarrow> string \<Rightarrow> string \<Rightarrow> ('w, failure, data_restore list) eio" where
  "listDataRestores ctx deps organizationId resourceId =
     io_then (check_that (requireCapability ctx organizationId DataRead))
    (io_then (check_that (restoreWritesFor (dp_store deps)))
    (io_then (owned_resource ctx (dp_store deps) organizationId resourceId)
       (call_method ''listDataRestores'' (map_option (\<lambda>list_restores. list_restores (pr_userId (cx_principal ctx)))
          (ts_listDataRestores (dp_store deps))) resourceId)))"

subsection \<open>Credentials and logs\<close>

definition rotation_checks :: "resource_row \<Rightarrow> string \<Rightarrow> failure + unit" where
  "rotation_checks r confirmName =
     (if \<not> truthy (dv_providerResourceId r) then Inl (no_handle ''its credentials cannot be rotated.'')
      else if dv_kind r \<noteq> ''postgres''
      then Inl (bucket_unavailable
        ''Rotating the credentials of an object-storage bucket is not available in this build.'')
      else if trim confirmName \<noteq> dx_name r
      then Inl (invalid_input (''Type the resource'' @ [CHR 0x27] @ ''s name to confirm the rotation.''))
      else Inr ())"

definition rotateDataCredentials ::
  "request_context \<Rightarrow> 'w data_deps \<Rightarrow> string \<Rightarrow> string \<Rightarrow> string \<Rightarrow>
   ('w, failure, resource_row \<times> string option) eio" where
  "rotateDataCredentials ctx deps organizationId resourceId confirmName =
     io_then (check_that (requireCapability ctx organizationId DataRotate))
    (io_then (check_that (data_writesFor (dp_store deps)))
    (io_bind (owned_resource ctx (dp_store deps) organizationId resourceId) (\<lambda>r.
     io_then (check_that (rotation_checks r confirmName))
    (io_bind (thrown (td_rotateCredentials (dp_database deps)
        (call_for (dv_organizationId r) (''rotate-'' @ dv_id r)) (database_ref r))) (\<lambda>rotated.
     io_then (as_recordAuditEvent (dp_store deps)
        (audit_by ctx (dv_organizationId r)
          (case rotated of AOk _ _ \<Rightarrow> ''data.credentials_rotated''
                         | AErr _ _ \<Rightarrow> ''data.credentials_rotation_failed'')
          ''data_resource'' (dv_id r)
          [(''dataResourceId'', JString (dv_id r)),
           (''status'', JString (status_name (taken_status rotated)))]))
       (io_return (r, reason_of rotated)))))))"

definition log_checks :: "resource_row \<Rightarrow> failure + unit" where
  "log_checks r =
     (if \<not> truthy (dv_providerResourceId r) then Inl (no_handle ''it has no log to read.'')
      else if dv_kind r \<noteq> ''postgres''
      then Inl (bucket_unavailable (''Reading an object-storage bucket'' @ [CHR 0x27] @
        ''s log is not available in this build yet.''))
      else Inr ())"

definition readDataLogs ::
  "request_context \<Rightarrow> 'w data_deps \<Rightarrow> string \<Rightarrow> string \<Rightarrow>
   ('w, failure, resource_row \<times> string option \<times> string list \<times> string option) eio" where
  "readDataLogs ctx deps organizationId resourceId =
     io_then (check_that (requireCapability ctx organizationId DataRead))
    (io_then (check_that (data_writesFor (dp_store deps)))
    (io_bind (owned_resource ctx (dp_store deps) organizationId resourceId) (\<lambda>r.
     io_then (check_that (log_checks r))
    (io_bind (thrown (td_getLogs (dp_database deps) (call_for (dv_organizationId r) (''logs-'' @ dv_id r))
        (database_ref r))) (\<lambda>page.
       io_return (case page of
           AErr _ reason \<Rightarrow> (r, Some reason, [], None)
         | AOk _ found \<Rightarrow> (r, None, lp_lines found, lp_cursor found)))))))"

end
