(* ===== verification/Organizations.thy ===== *)
theory Organizations
  imports Git_Hook
begin

section \<open>apps/api/procedures/organizations.ts, environments.ts: organizations, members, projects\<close>

text \<open>
  The procedures over organizations, their members and their projects.  The store is the one interface
  of the code, so its record extends the one of the deployment and git procedures.
\<close>

subsection \<open>Rows and the store\<close>

record organization =
  og_id :: string
  og_name :: string
  og_slug :: string

record organization_member =
  om_organizationId :: string
  om_userId :: string
  om_role :: org_role
  om_email :: "string option"
  om_displayName :: "string option"

record project_create_input =
  pn_organizationId :: string
  pn_name :: string
  pn_slug :: string
  pn_createdBy :: string
  pn_executionModel :: "execution_model option"
  pn_rootDirectory :: "string option"

text \<open>A field that may be absent, null or present is an option of an option, \<open>None\<close> when absent.\<close>

record project_update_input =
  pu_organizationId :: string
  pu_projectId :: string
  pu_name :: "string option"
  pu_slug :: "string option"
  pu_executionModel :: "execution_model option"
  pu_rootDirectory :: "string option option"

record 'w org_store = "'w git_store" +
  or_listOrganizations :: "string \<Rightarrow> ('w, failure, organization list) eio"
  or_listOrganizationMembers :: "string \<Rightarrow> string \<Rightarrow> ('w, failure, organization_member list) eio"
  or_createOrganization :: "string \<Rightarrow> string \<Rightarrow> string \<Rightarrow> ('w, failure, organization) eio"
  or_listProjects :: "string \<Rightarrow> string \<Rightarrow> ('w, failure, project_row list) eio"
  or_createProject :: "project_create_input \<Rightarrow> ('w, failure, project_row) eio"
  or_updateOrganizationMemberRole ::
    "string \<Rightarrow> string \<Rightarrow> string \<Rightarrow> org_role \<Rightarrow> ('w, failure, organization_member option) eio"
  or_removeOrganizationMember :: "string \<Rightarrow> string \<Rightarrow> string \<Rightarrow> ('w, failure, bool) eio"
  or_updateProject :: "(project_update_input \<Rightarrow> ('w, failure, project_row option) eio) option"

subsection \<open>Names\<close>

text \<open>The name after trimming, of 1 to 120 characters.\<close>

definition bounded_name :: "string \<Rightarrow> string \<Rightarrow> failure + string" where
  "bounded_name label presented =
     (let name = trim presented in
      if length name < 1 \<or> length name > 120
      then Inl (invalid_input (label @ '' must be 1-120 characters.'')) else Inr name)"

definition SLUG_PATTERN :: "string \<Rightarrow> bool" where
  "SLUG_PATTERN s \<longleftrightarrow> 2 \<le> length s \<and> length s \<le> 63 \<and> slug_char (hd s) \<and>
     list_all (\<lambda>c. slug_char c \<or> c = CHR ''-'') (tl s)"

definition checked_slug :: "string \<Rightarrow> string \<Rightarrow> failure + string" where
  "checked_slug label presented =
     (if \<not> SLUG_PATTERN presented
      then Inl (invalid_input (label @ '' must be lowercase alphanumeric with hyphens.''))
      else Inr presented)"

definition parseExecutionModel :: "string option \<Rightarrow> failure + execution_model option" where
  "parseExecutionModel presented =
     (case presented of
        None \<Rightarrow> Inr None
      | Some v \<Rightarrow>
          if v = ''container'' then Inr (Some Container)
          else if v = ''serverless'' then Inr (Some Serverless)
          else Inl (invalid_input (''Execution model must be '' @ [CHR 0x27] @ ''container'' @ [CHR 0x27] @
                                   '' or '' @ [CHR 0x27] @ ''serverless'' @ [CHR 0x27] @ ''.'')))"

fun model_name :: "execution_model \<Rightarrow> string" where
  "model_name Container = ''container''"
| "model_name Serverless = ''serverless''"

definition nullable :: "string option \<Rightarrow> json" where
  "nullable v = (case v of None \<Rightarrow> JNull | Some s \<Rightarrow> JString s)"

subsection \<open>Organizations\<close>

definition createOrganization ::
  "request_context \<Rightarrow> ('w, 'z) org_store_scheme \<Rightarrow> string \<Rightarrow> string \<Rightarrow> ('w, failure, organization) eio" where
  "createOrganization ctx store presentedName presentedSlug =
     io_bind (check_that (bounded_name ''Organization name'' presentedName)) (\<lambda>name.
     io_bind (check_that (checked_slug ''Organization slug'' presentedSlug)) (\<lambda>newSlug.
     io_bind (or_createOrganization store name newSlug (pr_userId (cx_principal ctx))) (\<lambda>org.
     io_then (as_recordAuditEvent store
        (audit_by ctx (og_id org) ''organization.created'' ''organization'' (og_id org)
          [(''slug'', JString (og_slug org))]))
       (io_return org))))"

definition listOrganizations ::
  "request_context \<Rightarrow> ('w, 'z) org_store_scheme \<Rightarrow> ('w, failure, organization list) eio" where
  "listOrganizations ctx store = or_listOrganizations store (pr_userId (cx_principal ctx))"

definition getOrganization ::
  "request_context \<Rightarrow> ('w, 'z) org_store_scheme \<Rightarrow> string \<Rightarrow> ('w, failure, organization) eio" where
  "getOrganization ctx store organizationId =
     io_then (check_that (requireCapability ctx organizationId OrgRead))
    (io_bind (or_listOrganizations store (pr_userId (cx_principal ctx))) (\<lambda>orgs.
       case find (\<lambda>o'. og_id o' = organizationId) orgs of
         None \<Rightarrow> io_throw ORG_NOT_FOUND
       | Some found \<Rightarrow> io_return found))"

subsection \<open>Projects\<close>

definition listProjects ::
  "request_context \<Rightarrow> ('w, 'z) org_store_scheme \<Rightarrow> string \<Rightarrow> ('w, failure, project_row list) eio" where
  "listProjects ctx store organizationId =
     io_then (check_that (requireCapability ctx organizationId ProjectRead))
       (or_listProjects store (pr_userId (cx_principal ctx)) organizationId)"

definition getProject_procedure ::
  "request_context \<Rightarrow> ('w, 'z) org_store_scheme \<Rightarrow> string \<Rightarrow> ('w, failure, project_row) eio" where
  "getProject_procedure ctx store projectId = authorized_project ctx store projectId ProjectRead"

record create_project_request =
  cr_organizationId :: string
  cr_name :: string
  cr_slug :: string
  cr_executionModel :: "string option"
  cr_rootDirectory :: "string option"

definition createProject ::
  "request_context \<Rightarrow> ('w, 'z) org_store_scheme \<Rightarrow> create_project_request \<Rightarrow> ('w, failure, project_row) eio" where
  "createProject ctx store inp =
     io_then (check_that (requireCapability ctx (cr_organizationId inp) ProjectCreate))
    (io_bind (check_that (bounded_name ''Project name'' (cr_name inp))) (\<lambda>name.
     io_bind (check_that (checked_slug ''Project slug'' (cr_slug inp))) (\<lambda>newSlug.
     io_bind (check_that (parseExecutionModel (cr_executionModel inp))) (\<lambda>model.
     io_bind (check_that (parseRootDirectory (cr_rootDirectory inp))) (\<lambda>rootDirectory.
     io_bind (or_createProject store
        \<lparr> pn_organizationId = cr_organizationId inp, pn_name = name, pn_slug = newSlug,
          pn_createdBy = pr_userId (cx_principal ctx), pn_executionModel = model,
          pn_rootDirectory = rootDirectory \<rparr>) (\<lambda>project.
     io_then (as_recordAuditEvent store
        (audit_by ctx (pj_organizationId project) ''project.created'' ''project'' (pj_id project)
          [(''slug'', JString (pj_slug project)),
           (''executionModel'', JString (model_name (executionModel (pj_executionModel project)))),
           (''rootDirectory'', nullable (pj_rootDirectory project))]))
       (io_return project)))))))"

definition mayReadProject :: "request_context \<Rightarrow> string \<Rightarrow> bool" where
  "mayReadProject ctx organizationId = allowed ctx organizationId ProjectRead"

record update_project_request =
  ur_projectId :: string
  ur_name :: "string option"
  ur_slug :: "string option"
  ur_executionModel :: "string option"
  ur_rootDirectory :: "string option option"

text \<open>What the engine cannot follow once the application exists: the root directory and the slug.\<close>

definition ROOT_IS_FIXED :: failure where
  "ROOT_IS_FIXED = ApiError Conflict
     (''This project'' @ [CHR 0x27] @ ''s root directory is set on the hosting engine when the application '' @
      ''is created, and the engine cannot re-target it. It can only change before the first deployment.'')"

definition SLUG_IS_FIXED :: failure where
  "SLUG_IS_FIXED = ApiError Conflict
     (''This project'' @ [CHR 0x27] @ ''s slug names the application on the hosting engine, and the engine '' @
      ''cannot rename it. The slug can only change before the first deployment creates '' @
      ''the application; rename the project'' @ [CHR 0x27] @ ''s name instead.'')"

definition optional_check :: "('a \<Rightarrow> failure + 'b) \<Rightarrow> 'a option \<Rightarrow> failure + 'b option" where
  "optional_check check presented =
     (case presented of
        None \<Rightarrow> Inr None
      | Some v \<Rightarrow> (case check v of Inl e \<Rightarrow> Inl e | Inr x \<Rightarrow> Inr (Some x)))"

definition project_changes :: "project_row \<Rightarrow> update_project_request \<Rightarrow> failure + project_update_input" where
  "project_changes existing inp =
     (if ur_name inp = None \<and> ur_slug inp = None \<and> ur_executionModel inp = None \<and> ur_rootDirectory inp = None
      then Inl (invalid_input
        ''Nothing to update: provide a name, a slug, an execution model or a root directory.'')
      else
        try_then (optional_check (bounded_name ''Project name'') (ur_name inp)) (\<lambda>name.
        try_then (optional_check (checked_slug ''Project slug'') (ur_slug inp)) (\<lambda>newSlug.
        try_then (parseExecutionModel (ur_executionModel inp)) (\<lambda>model.
        try_then (optional_check parseRootDirectory (ur_rootDirectory inp)) (\<lambda>rootDirectory.
          if rootDirectory \<noteq> None \<and> rootDirectory \<noteq> Some (pj_rootDirectory existing) \<and>
             pj_providerResourceId existing \<noteq> None
          then Inl ROOT_IS_FIXED
          else if newSlug \<noteq> None \<and> newSlug \<noteq> Some (pj_slug existing) \<and>
             pj_providerResourceId existing \<noteq> None
          then Inl SLUG_IS_FIXED
          else Inr \<lparr> pu_organizationId = pj_organizationId existing, pu_projectId = ur_projectId inp,
                     pu_name = name, pu_slug = newSlug, pu_executionModel = model,
                     pu_rootDirectory = rootDirectory \<rparr>)))))"

definition updateProject ::
  "request_context \<Rightarrow> ('w, 'z) org_store_scheme \<Rightarrow> update_project_request \<Rightarrow> ('w, failure, project_row) eio" where
  "updateProject ctx store inp =
     io_bind (authorized_project ctx store (ur_projectId inp) ProjectUpdate) (\<lambda>existing.
     io_bind (check_that (project_changes existing inp)) (\<lambda>changes.
       case or_updateProject store of
         None \<Rightarrow> io_throw (unavailable_yet ''rename projects'')
       | Some update \<Rightarrow>
           io_bind (update changes) (\<lambda>found.
             case found of
               None \<Rightarrow> io_throw PROJECT_NOT_FOUND
             | Some updated \<Rightarrow>
                 io_then (as_recordAuditEvent store
                   (audit_by ctx (pj_organizationId updated) ''project.updated'' ''project'' (pj_id updated)
                     ([(''slug'', JString (pj_slug updated))] @
                      (case pu_executionModel changes of
                         None \<Rightarrow> []
                       | Some m \<Rightarrow> [(''executionModel'', JString (model_name m))]) @
                      (if pu_rootDirectory changes = None then []
                       else [(''rootDirectory'', nullable (pj_rootDirectory updated))]))))
                   (io_return updated))))"

subsection \<open>Members\<close>

fun role_name :: "org_role \<Rightarrow> string" where
  "role_name Owner = ''owner''"
| "role_name Admin = ''admin''"
| "role_name Member = ''member''"
| "role_name Viewer = ''viewer''"

definition listOrganizationMembers ::
  "request_context \<Rightarrow> ('w, 'z) org_store_scheme \<Rightarrow> string \<Rightarrow> ('w, failure, organization_member list) eio" where
  "listOrganizationMembers ctx store organizationId =
     io_then (check_that (requireCapability ctx organizationId MemberRead))
       (or_listOrganizationMembers store (pr_userId (cx_principal ctx)) organizationId)"

definition MEMBER_NOT_FOUND :: failure where
  "MEMBER_NOT_FOUND = ApiError NotFound ''Member not found.''"

definition other_owners :: "organization_member list \<Rightarrow> string \<Rightarrow> organization_member list" where
  "other_owners members memberId = filter (\<lambda>m. om_role m = Owner \<and> om_userId m \<noteq> memberId) members"

text \<open>The rank rules of a role change, on the members as they were read.\<close>

definition role_change ::
  "org_role \<Rightarrow> organization_member list \<Rightarrow> string \<Rightarrow> org_role \<Rightarrow> failure + organization_member" where
  "role_change callerRole members memberId newRole =
     (case find (\<lambda>m. om_userId m = memberId) members of
        None \<Rightarrow> Inl MEMBER_NOT_FOUND
      | Some target \<Rightarrow>
          if callerRole \<noteq> Owner \<and> om_role target = Owner
          then Inl (ApiError Forbidden (''Only an owner can change an owner'' @ [CHR 0x27] @ ''s role.''))
          else if callerRole \<noteq> Owner \<and> newRole = Owner
          then Inl (ApiError Forbidden ''Only an owner can grant the owner role.'')
          else if om_role target = Owner \<and> newRole \<noteq> Owner \<and> other_owners members memberId = []
          then Inl (ApiError Conflict ''The last owner cannot be demoted.'')
          else Inr target)"

text \<open>What runs before the write, on one reading of the members, and the write with what follows it.\<close>

definition admit_role_change ::
  "request_context \<Rightarrow> ('w, 'z) org_store_scheme \<Rightarrow> string \<Rightarrow> string \<Rightarrow> org_role \<Rightarrow>
   ('w, failure, organization_member) eio" where
  "admit_role_change ctx store organizationId memberId newRole =
     io_then (check_that (requireCapability ctx organizationId MemberInvite))
       (case roleFor ctx organizationId of
          None \<Rightarrow> io_throw ORG_NOT_FOUND
        | Some callerRole \<Rightarrow>
            if memberId = pr_userId (cx_principal ctx)
            then io_throw (invalid_input ''You cannot change your own role.'')
            else
              io_bind (or_listOrganizationMembers store (pr_userId (cx_principal ctx)) organizationId) (\<lambda>members.
                check_that (role_change callerRole members memberId newRole)))"

definition write_role_change ::
  "request_context \<Rightarrow> ('w, 'z) org_store_scheme \<Rightarrow> string \<Rightarrow> string \<Rightarrow> org_role \<Rightarrow> organization_member \<Rightarrow>
   ('w, failure, organization_member) eio" where
  "write_role_change ctx store organizationId memberId newRole target =
     io_bind (or_updateOrganizationMemberRole store (pr_userId (cx_principal ctx)) organizationId
                memberId newRole) (\<lambda>found.
       case found of
         None \<Rightarrow> io_throw MEMBER_NOT_FOUND
       | Some updated \<Rightarrow>
           io_then (as_recordAuditEvent store
             (audit_by ctx organizationId ''member.role_changed'' ''member'' memberId
               [(''from'', JString (role_name (om_role target))), (''to'', JString (role_name newRole))]))
             (io_return updated))"

definition updateOrganizationMemberRole ::
  "request_context \<Rightarrow> ('w, 'z) org_store_scheme \<Rightarrow> string \<Rightarrow> string \<Rightarrow> org_role \<Rightarrow>
   ('w, failure, organization_member) eio" where
  "updateOrganizationMemberRole ctx store organizationId memberId newRole =
     io_bind (admit_role_change ctx store organizationId memberId newRole) (\<lambda>target.
       write_role_change ctx store organizationId memberId newRole target)"

definition removal ::
  "org_role \<Rightarrow> bool \<Rightarrow> organization_member list \<Rightarrow> string \<Rightarrow> failure + organization_member" where
  "removal callerRole removingSelf members memberId =
     (case find (\<lambda>m. om_userId m = memberId) members of
        None \<Rightarrow> Inl MEMBER_NOT_FOUND
      | Some target \<Rightarrow>
          if \<not> removingSelf \<and> callerRole \<noteq> Owner \<and> om_role target = Owner
          then Inl (ApiError Forbidden ''Only an owner can remove an owner.'')
          else if om_role target = Owner \<and> other_owners members memberId = []
          then Inl (ApiError Conflict ''The last owner cannot be removed.'')
          else Inr target)"

definition admit_removal ::
  "request_context \<Rightarrow> ('w, 'z) org_store_scheme \<Rightarrow> string \<Rightarrow> string \<Rightarrow> ('w, failure, organization_member) eio" where
  "admit_removal ctx store organizationId memberId =
     (let removingSelf = (memberId = pr_userId (cx_principal ctx)) in
      io_then (check_that (requireCapability ctx organizationId (if removingSelf then OrgRead else MemberRemove)))
       (case roleFor ctx organizationId of
          None \<Rightarrow> io_throw ORG_NOT_FOUND
        | Some callerRole \<Rightarrow>
            io_bind (or_listOrganizationMembers store (pr_userId (cx_principal ctx)) organizationId) (\<lambda>members.
              check_that (removal callerRole removingSelf members memberId))))"

definition write_removal ::
  "request_context \<Rightarrow> ('w, 'z) org_store_scheme \<Rightarrow> string \<Rightarrow> string \<Rightarrow> organization_member \<Rightarrow>
   ('w, failure, unit) eio" where
  "write_removal ctx store organizationId memberId target =
     io_bind (or_removeOrganizationMember store (pr_userId (cx_principal ctx)) organizationId memberId)
       (\<lambda>removed.
         if \<not> removed then io_throw MEMBER_NOT_FOUND
         else io_then (as_recordAuditEvent store
                (audit_by ctx organizationId ''member.removed'' ''member'' memberId
                  [(''role'', JString (role_name (om_role target))),
                   (''self'', JBool (memberId = pr_userId (cx_principal ctx)))]))
                (io_return ()))"

definition removeOrganizationMember ::
  "request_context \<Rightarrow> ('w, 'z) org_store_scheme \<Rightarrow> string \<Rightarrow> string \<Rightarrow> ('w, failure, unit) eio" where
  "removeOrganizationMember ctx store organizationId memberId =
     io_bind (admit_removal ctx store organizationId memberId) (\<lambda>target.
       write_removal ctx store organizationId memberId target)"

subsection \<open>environments.ts\<close>

definition listEnvironments ::
  "request_context \<Rightarrow> ('w, 'z) org_store_scheme \<Rightarrow> string \<Rightarrow> ('w, failure, environment_row list) eio" where
  "listEnvironments ctx store projectId =
     io_bind (authorized_project ctx store projectId ProjectRead) (\<lambda>project.
       case st_listEnvironments store of
         None \<Rightarrow> io_throw (OtherError ''deps.store.listEnvironments is not a function'')
       | Some list_environments \<Rightarrow> list_environments (pr_userId (cx_principal ctx)) (pj_id project))"

end
