(* ===== verification/Env_Vars.thy ===== *)
theory Env_Vars
  imports Organizations
begin

section \<open>apps/api/procedures/env-vars.ts: environment variables\<close>

text \<open>
  Listing, setting and removing a project's variables.  The cipher and the digest are node's, and
  parameters; the hosting engine is the adapter of \<open>Execution_Router\<close>.  A row is a variable without its
  timestamps; the ciphertext is a field of the stored row only.
\<close>

subsection \<open>Rows and ports\<close>

record env_var =
  va_id :: string
  va_organizationId :: string
  va_projectId :: string
  va_environmentId :: string
  va_key :: string
  va_valuePrefix :: string
  va_isBuildTime :: bool
  va_updatedBy :: string

record env_var_save = env_var +
  vs_valueEncrypted :: string

record engine_ref_input =
  ei_ref_organizationId :: string
  ei_ref_projectId :: string
  ei_ref_environmentId :: string
  ei_ref_key :: string
  ei_ref_engineRef :: string
  ei_ref_provider :: string
  ei_ref_providerResourceId :: string

record 'w env_var_store = "'w org_store" +
  vr_listEnvVars :: "string \<Rightarrow> string \<Rightarrow> ('w, failure, env_var list) eio"
  vr_saveEnvVar :: "(env_var_save \<Rightarrow> ('w, failure, env_var) eio) option"
  vr_setEnvVarEngineRef :: "(engine_ref_input \<Rightarrow> ('w, failure, env_var option) eio) option"
  vr_getEnvVarEngineRef ::
    "(string \<Rightarrow> string \<Rightarrow> string \<Rightarrow> string \<Rightarrow> string \<Rightarrow> ('w, failure, string option) eio) option"
  vr_deleteEnvVar ::
    "(string \<Rightarrow> string \<Rightarrow> string \<Rightarrow> string \<Rightarrow> string \<Rightarrow> ('w, failure, bool) eio) option"

record 'w env_var_deps =
  vd_store :: "'w env_var_store"
  vd_hosting :: "'w hosting_adapter"
  vd_newId :: "('w, failure, string) eio"
  vd_cipher :: "'w secret_box option"
  vd_sha256 :: "string \<Rightarrow> string"

text \<open>The writes a variable needs, once the store is known to have them all.\<close>

record 'w env_var_writes =
  vw_saveEnvVar :: "env_var_save \<Rightarrow> ('w, failure, env_var) eio"
  vw_setEnvVarEngineRef :: "engine_ref_input \<Rightarrow> ('w, failure, env_var option) eio"
  vw_getEnvVarEngineRef ::
    "string \<Rightarrow> string \<Rightarrow> string \<Rightarrow> string \<Rightarrow> string \<Rightarrow> ('w, failure, string option) eio"
  vw_deleteEnvVar :: "string \<Rightarrow> string \<Rightarrow> string \<Rightarrow> string \<Rightarrow> string \<Rightarrow> ('w, failure, bool) eio"
  vw_getProjectDeploymentTarget :: "string \<Rightarrow> string \<Rightarrow> ('w, failure, deployment_target option) eio"

definition missing_env_writes :: "'w env_var_store \<Rightarrow> string list" where
  "missing_env_writes store = map snd (filter (\<lambda>(missing, _). missing)
     [(vr_saveEnvVar store = None, ''saveEnvVar''),
      (vr_setEnvVarEngineRef store = None, ''setEnvVarEngineRef''),
      (vr_getEnvVarEngineRef store = None, ''getEnvVarEngineRef''),
      (vr_deleteEnvVar store = None, ''deleteEnvVar''),
      (st_getProjectDeploymentTarget store = None, ''getProjectDeploymentTarget'')])"

definition env_writesFor :: "'w env_var_store \<Rightarrow> failure + 'w env_var_writes" where
  "env_writesFor store =
     (if missing_env_writes store \<noteq> []
      then Inl (unavailable_yet (''record '' @ join_with '', '' (missing_env_writes store)))
      else Inr \<lparr> vw_saveEnvVar = the (vr_saveEnvVar store),
                 vw_setEnvVarEngineRef = the (vr_setEnvVarEngineRef store),
                 vw_getEnvVarEngineRef = the (vr_getEnvVarEngineRef store),
                 vw_deleteEnvVar = the (vr_deleteEnvVar store),
                 vw_getProjectDeploymentTarget = the (st_getProjectDeploymentTarget store) \<rparr>)"

subsection \<open>Keys and values\<close>

text \<open>
  \<open>toUpperCase\<close> on Latin-1: the sharp s becomes two letters, and the two characters whose capital lies
  outside Latin-1 stay, no letter the pattern below accepts either way.
\<close>

definition upper_char :: "char \<Rightarrow> string" where
  "upper_char c =
     (if code_unit c = 223 then ''SS''
      else if is_lower c \<or> (224 \<le> code_unit c \<and> code_unit c \<le> 254 \<and> code_unit c \<noteq> 247)
      then [char_of (code_unit c - 32)] else [c])"

definition to_upper :: "string \<Rightarrow> string" where
  "to_upper s = concat (map upper_char s)"

definition env_key_char :: "char \<Rightarrow> bool" where
  "env_key_char c \<longleftrightarrow> is_upper c \<or> is_digit c \<or> c = CHR ''_''"

definition KEY_PATTERN :: "string \<Rightarrow> bool" where
  "KEY_PATTERN s \<longleftrightarrow> 1 \<le> length s \<and> length s \<le> 128 \<and> is_upper (hd s) \<and> list_all env_key_char (tl s)"

definition normaliseKey :: "string \<Rightarrow> failure + string" where
  "normaliseKey presented =
     (let key = to_upper (trim presented) in
      if \<not> KEY_PATTERN key
      then Inl (invalid_input (''A variable name must start with a letter and contain only letters, '' @
                               ''digits and underscores (max 128).''))
      else Inr key)"

text \<open>Of a Latin-1 string, each character beyond ASCII takes two bytes.\<close>

definition utf8_bytes :: "string \<Rightarrow> nat" where
  "utf8_bytes s = sum_list (map (\<lambda>c. if code_unit c < 128 then 1 else 2) s)"

definition MAX_VALUE_BYTES :: nat where
  "MAX_VALUE_BYTES = 65536"

definition checkValue :: "string \<Rightarrow> failure + string" where
  "checkValue v =
     (if utf8_bytes v > MAX_VALUE_BYTES
      then Inl (invalid_input ''A variable value may not exceed 64 KiB.'') else Inr v)"

definition valueFingerprint :: "(string \<Rightarrow> string) \<Rightarrow> string \<Rightarrow> string" where
  "valueFingerprint sha256 v = take 4 (sha256 v)"

subsection \<open>Where a variable belongs\<close>

definition NO_ENVIRONMENTS :: failure where
  "NO_ENVIRONMENTS = ApiError EngineUnavailable
     ''This project has no environments yet, so a variable cannot be scoped to one.''"

definition FOREIGN_ENVIRONMENT :: failure where
  "FOREIGN_ENVIRONMENT = ApiError NotFound ''That environment does not belong to this project.''"

definition chosen_environment :: "environment_row list \<Rightarrow> string option \<Rightarrow> failure + environment_row" where
  "chosen_environment environments environmentId =
     (case environments of
        [] \<Rightarrow> Inl NO_ENVIRONMENTS
      | first # _ \<Rightarrow>
          (case environmentId of
             None \<Rightarrow> Inr (or_else (find en_isDefault environments) first)
           | Some wanted \<Rightarrow>
               (case find (\<lambda>e. en_id e = wanted) environments of
                  None \<Rightarrow> Inl FOREIGN_ENVIRONMENT
                | Some found \<Rightarrow> Inr found)))"

definition resolveEnvironment ::
  "request_context \<Rightarrow> 'w env_var_deps \<Rightarrow> project_row \<Rightarrow> string option \<Rightarrow> ('w, failure, environment_row) eio" where
  "resolveEnvironment ctx deps project environmentId =
     (case st_listEnvironments (vd_store deps) of
        None \<Rightarrow> io_throw (OtherError ''deps.store.listEnvironments is not a function'')
      | Some list_environments \<Rightarrow>
          io_bind (list_environments (pr_userId (cx_principal ctx)) (pj_id project)) (\<lambda>environments.
            check_that (chosen_environment environments environmentId)))"

definition applicationRefFor ::
  "'w env_var_deps \<Rightarrow> string \<Rightarrow> project_row \<Rightarrow> ('w, failure, provider_ref option) eio" where
  "applicationRefFor deps userId project =
     io_bind (check_that (env_writesFor (vd_store deps))) (\<lambda>writes.
     io_bind (vw_getProjectDeploymentTarget writes userId (pj_id project)) (\<lambda>target.
       io_return
         (case target of
            None \<Rightarrow> None
          | Some t \<Rightarrow>
              if \<not> truthy (dt_providerResourceId t) then None
              else Some \<lparr> ref_organizationId = pj_organizationId project,
                          ref_provider = or_else (dt_provider t) HOSTING_PROVIDER,
                          ref_resourceType = ''application'',
                          ref_resourceId = the (dt_providerResourceId t) \<rparr>)))"

subsection \<open>Listing\<close>

definition listEnvVars ::
  "request_context \<Rightarrow> 'w env_var_deps \<Rightarrow> string \<Rightarrow> string option \<Rightarrow> ('w, failure, env_var list) eio" where
  "listEnvVars ctx deps projectId environmentId =
     io_bind (authorized_project ctx (vd_store deps) projectId ProjectRead) (\<lambda>project.
     io_bind (vr_listEnvVars (vd_store deps) (pr_userId (cx_principal ctx)) (pj_id project)) (\<lambda>variables.
       case environmentId of
         None \<Rightarrow> io_return variables
       | Some _ \<Rightarrow>
           io_bind (resolveEnvironment ctx deps project environmentId) (\<lambda>environment.
             io_return (filter (\<lambda>v. va_environmentId v = en_id environment) variables))))"

subsection \<open>Setting\<close>

record set_env_var_input =
  sv_projectId :: string
  sv_key :: string
  sv_value :: string
  sv_isBuildTime :: "bool option"
  sv_environmentId :: "string option"

datatype applied = Engine | Stored

fun applied_name :: "applied \<Rightarrow> string" where
  "applied_name Engine = ''engine''"
| "applied_name Stored = ''stored''"

record set_env_var_outcome =
  so_variable :: env_var
  so_applied :: applied
  so_redeployRequired :: bool
  so_engineReason :: "string option"

definition NO_CIPHER :: failure where
  "NO_CIPHER = ApiError EngineUnavailable
     ''Set CLOUD_WAI_SECRET_ENCRYPTION_KEY to store environment variables for this project.''"

definition NOT_ON_ENGINE :: string where
  "NOT_ON_ENGINE =
     ''This project has no application on the hosting engine yet, so the variable is stored but not yet applied.''"

definition env_call_ctx :: "string \<Rightarrow> project_row \<Rightarrow> environment_row \<Rightarrow> string \<Rightarrow> adapter_context" where
  "env_call_ctx verb project environment key =
     \<lparr> ac_organizationId = pj_organizationId project,
       ac_idempotencyKey = verb @ pj_id project @ ''-'' @ en_id environment @ ''-'' @ key,
       ac_timeoutMs = ADAPTER_TIMEOUT_MS \<rparr>"

text \<open>The engine half of a save: what was applied, and the reason when nothing was.\<close>

definition push_to_engine ::
  "'w env_var_deps \<Rightarrow> 'w env_var_writes \<Rightarrow> project_row \<Rightarrow> environment_row \<Rightarrow> provider_ref option \<Rightarrow>
   env_var_write \<Rightarrow> ('w, failure, applied \<times> string option) eio" where
  "push_to_engine deps writes project environment ref variable =
     (case ref of
        None \<Rightarrow> io_return (Stored, Some NOT_ON_ENGINE)
      | Some application \<Rightarrow>
          io_bind (thrown (ha_createEnvVar (vd_hosting deps)
             (env_call_ctx ''env-'' project environment (ew_key variable)) application variable)) (\<lambda>result.
            case result of
              AOk _ state \<Rightarrow>
                io_then (vw_setEnvVarEngineRef writes
                   \<lparr> ei_ref_organizationId = pj_organizationId project, ei_ref_projectId = pj_id project,
                     ei_ref_environmentId = en_id environment, ei_ref_key = ew_key variable,
                     ei_ref_engineRef = or_else (ev_engineRef state) [],
                     ei_ref_provider = ref_provider application,
                     ei_ref_providerResourceId = ref_resourceId application \<rparr>)
                  (io_return (Engine, None))
            | AErr _ reason \<Rightarrow> io_return (Stored, Some reason)))"

definition saved_variable ::
  "request_context \<Rightarrow> (string \<Rightarrow> string) \<Rightarrow> project_row \<Rightarrow> environment_row \<Rightarrow> string \<Rightarrow> string \<Rightarrow> string \<Rightarrow> bool \<Rightarrow>
   string \<Rightarrow> env_var_save" where
  "saved_variable ctx sha256 project environment newId key v isBuildTime ciphertext =
     \<lparr> va_id = newId, va_organizationId = pj_organizationId project, va_projectId = pj_id project,
       va_environmentId = en_id environment, va_key = key, va_valuePrefix = valueFingerprint sha256 v,
       va_isBuildTime = isBuildTime, va_updatedBy = pr_userId (cx_principal ctx),
       vs_valueEncrypted = ciphertext \<rparr>"

definition setEnvVar ::
  "request_context \<Rightarrow> 'w env_var_deps \<Rightarrow> set_env_var_input \<Rightarrow> ('w, failure, set_env_var_outcome) eio" where
  "setEnvVar ctx deps inp =
     io_bind (authorized_project ctx (vd_store deps) (sv_projectId inp) ProjectUpdate) (\<lambda>project.
       case vd_cipher deps of
         None \<Rightarrow> io_throw NO_CIPHER
       | Some cipher \<Rightarrow>
           io_bind (check_that (normaliseKey (sv_key inp))) (\<lambda>key.
           io_bind (check_that (checkValue (sv_value inp))) (\<lambda>v.
           let isBuildTime = or_else (sv_isBuildTime inp) True in
           io_bind (resolveEnvironment ctx deps project (sv_environmentId inp)) (\<lambda>environment.
           io_bind (check_that (env_writesFor (vd_store deps))) (\<lambda>writes.
           io_bind (vd_newId deps) (\<lambda>newId.
           io_bind (sx_encrypt cipher v) (\<lambda>ciphertext.
           io_bind (vw_saveEnvVar writes
              (saved_variable ctx (vd_sha256 deps) project environment newId key v isBuildTime ciphertext))
             (\<lambda>variable.
           io_bind (applicationRefFor deps (pr_userId (cx_principal ctx)) project) (\<lambda>ref.
           io_bind (push_to_engine deps writes project environment ref
              \<lparr> ew_key = key, ew_value = v, ew_isBuildTime = Some isBuildTime \<rparr>) (\<lambda>(done_at, reason).
           io_then (as_recordAuditEvent (vd_store deps)
              (audit_by ctx (pj_organizationId project) ''env.set'' ''project_env_var'' (va_id variable)
                [(''projectId'', JString (pj_id project)), (''environmentId'', JString (en_id environment)),
                 (''key'', JString key), (''isBuildTime'', JBool isBuildTime),
                 (''applied'', JString (applied_name done_at))]))
             (io_return \<lparr> so_variable = variable, so_applied = done_at, so_redeployRequired = isBuildTime,
                          so_engineReason = reason \<rparr>)))))))))))"

subsection \<open>Removing\<close>

record removed_outcome =
  ro_removed :: bool
  ro_engineReason :: "string option"

text \<open>The engine's copy first: the reason it could not be deleted, if it could not.\<close>

definition remove_from_engine ::
  "request_context \<Rightarrow> 'w env_var_deps \<Rightarrow> 'w env_var_writes \<Rightarrow> project_row \<Rightarrow> environment_row \<Rightarrow> string \<Rightarrow>
   ('w, failure, string option) eio" where
  "remove_from_engine ctx deps writes project environment key =
     io_bind (applicationRefFor deps (pr_userId (cx_principal ctx)) project) (\<lambda>ref.
       case ref of
         None \<Rightarrow> io_return None
       | Some application \<Rightarrow>
           io_bind (vw_getEnvVarEngineRef writes (pr_userId (cx_principal ctx)) (pj_organizationId project)
                      (pj_id project) (en_id environment) key) (\<lambda>engineRef.
             if \<not> truthy engineRef then io_return None
             else io_bind (thrown (ha_deleteEnvVar (vd_hosting deps)
                    (env_call_ctx ''env-del-'' project environment key) application (the engineRef))) (\<lambda>result.
                    case result of
                      AErr _ reason \<Rightarrow> io_return (Some reason)
                    | AOk _ _ \<Rightarrow> io_return None)))"

definition removeEnvVar ::
  "request_context \<Rightarrow> 'w env_var_deps \<Rightarrow> string \<Rightarrow> string \<Rightarrow> string option \<Rightarrow>
   ('w, failure, removed_outcome) eio" where
  "removeEnvVar ctx deps projectId presentedKey environmentId =
     io_bind (authorized_project ctx (vd_store deps) projectId ProjectUpdate) (\<lambda>project.
     io_bind (check_that (normaliseKey presentedKey)) (\<lambda>key.
     io_bind (resolveEnvironment ctx deps project environmentId) (\<lambda>environment.
     io_bind (check_that (env_writesFor (vd_store deps))) (\<lambda>writes.
     io_bind (vr_listEnvVars (vd_store deps) (pr_userId (cx_principal ctx)) (pj_id project)) (\<lambda>variables.
       case find (\<lambda>v. va_key v = key \<and> va_environmentId v = en_id environment) variables of
         None \<Rightarrow> io_return \<lparr> ro_removed = False, ro_engineReason = None \<rparr>
       | Some existing \<Rightarrow>
           io_bind (remove_from_engine ctx deps writes project environment key) (\<lambda>refused.
             if refused \<noteq> None then io_return \<lparr> ro_removed = False, ro_engineReason = refused \<rparr>
             else
               io_bind (vw_deleteEnvVar writes (pr_userId (cx_principal ctx)) (pj_organizationId project)
                          (pj_id project) (en_id environment) key) (\<lambda>removed.
               io_then (if removed
                        then as_recordAuditEvent (vd_store deps)
                          (audit_by ctx (pj_organizationId project) ''env.removed'' ''project_env_var'' (va_id existing)
                            [(''projectId'', JString (pj_id project)),
                             (''environmentId'', JString (en_id environment)), (''key'', JString key)])
                        else io_return ())
                 (io_return \<lparr> ro_removed = removed, ro_engineReason = None \<rparr>))))))))"

end
