(* ===== verification/Key_Procedures.thy ===== *)
theory Key_Procedures
  imports Organizations
begin

section \<open>apps/api/procedures/settings.ts: API keys\<close>

text \<open>
  Issuing, listing and revoking keys.  The digest and the random half of a secret are parameters.  The
  summary is what leaves the API; the hash is a field of the stored row only.
\<close>

record api_key_summary =
  ks_id :: string
  ks_organizationId :: string
  ks_name :: string
  ks_keyPrefix :: string
  ks_scopes :: "string list"
  ks_createdAt :: timestamp
  ks_lastUsedAt :: "timestamp option"
  ks_revokedAt :: "timestamp option"

record api_key_create_input =
  kc_id :: string
  kc_organizationId :: string
  kc_name :: string
  kc_keyHash :: string
  kc_keyPrefix :: string
  kc_ownerId :: string
  kc_scopes :: "string list"

record 'w key_store = "'w org_store" +
  ky_listApiKeys :: "string \<Rightarrow> string \<Rightarrow> ('w, failure, api_key_summary list) eio"
  ky_createApiKey :: "api_key_create_input \<Rightarrow> ('w, failure, api_key_summary) eio"
  ky_revokeApiKey :: "string \<Rightarrow> string \<Rightarrow> string \<Rightarrow> ('w, failure, bool) eio"

record 'w key_deps =
  kd_store :: "'w key_store"
  kd_newId :: "('w, failure, string) eio"
  kd_sha256 :: "string \<Rightarrow> string"
  kd_random24 :: "('w, failure, string) eio"
  kd_now :: "'w \<Rightarrow> millis"

definition listApiKeys ::
  "request_context \<Rightarrow> 'w key_deps \<Rightarrow> string \<Rightarrow> ('w, failure, api_key_summary list) eio" where
  "listApiKeys ctx deps organizationId =
     io_then (check_that (requireCapability ctx organizationId ApikeyRead))
       (ky_listApiKeys (kd_store deps) (pr_userId (cx_principal ctx)) organizationId)"

text \<open>The scopes a caller sends are texts; one that names no capability is granted by no role.\<close>

definition key_request ::
  "request_context \<Rightarrow> string \<Rightarrow> string \<Rightarrow> org_role \<Rightarrow> string list \<Rightarrow> string \<Rightarrow> millis \<Rightarrow> issue_input" where
  "key_request ctx organizationId name role scopes newId now =
     \<lparr> in_id = newId, in_organizationId = organizationId, in_ownerId = pr_userId (cx_principal ctx),
       in_name = name, in_role = role, in_requestedScopes = List.map_filter capability_of scopes,
       in_now = now \<rparr>"

definition stored_key :: "api_key_record \<Rightarrow> api_key_create_input" where
  "stored_key r =
     \<lparr> kc_id = ka_id r, kc_organizationId = ka_organizationId r, kc_name = kr_name r,
       kc_keyHash = kr_keyHash r, kc_keyPrefix = kr_keyPrefix r, kc_ownerId = ka_ownerId r,
       kc_scopes = ka_scopes r \<rparr>"

definition createApiKey ::
  "request_context \<Rightarrow> 'w key_deps \<Rightarrow> string \<Rightarrow> string \<Rightarrow> string list \<Rightarrow>
   ('w, failure, api_key_summary \<times> string) eio" where
  "createApiKey ctx deps organizationId presentedName scopes =
     io_then (check_that (requireCapability ctx organizationId ApikeyCreate))
    (io_bind (check_that (bounded_name ''API key name'' presentedName)) (\<lambda>name.
       case roleFor ctx organizationId of
         None \<Rightarrow> io_throw ORG_NOT_FOUND
       | Some role \<Rightarrow>
           io_bind (kd_newId deps) (\<lambda>newId.
           io_bind (io_get (kd_now deps)) (\<lambda>now.
           io_bind (kd_random24 deps) (\<lambda>random24.
           let issued = issueApiKey (kd_sha256 deps) random24
                          (key_request ctx organizationId name role scopes newId now) in
           io_bind (ky_createApiKey (kd_store deps) (stored_key (fst issued))) (\<lambda>key.
           io_then (as_recordAuditEvent (kd_store deps)
              (audit_by ctx organizationId ''api_key.created'' ''api_key'' (ks_id key)
                [(''prefix'', JString (ks_keyPrefix key)), (''scopes'', JArray (map JString (ks_scopes key)))]))
             (io_return (key, snd issued))))))))"

definition revokeApiKey ::
  "request_context \<Rightarrow> 'w key_deps \<Rightarrow> string \<Rightarrow> string \<Rightarrow> ('w, failure, unit) eio" where
  "revokeApiKey ctx deps organizationId keyId =
     io_then (check_that (requireCapability ctx organizationId ApikeyRevoke))
    (io_bind (ky_revokeApiKey (kd_store deps) (pr_userId (cx_principal ctx)) organizationId keyId) (\<lambda>revoked.
       if \<not> revoked then io_throw (ApiError NotFound ''API key not found.'')
       else as_recordAuditEvent (kd_store deps)
              (audit_by ctx organizationId ''api_key.revoked'' ''api_key'' keyId [])))"

definition scopesForRole :: "org_role \<Rightarrow> string list" where
  "scopesForRole role = map capability_name (boundedScopes
     [OrgRead, OrgDelete, ProjectRead, ProjectCreate, DeploymentCreate, DataDestroy, SecurityQuarantine,
      ApikeyCreate, BillingManage] role)"

end
