(* ===== verification/Domain_Verification.thy ===== *)
theory Domain_Verification
  imports Organizations
begin

section \<open>packages/adapters/domain-verification.ts: who controls a hostname\<close>

text \<open>
  The verifier asks a resolver, a parameter, for the challenge record and then for the alias of the
  hostname.  A failed lookup carries the resolver's code, when it has one.
\<close>

record domain_verification =
  ve_hostname :: string
  ve_verified :: bool
  ve_provider :: string
  ve_providerResourceId :: "string option"
  ve_detail :: string

record 'w domain_verifier =
  vf_resolveDomainVerification ::
    "adapter_context \<Rightarrow> string \<Rightarrow> string \<Rightarrow> ('w, domain_verification adapter_result) io"

record 'w dns_resolver =
  ds_resolveTxt :: "string \<Rightarrow> ('w, string option, string list list) eio"
  ds_resolveCname :: "string \<Rightarrow> ('w, string option, string list) eio"

definition CHALLENGE_PREFIX :: string where
  "CHALLENGE_PREFIX = ''_cloud-wai-challenge''"

definition domainVerifierNotConfigured :: "string \<Rightarrow> string option \<Rightarrow> 'w domain_verifier" where
  "domainVerifierNotConfigured engine hint =
     \<lparr> vf_resolveDomainVerification = (\<lambda>_ _ _. io_return (AErr NotConfigured
         (engine @ '' is not configured in this deployment.'' @
          (if truthy hint then '' '' @ the hint else [])))) \<rparr>"

definition isMissingRecord :: "string option \<Rightarrow> bool" where
  "isMissingRecord code \<longleftrightarrow> code \<in> {Some ''ENOTFOUND'', Some ''ENODATA'', Some ''NXDOMAIN''}"

definition drop_dot :: "string \<Rightarrow> string" where
  "drop_dot s = (if s \<noteq> [] \<and> List.last s = CHR ''.'' then butlast s else s)"

definition dns_fact :: "string \<Rightarrow> bool \<Rightarrow> string option \<Rightarrow> string \<Rightarrow> domain_verification adapter_result" where
  "dns_fact hostname verified resourceId detail =
     AOk Succeeded \<lparr> ve_hostname = hostname, ve_verified = verified, ve_provider = ''dns'',
                     ve_providerResourceId = resourceId, ve_detail = detail \<rparr>"

text \<open>What a lookup that did not complete is: not an answer.\<close>

definition lookup_broke :: "string \<Rightarrow> domain_verification adapter_result" where
  "lookup_broke name = AErr Degraded (''The DNS lookup for '' @ name @ '' did not complete.'')"

definition txt_verdict :: "string \<Rightarrow> string \<Rightarrow> string list list \<Rightarrow> domain_verification adapter_result" where
  "txt_verdict hostname expectedToken rows =
     (if list_ex (\<lambda>parts. trim (concat parts) = expectedToken) rows
      then dns_fact hostname True None ''The challenge TXT record matches the token issued for this domain.''
      else dns_fact hostname False None
        (''No TXT record at '' @ CHALLENGE_PREFIX @ ''.'' @ hostname @ '' carries the expected token.''))"

definition cname_verdict :: "string \<Rightarrow> string \<Rightarrow> string list \<Rightarrow> domain_verification adapter_result" where
  "cname_verdict hostname edgeHostname targets =
     (if list_ex (\<lambda>target. drop_dot (to_lower target) = edgeHostname) targets
      then dns_fact hostname True (Some (CHALLENGE_PREFIX @ ''/'' @ hostname))
        (''The hostname is a CNAME to the edge ('' @ edgeHostname @ '').'')
      else dns_fact hostname False None
        (''The hostname is not a CNAME to the edge ('' @ edgeHostname @ '') and no challenge record matched.''))"

text \<open>The second lookup, made only when the challenge record is missing.\<close>

definition resolve_cname ::
  "'w dns_resolver \<Rightarrow> string option \<Rightarrow> string \<Rightarrow> ('w, domain_verification adapter_result) io" where
  "resolve_cname resolver edgeHostname hostname =
     (case edgeHostname of
        None \<Rightarrow> io_return (dns_fact hostname False None
          ''No challenge TXT record was found and no edge host is configured to match.'')
      | Some edge \<Rightarrow> (\<lambda>w.
          case ds_resolveCname resolver hostname w of
            (Inl code, w') \<Rightarrow>
              (Inr (if isMissingRecord code
                    then dns_fact hostname False None
                      ''The hostname has no challenge TXT record and no CNAME to the edge.''
                    else lookup_broke hostname), w')
          | (Inr targets, w') \<Rightarrow> (Inr (cname_verdict hostname edge targets), w')))"

definition resolve_hostname ::
  "'w dns_resolver \<Rightarrow> string option \<Rightarrow> string \<Rightarrow> string \<Rightarrow> ('w, domain_verification adapter_result) io" where
  "resolve_hostname resolver edgeHostname presented expectedToken =
     (let hostname = to_lower presented in (\<lambda>w.
        case ds_resolveTxt resolver (CHALLENGE_PREFIX @ ''.'' @ hostname) w of
          (Inr rows, w') \<Rightarrow> (Inr (txt_verdict hostname expectedToken rows), w')
        | (Inl code, w') \<Rightarrow>
            if \<not> isMissingRecord code
            then (Inr (lookup_broke (CHALLENGE_PREFIX @ ''.'' @ hostname)), w')
            else resolve_cname resolver edgeHostname hostname w'))"

definition host_char :: "char \<Rightarrow> bool" where
  "host_char c \<longleftrightarrow> slug_char c \<or> c = CHR ''.'' \<or> c = CHR ''-''"

definition createDnsDomainVerifier :: "'w dns_resolver \<Rightarrow> string option \<Rightarrow> 'w domain_verifier" where
  "createDnsDomainVerifier resolver edgeOption =
     (let edgeHostname = if_truthy (map_option (\<lambda>e. to_lower (trim e)) edgeOption) in
      \<lparr> vf_resolveDomainVerification = (\<lambda>ctx presented expectedToken.
          (let hostname = to_lower (trim presented) in
           if hostname = [] \<or> \<not> list_all host_char hostname
           then io_return (AErr Failed ''Hostname is not a valid DNS name.'')
           else resolve_hostname resolver edgeHostname hostname expectedToken)) \<rparr>)"

subsection \<open>What the verifier answers\<close>

lemma createDns_sel:
  "vf_resolveDomainVerification (createDnsDomainVerifier resolver edge) ctx presented token w =
     (let hostname = to_lower (trim presented) in
      if hostname = [] \<or> \<not> list_all host_char hostname
      then (Inr (AErr Failed ''Hostname is not a valid DNS name.''), w)
      else resolve_hostname resolver (if_truthy (map_option (\<lambda>e. to_lower (trim e)) edge)) hostname token w)"
  by (simp add: createDnsDomainVerifier_def Let_def io_simps)

text \<open>The alias check never looks at the token.\<close>

lemma resolve_cname_any_token:
  "ds_resolveTxt resolver (CHALLENGE_PREFIX @ ''.'' @ to_lower h) w = (Inl code, w') \<Longrightarrow> isMissingRecord code \<Longrightarrow>
   resolve_hostname resolver edge h token w = resolve_cname resolver edge (to_lower h) w'"
  by (simp add: resolve_hostname_def Let_def)

end
