(* ===== verification/Domains.thy ===== *)
theory Domains
  imports Domain_Verification Edge_Adapter
begin

section \<open>apps/api/procedures/domains.ts: adding, verifying and removing a hostname\<close>

text \<open>
  The verifier and the edge are the adapters of \<open>Domain_Verification\<close> and \<open>Edge_Adapter\<close>, or any other
  with their interfaces; the hosting engine's \<open>setDomains\<close> is optional, as on the port.
\<close>

subsection \<open>Rows and ports\<close>

record domain =
  do_id :: string
  do_organizationId :: string
  do_projectId :: "string option"
  do_hostname :: string
  do_verified :: bool
  do_provider :: "string option"
  do_providerResourceId :: "string option"
  do_verificationToken :: "string option"
  do_verifiedAt :: "millis option"

record domain_create_input =
  dn_id :: string
  dn_organizationId :: string
  dn_projectId :: "string option"
  dn_hostname :: string
  dn_verificationToken :: string

record domain_verification_input =
  dy_id :: string
  dy_organizationId :: string
  dy_verified :: bool
  dy_provider :: string
  dy_providerResourceId :: "string option"
  dy_verifiedAt :: "millis option"

record 'w domain_store = "'w org_store" +
  os_listDomains :: "string \<Rightarrow> string \<Rightarrow> ('w, failure, domain list) eio"
  os_createDomain :: "(domain_create_input \<Rightarrow> ('w, failure, domain) eio) option"
  os_getDomain :: "(string \<Rightarrow> string \<Rightarrow> ('w, failure, domain option) eio) option"
  os_deleteDomain :: "(string \<Rightarrow> string \<Rightarrow> string \<Rightarrow> ('w, failure, bool) eio) option"
  os_setDomainVerification :: "(domain_verification_input \<Rightarrow> ('w, failure, domain option) eio) option"
  os_getProjectDeploymentTargetForService ::
    "(string \<Rightarrow> string \<Rightarrow> ('w, failure, deployment_target option) eio) option"

type_synonym 'w set_domains = "adapter_context \<Rightarrow> provider_ref \<Rightarrow> string list \<Rightarrow> ('w, bool \<times> string option) engine_call"

record 'w domain_deps =
  od_store :: "'w domain_store"
  od_verifier :: "'w domain_verifier"
  od_edge :: "'w security_edge"
  od_setDomains :: "'w set_domains option"
  od_newId :: "('w, failure, string) eio"
  od_newToken :: "('w, failure, string) eio"
  od_now :: "'w \<Rightarrow> millis"

record 'w domain_writes =
  ow_createDomain :: "domain_create_input \<Rightarrow> ('w, failure, domain) eio"
  ow_getDomain :: "string \<Rightarrow> string \<Rightarrow> ('w, failure, domain option) eio"
  ow_deleteDomain :: "string \<Rightarrow> string \<Rightarrow> string \<Rightarrow> ('w, failure, bool) eio"
  ow_setDomainVerification :: "domain_verification_input \<Rightarrow> ('w, failure, domain option) eio"

definition missing_domain_writes :: "'w domain_store \<Rightarrow> string list" where
  "missing_domain_writes store = map snd (filter (\<lambda>(missing, _). missing)
     [(os_createDomain store = None, ''createDomain''), (os_getDomain store = None, ''getDomain''),
      (os_deleteDomain store = None, ''deleteDomain''),
      (os_setDomainVerification store = None, ''setDomainVerification'')])"

definition domain_writesFor :: "'w domain_store \<Rightarrow> failure + 'w domain_writes" where
  "domain_writesFor store =
     (if missing_domain_writes store \<noteq> []
      then Inl (unavailable_yet (''record '' @ join_with '', '' (missing_domain_writes store)))
      else Inr \<lparr> ow_createDomain = the (os_createDomain store), ow_getDomain = the (os_getDomain store),
                 ow_deleteDomain = the (os_deleteDomain store),
                 ow_setDomainVerification = the (os_setDomainVerification store) \<rparr>)"

subsection \<open>Hostnames\<close>

text \<open>The pattern: at least two labels, each starting and ending with a letter or a digit.\<close>

definition dns_label :: "string \<Rightarrow> bool" where
  "dns_label l \<longleftrightarrow> l \<noteq> [] \<and> slug_char (hd l) \<and> slug_char (List.last l) \<and>
     list_all (\<lambda>c. slug_char c \<or> c = CHR ''-'') l"

definition HOSTNAME_PATTERN :: "string \<Rightarrow> bool" where
  "HOSTNAME_PATTERN s \<longleftrightarrow> (let labels = split_on (CHR ''.'') s in 2 \<le> length labels \<and> list_all dns_label labels)"

definition normaliseHostname :: "string \<Rightarrow> failure + string" where
  "normaliseHostname presented =
     (let hostname = drop_dot (to_lower (trim presented)) in
      if \<not> HOSTNAME_PATTERN hostname then Inl (invalid_input ''Hostname is not a valid DNS name.'')
      else Inr hostname)"

definition EDGE_TIMEOUT_MS :: millis where
  "EDGE_TIMEOUT_MS = 20000"

definition DOMAIN_NOT_FOUND :: failure where
  "DOMAIN_NOT_FOUND = ApiError NotFound ''Domain not found.''"

subsection \<open>Adding\<close>

record domain_challenge =
  ch_domain :: domain
  ch_recordName :: string
  ch_recordValue :: string

definition same_organization ::
  "request_context \<Rightarrow> ('w, 'z) org_store_scheme \<Rightarrow> string \<Rightarrow> string option \<Rightarrow> ('w, failure, unit) eio" where
  "same_organization ctx store organizationId projectId =
     (if \<not> truthy projectId then io_return ()
      else io_bind (ps_getProject store (pr_userId (cx_principal ctx)) (the projectId)) (\<lambda>found.
        case found of
          None \<Rightarrow> io_throw PROJECT_NOT_FOUND
        | Some project \<Rightarrow>
            if pj_organizationId project \<noteq> organizationId then io_throw PROJECT_NOT_FOUND else io_return ()))"

definition addDomain ::
  "request_context \<Rightarrow> 'w domain_deps \<Rightarrow> string \<Rightarrow> string option \<Rightarrow> string \<Rightarrow>
   ('w, failure, domain_challenge) eio" where
  "addDomain ctx deps organizationId projectId presented =
     io_then (check_that (requireCapability ctx organizationId DomainCreate))
    (io_bind (check_that (normaliseHostname presented)) (\<lambda>hostname.
     io_then (same_organization ctx (od_store deps) organizationId projectId)
    (io_bind (check_that (domain_writesFor (od_store deps))) (\<lambda>writes.
     io_bind (os_listDomains (od_store deps) (pr_userId (cx_principal ctx)) organizationId) (\<lambda>domains.
       if list_ex (\<lambda>d. do_hostname d = hostname) domains
       then io_throw (ApiError Conflict ''That hostname is already registered.'')
       else
         io_bind (od_newToken deps) (\<lambda>token.
         io_bind (od_newId deps) (\<lambda>newId.
         io_bind (ow_createDomain writes
            \<lparr> dn_id = newId, dn_organizationId = organizationId, dn_projectId = projectId,
              dn_hostname = hostname, dn_verificationToken = token \<rparr>) (\<lambda>d.
         io_then (as_recordAuditEvent (od_store deps)
            (audit_by ctx organizationId ''domain.created'' ''domain'' (do_id d)
              [(''hostname'', JString hostname)]))
           (io_return \<lparr> ch_domain = d, ch_recordName = ''_cloud-wai-challenge.'' @ hostname,
                        ch_recordValue = token \<rparr>)))))))))"

subsection \<open>Verifying\<close>

definition engine_ctx_for :: "string \<Rightarrow> string \<Rightarrow> millis \<Rightarrow> adapter_context" where
  "engine_ctx_for organizationId key timeout =
     \<lparr> ac_organizationId = organizationId, ac_idempotencyKey = key, ac_timeoutMs = timeout \<rparr>"

definition edge_route_ref :: "string \<Rightarrow> string \<Rightarrow> provider_ref" where
  "edge_route_ref organizationId hostname =
     \<lparr> ref_organizationId = organizationId, ref_provider = ''envoy'', ref_resourceType = ''route'',
       ref_resourceId = hostname \<rparr>"

definition hosting_ref :: "string \<Rightarrow> deployment_target \<Rightarrow> provider_ref" where
  "hosting_ref organizationId t =
     \<lparr> ref_organizationId = organizationId, ref_provider = or_else (dt_provider t) ''selfhosted'',
       ref_resourceType = ''application'', ref_resourceId = the (dt_providerResourceId t) \<rparr>"

text \<open>Whether a route is published, and why not when it is not.\<close>

type_synonym route_fact = "bool \<times> string option"

record verify_result =
  vy_domain :: domain
  vy_detail :: string
  vy_edge :: "route_fact option"
  vy_hostingRoute :: "route_fact option"

definition the_domain ::
  "request_context \<Rightarrow> 'w domain_writes \<Rightarrow> string \<Rightarrow> string \<Rightarrow> ('w, failure, domain) eio" where
  "the_domain ctx writes organizationId domainId =
     io_bind (ow_getDomain writes (pr_userId (cx_principal ctx)) domainId) (\<lambda>found.
       case found of
         None \<Rightarrow> io_throw DOMAIN_NOT_FOUND
       | Some d \<Rightarrow> if do_organizationId d \<noteq> organizationId then io_throw DOMAIN_NOT_FOUND else io_return d)"

definition publish_edge :: "request_context \<Rightarrow> 'w domain_deps \<Rightarrow> domain \<Rightarrow> ('w, failure, route_fact) eio" where
  "publish_edge ctx deps d =
     io_bind (thrown (se_publishRoute (od_edge deps)
        (engine_ctx_for (do_organizationId d) (''publish-route-'' @ do_id d) EDGE_TIMEOUT_MS)
        (edge_route_ref (do_organizationId d) (do_hostname d)))) (\<lambda>published.
     io_then (as_recordAuditEvent (od_store deps)
        (audit_by ctx (do_organizationId d)
          (case published of AOk _ _ \<Rightarrow> ''domain.route_published'' | AErr _ _ \<Rightarrow> ''domain.route_publish_failed'')
          ''domain'' (do_id d)
          [(''hostname'', JString (do_hostname d)),
           (''status'', JString (case published of AOk _ _ \<Rightarrow> ''succeeded'' | AErr st _ \<Rightarrow> status_name st))]))
       (io_return (case published of AOk _ _ \<Rightarrow> (True, None) | AErr _ reason \<Rightarrow> (False, Some reason))))"

text \<open>The application a project's hostnames are routed to, when there is one.\<close>

definition routed_target ::
  "'w domain_deps \<Rightarrow> string \<Rightarrow> string \<Rightarrow> ('w, failure, deployment_target option) eio" where
  "routed_target deps organizationId projectId =
     (case os_getProjectDeploymentTargetForService (od_store deps) of
        None \<Rightarrow> io_return None
      | Some get \<Rightarrow>
          io_bind (get organizationId projectId) (\<lambda>target.
            io_return (case target of
              None \<Rightarrow> None
            | Some t \<Rightarrow> if truthy (dt_providerResourceId t) then Some t else None)))"

definition routed_fact :: "(bool \<times> string option) adapter_result \<Rightarrow> route_fact" where
  "routed_fact routed = (case routed of AOk _ known \<Rightarrow> known | AErr _ reason \<Rightarrow> (False, Some reason))"

definition publish_hosting :: "'w domain_deps \<Rightarrow> domain \<Rightarrow> ('w, failure, route_fact option) eio" where
  "publish_hosting deps d =
     (if \<not> truthy (do_projectId d) then io_return None
      else io_bind (routed_target deps (do_organizationId d) (the (do_projectId d))) (\<lambda>target.
        case (target, od_setDomains deps) of
          (Some t, Some setDomains) \<Rightarrow>
            io_bind (thrown (setDomains
               (engine_ctx_for (do_organizationId d) (''set-domains-'' @ do_id d) EDGE_TIMEOUT_MS)
               (hosting_ref (do_organizationId d) t) [do_hostname d])) (\<lambda>routed.
              io_return (Some (routed_fact routed)))
        | _ \<Rightarrow> io_return None))"

definition publish_routes ::
  "request_context \<Rightarrow> 'w domain_deps \<Rightarrow> domain \<Rightarrow> bool \<Rightarrow>
   ('w, failure, route_fact option \<times> route_fact option) eio" where
  "publish_routes ctx deps d verified =
     (if \<not> verified then io_return (None, None)
      else io_bind (publish_edge ctx deps d) (\<lambda>edge.
           io_bind (publish_hosting deps d) (\<lambda>hosting.
             io_return (Some edge, hosting))))"

definition verifyDomain ::
  "request_context \<Rightarrow> 'w domain_deps \<Rightarrow> string \<Rightarrow> string \<Rightarrow> ('w, failure, verify_result) eio" where
  "verifyDomain ctx deps organizationId domainId =
     io_then (check_that (requireCapability ctx organizationId DomainVerify))
    (io_bind (check_that (domain_writesFor (od_store deps))) (\<lambda>writes.
     io_bind (the_domain ctx writes organizationId domainId) (\<lambda>d.
       if \<not> truthy (do_verificationToken d)
       then io_throw (ApiError Conflict
              ''This domain has no verification challenge; remove and re-add it to get one.'')
       else
         io_bind (thrown (vf_resolveDomainVerification (od_verifier deps)
            (engine_ctx_for (do_organizationId d) (''verify-domain-'' @ do_id d) 15000)
            (do_hostname d) (the (do_verificationToken d)))) (\<lambda>result.
           case result of
             AErr st reason \<Rightarrow> io_throw (ApiError (if st = NotConfigured then EngineUnavailable else Conflict)
                (''The domain verifier could not confirm this hostname: '' @ reason))
           | AOk _ answer \<Rightarrow>
               io_bind (io_get (od_now deps)) (\<lambda>now.
               io_bind (ow_setDomainVerification writes
                  \<lparr> dy_id = do_id d, dy_organizationId = do_organizationId d, dy_verified = ve_verified answer,
                    dy_provider = ve_provider answer, dy_providerResourceId = ve_providerResourceId answer,
                    dy_verifiedAt = (if ve_verified answer then Some now else None) \<rparr>) (\<lambda>updated.
               io_bind (publish_routes ctx deps d (ve_verified answer)) (\<lambda>(edge, hosting).
               io_then (as_recordAuditEvent (od_store deps)
                  (audit_by ctx (do_organizationId d)
                    (if ve_verified answer then ''domain.verified'' else ''domain.verification_failed'')
                    ''domain'' (do_id d)
                    [(''hostname'', JString (do_hostname d)), (''verified'', JBool (ve_verified answer))]))
                 (io_return \<lparr> vy_domain = or_else updated (d\<lparr> do_verified := ve_verified answer \<rparr>),
                              vy_detail = ve_detail answer, vy_edge = edge, vy_hostingRoute = hosting \<rparr>))))))))"

subsection \<open>Removing\<close>

text \<open>The hostnames of the project that stay verified are set again, without the released one.\<close>

definition remaining_hostnames :: "domain \<Rightarrow> domain list \<Rightarrow> string list" where
  "remaining_hostnames d domains = map do_hostname
     (filter (\<lambda>other. do_projectId other = do_projectId d \<and> do_verified other \<and> do_id other \<noteq> do_id d) domains)"

definition withdraw_hosting ::
  "request_context \<Rightarrow> 'w domain_deps \<Rightarrow> string \<Rightarrow> string \<Rightarrow> domain \<Rightarrow> ('w, failure, route_fact option) eio" where
  "withdraw_hosting ctx deps organizationId domainId d =
     (case od_setDomains deps of
        None \<Rightarrow> io_return None
      | Some setDomains \<Rightarrow>
          if \<not> truthy (do_projectId d) then io_return None
          else io_bind (routed_target deps organizationId (the (do_projectId d))) (\<lambda>target.
            case target of
              None \<Rightarrow> io_return None
            | Some t \<Rightarrow>
                io_bind (os_listDomains (od_store deps) (pr_userId (cx_principal ctx)) organizationId) (\<lambda>domains.
                io_bind (thrown (setDomains
                   (engine_ctx_for organizationId (''withdraw-domains-'' @ domainId) EDGE_TIMEOUT_MS)
                   (hosting_ref organizationId t) (remaining_hostnames d domains))) (\<lambda>routed.
                  io_return (Some (routed_fact routed))))))"

definition removal_metadata :: "domain \<Rightarrow> unit adapter_result \<Rightarrow> route_fact option \<Rightarrow> (string \<times> json) list" where
  "removal_metadata d withdrawn hosting =
     [(''hostname'', JString (do_hostname d)),
      (''routeWithdrawn'', JBool (case withdrawn of AOk _ _ \<Rightarrow> True | AErr _ _ \<Rightarrow> False))] @
     (case withdrawn of AOk _ _ \<Rightarrow> [] | AErr _ reason \<Rightarrow> [(''routeWithdrawReason'', JString reason)]) @
     (case hosting of
        None \<Rightarrow> []
      | Some (done_it, reason) \<Rightarrow>
          (''hostingRouteWithdrawn'', JBool done_it) #
          (if done_it then [] else [(''hostingRouteWithdrawReason'', nullable reason)]))"

definition removeDomain ::
  "request_context \<Rightarrow> 'w domain_deps \<Rightarrow> string \<Rightarrow> string \<Rightarrow> ('w, failure, unit) eio" where
  "removeDomain ctx deps organizationId domainId =
     io_then (check_that (requireCapability ctx organizationId DomainDelete))
    (io_bind (check_that (domain_writesFor (od_store deps))) (\<lambda>writes.
     io_bind (the_domain ctx writes organizationId domainId) (\<lambda>d.
     io_bind (ow_deleteDomain writes (pr_userId (cx_principal ctx)) organizationId domainId) (\<lambda>removed.
       if \<not> removed then io_throw DOMAIN_NOT_FOUND
       else
         io_bind (thrown (se_removeRoute (od_edge deps)
            (engine_ctx_for organizationId (''remove-route-'' @ domainId) EDGE_TIMEOUT_MS)
            (edge_route_ref organizationId (do_hostname d)))) (\<lambda>withdrawn.
         io_bind (withdraw_hosting ctx deps organizationId domainId d) (\<lambda>hosting.
           as_recordAuditEvent (od_store deps)
             (audit_by ctx organizationId ''domain.removed'' ''domain'' domainId
               (removal_metadata d withdrawn hosting))))))))"

subsection \<open>settings.ts: listing\<close>

definition listDomains ::
  "request_context \<Rightarrow> 'w domain_deps \<Rightarrow> string \<Rightarrow> string option \<Rightarrow> ('w, failure, domain list) eio" where
  "listDomains ctx deps organizationId projectId =
     io_then (check_that (requireCapability ctx organizationId DomainRead))
    (io_bind (os_listDomains (od_store deps) (pr_userId (cx_principal ctx)) organizationId) (\<lambda>domains.
       io_return (if \<not> truthy projectId then domains
                  else filter (\<lambda>d. do_projectId d = None \<or> do_projectId d = projectId) domains)))"

end
