(* ===== verification/Account_Store.thy ===== *)
theory Account_Store
  imports Api_Store Env_Vars Key_Procedures Domains Data_Procedures
begin

section \<open>packages/database/supabase-store.ts: accounts, keys, variables, domains and data\<close>

text \<open>
  The tables behind the account procedures, next to those of \<open>Api_Store\<close>: the memberships, the audit
  trail and the projects are shared with it.  Rows are kept in the order they were created.
\<close>

subsection \<open>Tables\<close>

record profile =
  pf_id :: string
  pf_email :: "string option"
  pf_displayName :: "string option"

record env_var_row = env_var_save +
  vo_engineRef :: "string option"
  vo_provider :: "string option"
  vo_providerResourceId :: "string option"

record account_tables =
  ac_organizations :: "organization list"
  ac_profiles :: "profile list"
  ac_keys :: "api_key_record list"
  ac_vars :: "env_var_row list"
  ac_domains :: "domain list"
  ac_resources :: "resource_row list"
  ac_backups :: "data_backup list"
  ac_restores :: "data_restore list"

type_synonym ('q, 'y) account_world = "('q, account_tables \<times> 'y) api_world"

text \<open>An operation on the tables at hand and on those it shares; \<open>'t\<close> are the tables of a store.\<close>

definition account_op ::
  "string \<Rightarrow> (control_plane \<Rightarrow> api_tables \<Rightarrow> 't \<Rightarrow> (failure + 'a) \<times> control_plane \<times> api_tables \<times> 't) \<Rightarrow>
   (('q, 't \<times> 'y) api_world, failure, 'a) eio" where
  "account_op operation f = (\<lambda>(q, s, t, a, y).
     if cp_up s then (case f s t a of (r, s', t', a') \<Rightarrow> (r, (q, s', t', a', y)))
     else (Inl (OtherError (unavailable operation ''unreachable'')), (q, s, t, a, y)))"

definition account_read ::
  "string \<Rightarrow> (control_plane \<Rightarrow> api_tables \<Rightarrow> 't \<Rightarrow> 'a) \<Rightarrow> (('q, 't \<times> 'y) api_world, failure, 'a) eio" where
  "account_read operation f = account_op operation (\<lambda>s t a. (Inr (f s t a), s, t, a))"

definition taken_key :: "string \<Rightarrow> string \<Rightarrow> failure" where
  "taken_key operation table = OtherError (unavailable operation (''POST /'' @ table @ '' returned 409.''))"

subsection \<open>Organizations and members\<close>

definition listOrganizations_rows :: "string \<Rightarrow> (('q, 'y) account_world, failure, organization list) eio" where
  "listOrganizations_rows userId = account_read ''listOrganizations'' (\<lambda>s t a.
     rev (filter (\<lambda>o'. belongs t userId (og_id o')) (ac_organizations a)))"

definition member_of :: "account_tables \<Rightarrow> membership \<Rightarrow> organization_member" where
  "member_of a m =
     (let p = first_where (\<lambda>p. pf_id p = mb_userId m) (ac_profiles a)
      in \<lparr> om_organizationId = mb_organizationId m, om_userId = mb_userId m, om_role = mb_role m,
           om_email = Option.bind p pf_email, om_displayName = Option.bind p pf_displayName \<rparr>)"

definition is_membership :: "string \<Rightarrow> string \<Rightarrow> membership \<Rightarrow> bool" where
  "is_membership organizationId memberId m \<longleftrightarrow> mb_organizationId m = organizationId \<and> mb_userId m = memberId"

definition members_for :: "string \<Rightarrow> string \<Rightarrow> api_tables \<Rightarrow> account_tables \<Rightarrow> organization_member list" where
  "members_for userId organizationId t a = take 200 (map (member_of a)
     (filter (\<lambda>m. mb_organizationId m = organizationId \<and> belongs t userId organizationId) (at_memberships t)))"

definition listOrganizationMembers_rows ::
  "string \<Rightarrow> string \<Rightarrow> (('q, 'y) account_world, failure, organization_member list) eio" where
  "listOrganizationMembers_rows userId organizationId =
     account_read ''listOrganizationMembers'' (\<lambda>s t a. members_for userId organizationId t a)"

definition with_role :: "string \<Rightarrow> string \<Rightarrow> org_role \<Rightarrow> api_tables \<Rightarrow> api_tables" where
  "with_role organizationId memberId newRole t =
     t\<lparr> at_memberships := patch_where (is_membership organizationId memberId)
          (\<lambda>m. m\<lparr> mb_role := newRole \<rparr>) (at_memberships t) \<rparr>"

definition updateMemberRole_row ::
  "string \<Rightarrow> string \<Rightarrow> string \<Rightarrow> org_role \<Rightarrow>
   (('q, 'y) account_world, failure, organization_member option) eio" where
  "updateMemberRole_row userId organizationId memberId newRole =
     account_op ''updateOrganizationMemberRole'' (\<lambda>s t a.
       if belongs t userId organizationId
       then (let t' = with_role organizationId memberId newRole t
             in (Inr (map_option (member_of a)
                   (first_where (is_membership organizationId memberId) (at_memberships t'))), s, t', a))
       else (Inr None, s, t, a))"

definition without_member :: "string \<Rightarrow> string \<Rightarrow> api_tables \<Rightarrow> api_tables" where
  "without_member organizationId memberId t =
     t\<lparr> at_memberships := filter (\<lambda>m. \<not> is_membership organizationId memberId m) (at_memberships t) \<rparr>"

definition removeMember_row ::
  "string \<Rightarrow> string \<Rightarrow> string \<Rightarrow> (('q, 'y) account_world, failure, bool) eio" where
  "removeMember_row userId organizationId memberId = account_op ''removeOrganizationMember'' (\<lambda>s t a.
     if belongs t userId organizationId
     then (Inr (list_ex (is_membership organizationId memberId) (at_memberships t)), s,
           without_member organizationId memberId t, a)
     else (Inr False, s, t, a))"

text \<open>Two requests: the organization, then its first membership.\<close>

definition insert_organization :: "string \<Rightarrow> string \<Rightarrow> (('q, 'y) account_world, failure, organization) eio" where
  "insert_organization name newSlug = account_op ''createOrganization'' (\<lambda>s t a.
     if list_ex (\<lambda>o'. og_slug o' = newSlug) (ac_organizations a)
     then (Inl (taken_key ''createOrganization'' ''organizations''), s, t, a)
     else (let org = \<lparr> og_id = generated_id (at_nextId t), og_name = name, og_slug = newSlug \<rparr>
           in (Inr org, s, t\<lparr> at_nextId := at_nextId t + 1 \<rparr>,
               a\<lparr> ac_organizations := ac_organizations a @ [org] \<rparr>)))"

definition insert_owner :: "string \<Rightarrow> string \<Rightarrow> (('q, 'y) account_world, failure, unit) eio" where
  "insert_owner organizationId userId = account_op ''createOrganizationMembership'' (\<lambda>s t a.
     if list_ex (is_membership organizationId userId) (at_memberships t)
     then (Inl (taken_key ''createOrganizationMembership'' ''organization_members''), s, t, a)
     else (Inr (), s, t\<lparr> at_memberships := at_memberships t @
             [\<lparr> mb_organizationId = organizationId, mb_userId = userId, mb_role = Owner \<rparr>] \<rparr>, a))"

definition createOrganization_row ::
  "string \<Rightarrow> string \<Rightarrow> string \<Rightarrow> (('q, 'y) account_world, failure, organization) eio" where
  "createOrganization_row name newSlug createdBy =
     io_bind (insert_organization name newSlug) (\<lambda>org.
     io_then (insert_owner (og_id org) createdBy) (io_return org))"

subsection \<open>Projects\<close>

definition listProjects_rows ::
  "string \<Rightarrow> string \<Rightarrow> (('q, 'y) account_world, failure, project_row list) eio" where
  "listProjects_rows userId organizationId = account_read ''listProjects'' (\<lambda>s t a.
     rev (filter (\<lambda>p. pj_organizationId p = organizationId \<and> belongs t userId organizationId) (cp_projects s)))"

definition slug_taken :: "string \<Rightarrow> string \<Rightarrow> string \<Rightarrow> control_plane \<Rightarrow> bool" where
  "slug_taken organizationId projectId newSlug s \<longleftrightarrow>
     list_ex (\<lambda>p. pj_organizationId p = organizationId \<and> pj_slug p = newSlug \<and> pj_id p \<noteq> projectId) (cp_projects s)"

definition created_project :: "project_create_input \<Rightarrow> string \<Rightarrow> project_row" where
  "created_project i newId =
     \<lparr> pj_id = newId, pj_organizationId = pn_organizationId i, pj_name = pn_name i, pj_slug = pn_slug i,
       pj_provider = None, pj_providerResourceId = None,
       pj_executionModel = Some (case pn_executionModel i of None \<Rightarrow> ''container'' | Some m \<Rightarrow> model_name m),
       pj_rootDirectory = pn_rootDirectory i, pj_productionDeploymentId = None \<rparr>"

text \<open>The trigger of migration 0024 adds the two platform environments of a new project.\<close>

definition platform_environments :: "string \<Rightarrow> string \<Rightarrow> nat \<Rightarrow> environment_row list" where
  "platform_environments organizationId projectId n =
     [\<lparr> en_id = generated_id n, en_organizationId = organizationId, en_projectId = projectId,
        en_name = ''production'', en_kind = EnvProduction, en_isDefault = True \<rparr>,
      \<lparr> en_id = generated_id (n + 1), en_organizationId = organizationId, en_projectId = projectId,
        en_name = ''preview'', en_kind = EnvPreview, en_isDefault = False \<rparr>]"

definition createProject_row ::
  "project_create_input \<Rightarrow> (('q, 'y) account_world, failure, project_row) eio" where
  "createProject_row i = account_op ''createProject'' (\<lambda>s t a.
     let n = at_nextId t; newId = generated_id n; p = created_project i newId in
     if slug_taken (pn_organizationId i) newId (pn_slug i) s
     then (Inl (taken_key ''createProject'' ''projects''), s, t, a)
     else (Inr p, s\<lparr> cp_projects := cp_projects s @ [p],
                     cp_environments := cp_environments s @ platform_environments (pn_organizationId i) newId (n + 1) \<rparr>,
           t\<lparr> at_nextId := n + 3 \<rparr>, a))"

definition changed_project :: "project_update_input \<Rightarrow> project_row \<Rightarrow> project_row" where
  "changed_project u p =
     p\<lparr> pj_name := or_else (pu_name u) (pj_name p), pj_slug := or_else (pu_slug u) (pj_slug p),
        pj_executionModel := (case pu_executionModel u of None \<Rightarrow> pj_executionModel p
                                                        | Some m \<Rightarrow> Some (model_name m)),
        pj_rootDirectory := (case pu_rootDirectory u of None \<Rightarrow> pj_rootDirectory p | Some d \<Rightarrow> d) \<rparr>"

definition updateProject_row ::
  "project_update_input \<Rightarrow> (('q, 'y) account_world, failure, project_row option) eio" where
  "updateProject_row u =
     (if pu_name u = None \<and> pu_slug u = None \<and> pu_executionModel u = None \<and> pu_rootDirectory u = None
      then io_return None
      else account_op ''updateProject'' (\<lambda>s t a.
        let hit = is_project (pu_organizationId u) (pu_projectId u) in
        if list_ex hit (cp_projects s) \<and> pu_slug u \<noteq> None \<and>
           slug_taken (pu_organizationId u) (pu_projectId u) (the (pu_slug u)) s
        then (Inl (OtherError (unavailable ''updateProject'' ''PATCH /projects returned 409.'')), s, t, a)
        else (let s' = s\<lparr> cp_projects := patch_where hit (changed_project u) (cp_projects s) \<rparr>
              in (Inr (first_where hit (cp_projects s')), s', t, a))))"

subsection \<open>API keys\<close>

definition key_summary :: "api_key_record \<Rightarrow> api_key_summary" where
  "key_summary r =
     \<lparr> ks_id = ka_id r, ks_organizationId = ka_organizationId r, ks_name = kr_name r,
       ks_keyPrefix = kr_keyPrefix r, ks_scopes = ka_scopes r, ks_createdAt = ka_createdAt r,
       ks_lastUsedAt = kr_lastUsedAt r, ks_revokedAt = ka_revokedAt r \<rparr>"

definition listApiKeys_rows ::
  "string \<Rightarrow> string \<Rightarrow> (('q, 'y) account_world, failure, api_key_summary list) eio" where
  "listApiKeys_rows userId organizationId = account_read ''listApiKeys'' (\<lambda>s t a.
     rev (map key_summary
       (filter (\<lambda>r. ka_organizationId r = organizationId \<and> belongs t userId organizationId) (ac_keys a))))"

definition key_row :: "api_key_create_input \<Rightarrow> millis \<Rightarrow> api_key_record" where
  "key_row i now =
     \<lparr> ka_id = kc_id i, ka_organizationId = kc_organizationId i, ka_ownerId = kc_ownerId i,
       ka_scopes = kc_scopes i, ka_createdAt = At now, ka_revokedAt = None, kr_name = kc_name i,
       kr_keyHash = kc_keyHash i, kr_keyPrefix = kc_keyPrefix i, kr_lastUsedAt = None \<rparr>"

definition createApiKey_row ::
  "api_key_create_input \<Rightarrow> (('q, 'y) account_world, failure, api_key_summary) eio" where
  "createApiKey_row i = account_op ''createApiKey'' (\<lambda>s t a.
     if list_ex (\<lambda>r. kr_keyHash r = kc_keyHash i \<or> ka_id r = kc_id i) (ac_keys a)
     then (Inl (taken_key ''createApiKey'' ''api_keys''), s, t, a)
     else (let r = key_row i (cp_now s)
           in (Inr (key_summary r), s, t, a\<lparr> ac_keys := ac_keys a @ [r] \<rparr>)))"

definition revokeApiKey_row ::
  "string \<Rightarrow> string \<Rightarrow> string \<Rightarrow> (('q, 'y) account_world, failure, bool) eio" where
  "revokeApiKey_row userId organizationId keyId = account_op ''revokeApiKey'' (\<lambda>s t a.
     (let hit = (\<lambda>r. ka_id r = keyId \<and> ka_organizationId r = organizationId \<and> belongs t userId organizationId)
      in (Inr (list_ex hit (ac_keys a)), s, t,
          a\<lparr> ac_keys := patch_where hit (\<lambda>r. r\<lparr> ka_revokedAt := Some (At (cp_now s)) \<rparr>) (ac_keys a) \<rparr>)))"

definition findApiKeyByHash_row ::
  "string \<Rightarrow> (('q, 'y) account_world, failure, api_key_authority option) eio" where
  "findApiKeyByHash_row hash = account_read ''findApiKeyByHash'' (\<lambda>s t a.
     map_option api_key_authority.truncate (first_where (\<lambda>r. kr_keyHash r = hash) (ac_keys a)))"

definition markApiKeyUsed_row :: "string \<Rightarrow> string \<Rightarrow> (('q, 'y) account_world, failure, unit) eio" where
  "markApiKeyUsed_row organizationId keyId = account_op ''markApiKeyUsed'' (\<lambda>s t a.
     (Inr (), s, t, a\<lparr> ac_keys := patch_where (\<lambda>r. ka_id r = keyId \<and> ka_organizationId r = organizationId)
        (\<lambda>r. r\<lparr> kr_lastUsedAt := Some (At (cp_now s)) \<rparr>) (ac_keys a) \<rparr>))"

definition getProfileForService_row :: "string \<Rightarrow> (('q, 'y) account_world, failure, string option) eio" where
  "getProfileForService_row userId = account_read ''getProfileForService'' (\<lambda>s t a.
     Option.bind (first_where (\<lambda>p. pf_id p = userId) (ac_profiles a)) pf_email)"

definition apiKeyResolver :: "('q, 'y) account_world api_key_resolver" where
  "apiKeyResolver =
     \<lparr> rs_findApiKeyByHash = findApiKeyByHash_row, rs_markApiKeyUsed = markApiKeyUsed_row,
       rs_getProfileForService = getProfileForService_row \<rparr>"

subsection \<open>Environment variables\<close>

definition is_var :: "string \<Rightarrow> string \<Rightarrow> string \<Rightarrow> ('z env_var_scheme) \<Rightarrow> bool" where
  "is_var projectId environmentId key v \<longleftrightarrow>
     va_projectId v = projectId \<and> va_environmentId v = environmentId \<and> va_key v = key"

definition listEnvVars_rows ::
  "string \<Rightarrow> string \<Rightarrow> (('q, 'y) account_world, failure, env_var list) eio" where
  "listEnvVars_rows userId projectId = account_read ''listEnvVars'' (\<lambda>s t a.
     sort_by_text va_key (map env_var.truncate
       (filter (\<lambda>v. va_projectId v = projectId \<and> belongs t userId (va_organizationId v)) (ac_vars a))))"

text \<open>The merge of the upsert writes the columns it is given, the id among them, and keeps the rest.\<close>

definition merged_var :: "env_var_save \<Rightarrow> env_var_row \<Rightarrow> env_var_row" where
  "merged_var i v = env_var_save.extend i
     \<lparr> vo_engineRef = vo_engineRef v, vo_provider = vo_provider v,
       vo_providerResourceId = vo_providerResourceId v \<rparr>"

definition new_var :: "env_var_save \<Rightarrow> env_var_row" where
  "new_var i = env_var_save.extend i
     \<lparr> vo_engineRef = None, vo_provider = None, vo_providerResourceId = None \<rparr>"

definition saved_vars :: "env_var_save \<Rightarrow> env_var_row list \<Rightarrow> env_var_row list" where
  "saved_vars i vars =
     (let hit = is_var (va_projectId i) (va_environmentId i) (va_key i)
      in if list_ex hit vars then patch_where hit (merged_var i) vars else vars @ [new_var i])"

definition saveEnvVar_row :: "env_var_save \<Rightarrow> (('q, 'y) account_world, failure, env_var) eio" where
  "saveEnvVar_row i = account_op ''saveEnvVar'' (\<lambda>s t a.
     (Inr (env_var.truncate i), s, t, a\<lparr> ac_vars := saved_vars i (ac_vars a) \<rparr>))"

definition ref_var :: "engine_ref_input \<Rightarrow> env_var_row \<Rightarrow> bool" where
  "ref_var i v \<longleftrightarrow> va_organizationId v = ei_ref_organizationId i \<and>
     is_var (ei_ref_projectId i) (ei_ref_environmentId i) (ei_ref_key i) v"

definition setEnvVarEngineRef_row ::
  "engine_ref_input \<Rightarrow> (('q, 'y) account_world, failure, env_var option) eio" where
  "setEnvVarEngineRef_row i = account_op ''setEnvVarEngineRef'' (\<lambda>s t a.
     (Inr (map_option env_var.truncate (first_where (ref_var i) (ac_vars a))), s, t,
      a\<lparr> ac_vars := patch_where (ref_var i)
           (\<lambda>v. v\<lparr> vo_engineRef := Some (ei_ref_engineRef i), vo_provider := Some (ei_ref_provider i),
                   vo_providerResourceId := Some (ei_ref_providerResourceId i) \<rparr>) (ac_vars a) \<rparr>))"

definition tenant_var ::
  "api_tables \<Rightarrow> string \<Rightarrow> string \<Rightarrow> string \<Rightarrow> string \<Rightarrow> string \<Rightarrow> env_var_row \<Rightarrow> bool" where
  "tenant_var t userId organizationId projectId environmentId key v \<longleftrightarrow>
     va_organizationId v = organizationId \<and> is_var projectId environmentId key v \<and> belongs t userId organizationId"

definition getEnvVarEngineRef_row ::
  "string \<Rightarrow> string \<Rightarrow> string \<Rightarrow> string \<Rightarrow> string \<Rightarrow> (('q, 'y) account_world, failure, string option) eio" where
  "getEnvVarEngineRef_row userId organizationId projectId environmentId key =
     account_read ''getEnvVarEngineRef'' (\<lambda>s t a. Option.bind
       (first_where (tenant_var t userId organizationId projectId environmentId key) (ac_vars a)) vo_engineRef)"

definition deleteEnvVar_row ::
  "string \<Rightarrow> string \<Rightarrow> string \<Rightarrow> string \<Rightarrow> string \<Rightarrow> (('q, 'y) account_world, failure, bool) eio" where
  "deleteEnvVar_row userId organizationId projectId environmentId key =
     account_op ''deleteEnvVar'' (\<lambda>s t a.
       (let hit = tenant_var t userId organizationId projectId environmentId key
        in (Inr (list_ex hit (ac_vars a)), s, t, a\<lparr> ac_vars := filter (\<lambda>v. \<not> hit v) (ac_vars a) \<rparr>)))"

subsection \<open>Domains\<close>

definition listDomains_rows :: "string \<Rightarrow> string \<Rightarrow> (('q, 'y) account_world, failure, domain list) eio" where
  "listDomains_rows userId organizationId = account_read ''listDomains'' (\<lambda>s t a.
     rev (filter (\<lambda>d. do_organizationId d = organizationId \<and> belongs t userId organizationId) (ac_domains a)))"

definition getDomain_row :: "string \<Rightarrow> string \<Rightarrow> (('q, 'y) account_world, failure, domain option) eio" where
  "getDomain_row userId domainId = account_read ''getDomain'' (\<lambda>s t a.
     first_where (\<lambda>d. do_id d = domainId \<and> belongs t userId (do_organizationId d)) (ac_domains a))"

definition created_domain :: "domain_create_input \<Rightarrow> domain" where
  "created_domain i =
     \<lparr> do_id = dn_id i, do_organizationId = dn_organizationId i, do_projectId = dn_projectId i,
       do_hostname = dn_hostname i, do_verified = False, do_provider = None, do_providerResourceId = None,
       do_verificationToken = Some (dn_verificationToken i), do_verifiedAt = None \<rparr>"

text \<open>A hostname is unique within an organization only.\<close>

definition createDomain_row :: "domain_create_input \<Rightarrow> (('q, 'y) account_world, failure, domain) eio" where
  "createDomain_row i = account_op ''createDomain'' (\<lambda>s t a.
     if list_ex (\<lambda>d. do_id d = dn_id i \<or>
          do_organizationId d = dn_organizationId i \<and> do_hostname d = dn_hostname i) (ac_domains a)
     then (Inl (taken_key ''createDomain'' ''domains''), s, t, a)
     else (Inr (created_domain i), s, t, a\<lparr> ac_domains := ac_domains a @ [created_domain i] \<rparr>))"

definition deleteDomain_row ::
  "string \<Rightarrow> string \<Rightarrow> string \<Rightarrow> (('q, 'y) account_world, failure, bool) eio" where
  "deleteDomain_row userId organizationId domainId = account_op ''deleteDomain'' (\<lambda>s t a.
     (let hit = (\<lambda>d. do_id d = domainId \<and> do_organizationId d = organizationId \<and> belongs t userId organizationId)
      in (Inr (list_ex hit (ac_domains a)), s, t,
          a\<lparr> ac_domains := filter (\<lambda>d. \<not> hit d) (ac_domains a) \<rparr>)))"

definition judged :: "domain_verification_input \<Rightarrow> domain \<Rightarrow> domain" where
  "judged i d =
     d\<lparr> do_verified := dy_verified i, do_provider := Some (dy_provider i),
        do_providerResourceId := dy_providerResourceId i, do_verifiedAt := dy_verifiedAt i \<rparr>"

definition judged_row :: "domain_verification_input \<Rightarrow> domain \<Rightarrow> bool" where
  "judged_row i d \<longleftrightarrow> do_id d = dy_id i \<and> do_organizationId d = dy_organizationId i"

definition setDomainVerification_row ::
  "domain_verification_input \<Rightarrow> (('q, 'y) account_world, failure, domain option) eio" where
  "setDomainVerification_row i = account_op ''setDomainVerification'' (\<lambda>s t a.
     (let domains = patch_where (judged_row i) (judged i) (ac_domains a)
      in (Inr (first_where (judged_row i) domains), s, t, a\<lparr> ac_domains := domains \<rparr>)))"

definition deploymentTarget_service ::
  "string \<Rightarrow> string \<Rightarrow> (('q, 'y) account_world, failure, deployment_target option) eio" where
  "deploymentTarget_service organizationId projectId =
     account_read ''getProjectDeploymentTargetForService'' (\<lambda>s t a.
       map_option target_columns (first_where (is_project organizationId projectId) (cp_projects s)))"

subsection \<open>Data resources\<close>

definition createDataResource_row ::
  "resource_row \<Rightarrow> (('q, 'y) account_world, failure, resource_row) eio" where
  "createDataResource_row i = account_op ''createDataResource'' (\<lambda>s t a.
     if list_ex (\<lambda>r. dv_id r = dv_id i \<or> dv_organizationId r = dv_organizationId i \<and> dv_kind r = dv_kind i \<and>
                     dx_name r = dx_name i) (ac_resources a)
     then (Inl (taken_key ''createDataResource'' ''data_resources''), s, t, a)
     else (Inr i, s, t, a\<lparr> ac_resources := ac_resources a @ [i] \<rparr>))"

definition getDataResource_row ::
  "string \<Rightarrow> string \<Rightarrow> (('q, 'y) account_world, failure, resource_row option) eio" where
  "getDataResource_row userId resourceId = account_read ''getDataResource'' (\<lambda>s t a.
     first_where (\<lambda>r. dv_id r = resourceId \<and> belongs t userId (dv_organizationId r)) (ac_resources a))"

definition settled_resource :: "resource_state_input \<Rightarrow> resource_row \<Rightarrow> resource_row" where
  "settled_resource i r =
     r\<lparr> dx_state := si_state i, dv_provider := si_provider i, dv_providerResourceId := si_providerResourceId i \<rparr>"

definition setDataResourceState_row ::
  "resource_state_input \<Rightarrow> (('q, 'y) account_world, failure, resource_row option) eio" where
  "setDataResourceState_row i = account_op ''setDataResourceState'' (\<lambda>s t a.
     (let hit = (\<lambda>r. dv_id r = si_id i \<and> dv_organizationId r = si_organizationId i);
          found = patch_where hit (settled_resource i) (ac_resources a)
      in (Inr (first_where hit found), s, t, a\<lparr> ac_resources := found \<rparr>)))"

definition createDataBackup_row :: "data_backup \<Rightarrow> (('q, 'y) account_world, failure, data_backup) eio" where
  "createDataBackup_row i = account_op ''createDataBackup'' (\<lambda>s t a.
     if list_ex (\<lambda>b. bk_id b = bk_id i) (ac_backups a)
     then (Inl (taken_key ''createDataBackup'' ''data_backups''), s, t, a)
     else (Inr i, s, t, a\<lparr> ac_backups := ac_backups a @ [i] \<rparr>))"

definition updateDataBackupStatus_row ::
  "status_write \<Rightarrow> (('q, 'y) account_world, failure, data_backup option) eio" where
  "updateDataBackupStatus_row i = account_op ''updateDataBackupStatus'' (\<lambda>s t a.
     (let hit = (\<lambda>b. bk_id b = st_id i \<and> bk_organizationId b = st_organizationId i);
          found = patch_where hit (\<lambda>b. b\<lparr> bk_status := st_status i,
                    bk_providerResourceId := st_providerResourceId i \<rparr>) (ac_backups a)
      in (Inr (first_where hit found), s, t, a\<lparr> ac_backups := found \<rparr>)))"

definition listDataBackups_rows ::
  "string \<Rightarrow> string \<Rightarrow> (('q, 'y) account_world, failure, data_backup list) eio" where
  "listDataBackups_rows userId resourceId = account_read ''listDataBackups'' (\<lambda>s t a.
     take 50 (rev (filter (\<lambda>b. bk_dataResourceId b = resourceId \<and> belongs t userId (bk_organizationId b))
       (ac_backups a))))"

definition getDataBackupForService_row ::
  "string \<Rightarrow> string \<Rightarrow> (('q, 'y) account_world, failure, data_backup option) eio" where
  "getDataBackupForService_row organizationId backupId = account_read ''getDataBackupForService'' (\<lambda>s t a.
     first_where (\<lambda>b. bk_id b = backupId \<and> bk_organizationId b = organizationId) (ac_backups a))"

definition createDataRestore_row :: "data_restore \<Rightarrow> (('q, 'y) account_world, failure, data_restore) eio" where
  "createDataRestore_row i = account_op ''createDataRestore'' (\<lambda>s t a.
     if list_ex (\<lambda>r. rx_id r = rx_id i) (ac_restores a)
     then (Inl (taken_key ''createDataRestore'' ''data_restores''), s, t, a)
     else (Inr i, s, t, a\<lparr> ac_restores := ac_restores a @ [i] \<rparr>))"

definition updateDataRestoreStatus_row ::
  "status_write \<Rightarrow> (('q, 'y) account_world, failure, data_restore option) eio" where
  "updateDataRestoreStatus_row i = account_op ''updateDataRestoreStatus'' (\<lambda>s t a.
     (let hit = (\<lambda>r. rx_id r = st_id i \<and> rx_organizationId r = st_organizationId i);
          found = patch_where hit (\<lambda>r. r\<lparr> rx_status := st_status i,
                    rx_providerResourceId := st_providerResourceId i \<rparr>) (ac_restores a)
      in (Inr (first_where hit found), s, t, a\<lparr> ac_restores := found \<rparr>)))"

definition listDataRestores_rows ::
  "string \<Rightarrow> string \<Rightarrow> (('q, 'y) account_world, failure, data_restore list) eio" where
  "listDataRestores_rows userId resourceId = account_read ''listDataRestores'' (\<lambda>s t a.
     take 50 (rev (filter (\<lambda>r. rx_dataResourceId r = resourceId \<and> belongs t userId (rx_organizationId r))
       (ac_restores a))))"

subsection \<open>The stores\<close>

definition orgStore :: "(string \<Rightarrow> millis option) \<Rightarrow> ('q, 'y) account_world org_store" where
  "orgStore date_of = git_store.extend (apiStore date_of)
     \<lparr> or_listOrganizations = listOrganizations_rows,
       or_listOrganizationMembers = listOrganizationMembers_rows,
       or_createOrganization = createOrganization_row, or_listProjects = listProjects_rows,
       or_createProject = createProject_row, or_updateOrganizationMemberRole = updateMemberRole_row,
       or_removeOrganizationMember = removeMember_row, or_updateProject = Some updateProject_row \<rparr>"

definition envVarStore :: "(string \<Rightarrow> millis option) \<Rightarrow> ('q, 'y) account_world env_var_store" where
  "envVarStore date_of = org_store.extend (orgStore date_of)
     \<lparr> vr_listEnvVars = listEnvVars_rows, vr_saveEnvVar = Some saveEnvVar_row,
       vr_setEnvVarEngineRef = Some setEnvVarEngineRef_row, vr_getEnvVarEngineRef = Some getEnvVarEngineRef_row,
       vr_deleteEnvVar = Some deleteEnvVar_row \<rparr>"

definition keyStore :: "(string \<Rightarrow> millis option) \<Rightarrow> ('q, 'y) account_world key_store" where
  "keyStore date_of = org_store.extend (orgStore date_of)
     \<lparr> ky_listApiKeys = listApiKeys_rows, ky_createApiKey = createApiKey_row,
       ky_revokeApiKey = revokeApiKey_row \<rparr>"

definition domainStore :: "(string \<Rightarrow> millis option) \<Rightarrow> ('q, 'y) account_world domain_store" where
  "domainStore date_of = org_store.extend (orgStore date_of)
     \<lparr> os_listDomains = listDomains_rows, os_createDomain = Some createDomain_row,
       os_getDomain = Some getDomain_row, os_deleteDomain = Some deleteDomain_row,
       os_setDomainVerification = Some setDomainVerification_row,
       os_getProjectDeploymentTargetForService = Some deploymentTarget_service \<rparr>"

definition dataStore :: "(string \<Rightarrow> millis option) \<Rightarrow> ('q, 'y) account_world data_store" where
  "dataStore date_of = git_store.extend (apiStore date_of)
     \<lparr> ts_createDataResource = Some createDataResource_row, ts_getDataResource = Some getDataResource_row,
       ts_setDataResourceState = Some setDataResourceState_row, ts_createDataBackup = Some createDataBackup_row,
       ts_updateDataBackupStatus = Some updateDataBackupStatus_row,
       ts_listDataBackups = Some listDataBackups_rows,
       ts_getDataBackupForService = Some getDataBackupForService_row,
       ts_createDataRestore = Some createDataRestore_row,
       ts_updateDataRestoreStatus = Some updateDataRestoreStatus_row,
       ts_listDataRestores = Some listDataRestores_rows \<rparr>"

end
