(* ===== verification/Account_Wiring.thy ===== *)
theory Account_Wiring
  imports Account_Store Api_Wiring
begin

section \<open>The account procedures over the wired store\<close>

text \<open>
  The steps of the account store as rules: what a successful operation read and wrote, in the collection
  \<open>io_ok\<close>, and what any operation does, in \<open>api_simps\<close>.
\<close>

lemma account_op_ok [io_ok]:
  "account_op operation f (q, s, t, a, y) = (Inr v, w') \<longleftrightarrow>
   cp_up s \<and> (\<exists>s' t' a'. f s t a = (Inr v, s', t', a') \<and> w' = (q, s', t', a', y))"
  by (auto simp: account_op_def split: prod.splits)

lemma account_read_ok [io_ok]:
  "account_read operation f (q, s, t, a, y) = (Inr v, w') \<longleftrightarrow> cp_up s \<and> v = f s t a \<and> w' = (q, s, t, a, y)"
  by (auto simp: account_read_def account_op_ok)

lemma account_op_up [api_simps]:
  "cp_up s \<Longrightarrow> account_op operation f (q, s, t, a, y) = (case f s t a of (r, s', t', a') \<Rightarrow> (r, (q, s', t', a', y)))"
  by (simp add: account_op_def)

lemma account_read_up [api_simps]:
  "cp_up s \<Longrightarrow> account_read operation f (q, s, t, a, y) = (Inr (f s t a), (q, s, t, a, y))"
  by (simp add: account_read_def account_op_def)

lemma account_op_down: "\<not> cp_up s \<Longrightarrow> \<exists>e. account_op operation f (q, s, t, a, y) = (Inl e, (q, s, t, a, y))"
  by (simp add: account_op_def)

lemma account_read_state: "snd (account_read operation f w) = w"
  by (cases w) (simp add: account_read_def account_op_def)

subsection \<open>The selectors of the stores\<close>

lemma org_store_sel [simp]:
  "as_recordAuditEvent (orgStore d) = recordAuditEvent" "ps_getProject (orgStore d) = getProject"
  "or_listOrganizations (orgStore d) = listOrganizations_rows"
  "or_listOrganizationMembers (orgStore d) = listOrganizationMembers_rows"
  "or_createOrganization (orgStore d) = createOrganization_row"
  "or_listProjects (orgStore d) = listProjects_rows" "or_createProject (orgStore d) = createProject_row"
  "or_updateOrganizationMemberRole (orgStore d) = updateMemberRole_row"
  "or_removeOrganizationMember (orgStore d) = removeMember_row"
  "or_updateProject (orgStore d) = Some updateProject_row"
  "st_listEnvironments (orgStore d) = Some listEnvironments_rows"
  by (simp_all add: orgStore_def git_store.defs apiStore_def)

lemma env_var_store_sel [simp]:
  "as_recordAuditEvent (envVarStore d) = recordAuditEvent" "ps_getProject (envVarStore d) = getProject"
  "st_listEnvironments (envVarStore d) = Some listEnvironments_rows"
  "st_getProjectDeploymentTarget (envVarStore d) = Some getProjectDeploymentTarget"
  "vr_listEnvVars (envVarStore d) = listEnvVars_rows"
  "vr_saveEnvVar (envVarStore d) = Some saveEnvVar_row"
  "vr_setEnvVarEngineRef (envVarStore d) = Some setEnvVarEngineRef_row"
  "vr_getEnvVarEngineRef (envVarStore d) = Some getEnvVarEngineRef_row"
  "vr_deleteEnvVar (envVarStore d) = Some deleteEnvVar_row"
  by (simp_all add: envVarStore_def orgStore_def git_store.defs org_store.defs apiStore_def)

lemma key_store_sel [simp]:
  "as_recordAuditEvent (keyStore d) = recordAuditEvent"
  "ky_listApiKeys (keyStore d) = listApiKeys_rows" "ky_createApiKey (keyStore d) = createApiKey_row"
  "ky_revokeApiKey (keyStore d) = revokeApiKey_row"
  by (simp_all add: keyStore_def orgStore_def git_store.defs org_store.defs apiStore_def)

lemma domain_store_sel [simp]:
  "as_recordAuditEvent (domainStore d) = recordAuditEvent" "ps_getProject (domainStore d) = getProject"
  "os_listDomains (domainStore d) = listDomains_rows" "os_createDomain (domainStore d) = Some createDomain_row"
  "os_getDomain (domainStore d) = Some getDomain_row" "os_deleteDomain (domainStore d) = Some deleteDomain_row"
  "os_setDomainVerification (domainStore d) = Some setDomainVerification_row"
  "os_getProjectDeploymentTargetForService (domainStore d) = Some deploymentTarget_service"
  by (simp_all add: domainStore_def orgStore_def git_store.defs org_store.defs apiStore_def)

lemma data_store_sel [simp]:
  "as_recordAuditEvent (dataStore d) = recordAuditEvent" "ps_getProject (dataStore d) = getProject"
  "ts_createDataResource (dataStore d) = Some createDataResource_row"
  "ts_getDataResource (dataStore d) = Some getDataResource_row"
  "ts_setDataResourceState (dataStore d) = Some setDataResourceState_row"
  "ts_createDataBackup (dataStore d) = Some createDataBackup_row"
  "ts_updateDataBackupStatus (dataStore d) = Some updateDataBackupStatus_row"
  "ts_listDataBackups (dataStore d) = Some listDataBackups_rows"
  "ts_getDataBackupForService (dataStore d) = Some getDataBackupForService_row"
  "ts_createDataRestore (dataStore d) = Some createDataRestore_row"
  "ts_updateDataRestoreStatus (dataStore d) = Some updateDataRestoreStatus_row"
  "ts_listDataRestores (dataStore d) = Some listDataRestores_rows"
  "bs_listUsageForService (dataStore d) = Some listUsageForService"
  "bs_getBudgetForService (dataStore d) = Some getBudgetForService"
  by (simp_all add: dataStore_def git_store.defs apiStore_def)

lemma domain_writes_wired [simp]:
  "domain_writesFor (domainStore d) =
     Inr \<lparr> ow_createDomain = createDomain_row, ow_getDomain = getDomain_row,
           ow_deleteDomain = deleteDomain_row, ow_setDomainVerification = setDomainVerification_row \<rparr>"
  by (simp add: domain_writesFor_def missing_domain_writes_def)

lemma env_writes_wired [simp]:
  "env_writesFor (envVarStore d) =
     Inr \<lparr> vw_saveEnvVar = saveEnvVar_row, vw_setEnvVarEngineRef = setEnvVarEngineRef_row,
           vw_getEnvVarEngineRef = getEnvVarEngineRef_row, vw_deleteEnvVar = deleteEnvVar_row,
           vw_getProjectDeploymentTarget = getProjectDeploymentTarget \<rparr>"
  by (simp add: env_writesFor_def missing_env_writes_def)

lemma data_writes_wired [simp]: "data_writesFor (dataStore d) = Inr ()"
  by (simp add: data_writesFor_def missing_data_writes_def)

lemma restore_writes_wired [simp]: "restoreWritesFor (dataStore d) = Inr ()"
  by (simp add: restoreWritesFor_def missing_restore_writes_def)

text \<open>The project a procedure works on, whichever of the stores it is given.\<close>

lemma authorized_wired:
  assumes "ps_getProject store = getProject"
  shows "authorized_project ctx store projectId c (q, s, t, x) = (Inr project, w') \<longleftrightarrow>
    cp_up s \<and> project_for ctx projectId s t = Some project \<and>
    requireCapability ctx (pj_organizationId project) c = Inr () \<and> w' = (q, s, t, x)"
  using assms
  by (auto simp: authorized_project_def getProject_def first_where_def project_for_def io_ok split: option.splits)

lemma audit_up [api_simps]:
  "cp_up s \<Longrightarrow> recordAuditEvent e (q, s, t, x) =
     (Inr (), (q, s, t\<lparr> at_audit := at_audit t @ [audit_entry.extend e \<lparr> ad_createdAt = cp_now s \<rparr>] \<rparr>, x))"
  by (simp add: recordAuditEvent_def api_op_def)

subsection \<open>The far end of the world\<close>

text \<open>Identifiers, random bytes, ciphers and engines act on the last part of the world only.\<close>

definition on_far :: "('y, 'e, 'a) eio \<Rightarrow> (('q, 't \<times> 'y) api_world, 'e, 'a) eio" where
  "on_far m = (\<lambda>(q, s, t, a, y). case m y of (r, y') \<Rightarrow> (r, (q, s, t, a, y')))"

lemma on_far_ok [io_ok]:
  "on_far m (q, s, t, a, y) = (Inr v, w') \<longleftrightarrow> (\<exists>y'. m y = (Inr v, y') \<and> w' = (q, s, t, a, y'))"
  by (auto simp: on_far_def split: prod.splits)

lemma on_far_apply [api_simps]: "on_far m (q, s, t, a, y) = (case m y of (r, y') \<Rightarrow> (r, (q, s, t, a, y')))"
  by (simp add: on_far_def)

subsection \<open>Samples\<close>

definition session :: "string \<Rightarrow> string \<Rightarrow> org_role \<Rightarrow> request_context" where
  "session organizationId userId role =
     \<lparr> cx_principal = \<lparr> pr_userId = userId, pr_email = userId @ ''@o'', pr_displayName = None \<rparr>,
       cx_memberships = [\<lparr> mb_organizationId = organizationId, mb_userId = userId, mb_role = role \<rparr>],
       cx_apiKey = None \<rparr>"

definition no_accounts :: account_tables where
  "no_accounts = \<lparr> ac_organizations = [], ac_profiles = [], ac_keys = [], ac_vars = [], ac_domains = [],
     ac_resources = [], ac_backups = [], ac_restores = [] \<rparr>"

definition member_rows_of :: "(string \<times> org_role) list \<Rightarrow> membership list" where
  "member_rows_of us = map (\<lambda>(u, r). \<lparr> mb_organizationId = ''o'', mb_userId = u, mb_role = r \<rparr>) us"

definition tables_of :: "(string \<times> org_role) list \<Rightarrow> api_tables" where
  "tables_of us = sample_tables\<lparr> at_memberships := member_rows_of us \<rparr>"

end
