(* ===== verification/Member_Laws.thy ===== *)
theory Member_Laws
  imports Account_Wiring
begin

section \<open>Who owns an organization\<close>

text \<open>
  Over the wired store, one request at a time never leaves an organization without an owner and never
  lets another than an owner touch one.  Two requests that both read before either writes do.
\<close>

subsection \<open>What a member request does to the tables\<close>

definition owned :: "string \<Rightarrow> membership list \<Rightarrow> bool" where
  "owned organizationId ms \<longleftrightarrow> list_ex (\<lambda>m. mb_organizationId m = organizationId \<and> mb_role m = Owner) ms"

definition owners :: "string \<Rightarrow> membership list \<Rightarrow> string list" where
  "owners organizationId ms =
     map mb_userId (filter (\<lambda>m. mb_organizationId m = organizationId \<and> mb_role m = Owner) ms)"

definition member_key :: "membership \<Rightarrow> string \<times> string" where
  "member_key m = (mb_organizationId m, mb_userId m)"

lemma owned_iff: "owned o' ms \<longleftrightarrow> (\<exists>m \<in> set ms. mb_organizationId m = o' \<and> mb_role m = Owner)"
  by (auto simp: owned_def list_ex_iff)

lemma owned_owners: "owned o' ms \<longleftrightarrow> owners o' ms \<noteq> []"
  by (auto simp: owned_iff owners_def filter_empty_conv)

lemma memberships_audit [simp]:
  "at_memberships (at_audit_update f t) = at_memberships t" "at_nextId (at_audit_update f t) = at_nextId t"
  by simp_all

text \<open>Whatever it answers, a role change leaves the memberships as they were or writes the admitted role.\<close>

lemma role_change_world:
  assumes "updateOrganizationMemberRole ctx (orgStore d) org member newRole (q, s, t, a, y) = (r, (q', s', t', a', y'))"
  shows "q' = q \<and> s' = s \<and> a' = a \<and> y' = y \<and> at_nextId t' = at_nextId t \<and>
    (at_memberships t' = at_memberships t \<or>
     (\<exists>role target. roleFor ctx org = Some role \<and> member \<noteq> pr_userId (cx_principal ctx) \<and>
        role_change role (members_for (pr_userId (cx_principal ctx)) org t a) member newRole = Inr target \<and>
        at_memberships t' = at_memberships (with_role org member newRole t)))"
  using assms
  by (cases "cp_up s")
    (auto simp: updateOrganizationMemberRole_def admit_role_change_def write_role_change_def
      listOrganizationMembers_rows_def updateMemberRole_row_def recordAuditEvent_def
      account_read_def account_op_def api_op_def io_simps check_that_apply Let_def with_role_def
      split: option.splits sum.splits if_splits)

lemma removal_world:
  assumes "removeOrganizationMember ctx (orgStore d) org member (q, s, t, a, y) = (r, (q', s', t', a', y'))"
  shows "q' = q \<and> s' = s \<and> a' = a \<and> y' = y \<and> at_nextId t' = at_nextId t \<and>
    (at_memberships t' = at_memberships t \<or>
     (\<exists>role target. roleFor ctx org = Some role \<and>
        removal role (member = pr_userId (cx_principal ctx))
          (members_for (pr_userId (cx_principal ctx)) org t a) member = Inr target \<and>
        at_memberships t' = at_memberships (without_member org member t)))"
  using assms
  by (cases "cp_up s")
    (auto simp: removeOrganizationMember_def admit_removal_def write_removal_def
      listOrganizationMembers_rows_def removeMember_row_def recordAuditEvent_def
      account_read_def account_op_def api_op_def io_simps check_that_apply Let_def without_member_def
      split: option.splits sum.splits if_splits)

subsection \<open>An owner is always left\<close>

definition well_membered :: "string list \<Rightarrow> nat \<Rightarrow> membership list \<Rightarrow> bool" where
  "well_membered orgs n ms \<longleftrightarrow>
     distinct (map member_key ms) \<and> (\<forall>o' \<in> set orgs. owned o' ms) \<and>
     (\<forall>m \<in> set ms. \<exists>k < n. mb_organizationId m = generated_id k)"

lemma member_rows:
  assumes "target \<in> set (members_for userId org t a)"
  shows "\<exists>m \<in> set (at_memberships t). mb_organizationId m = org \<and> mb_userId m = om_userId target \<and>
    mb_role m = om_role target"
proof -
  have "target \<in> set (map (member_of a)
      (filter (\<lambda>m. mb_organizationId m = org \<and> belongs t userId org) (at_memberships t)))"
    using assms unfolding members_for_def by (rule in_set_takeD)
  then show ?thesis by (auto simp: member_of_def Let_def)
qed

lemma distinct_member:
  assumes "distinct (map member_key ms)" "m \<in> set ms" "m' \<in> set ms" "member_key m = member_key m'"
  shows "m = m'"
  using assms by (metis distinct_map inj_on_def)

lemma owner_survives_role_change:
  assumes unique: "distinct (map member_key (at_memberships t))"
    and admitted: "role_change role (members_for userId org t a) member newRole = Inr target"
    and owned: "owned o' (at_memberships t)"
  shows "owned o' (at_memberships (with_role org member newRole t))"
proof -
  let ?ms = "members_for userId org t a" and ?put = "\<lambda>m. if is_membership org member m then m\<lparr> mb_role := newRole \<rparr> else m"
  have after: "at_memberships (with_role org member newRole t) = map ?put (at_memberships t)"
    by (simp add: with_role_def patch_where_def)
  from admitted have find: "find (\<lambda>x. om_userId x = member) ?ms = Some target"
    by (auto simp: role_change_def split: option.splits if_splits)
  then have target: "target \<in> set ?ms" "om_userId target = member" by (auto dest!: find_Some_iff')
  from owned obtain m where m: "m \<in> set (at_memberships t)" "mb_organizationId m = o'" "mb_role m = Owner"
    by (auto simp: owned_iff)
  show ?thesis
  proof (cases "newRole = Owner \<or> \<not> is_membership org member m")
    case True
    then have "mb_organizationId (?put m) = o' \<and> mb_role (?put m) = Owner" using m by auto
    moreover have "?put m \<in> set (map ?put (at_memberships t))" using m(1) by auto
    ultimately show ?thesis unfolding owned_iff after by blast
  next
    case False
    then have o': "o' = org" "mb_userId m = member" using m(2) by (auto simp: is_membership_def)
    from member_rows [OF target(1)] obtain mm where mm: "mm \<in> set (at_memberships t)"
      "mb_organizationId mm = org" "mb_userId mm = member" "mb_role mm = om_role target"
      using target(2) by auto
    have "mm = m" by (rule distinct_member [OF unique mm(1) m(1)]) (simp add: member_key_def mm m o')
    then have "other_owners ?ms member \<noteq> []"
      using admitted find mm(4) m(3) False by (auto simp: role_change_def split: if_splits)
    then obtain x where x: "x \<in> set ?ms" "om_role x = Owner" "om_userId x \<noteq> member"
      by (auto simp: other_owners_def filter_empty_conv)
    from member_rows [OF x(1)] obtain mx where mx: "mx \<in> set (at_memberships t)"
      "mb_organizationId mx = org" "mb_userId mx \<noteq> member" "mb_role mx = Owner"
      using x by auto
    then have "?put mx = mx" by (simp add: is_membership_def)
    with mx o' show ?thesis unfolding owned_iff after by force
  qed
qed

lemma owner_survives_removal:
  assumes unique: "distinct (map member_key (at_memberships t))"
    and admitted: "removal role self (members_for userId org t a) member = Inr target"
    and owned: "owned o' (at_memberships t)"
  shows "owned o' (at_memberships (without_member org member t))"
proof -
  let ?ms = "members_for userId org t a"
  from admitted have find: "find (\<lambda>x. om_userId x = member) ?ms = Some target"
    by (auto simp: removal_def split: option.splits if_splits)
  then have target: "target \<in> set ?ms" "om_userId target = member" by (auto dest!: find_Some_iff')
  from owned obtain m where m: "m \<in> set (at_memberships t)" "mb_organizationId m = o'" "mb_role m = Owner"
    by (auto simp: owned_iff)
  show ?thesis
  proof (cases "is_membership org member m")
    case False
    with m show ?thesis by (auto simp: owned_iff without_member_def)
  next
    case True
    then have o': "o' = org" "mb_userId m = member" using m(2) by (auto simp: is_membership_def)
    from member_rows [OF target(1)] obtain mm where mm: "mm \<in> set (at_memberships t)"
      "mb_organizationId mm = org" "mb_userId mm = member" "mb_role mm = om_role target"
      using target(2) by auto
    have "mm = m" by (rule distinct_member [OF unique mm(1) m(1)]) (simp add: member_key_def mm m o')
    then have "other_owners ?ms member \<noteq> []"
      using admitted find mm(4) m(3) by (auto simp: removal_def split: if_splits)
    then obtain x where x: "x \<in> set ?ms" "om_role x = Owner" "om_userId x \<noteq> member"
      by (auto simp: other_owners_def filter_empty_conv)
    from member_rows [OF x(1)] obtain mx where "mx \<in> set (at_memberships t)"
      "mb_organizationId mx = org" "mb_userId mx \<noteq> member" "mb_role mx = Owner"
      using x by auto
    with o' show ?thesis by (auto simp: owned_iff without_member_def is_membership_def)
  qed
qed

subsection \<open>Any sequence of member requests\<close>

datatype org_command =
    CreateOrg string string
  | ChangeRole string string org_role
  | RemoveMember string string

text \<open>A request of any caller, run to its end; what it answers is dropped.\<close>

fun perform ::
  "(string \<Rightarrow> millis option) \<Rightarrow> request_context \<times> org_command \<Rightarrow> ('q, 'y) account_world \<Rightarrow> ('q, 'y) account_world" where
  "perform d (ctx, CreateOrg name newSlug) w = snd (createOrganization ctx (orgStore d) name newSlug w)"
| "perform d (ctx, ChangeRole org member newRole) w =
     snd (updateOrganizationMemberRole ctx (orgStore d) org member newRole w)"
| "perform d (ctx, RemoveMember org member) w = snd (removeOrganizationMember ctx (orgStore d) org member w)"

definition perform_all ::
  "(string \<Rightarrow> millis option) \<Rightarrow> (request_context \<times> org_command) list \<Rightarrow> ('q, 'y) account_world \<Rightarrow>
   ('q, 'y) account_world" where
  "perform_all d cmds w = fold (perform d) cmds w"

definition governed :: "('q, 'y) account_world \<Rightarrow> bool" where
  "governed = (\<lambda>(q, s, t, a, y). well_membered (map og_id (ac_organizations a)) (at_nextId t) (at_memberships t))"

lemma well_membered_with_role:
  assumes "well_membered orgs n (at_memberships t)"
    "role_change role (members_for userId org t a) member newRole = Inr target"
  shows "well_membered orgs n (at_memberships (with_role org member newRole t))"
proof -
  have keys: "map member_key (at_memberships (with_role org member newRole t)) = map member_key (at_memberships t)"
    by (simp add: with_role_def patch_where_def member_key_def)
  have "map mb_organizationId (at_memberships (with_role org member newRole t)) = map mb_organizationId (at_memberships t)"
    by (simp add: with_role_def patch_where_def)
  then have orgs: "mb_organizationId ` set (at_memberships (with_role org member newRole t)) =
      mb_organizationId ` set (at_memberships t)"
    by (metis set_map)
  from assms(1) have unique: "distinct (map member_key (at_memberships t))" by (simp add: well_membered_def)
  have from_old: "\<exists>k < n. mb_organizationId m = generated_id k"
    if "m \<in> set (at_memberships (with_role org member newRole t))" for m
  proof -
    from that orgs have "mb_organizationId m \<in> mb_organizationId ` set (at_memberships t)" by blast
    with assms(1) show ?thesis by (auto simp: well_membered_def)
  qed
  with assms(1) keys unique owner_survives_role_change [OF unique assms(2)] show ?thesis
    by (auto simp: well_membered_def)
qed

lemma well_membered_without:
  assumes "well_membered orgs n (at_memberships t)"
    "removal role self (members_for userId org t a) member = Inr target"
  shows "well_membered orgs n (at_memberships (without_member org member t))"
proof -
  from assms(1) have unique: "distinct (map member_key (at_memberships t))" by (simp add: well_membered_def)
  have "distinct (map member_key (at_memberships (without_member org member t)))"
    using unique by (simp add: without_member_def distinct_map_filter)
  with assms(1) owner_survives_removal [OF unique assms(2)] show ?thesis
    by (auto simp: well_membered_def without_member_def)
qed

lemma well_membered_create:
  assumes "well_membered orgs n ms"
  shows "well_membered (orgs @ [generated_id n]) (n + 1)
    (ms @ [\<lparr> mb_organizationId = generated_id n, mb_userId = u, mb_role = Owner \<rparr>])"
    "\<not> list_ex (is_membership (generated_id n) u) ms"
proof -
  have fresh: "mb_organizationId m \<noteq> generated_id n" if "m \<in> set ms" for m
  proof -
    from assms that obtain k where "k < n" "mb_organizationId m = generated_id k" by (auto simp: well_membered_def)
    then show ?thesis by (simp add: generated_id_def)
  qed
  then show "\<not> list_ex (is_membership (generated_id n) u) ms" by (auto simp: list_ex_iff is_membership_def)
  have "\<exists>k < n + 1. mb_organizationId m = generated_id k" if "m \<in> set ms" for m
    using assms that unfolding well_membered_def by (meson less_SucI Suc_eq_plus1 trans_less_add1)
  with assms fresh show "well_membered (orgs @ [generated_id n]) (n + 1)
      (ms @ [\<lparr> mb_organizationId = generated_id n, mb_userId = u, mb_role = Owner \<rparr>])"
    by (force simp: well_membered_def owned_iff member_key_def)
qed

lemma well_membered_skip: "well_membered orgs n ms \<Longrightarrow> well_membered orgs (n + 1) ms"
  unfolding well_membered_def by (meson less_SucI Suc_eq_plus1 trans_less_add1)

lemma perform_governed:
  assumes "governed w"
  shows "governed (perform d c w)"
proof -
  obtain ctx cmd where c: "c = (ctx, cmd)" by (cases c)
  obtain q s t a y where w: "w = (q, s, t, a, y)" by (cases w)
  from assms have inv: "well_membered (map og_id (ac_organizations a)) (at_nextId t) (at_memberships t)"
    by (simp add: governed_def w)
  show ?thesis
  proof (cases cmd)
    case (CreateOrg name newSlug)
    show ?thesis
      using inv well_membered_create [OF inv, of "pr_userId (cx_principal ctx)"]
      by (cases "cp_up s")
        (auto simp: c w CreateOrg governed_def createOrganization_def createOrganization_row_def
          insert_organization_def insert_owner_def recordAuditEvent_def account_op_def api_op_def io_simps
          check_that_apply Let_def split: sum.splits)
  next
    case (ChangeRole org member newRole)
    obtain r q' s' t' a' y' where run:
      "updateOrganizationMemberRole ctx (orgStore d) org member newRole (q, s, t, a, y) = (r, (q', s', t', a', y'))"
      by (rule prod.exhaust) (metis prod.exhaust)
    from role_change_world [OF run] inv well_membered_with_role [OF inv] show ?thesis
      by (auto simp: c w ChangeRole governed_def run)
  next
    case (RemoveMember org member)
    obtain r q' s' t' a' y' where run:
      "removeOrganizationMember ctx (orgStore d) org member (q, s, t, a, y) = (r, (q', s', t', a', y'))"
      by (rule prod.exhaust) (metis prod.exhaust)
    from removal_world [OF run] inv well_membered_without [OF inv] show ?thesis
      by (auto simp: c w RemoveMember governed_def run)
  qed
qed

lemma perform_all_governed: "governed w \<Longrightarrow> governed (perform_all d cmds w)"
  unfolding perform_all_def by (induction cmds arbitrary: w) (simp_all add: perform_governed)


subsection \<open>Rank\<close>

lemma owners_with_role:
  assumes "distinct (map member_key (at_memberships t))" "role \<noteq> Owner"
    "role_change role (members_for userId org t a) member newRole = Inr target"
  shows "owners o' (at_memberships (with_role org member newRole t)) = owners o' (at_memberships t)"
proof -
  from assms(2,3) have find: "find (\<lambda>x. om_userId x = member) (members_for userId org t a) = Some target"
    and ranks: "om_role target \<noteq> Owner" "newRole \<noteq> Owner"
    by (auto simp: role_change_def split: option.splits if_splits)
  then obtain mm where mm: "mm \<in> set (at_memberships t)" "mb_organizationId mm = org" "mb_userId mm = member"
    "mb_role mm = om_role target"
    using member_rows by (fastforce dest!: find_Some_iff')
  have "mb_role m \<noteq> Owner" if "m \<in> set (at_memberships t)" "is_membership org member m" for m
    using distinct_member [OF assms(1) that(1) mm(1)] that(2) mm ranks(1)
    by (auto simp: is_membership_def member_key_def)
  then have "filter (\<lambda>m. mb_organizationId m = o' \<and> mb_role m = Owner)
      (map (\<lambda>m. if is_membership org member m then m\<lparr> mb_role := newRole \<rparr> else m) ms) =
    filter (\<lambda>m. mb_organizationId m = o' \<and> mb_role m = Owner) ms" if "set ms \<subseteq> set (at_memberships t)" for ms
    using that ranks(2) by (induction ms) auto
  then show ?thesis by (simp add: owners_def with_role_def patch_where_def)
qed

lemma owners_without:
  assumes "distinct (map member_key (at_memberships t))" "role \<noteq> Owner"
    "removal role False (members_for userId org t a) member = Inr target"
  shows "owners o' (at_memberships (without_member org member t)) = owners o' (at_memberships t)"
proof -
  from assms(2,3) have find: "find (\<lambda>x. om_userId x = member) (members_for userId org t a) = Some target"
    and rank: "om_role target \<noteq> Owner"
    by (auto simp: removal_def split: option.splits if_splits)
  then obtain mm where mm: "mm \<in> set (at_memberships t)" "mb_organizationId mm = org" "mb_userId mm = member"
    "mb_role mm = om_role target"
    using member_rows by (fastforce dest!: find_Some_iff')
  have "mb_role m \<noteq> Owner" if "m \<in> set (at_memberships t)" "is_membership org member m" for m
    using distinct_member [OF assms(1) that(1) mm(1)] that(2) mm rank
    by (auto simp: is_membership_def member_key_def)
  then show ?thesis
    by (auto simp: owners_def without_member_def intro!: arg_cong [where f = "map mb_userId"] filter_cong)
qed


subsection \<open>Two requests at once\<close>

lemma owner_belongs: "u \<in> set (owners org (at_memberships t)) \<Longrightarrow> belongs t u org"
  by (auto simp: owners_def belongs_def list_ex_iff)

lemma find_map: "find P (map f xs) = map_option f (find (\<lambda>x. P (f x)) xs)"
  by (induction xs) auto

lemma belongs_key: "belongs t u o' \<longleftrightarrow> (o', u) \<in> set (map member_key (at_memberships t))"
  by (auto simp: belongs_def list_ex_iff member_key_def)

lemma found_member:
  assumes "m \<in> set (at_memberships t)" "is_membership org member m" "belongs t userId org"
    "distinct (map member_key (at_memberships t))"
    "length (filter (\<lambda>m. mb_organizationId m = org) (at_memberships t)) \<le> 200"
  shows "find (\<lambda>x. om_userId x = member) (members_for userId org t a) = Some (member_of a m)"
proof -
  let ?page = "filter (\<lambda>m. mb_organizationId m = org) (at_memberships t)"
  have page: "members_for userId org t a = map (member_of a) ?page"
    using assms(3,5) by (simp add: members_for_def)
  have "find (\<lambda>m. mb_userId m = member) ?page = Some m"
  proof -
    have "m \<in> set ?page" using assms(1,2) by (auto simp: is_membership_def)
    then obtain m' where m': "find (\<lambda>m. mb_userId m = member) ?page = Some m'"
      using assms(2) by (cases "find (\<lambda>m. mb_userId m = member) ?page") (auto simp: find_None_iff is_membership_def)
    then have "m' \<in> set (at_memberships t)" "mb_organizationId m' = org" "mb_userId m' = member"
      by (auto dest!: find_Some_iff')
    with distinct_member [OF assms(4) this(1) assms(1)] assms(2) m' show ?thesis
      by (simp add: is_membership_def member_key_def)
  qed
  then show ?thesis by (simp add: page find_map member_of_def Let_def)
qed

lemma admit_owner:
  assumes up: "cp_up s" and caller: "requireCapability ctx org MemberInvite = Inr ()" "roleFor ctx org = Some Owner"
    and two: "owners org (at_memberships t) = [u, v]" "u \<noteq> v"
      "{pr_userId (cx_principal ctx), member} = {u, v}"
    and unique: "distinct (map member_key (at_memberships t))"
    and page: "length (filter (\<lambda>m. mb_organizationId m = org) (at_memberships t)) \<le> 200"
  shows "\<exists>target. admit_role_change ctx (orgStore d) org member newRole (q, s, t, a, y) = (Inr target, (q, s, t, a, y))"
proof -
  let ?me = "pr_userId (cx_principal ctx)"
  have both: "?me \<in> {u, v}" "member \<in> {u, v}" "member \<noteq> ?me" using two(2,3) by (auto simp: doubleton_eq_iff)
  have me: "belongs t ?me org" by (rule owner_belongs) (use two(1) both(1) in auto)
  from two(1) both have "member \<in> set (owners org (at_memberships t))" "?me \<in> set (owners org (at_memberships t))"
    by auto
  then obtain m m' where m: "m \<in> set (at_memberships t)" "is_membership org member m"
    and m': "m' \<in> set (at_memberships t)" "is_membership org ?me m'" "mb_role m' = Owner"
    by (auto simp: owners_def is_membership_def)
  have "member_of a m' \<in> set (members_for ?me org t a)"
    using m' me page by (auto simp: members_for_def is_membership_def)
  then have "member_of a m' \<in> set (other_owners (members_for ?me org t a) member)"
    using m' both(3) by (simp add: other_owners_def member_of_def Let_def is_membership_def)
  then have "other_owners (members_for ?me org t a) member \<noteq> []" by auto
  then show ?thesis
    using found_member [OF m me unique page, of a] both(3) caller
    by (auto simp: admit_role_change_def listOrganizationMembers_rows_def role_change_def io_simps api_simps up
        check_that_apply)
qed

lemma with_role_rows:
  "at_memberships (with_role org member newRole t) =
     map (\<lambda>m. if is_membership org member m then m\<lparr> mb_role := newRole \<rparr> else m) (at_memberships t)"
  by (simp add: with_role_def patch_where_def)

lemma belongs_with_role [simp]: "belongs (with_role org member newRole t) u o' = belongs t u o'"
proof -
  have "map member_key (at_memberships (with_role org member newRole t)) = map member_key (at_memberships t)"
    by (simp add: with_role_rows member_key_def)
  then show ?thesis by (simp add: belongs_key)
qed

lemma write_role_change_up:
  assumes "cp_up s" "belongs t (pr_userId (cx_principal ctx)) org" "belongs t member org"
  shows "\<exists>m audit. write_role_change ctx (orgStore d) org member newRole target (q, s, t, a, y) =
    (Inr m, (q, s, (with_role org member newRole t)\<lparr> at_audit := audit \<rparr>, a, y))"
proof -
  have "belongs (with_role org member newRole t) member org" using assms(3) by simp
  then obtain m where m: "first_where (is_membership org member)
      (at_memberships (with_role org member newRole t)) = Some m"
    by (cases "first_where (is_membership org member) (at_memberships (with_role org member newRole t))")
      (auto simp: first_where_def find_None_iff belongs_def list_ex_iff is_membership_def)
  show ?thesis
    by (intro exI) (simp add: write_role_change_def updateMemberRole_row_def io_simps api_simps assms Let_def m
      del: with_role_def)
qed

lemma no_owner_left:
  assumes "owners org ms = [u, v]" "newRole \<noteq> Owner"
  shows "owners org (map (\<lambda>m. if is_membership org u m then m\<lparr> mb_role := newRole \<rparr> else m)
    (map (\<lambda>m. if is_membership org v m then m\<lparr> mb_role := newRole \<rparr> else m) ms)) = []"
proof -
  have "mb_userId m \<in> {u, v}" if "m \<in> set ms" "mb_organizationId m = org" "mb_role m = Owner" for m
  proof -
    from that have "mb_userId m \<in> set (owners org ms)" by (auto simp: owners_def)
    with assms(1) show ?thesis by simp
  qed
  then have known: "\<not> (mb_organizationId m = org \<and> mb_role m = Owner)"
    if "m \<in> set ms" "mb_userId m \<notin> {u, v}" for m using that by blast
  define f g where "f = (\<lambda>m. if is_membership org v m then m\<lparr> mb_role := newRole \<rparr> else m)"
    and "g = (\<lambda>m. if is_membership org u m then m\<lparr> mb_role := newRole \<rparr> else m)"
  have "\<not> (mb_organizationId (g (f m)) = org \<and> mb_role (g (f m)) = Owner)" if "m \<in> set ms" for m
    using \<open>m \<in> set ms\<close> assms(2) known [of m] by (auto simp: f_def g_def is_membership_def)
  then have "owners org (map g (map f ms)) = []" by (simp add: owners_def filter_empty_conv)
  then show ?thesis by (simp add: f_def g_def)
qed

text \<open>
  C16. Two owners that demote each other at the same moment leave the organization without an owner: both
  requests are admitted on the same reading of the members, then both write.  The writes run with the
  service role, so the rule of the row policies does not apply to them.
\<close>

theorem simultaneous_demotions_leave_no_owner:
  assumes up: "cp_up s"
    and callers: "requireCapability ctx org MemberInvite = Inr ()" "roleFor ctx org = Some Owner"
      "requireCapability ctx' org MemberInvite = Inr ()" "roleFor ctx' org = Some Owner"
    and two: "owners org (at_memberships t) = [pr_userId (cx_principal ctx), pr_userId (cx_principal ctx')]"
      "pr_userId (cx_principal ctx) \<noteq> pr_userId (cx_principal ctx')"
    and unique: "distinct (map member_key (at_memberships t))"
    and page: "length (filter (\<lambda>m. mb_organizationId m = org) (at_memberships t)) \<le> 200"
    and down: "newRole \<noteq> Owner"
  shows "\<exists>target target' m m' w1 t'.
    admit_role_change ctx (orgStore d) org (pr_userId (cx_principal ctx')) newRole (q, s, t, a, y) =
      (Inr target, (q, s, t, a, y)) \<and>
    admit_role_change ctx' (orgStore d) org (pr_userId (cx_principal ctx)) newRole (q, s, t, a, y) =
      (Inr target', (q, s, t, a, y)) \<and>
    write_role_change ctx (orgStore d) org (pr_userId (cx_principal ctx')) newRole target (q, s, t, a, y) =
      (Inr m, w1) \<and>
    write_role_change ctx' (orgStore d) org (pr_userId (cx_principal ctx)) newRole target' w1 =
      (Inr m', (q, s, t', a, y)) \<and>
    owners org (at_memberships t') = []"
proof -
  let ?u = "pr_userId (cx_principal ctx)" and ?v = "pr_userId (cx_principal ctx')"
  obtain target where first: "admit_role_change ctx (orgStore d) org ?v newRole (q, s, t, a, y) =
      (Inr target, (q, s, t, a, y))"
    using admit_owner [OF up callers(1,2) two refl unique page, where q = q and a = a and y = y and d = d] by blast
  obtain target' where second: "admit_role_change ctx' (orgStore d) org ?u newRole (q, s, t, a, y) =
      (Inr target', (q, s, t, a, y))"
    using admit_owner [OF up callers(3,4) two _ unique page, where member = ?u and q = q and a = a and y = y and d = d]
    by (auto simp: insert_commute)
  have belong: "belongs t ?u org" "belongs t ?v org" by (rule owner_belongs, simp add: two(1))+
  obtain m audit where one: "write_role_change ctx (orgStore d) org ?v newRole target (q, s, t, a, y) =
      (Inr m, (q, s, (with_role org ?v newRole t)\<lparr> at_audit := audit \<rparr>, a, y))"
    using write_role_change_up [OF up belong, where q = q and a = a and y = y and d = d] by blast
  let ?t1 = "(with_role org ?v newRole t)\<lparr> at_audit := audit \<rparr>"
  have belong1: "belongs ?t1 ?v org" "belongs ?t1 ?u org" using belong
    by (simp_all add: belongs_key with_role_rows member_key_def comp_def if_distrib cong: if_cong)
  obtain m' audit' where two': "write_role_change ctx' (orgStore d) org ?u newRole target' (q, s, ?t1, a, y) =
      (Inr m', (q, s, (with_role org ?u newRole ?t1)\<lparr> at_audit := audit' \<rparr>, a, y))"
    using write_role_change_up [OF up belong1, where q = q and a = a and y = y and d = d] by blast
  have "owners org (at_memberships ((with_role org ?u newRole ?t1)\<lparr> at_audit := audit' \<rparr>)) = []"
    using no_owner_left [OF two(1) down] by (simp add: with_role_rows)
  with first second one two' show ?thesis by blast
qed

subsection \<open>Past the first page\<close>

lemma past_the_page:
  assumes "filter (\<lambda>m. mb_organizationId m = org) (at_memberships t) = older @ newer" "length older = 200"
    "member \<notin> mb_userId ` set older"
  shows "find (\<lambda>x. om_userId x = member) (members_for userId org t a) = None"
proof (cases "belongs t userId org")
  case True
  with assms(1,2) have "members_for userId org t a = map (member_of a) older"
    by (simp add: members_for_def)
  with assms(3) show ?thesis by (auto simp: find_None_iff member_of_def Let_def)
next
  case False
  then show ?thesis by (simp add: members_for_def)
qed

text \<open>
  A member after the first two hundred of an organization cannot leave it, and nobody can remove
  them or change their role: every such request answers that there is no such member.
\<close>

theorem members_past_the_page_are_stuck:
  assumes up: "cp_up s"
    and page: "filter (\<lambda>m. mb_organizationId m = org) (at_memberships t) = older @ newer" "length older = 200"
    and late: "member \<notin> mb_userId ` set older"
    and role: "roleFor ctx org = Some role"
    and may: "requireCapability ctx org (if member = pr_userId (cx_principal ctx) then OrgRead else MemberRemove) = Inr ()"
  shows "removeOrganizationMember ctx (orgStore d) org member (q, s, t, a, y) = (Inl MEMBER_NOT_FOUND, (q, s, t, a, y)) \<and>
    (member \<noteq> pr_userId (cx_principal ctx) \<and> requireCapability ctx org MemberInvite = Inr () \<longrightarrow>
     updateOrganizationMemberRole ctx (orgStore d) org member newRole (q, s, t, a, y) =
       (Inl MEMBER_NOT_FOUND, (q, s, t, a, y)))"
  using past_the_page [OF page late, of "pr_userId (cx_principal ctx)" a] role may
  by (auto simp: removeOrganizationMember_def admit_removal_def updateOrganizationMemberRole_def
      admit_role_change_def listOrganizationMembers_rows_def removal_def role_change_def io_simps api_simps up
      check_that_apply Let_def)

subsection \<open>What a new project has\<close>

lemma createProject_runs:
  assumes "createProject ctx store inp w = (Inr project, w')"
  shows "\<exists>i e w1. or_createProject store i w = (Inr project, w1) \<and> as_recordAuditEvent store e w1 = (Inr (), w') \<and>
    pn_organizationId i = cr_organizationId inp"
  using assms by (fastforce simp: createProject_def io_bind_ok io_then_ok check_that_ok io_return_ok)

text \<open>
  A new project has exactly the two platform environments, production as the default one, and the
  listing names the preview first: the query orders the kinds by their names.
\<close>

theorem a_new_project_has_two_environments:
  assumes run: "createProject ctx (orgStore d) inp (q, s, t, a, y) = (Inr project, w')"
    and member: "belongs t (pr_userId (cx_principal ctx)) (cr_organizationId inp)"
      "requireCapability ctx (cr_organizationId inp) ProjectRead = Inr ()"
    and fresh: "\<forall>p \<in> set (cp_projects s). pj_id p \<noteq> generated_id (at_nextId t)"
      "\<forall>e \<in> set (cp_environments s). en_projectId e \<noteq> generated_id (at_nextId t)"
  shows "\<exists>preview production. fst (listEnvironments ctx (orgStore d) (pj_id project) w') = Inr [preview, production] \<and>
    en_kind preview = EnvPreview \<and> \<not> en_isDefault preview \<and>
    en_kind production = EnvProduction \<and> en_isDefault production \<and>
    chosen_environment [preview, production] None = Inr production"
proof -
  let ?me = "pr_userId (cx_principal ctx)" and ?n = "at_nextId t" and ?org = "cr_organizationId inp"
  from createProject_runs [OF run, unfolded org_store_sel] obtain i e w1 where
    made: "createProject_row i (q, s, t, a, y) = (Inr project, w1)"
    and told: "recordAuditEvent e w1 = (Inr (), w')" and i: "pn_organizationId i = ?org"
    by blast
  define s' where "s' = s\<lparr> cp_projects := cp_projects s @ [project],
    cp_environments := cp_environments s @ platform_environments ?org (generated_id ?n) (?n + 1) \<rparr>"
  from made have up: "cp_up s" and project: "project = created_project i (generated_id ?n)"
    and w1: "w1 = (q, s', t\<lparr> at_nextId := ?n + 3 \<rparr>, a, y)"
    by (auto simp: createProject_row_def account_op_ok Let_def s'_def i split: if_splits)
  from told w1 obtain t' where w': "w' = (q, s', t', a, y)" and t': "at_memberships t' = at_memberships t"
    by (auto simp: recordAuditEvent_ok)
  have pid: "pj_id project = generated_id ?n" "pj_organizationId project = ?org"
    by (simp_all add: project created_project_def i)
  have up': "cp_up s'" and belongs': "belongs t' u o' = belongs t u o'" for u o'
    by (simp_all add: s'_def up belongs_def t')
  have "find (\<lambda>r. pj_id r = generated_id ?n \<and> belongs t ?me (pj_organizationId r)) (cp_projects s') = Some project"
    using fresh(1) member(1) pid by (auto simp: s'_def find_append find_None_iff split: option.split dest!: find_Some_iff')
  then have found: "project_for ctx (pj_id project) s' t' = Some project"
    by (simp add: project_for_def pid belongs')
  have rows: "filter (\<lambda>e. en_projectId e = generated_id ?n \<and> belongs t' ?me (en_organizationId e)) (cp_environments s') =
      platform_environments ?org (generated_id ?n) (?n + 1)"
    using fresh(2) member(1) by (auto simp: s'_def belongs' platform_environments_def filter_empty_conv)
  let ?two = "platform_environments ?org (generated_id ?n) (?n + 1)"
  have order: "listed_order ?two = [?two ! 1, ?two ! 0]"
    by (simp add: listed_order_def sort_by_text_def platform_environments_def)
  have "authorized_project ctx (orgStore d) (pj_id project) ProjectRead w' = (Inr project, w')"
    using up' found member(2) by (simp add: w' authorized_wired pid)
  then have "fst (listEnvironments ctx (orgStore d) (pj_id project) w') = Inr (listed_order ?two)"
    by (simp add: listEnvironments_def io_bind_apply w' listEnvironments_rows_def api_simps up' pid rows)
  with order show ?thesis
    by (intro exI [of _ "?two ! 1"] exI [of _ "?two ! 0"])
      (simp add: platform_environments_def chosen_environment_def)
qed

subsection \<open>Concrete instances\<close>



theorem simultaneous_demotions_leave_no_owner_witness:
  "\<exists>target m w1 t'.
     write_role_change (session ''o'' ''a'' Owner) (orgStore no_date) ''o'' ''b'' Viewer target
       ((), sample_plane, tables_of [(''a'', Owner), (''b'', Owner)], no_accounts, ()) = (Inr m, w1) \<and>
     (\<exists>target' m'. write_role_change (session ''o'' ''b'' Owner) (orgStore no_date) ''o'' ''a'' Viewer target' w1 =
       (Inr m', ((), sample_plane, t', no_accounts, ())) \<and> owners ''o'' (at_memberships t') = [])"
proof -
  let ?a = "session ''o'' ''a'' Owner" and ?b = "session ''o'' ''b'' Owner"
  let ?t = "tables_of [(''a'', Owner), (''b'', Owner)]"
  have up: "cp_up sample_plane" by code_simp
  have caps: "requireCapability ?a ''o'' MemberInvite = Inr ()" "roleFor ?a ''o'' = Some Owner"
    "requireCapability ?b ''o'' MemberInvite = Inr ()" "roleFor ?b ''o'' = Some Owner" by code_simp+
  have two: "owners ''o'' (at_memberships ?t) = [pr_userId (cx_principal ?a), pr_userId (cx_principal ?b)]"
    "pr_userId (cx_principal ?a) \<noteq> pr_userId (cx_principal ?b)" by code_simp+
  have unique: "distinct (map member_key (at_memberships ?t))" by code_simp
  have page: "length (filter (\<lambda>m. mb_organizationId m = ''o'') (at_memberships ?t)) \<le> 200" by code_simp
  have ids: "pr_userId (cx_principal ?a) = ''a''" "pr_userId (cx_principal ?b) = ''b''" by (simp_all add: session_def)
  from simultaneous_demotions_leave_no_owner [OF up caps two unique page,
      where newRole = Viewer and d = no_date and q = "()" and a = no_accounts and y = "()"]
  show ?thesis unfolding ids by blast
qed

theorem members_past_the_page_are_stuck_witness:
  "removeOrganizationMember (session ''o'' ''late'' Member) (orgStore no_date) ''o'' ''late''
     ((), sample_plane, tables_of (replicate 200 (''m'', Viewer) @ [(''late'', Member)]), no_accounts, ()) =
   (Inl MEMBER_NOT_FOUND,
     ((), sample_plane, tables_of (replicate 200 (''m'', Viewer) @ [(''late'', Member)]), no_accounts, ()))"
proof -
  let ?ctx = "session ''o'' ''late'' Member" and ?t = "tables_of (replicate 200 (''m'', Viewer) @ [(''late'', Member)])"
  have rows: "filter (\<lambda>m. mb_organizationId m = ''o'') (at_memberships ?t) =
      member_rows_of (replicate 200 (''m'', Viewer)) @ member_rows_of [(''late'', Member)]"
    by (simp add: tables_of_def member_rows_of_def)
  have many: "length (member_rows_of (replicate 200 (''m'', Viewer))) = 200" by (simp add: member_rows_of_def)
  have late: "''late'' \<notin> mb_userId ` set (member_rows_of (replicate 200 (''m'', Viewer)))"
    by (auto simp: member_rows_of_def)
  have role: "roleFor ?ctx ''o'' = Some Member" by code_simp
  have up: "cp_up sample_plane" by code_simp
  have me: "pr_userId (cx_principal ?ctx) = ''late''" by (simp add: session_def)
  have may: "requireCapability ?ctx ''o'' OrgRead = Inr ()" by code_simp
  show ?thesis
    by (rule members_past_the_page_are_stuck [OF up rows many late role, THEN conjunct1]) (simp add: may me)
qed

theorem a_new_project_has_two_environments_witness:
  "case createProject (session ''o'' ''a'' Owner) (orgStore no_date)
      \<lparr> cr_organizationId = ''o'', cr_name = ''Shop'', cr_slug = ''shop'', cr_executionModel = None,
        cr_rootDirectory = None \<rparr> ((), sample_plane, tables_of [(''a'', Owner)], no_accounts, ()) of
    (Inl e, w') \<Rightarrow> False
  | (Inr project, w') \<Rightarrow> \<exists>preview production.
      fst (listEnvironments (session ''o'' ''a'' Owner) (orgStore no_date) (pj_id project) w') = Inr [preview, production] \<and>
      en_kind production = EnvProduction"
proof -
  let ?ctx = "session ''o'' ''a'' Owner" and ?t = "tables_of [(''a'', Owner)]"
  let ?inp = "\<lparr> cr_organizationId = ''o'', cr_name = ''Shop'', cr_slug = ''shop'', cr_executionModel = None,
        cr_rootDirectory = None \<rparr>"
  let ?run = "createProject ?ctx (orgStore no_date) ?inp ((), sample_plane, ?t, no_accounts, ())"
  have "case fst ?run of Inl _ \<Rightarrow> False | Inr _ \<Rightarrow> True" by code_simp
  then obtain project w' where run: "?run = (Inr project, w')"
    by (cases ?run) (auto split: sum.splits)
  have member: "belongs ?t (pr_userId (cx_principal ?ctx)) (cr_organizationId ?inp)"
    "requireCapability ?ctx (cr_organizationId ?inp) ProjectRead = Inr ()" by code_simp+
  have fresh: "\<forall>p \<in> set (cp_projects sample_plane). pj_id p \<noteq> generated_id (at_nextId ?t)"
    "\<forall>e \<in> set (cp_environments sample_plane). en_projectId e \<noteq> generated_id (at_nextId ?t)" by code_simp+
  from a_new_project_has_two_environments [OF run member fresh] show ?thesis by (auto simp: run)
qed

end
