(* ===== verification/Key_Laws.thy ===== *)
theory Key_Laws
  imports Account_Wiring
begin

section \<open>What an API key can be made to do\<close>

text \<open>
  Issuing a key over the wired store and authenticating with what it returned.  Identifiers and random
  bytes come from the far end of the world.
\<close>

definition key_wiring ::
  "(string \<Rightarrow> millis option) \<Rightarrow> ('y, failure, string) eio \<Rightarrow> ('y, failure, string) eio \<Rightarrow> (string \<Rightarrow> string) \<Rightarrow>
   ('q, 'y) account_world key_deps" where
  "key_wiring d ids random sha256 =
     \<lparr> kd_store = keyStore d, kd_newId = on_far ids, kd_sha256 = sha256, kd_random24 = on_far random,
       kd_now = api_clock \<rparr>"

definition context_wiring ::
  "(string \<Rightarrow> (('q, 'y) account_world, failure, supabase_session option) eio) \<Rightarrow> ('q, 'y) account_world context_deps" where
  "context_wiring verify =
     \<lparr> cd_verify = verify, cd_membershipsFor = membershipsFor, cd_apiKeys = Some apiKeyResolver,
       cd_now = api_clock \<rparr>"

subsection \<open>What issuing writes\<close>

lemma createApiKey_runs:
  assumes "createApiKey ctx deps org name scopes w = (Inr (summary, secret), w')"
  shows "\<exists>label role newId now random w1 w2 w3 e. roleFor ctx org = Some role \<and>
    requireCapability ctx org ApikeyCreate = Inr () \<and> bounded_name ''API key name'' name = Inr label \<and>
    kd_newId deps w = (Inr newId, w1) \<and> now = kd_now deps w1 \<and> kd_random24 deps w1 = (Inr random, w2) \<and>
    secret = SECRET_PREFIX @ random \<and>
    ky_createApiKey (kd_store deps)
      (stored_key (fst (issueApiKey (kd_sha256 deps) random (key_request ctx org label role scopes newId now)))) w2 =
      (Inr summary, w3) \<and>
    e = audit_by ctx org ''api_key.created'' ''api_key'' (ks_id summary)
      [(''prefix'', JString (ks_keyPrefix summary)), (''scopes'', JArray (map JString (ks_scopes summary)))] \<and>
    as_recordAuditEvent (kd_store deps) e w3 = (Inr (), w')"
  using assms
  by (fastforce simp: createApiKey_def io_bind_ok io_then_ok check_that_ok io_return_ok io_throw_ok io_get_ok Let_def
      issueApiKey_def split: option.splits)

definition minted :: "(string \<Rightarrow> string) \<Rightarrow> request_context \<Rightarrow> string \<Rightarrow> string \<Rightarrow> org_role \<Rightarrow> string list \<Rightarrow> string \<Rightarrow>
    string \<Rightarrow> millis \<Rightarrow> api_key_record" where
  "minted sha256 ctx org label role scopes newId random now =
     fst (issueApiKey sha256 random (key_request ctx org label role scopes newId now))"

lemma createApiKey_wired:
  assumes "createApiKey ctx (key_wiring d ids random sha256) org name scopes (q, s, t, a, y) =
    (Inr (summary, secret), w')"
  shows "\<exists>label role newId bytes y'. cp_up s \<and> roleFor ctx org = Some role \<and>
    bounded_name ''API key name'' name = Inr label \<and> fst (ids y) = Inr newId \<and> secret = SECRET_PREFIX @ bytes \<and>
    (let r = minted sha256 ctx org label role scopes newId bytes (cp_now s)
     in (\<forall>k \<in> set (ac_keys a). kr_keyHash k \<noteq> sha256 secret \<and> ka_id k \<noteq> newId) \<and> summary = key_summary r \<and>
        w' = (q, s, t\<lparr> at_audit := at_audit t @ [audit_entry.extend
                (audit_by ctx org ''api_key.created'' ''api_key'' newId
                  [(''prefix'', JString (kr_keyPrefix r)), (''scopes'', JArray (map JString (ka_scopes r)))])
                \<lparr> ad_createdAt = cp_now s \<rparr>] \<rparr>,
              a\<lparr> ac_keys := ac_keys a @ [r] \<rparr>, y'))"
proof -
  have row: "key_row (stored_key (minted sha256 ctx org label role scopes newId bytes (cp_now s))) (cp_now s) =
      minted sha256 ctx org label role scopes newId bytes (cp_now s)" for label role newId bytes
    by (simp add: key_row_def stored_key_def minted_def issueApiKey_def key_request_def Let_def)
  from createApiKey_runs [OF assms] obtain label role newId bytes w1 w2 w3 where
    role: "roleFor ctx org = Some role" and label: "bounded_name ''API key name'' name = Inr label"
    and id: "on_far ids (q, s, t, a, y) = (Inr newId, w1)"
    and bytes: "on_far random w1 = (Inr bytes, w2)" and secret: "secret = SECRET_PREFIX @ bytes"
    and made: "createApiKey_row (stored_key (minted sha256 ctx org label role scopes newId bytes (api_clock w1))) w2 =
      (Inr summary, w3)"
    and told: "recordAuditEvent (audit_by ctx org ''api_key.created'' ''api_key'' (ks_id summary)
      [(''prefix'', JString (ks_keyPrefix summary)), (''scopes'', JArray (map JString (ks_scopes summary)))]) w3 =
      (Inr (), w')"
    by (auto simp: key_wiring_def minted_def)
  from id obtain y1 where w1: "w1 = (q, s, t, a, y1)" and from_ids: "fst (ids y) = Inr newId" by (auto simp: on_far_ok)
  from bytes obtain y2 where w2: "w2 = (q, s, t, a, y2)" by (auto simp: on_far_ok w1)
  have clock: "api_clock w1 = cp_now s" by (simp add: w1 api_clock_def)
  define r where "r = minted sha256 ctx org label role scopes newId bytes (cp_now s)"
  have keys: "kc_keyHash (stored_key r) = sha256 secret" "kc_id (stored_key r) = newId" "ka_id r = newId"
    by (simp_all add: r_def stored_key_def minted_def issueApiKey_def key_request_def Let_def secret)
  from made have up: "cp_up s" and summary: "summary = key_summary r"
    and w3: "w3 = (q, s, t, a\<lparr> ac_keys := ac_keys a @ [r] \<rparr>, y2)"
    and new: "\<forall>k \<in> set (ac_keys a). kr_keyHash k \<noteq> sha256 secret \<and> ka_id k \<noteq> newId"
    using row [of label role newId bytes] keys
    by (auto simp: createApiKey_row_def account_op_ok w2 clock r_def [symmetric] list_ex_iff Let_def split: if_splits)
  from told have "w' = (q, s, t\<lparr> at_audit := at_audit t @ [audit_entry.extend
      (audit_by ctx org ''api_key.created'' ''api_key'' newId
        [(''prefix'', JString (kr_keyPrefix r)), (''scopes'', JArray (map JString (ka_scopes r)))])
      \<lparr> ad_createdAt = cp_now s \<rparr>] \<rparr>, a\<lparr> ac_keys := ac_keys a @ [r] \<rparr>, y2)"
    by (simp add: recordAuditEvent_ok w3 summary key_summary_def keys)
  with up role label from_ids secret new summary show ?thesis unfolding Let_def r_def by blast
qed

subsection \<open>What is kept of a secret\<close>

lemma minted_sel:
  "ka_id (minted sha256 ctx org label role scopes newId bytes now) = newId"
  "ka_organizationId (minted sha256 ctx org label role scopes newId bytes now) = org"
  "ka_ownerId (minted sha256 ctx org label role scopes newId bytes now) = pr_userId (cx_principal ctx)"
  "ka_revokedAt (minted sha256 ctx org label role scopes newId bytes now) = None"
  "ka_createdAt (minted sha256 ctx org label role scopes newId bytes now) = At now"
  "kr_keyHash (minted sha256 ctx org label role scopes newId bytes now) = sha256 (SECRET_PREFIX @ bytes)"
  "ka_scopes (minted sha256 ctx org label role scopes newId bytes now) =
     map capability_name (boundedScopes (List.map_filter capability_of scopes) role)"
  by (simp_all add: minted_def issueApiKey_def key_request_def Let_def)

lemma minted_by_digest:
  assumes "sha256 (SECRET_PREFIX @ bytes) = sha256 (SECRET_PREFIX @ bytes')"
    "take (length SECRET_PREFIX + 4) (SECRET_PREFIX @ bytes) = take (length SECRET_PREFIX + 4) (SECRET_PREFIX @ bytes')"
  shows "minted sha256 ctx org label role scopes newId bytes now = minted sha256 ctx org label role scopes newId bytes' now"
  using assms by (simp add: minted_def issueApiKey_def Let_def)


subsection \<open>A key that mints a stronger one\<close>

lemma authenticates_minted:
  fixes r :: api_key_record
  assumes up: "cp_up s" and stored: "first_where (\<lambda>k. kr_keyHash k = sha256 secret) (ac_keys a) = Some r"
    and live: "ka_revokedAt r = None" "ka_createdAt r = At (cp_now s)"
    and owner: "roleIn (at_memberships t) (ka_organizationId r) (key_owner r) = Some role"
    and scope: "capability_name c \<in> set (ka_scopes r)" "hasCapability role c"
    and looks: "looksLikeApiKey secret"
  shows "\<exists>ctx' w'. buildContext sha256 (context_wiring verify) (Some secret) (q, s, t, a, y) = (Inr ctx', w') \<and>
    allowed ctx' (ka_organizationId r) c"
proof -
  let ?ms = "filter (\<lambda>m. mb_userId m = ka_ownerId r) (at_memberships t)"
  let ?k = "api_key_authority.truncate r"
  have find: "find (\<lambda>m. mb_organizationId m = o' \<and> mb_userId m = ka_ownerId r) (filter (\<lambda>m. mb_userId m = ka_ownerId r) ms) =
      find (\<lambda>m. mb_organizationId m = o' \<and> mb_userId m = ka_ownerId r) ms" for o' ms
    by (induction ms) auto
  have auth: "ka_organizationId ?k = ka_organizationId r" "ka_ownerId ?k = ka_ownerId r" "ka_scopes ?k = ka_scopes r"
    "ka_revokedAt ?k = ka_revokedAt r" "ka_createdAt ?k = ka_createdAt r" "ka_id ?k = ka_id r"
    by (simp_all add: api_key_authority.defs)
  from owner obtain m where m: "find (\<lambda>m. mb_organizationId m = ka_organizationId r \<and> mb_userId m = ka_ownerId r)
      (at_memberships t) = Some m" "mb_role m = role"
    by (auto simp: roleIn_owner key_owner_def)
  have role: "roleForKey ?k ?ms = Some role" by (simp add: roleForKey_def auth find m)
  have "keyAllows ?k c (cp_now s)" using scope live by (simp add: keyAllows_def isKeyActive_def auth)
  moreover have can: "can ?ms (ka_organizationId r) (key_owner r) c"
    using m scope(2) by (simp add: can_iff roleIn_owner key_owner_def find)
  ultimately have granted: "c \<in> set (effectiveScopes ?k ?ms (cp_now s))"
    using effectiveScopes_iff [of c ?k ?ms] by (simp add: auth key_owner_def)
  have can': "can ?ms (ka_organizationId r) p c" if "pr_userId p = ka_ownerId r" for p
    using m scope(2) that by (simp add: can_iff roleIn_owner find)
  show ?thesis
    using looks granted can' role live
    by (auto simp: buildContext_def authenticateApiKey_def stampKeyUse_def context_wiring_def apiKeyResolver_def
        findApiKeyByHash_row_def membershipsFor_def getProfileForService_row_def markApiKeyUsed_row_def
        io_simps api_simps up stored api_clock_def auth Let_def allowed_def looksLikeApiKey_def io_catch_apply)
qed

text \<open>
  C17. A caller that authenticated with an API key holding \<open>apikey:create\<close> obtains any capability of the
  key owner's role, although its own key does not carry it: the new key's scopes are bounded by the
  role alone, and its secret is accepted at once.
\<close>

theorem a_key_mints_a_stronger_key:
  assumes key: "cx_apiKey ctx = Some key" "c \<notin> set (kx_scopes key)"
    and owner: "roleFor ctx org = Some role" "hasCapability role c"
    and current: "roleIn (at_memberships t) org (cx_principal ctx) = Some role"
    and run: "createApiKey ctx (key_wiring d ids random sha256) org name [capability_name c] (q, s, t, a, y) =
      (Inr (summary, secret), w')"
    and looks: "looksLikeApiKey secret"
  shows "\<not> allowed ctx org c \<and>
    (\<exists>ctx' w''. buildContext sha256 (context_wiring verify) (Some secret) w' = (Inr ctx', w'') \<and> allowed ctx' org c)"
proof -
  have weak: "\<not> allowed ctx org c" using key by (simp add: allowed_def)
  from createApiKey_wired [OF run] owner(1) obtain label newId bytes y' t' where up: "cp_up s"
    and secret: "secret = SECRET_PREFIX @ bytes"
    and new: "\<forall>k \<in> set (ac_keys a). kr_keyHash k \<noteq> sha256 secret"
    and t': "at_memberships t' = at_memberships t"
    and w': "w' = (q, s, t', a\<lparr> ac_keys := ac_keys a @
        [minted sha256 ctx org label role [capability_name c] newId bytes (cp_now s)] \<rparr>, y')"
    by (auto simp: Let_def)
  define r where "r = minted sha256 ctx org label role [capability_name c] newId bytes (cp_now s)"
  have sel: "ka_organizationId r = org" "ka_ownerId r = pr_userId (cx_principal ctx)" "ka_revokedAt r = None"
    "ka_createdAt r = At (cp_now s)" "kr_keyHash r = sha256 secret"
    "ka_scopes r = map capability_name (boundedScopes [c] role)"
    by (simp_all add: r_def minted_sel secret List.map_filter_simps)
  have stored: "first_where (\<lambda>k. kr_keyHash k = sha256 secret) (ac_keys (a\<lparr> ac_keys := ac_keys a @ [r] \<rparr>)) = Some r"
    using new sel(5) by (auto simp: first_where_def find_append find_None_iff split: option.split dest!: find_Some_iff')
  have scope: "capability_name c \<in> set (ka_scopes r)" using owner(2) by (simp add: sel set_boundedScopes)
  have held: "roleIn (at_memberships t') (ka_organizationId r) (key_owner r) = Some role"
    using current by (simp add: roleIn_owner key_owner_def sel t' roleIn_def)
  from authenticates_minted [of s sha256 secret "a\<lparr> ac_keys := ac_keys a @ [r] \<rparr>" r t' role c,
      OF up stored sel(3,4) held scope owner(2) looks, where q = q and y = y' and verify = verify]
  show ?thesis using weak by (auto simp: w' r_def [symmetric] sel)
qed

subsection \<open>Concrete instances\<close>

definition minting_caller :: request_context where
  "minting_caller = sample_owner\<lparr> cx_apiKey := Some \<lparr> kx_keyId = ''k0'', kx_organizationId = ''o'',
     kx_scopes = [ApikeyCreate] \<rparr> \<rparr>"

definition minting :: "string \<Rightarrow> (unit, unit) account_world key_deps" where
  "minting bytes = key_wiring no_date (io_return ''k1'') (io_return bytes) (\<lambda>s. take 14 s)"

abbreviation mint :: "string \<Rightarrow> (failure + api_key_summary \<times> string) \<times> (unit, unit) account_world" where
  "mint bytes \<equiv> createApiKey minting_caller (minting bytes) ''o'' ''ci'' [capability_name DataDestroy]
     ((), sample_plane, sample_tables, no_accounts, ())"

lemma mint_runs:
  "case fst (mint ''abcdefghijklmnopqrstuvwxyz'') of Inl _ \<Rightarrow> False
   | Inr (k, secret) \<Rightarrow> secret = SECRET_PREFIX @ ''abcdefghijklmnopqrstuvwxyz''"
  "case fst (mint ''abcdefgzzzzzzzzzzzzzzzzzzz'') of Inl _ \<Rightarrow> False
   | Inr (k, secret) \<Rightarrow> secret = SECRET_PREFIX @ ''abcdefgzzzzzzzzzzzzzzzzzzz''"
  by code_simp+


theorem a_key_mints_a_stronger_key_witness:
  "\<not> allowed minting_caller ''o'' DataDestroy \<and>
   (\<exists>k secret w ctx' w'. mint ''abcdefghijklmnopqrstuvwxyz'' = (Inr (k, secret), w) \<and>
     buildContext (\<lambda>s. take 14 s) (context_wiring (\<lambda>_. io_return None)) (Some secret) w = (Inr ctx', w') \<and>
     allowed ctx' ''o'' DataDestroy)"
proof -
  obtain k secret w where one: "mint ''abcdefghijklmnopqrstuvwxyz'' = (Inr (k, secret), w)"
    and secret: "secret = SECRET_PREFIX @ ''abcdefghijklmnopqrstuvwxyz''"
    using mint_runs(1) by (cases "mint ''abcdefghijklmnopqrstuvwxyz''") (auto split: sum.splits prod.splits)
  have key: "cx_apiKey minting_caller = Some \<lparr> kx_keyId = ''k0'', kx_organizationId = ''o'', kx_scopes = [ApikeyCreate] \<rparr>"
    "DataDestroy \<notin> set (kx_scopes \<lparr> kx_keyId = ''k0'', kx_organizationId = ''o'', kx_scopes = [ApikeyCreate] \<rparr>)"
    by (simp_all add: minting_caller_def)
  have owner: "roleFor minting_caller ''o'' = Some Owner" "hasCapability Owner DataDestroy" by code_simp+
  have current: "roleIn (at_memberships sample_tables) ''o'' (cx_principal minting_caller) = Some Owner" by code_simp
  have looks: "looksLikeApiKey secret" unfolding secret by code_simp
  from a_key_mints_a_stronger_key [OF key owner current one [unfolded minting_def] looks,
      where verify = "\<lambda>_. io_return None"] one
  show ?thesis by blast
qed

end
