(* ===== verification/Variable_Laws.thy ===== *)
theory Variable_Laws
  imports Account_Wiring
begin

section \<open>What becomes of a variable\<close>

text \<open>
  Setting a variable over the wired store.  The cipher and the identifiers are functions here; the
  hosting engine acts on the far end of the world.
\<close>

definition env_wiring ::
  "(string \<Rightarrow> millis option) \<Rightarrow> ('q, 'y) account_world hosting_adapter \<Rightarrow> string \<Rightarrow> (string \<Rightarrow> string) \<Rightarrow>
   (string \<Rightarrow> string option) \<Rightarrow> (string \<Rightarrow> string) \<Rightarrow> ('q, 'y) account_world env_var_deps" where
  "env_wiring d hosting newId enc dec sha256 =
     \<lparr> vd_store = envVarStore d, vd_hosting = hosting, vd_newId = io_return newId,
       vd_cipher = Some \<lparr> sx_encrypt = (\<lambda>v. io_return (enc v)), sx_decrypt = dec \<rparr>, vd_sha256 = sha256 \<rparr>"

lemma env_wiring_sel [simp]:
  "vd_store (env_wiring d h i enc dec sha) = envVarStore d" "vd_hosting (env_wiring d h i enc dec sha) = h"
  "vd_newId (env_wiring d h i enc dec sha) = io_return i" "vd_sha256 (env_wiring d h i enc dec sha) = sha"
  "vd_cipher (env_wiring d h i enc dec sha) = Some \<lparr> sx_encrypt = (\<lambda>v. io_return (enc v)), sx_decrypt = dec \<rparr>"
  by (simp_all add: env_wiring_def)

subsection \<open>A successful save, step by step\<close>

definition environments_of :: "request_context \<Rightarrow> project_row \<Rightarrow> control_plane \<Rightarrow> api_tables \<Rightarrow> environment_row list" where
  "environments_of ctx project s t = listed_order (filter (\<lambda>e. en_projectId e = pj_id project \<and>
     belongs t (pr_userId (cx_principal ctx)) (en_organizationId e)) (cp_environments s))"

text \<open>The application every variable of a project is pushed to.\<close>

definition production_application :: "project_row \<Rightarrow> provider_ref option" where
  "production_application project =
     (if \<not> truthy (pj_providerResourceId project) then None
      else Some \<lparr> ref_organizationId = pj_organizationId project,
                  ref_provider = or_else (pj_provider project) HOSTING_PROVIDER,
                  ref_resourceType = ''application'', ref_resourceId = the (pj_providerResourceId project) \<rparr>)"

lemma resolveEnvironment_ok:
  "resolveEnvironment ctx (env_wiring d h i enc dec sha) project environmentId (q, s, t, a, y) = (Inr e, w') \<longleftrightarrow>
   cp_up s \<and> chosen_environment (environments_of ctx project s t) environmentId = Inr e \<and> w' = (q, s, t, a, y)"
  by (auto simp: resolveEnvironment_def listEnvironments_rows_def io_ok environments_of_def)

lemma applicationRefFor_ok:
  assumes "project_for ctx projectId s t = Some project"
  shows "applicationRefFor (env_wiring d h i enc dec sha) (pr_userId (cx_principal ctx)) project (q, s, t, a, y) =
      (Inr ref, w') \<longleftrightarrow>
    cp_up s \<and> ref = production_application project \<and> w' = (q, s, t, a, y)"
proof -
  have found: "find (\<lambda>r. pj_id r = pj_id project \<and> belongs t (pr_userId (cx_principal ctx)) (pj_organizationId r))
      (cp_projects s) = Some project"
    using assms project_for_in [OF assms] by (auto simp: project_for_def)
  show ?thesis
    by (auto simp: applicationRefFor_def getProjectDeploymentTarget_def first_where_def io_ok found target_columns_def
        production_application_def)
qed

text \<open>The row a save writes, in the tables it leaves.\<close>

definition saved_row ::
  "request_context \<Rightarrow> (string \<Rightarrow> string) \<Rightarrow> (string \<Rightarrow> string) \<Rightarrow> string \<Rightarrow> project_row \<Rightarrow> environment_row \<Rightarrow> string \<Rightarrow>
   set_env_var_input \<Rightarrow> env_var_save" where
  "saved_row ctx sha256 enc newId project e key inp =
     saved_variable ctx sha256 project e newId key (sv_value inp) (or_else (sv_isBuildTime inp) True) (enc (sv_value inp))"

definition set_audit :: "request_context \<Rightarrow> project_row \<Rightarrow> environment_row \<Rightarrow> string \<Rightarrow> string \<Rightarrow> bool \<Rightarrow> applied \<Rightarrow> audit_entry" where
  "set_audit ctx project e newId key isBuildTime done_at =
     audit_by ctx (pj_organizationId project) ''env.set'' ''project_env_var'' newId
       [(''projectId'', JString (pj_id project)), (''environmentId'', JString (en_id e)),
        (''key'', JString key), (''isBuildTime'', JBool isBuildTime), (''applied'', JString (applied_name done_at))]"

lemma setEnvVar_admitted:
  assumes "setEnvVar ctx (env_wiring d h i enc dec sha) inp (q, s, t, a, y) = (Inr out, w')"
  obtains (step) project key e where "cp_up s" "project_for ctx (sv_projectId inp) s t = Some project"
    "requireCapability ctx (pj_organizationId project) ProjectUpdate = Inr ()" "normaliseKey (sv_key inp) = Inr key"
    "checkValue (sv_value inp) = Inr (sv_value inp)"
    "chosen_environment (environments_of ctx project s t) (sv_environmentId inp) = Inr e"
proof -
  have "checkValue v = Inr v' \<Longrightarrow> v' = v" for v v' by (auto simp: checkValue_def split: if_splits)
  with assms show thesis
    by (auto simp: setEnvVar_def io_bind_ok [of _ _ "(q, s, t, a, y)"] authorized_wired check_that_ok
        resolveEnvironment_ok Let_def intro: step)
qed

lemma setEnvVar_wired:
  assumes up: "cp_up s" and project: "project_for ctx (sv_projectId inp) s t = Some project"
    and may: "requireCapability ctx (pj_organizationId project) ProjectUpdate = Inr ()"
    and key: "normaliseKey (sv_key inp) = Inr key" and size: "checkValue (sv_value inp) = Inr (sv_value inp)"
    and e: "chosen_environment (environments_of ctx project s t) (sv_environmentId inp) = Inr e"
  shows "setEnvVar ctx (env_wiring d h i enc dec sha) inp (q, s, t, a, y) =
    io_bind (push_to_engine (env_wiring d h i enc dec sha) (projr (env_writesFor (envVarStore d))) project e
        (production_application project)
        \<lparr> ew_key = key, ew_value = sv_value inp, ew_isBuildTime = Some (or_else (sv_isBuildTime inp) True) \<rparr>)
      (\<lambda>(done_at, reason).
        io_then (recordAuditEvent (set_audit ctx project e i key (or_else (sv_isBuildTime inp) True) done_at))
          (io_return \<lparr> so_variable = env_var.truncate (saved_row ctx sha enc i project e key inp),
             so_applied = done_at, so_redeployRequired = or_else (sv_isBuildTime inp) True, so_engineReason = reason \<rparr>))
      (q, s, t, a\<lparr> ac_vars := saved_vars (saved_row ctx sha enc i project e key inp) (ac_vars a) \<rparr>, y)"
proof -
  have auth: "authorized_project ctx (envVarStore d) (sv_projectId inp) ProjectUpdate (q, s, t, a, y) =
      (Inr project, (q, s, t, a, y))"
    using up project may by (simp add: authorized_wired)
  have env: "resolveEnvironment ctx (env_wiring d h i enc dec sha) project (sv_environmentId inp) (q, s, t, a, y) =
      (Inr e, (q, s, t, a, y))"
    using up e by (simp add: resolveEnvironment_ok)
  have ref: "applicationRefFor (env_wiring d h i enc dec sha) (pr_userId (cx_principal ctx)) project (q, s, t, a', y) =
      (Inr (production_application project), (q, s, t, a', y))" for a'
    using up by (simp add: applicationRefFor_ok [OF project])
  have save: "saveEnvVar_row v (q, s, t, a, y) =
      (Inr (env_var.truncate v), (q, s, t, a\<lparr> ac_vars := saved_vars v (ac_vars a) \<rparr>, y))" for v
    using up by (simp add: saveEnvVar_row_def api_simps)
  have row: "saved_variable ctx sha project e i key (sv_value inp) (or_else (sv_isBuildTime inp) True) (enc (sv_value inp)) =
      saved_row ctx sha enc i project e key inp"
    by (simp add: saved_row_def)
  have id: "va_id (env_var.truncate (saved_row ctx sha enc i project e key inp)) = i"
    by (simp add: env_var.defs saved_row_def saved_variable_def)
  show ?thesis
    by (simp add: setEnvVar_def io_bind_apply [of _ _ "(q, s, t, a, y)"] auth env check_that_apply key size ref save
        io_return_apply io_bind_apply [of "applicationRefFor _ _ _"] row id set_audit_def Let_def split_def)
qed

subsection \<open>The engine half\<close>

type_synonym 'y far_engine = "adapter_context \<Rightarrow> provider_ref \<Rightarrow> env_var_write \<Rightarrow> ('y, env_var_state adapter_result) io"

definition with_ref :: "project_row \<Rightarrow> environment_row \<Rightarrow> string \<Rightarrow> provider_ref \<Rightarrow> env_var_state \<Rightarrow> env_var_row list \<Rightarrow> env_var_row list" where
  "with_ref project e key application state vars =
     patch_where (\<lambda>v. va_organizationId v = pj_organizationId project \<and> is_var (pj_id project) (en_id e) key v)
       (\<lambda>v. v\<lparr> vo_engineRef := Some (or_else (ev_engineRef state) []), vo_provider := Some (ref_provider application),
               vo_providerResourceId := Some (ref_resourceId application) \<rparr>) vars"

text \<open>The rows after a save: as written, or with the engine's handle recorded.\<close>

definition stored_vars :: "project_row \<Rightarrow> environment_row \<Rightarrow> string \<Rightarrow> env_var_row list \<Rightarrow> env_var_row list \<Rightarrow> bool" where
  "stored_vars project e key vars vars' \<longleftrightarrow>
     vars' = vars \<or> (\<exists>application state. vars' = with_ref project e key application state vars)"

lemma stored_same: "stored_vars project e key vars vars"
  by (simp add: stored_vars_def)

lemma stored_ref: "stored_vars project e key vars (with_ref project e key application state vars)"
  by (auto simp: stored_vars_def)

lemma push_wired:
  assumes up: "cp_up s" and engine: "ha_createEnvVar h = (\<lambda>c r v. on_far (eng c r v))"
  shows "push_to_engine (env_wiring d h i enc dec sha) (projr (env_writesFor (envVarStore d))) project e ref wr (q, s, t, a, y) =
    (case ref of
       None \<Rightarrow> (Inr (Stored, Some NOT_ON_ENGINE), (q, s, t, a, y))
     | Some application \<Rightarrow>
         (case eng (env_call_ctx ''env-'' project e (ew_key wr)) application wr y of
            (Inl message, y') \<Rightarrow> (Inl (OtherError message), (q, s, t, a, y'))
          | (Inr (AErr st reason), y') \<Rightarrow> (Inr (Stored, Some reason), (q, s, t, a, y'))
          | (Inr (AOk st state), y') \<Rightarrow> (Inr (Engine, None),
              (q, s, t, a\<lparr> ac_vars := with_ref project e (ew_key wr) application state (ac_vars a) \<rparr>, y'))))"
  by (simp add: push_to_engine_def engine io_simps api_simps thrown_def setEnvVarEngineRef_row_def up
      with_ref_def ref_var_def [abs_def] split: option.splits prod.splits sum.splits adapter_result.splits)

lemma setEnvVar_engine:
  assumes engine: "ha_createEnvVar h = (\<lambda>c r v. on_far (eng c r v))"
    and run: "setEnvVar ctx (env_wiring d h i enc dec sha) inp (q, s, t, a, y) = (Inr out, (q', s', t', a', y'))"
  obtains (step) project key e where "cp_up s" "project_for ctx (sv_projectId inp) s t = Some project"
    "normaliseKey (sv_key inp) = Inr key"
    "chosen_environment (environments_of ctx project s t) (sv_environmentId inp) = Inr e"
    "stored_vars project e key (saved_vars (saved_row ctx sha enc i project e key inp) (ac_vars a)) (ac_vars a')"
    "case production_application project of None \<Rightarrow> y' = y | Some application \<Rightarrow>
       (\<exists>answer. eng (env_call_ctx ''env-'' project e key) application
          \<lparr> ew_key = key, ew_value = sv_value inp, ew_isBuildTime = Some (or_else (sv_isBuildTime inp) True) \<rparr> y =
          (Inr answer, y'))"
proof (rule setEnvVar_admitted [OF run])
  fix project key e
  assume facts: "cp_up s" "project_for ctx (sv_projectId inp) s t = Some project"
    "requireCapability ctx (pj_organizationId project) ProjectUpdate = Inr ()" "normaliseKey (sv_key inp) = Inr key"
    "checkValue (sv_value inp) = Inr (sv_value inp)"
    "chosen_environment (environments_of ctx project s t) (sv_environmentId inp) = Inr e"
  note wired = run [unfolded setEnvVar_wired [OF facts] io_bind_apply push_wired [OF facts(1) engine]]
  show thesis
  proof (rule step [OF facts(1,2,4,6)])
    show "case production_application project of None \<Rightarrow> y' = y | Some application \<Rightarrow>
       (\<exists>answer. eng (env_call_ctx ''env-'' project e key) application
          \<lparr> ew_key = key, ew_value = sv_value inp, ew_isBuildTime = Some (or_else (sv_isBuildTime inp) True) \<rparr> y =
          (Inr answer, y'))"
      using wired facts(1)
      by (auto simp: io_simps api_simps split: option.splits prod.splits sum.splits adapter_result.splits)
    show "stored_vars project e key (saved_vars (saved_row ctx sha enc i project e key inp) (ac_vars a)) (ac_vars a')"
      using wired facts(1)
      by (auto simp: stored_same stored_ref io_simps api_simps split: option.splits prod.splits sum.splits adapter_result.splits)
  qed
qed

text \<open>
  C19. Every environment's variable is pushed to the project's one application, the production one: a
  value saved for the preview is sent, in the clear and under its key, to what runs in production.
\<close>

theorem every_environment_writes_to_production:
  assumes engine: "ha_createEnvVar h = (\<lambda>c r v. on_far (eng c r v))"
    and run: "setEnvVar ctx (env_wiring d h i enc dec sha) inp (q, s, t, a, y) = (Inr out, (q', s', t', a', y'))"
    and project: "project_for ctx (sv_projectId inp) s t = Some project" "pj_providerResourceId project = Some application"
      "application \<noteq> []"
    and preview: "chosen_environment (environments_of ctx project s t) (sv_environmentId inp) = Inr e"
  shows "\<exists>key answer. normaliseKey (sv_key inp) = Inr key \<and>
    eng (env_call_ctx ''env-'' project e key)
      \<lparr> ref_organizationId = pj_organizationId project, ref_provider = or_else (pj_provider project) HOSTING_PROVIDER,
        ref_resourceType = ''application'', ref_resourceId = application \<rparr>
      \<lparr> ew_key = key, ew_value = sv_value inp, ew_isBuildTime = Some (or_else (sv_isBuildTime inp) True) \<rparr> y =
    (Inr answer, y')"
proof -
  have app: "production_application project = Some
      \<lparr> ref_organizationId = pj_organizationId project, ref_provider = or_else (pj_provider project) HOSTING_PROVIDER,
        ref_resourceType = ''application'', ref_resourceId = application \<rparr>"
    using project(2,3) by (simp add: production_application_def)
  from setEnvVar_engine [OF engine run] show ?thesis
    by (cases) (use project(1) preview app in auto)
qed

subsection \<open>Reading a variable back\<close>

definition var_key :: "env_var_row \<Rightarrow> string \<times> string \<times> string" where
  "var_key v = (va_projectId v, va_environmentId v, va_key v)"

lemma is_var_key: "is_var p e k v \<longleftrightarrow> var_key v = (p, e, k)"
  by (auto simp: is_var_def var_key_def)

lemma is_var_fun: "is_var p e k = (\<lambda>v. var_key v = (p, e, k))"
  by (rule ext) (rule is_var_key)

lemma filter_key: "distinct (map f xs) \<Longrightarrow> x \<in> set xs \<Longrightarrow> filter (\<lambda>v. f v = f x) xs = [x]"
proof (induction xs)
  case (Cons a xs)
  then have "f a \<notin> f ` set xs" by simp
  then have "\<forall>v \<in> set xs. f v \<noteq> f a" by (metis image_eqI)
  with Cons show ?case by (cases "x = a") (auto simp: filter_empty_conv)
qed simp

lemma saved_vars_key:
  fixes i :: env_var_save
  assumes k: "k = (va_projectId i, va_environmentId i, va_key i)"
  shows "saved_vars i vars =
    (if list_ex (\<lambda>v. var_key v = k) vars then map (\<lambda>v. if var_key v = k then merged_var i v else v) vars
     else vars @ [new_var i])"
  by (simp add: saved_vars_def is_var_fun k patch_where_def Let_def)

lemma saved_keys:
  fixes i :: env_var_save
  assumes "k = (va_projectId i, va_environmentId i, va_key i)"
  shows "var_key (merged_var i v) = k" "var_key (new_var i) = k"
    "vs_valueEncrypted (merged_var i v) = vs_valueEncrypted i" "va_isBuildTime (merged_var i v) = va_isBuildTime i"
    "vs_valueEncrypted (new_var i) = vs_valueEncrypted i" "va_isBuildTime (new_var i) = va_isBuildTime i"
  by (simp_all add: assms merged_var_def new_var_def env_var_save.defs var_key_def)

lemma saved_vars_others:
  fixes i :: env_var_save
  assumes k: "k = (va_projectId i, va_environmentId i, va_key i)"
  shows "filter (\<lambda>v. var_key v \<noteq> k) (saved_vars i vars) = filter (\<lambda>v. var_key v \<noteq> k) vars"
proof -
  have "filter (\<lambda>v. var_key v \<noteq> k) (map (\<lambda>v. if var_key v = k then merged_var i v else v) xs) =
      filter (\<lambda>v. var_key v \<noteq> k) xs" for xs
    by (induction xs) (simp_all add: saved_keys [OF k])
  then show ?thesis by (simp add: saved_vars_key [OF k] saved_keys [OF k])
qed

lemma saved_vars_distinct:
  fixes i :: env_var_save
  assumes "distinct (map var_key vars)" and k: "k = (va_projectId i, va_environmentId i, va_key i)"
  shows "distinct (map var_key (saved_vars i vars))"
proof -
  have "map var_key (map (\<lambda>v. if var_key v = k then merged_var i v else v) vars) = map var_key vars"
    by (simp add: saved_keys [OF k])
  with assms(1) show ?thesis
    by (auto simp del: map_map simp: saved_vars_key [OF k] saved_keys [OF k] list_ex_iff)
qed

lemma saved_vars_row:
  fixes i :: env_var_save
  assumes "distinct (map var_key vars)" and k: "k = (va_projectId i, va_environmentId i, va_key i)"
  shows "\<exists>row. filter (\<lambda>v. var_key v = k) (saved_vars i vars) = [row] \<and>
      vs_valueEncrypted row = vs_valueEncrypted i \<and> va_isBuildTime row = va_isBuildTime i"
proof -
  obtain row where row: "row \<in> set (saved_vars i vars)" "var_key row = k" "vs_valueEncrypted row = vs_valueEncrypted i"
    "va_isBuildTime row = va_isBuildTime i"
  proof (cases "list_ex (\<lambda>v. var_key v = k) vars")
    case True
    then obtain v where "v \<in> set vars" "var_key v = k" by (auto simp: list_ex_iff)
    with True have "merged_var i v \<in> set (saved_vars i vars)" by (auto simp: saved_vars_key [OF k])
    then show thesis by (rule that) (simp_all add: saved_keys [OF k])
  next
    case False
    then have "new_var i \<in> set (saved_vars i vars)" by (simp add: saved_vars_key [OF k])
    then show thesis by (rule that) (simp_all add: saved_keys [OF k])
  qed
  with filter_key [OF saved_vars_distinct [OF assms] row(1)] show ?thesis by auto
qed

text \<open>Recording the engine's handle keeps every other column.\<close>

lemma with_ref_keeps:
  "map var_key (with_ref project e key application state vars) = map var_key vars"
  "map vs_valueEncrypted (with_ref project e key application state vars) = map vs_valueEncrypted vars"
  by (simp_all add: with_ref_def patch_where_def var_key_def)

lemma with_ref_filter:
  "filter (\<lambda>v. var_key v = k) (with_ref project e key application state vars) =
     with_ref project e key application state (filter (\<lambda>v. var_key v = k) vars)"
  "k = (pj_id project, en_id e, key) \<Longrightarrow>
   filter (\<lambda>v. var_key v \<noteq> k) (with_ref project e key application state vars) = filter (\<lambda>v. var_key v \<noteq> k) vars"
  by (induction vars) (simp_all add: with_ref_def patch_where_def var_key_def is_var_def)


text \<open>
  What is kept of a value is its ciphertext and its fingerprint: while the project has no application
  to push to, two values with the same ones have the same answer and leave the same world, the audit
  trail included.
\<close>

theorem a_value_leaves_only_its_ciphertext:
  assumes project: "project_for ctx (sv_projectId inp) s t = Some project" "pj_providerResourceId project = None"
    and sizes: "utf8_bytes (sv_value inp) \<le> MAX_VALUE_BYTES" "utf8_bytes v \<le> MAX_VALUE_BYTES"
    and same: "enc (sv_value inp) = enc v" "valueFingerprint sha (sv_value inp) = valueFingerprint sha v"
    and engine: "ha_createEnvVar h = (\<lambda>c r v. on_far (eng c r v))"
    and run: "setEnvVar ctx (env_wiring d h i enc dec sha) inp (q, s, t, a, y) = (Inr out, w')"
  shows "setEnvVar ctx (env_wiring d h i enc dec sha) (inp\<lparr> sv_value := v \<rparr>) (q, s, t, a, y) = (Inr out, w')"
proof (rule setEnvVar_admitted [OF run])
  fix p key e
  assume facts: "cp_up s" "project_for ctx (sv_projectId inp) s t = Some p"
    "requireCapability ctx (pj_organizationId p) ProjectUpdate = Inr ()" "normaliseKey (sv_key inp) = Inr key"
    "checkValue (sv_value inp) = Inr (sv_value inp)"
    "chosen_environment (environments_of ctx p s t) (sv_environmentId inp) = Inr e"
  have p: "p = project" using facts(2) project(1) by simp
  have none: "production_application project = None" by (simp add: production_application_def project(2))
  have size: "checkValue v = Inr v" using sizes(2) by (simp add: checkValue_def)
  have row: "saved_row ctx sha enc i project e key (inp\<lparr> sv_value := v \<rparr>) = saved_row ctx sha enc i project e key inp"
    using same by (simp add: saved_row_def saved_variable_def)
  have other: "setEnvVar ctx (env_wiring d h i enc dec sha) (inp\<lparr> sv_value := v \<rparr>) (q, s, t, a, y) =
      setEnvVar ctx (env_wiring d h i enc dec sha) inp (q, s, t, a, y)"
    using facts size setEnvVar_wired [OF facts, of d h i enc dec sha q a y]
      setEnvVar_wired [of s ctx "inp\<lparr> sv_value := v \<rparr>" t p key e d h i enc dec sha q a y]
    by (simp add: p none row push_to_engine_def)
  with run show ?thesis by simp
qed

subsection \<open>Concrete instances\<close>

definition preview_environment :: environment_row where
  "preview_environment = \<lparr> en_id = ''e2'', en_organizationId = ''o'', en_projectId = ''p'', en_name = ''preview'',
     en_kind = EnvPreview, en_isDefault = False \<rparr>"

definition env_plane :: "string option \<Rightarrow> control_plane" where
  "env_plane application = sample_plane
     \<lparr> cp_projects := [sample_project\<lparr> pj_providerResourceId := application \<rparr>],
       cp_environments := [preview_environment] \<rparr>"

type_synonym seen_calls = "(string \<times> string \<times> string) list"

definition recording_engine :: "seen_calls far_engine" where
  "recording_engine c ref v y = (Inr (AOk Succeeded \<lparr> ev_key = ew_key v, ev_value = ew_value v, ev_isBuildTime = True,
     ev_engineRef = Some ''r1'' \<rparr>), y @ [(ref_resourceId ref, ew_key v, ew_value v)])"

definition recording_hosting :: "(unit, seen_calls) account_world hosting_adapter" where
  "recording_hosting = (hostingNotConfigured ''none'' None)
     \<lparr> ha_createEnvVar := (\<lambda>c r v. on_far (recording_engine c r v)) \<rparr>"

definition set_input :: "string \<Rightarrow> set_env_var_input" where
  "set_input v = \<lparr> sv_projectId = ''p'', sv_key = ''token'', sv_value = v, sv_isBuildTime = None,
     sv_environmentId = Some ''e2'' \<rparr>"

abbreviation sample_set ::
  "(string \<Rightarrow> string) \<Rightarrow> string option \<Rightarrow> string \<Rightarrow>
   (failure + set_env_var_outcome) \<times> (unit, seen_calls) account_world" where
  "sample_set enc application v \<equiv>
     setEnvVar sample_owner (env_wiring no_date recording_hosting ''v1'' enc Some (\<lambda>s. ''abcd'')) (set_input v)
       ((), env_plane application, sample_tables, no_accounts, [])"

lemma recording_hosting_engine: "ha_createEnvVar recording_hosting = (\<lambda>c r v. on_far (recording_engine c r v))"
  by (simp add: recording_hosting_def)

lemma sample_set_runs:
  assumes "application \<in> {None, Some ''app''}" "v \<in> {''secret'', ''other''}"
  shows "\<exists>out q' s' t' a' y'. sample_set enc application v = (Inr out, (q', s', t', a', y'))"
proof -
  let ?project = "sample_project\<lparr> pj_providerResourceId := application \<rparr>"
  have up: "cp_up (env_plane application)" by (simp add: env_plane_def sample_plane_def)
  have project: "project_for sample_owner (sv_projectId (set_input v)) (env_plane application) sample_tables = Some ?project"
    by (simp add: project_for_def env_plane_def set_input_def sample_project_def sample_owner_def belongs_def sample_tables_def)
  have may: "requireCapability sample_owner (pj_organizationId ?project) ProjectUpdate = Inr ()"
    by (simp add: sample_project_def) code_simp
  have key: "normaliseKey (sv_key (set_input v)) = Inr ''TOKEN''" by (simp add: set_input_def) code_simp
  have size: "checkValue (sv_value (set_input v)) = Inr (sv_value (set_input v))"
    using assms(2) by (auto simp: set_input_def checkValue_def utf8_bytes_def MAX_VALUE_BYTES_def)
  have chosen: "chosen_environment (environments_of sample_owner ?project (env_plane application) sample_tables)
      (sv_environmentId (set_input v)) = Inr preview_environment"
    by (simp add: environments_of_def env_plane_def set_input_def sample_project_def sample_owner_def belongs_def
        sample_tables_def listed_order_def sort_by_text_def preview_environment_def chosen_environment_def)
  have "\<exists>done_at reason a1 y1. push_to_engine (env_wiring no_date recording_hosting ''v1'' enc Some (\<lambda>s. ''abcd''))
      (projr (env_writesFor (envVarStore no_date))) ?project preview_environment (production_application ?project) wr
      ((), env_plane application, sample_tables, a0, []) =
      (Inr (done_at, reason), ((), env_plane application, sample_tables, a1, y1))" for wr a0
    unfolding push_wired [OF up recording_hosting_engine]
    using assms(1) by (auto simp: recording_engine_def split: option.split)
  then obtain done_at reason a1 y1 where push: "push_to_engine (env_wiring no_date recording_hosting ''v1'' enc Some (\<lambda>s. ''abcd''))
      (projr (env_writesFor (envVarStore no_date))) ?project preview_environment (production_application ?project)
      \<lparr> ew_key = ''TOKEN'', ew_value = sv_value (set_input v), ew_isBuildTime = Some (or_else (sv_isBuildTime (set_input v)) True) \<rparr>
      ((), env_plane application, sample_tables, no_accounts\<lparr> ac_vars :=
         saved_vars (saved_row sample_owner (\<lambda>s. ''abcd'') enc ''v1'' ?project preview_environment ''TOKEN'' (set_input v))
           (ac_vars no_accounts) \<rparr>, []) =
      (Inr (done_at, reason), ((), env_plane application, sample_tables, a1, y1))"
    by blast
  show ?thesis
    unfolding setEnvVar_wired [OF up project may key size chosen] io_bind_apply push
    by (simp add: io_then_apply io_return_apply audit_up [OF up])
qed

theorem every_environment_writes_to_production_witness:
  "\<exists>out q' s' t' a'. sample_set (\<lambda>v. v) (Some ''app'') ''secret'' =
     (Inr out, (q', s', t', a', [(''app'', ''TOKEN'', ''secret'')]))"
proof -
  obtain out q' s' t' a' y' where run: "sample_set (\<lambda>v. v) (Some ''app'') ''secret'' = (Inr out, (q', s', t', a', y'))"
    using sample_set_runs [of "Some ''app''" "''secret''"] by blast
  let ?project = "sample_project\<lparr> pj_providerResourceId := Some ''app'' \<rparr>"
  have project: "project_for sample_owner (sv_projectId (set_input ''secret'')) (env_plane (Some ''app'')) sample_tables =
      Some ?project" by code_simp
  have chosen: "chosen_environment (environments_of sample_owner ?project (env_plane (Some ''app'')) sample_tables)
      (sv_environmentId (set_input ''secret'')) = Inr preview_environment" by code_simp
  have key: "normaliseKey (sv_key (set_input ''secret'')) = Inr ''TOKEN''" by code_simp
  from every_environment_writes_to_production [OF recording_hosting_engine run project _ _ chosen] key
  have "y' = [(''app'', ''TOKEN'', ''secret'')]" by (auto simp: recording_engine_def set_input_def)
  with run show ?thesis by blast
qed


theorem a_value_leaves_only_its_ciphertext_witness:
  "sample_set (\<lambda>v. ''sealed'') None ''secret'' = sample_set (\<lambda>v. ''sealed'') None ''other'' \<and>
   isl (fst (sample_set (\<lambda>v. ''sealed'') None ''secret'')) = False"
proof -
  obtain out w' where run: "sample_set (\<lambda>v. ''sealed'') None ''secret'' = (Inr out, w')"
    using sample_set_runs [of None "''secret''"] by blast
  let ?project = "sample_project\<lparr> pj_providerResourceId := None \<rparr>"
  have project: "project_for sample_owner (sv_projectId (set_input ''secret'')) (env_plane None) sample_tables = Some ?project"
    "pj_providerResourceId ?project = None" by code_simp+
  have sizes: "utf8_bytes (sv_value (set_input ''secret'')) \<le> MAX_VALUE_BYTES" "utf8_bytes ''other'' \<le> MAX_VALUE_BYTES"
    by (simp_all add: set_input_def utf8_bytes_def MAX_VALUE_BYTES_def)
  have "(set_input ''secret'')\<lparr> sv_value := ''other'' \<rparr> = set_input ''other''" by (simp add: set_input_def)
  with a_value_leaves_only_its_ciphertext [OF project sizes _ _ recording_hosting_engine run] run show ?thesis
    by (simp add: valueFingerprint_def)
qed

end
