(* ===== verification/Domain_Laws.thy ===== *)
theory Domain_Laws
  imports Account_Wiring
begin

section \<open>What a verification publishes\<close>

text \<open>
  The domain procedures over the wired store.  The verifier and the edge answer without moving the world;
  the hosting engine keeps, at the far end of the world, the hostnames of each application, and replaces
  the list when it is told to (\<open>infra/deployment/runtime-server.mjs\<close>).
\<close>

type_synonym routes = "string \<Rightarrow> string list"

definition hosting_routes :: "('q, routes) account_world set_domains" where
  "hosting_routes c ref hostnames =
     on_far (\<lambda>y. (Inr (AOk Succeeded (True, None)), y(ref_resourceId ref := hostnames)))"

definition answering_edge ::
  "('q, 'y) account_world security_edge \<Rightarrow> operation_ref adapter_result \<Rightarrow> unit adapter_result \<Rightarrow>
   ('q, 'y) account_world security_edge" where
  "answering_edge base published removed =
     base\<lparr> se_publishRoute := (\<lambda>c r. io_return published), se_removeRoute := (\<lambda>c r. io_return removed) \<rparr>"

definition domain_wiring ::
  "(string \<Rightarrow> millis option) \<Rightarrow> (string \<Rightarrow> string \<Rightarrow> domain_verification adapter_result) \<Rightarrow>
   ('q, routes) account_world security_edge \<Rightarrow> string \<Rightarrow> string \<Rightarrow> ('q, routes) account_world domain_deps" where
  "domain_wiring d ver edge newId token =
     \<lparr> od_store = domainStore d,
       od_verifier = \<lparr> vf_resolveDomainVerification = (\<lambda>c h k. io_return (ver h k)) \<rparr>,
       od_edge = edge, od_setDomains = Some hosting_routes, od_newId = io_return newId,
       od_newToken = io_return token, od_now = api_clock \<rparr>"

lemma domain_wiring_sel [simp]:
  "od_store (domain_wiring d ver edge newId token) = domainStore d"
  "od_edge (domain_wiring d ver edge newId token) = edge"
  "od_setDomains (domain_wiring d ver edge newId token) = Some hosting_routes"
  "od_newId (domain_wiring d ver edge newId token) = io_return newId"
  "od_newToken (domain_wiring d ver edge newId token) = io_return token"
  "od_now (domain_wiring d ver edge newId token) = api_clock"
  "vf_resolveDomainVerification (od_verifier (domain_wiring d ver edge newId token)) = (\<lambda>c h k. io_return (ver h k))"
  by (simp_all add: domain_wiring_def)

lemma answering_edge_sel [simp]:
  "se_publishRoute (answering_edge base published removed) = (\<lambda>c r. io_return published)"
  "se_removeRoute (answering_edge base published removed) = (\<lambda>c r. io_return removed)"
  by (simp_all add: answering_edge_def)

subsection \<open>The domain a request names\<close>

definition domain_for :: "request_context \<Rightarrow> string \<Rightarrow> api_tables \<Rightarrow> account_tables \<Rightarrow> domain option" where
  "domain_for ctx domainId t a =
     find (\<lambda>d. do_id d = domainId \<and> belongs t (pr_userId (cx_principal ctx)) (do_organizationId d)) (ac_domains a)"

lemma the_domain_wired:
  assumes "cp_up s" "domain_for ctx domainId t a = Some row" "do_organizationId row = org"
    "ow_getDomain writes = getDomain_row"
  shows "the_domain ctx writes org domainId (q, s, t, a, y) = (Inr row, (q, s, t, a, y))"
  using assms by (simp add: the_domain_def getDomain_row_def domain_for_def first_where_def io_simps api_simps)

lemma domain_for_in:
  "domain_for ctx domainId t a = Some row \<Longrightarrow> row \<in> set (ac_domains a) \<and> do_id row = domainId"
  unfolding domain_for_def by (auto dest!: find_Some_iff')

subsection \<open>Verifying, step by step\<close>

definition judgement :: "domain \<Rightarrow> domain_verification \<Rightarrow> millis \<Rightarrow> domain_verification_input" where
  "judgement row answer now =
     \<lparr> dy_id = do_id row, dy_organizationId = do_organizationId row, dy_verified = ve_verified answer,
       dy_provider = ve_provider answer, dy_providerResourceId = ve_providerResourceId answer,
       dy_verifiedAt = (if ve_verified answer then Some now else None) \<rparr>"

definition judged_rows :: "domain \<Rightarrow> domain_verification \<Rightarrow> millis \<Rightarrow> domain list \<Rightarrow> domain list" where
  "judged_rows row answer now rows = patch_where (judged_row (judgement row answer now)) (judged (judgement row answer now)) rows"

text \<open>The rest of a verification, once the verifier has answered.\<close>

definition after_answer ::
  "request_context \<Rightarrow> 'w domain_deps \<Rightarrow> domain \<Rightarrow> domain_verification \<Rightarrow> domain option \<Rightarrow> ('w, failure, verify_result) eio" where
  "after_answer ctx deps row answer updated =
     io_bind (publish_routes ctx deps row (ve_verified answer)) (\<lambda>(edge, hosting).
     io_then (as_recordAuditEvent (od_store deps)
        (audit_by ctx (do_organizationId row)
          (if ve_verified answer then ''domain.verified'' else ''domain.verification_failed'')
          ''domain'' (do_id row)
          [(''hostname'', JString (do_hostname row)), (''verified'', JBool (ve_verified answer))]))
       (io_return \<lparr> vy_domain = or_else updated (row\<lparr> do_verified := ve_verified answer \<rparr>),
                    vy_detail = ve_detail answer, vy_edge = edge, vy_hostingRoute = hosting \<rparr>))"

lemma verifyDomain_wired:
  assumes "cp_up s" "requireCapability ctx org DomainVerify = Inr ()" "domain_for ctx domainId t a = Some row"
    "do_organizationId row = org" "do_verificationToken row = Some token" "token \<noteq> []"
  shows "verifyDomain ctx (domain_wiring d ver edge i k) org domainId (q, s, t, a, y) =
    (case ver (do_hostname row) token of
       AErr st reason \<Rightarrow>
         (Inl (ApiError (if st = NotConfigured then EngineUnavailable else Conflict)
            (''The domain verifier could not confirm this hostname: '' @ reason)), (q, s, t, a, y))
     | AOk _ answer \<Rightarrow>
         after_answer ctx (domain_wiring d ver edge i k) row answer
           (find (judged_row (judgement row answer (cp_now s))) (judged_rows row answer (cp_now s) (ac_domains a)))
           (q, s, t, a\<lparr> ac_domains := judged_rows row answer (cp_now s) (ac_domains a) \<rparr>, y))"
  using assms(1-3,5-6) unfolding assms(4) [symmetric]
  by (cases "ver (do_hostname row) token")
     (simp_all add: verifyDomain_def io_simps check_that_apply the_domain_wired thrown_def api_clock_def
      setDomainVerification_row_def account_op_up judgement_def [symmetric] judged_rows_def first_where_def Let_def
      after_answer_def)


subsection \<open>The parts of a verification\<close>

lemma answered_edge_wired:
  "cp_up s \<Longrightarrow> \<exists>t' fact. publish_edge ctx (domain_wiring d ver (answering_edge base published removed) i k) row
      (q, s, t, a, y) = (Inr fact, (q, s, t', a, y)) \<and> at_memberships t' = at_memberships t"
  by (simp add: publish_edge_def io_simps thrown_def audit_up)

lemma hosting_wired:
  assumes "cp_up s"
  shows "publish_hosting (domain_wiring d ver edge i k) row (q, s, t, a, y) =
    (case (if \<not> truthy (do_projectId row) then None
           else first_where (is_project (do_organizationId row) (the (do_projectId row))) (cp_projects s)) of
       None \<Rightarrow> (Inr None, (q, s, t, a, y))
     | Some project \<Rightarrow>
         if \<not> truthy (pj_providerResourceId project) then (Inr None, (q, s, t, a, y))
         else (Inr (Some (True, None)), (q, s, t, a, y(the (pj_providerResourceId project) := [do_hostname row]))))"
  using assms
  by (auto simp: publish_hosting_def routed_target_def deploymentTarget_service_def target_columns_def io_simps
      api_simps thrown_def hosting_routes_def hosting_ref_def routed_fact_def split: option.splits)

text \<open>The far end of the world once a verified hostname is published.\<close>

definition routed_by :: "control_plane \<Rightarrow> domain \<Rightarrow> routes \<Rightarrow> routes" where
  "routed_by s row y =
     (case (if \<not> truthy (do_projectId row) then None
            else first_where (is_project (do_organizationId row) (the (do_projectId row))) (cp_projects s)) of
        None \<Rightarrow> y
      | Some project \<Rightarrow>
          if \<not> truthy (pj_providerResourceId project) then y
          else y(the (pj_providerResourceId project) := [do_hostname row]))"

lemma hosting_routed:
  "cp_up s \<Longrightarrow> \<exists>h. publish_hosting (domain_wiring d ver edge i k) row (q, s, t, a, y) =
     (Inr h, (q, s, t, a, routed_by s row y))"
  by (auto simp: hosting_wired routed_by_def split: option.split)

lemma after_verified:
  assumes "cp_up s" "ve_verified answer"
  shows "\<exists>r t'. after_answer ctx (domain_wiring d ver (answering_edge base published removed) i k) row answer updated
      (q, s, t, a, y) = (Inr r, (q, s, t', a, routed_by s row y)) \<and>
    vy_domain r = or_else updated (row\<lparr> do_verified := True \<rparr>) \<and> at_memberships t' = at_memberships t"
proof -
  obtain t' fact where edge: "publish_edge ctx (domain_wiring d ver (answering_edge base published removed) i k) row
      (q, s, t, a, y) = (Inr fact, (q, s, t', a, y))" "at_memberships t' = at_memberships t"
    using answered_edge_wired [OF assms(1), of ctx d ver base published removed i k row q t a y] by blast
  obtain h where "publish_hosting (domain_wiring d ver (answering_edge base published removed) i k) row (q, s, t', a, y) =
      (Inr h, (q, s, t', a, routed_by s row y))"
    using hosting_routed [OF assms(1), of d ver _ i k row q t' a y] by blast
  with edge assms show ?thesis
    by (simp add: after_answer_def publish_routes_def io_simps audit_up)
qed

lemma after_unverified:
  assumes "cp_up s" "\<not> ve_verified answer"
  shows "after_answer ctx (domain_wiring d ver edge i k) row answer updated (q, s, t, a, y) =
    (Inr \<lparr> vy_domain = or_else updated (row\<lparr> do_verified := False \<rparr>), vy_detail = ve_detail answer,
           vy_edge = None, vy_hostingRoute = None \<rparr>,
     (q, s, t\<lparr> at_audit := at_audit t @ [audit_entry.extend
        (audit_by ctx (do_organizationId row) ''domain.verification_failed'' ''domain'' (do_id row)
          [(''hostname'', JString (do_hostname row)), (''verified'', JBool False)]) \<lparr> ad_createdAt = cp_now s \<rparr>] \<rparr>, a, y))"
  using assms by (simp add: after_answer_def publish_routes_def io_simps audit_up)

lemma find_judged:
  assumes "row \<in> set rows"
  shows "\<exists>r. find (judged_row (judgement row answer now)) (judged_rows row answer now rows) = Some r \<and>
    do_verified r = ve_verified answer"
proof -
  let ?i = "judgement row answer now"
  have keep: "judged_row ?i (judged ?i d) = judged_row ?i d" for d by (simp add: judged_row_def judged_def)
  have "find (judged_row ?i) (patch_where (judged_row ?i) (judged ?i) rows) =
      map_option (judged ?i) (find (judged_row ?i) rows)"
    by (induction rows) (simp_all add: patch_where_def keep)
  moreover have "find (judged_row ?i) rows \<noteq> None"
    using assms by (auto simp: find_None_iff judged_row_def judgement_def)
  ultimately show ?thesis by (auto simp: judged_rows_def judged_def judgement_def)
qed

lemma others_untouched:
  "other \<in> set rows \<Longrightarrow> do_id other \<noteq> do_id row \<or> do_organizationId other \<noteq> do_organizationId row \<Longrightarrow>
   other \<in> set (judged_rows row answer now rows)"
  by (force simp: judged_rows_def patch_where_def judged_row_def judgement_def)

lemma judged_in:
  "row \<in> set rows \<Longrightarrow> \<exists>r \<in> set (judged_rows row answer now rows).
     do_id r = do_id row \<and> do_organizationId r = do_organizationId row \<and> do_hostname r = do_hostname row \<and>
     do_projectId r = do_projectId row \<and> do_verified r = ve_verified answer"
  by (rule bexI [of _ "judged (judgement row answer now) row"])
     (auto simp: judged_rows_def patch_where_def judged_row_def judgement_def judged_def image_iff)


subsection \<open>Names and resolvers\<close>

lemma host_char_plain: "host_char c \<Longrightarrow> \<not> js_space c \<and> lower_char c = c"
  by (auto simp: host_char_def slug_char_def js_space_def lower_char_def is_lower_def is_digit_def is_upper_def)

lemma plain_name:
  assumes "list_all host_char h"
  shows "to_lower h = h" "trim h = h"
proof -
  show "to_lower h = h" using assms by (induction h) (simp_all add: to_lower_def host_char_plain)
  have none: "dropWhile js_space xs = xs" if "set xs \<subseteq> set h" for xs
    using that assms by (cases xs) (auto simp: list_all_iff host_char_plain)
  show "trim h = h" by (simp add: trim_def none)
qed

lemma pattern_plain: "HOSTNAME_PATTERN h \<Longrightarrow> list_all host_char h"
proof -
  assume "HOSTNAME_PATTERN h"
  then have "\<forall>l \<in> set (split_on (CHR ''.'') h). \<forall>c \<in> set l. host_char c"
    by (auto simp: HOSTNAME_PATTERN_def Let_def dns_label_def list_all_iff host_char_def)
  then have "\<forall>c \<in> set h - {CHR ''.''}. host_char c" unfolding set_split_on [symmetric] by blast
  then show ?thesis by (auto simp: list_all_iff host_char_def)
qed

lemma normalised:
  assumes "normaliseHostname presented = Inr h"
  shows "list_all host_char h" "h \<noteq> []"
  using assms pattern_plain by (auto simp: normaliseHostname_def Let_def HOSTNAME_PATTERN_def split: if_splits)

text \<open>A resolver that answers alike however often it is asked.\<close>

definition fixed_dns ::
  "(string \<Rightarrow> string option + string list list) \<Rightarrow> (string \<Rightarrow> string option + string list) \<Rightarrow> 'w dns_resolver" where
  "fixed_dns txtOf cnameOf = \<lparr> ds_resolveTxt = (\<lambda>name w. (txtOf name, w)), ds_resolveCname = (\<lambda>name w. (cnameOf name, w)) \<rparr>"

definition dns_verdict ::
  "(string \<Rightarrow> string option + string list list) \<Rightarrow> (string \<Rightarrow> string option + string list) \<Rightarrow> string option \<Rightarrow>
   string \<Rightarrow> string \<Rightarrow> domain_verification adapter_result" where
  "dns_verdict txtOf cnameOf edge presented token =
     (let h = to_lower (trim presented) in
      if h = [] \<or> \<not> list_all host_char h then AErr Failed ''Hostname is not a valid DNS name.''
      else case txtOf (CHALLENGE_PREFIX @ ''.'' @ h) of
        Inr rows \<Rightarrow> txt_verdict h token rows
      | Inl code \<Rightarrow>
          if \<not> isMissingRecord code then lookup_broke (CHALLENGE_PREFIX @ ''.'' @ h)
          else case if_truthy (map_option (\<lambda>e. to_lower (trim e)) edge) of
            None \<Rightarrow> dns_fact h False None ''No challenge TXT record was found and no edge host is configured to match.''
          | Some e \<Rightarrow> (case cnameOf h of
              Inl code' \<Rightarrow> if isMissingRecord code'
                then dns_fact h False None ''The hostname has no challenge TXT record and no CNAME to the edge.''
                else lookup_broke h
            | Inr targets \<Rightarrow> cname_verdict h e targets))"

lemma to_lower_twice: "list_all host_char (to_lower h) \<Longrightarrow> to_lower (to_lower h) = to_lower h"
  by (rule plain_name)

lemma fixed_dns_verdict:
  "createDnsDomainVerifier (fixed_dns txtOf cnameOf) edge =
     \<lparr> vf_resolveDomainVerification = (\<lambda>c h k. io_return (dns_verdict txtOf cnameOf edge h k)) \<rparr>"
proof (intro domain_verifier.equality ext, goal_cases)
  case (1 c h k w)
  show ?case
    by (simp add: createDns_sel dns_verdict_def Let_def io_return_apply resolve_hostname_def resolve_cname_def
        fixed_dns_def to_lower_twice split: sum.splits option.splits)
qed simp

subsection \<open>Taking a hostname\<close>

definition new_domain :: "string \<Rightarrow> string \<Rightarrow> string option \<Rightarrow> string \<Rightarrow> string \<Rightarrow> domain" where
  "new_domain newId org projectId host token = created_domain
     \<lparr> dn_id = newId, dn_organizationId = org, dn_projectId = projectId, dn_hostname = host,
       dn_verificationToken = token \<rparr>"

lemma new_domain_sel [simp]:
  "do_id (new_domain i org p h k) = i" "do_organizationId (new_domain i org p h k) = org"
  "do_projectId (new_domain i org p h k) = p" "do_hostname (new_domain i org p h k) = h"
  "do_verified (new_domain i org p h k) = False" "do_verificationToken (new_domain i org p h k) = Some k"
  by (simp_all add: new_domain_def created_domain_def)

lemma addDomain_wired:
  assumes "cp_up s" "requireCapability ctx org DomainCreate = Inr ()" "normaliseHostname presented = Inr host"
    and own: "\<forall>x \<in> set (ac_domains a). do_organizationId x = org \<longrightarrow> do_hostname x \<noteq> host"
    and fresh: "\<forall>x \<in> set (ac_domains a). do_id x \<noteq> i"
  shows "\<exists>c t'. addDomain ctx (domain_wiring d ver edge i k) org None presented (q, s, t, a, y) =
      (Inr c, (q, s, t', a\<lparr> ac_domains := ac_domains a @ [new_domain i org None host k] \<rparr>, y)) \<and>
    ch_domain c = new_domain i org None host k \<and> at_memberships t' = at_memberships t"
proof -
  have free: "\<not> list_ex (\<lambda>x. do_hostname x = host)
      (rev (filter (\<lambda>x. do_organizationId x = org \<and> belongs t u org) (ac_domains a)))" for u
    using own by (auto simp: list_ex_iff)
  have unused: "\<not> list_ex (\<lambda>x. do_id x = i \<or> do_organizationId x = org \<and> do_hostname x = host) (ac_domains a)"
    using own fresh by (auto simp: list_ex_iff)
  from assms(1-3) free unused show ?thesis
    by (simp add: addDomain_def io_simps check_that_apply same_organization_def listDomains_rows_def account_read_up
        createDomain_row_def account_op_up audit_up new_domain_def [symmetric])
qed


subsection \<open>What the engine serves after a verification\<close>

text \<open>
  C23. Verifying one hostname of a project takes the others off the hosting engine.  The engine replaces
  the hostnames of an application by the list it is given, and a verification gives it the one hostname
  just verified; every other verified hostname of the project keeps its row, verified, and is served no more.
\<close>

theorem verifying_a_second_hostname_unroutes_the_first:
  assumes up: "cp_up s" and may: "requireCapability ctx (do_organizationId row) DomainVerify = Inr ()"
    and row: "domain_for ctx domainId t a = Some row" "do_verificationToken row = Some token" "token \<noteq> []"
    and application: "do_projectId row = Some p" "p \<noteq> []"
      "first_where (is_project (do_organizationId row) p) (cp_projects s) = Some project"
      "pj_providerResourceId project = Some app" "app \<noteq> []"
    and yes: "ver (do_hostname row) token = AOk st answer" "ve_verified answer"
    and other: "other \<in> set (ac_domains a)" "do_id other \<noteq> do_id row" "do_projectId other = Some p" "do_verified other"
      "do_hostname other \<noteq> do_hostname row" "do_hostname other \<in> set (y app)"
  shows "\<exists>r t' a'. verifyDomain ctx (domain_wiring d ver (answering_edge base published removed) i k)
        (do_organizationId row) domainId (q, s, t, a, y) = (Inr r, (q, s, t', a', y(app := [do_hostname row]))) \<and>
    other \<in> set (ac_domains a') \<and> do_hostname other \<notin> set ((y(app := [do_hostname row])) app)"
proof -
  let ?judged = "judged_rows row answer (cp_now s) (ac_domains a)"
    and ?updated = "find (judged_row (judgement row answer (cp_now s))) (judged_rows row answer (cp_now s) (ac_domains a))"
  have far: "routed_by s row y = y(app := [do_hostname row])"
    using application by (simp add: routed_by_def)
  obtain r t' where "after_answer ctx (domain_wiring d ver (answering_edge base published removed) i k) row answer ?updated
        (q, s, t, a\<lparr> ac_domains := ?judged \<rparr>, y) =
      (Inr r, (q, s, t', a\<lparr> ac_domains := ?judged \<rparr>, routed_by s row y))"
    using after_verified [OF up yes(2), where updated = ?updated and row = row and ctx = ctx and d = d
      and ver = ver and base = base and published = published and removed = removed and i = i and k = k and q = q
      and t = t and a = "a\<lparr> ac_domains := ?judged \<rparr>" and y = y]
    by auto
  then have "verifyDomain ctx (domain_wiring d ver (answering_edge base published removed) i k)
      (do_organizationId row) domainId (q, s, t, a, y) =
      (Inr r, (q, s, t', a\<lparr> ac_domains := ?judged \<rparr>, y(app := [do_hostname row])))"
    by (simp add: verifyDomain_wired [OF up may row(1) refl row(2,3)] yes(1) far)
  moreover have "other \<in> set ?judged" using other(1,2) by (intro others_untouched) auto
  ultimately show ?thesis using other(5) by simp
qed

text \<open>
  A hostname that no longer verifies is still served.  The row is set unverified and the failure
  audited, and neither the edge nor the hosting engine is told: the routes are those of before.
\<close>

theorem a_lost_verification_keeps_its_routes:
  assumes up: "cp_up s" and may: "requireCapability ctx (do_organizationId row) DomainVerify = Inr ()"
    and row: "domain_for ctx domainId t a = Some row" "do_verificationToken row = Some token" "token \<noteq> []"
    and no: "ver (do_hostname row) token = AOk st answer" "\<not> ve_verified answer"
  shows "\<exists>r t' a'. verifyDomain ctx (domain_wiring d ver edge i k) (do_organizationId row) domainId (q, s, t, a, y) =
      (Inr r, (q, s, t', a', y)) \<and>
    \<not> do_verified (vy_domain r) \<and> vy_edge r = None \<and> vy_hostingRoute r = None \<and>
    (\<exists>mine \<in> set (ac_domains a'). do_id mine = do_id row \<and> do_hostname mine = do_hostname row \<and> \<not> do_verified mine)"
proof -
  let ?judged = "judged_rows row answer (cp_now s) (ac_domains a)"
  have in_rows: "row \<in> set (ac_domains a)" using domain_for_in [OF row(1)] by simp
  obtain u where u: "find (judged_row (judgement row answer (cp_now s))) ?judged = Some u" "\<not> do_verified u"
    using find_judged [OF in_rows, of answer "cp_now s"] no(2) by auto
  have "\<exists>mine \<in> set ?judged. do_id mine = do_id row \<and> do_hostname mine = do_hostname row \<and> \<not> do_verified mine"
    using judged_in [OF in_rows, of answer "cp_now s"] no(2) by auto
  then show ?thesis
    using u(2) by (simp add: verifyDomain_wired [OF up may row(1) refl row(2,3)] no(1) after_unverified [OF up no(2)] u(1))
qed

subsection \<open>Verified means observed\<close>

datatype domain_command = AddDomain string "string option" string | VerifyDomain string string | RemoveDomain string string

text \<open>A request with the identifier and the token the platform would generate for it.\<close>

type_synonym domain_request = "request_context \<times> string \<times> string \<times> domain_command"

fun perform_domain ::
  "(string \<Rightarrow> millis option) \<Rightarrow> (string \<Rightarrow> string \<Rightarrow> domain_verification adapter_result) \<Rightarrow>
   ('q, routes) account_world security_edge \<Rightarrow> domain_request \<Rightarrow> ('q, routes) account_world \<Rightarrow> ('q, routes) account_world" where
  "perform_domain d ver edge (ctx, i, k, AddDomain org projectId presented) w =
     snd (addDomain ctx (domain_wiring d ver edge i k) org projectId presented w)"
| "perform_domain d ver edge (ctx, i, k, VerifyDomain org domainId) w =
     snd (verifyDomain ctx (domain_wiring d ver edge i k) org domainId w)"
| "perform_domain d ver edge (ctx, i, k, RemoveDomain org domainId) w =
     snd (removeDomain ctx (domain_wiring d ver edge i k) org domainId w)"

definition attested :: "(string \<Rightarrow> string \<Rightarrow> domain_verification adapter_result) \<Rightarrow> domain \<Rightarrow> bool" where
  "attested ver row \<longleftrightarrow>
     (case do_verificationToken row of
        None \<Rightarrow> False
      | Some token \<Rightarrow> (case ver (do_hostname row) token of AOk st answer \<Rightarrow> ve_verified answer | AErr _ _ \<Rightarrow> False))"

definition observed :: "(string \<Rightarrow> string \<Rightarrow> domain_verification adapter_result) \<Rightarrow> domain list \<Rightarrow> bool" where
  "observed ver rows \<longleftrightarrow> distinct (map do_id rows) \<and> (\<forall>x \<in> set rows. do_verified x \<longrightarrow> attested ver x)"

lemma add_world:
  assumes "addDomain ctx (domain_wiring d ver edge i k) org projectId presented (q, s, t, a, y) = (r, (q', s', t', a', y'))"
  shows "ac_domains a' = ac_domains a \<or>
    (\<exists>x. ac_domains a' = ac_domains a @ [x] \<and> \<not> do_verified x \<and> do_id x \<notin> do_id ` set (ac_domains a))"
  using assms
  by (cases "cp_up s")
    (auto simp: addDomain_def io_simps check_that_apply same_organization_def listDomains_rows_def createDomain_row_def
      getProject_def account_read_def account_op_def api_read_def api_op_def recordAuditEvent_def created_domain_def list_ex_iff
      split: sum.splits option.splits if_splits)

lemma remove_world:
  assumes "removeDomain ctx (domain_wiring d ver (answering_edge base published removed) i k) org domainId
      (q, s, t, a, y) = (r, (q', s', t', a', y'))"
  shows "\<exists>P. ac_domains a' = filter P (ac_domains a)"
proof (cases "cp_up s")
  case True
  with assms show ?thesis
    by (auto simp: removeDomain_def io_simps check_that_apply the_domain_def getDomain_row_def deleteDomain_row_def
      withdraw_hosting_def routed_target_def deploymentTarget_service_def listDomains_rows_def thrown_def hosting_routes_def
      api_simps Let_def intro: exI [of _ "\<lambda>x. True"] split: sum.splits option.splits if_splits)
next
  case False
  with assms have "a' = a"
    by (auto simp: removeDomain_def io_simps check_that_apply the_domain_def getDomain_row_def account_read_def
      account_op_def split: sum.splits if_splits)
  then show ?thesis by (intro exI [of _ "\<lambda>x. True"]) simp
qed

lemma after_world:
  assumes "cp_up s"
  shows "\<exists>r t' y'. after_answer ctx (domain_wiring d ver (answering_edge base published removed) i k) row answer updated
    (q, s, t, a, y) = (Inr r, (q, s, t', a, y'))"
  using after_verified [OF assms, of answer ctx d ver base published removed i k row updated q t a y]
    after_unverified [OF assms, of answer ctx d ver "answering_edge base published removed" i k row updated q t a y]
  by (cases "ve_verified answer") auto

lemma verify_world:
  assumes run: "verifyDomain ctx (domain_wiring d ver (answering_edge base published removed) i k) org domainId
      (q, s, t, a, y) = (r, (q', s', t', a', y'))"
  shows "ac_domains a' = ac_domains a \<or>
    (\<exists>row token st answer. row \<in> set (ac_domains a) \<and> do_verificationToken row = Some token \<and>
       ver (do_hostname row) token = AOk st answer \<and> ac_domains a' = judged_rows row answer (cp_now s) (ac_domains a))"
proof (cases "cp_up s \<and> requireCapability ctx org DomainVerify = Inr () \<and>
    (\<exists>row. domain_for ctx domainId t a = Some row \<and> do_organizationId row = org \<and> truthy (do_verificationToken row))")
  case True
  then obtain row token where row: "domain_for ctx domainId t a = Some row" "do_organizationId row = org"
      "do_verificationToken row = Some token" "token \<noteq> []" and up: "cp_up s"
      and may: "requireCapability ctx org DomainVerify = Inr ()"
    by (auto elim: truthy.elims)
  note eq = verifyDomain_wired [OF up may row, of d ver "answering_edge base published removed" i k q y]
  show ?thesis
  proof (cases "ver (do_hostname row) token")
    case (AOk st answer)
    let ?judged = "judged_rows row answer (cp_now s) (ac_domains a)"
    from after_world [OF up, of ctx d ver base published removed i k row answer
        "find (judged_row (judgement row answer (cp_now s))) ?judged" q t "a\<lparr> ac_domains := ?judged \<rparr>" y]
    have "ac_domains a' = ?judged" using run by (auto simp: eq AOk)
    with AOk row domain_for_in [OF row(1)] show ?thesis by blast
  next
    case (AErr st reason)
    with run show ?thesis by (simp add: eq)
  qed
next
  case False
  with run show ?thesis
    by (cases "cp_up s")
      (auto simp: verifyDomain_def io_simps check_that_apply the_domain_def getDomain_row_def account_read_def
        account_op_def domain_for_def first_where_def split: sum.splits option.splits if_splits)
qed

lemma observed_judged:
  assumes inv: "observed ver rows" and row: "row \<in> set rows" "do_verificationToken row = Some token"
    and answer: "ver (do_hostname row) token = AOk st answer"
  shows "observed ver (judged_rows row answer now rows)"
proof -
  let ?i = "judgement row answer now"
  have ids: "map do_id (judged_rows row answer now rows) = map do_id rows"
    by (simp add: judged_rows_def patch_where_def judged_def o_def)
  have "attested ver x" if x: "x \<in> set (judged_rows row answer now rows)" and verified: "do_verified x" for x
  proof -
    from x obtain z where z: "z \<in> set rows" "x = (if judged_row ?i z then judged ?i z else z)"
      by (auto simp: judged_rows_def patch_where_def)
    show ?thesis
    proof (cases "judged_row ?i z")
      case True
      then have "do_id z = do_id row" by (simp add: judged_row_def judgement_def)
      then have "z = row" using inv row(1) z(1) by (auto simp: observed_def distinct_map inj_on_def)
      then show ?thesis using z True verified row(2) answer by (simp add: attested_def judged_def judgement_def)
    next
      case False
      then show ?thesis using z verified inv by (auto simp: observed_def)
    qed
  qed
  with inv ids show ?thesis by (simp add: observed_def)
qed

lemma run_of: "snd run = w \<Longrightarrow> \<exists>r. run = (r, w)"
  by (cases run) simp

lemma perform_domain_observed:
  assumes "observed ver (ac_domains a)"
    "perform_domain d ver (answering_edge base published removed) req (q, s, t, a, y) = (q', s', t', a', y')"
  shows "observed ver (ac_domains a')"
proof -
  obtain ctx i k cmd where req: "req = (ctx, i, k, cmd)" by (cases req)
  show ?thesis
  proof (cases cmd)
    case (AddDomain org projectId presented)
    then obtain r where "addDomain ctx (domain_wiring d ver (answering_edge base published removed) i k) org projectId
        presented (q, s, t, a, y) = (r, (q', s', t', a', y'))"
      using assms(2) by (auto simp: req dest!: run_of)
    from add_world [OF this] assms(1) show ?thesis by (auto simp: observed_def)
  next
    case (VerifyDomain org domainId)
    then obtain r where "verifyDomain ctx (domain_wiring d ver (answering_edge base published removed) i k) org domainId
        (q, s, t, a, y) = (r, (q', s', t', a', y'))"
      using assms(2) by (auto simp: req dest!: run_of)
    from verify_world [OF this] assms(1) observed_judged show ?thesis by metis
  next
    case (RemoveDomain org domainId)
    then obtain r where "removeDomain ctx (domain_wiring d ver (answering_edge base published removed) i k) org domainId
        (q, s, t, a, y) = (r, (q', s', t', a', y'))"
      using assms(2) by (auto simp: req dest!: run_of)
    from remove_world [OF this] assms(1) show ?thesis by (auto simp: observed_def distinct_map_filter)
  qed
qed

lemma requests_observed:
  "observed ver (ac_domains a) \<Longrightarrow>
   fold (perform_domain d ver (answering_edge base published removed)) reqs (q, s, t, a, y) = (q', s', t', a', y') \<Longrightarrow>
   observed ver (ac_domains a')"
proof (induction reqs arbitrary: q s t a y)
  case (Cons req reqs)
  obtain q1 s1 t1 a1 y1 where w: "perform_domain d ver (answering_edge base published removed) req (q, s, t, a, y) =
      (q1, s1, t1, a1, y1)" by (rule prod.exhaust) (metis prod.exhaust)
  from Cons.IH [OF perform_domain_observed [OF Cons.prems(1) w]] Cons.prems(2) show ?case by (simp add: w)
qed simp

text \<open>
  C21. A domain is verified only on the verifier's word.  After any sequence of requests to add, verify and
  remove domains, from any sessions and starting with none, every row marked verified is one whose hostname
  and token the verifier confirms.
\<close>

theorem verified_means_observed:
  assumes run: "fold (perform_domain d ver (answering_edge base published removed)) reqs
      (q, s, t, a\<lparr> ac_domains := [] \<rparr>, y) = (q', s', t', a', y')"
    and row: "row \<in> set (ac_domains a')" "do_verified row"
  shows "\<exists>token st answer. do_verificationToken row = Some token \<and> ver (do_hostname row) token = AOk st answer \<and>
    ve_verified answer"
proof -
  have "observed ver (ac_domains a')" by (rule requests_observed [OF _ run]) (simp add: observed_def)
  with row have "attested ver row" by (simp add: observed_def)
  then show ?thesis by (auto simp: attested_def split: option.splits adapter_result.splits)
qed

subsection \<open>Concrete instances\<close>

definition sample_domain :: "string \<Rightarrow> string \<Rightarrow> string \<Rightarrow> bool \<Rightarrow> domain" where
  "sample_domain i org host verified =
     \<lparr> do_id = i, do_organizationId = org, do_projectId = Some ''p'', do_hostname = host, do_verified = verified,
       do_provider = None, do_providerResourceId = None, do_verificationToken = Some ''t'', do_verifiedAt = None \<rparr>"

definition quiet_edge :: "('q, 'y) account_world security_edge" where
  "quiet_edge =
     \<lparr> ea_applyPolicy = (\<lambda>c r. io_return (AErr NotConfigured ''no edge'')),
       se_publishRoute = (\<lambda>c r. io_return (AErr NotConfigured ''no edge'')),
       se_removeRoute = (\<lambda>c r. io_return (AErr NotConfigured ''no edge'')),
       se_quarantine = (\<lambda>c r. io_return (AErr NotConfigured ''no edge'')),
       se_inspectHealth = (\<lambda>c r. io_return (AErr NotConfigured ''no edge'')) \<rparr>"

definition says :: "bool \<Rightarrow> string \<Rightarrow> string \<Rightarrow> domain_verification adapter_result" where
  "says verified host token = dns_fact host verified None ''observed''"

text \<open>A running application of the project and the domains it has.\<close>

definition hosted_plane :: control_plane where
  "hosted_plane = sample_plane\<lparr> cp_projects := [sample_project\<lparr> pj_providerResourceId := Some ''app'' \<rparr>] \<rparr>"

definition with_domains :: "domain list \<Rightarrow> account_tables" where
  "with_domains rows = no_accounts\<lparr> ac_domains := rows \<rparr>"

abbreviation an_owner :: request_context where
  "an_owner \<equiv> session ''o'' ''a'' Owner"

lemma an_owner_may:
  "requireCapability an_owner ''o'' DomainCreate = Inr ()" "requireCapability an_owner ''o'' DomainVerify = Inr ()"
  "belongs (tables_of [(''a'', Owner)]) (pr_userId (cx_principal an_owner)) ''o''" "cp_up sample_plane" "cp_up hosted_plane"
  by code_simp+

definition pointed_deps :: "(unit, routes) account_world domain_deps" where
  "pointed_deps = (domain_wiring no_date (says True)
       (answering_edge quiet_edge (AErr Failed ''down'') (AErr Failed ''down'')) ''d9'' ''k'')
     \<lparr> od_verifier := createDnsDomainVerifier
         (fixed_dns (\<lambda>n. Inl (Some ''ENODATA'')) (\<lambda>n. Inr [''edge.io''])) (Some ''edge.io'') \<rparr>"


theorem verifying_a_second_hostname_unroutes_the_first_witness:
  "\<exists>r t' a'. verifyDomain an_owner (domain_wiring no_date (says True)
        (answering_edge quiet_edge (AErr Failed ''down'') (AErr Failed ''down'')) ''d9'' ''k'') ''o'' ''d2''
      ((), hosted_plane, tables_of [(''a'', Owner)],
       with_domains [sample_domain ''d1'' ''o'' ''a.io'' True, sample_domain ''d2'' ''o'' ''b.io'' False], \<lambda>app. [''a.io'']) =
      (Inr r, ((), hosted_plane, t', a', (\<lambda>app. [''a.io''])(''app'' := [''b.io'']))) \<and>
    sample_domain ''d1'' ''o'' ''a.io'' True \<in> set (ac_domains a')"
proof -
  let ?row = "sample_domain ''d2'' ''o'' ''b.io'' False" and ?other = "sample_domain ''d1'' ''o'' ''a.io'' True"
    and ?a = "with_domains [sample_domain ''d1'' ''o'' ''a.io'' True, sample_domain ''d2'' ''o'' ''b.io'' False]"
  have sel: "do_organizationId ?row = ''o''" "do_hostname ?row = ''b.io''" "do_verificationToken ?row = Some ''t''"
    "do_projectId ?row = Some ''p''" "?other \<in> set (ac_domains ?a)" "do_id ?other \<noteq> do_id ?row" "do_projectId ?other = Some ''p''"
    "do_verified ?other" "do_hostname ?other = ''a.io''"
    by (simp_all add: sample_domain_def with_domains_def)
  have row: "domain_for an_owner ''d2'' (tables_of [(''a'', Owner)]) ?a = Some ?row" by code_simp
  have project: "first_where (is_project ''o'' ''p'') (cp_projects hosted_plane) =
      Some (sample_project\<lparr> pj_providerResourceId := Some ''app'' \<rparr>)" by code_simp
  from verifying_a_second_hostname_unroutes_the_first [OF an_owner_may(5) _ row sel(3) _ sel(4), unfolded sel(1,2),
      OF an_owner_may(2) _ _ project _ _ _ _ sel(5-8), unfolded sel(9), where ver = "says True" and app = "''app''" and d = no_date
        and base = quiet_edge and published = "AErr Failed ''down''" and removed = "AErr Failed ''down''" and i = "''d9''" and k = "''k''"
        and q = "()" and y = "\<lambda>app. [''a.io'']"]
  show ?thesis by (auto simp: says_def dns_fact_def)
qed

theorem a_lost_verification_keeps_its_routes_witness:
  "\<exists>r t' a'. verifyDomain an_owner (domain_wiring no_date (says False) quiet_edge ''d9'' ''k'') ''o'' ''d1''
      ((), hosted_plane, tables_of [(''a'', Owner)], with_domains [sample_domain ''d1'' ''o'' ''a.io'' True], \<lambda>app. [''a.io'']) =
      (Inr r, ((), hosted_plane, t', a', \<lambda>app. [''a.io''])) \<and> \<not> do_verified (vy_domain r)"
proof -
  let ?row = "sample_domain ''d1'' ''o'' ''a.io'' True"
  have sel: "do_organizationId ?row = ''o''" "do_verificationToken ?row = Some ''t''"
    by (simp_all add: sample_domain_def)
  have row: "domain_for an_owner ''d1'' (tables_of [(''a'', Owner)]) (with_domains [?row]) = Some ?row" by code_simp
  from a_lost_verification_keeps_its_routes [OF an_owner_may(5) _ row sel(2), unfolded sel(1), OF an_owner_may(2),
      where ver = "says False" and d = no_date and edge = quiet_edge and i = "''d9''" and k = "''k''" and q = "()"
        and y = "\<lambda>app. [''a.io'']"]
  show ?thesis by (fastforce simp: says_def dns_fact_def)
qed

definition two_requests :: "domain_request list" where
  "two_requests = [(an_owner, ''d1'', ''t'', AddDomain ''o'' None ''a.io''), (an_owner, ''d2'', ''t'', VerifyDomain ''o'' ''d1'')]"

theorem verified_means_observed_witness:
  "case fold (perform_domain no_date (says True) (answering_edge quiet_edge (AErr Failed ''down'') (AErr Failed ''down'')))
      two_requests ((), sample_plane, tables_of [(''a'', Owner)], no_accounts, \<lambda>app. []) of
    (q', s', t', a', y') \<Rightarrow> do_verified (hd (ac_domains a')) \<and>
      (\<exists>token st answer. says True (do_hostname (hd (ac_domains a'))) token = AOk st answer)"
proof -
  let ?w = "fold (perform_domain no_date (says True) (answering_edge quiet_edge (AErr Failed ''down'') (AErr Failed ''down'')))
      two_requests ((), sample_plane, tables_of [(''a'', Owner)], no_accounts, \<lambda>app. [])"
  have shape: "case ?w of (q', s', t', a', y') \<Rightarrow> map do_verified (ac_domains a') = [True]" by code_simp
  obtain q' s' t' a' y' where w: "?w = (q', s', t', a', y')" by (metis prod.exhaust)
  from shape obtain row where row: "ac_domains a' = [row]" "do_verified row" by (auto simp: w)
  have start: "((), sample_plane, tables_of [(''a'', Owner)], no_accounts, \<lambda>app :: string. [] :: string list) =
      ((), sample_plane, tables_of [(''a'', Owner)], no_accounts\<lparr> ac_domains := [] \<rparr>, \<lambda>app. [])"
    by (simp add: no_accounts_def)
  from verified_means_observed [OF w [unfolded start], of row] row show ?thesis by (auto simp: w)
qed

end
