(* ===== verification/Security_Procedures.thy ===== *)
theory Security_Procedures
  imports Domains Edge_Loaders
begin

section \<open>apps/api/procedures/security.ts: policies, lists, protections and incidents\<close>

text \<open>
  The validators are those of the edge compiler (\<open>Security_Edge\<close>), the policy rules those of
  \<open>Policy\<close>.  A kind, a mode or a state of a request is the string the caller sent; \<open>Date.parse\<close> and the
  digest of a password are parameters.
\<close>

subsection \<open>Rows and ports\<close>

record security_rule = deny_rule +
  sc_id :: string
  sc_organizationId :: string
  sc_note :: "string option"
  sc_createdBy :: string

record trusted_entry = trusted_source +
  te_id :: string
  te_organizationId :: string
  te_note :: "string option"
  te_createdBy :: string

record rate_limit_row = rate_limit_rule +
  rt_organizationId :: string
  rt_note :: "string option"
  rt_createdBy :: string

record protection_save =
  px_id :: string
  px_organizationId :: string
  px_projectId :: string
  px_mode :: string
  px_basicUser :: "string option"
  px_basicPasswordHash :: "string option"
  px_allowedCidrs :: "string list"
  px_protectionExpiresAt :: "millis option"
  px_updatedBy :: string

text \<open>What a caller is given back: the row without the digest.\<close>

record protection_view =
  pv_id :: string
  pv_organizationId :: string
  pv_projectId :: string
  pv_mode :: string
  pv_basicUser :: "string option"
  pv_allowedCidrs :: "string list"
  pv_protectionExpiresAt :: "millis option"
  pv_updatedBy :: string

record security_event =
  ve_event_id :: string
  ve_event_organizationId :: string
  ve_event_host :: string
  ve_event_stage :: string
  ve_event_action :: string
  ve_event_observedAt :: millis

record security_incident = incident +
  in_triagedBy :: "string option"

text \<open>An incident as the answer of a transition gives it: the text of whatever columns the store selected.\<close>

record incident_answer =
  ia_id :: string
  ia_organizationId :: string
  ia_kind :: string
  ia_severity :: string
  ia_summary :: string
  ia_state :: string
  ia_openedAt :: "millis option"
  ia_closedAt :: "millis option"
  ia_resolution :: "string option"
  ia_triagedBy :: "string option"

record incident_transition =
  it_organizationId :: string
  it_incidentId :: string
  it_state :: incident_state
  it_resolution :: "string option"
  it_triagedBy :: string

record 'w security_store = "'w audit_store" +
  yt_getSecurityPolicy :: "(string \<Rightarrow> string \<Rightarrow> ('w, failure, policy_row option) eio) option"
  yt_saveSecurityPolicy :: "(policy_save \<Rightarrow> ('w, failure, policy_row) eio) option"
  yt_recordPolicyEvent :: "(policy_event \<Rightarrow> ('w, failure, unit) eio) option"
  yt_listPolicyEvents :: "(string \<Rightarrow> string \<Rightarrow> ('w, failure, policy_event list) eio) option"
  yt_listSecurityRules :: "(string \<Rightarrow> string \<Rightarrow> ('w, failure, security_rule list) eio) option"
  yt_createSecurityRule :: "(security_rule \<Rightarrow> ('w, failure, security_rule) eio) option"
  yt_deleteSecurityRule :: "(string \<Rightarrow> string \<Rightarrow> string \<Rightarrow> ('w, failure, bool) eio) option"
  yt_listTrustedSources :: "(string \<Rightarrow> string \<Rightarrow> ('w, failure, trusted_entry list) eio) option"
  yt_createTrustedSource :: "(trusted_entry \<Rightarrow> ('w, failure, trusted_entry) eio) option"
  yt_deleteTrustedSource :: "(string \<Rightarrow> string \<Rightarrow> string \<Rightarrow> ('w, failure, bool) eio) option"
  yt_listRateLimits :: "(string \<Rightarrow> string \<Rightarrow> ('w, failure, rate_limit_row list) eio) option"
  yt_createRateLimit :: "(rate_limit_row \<Rightarrow> ('w, failure, rate_limit_row) eio) option"
  yt_deleteRateLimit :: "(string \<Rightarrow> string \<Rightarrow> string \<Rightarrow> ('w, failure, bool) eio) option"
  yt_getDeploymentProtection :: "(string \<Rightarrow> string \<Rightarrow> ('w, failure, protection_view option) eio) option"
  yt_saveDeploymentProtection :: "(protection_save \<Rightarrow> ('w, failure, protection_view) eio) option"
  yt_getPasswordHash :: "(string \<Rightarrow> string \<Rightarrow> ('w, failure, string option) eio) option"
  yt_listSecurityEvents :: "(string \<Rightarrow> string \<Rightarrow> js_number option \<Rightarrow> ('w, failure, security_event list) eio) option"
  yt_listSecurityIncidents :: "(string \<Rightarrow> string \<Rightarrow> ('w, failure, security_incident list) eio) option"
  yt_transitionIncident :: "(incident_transition \<Rightarrow> ('w, failure, incident_answer option) eio) option"
  yt_openSecurityIncident :: "(incident_open \<Rightarrow> ('w, failure, unit) eio) option"

record 'w security_deps =
  yd_store :: "'w security_store"
  yd_edge :: "'w edge_adapter"
  yd_newId :: "('w, failure, string) eio"
  yd_now :: "'w \<Rightarrow> millis"
  yd_queue :: "('w, policy_job_payload) queue_port option"
  yd_date :: "string \<Rightarrow> millis option"
  yd_sha256 :: "string \<Rightarrow> string"

text \<open>Each group of writes is required by itself, and only when a procedure of it is called.\<close>

definition required :: "(bool \<times> string) list \<Rightarrow> failure + unit" where
  "required missing =
     (let names = map snd (filter fst missing) in
      if names \<noteq> [] then Inl (unavailable_yet (''record '' @ join_with '', '' names)) else Inr ())"

definition policy_writesFor :: "'w security_store \<Rightarrow> failure + unit" where
  "policy_writesFor store = required
     [(yt_getSecurityPolicy store = None, ''getSecurityPolicy''),
      (yt_saveSecurityPolicy store = None, ''saveSecurityPolicy''),
      (yt_recordPolicyEvent store = None, ''recordPolicyEvent''),
      (yt_listPolicyEvents store = None, ''listPolicyEvents'')]"

definition ruleWritesFor :: "'w security_store \<Rightarrow> failure + unit" where
  "ruleWritesFor store = required
     [(yt_listSecurityRules store = None, ''listSecurityRules''),
      (yt_createSecurityRule store = None, ''createSecurityRule''),
      (yt_deleteSecurityRule store = None, ''deleteSecurityRule'')]"

definition trustedWritesFor :: "'w security_store \<Rightarrow> failure + unit" where
  "trustedWritesFor store = required
     [(yt_listTrustedSources store = None, ''listTrustedSources''),
      (yt_createTrustedSource store = None, ''createTrustedSource''),
      (yt_deleteTrustedSource store = None, ''deleteTrustedSource'')]"

definition rateLimitWritesFor :: "'w security_store \<Rightarrow> failure + unit" where
  "rateLimitWritesFor store = required
     [(yt_listRateLimits store = None, ''listRateLimits''),
      (yt_createRateLimit store = None, ''createRateLimit''),
      (yt_deleteRateLimit store = None, ''deleteRateLimit'')]"

definition protectionWritesFor :: "'w security_store \<Rightarrow> failure + unit" where
  "protectionWritesFor store = required
     [(yt_getDeploymentProtection store = None, ''getDeploymentProtection''),
      (yt_saveDeploymentProtection store = None, ''saveDeploymentProtection'')]"

definition incidentWritesFor :: "'w security_store \<Rightarrow> failure + unit" where
  "incidentWritesFor store =
     (if yt_listSecurityIncidents store = None \<or> yt_transitionIncident store = None
      then Inl (unavailable_yet ''read security incidents'') else Inr ())"

text \<open>A validator's answer as an outcome of the request.\<close>

definition checked :: "check \<Rightarrow> failure + unit" where
  "checked c = (case c of Valid \<Rightarrow> Inr () | Invalid reason \<Rightarrow> Inl (invalid_input reason))"

definition note_of :: "string option \<Rightarrow> failure + string option" where
  "note_of presented =
     (let note = trim (or_else presented []) in
      if 200 < length note then Inl (invalid_input ''A note is at most 200 characters.'')
      else Inr (if note = [] then None else Some note))"

subsection \<open>The policy\<close>

definition readSecurityPolicy ::
  "request_context \<Rightarrow> 'w security_deps \<Rightarrow> string \<Rightarrow> ('w, failure, policy_row option \<times> policy_event list) eio" where
  "readSecurityPolicy ctx deps organizationId =
     io_then (check_that (requireCapability ctx organizationId SecurityRead))
    (io_then (check_that (policy_writesFor (yd_store deps)))
    (io_bind (the (yt_getSecurityPolicy (yd_store deps)) (pr_userId (cx_principal ctx)) organizationId) (\<lambda>policy.
     io_bind (the (yt_listPolicyEvents (yd_store deps)) (pr_userId (cx_principal ctx)) organizationId) (\<lambda>events.
       io_return (policy, events)))))"

record save_policy_input =
  sq_organizationId :: string
  sq_name :: string
  sq_riskLevel :: string
  sq_action :: string
  sq_protectionMode :: "string option"
  sq_protectionExpiresAt :: "string option option"

definition MAX_PROTECTION_WINDOW_MS :: millis where
  "MAX_PROTECTION_WINDOW_MS = 86400000"

text \<open>The window of an attack posture: as asked, as stored when nothing is asked, and none in normal mode.\<close>

definition protection_window ::
  "(string \<Rightarrow> millis option) \<Rightarrow> millis \<Rightarrow> string \<Rightarrow> millis option \<Rightarrow> string option option \<Rightarrow> failure + millis option" where
  "protection_window date_of now mode stored asked =
     (if mode = ''normal'' then Inr None
      else case (case asked of
             None \<Rightarrow> Inr stored
           | Some None \<Rightarrow> Inr None
           | Some (Some s) \<Rightarrow> (case date_of s of
               None \<Rightarrow> Inl (invalid_input ''The protection window is not a valid timestamp.'')
             | Some t \<Rightarrow> Inr (Some t))) of
        Inl e \<Rightarrow> Inl e
      | Inr None \<Rightarrow> Inr None
      | Inr (Some t) \<Rightarrow>
          if MAX_PROTECTION_WINDOW_MS < t - now then Inl (invalid_input ''Attack mode lasts at most 24 hours.'')
          else Inr (Some t))"

definition policy_request :: "save_policy_input \<Rightarrow> failure + string" where
  "policy_request inp =
     (case bounded_name ''A policy name'' (sq_name inp) of
        Inl e \<Rightarrow> Inl e
      | Inr name \<Rightarrow>
          if sq_riskLevel inp \<notin> set RISK_LEVELS then Inl (invalid_input ''Unknown risk level.'')
          else if sq_action inp \<notin> set ENFORCEMENT_ACTIONS then Inl (invalid_input ''Unknown enforcement action.'')
          else Inr name)"

definition posture_mode :: "save_policy_input \<Rightarrow> policy_row option \<Rightarrow> string" where
  "posture_mode inp existing =
     (case sq_protectionMode inp of
        Some mode \<Rightarrow> mode
      | None \<Rightarrow> (case existing of Some p \<Rightarrow> pl_protectionMode p | None \<Rightarrow> ''normal''))"

definition policy_draft ::
  "save_policy_input \<Rightarrow> string \<Rightarrow> string \<Rightarrow> string \<Rightarrow> millis option \<Rightarrow> policy_row option \<Rightarrow> string \<Rightarrow> policy_save" where
  "policy_draft inp name newId mode window existing userId =
     \<lparr> sv_id = (case existing of Some p \<Rightarrow> sp_id p | None \<Rightarrow> newId), sv_organizationId = sq_organizationId inp,
       sv_name = name, sv_riskLevel = sq_riskLevel inp, sv_action = sq_action inp, sv_state = ''draft'',
       sv_protectionMode = mode, sv_protectionExpiresAt = window,
       sv_version = (case existing of Some p \<Rightarrow> sp_version p + 1 | None \<Rightarrow> 1), sv_createdBy = userId \<rparr>"

text \<open>A fresh identifier is drawn only when there is no policy yet.\<close>

definition id_unless :: "('w, failure, string) eio \<Rightarrow> 'a option \<Rightarrow> ('w, failure, string) eio" where
  "id_unless newId existing = (case existing of Some _ \<Rightarrow> io_return [] | None \<Rightarrow> newId)"

definition policy_event_of ::
  "request_context \<Rightarrow> string \<Rightarrow> string \<Rightarrow> string \<Rightarrow> string option \<Rightarrow> string \<Rightarrow> js_number \<Rightarrow> string \<Rightarrow> policy_event" where
  "policy_event_of ctx eventId organizationId policyId fromState toState version detail =
     \<lparr> pe_id = eventId, pe_organizationId = organizationId, pe_policyId = policyId, pe_fromState = fromState,
       pe_toState = toState, pe_version = version, pe_actorId = Some (pr_userId (cx_principal ctx)),
       pe_actorEmail = Some (pr_email (cx_principal ctx)), pe_detail = Some detail \<rparr>"

definition save_policy ::
  "request_context \<Rightarrow> 'w security_deps \<Rightarrow> save_policy_input \<Rightarrow> policy_row option \<Rightarrow> policy_save \<Rightarrow>
   ('w, failure, policy_row) eio" where
  "save_policy ctx deps inp existing draft =
     io_bind (the (yt_saveSecurityPolicy (yd_store deps)) draft) (\<lambda>saved.
     io_bind (yd_newId deps) (\<lambda>eventId.
     io_then (the (yt_recordPolicyEvent (yd_store deps))
        (policy_event_of ctx eventId (sq_organizationId inp) (sp_id saved) (map_option pl_state existing) ''draft''
          (sp_version saved) (''Policy saved as a draft ('' @ sv_protectionMode draft @ '' protection).'')))
    (io_then (as_recordAuditEvent (yd_store deps)
        (audit_by ctx (sq_organizationId inp) ''policy.saved'' ''security_policy'' (sp_id saved)
          [(''version'', JNumber (sp_version saved)), (''riskLevel'', JString (sp_riskLevel saved)),
           (''action'', JString (sp_action saved)), (''protectionMode'', JString (pl_protectionMode saved))]))
       (io_return saved))))"

definition saveSecurityPolicy_procedure ::
  "request_context \<Rightarrow> 'w security_deps \<Rightarrow> save_policy_input \<Rightarrow> ('w, failure, policy_row) eio" where
  "saveSecurityPolicy_procedure ctx deps inp =
     io_then (check_that (requireCapability ctx (sq_organizationId inp) SecurityUpdate))
    (io_bind (check_that (policy_request inp)) (\<lambda>name.
     io_then (check_that (policy_writesFor (yd_store deps)))
    (io_bind (the (yt_getSecurityPolicy (yd_store deps)) (pr_userId (cx_principal ctx)) (sq_organizationId inp)) (\<lambda>existing.
     io_bind (io_get (yd_now deps)) (\<lambda>now.
     io_bind (check_that (protection_window (yd_date deps) now (posture_mode inp existing)
        (Option.bind existing pl_protectionExpiresAt) (sq_protectionExpiresAt inp))) (\<lambda>window.
     io_bind (id_unless (yd_newId deps) existing) (\<lambda>newId.
       let draft = policy_draft inp name newId (posture_mode inp existing) window existing (pr_userId (cx_principal ctx)) in
       io_then (check_that (checked (validatePolicy (row_of_save draft))))
         (save_policy ctx deps inp existing draft))))))))"

subsection \<open>Distribution\<close>

record distribution_result =
  dz_policy :: policy_row
  dz_distributed :: bool
  dz_engineReason :: "string option"

definition NO_POLICY :: failure where
  "NO_POLICY = ApiError NotFound ''No security policy has been saved yet.''"

definition distribution_key :: "'z security_policy_scheme \<Rightarrow> string" where
  "distribution_key policy = ''distribute-'' @ sp_id policy @ ''-v'' @ show_version (sp_version policy)"

definition policy_ref_of :: "'z security_policy_scheme \<Rightarrow> provider_ref" where
  "policy_ref_of policy =
     \<lparr> ref_organizationId = sp_organizationId policy, ref_provider = ''coraza'', ref_resourceType = ''policy'',
       ref_resourceId = sp_id policy \<rparr>"

definition may_distribute :: "policy_row \<Rightarrow> failure + unit" where
  "may_distribute policy =
     (case validatePolicy policy of
        Invalid reason \<Rightarrow> Inl (invalid_input reason)
      | Valid \<Rightarrow>
          (let v = \<lparr> pn_policyId = sp_id policy, pn_version = sp_version policy \<rparr> in
           case mayDistribute v (if pl_state policy = ''active'' then Some v else None) of
             Invalid reason \<Rightarrow> Inl (ApiError Conflict reason)
           | Valid \<Rightarrow> Inr ()))"

definition policy_payload :: "request_context \<Rightarrow> policy_row \<Rightarrow> policy_job_payload" where
  "policy_payload ctx policy =
     \<lparr> pjp_organizationId = sp_organizationId policy, pjp_policyId = sp_id policy, pjp_version = sp_version policy,
       pjp_actorId = pr_userId (cx_principal ctx), pjp_actorEmail = pr_email (cx_principal ctx) \<rparr>"

definition policy_job :: "request_context \<Rightarrow> policy_row \<Rightarrow> policy_job_payload enqueue_input" where
  "policy_job ctx policy =
     \<lparr> ei_organizationId = sp_organizationId policy, ei_kind = POLICY_JOB_KIND, ei_payload = policy_payload ctx policy,
       ei_idempotencyKey = distribution_key policy, ei_maxAttempts = None \<rparr>"

definition policy_audit ::
  "request_context \<Rightarrow> policy_row \<Rightarrow> string \<Rightarrow> (string \<times> json) list \<Rightarrow> audit_entry" where
  "policy_audit ctx policy event metadata =
     audit_by ctx (sp_organizationId policy) event ''security_policy'' (sp_id policy) metadata"

definition enqueue_distribution ::
  "request_context \<Rightarrow> 'w security_deps \<Rightarrow> ('w, policy_job_payload) queue_port \<Rightarrow> policy_row \<Rightarrow>
   ('w, failure, distribution_result) eio" where
  "enqueue_distribution ctx deps queue policy =
     io_then (thrown (qp_enqueue queue (policy_job ctx policy)))
    (io_then (as_recordAuditEvent (yd_store deps)
        (policy_audit ctx policy ''policy.distribution_enqueued'' [(''version'', JNumber (sp_version policy))]))
       (io_return \<lparr> dz_policy = policy, dz_distributed = False, dz_engineReason = None \<rparr>))"

text \<open>A refusal of the edge: an event, an audit row, and an incident where the store has them.\<close>

definition open_rejection ::
  "'w security_deps \<Rightarrow> policy_row \<Rightarrow> engine_status \<Rightarrow> string \<Rightarrow> ('w, failure, unit) eio" where
  "open_rejection deps policy status reason =
     (case yt_openSecurityIncident (yd_store deps) of
        None \<Rightarrow> io_return ()
      | Some open' \<Rightarrow>
          io_bind (yd_newId deps) (\<lambda>incidentId.
          io_bind (io_get (yd_now deps)) (\<lambda>now.
            open' \<lparr> io_id = incidentId, io_organizationId = sp_organizationId policy,
              io_kind = ''policy_distribution_rejected'',
              io_severity = (if status = NotConfigured then ''medium'' else ''high''),
              io_summary = ''Policy v'' @ show_version (sp_version policy) @ '' was not applied: '' @ reason,
              io_openedAt = now \<rparr>)))"

definition refused_distribution ::
  "request_context \<Rightarrow> 'w security_deps \<Rightarrow> policy_row \<Rightarrow> engine_status \<Rightarrow> string \<Rightarrow>
   ('w, failure, distribution_result) eio" where
  "refused_distribution ctx deps policy status reason =
     io_bind (yd_newId deps) (\<lambda>eventId.
     io_then (the (yt_recordPolicyEvent (yd_store deps))
        (policy_event_of ctx eventId (sp_organizationId policy) (sp_id policy) (Some (pl_state policy)) ''rejected''
          (sp_version policy) reason))
    (io_then (as_recordAuditEvent (yd_store deps)
        (policy_audit ctx policy ''policy.rejected''
          [(''version'', JNumber (sp_version policy)), (''status'', JString (status_name status))]))
    (io_then (open_rejection deps policy status reason)
       (io_return \<lparr> dz_policy = policy, dz_distributed = False, dz_engineReason = Some reason \<rparr>))))"

definition accepted_distribution ::
  "request_context \<Rightarrow> 'w security_deps \<Rightarrow> policy_row \<Rightarrow> js_number \<Rightarrow> ('w, failure, distribution_result) eio" where
  "accepted_distribution ctx deps policy engineVersion =
     io_bind (the (yt_saveSecurityPolicy (yd_store deps))
        \<lparr> sv_id = sp_id policy, sv_organizationId = sp_organizationId policy, sv_name = sp_name policy,
          sv_riskLevel = sp_riskLevel policy, sv_action = sp_action policy, sv_state = ''active'',
          sv_protectionMode = pl_protectionMode policy, sv_protectionExpiresAt = pl_protectionExpiresAt policy,
          sv_version = acknowledged engineVersion (sp_version policy), sv_createdBy = pr_userId (cx_principal ctx) \<rparr>)
      (\<lambda>active.
     io_bind (yd_newId deps) (\<lambda>eventId.
     io_then (the (yt_recordPolicyEvent (yd_store deps))
        (policy_event_of ctx eventId (sp_organizationId policy) (sp_id policy) (Some (pl_state policy)) ''active''
          (sp_version active) ''Policy distributed and accepted by the edge.''))
    (io_then (as_recordAuditEvent (yd_store deps)
        (policy_audit ctx policy ''policy.distributed'' [(''version'', JNumber (sp_version active))]))
       (io_return \<lparr> dz_policy = active, dz_distributed = True, dz_engineReason = None \<rparr>))))"

definition apply_distribution ::
  "request_context \<Rightarrow> 'w security_deps \<Rightarrow> policy_row \<Rightarrow> ('w, failure, distribution_result) eio" where
  "apply_distribution ctx deps policy =
     io_bind (thrown (ea_applyPolicy (yd_edge deps)
        (engine_ctx_for (sp_organizationId policy) (distribution_key policy) EDGE_TIMEOUT_MS)
        (policy_ref_of policy))) (\<lambda>applied.
       case applied of
         AErr status reason \<Rightarrow> refused_distribution ctx deps policy status reason
       | AOk _ value \<Rightarrow> accepted_distribution ctx deps policy (ap_version value))"

definition distributeSecurityPolicy ::
  "request_context \<Rightarrow> 'w security_deps \<Rightarrow> string \<Rightarrow> ('w, failure, distribution_result) eio" where
  "distributeSecurityPolicy ctx deps organizationId =
     io_then (check_that (requireCapability ctx organizationId SecurityUpdate))
    (io_then (check_that (policy_writesFor (yd_store deps)))
    (io_bind (the (yt_getSecurityPolicy (yd_store deps)) (pr_userId (cx_principal ctx)) organizationId) (\<lambda>found.
       case found of
         None \<Rightarrow> io_throw NO_POLICY
       | Some policy \<Rightarrow>
           io_then (check_that (may_distribute policy))
             (case yd_queue deps of
                Some queue \<Rightarrow> enqueue_distribution ctx deps queue policy
              | None \<Rightarrow> apply_distribution ctx deps policy))))"

subsection \<open>The deny list, the trusted sources and the rate limits\<close>

fun rule_kind :: "string \<Rightarrow> deny_kind option" where
  "rule_kind s =
     (if s = ''ip'' then Some DenyIp else if s = ''cidr'' then Some DenyCidr
      else if s = ''asn'' then Some DenyAsn else if s = ''user-agent'' then Some DenyUserAgent else None)"

fun rule_kind_name :: "deny_kind \<Rightarrow> string" where
  "rule_kind_name DenyIp = ''ip''"
| "rule_kind_name DenyCidr = ''cidr''"
| "rule_kind_name DenyAsn = ''asn''"
| "rule_kind_name DenyUserAgent = ''user-agent''"

fun trusted_kind :: "string \<Rightarrow> address_kind option" where
  "trusted_kind s = (if s = ''ip'' then Some AddressIp else if s = ''cidr'' then Some AddressCidr else None)"

fun trusted_kind_name :: "address_kind \<Rightarrow> string" where
  "trusted_kind_name AddressIp = ''ip''"
| "trusted_kind_name AddressCidr = ''cidr''"

definition listSecurityRules ::
  "request_context \<Rightarrow> 'w security_deps \<Rightarrow> string \<Rightarrow> ('w, failure, security_rule list) eio" where
  "listSecurityRules ctx deps organizationId =
     io_then (check_that (requireCapability ctx organizationId SecurityRead))
    (io_then (check_that (ruleWritesFor (yd_store deps)))
       (the (yt_listSecurityRules (yd_store deps)) (pr_userId (cx_principal ctx)) organizationId))"

record list_entry_input =
  le_organizationId :: string
  le_kind :: string
  le_value :: string
  le_note :: "string option"

definition rule_request :: "list_entry_input \<Rightarrow> failure + (deny_rule \<times> string option)" where
  "rule_request inp =
     (case rule_kind (le_kind inp) of
        None \<Rightarrow> Inl (invalid_input ''Unknown rule kind.'')
      | Some kind \<Rightarrow>
          (let rule = \<lparr> dn_kind = kind, dn_value = trim (le_value inp) \<rparr> in
           case checked (validateDenyRule rule) of
             Inl e \<Rightarrow> Inl e
           | Inr _ \<Rightarrow> (case note_of (le_note inp) of Inl e \<Rightarrow> Inl e | Inr note \<Rightarrow> Inr (rule, note))))"

definition addSecurityRule ::
  "request_context \<Rightarrow> 'w security_deps \<Rightarrow> list_entry_input \<Rightarrow> ('w, failure, security_rule) eio" where
  "addSecurityRule ctx deps inp =
     io_then (check_that (requireCapability ctx (le_organizationId inp) SecurityUpdate))
    (io_bind (check_that (rule_request inp)) (\<lambda>(rule, note).
     io_then (check_that (ruleWritesFor (yd_store deps)))
    (io_bind (yd_newId deps) (\<lambda>newId.
     io_bind (the (yt_createSecurityRule (yd_store deps))
        \<lparr> dn_kind = dn_kind rule, dn_value = dn_value rule, sc_id = newId,
          sc_organizationId = le_organizationId inp, sc_note = note,
          sc_createdBy = pr_userId (cx_principal ctx) \<rparr>) (\<lambda>created.
     io_then (as_recordAuditEvent (yd_store deps)
        (audit_by ctx (le_organizationId inp) ''security_rule.added'' ''security_rule'' (sc_id created)
          [(''kind'', JString (rule_kind_name (dn_kind created))), (''value'', JString (dn_value created))]))
       (io_return created))))))"

definition removal_audit ::
  "request_context \<Rightarrow> string \<Rightarrow> string \<Rightarrow> string \<Rightarrow> bool \<Rightarrow> audit_entry" where
  "removal_audit ctx organizationId what target removed =
     audit_by ctx organizationId (what @ ''.removed'') what target [(''removed'', JBool removed)]"

definition removeSecurityRule ::
  "request_context \<Rightarrow> 'w security_deps \<Rightarrow> string \<Rightarrow> string \<Rightarrow> ('w, failure, bool) eio" where
  "removeSecurityRule ctx deps organizationId ruleId =
     io_then (check_that (requireCapability ctx organizationId SecurityUpdate))
    (io_then (check_that (ruleWritesFor (yd_store deps)))
    (io_bind (the (yt_deleteSecurityRule (yd_store deps)) (pr_userId (cx_principal ctx)) organizationId ruleId) (\<lambda>removed.
     io_then (as_recordAuditEvent (yd_store deps)
        (removal_audit ctx organizationId ''security_rule'' ruleId removed))
       (io_return removed))))"

definition listTrustedSources ::
  "request_context \<Rightarrow> 'w security_deps \<Rightarrow> string \<Rightarrow> ('w, failure, trusted_entry list) eio" where
  "listTrustedSources ctx deps organizationId =
     io_then (check_that (requireCapability ctx organizationId SecurityRead))
    (io_then (check_that (trustedWritesFor (yd_store deps)))
       (the (yt_listTrustedSources (yd_store deps)) (pr_userId (cx_principal ctx)) organizationId))"

definition trusted_request :: "list_entry_input \<Rightarrow> failure + (trusted_source \<times> string option)" where
  "trusted_request inp =
     (case trusted_kind (le_kind inp) of
        None \<Rightarrow> Inl (invalid_input ''Unknown trusted-source kind.'')
      | Some kind \<Rightarrow>
          (let source = \<lparr> ts_kind = kind, ts_value = trim (le_value inp) \<rparr> in
           case checked (validateTrustedSource source) of
             Inl e \<Rightarrow> Inl e
           | Inr _ \<Rightarrow> (case note_of (le_note inp) of Inl e \<Rightarrow> Inl e | Inr note \<Rightarrow> Inr (source, note))))"

definition addTrustedSource ::
  "request_context \<Rightarrow> 'w security_deps \<Rightarrow> list_entry_input \<Rightarrow> ('w, failure, trusted_entry) eio" where
  "addTrustedSource ctx deps inp =
     io_then (check_that (requireCapability ctx (le_organizationId inp) SecurityUpdate))
    (io_bind (check_that (trusted_request inp)) (\<lambda>(source, note).
     io_then (check_that (trustedWritesFor (yd_store deps)))
    (io_bind (yd_newId deps) (\<lambda>newId.
     io_bind (the (yt_createTrustedSource (yd_store deps))
        \<lparr> ts_kind = ts_kind source, ts_value = ts_value source, te_id = newId,
          te_organizationId = le_organizationId inp, te_note = note,
          te_createdBy = pr_userId (cx_principal ctx) \<rparr>) (\<lambda>created.
     io_then (as_recordAuditEvent (yd_store deps)
        (audit_by ctx (le_organizationId inp) ''security_trusted_source.added'' ''security_trusted_source'' (te_id created)
          [(''kind'', JString (trusted_kind_name (ts_kind created))), (''value'', JString (ts_value created))]))
       (io_return created))))))"

definition removeTrustedSource ::
  "request_context \<Rightarrow> 'w security_deps \<Rightarrow> string \<Rightarrow> string \<Rightarrow> ('w, failure, bool) eio" where
  "removeTrustedSource ctx deps organizationId sourceId =
     io_then (check_that (requireCapability ctx organizationId SecurityUpdate))
    (io_then (check_that (trustedWritesFor (yd_store deps)))
    (io_bind (the (yt_deleteTrustedSource (yd_store deps)) (pr_userId (cx_principal ctx)) organizationId sourceId) (\<lambda>removed.
     io_then (as_recordAuditEvent (yd_store deps)
        (removal_audit ctx organizationId ''security_trusted_source'' sourceId removed))
       (io_return removed))))"

definition listRateLimits ::
  "request_context \<Rightarrow> 'w security_deps \<Rightarrow> string \<Rightarrow> ('w, failure, rate_limit_row list) eio" where
  "listRateLimits ctx deps organizationId =
     io_then (check_that (requireCapability ctx organizationId SecurityRead))
    (io_then (check_that (rateLimitWritesFor (yd_store deps)))
       (the (yt_listRateLimits (yd_store deps)) (pr_userId (cx_principal ctx)) organizationId))"

record rate_limit_input =
  lz_organizationId :: string
  lz_key :: string
  lz_headerName :: "string option"
  lz_limit :: js_number
  lz_windowSeconds :: js_number
  lz_note :: "string option"

definition limit_request :: "rate_limit_input \<Rightarrow> failure + (rate_limit_rule \<times> string option)" where
  "limit_request inp =
     (if lz_key inp \<notin> set RATE_LIMIT_KEYS then Inl (invalid_input ''Unknown rate-limit key.'')
      else if lz_key inp \<noteq> ''header'' \<and> truthy (lz_headerName inp)
      then Inl (invalid_input ''Only a header-keyed limit may name a header.'')
      else (let header = (if lz_key inp = ''header'' then Some (trim (or_else (lz_headerName inp) [])) else None);
                rule = \<lparr> rl_id = ''pending'', rl_key = lz_key inp, rl_headerName = header, rl_limit = lz_limit inp,
                         rl_windowSeconds = lz_windowSeconds inp \<rparr> in
            case checked (validateRateLimitRule rule) of
              Inl e \<Rightarrow> Inl e
            | Inr _ \<Rightarrow> (case note_of (lz_note inp) of
                Inl e \<Rightarrow> Inl e
              | Inr note \<Rightarrow> Inr (rule\<lparr> rl_headerName := if_truthy header \<rparr>, note))))"

definition limit_clash :: "rate_limit_rule \<Rightarrow> failure" where
  "limit_clash rule = ApiError Conflict
     (case rl_headerName rule of
        Some header \<Rightarrow> ''A limit for the '' @ header @ '' header already exists.''
      | None \<Rightarrow> ''A '' @ rl_key rule @ ''-keyed limit already exists.'')"

definition addRateLimit ::
  "request_context \<Rightarrow> 'w security_deps \<Rightarrow> rate_limit_input \<Rightarrow> ('w, failure, rate_limit_row) eio" where
  "addRateLimit ctx deps inp =
     io_then (check_that (requireCapability ctx (lz_organizationId inp) SecurityUpdate))
    (io_bind (check_that (limit_request inp)) (\<lambda>(rule, note).
     io_then (check_that (rateLimitWritesFor (yd_store deps)))
    (io_bind (the (yt_listRateLimits (yd_store deps)) (pr_userId (cx_principal ctx)) (lz_organizationId inp)) (\<lambda>limits.
       if list_ex (\<lambda>l. rl_key l = rl_key rule \<and> rl_headerName l = rl_headerName rule) limits
       then io_throw (limit_clash rule)
       else
         io_bind (yd_newId deps) (\<lambda>newId.
         io_bind (the (yt_createRateLimit (yd_store deps))
            \<lparr> rl_id = newId, rl_key = rl_key rule, rl_headerName = rl_headerName rule, rl_limit = rl_limit rule,
              rl_windowSeconds = rl_windowSeconds rule, rt_organizationId = lz_organizationId inp, rt_note = note,
              rt_createdBy = pr_userId (cx_principal ctx) \<rparr>) (\<lambda>created.
         io_then (as_recordAuditEvent (yd_store deps)
            (audit_by ctx (lz_organizationId inp) ''security_rate_limit.added'' ''security_rate_limit'' (rl_id created)
              [(''key'', JString (rl_key created)), (''limit'', JNumber (rl_limit created)),
               (''windowSeconds'', JNumber (rl_windowSeconds created))]))
           (io_return created)))))))"

definition removeRateLimit ::
  "request_context \<Rightarrow> 'w security_deps \<Rightarrow> string \<Rightarrow> string \<Rightarrow> ('w, failure, bool) eio" where
  "removeRateLimit ctx deps organizationId rateLimitId =
     io_then (check_that (requireCapability ctx organizationId SecurityUpdate))
    (io_then (check_that (rateLimitWritesFor (yd_store deps)))
    (io_bind (the (yt_deleteRateLimit (yd_store deps)) (pr_userId (cx_principal ctx)) organizationId rateLimitId) (\<lambda>removed.
     io_then (as_recordAuditEvent (yd_store deps)
        (removal_audit ctx organizationId ''security_rate_limit'' rateLimitId removed))
       (io_return removed))))"

subsection \<open>Deployment protection\<close>

definition readDeploymentProtection ::
  "request_context \<Rightarrow> 'w security_deps \<Rightarrow> string \<Rightarrow> string \<Rightarrow> ('w, failure, protection_view option) eio" where
  "readDeploymentProtection ctx deps organizationId projectId =
     io_then (check_that (requireCapability ctx organizationId SecurityRead))
    (io_then (check_that (protectionWritesFor (yd_store deps)))
       (the (yt_getDeploymentProtection (yd_store deps)) (pr_userId (cx_principal ctx)) projectId))"

record protection_input =
  qx_organizationId :: string
  qx_projectId :: string
  qx_mode :: string
  qx_basicUser :: "string option"
  qx_basicPassword :: "string option"
  qx_allowedCidrs :: "string list option"
  qx_protectionExpiresAt :: "string option"

definition servicePasswordHash ::
  "'w security_deps \<Rightarrow> string \<Rightarrow> string \<Rightarrow> ('w, failure, string option) eio" where
  "servicePasswordHash deps organizationId projectId =
     (case yt_getPasswordHash (yd_store deps) of
        None \<Rightarrow> io_return None
      | Some get \<Rightarrow> get organizationId projectId)"

definition PASSWORD_REQUIRED :: failure where
  "PASSWORD_REQUIRED = invalid_input ''A protection password is required.''"

text \<open>The digest a password posture is stored with: of the new password, or the stored one.\<close>

definition posture_digest ::
  "'w security_deps \<Rightarrow> protection_input \<Rightarrow> protection_view option \<Rightarrow> ('w, failure, string option) eio" where
  "posture_digest deps inp existing =
     (if qx_mode inp \<noteq> ''password'' then io_return None
      else let password = or_else (qx_basicPassword inp) [] in
        if password \<noteq> []
        then if length password < 8
             then io_throw (invalid_input ''A protection password is at least 8 characters.'')
             else io_return (Some (yd_sha256 deps password))
        else case existing of
            None \<Rightarrow> io_throw PASSWORD_REQUIRED
          | Some p \<Rightarrow>
              if pv_mode p \<noteq> ''password'' then io_throw PASSWORD_REQUIRED
              else io_bind (servicePasswordHash deps (qx_organizationId inp) (qx_projectId inp)) (\<lambda>digest.
                     if \<not> truthy digest then io_throw PASSWORD_REQUIRED else io_return digest))"

definition basic_user :: "protection_input \<Rightarrow> string option" where
  "basic_user inp =
     (if qx_mode inp \<noteq> ''password'' then None
      else let user = trim (or_else (qx_basicUser inp) []) in Some (if user = [] then ''cloud-wai'' else user))"

definition as_block :: "string \<Rightarrow> string" where
  "as_block v = (if CHR ''/'' \<in> set v then v else v @ ''/32'')"

definition allowed_blocks :: "protection_input \<Rightarrow> string list" where
  "allowed_blocks inp =
     (if qx_mode inp \<noteq> ''ip'' then []
      else unique_list (map as_block (filter (\<lambda>v. v \<noteq> []) (map trim (or_else (qx_allowedCidrs inp) [])))))"

definition posture_asked :: "protection_input \<Rightarrow> string option \<Rightarrow> protection" where
  "posture_asked inp digest =
     \<lparr> pt_mode = qx_mode inp, pt_basicUser = basic_user inp, pt_basicPasswordSha256 = if_truthy digest,
       pt_allowedCidrs = (if qx_mode inp = ''ip'' then Some (allowed_blocks inp) else None) \<rparr>"

definition expiry_asked :: "(string \<Rightarrow> millis option) \<Rightarrow> string option \<Rightarrow> failure + millis option" where
  "expiry_asked date_of presented =
     (case presented of
        None \<Rightarrow> Inr None
      | Some s \<Rightarrow> (case date_of (trim s) of
          None \<Rightarrow> Inl (invalid_input ''The protection expiry is not a timestamp.'')
        | Some t \<Rightarrow> Inr (Some t)))"

definition protection_row_of ::
  "request_context \<Rightarrow> protection_input \<Rightarrow> string \<Rightarrow> string option \<Rightarrow> millis option \<Rightarrow> protection_save" where
  "protection_row_of ctx inp rowId digest expiresAt =
     \<lparr> px_id = rowId, px_organizationId = qx_organizationId inp, px_projectId = qx_projectId inp,
       px_mode = qx_mode inp, px_basicUser = basic_user inp, px_basicPasswordHash = digest,
       px_allowedCidrs = allowed_blocks inp, px_protectionExpiresAt = expiresAt,
       px_updatedBy = pr_userId (cx_principal ctx) \<rparr>"

definition distributeDeploymentProtection ::
  "request_context \<Rightarrow> 'w security_deps \<Rightarrow> string \<Rightarrow> ('w, failure, bool \<times> string option) eio" where
  "distributeDeploymentProtection ctx deps organizationId =
     io_catch (io_bind (distributeSecurityPolicy ctx deps organizationId) (\<lambda>result.
         io_return (dz_distributed result, dz_engineReason result)))
       (\<lambda>e. case e of ApiError _ message \<Rightarrow> io_return (False, Some message) | _ \<Rightarrow> io_throw e)"

definition write_protection ::
  "request_context \<Rightarrow> 'w security_deps \<Rightarrow> protection_input \<Rightarrow> protection_save \<Rightarrow>
   ('w, failure, protection_view \<times> bool \<times> string option) eio" where
  "write_protection ctx deps inp row =
     io_bind (the (yt_saveDeploymentProtection (yd_store deps)) row) (\<lambda>saved.
     io_then (as_recordAuditEvent (yd_store deps)
        (audit_by ctx (qx_organizationId inp) ''deployment_protection.saved'' ''project'' (qx_projectId inp)
          [(''mode'', JString (pv_mode saved)), (''cidrCount'', JNumber (of_nat (length (allowed_blocks inp)))),
           (''expiring'', JBool (px_protectionExpiresAt row \<noteq> None))]))
    (io_bind (distributeDeploymentProtection ctx deps (qx_organizationId inp)) (\<lambda>(applied, reason).
       io_return (saved, applied, reason))))"

definition saveDeploymentProtection ::
  "request_context \<Rightarrow> 'w security_deps \<Rightarrow> protection_input \<Rightarrow>
   ('w, failure, protection_view \<times> bool \<times> string option) eio" where
  "saveDeploymentProtection ctx deps inp =
     io_then (check_that (requireCapability ctx (qx_organizationId inp) SecurityUpdate))
    (if qx_mode inp \<notin> set PROTECTION_MODES then io_throw (invalid_input ''Unknown protection mode.'')
     else
       io_then (check_that (protectionWritesFor (yd_store deps)))
      (io_bind (the (yt_getDeploymentProtection (yd_store deps)) (pr_userId (cx_principal ctx)) (qx_projectId inp)) (\<lambda>existing.
       io_bind (posture_digest deps inp existing) (\<lambda>digest.
       io_then (check_that (checked (validateProtection (posture_asked inp digest))))
      (io_bind (check_that (expiry_asked (yd_date deps) (qx_protectionExpiresAt inp))) (\<lambda>expiresAt.
       io_bind (case existing of Some p \<Rightarrow> io_return (pv_id p) | None \<Rightarrow> yd_newId deps) (\<lambda>rowId.
         write_protection ctx deps inp (protection_row_of ctx inp rowId digest expiresAt))))))))"

subsection \<open>Edge decisions and incidents\<close>

definition listSecurityEvents ::
  "request_context \<Rightarrow> 'w security_deps \<Rightarrow> string \<Rightarrow> js_number option \<Rightarrow> ('w, failure, security_event list) eio" where
  "listSecurityEvents ctx deps organizationId limit =
     io_then (check_that (requireCapability ctx organizationId SecurityRead))
       (case yt_listSecurityEvents (yd_store deps) of
          None \<Rightarrow> io_throw (unavailable_yet ''read edge decisions'')
        | Some list_events \<Rightarrow> list_events (pr_userId (cx_principal ctx)) organizationId limit)"

definition readVerifiedBots :: "request_context \<Rightarrow> string \<Rightarrow> failure + verified_bot list" where
  "readVerifiedBots ctx organizationId =
     (case requireCapability ctx organizationId SecurityRead of Inl e \<Rightarrow> Inl e | Inr _ \<Rightarrow> Inr VERIFIED_BOTS)"

definition listSecurityIncidents ::
  "request_context \<Rightarrow> 'w security_deps \<Rightarrow> string \<Rightarrow> ('w, failure, security_incident list) eio" where
  "listSecurityIncidents ctx deps organizationId =
     io_then (check_that (requireCapability ctx organizationId SecurityRead))
    (io_then (check_that (incidentWritesFor (yd_store deps)))
       (the (yt_listSecurityIncidents (yd_store deps)) (pr_userId (cx_principal ctx)) organizationId))"

record transition_input =
  tz_organizationId :: string
  tz_incidentId :: string
  tz_state :: string
  tz_resolution :: "string option"

text \<open>The states a caller may ask for; \<open>open\<close> is not one.\<close>

fun transition_state :: "string \<Rightarrow> incident_state option" where
  "transition_state s =
     (if s = ''triaged'' then Some IncTriaged else if s = ''resolved'' then Some IncResolved
      else if s = ''false_positive'' then Some IncFalsePositive else None)"

fun incident_state_name :: "incident_state \<Rightarrow> string" where
  "incident_state_name IncOpen = ''open''"
| "incident_state_name IncTriaged = ''triaged''"
| "incident_state_name IncResolved = ''resolved''"
| "incident_state_name IncFalsePositive = ''false_positive''"

definition closing :: "incident_state \<Rightarrow> bool" where
  "closing st \<longleftrightarrow> st = IncResolved \<or> st = IncFalsePositive"

definition transition_request :: "transition_input \<Rightarrow> failure + (incident_state \<times> string)" where
  "transition_request inp =
     (case transition_state (tz_state inp) of
        None \<Rightarrow> Inl (invalid_input ''Unknown incident state.'')
      | Some st \<Rightarrow>
          (let resolution = trim (or_else (tz_resolution inp) []) in
           if closing st \<and> resolution = [] then Inl (invalid_input ''Closing an incident requires a resolution.'')
           else if 500 < length resolution
           then Inl (invalid_input ''A resolution is at most 500 characters.'')
           else Inr (st, resolution)))"

definition INCIDENT_NOT_FOUND :: failure where
  "INCIDENT_NOT_FOUND = ApiError NotFound ''No such incident in this organization.''"

definition admit_transition :: "security_incident option \<Rightarrow> incident_state \<Rightarrow> failure + security_incident" where
  "admit_transition found st =
     (case found of
        None \<Rightarrow> Inl INCIDENT_NOT_FOUND
      | Some current \<Rightarrow>
          if closing (in_state current)
          then Inl (ApiError Conflict ''A closed incident cannot be reopened; open a new one.'')
          else if in_state current = IncOpen \<and> closing st
          then Inl (ApiError Conflict ''An incident must be triaged before it is closed.'')
          else Inr current)"

definition findIncident ::
  "request_context \<Rightarrow> 'w security_deps \<Rightarrow> string \<Rightarrow> string \<Rightarrow> ('w, failure, security_incident option) eio" where
  "findIncident ctx deps organizationId incidentId =
     io_bind (the (yt_listSecurityIncidents (yd_store deps)) (pr_userId (cx_principal ctx)) organizationId) (\<lambda>incidents.
       io_return (find (\<lambda>i. in_id i = incidentId) incidents))"

definition transitionSecurityIncident ::
  "request_context \<Rightarrow> 'w security_deps \<Rightarrow> transition_input \<Rightarrow> ('w, failure, incident_answer) eio" where
  "transitionSecurityIncident ctx deps inp =
     io_then (check_that (requireCapability ctx (tz_organizationId inp) SecurityUpdate))
    (io_bind (check_that (transition_request inp)) (\<lambda>(st, resolution).
     io_then (check_that (incidentWritesFor (yd_store deps)))
    (io_bind (findIncident ctx deps (tz_organizationId inp) (tz_incidentId inp)) (\<lambda>found.
     io_bind (check_that (admit_transition found st)) (\<lambda>current.
     io_bind (the (yt_transitionIncident (yd_store deps))
        \<lparr> it_organizationId = tz_organizationId inp, it_incidentId = tz_incidentId inp, it_state = st,
          it_resolution = (if closing st then Some resolution else None),
          it_triagedBy = pr_userId (cx_principal ctx) \<rparr>) (\<lambda>updated.
       case updated of
         None \<Rightarrow> io_throw INCIDENT_NOT_FOUND
       | Some u \<Rightarrow>
           io_then (as_recordAuditEvent (yd_store deps)
              (audit_by ctx (tz_organizationId inp) (''security_incident.'' @ tz_state inp) ''security_incident'' (ia_id u)
                [(''from'', JString (incident_state_name (in_state current))),
                 (''to'', JString (ia_state u)), (''severity'', JString (ia_severity u))]))
             (io_return u)))))))"

end
