(* ===== verification/Security_Store.thy ===== *)
theory Security_Store
  imports Account_Store Security_Procedures
begin

section \<open>packages/database/supabase-store.ts: the security tables\<close>

text \<open>
  The tables behind the security procedures, at the place the account tables have behind theirs.  Rows are
  kept in the order they were created; the digest of a password is in the row and in no reading of it.
\<close>

record security_tables =
  yk_policies :: "policy_row list"
  yk_events :: "policy_event list"
  yk_rules :: "security_rule list"
  yk_trusted :: "trusted_entry list"
  yk_limits :: "rate_limit_row list"
  yk_protections :: "protection_save list"
  yk_decisions :: "security_event list"
  yk_incidents :: "security_incident list"

type_synonym ('q, 'y) security_world = "('q, security_tables \<times> 'y) api_world"

subsection \<open>Policies and their events\<close>

definition getSecurityPolicy_row ::
  "string \<Rightarrow> string \<Rightarrow> (('q, 'y) security_world, failure, policy_row option) eio" where
  "getSecurityPolicy_row userId organizationId = account_read ''getSecurityPolicy'' (\<lambda>s t k.
     newest (filter (\<lambda>r. sp_organizationId r = organizationId \<and> belongs t userId organizationId) (yk_policies k)))"

text \<open>
  The upsert is on the organization and the name and writes the identifier too, so a row of another name
  with that identifier is a conflict of the primary key.
\<close>

definition savePolicy_row :: "policy_save \<Rightarrow> (('q, 'y) security_world, failure, policy_row) eio" where
  "savePolicy_row i = account_op ''saveSecurityPolicy'' (\<lambda>s t k.
     (let row = row_of_save i in
      if list_ex (\<lambda>r. sp_id r = sp_id row \<and> \<not> same_key row r) (yk_policies k)
      then (Inl (taken_key ''saveSecurityPolicy'' ''security_policies''), s, t, k)
      else (Inr row, s, t, k\<lparr> yk_policies :=
        (if list_ex (same_key row) (yk_policies k)
         then map (\<lambda>r. if same_key row r then row else r) (yk_policies k)
         else yk_policies k @ [row]) \<rparr>)))"

definition recordPolicyEvent_row :: "policy_event \<Rightarrow> (('q, 'y) security_world, failure, unit) eio" where
  "recordPolicyEvent_row e = account_op ''recordPolicyEvent'' (\<lambda>s t k.
     (Inr (), s, t, k\<lparr> yk_events := yk_events k @ [e] \<rparr>))"

definition listPolicyEvents_rows ::
  "string \<Rightarrow> string \<Rightarrow> (('q, 'y) security_world, failure, policy_event list) eio" where
  "listPolicyEvents_rows userId organizationId = account_read ''listPolicyEvents'' (\<lambda>s t k.
     take 100 (rev (filter (\<lambda>e. pe_organizationId e = organizationId \<and> belongs t userId organizationId) (yk_events k))))"

subsection \<open>Lists\<close>

definition listSecurityRules_rows ::
  "string \<Rightarrow> string \<Rightarrow> (('q, 'y) security_world, failure, security_rule list) eio" where
  "listSecurityRules_rows userId organizationId = account_read ''listSecurityRules'' (\<lambda>s t k.
     take 200 (rev (filter (\<lambda>r. sc_organizationId r = organizationId \<and> belongs t userId organizationId) (yk_rules k))))"

definition createSecurityRule_row :: "security_rule \<Rightarrow> (('q, 'y) security_world, failure, security_rule) eio" where
  "createSecurityRule_row i = account_op ''createSecurityRule'' (\<lambda>s t k.
     if list_ex (\<lambda>r. sc_id r = sc_id i \<or> sc_organizationId r = sc_organizationId i \<and>
          dn_kind r = dn_kind i \<and> dn_value r = dn_value i) (yk_rules k)
     then (Inl (taken_key ''createSecurityRule'' ''security_rules''), s, t, k)
     else (Inr i, s, t, k\<lparr> yk_rules := yk_rules k @ [i] \<rparr>))"

text \<open>A deletion answers yes whether or not it matched a row.\<close>

definition deleteSecurityRule_row ::
  "string \<Rightarrow> string \<Rightarrow> string \<Rightarrow> (('q, 'y) security_world, failure, bool) eio" where
  "deleteSecurityRule_row userId organizationId ruleId = account_op ''deleteSecurityRule'' (\<lambda>s t k.
     (Inr True, s, t, k\<lparr> yk_rules := filter (\<lambda>r. \<not> (sc_id r = ruleId \<and> sc_organizationId r = organizationId \<and>
        belongs t userId organizationId)) (yk_rules k) \<rparr>))"

definition listTrustedSources_rows ::
  "string \<Rightarrow> string \<Rightarrow> (('q, 'y) security_world, failure, trusted_entry list) eio" where
  "listTrustedSources_rows userId organizationId = account_read ''listTrustedSources'' (\<lambda>s t k.
     take 200 (rev (filter (\<lambda>r. te_organizationId r = organizationId \<and> belongs t userId organizationId) (yk_trusted k))))"

definition createTrustedSource_row :: "trusted_entry \<Rightarrow> (('q, 'y) security_world, failure, trusted_entry) eio" where
  "createTrustedSource_row i = account_op ''createTrustedSource'' (\<lambda>s t k.
     if list_ex (\<lambda>r. te_id r = te_id i \<or> te_organizationId r = te_organizationId i \<and>
          ts_kind r = ts_kind i \<and> ts_value r = ts_value i) (yk_trusted k)
     then (Inl (taken_key ''createTrustedSource'' ''security_trusted_sources''), s, t, k)
     else (Inr i, s, t, k\<lparr> yk_trusted := yk_trusted k @ [i] \<rparr>))"

definition deleteTrustedSource_row ::
  "string \<Rightarrow> string \<Rightarrow> string \<Rightarrow> (('q, 'y) security_world, failure, bool) eio" where
  "deleteTrustedSource_row userId organizationId sourceId = account_op ''deleteTrustedSource'' (\<lambda>s t k.
     (Inr True, s, t, k\<lparr> yk_trusted := filter (\<lambda>r. \<not> (te_id r = sourceId \<and> te_organizationId r = organizationId \<and>
        belongs t userId organizationId)) (yk_trusted k) \<rparr>))"

definition listRateLimits_rows ::
  "string \<Rightarrow> string \<Rightarrow> (('q, 'y) security_world, failure, rate_limit_row list) eio" where
  "listRateLimits_rows userId organizationId = account_read ''listRateLimits'' (\<lambda>s t k.
     take 200 (rev (filter (\<lambda>r. rt_organizationId r = organizationId \<and> belongs t userId organizationId) (yk_limits k))))"

definition createRateLimit_row :: "rate_limit_row \<Rightarrow> (('q, 'y) security_world, failure, rate_limit_row) eio" where
  "createRateLimit_row i = account_op ''createRateLimit'' (\<lambda>s t k.
     if list_ex (\<lambda>r. rl_id r = rl_id i \<or> rt_organizationId r = rt_organizationId i \<and>
          rl_key r = rl_key i \<and> rl_headerName r = rl_headerName i) (yk_limits k)
     then (Inl (taken_key ''createRateLimit'' ''security_rate_limits''), s, t, k)
     else (Inr i, s, t, k\<lparr> yk_limits := yk_limits k @ [i] \<rparr>))"

definition deleteRateLimit_row ::
  "string \<Rightarrow> string \<Rightarrow> string \<Rightarrow> (('q, 'y) security_world, failure, bool) eio" where
  "deleteRateLimit_row userId organizationId rateLimitId = account_op ''deleteRateLimit'' (\<lambda>s t k.
     (Inr True, s, t, k\<lparr> yk_limits := filter (\<lambda>r. \<not> (rl_id r = rateLimitId \<and> rt_organizationId r = organizationId \<and>
        belongs t userId organizationId)) (yk_limits k) \<rparr>))"

subsection \<open>Deployment protection\<close>

definition protection_view_of :: "protection_save \<Rightarrow> protection_view" where
  "protection_view_of r =
     \<lparr> pv_id = px_id r, pv_organizationId = px_organizationId r, pv_projectId = px_projectId r, pv_mode = px_mode r,
       pv_basicUser = px_basicUser r, pv_allowedCidrs = px_allowedCidrs r,
       pv_protectionExpiresAt = px_protectionExpiresAt r, pv_updatedBy = px_updatedBy r \<rparr>"

definition getDeploymentProtection_row ::
  "string \<Rightarrow> string \<Rightarrow> (('q, 'y) security_world, failure, protection_view option) eio" where
  "getDeploymentProtection_row userId projectId = account_read ''getDeploymentProtection'' (\<lambda>s t k.
     map_option protection_view_of (first_where (\<lambda>r. px_projectId r = projectId \<and>
       belongs t userId (px_organizationId r)) (yk_protections k)))"

text \<open>The upsert is on the project alone and writes every column of its input, the organization included.\<close>

definition upserted :: "protection_save \<Rightarrow> protection_save list \<Rightarrow> protection_save list" where
  "upserted i rows =
     (if list_ex (\<lambda>r. px_projectId r = px_projectId i) rows
      then map (\<lambda>r. if px_projectId r = px_projectId i then i else r) rows
      else rows @ [i])"

definition saveDeploymentProtection_row ::
  "protection_save \<Rightarrow> (('q, 'y) security_world, failure, protection_view) eio" where
  "saveDeploymentProtection_row i = account_op ''saveDeploymentProtection'' (\<lambda>s t k.
     if \<not> list_ex (\<lambda>p. pj_id p = px_projectId i) (cp_projects s) \<or>
        list_ex (\<lambda>r. px_id r = px_id i \<and> px_projectId r \<noteq> px_projectId i) (yk_protections k)
     then (Inl (taken_key ''saveDeploymentProtection'' ''project_deployment_protection''), s, t, k)
     else (Inr (protection_view_of i), s, t, k\<lparr> yk_protections := upserted i (yk_protections k) \<rparr>))"

definition passwordHash_service ::
  "string \<Rightarrow> string \<Rightarrow> (('q, 'y) security_world, failure, string option) eio" where
  "passwordHash_service organizationId projectId = account_read ''getDeploymentProtectionPasswordHash'' (\<lambda>s t k.
     Option.bind (first_where (\<lambda>r. px_projectId r = projectId \<and> px_organizationId r = organizationId) (yk_protections k))
       px_basicPasswordHash)"

subsection \<open>Decisions and incidents\<close>

definition listSecurityEvents_rows ::
  "string \<Rightarrow> string \<Rightarrow> js_number option \<Rightarrow> (('q, 'y) security_world, failure, security_event list) eio" where
  "listSecurityEvents_rows userId organizationId limit = account_read ''listSecurityEvents'' (\<lambda>s t k.
     take (nat \<lfloor>max 1 (min (or_else limit 100) 200)\<rfloor>)
       (sort_key (\<lambda>e. - ve_event_observedAt e)
         (filter (\<lambda>e. ve_event_organizationId e = organizationId \<and> belongs t userId organizationId) (yk_decisions k))))"

definition listSecurityIncidents_rows ::
  "string \<Rightarrow> string \<Rightarrow> (('q, 'y) security_world, failure, security_incident list) eio" where
  "listSecurityIncidents_rows userId organizationId = account_read ''listSecurityIncidents'' (\<lambda>s t k.
     take 200 (sort_key (\<lambda>i. - in_openedAt i)
       (filter (\<lambda>i. in_organizationId i = organizationId \<and> belongs t userId organizationId) (yk_incidents k))))"

text \<open>The trigger of migration 0019: what it refuses, and the closing time it writes.\<close>

definition guard_refuses :: "incident_state \<Rightarrow> incident_state \<Rightarrow> bool" where
  "guard_refuses old new \<longleftrightarrow> (closing old \<and> new \<noteq> old) \<or> (old = IncOpen \<and> closing new)"

definition transitioned :: "incident_transition \<Rightarrow> millis \<Rightarrow> security_incident \<Rightarrow> security_incident" where
  "transitioned i now r =
     r\<lparr> in_state := it_state i, in_triagedBy := Some (it_triagedBy i),
        in_resolution := (if closing (it_state i) then it_resolution i else None),
        in_closedAt := (if closing (it_state i) then Some now else None) \<rparr>"

definition named_incident :: "incident_transition \<Rightarrow> api_tables \<Rightarrow> security_incident \<Rightarrow> bool" where
  "named_incident i t r \<longleftrightarrow> in_id r = it_incidentId i \<and> in_organizationId r = it_organizationId i \<and>
     belongs t (it_triagedBy i) (it_organizationId i)"

text \<open>
  The request selects the embedded membership alone, so the row that comes back has no column of the
  incident, and a text column that is absent reads as the empty string.
\<close>

definition unselected :: incident_answer where
  "unselected =
     \<lparr> ia_id = [], ia_organizationId = [], ia_kind = [], ia_severity = [], ia_summary = [], ia_state = [],
       ia_openedAt = None, ia_closedAt = None, ia_resolution = None, ia_triagedBy = None \<rparr>"

definition transitionIncident_row ::
  "incident_transition \<Rightarrow> (('q, 'y) security_world, failure, incident_answer option) eio" where
  "transitionIncident_row i = account_op ''transitionSecurityIncident'' (\<lambda>s t k.
     if list_ex (\<lambda>r. named_incident i t r \<and> guard_refuses (in_state r) (it_state i)) (yk_incidents k)
     then (Inl (OtherError (unavailable ''transitionSecurityIncident'' ''PATCH /security_incidents returned 400.'')), s, t, k)
     else (Inr (map_option (\<lambda>r. unselected) (first_where (named_incident i t) (yk_incidents k))), s, t,
           k\<lparr> yk_incidents := patch_where (named_incident i t) (transitioned i (cp_now s)) (yk_incidents k) \<rparr>))"

definition opened_row :: "incident_open \<Rightarrow> security_incident" where
  "opened_row i =
     \<lparr> in_id = io_id i, in_organizationId = io_organizationId i, in_kind = io_kind i, in_severity = io_severity i,
       in_state = IncOpen, in_summary = io_summary i, in_openedAt = io_openedAt i, in_closedAt = None,
       in_resolution = None, in_triagedBy = None \<rparr>"

definition openIncident_row :: "incident_open \<Rightarrow> (('q, 'y) security_world, failure, unit) eio" where
  "openIncident_row i = account_op ''openSecurityIncidentForService'' (\<lambda>s t k.
     if list_ex (\<lambda>r. in_id r = io_id i) (yk_incidents k)
     then (Inl (taken_key ''openSecurityIncidentForService'' ''security_incidents''), s, t, k)
     else (Inr (), s, t, k\<lparr> yk_incidents := yk_incidents k @ [opened_row i] \<rparr>))"

subsection \<open>The store\<close>

definition securityStore :: "('q, 'y) security_world security_store" where
  "securityStore =
     \<lparr> as_recordAuditEvent = recordAuditEvent,
       yt_getSecurityPolicy = Some getSecurityPolicy_row, yt_saveSecurityPolicy = Some savePolicy_row,
       yt_recordPolicyEvent = Some recordPolicyEvent_row, yt_listPolicyEvents = Some listPolicyEvents_rows,
       yt_listSecurityRules = Some listSecurityRules_rows, yt_createSecurityRule = Some createSecurityRule_row,
       yt_deleteSecurityRule = Some deleteSecurityRule_row, yt_listTrustedSources = Some listTrustedSources_rows,
       yt_createTrustedSource = Some createTrustedSource_row, yt_deleteTrustedSource = Some deleteTrustedSource_row,
       yt_listRateLimits = Some listRateLimits_rows, yt_createRateLimit = Some createRateLimit_row,
       yt_deleteRateLimit = Some deleteRateLimit_row,
       yt_getDeploymentProtection = Some getDeploymentProtection_row,
       yt_saveDeploymentProtection = Some saveDeploymentProtection_row, yt_getPasswordHash = Some passwordHash_service,
       yt_listSecurityEvents = Some listSecurityEvents_rows, yt_listSecurityIncidents = Some listSecurityIncidents_rows,
       yt_transitionIncident = Some transitionIncident_row, yt_openSecurityIncident = Some openIncident_row \<rparr>"

end
