(* ===== verification/Security_Laws.thy ===== *)
theory Security_Laws
  imports Security_Store Account_Wiring Edge_Ladder Edge_Store
begin

section \<open>What the security procedures keep, and what they leave open\<close>

text \<open>
  The security procedures over the wired store.  Identifiers come from a generator at the far end of the
  world, the queue is the first part of it, and the edge is any adapter.
\<close>

definition drawn :: "('y \<Rightarrow> string \<times> 'y) \<Rightarrow> ('y, 'e, string) eio" where
  "drawn ids = (\<lambda>y. case ids y of (i, y') \<Rightarrow> (Inr i, y'))"

definition security_wiring ::
  "(string \<Rightarrow> millis option) \<Rightarrow> (string \<Rightarrow> string) \<Rightarrow> ('q, 'y) security_world edge_adapter \<Rightarrow>
   ('y \<Rightarrow> string \<times> 'y) \<Rightarrow> ('q, policy_job_payload) queue_port option \<Rightarrow> ('q, 'y) security_world security_deps" where
  "security_wiring d sha edge ids port =
     \<lparr> yd_store = securityStore, yd_edge = edge, yd_newId = on_far (drawn ids), yd_now = api_clock,
       yd_queue = map_option api_queue port, yd_date = d, yd_sha256 = sha \<rparr>"

lemma security_wiring_sel [simp]:
  "yd_store (security_wiring d sha edge ids port) = securityStore"
  "yd_edge (security_wiring d sha edge ids port) = edge"
  "yd_newId (security_wiring d sha edge ids port) = on_far (drawn ids)"
  "yd_now (security_wiring d sha edge ids port) = api_clock"
  "yd_queue (security_wiring d sha edge ids port) = map_option api_queue port"
  "yd_date (security_wiring d sha edge ids port) = d"
  "yd_sha256 (security_wiring d sha edge ids port) = sha"
  by (simp_all add: security_wiring_def)

lemma security_store_sel [simp]:
  "as_recordAuditEvent securityStore = recordAuditEvent"
  "yt_getSecurityPolicy securityStore = Some getSecurityPolicy_row"
  "yt_saveSecurityPolicy securityStore = Some savePolicy_row"
  "yt_recordPolicyEvent securityStore = Some recordPolicyEvent_row"
  "yt_listPolicyEvents securityStore = Some listPolicyEvents_rows"
  "yt_listSecurityRules securityStore = Some listSecurityRules_rows"
  "yt_createSecurityRule securityStore = Some createSecurityRule_row"
  "yt_deleteSecurityRule securityStore = Some deleteSecurityRule_row"
  "yt_listTrustedSources securityStore = Some listTrustedSources_rows"
  "yt_createTrustedSource securityStore = Some createTrustedSource_row"
  "yt_deleteTrustedSource securityStore = Some deleteTrustedSource_row"
  "yt_listRateLimits securityStore = Some listRateLimits_rows"
  "yt_createRateLimit securityStore = Some createRateLimit_row"
  "yt_deleteRateLimit securityStore = Some deleteRateLimit_row"
  "yt_getDeploymentProtection securityStore = Some getDeploymentProtection_row"
  "yt_saveDeploymentProtection securityStore = Some saveDeploymentProtection_row"
  "yt_getPasswordHash securityStore = Some passwordHash_service"
  "yt_listSecurityEvents securityStore = Some listSecurityEvents_rows"
  "yt_listSecurityIncidents securityStore = Some listSecurityIncidents_rows"
  "yt_transitionIncident securityStore = Some transitionIncident_row"
  "yt_openSecurityIncident securityStore = Some openIncident_row"
  by (simp_all add: securityStore_def)

lemma security_writes_wired [simp]:
  "policy_writesFor securityStore = Inr ()" "ruleWritesFor securityStore = Inr ()"
  "trustedWritesFor securityStore = Inr ()" "rateLimitWritesFor securityStore = Inr ()"
  "protectionWritesFor securityStore = Inr ()" "incidentWritesFor securityStore = Inr ()"
  by (simp_all add: policy_writesFor_def ruleWritesFor_def trustedWritesFor_def rateLimitWritesFor_def
      protectionWritesFor_def incidentWritesFor_def required_def)

lemma drawn_apply [api_simps]: "drawn ids y = (case ids y of (i, y') \<Rightarrow> (Inr i, y'))"
  by (simp add: drawn_def)

lemma security_clock [simp]: "api_clock (q, s, t, x) = cp_now s"
  by (simp add: api_clock_def)

subsection \<open>The policy a request works on\<close>

definition policy_for :: "request_context \<Rightarrow> string \<Rightarrow> api_tables \<Rightarrow> security_tables \<Rightarrow> policy_row option" where
  "policy_for ctx org t k =
     newest (filter (\<lambda>r. sp_organizationId r = org \<and> belongs t (pr_userId (cx_principal ctx)) org) (yk_policies k))"

lemma getSecurityPolicy_up [api_simps]:
  "cp_up s \<Longrightarrow> getSecurityPolicy_row (pr_userId (cx_principal ctx)) org (q, s, t, k, y) =
     (Inr (policy_for ctx org t k), (q, s, t, k, y))"
  by (simp add: getSecurityPolicy_row_def policy_for_def account_read_up)

lemma policy_for_in:
  "policy_for ctx org t k = Some p \<Longrightarrow> p \<in> set (yk_policies k) \<and> sp_organizationId p = org"
  unfolding policy_for_def by (auto dest!: newest_in)

subsection \<open>Saving a policy\<close>

definition asked_draft ::
  "request_context \<Rightarrow> save_policy_input \<Rightarrow> string \<Rightarrow> string \<Rightarrow> millis option \<Rightarrow> policy_row option \<Rightarrow> policy_save" where
  "asked_draft ctx inp name newId window existing =
     policy_draft inp name newId (posture_mode inp existing) window existing (pr_userId (cx_principal ctx))"

lemma save_policy_ok:
  "save_policy ctx (security_wiring d sha edge ids port) inp existing draft (q, s, t, k, y) = (Inr row, (q', s', t', k', y')) \<Longrightarrow>
   row = row_of_save draft \<and> row \<in> set (yk_policies k') \<and> q' = q \<and> s' = s \<and>
   (\<forall>r \<in> set (yk_policies k). same_key row r \<or> r \<in> set (yk_policies k'))"
  by (auto simp: save_policy_def savePolicy_row_def recordPolicyEvent_row_def io_ok Let_def list_ex_iff split: if_splits)

text \<open>
  A saved policy is a draft, one version above the stored one, and passes the policy's own rules; an
  attack posture that was given a window ends within a day of the save.  The row is in the table and the
  policies of other names are still there.
\<close>

theorem a_save_is_a_newer_draft:
  assumes run: "saveSecurityPolicy_procedure ctx (security_wiring d sha edge ids port) inp (q, s, t, k, y) =
      (Inr row, (q', s', t', k', y'))"
  shows "pl_state row = ''draft'' \<and>
    sp_version row = (case policy_for ctx (sq_organizationId inp) t k of Some p \<Rightarrow> sp_version p + 1 | None \<Rightarrow> 1) \<and>
    validatePolicy row = Valid \<and> (\<forall>e. pl_protectionExpiresAt row = Some e \<longrightarrow> e \<le> cp_now s + MAX_PROTECTION_WINDOW_MS) \<and>
    row \<in> set (yk_policies k') \<and> q' = q"
proof -
  let ?found = "policy_for ctx (sq_organizationId inp) t k"
  from run obtain name window newId y1 where up: "cp_up s"
    and window: "protection_window d (cp_now s) (posture_mode inp ?found)
        (Option.bind ?found pl_protectionExpiresAt) (sq_protectionExpiresAt inp) = Inr window"
    and valid: "checked (validatePolicy (row_of_save (asked_draft ctx inp name newId window ?found))) = Inr ()"
    and saved: "save_policy ctx (security_wiring d sha edge ids port) inp ?found
        (asked_draft ctx inp name newId window ?found) (q, s, t, k, y1) = (Inr row, (q', s', t', k', y'))"
    by (cases ?found)
      (auto simp: saveSecurityPolicy_procedure_def io_ok getSecurityPolicy_row_def policy_for_def [symmetric]
        id_unless_def asked_draft_def Let_def)
  from save_policy_ok [OF saved] have row: "row = row_of_save (asked_draft ctx inp name newId window ?found)"
    "row \<in> set (yk_policies k')" "q' = q" by auto
  have "\<forall>e. window = Some e \<longrightarrow> e \<le> cp_now s + MAX_PROTECTION_WINDOW_MS"
    using window by (auto simp: protection_window_def split: if_splits option.splits sum.splits)
  with row valid show ?thesis
    by (auto simp: row_of_save_def asked_draft_def policy_draft_def checked_def split: check.splits option.splits)
qed

subsection \<open>Renaming\<close>

lemma save_policy_refused:
  assumes "cp_up s" "p \<in> set (yk_policies k)" "sv_id draft = sp_id p" "sv_name draft \<noteq> sp_name p"
  shows "save_policy ctx (security_wiring d sha edge ids port) inp existing draft (q, s, t, k, y) =
    (Inl (taken_key ''saveSecurityPolicy'' ''security_policies''), (q, s, t, k, y))"
proof -
  have "list_ex (\<lambda>r. sp_id r = sp_id (row_of_save draft) \<and> \<not> same_key (row_of_save draft) r) (yk_policies k)"
    using assms(2-4) by (auto simp: list_ex_iff row_of_save_def same_key_def intro!: bexI [of _ p])
  then show ?thesis
    using assms(1) by (simp add: save_policy_def savePolicy_row_def io_bind_apply account_op_up Let_def)
qed

text \<open>
  A policy cannot be renamed.  The procedure keeps the stored identifier and the store's upsert is on
  the name, so a request that is valid in every other way and gives another name always ends in a conflict
  of the primary key, and nothing is recorded.
\<close>

theorem a_policy_cannot_be_renamed:
  assumes "cp_up s" "requireCapability ctx (sq_organizationId inp) SecurityUpdate = Inr ()"
    "policy_request inp = Inr name"
    "policy_for ctx (sq_organizationId inp) t k = Some p" "name \<noteq> sp_name p"
    "protection_window d (cp_now s) (posture_mode inp (Some p)) (pl_protectionExpiresAt p) (sq_protectionExpiresAt inp) =
       Inr window"
    "validatePolicy (row_of_save (asked_draft ctx inp name [] window (Some p))) = Valid"
  shows "saveSecurityPolicy_procedure ctx (security_wiring d sha edge ids port) inp (q, s, t, k, y) =
    (Inl (taken_key ''saveSecurityPolicy'' ''security_policies''), (q, s, t, k, y))"
proof -
  have p: "p \<in> set (yk_policies k)" using assms(4) policy_for_in by blast
  have draft: "sv_id (asked_draft ctx inp name [] window (Some p)) = sp_id p"
    "sv_name (asked_draft ctx inp name [] window (Some p)) = name"
    by (simp_all add: asked_draft_def policy_draft_def)
  show ?thesis
    using assms save_policy_refused [OF assms(1) p draft(1), unfolded draft(2), OF assms(5)]
    by (simp add: saveSecurityPolicy_procedure_def io_simps check_that_apply getSecurityPolicy_up id_unless_def
        asked_draft_def [symmetric] checked_def Let_def)
qed

subsection \<open>Distribution through the queue\<close>

text \<open>With a queue wired, a distribution touches the queue and the audit trail alone, whatever becomes of it.\<close>

lemma distribution_world:
  assumes "distributeSecurityPolicy ctx (security_wiring d sha edge ids (Some port)) org (q, s, t, k, y) =
      (r, (q', s', t', k', y'))"
  shows "s' = s \<and> k' = k \<and> y' = y \<and> at_memberships t' = at_memberships t"
proof (cases "cp_up s \<and> requireCapability ctx org SecurityUpdate = Inr ()")
  case True
  with assms show ?thesis
    by (auto simp: distributeSecurityPolicy_def io_bind_apply io_then_apply check_that_apply getSecurityPolicy_up
        enqueue_distribution_def thrown_def api_queue_def on_fst_apply audit_up io_throw_apply io_return_apply
        io_catch_apply split: option.splits sum.splits prod.splits)
next
  case False
  with assms show ?thesis
    by (auto simp: distributeSecurityPolicy_def io_bind_apply io_then_apply check_that_apply getSecurityPolicy_row_def
        account_read_def account_op_def split: sum.splits)
qed

lemma protection_distribution_world:
  assumes "distributeDeploymentProtection ctx (security_wiring d sha edge ids (Some port)) org (q, s, t, k, y) =
      (r, (q', s', t', k', y'))"
  shows "s' = s \<and> k' = k \<and> y' = y \<and> at_memberships t' = at_memberships t"
proof -
  obtain v q1 s1 t1 k1 y1 where run: "distributeSecurityPolicy ctx (security_wiring d sha edge ids (Some port)) org
      (q, s, t, k, y) = (v, (q1, s1, t1, k1, y1))" by (metis prod.exhaust)
  with assms have "(q', s', t', k', y') = (q1, s1, t1, k1, y1)"
    by (auto simp: distributeDeploymentProtection_def io_catch_apply io_bind_apply io_return_apply io_throw_apply
        split: sum.splits failure.splits)
  with distribution_world [OF run] show ?thesis by simp
qed

definition queued_key :: "policy_row \<Rightarrow> string" where
  "queued_key p = keyOf (sp_organizationId p) POLICY_JOB_KIND (distribution_key p)"

lemma known_distribution:
  assumes "cp_up s" "requireCapability ctx org SecurityUpdate = Inr ()" "policy_for ctx org t k = Some p"
    "may_distribute p = Inr ()" "map_of (mq_byKey q) (queued_key p) = Some jobId"
  shows "\<exists>t'. distributeSecurityPolicy ctx (security_wiring d sha edge ids (Some mem_port)) org (q, s, t, k, y) =
    (Inr \<lparr> dz_policy = p, dz_distributed = False, dz_engineReason = None \<rparr>, (q, s, t', k, y))"
  using assms
  by (simp add: distributeSecurityPolicy_def io_simps check_that_apply getSecurityPolicy_up enqueue_distribution_def
      thrown_def api_queue_def on_fst_apply audit_up mem_port_def answers_def mem_enqueue_def policy_job_def queued_key_def)

subsection \<open>Saving a protection\<close>

definition protection_for :: "request_context \<Rightarrow> string \<Rightarrow> api_tables \<Rightarrow> security_tables \<Rightarrow> protection_view option" where
  "protection_for ctx projectId t k = map_option protection_view_of
     (first_where (\<lambda>r. px_projectId r = projectId \<and> belongs t (pr_userId (cx_principal ctx)) (px_organizationId r))
       (yk_protections k))"

lemma posture_digest_ok:
  "posture_digest (security_wiring d sha edge ids port) inp existing (q, s, t, k, y) = (Inr v, w') \<Longrightarrow>
   w' = (q, s, t, k, y)"
  by (auto simp: posture_digest_def servicePasswordHash_def passwordHash_service_def io_ok Let_def
      split: if_splits option.splits)

lemma saveDeploymentProtection_ok:
  assumes "saveDeploymentProtection ctx (security_wiring d sha edge ids port) inp (q, s, t, k, y) =
      (Inr (saved, applied, reason), w')"
  shows "cp_up s \<and> requireCapability ctx (qx_organizationId inp) SecurityUpdate = Inr () \<and>
    (\<exists>row t1 y1. saved = protection_view_of row \<and> px_organizationId row = qx_organizationId inp \<and>
       px_projectId row = qx_projectId inp \<and> at_memberships t1 = at_memberships t \<and>
       distributeDeploymentProtection ctx (security_wiring d sha edge ids port) (qx_organizationId inp)
         (q, s, t1, k\<lparr> yk_protections := upserted row (yk_protections k) \<rparr>, y1) = (Inr (applied, reason), w'))"
proof -
  let ?deps = "security_wiring d sha edge ids port"
  from assms obtain digest expiresAt rowId w1 w2 where up: "cp_up s"
    and may: "requireCapability ctx (qx_organizationId inp) SecurityUpdate = Inr ()"
    and digest: "posture_digest ?deps inp (protection_for ctx (qx_projectId inp) t k) (q, s, t, k, y) = (Inr digest, w1)"
    and drawn: "(case protection_for ctx (qx_projectId inp) t k of
        Some p \<Rightarrow> io_return (pv_id p) | None \<Rightarrow> yd_newId ?deps) w1 = (Inr rowId, w2)"
    and written: "write_protection ctx ?deps inp (protection_row_of ctx inp rowId digest expiresAt) w2 =
      (Inr (saved, applied, reason), w')"
    by (auto simp: saveDeploymentProtection_def getDeploymentProtection_row_def protection_for_def [symmetric] io_ok
        split: if_splits)
  have w1: "w1 = (q, s, t, k, y)" by (rule posture_digest_ok [OF digest])
  from drawn obtain y1 where "w2 = (q, s, t, k, y1)"
    by (auto simp: w1 io_ok split: option.splits)
  with written have
    "write_protection ctx ?deps inp (protection_row_of ctx inp rowId digest expiresAt) (q, s, t, k, y1) =
      (Inr (saved, applied, reason), w')" by simp
  then have "\<exists>t1. saved = protection_view_of (protection_row_of ctx inp rowId digest expiresAt) \<and>
      at_memberships t1 = at_memberships t \<and>
      distributeDeploymentProtection ctx ?deps (qx_organizationId inp)
        (q, s, t1, k\<lparr> yk_protections := upserted (protection_row_of ctx inp rowId digest expiresAt) (yk_protections k) \<rparr>, y1) =
        (Inr (applied, reason), w')"
    by (auto simp: write_protection_def saveDeploymentProtection_row_def io_ok split: if_splits)
      (rule exI, rule conjI [rotated], assumption, simp)
  moreover have "px_organizationId (protection_row_of ctx inp rowId digest expiresAt) = qx_organizationId inp"
    "px_projectId (protection_row_of ctx inp rowId digest expiresAt) = qx_projectId inp"
    by (simp_all add: protection_row_of_def)
  ultimately show ?thesis using up may by blast
qed

lemma policy_for_cong:
  "at_memberships t' = at_memberships t \<Longrightarrow> yk_policies k' = yk_policies k \<Longrightarrow> policy_for ctx org t' k' = policy_for ctx org t k"
  by (simp add: policy_for_def belongs_def)

text \<open>
  C25. A second distribution of one version reaches no job.  The queue answers with the job it already has
  under \<open>distribute-<policy>-v<version>\<close>, settled or not; so once a version was distributed, a saved
  protection leaves the queue as it was, and the caller is told neither that it applied nor why it did not.
\<close>

theorem a_protection_saved_after_distribution_enqueues_nothing:
  assumes run: "saveDeploymentProtection ctx (security_wiring d sha edge ids (Some mem_port)) inp (q, s, t, k, y) =
      (Inr (saved, applied, reason), (q', s', t', k', y'))"
    and policy: "policy_for ctx (qx_organizationId inp) t k = Some p" "may_distribute p = Inr ()"
    and known: "map_of (mq_byKey q) (queued_key p) = Some jobId"
  shows "q' = q \<and> \<not> applied \<and> reason = None"
proof -
  let ?deps = "security_wiring d sha edge ids (Some mem_port)"
  from saveDeploymentProtection_ok [OF run] obtain row t1 y1 where
    up: "cp_up s" "requireCapability ctx (qx_organizationId inp) SecurityUpdate = Inr ()"
    and t1: "at_memberships t1 = at_memberships t"
    and dist: "distributeDeploymentProtection ctx ?deps (qx_organizationId inp)
         (q, s, t1, k\<lparr> yk_protections := upserted row (yk_protections k) \<rparr>, y1) =
      (Inr (applied, reason), (q', s', t', k', y'))"
    by auto
  have "policy_for ctx (qx_organizationId inp) t1 (k\<lparr> yk_protections := upserted row (yk_protections k) \<rparr>) = Some p"
    using policy(1) policy_for_cong [OF t1] by simp
  from known_distribution [OF up this policy(2) known, of d sha edge ids y1] dist show ?thesis
    by (auto simp: distributeDeploymentProtection_def io_simps)
qed

subsection \<open>Whose posture a save replaces\<close>

text \<open>The tables of the edge's loaders, as the API's stand.\<close>

definition edge_row_of :: "protection_save \<Rightarrow> protection_row" where
  "edge_row_of r =
     \<lparr> dp_organizationId = px_organizationId r, dp_projectId = px_projectId r, dp_mode = px_mode r,
       dp_basicUser = px_basicUser r, dp_allowedCidrs = px_allowedCidrs r,
       dp_protectionExpiresAt = px_protectionExpiresAt r, dp_basicPasswordHash = px_basicPasswordHash r \<rparr>"

definition edge_sees :: "security_tables \<Rightarrow> edge_tables \<Rightarrow> edge_tables" where
  "edge_sees k e = e\<lparr> et_policies := yk_policies k, et_protections := map edge_row_of (yk_protections k) \<rparr>"

lemma upserted_owner:
  "r \<in> set (upserted i rows) \<Longrightarrow> px_projectId r = px_projectId i \<Longrightarrow> px_organizationId r = px_organizationId i"
  by (auto simp: upserted_def list_ex_iff split: if_splits)


subsection \<open>Concrete instances\<close>

definition stored_policy :: policy_row where
  "stored_policy = \<lparr> sp_id = ''s1'', sp_organizationId = ''o'', sp_name = ''edge'', sp_riskLevel = ''high'',
     sp_action = ''block'', sp_version = 3, pl_state = ''active'', pl_protectionMode = ''normal'',
     pl_protectionExpiresAt = None \<rparr>"

definition guarded :: protection_save where
  "guarded = \<lparr> px_id = ''x1'', px_organizationId = ''victim'', px_projectId = ''p'', px_mode = ''ip'',
     px_basicUser = None, px_basicPasswordHash = None, px_allowedCidrs = [''192.0.2.0/24''],
     px_protectionExpiresAt = None, px_updatedBy = ''v'' \<rparr>"

definition some_security :: security_tables where
  "some_security = \<lparr> yk_policies = [stored_policy], yk_events = [], yk_rules = [], yk_trusted = [], yk_limits = [],
     yk_protections = [guarded], yk_decisions = [], yk_incidents = [] \<rparr>"

definition no_edge :: "'w edge_adapter" where
  "no_edge = \<lparr> ea_applyPolicy = (\<lambda>c r. io_return (AErr NotConfigured ''no edge'')) \<rparr>"

definition numbered_ids :: "nat \<Rightarrow> string \<times> nat" where
  "numbered_ids n = (''i'' @ show_nat n, Suc n)"

definition save_input :: "string \<Rightarrow> save_policy_input" where
  "save_input name = \<lparr> sq_organizationId = ''o'', sq_name = name, sq_riskLevel = ''low'', sq_action = ''log'',
     sq_protectionMode = Some ''attack'', sq_protectionExpiresAt = Some (Some ''soon'') \<rparr>"

definition open_input :: protection_input where
  "open_input = \<lparr> qx_organizationId = ''o'', qx_projectId = ''p'', qx_mode = ''none'', qx_basicUser = None,
     qx_basicPassword = None, qx_allowedCidrs = None, qx_protectionExpiresAt = None \<rparr>"

abbreviation owners :: api_tables where
  "owners \<equiv> tables_of [(''a'', Owner)]"

abbreviation owner_session :: request_context where
  "owner_session \<equiv> session ''o'' ''a'' Owner"

definition soon :: "string \<Rightarrow> millis option" where
  "soon v = Some (cp_now sample_plane + 60000)"

theorem a_save_is_a_newer_draft_witness:
  "case saveSecurityPolicy_procedure owner_session (security_wiring soon id no_edge numbered_ids None) (save_input ''edge'')
      ((), sample_plane, owners, some_security, 0) of
    (Inr row, (q', s', t', k', y')) \<Rightarrow> pl_state row = ''draft'' \<and> sp_version row = 4 \<and> row \<in> set (yk_policies k')
  | _ \<Rightarrow> False"
proof -
  let ?run = "saveSecurityPolicy_procedure owner_session (security_wiring soon id no_edge numbered_ids None) (save_input ''edge'')
      ((), sample_plane, owners, some_security, 0)"
  have ok: "case fst ?run of Inr row \<Rightarrow> True | Inl _ \<Rightarrow> False" by code_simp
  have found: "policy_for owner_session ''o'' owners some_security = Some stored_policy" by code_simp
  have three: "sp_version stored_policy = 3" "sq_organizationId (save_input ''edge'') = ''o''"
    by (simp_all add: stored_policy_def save_input_def)
  obtain r q' s' t' k' y' where run: "?run = (r, (q', s', t', k', y'))" by (metis prod.exhaust)
  with ok obtain row where r: "r = Inr row" by (auto split: sum.splits)
  from a_save_is_a_newer_draft [OF run [unfolded r]] show ?thesis
    by (simp add: run r found three)
qed

theorem a_policy_cannot_be_renamed_witness:
  "saveSecurityPolicy_procedure owner_session (security_wiring soon id no_edge numbered_ids None) (save_input ''other'')
      ((), sample_plane, owners, some_security, 0) =
    (Inl (taken_key ''saveSecurityPolicy'' ''security_policies''), ((), sample_plane, owners, some_security, 0))"
proof (rule a_policy_cannot_be_renamed [where name = "''other''" and p = stored_policy
      and window = "Some (cp_now sample_plane + 60000)"])
  show "requireCapability owner_session (sq_organizationId (save_input ''other'')) SecurityUpdate = Inr ()"
    "policy_request (save_input ''other'') = Inr ''other''"
    "policy_for owner_session (sq_organizationId (save_input ''other'')) owners some_security = Some stored_policy"
    "protection_window soon (cp_now sample_plane) (posture_mode (save_input ''other'') (Some stored_policy))
       (pl_protectionExpiresAt stored_policy) (sq_protectionExpiresAt (save_input ''other'')) =
       Inr (Some (cp_now sample_plane + 60000))"
    "validatePolicy (row_of_save (asked_draft owner_session (save_input ''other'') ''other'' []
       (Some (cp_now sample_plane + 60000)) (Some stored_policy))) = Valid"
    "cp_up sample_plane"
    by code_simp+
qed (simp add: stored_policy_def)

definition settled_queue :: "policy_job_payload mem_queue" where
  "settled_queue = (case mem_enqueue (policy_job owner_session stored_policy) (empty_queue 0) of
     (job, q) \<Rightarrow> mem_complete (jb_id job) (snd (mem_claim ''w'' 1000 q)))"

theorem a_protection_saved_after_distribution_enqueues_nothing_witness:
  "case saveDeploymentProtection owner_session (security_wiring soon id no_edge numbered_ids (Some mem_port)) open_input
      (settled_queue, sample_plane, owners, some_security, 0) of
    (Inr (saved, applied, reason), (q', s', t', k', y')) \<Rightarrow>
      q' = settled_queue \<and> \<not> applied \<and> reason = None \<and> map jb_state (mq_byId q') = [JSucceeded]
  | _ \<Rightarrow> False"
proof -
  let ?run = "saveDeploymentProtection owner_session (security_wiring soon id no_edge numbered_ids (Some mem_port)) open_input
      (settled_queue, sample_plane, owners, some_security, 0)"
  have ok: "case fst ?run of Inr row \<Rightarrow> True | Inl _ \<Rightarrow> False" by code_simp
  obtain r q' s' t' k' y' where run: "?run = (r, (q', s', t', k', y'))" by (metis prod.exhaust)
  with ok obtain saved applied reason where r: "r = Inr (saved, applied, reason)" by (auto split: sum.splits)
  have known: "map_of (mq_byKey settled_queue) (queued_key stored_policy) = Some ''job-1''" by code_simp
  have found: "policy_for owner_session (qx_organizationId open_input) owners some_security = Some stored_policy"
    "may_distribute stored_policy = Inr ()" "map jb_state (mq_byId settled_queue) = [JSucceeded]" by code_simp+
  from a_protection_saved_after_distribution_enqueues_nothing [OF run [unfolded r] found(1,2) known] found(3) show ?thesis
    by (simp add: run r)
qed

definition edge_at :: edge_tables where
  "edge_at = \<lparr> et_policies = [], et_domains = [], et_rules = [], et_trusted = [], et_limits = [], et_protections = [],
     et_now = 0 \<rparr>"


end
