(* ===== verification/Security_Lists.thy ===== *)
theory Security_Lists
  imports Security_Laws
begin

section \<open>Lists and incidents over time\<close>

text \<open>
  What holds of the deny list, the trusted sources and the rate limits after any sequence of requests, and
  what the edge compiler makes of them; and the life of an incident.
\<close>

subsection \<open>Requests\<close>

datatype list_request =
    AddRule list_entry_input
  | RemoveRule string string
  | AddTrusted list_entry_input
  | RemoveTrusted string string
  | AddLimit rate_limit_input
  | RemoveLimit string string

fun perform_list ::
  "('q, 'y) security_world security_deps \<Rightarrow> request_context \<times> list_request \<Rightarrow>
   ('q, 'y) security_world \<Rightarrow> ('q, 'y) security_world" where
  "perform_list deps (ctx, AddRule inp) w = snd (addSecurityRule ctx deps inp w)"
| "perform_list deps (ctx, RemoveRule org i) w = snd (removeSecurityRule ctx deps org i w)"
| "perform_list deps (ctx, AddTrusted inp) w = snd (addTrustedSource ctx deps inp w)"
| "perform_list deps (ctx, RemoveTrusted org i) w = snd (removeTrustedSource ctx deps org i w)"
| "perform_list deps (ctx, AddLimit inp) w = snd (addRateLimit ctx deps inp w)"
| "perform_list deps (ctx, RemoveLimit org i) w = snd (removeRateLimit ctx deps org i w)"

subsection \<open>What is stored validates\<close>

definition lists_valid :: "security_tables \<Rightarrow> bool" where
  "lists_valid k \<longleftrightarrow>
     (\<forall>r \<in> set (yk_rules k). validateDenyRule (deny_rule.truncate r) = Valid) \<and>
     (\<forall>r \<in> set (yk_trusted k). validateTrustedSource (trusted_source.truncate r) = Valid) \<and>
     (\<forall>r \<in> set (yk_limits k). validateRateLimitRule (rate_limit_rule.truncate r) = Valid)"

definition lists_valid_in :: "('q, 'y) security_world \<Rightarrow> bool" where
  "lists_valid_in = (\<lambda>(q, s, t, k, y). lists_valid k)"

lemma ensures_account_op:
  assumes "\<And>s t k. lists_valid k \<Longrightarrow> lists_valid (snd (snd (snd (f s t k))))"
  shows "ensures lists_valid_in (account_op operation f) (\<lambda>_. True)"
  using assms
  by (auto simp: ensures_def lists_valid_in_def account_op_def split: prod.splits) (metis snd_conv)

lemma ensures_account_read: "ensures lists_valid_in (account_read operation f) (\<lambda>_. True)"
  unfolding account_read_def by (rule ensures_account_op) simp

lemma ensures_audit: "ensures lists_valid_in (recordAuditEvent e) (\<lambda>_. True)"
  by (auto simp: ensures_def lists_valid_in_def recordAuditEvent_def api_op_def)

lemma ensures_far: "ensures lists_valid_in (on_far m) (\<lambda>_. True)"
  by (auto simp: ensures_def lists_valid_in_def on_far_def split: prod.splits)

lemma ensures_creations:
  "validateDenyRule (deny_rule.truncate i) = Valid \<Longrightarrow> ensures lists_valid_in (createSecurityRule_row i) (\<lambda>_. True)"
  "validateTrustedSource (trusted_source.truncate j) = Valid \<Longrightarrow> ensures lists_valid_in (createTrustedSource_row j) (\<lambda>_. True)"
  "validateRateLimitRule (rate_limit_rule.truncate l) = Valid \<Longrightarrow> ensures lists_valid_in (createRateLimit_row l) (\<lambda>_. True)"
  unfolding createSecurityRule_row_def createTrustedSource_row_def createRateLimit_row_def
  by (rule ensures_account_op, auto simp: lists_valid_def)+

lemma ensures_deletions:
  "ensures lists_valid_in (deleteSecurityRule_row u org i) (\<lambda>_. True)"
  "ensures lists_valid_in (deleteTrustedSource_row u org i) (\<lambda>_. True)"
  "ensures lists_valid_in (deleteRateLimit_row u org i) (\<lambda>_. True)"
  unfolding deleteSecurityRule_row_def deleteTrustedSource_row_def deleteRateLimit_row_def
  by (rule ensures_account_op, auto simp: lists_valid_def)+

lemma checked_Valid: "checked c = Inr u \<longleftrightarrow> c = Valid"
  by (simp add: checked_def split: check.split)

lemma accepted_rule: "rule_request inp = Inr (rule, note) \<Longrightarrow> validateDenyRule rule = Valid"
  by (auto simp: rule_request_def Let_def checked_Valid split: option.splits sum.splits)

lemma accepted_source: "trusted_request inp = Inr (source, note) \<Longrightarrow> validateTrustedSource source = Valid"
  by (auto simp: trusted_request_def Let_def checked_Valid split: option.splits sum.splits)

lemma named_header:
  "validateRateLimitRule \<lparr> rl_id = i, rl_key = key, rl_headerName = h, rl_limit = l, rl_windowSeconds = n \<rparr> = Valid \<Longrightarrow>
   validateRateLimitRule \<lparr> rl_id = i', rl_key = key, rl_headerName = if_truthy h, rl_limit = l, rl_windowSeconds = n \<rparr> = Valid"
  by (cases h) (auto simp: validateRateLimitRule_def if_truthy_def split: if_splits)

lemma accepted_limit: "limit_request inp = Inr (rule, note) \<Longrightarrow> validateRateLimitRule rule = Valid"
  by (auto simp: limit_request_def Let_def checked_Valid split: if_splits sum.splits intro: named_header)

subsection \<open>Every request keeps it\<close>

lemma created_valid:
  "rule_request inp = Inr (rule, note) \<Longrightarrow> validateDenyRule (deny_rule.truncate
     \<lparr> dn_kind = dn_kind rule, dn_value = dn_value rule, sc_id = i, sc_organizationId = org, sc_note = n, sc_createdBy = u \<rparr>) = Valid"
  "trusted_request inp = Inr (source, note) \<Longrightarrow> validateTrustedSource (trusted_source.truncate
     \<lparr> ts_kind = ts_kind source, ts_value = ts_value source, te_id = i, te_organizationId = org, te_note = n, te_createdBy = u \<rparr>) = Valid"
  "limit_request linp = Inr (limit, note) \<Longrightarrow> validateRateLimitRule (rate_limit_rule.truncate
     \<lparr> rl_id = i, rl_key = rl_key limit, rl_headerName = rl_headerName limit, rl_limit = rl_limit limit,
        rl_windowSeconds = rl_windowSeconds limit, rt_organizationId = org, rt_note = n, rt_createdBy = u \<rparr>) = Valid"
  by (cases rule, drule accepted_rule, simp add: deny_rule.defs)
    (cases source, drule accepted_source, simp add: trusted_source.defs,
     drule accepted_limit, auto simp: rate_limit_rule.defs validateRateLimitRule_def
       split: if_splits elim!: truthy.elims)

lemma add_rule_keeps:
  "ensures lists_valid_in (addSecurityRule ctx (security_wiring d sha edge ids port) inp) (\<lambda>_. True)"
  unfolding addSecurityRule_def security_wiring_sel security_store_sel security_writes_wired option.sel
  by (rule ensures_then [OF ensures_check], rule ensures_bind [OF ensures_check], clarify,
      rule ensures_then [OF ensures_check], rule ensures_bind [OF ensures_far],
      rule ensures_bind [OF ensures_creations(1)],
      erule created_valid, rule ensures_then [OF ensures_audit], rule ensures_return, rule TrueI)

lemma add_trusted_keeps:
  "ensures lists_valid_in (addTrustedSource ctx (security_wiring d sha edge ids port) inp) (\<lambda>_. True)"
  unfolding addTrustedSource_def security_wiring_sel security_store_sel security_writes_wired option.sel
  by (rule ensures_then [OF ensures_check], rule ensures_bind [OF ensures_check], clarify,
      rule ensures_then [OF ensures_check], rule ensures_bind [OF ensures_far],
      rule ensures_bind [OF ensures_creations(2)],
      erule created_valid, rule ensures_then [OF ensures_audit], rule ensures_return, rule TrueI)

lemma add_limit_keeps:
  "ensures lists_valid_in (addRateLimit ctx (security_wiring d sha edge ids port) inp) (\<lambda>_. True)"
  unfolding addRateLimit_def security_wiring_sel security_store_sel security_writes_wired option.sel listRateLimits_rows_def
  by (rule ensures_then [OF ensures_check], rule ensures_bind [OF ensures_check], clarify,
      rule ensures_then [OF ensures_check], rule ensures_bind [OF ensures_account_read], rule ensures_if,
      rule ensures_throw, rule ensures_bind [OF ensures_far], rule ensures_bind [OF ensures_creations(3)],
      erule created_valid,
      rule ensures_then [OF ensures_audit], rule ensures_return, rule TrueI)

lemma removals_keep:
  "ensures lists_valid_in (removeSecurityRule ctx (security_wiring d sha edge ids port) org i) (\<lambda>_. True)"
  "ensures lists_valid_in (removeTrustedSource ctx (security_wiring d sha edge ids port) org i) (\<lambda>_. True)"
  "ensures lists_valid_in (removeRateLimit ctx (security_wiring d sha edge ids port) org i) (\<lambda>_. True)"
  unfolding removeSecurityRule_def removeTrustedSource_def removeRateLimit_def security_wiring_sel security_store_sel
    security_writes_wired option.sel
  by (rule ensures_then [OF ensures_check], rule ensures_then [OF ensures_check],
      rule ensures_bind, rule ensures_deletions, rule ensures_then [OF ensures_audit], rule ensures_return, rule TrueI)+

lemma ensures_world: "ensures I m P \<Longrightarrow> I w \<Longrightarrow> I (snd (m w))"
  by (simp add: ensures_def)

lemma perform_list_keeps:
  "lists_valid_in w \<Longrightarrow> lists_valid_in (perform_list (security_wiring d sha edge ids port) req w)"
  by (cases "(security_wiring d sha edge ids port, req, w)" rule: perform_list.cases)
    (auto intro!: ensures_world add_rule_keeps add_trusted_keeps add_limit_keeps removals_keep)

lemma requests_keep:
  "lists_valid_in w \<Longrightarrow> lists_valid_in (fold (perform_list (security_wiring d sha edge ids port)) reqs w)"
  by (induction reqs arbitrary: w) (simp_all add: perform_list_keeps)

subsection \<open>What the compiler makes of the lists\<close>

definition steps_at :: "decision_stage \<Rightarrow> emission \<Rightarrow> nat" where
  "steps_at st e = length (filter (\<lambda>s. ls_stage s = st) (em_ladder e))"

lemma steps_at_emit:
  "steps_at st (emit stage action lines e) = steps_at st e + (if stage = st then 1 else 0)"
  by (simp add: steps_at_def emit_def Let_def)

lemma rates_emit [simp]: "em_rateLimits (emit stage action lines e) = em_rateLimits e"
  by (simp add: emit_def Let_def)

lemma steps_fold_deny:
  "\<forall>r \<in> set rs. validateDenyRule r = Valid \<Longrightarrow>
   steps_at st (fold push_deny rs e) = steps_at st e + (if st = BlockDenyList then length rs else 0) \<and>
   em_rateLimits (fold push_deny rs e) = em_rateLimits e"
  by (induction rs arbitrary: e) (simp_all add: push_deny_def steps_at_emit)

lemma steps_fold_trusted:
  "\<forall>r \<in> set rs. validateTrustedSource r = Valid \<Longrightarrow>
   steps_at st (fold push_trusted rs e) = steps_at st e + (if st = AllowTrustedIp then length rs else 0) \<and>
   em_rateLimits (fold push_trusted rs e) = em_rateLimits e"
  by (induction rs arbitrary: e) (simp_all add: push_trusted_def steps_at_emit)

lemma steps_at_rates [simp]: "steps_at st (e\<lparr> em_rateLimits := x \<rparr>) = steps_at st e"
  by (simp add: steps_at_def)

lemma steps_fold_rate:
  "\<forall>r \<in> set rs. validateRateLimitRule r = Valid \<Longrightarrow>
   steps_at st (fold push_rate rs e) = steps_at st e + (if st = RateLimit then length rs else 0) \<and>
   length (em_rateLimits (fold push_rate rs e)) = length (em_rateLimits e) + length rs"
  by (induction rs arbitrary: e) (simp_all add: push_rate_def steps_at_emit)

lemma steps_fold_bot:
  "st \<noteq> AllowVerifiedBot \<Longrightarrow> steps_at st (fold push_bot bs e) = steps_at st e \<and>
   em_rateLimits (fold push_bot bs e) = em_rateLimits e"
  by (induction bs arbitrary: e) (simp_all add: push_bot_def steps_at_emit)

lemma compiled_steps:
  "length (filter (\<lambda>s. ls_stage s = st) (ce_ladder (compileEdge input))) =
     steps_at st (rules_of input) + (if st = Protect \<and>
       list_ex (\<lambda>f. pt_mode (ef_protection f) \<noteq> ''none'') (fragments input) then 1 else 0)"
  "ce_rateLimits (compileEdge input) = em_rateLimits (rules_of input)"
  by (simp_all add: compileEdge_def Let_def push_protect_def steps_at_def)

lemma rules_steps:
  assumes "st \<in> {AllowTrustedIp, BlockDenyList, RateLimit}"
  shows "steps_at st (rules_of input) =
    steps_at st (fold push_rate (or_else (ci_rateLimits input) []) (fold push_deny (or_else (ci_denyList input) [])
      (fold push_trusted (or_else (ci_trustedSources input) []) (push_internal (fold push_bot
        (VERIFIED_BOTS @ or_else (ci_botAllowList input) []) (start_emission (ci_route input)))))))"
    and "em_rateLimits (rules_of input) =
      em_rateLimits (fold push_rate (or_else (ci_rateLimits input) []) (fold push_deny (or_else (ci_denyList input) [])
      (fold push_trusted (or_else (ci_trustedSources input) []) (push_internal (fold push_bot
        (VERIFIED_BOTS @ or_else (ci_botAllowList input) []) (start_emission (ci_route input)))))))"
  using assms by (auto simp: rules_of_def push_waf_def push_challenge_def steps_at_emit Let_def steps_at_def emit_def
      split: option.splits)

lemma internal_steps [simp]: "st \<noteq> AllowInternal \<Longrightarrow> steps_at st (push_internal e) = steps_at st e"
  by (simp add: push_internal_def steps_at_emit)

lemma start_steps [simp]:
  "steps_at st (start_emission r) = 0"
  "em_rateLimits (push_internal e) = em_rateLimits e" "em_rateLimits (start_emission r) = []"
  by (simp_all add: push_internal_def start_emission_def steps_at_def)

definition listed :: "security_tables \<Rightarrow> compile_input \<Rightarrow> compile_input" where
  "listed k input = input\<lparr> ci_denyList := Some (map deny_rule.truncate (yk_rules k)),
     ci_trustedSources := Some (map trusted_source.truncate (yk_trusted k)),
     ci_rateLimits := Some (map rate_limit_rule.truncate (yk_limits k)) \<rparr>"

lemma valid_lists_compile:
  assumes "lists_valid k"
  shows "length (actions_at BlockDenyList (compileEdge (listed k input))) = length (yk_rules k)"
    and "length (actions_at AllowTrustedIp (compileEdge (listed k input))) = length (yk_trusted k)"
    and "length (ce_rateLimits (compileEdge (listed k input))) = length (yk_limits k)"
proof -
  have valid: "\<forall>r \<in> set (map deny_rule.truncate (yk_rules k)). validateDenyRule r = Valid"
    "\<forall>r \<in> set (map trusted_source.truncate (yk_trusted k)). validateTrustedSource r = Valid"
    "\<forall>r \<in> set (map rate_limit_rule.truncate (yk_limits k)). validateRateLimitRule r = Valid"
    using assms by (simp_all add: lists_valid_def)
  note steps = steps_fold_rate [OF valid(3)] steps_fold_deny [OF valid(1)] steps_fold_trusted [OF valid(2)] steps_fold_bot
  show "length (actions_at BlockDenyList (compileEdge (listed k input))) = length (yk_rules k)"
    by (simp add: actions_at_def compiled_steps rules_steps steps listed_def)
  show "length (actions_at AllowTrustedIp (compileEdge (listed k input))) = length (yk_trusted k)"
    by (simp add: actions_at_def compiled_steps rules_steps steps listed_def)
  show "length (ce_rateLimits (compileEdge (listed k input))) = length (yk_limits k)"
    by (simp add: compiled_steps rules_steps [of BlockDenyList] steps steps_fold_bot [of BlockDenyList] listed_def)
qed


subsection \<open>The life of an incident\<close>

fun perform_transition ::
  "('q, 'y) security_world security_deps \<Rightarrow> request_context \<times> transition_input \<Rightarrow>
   ('q, 'y) security_world \<Rightarrow> ('q, 'y) security_world" where
  "perform_transition deps (ctx, inp) w = snd (transitionSecurityIncident ctx deps inp w)"

text \<open>An incident that is closed, in a table whose identifiers are distinct.\<close>

definition settled_in :: "security_incident \<Rightarrow> ('q, 'y) security_world \<Rightarrow> bool" where
  "settled_in row = (\<lambda>(q, s, t, k, y).
     row \<in> set (yk_incidents k) \<and> distinct (map in_id (yk_incidents k)))"

lemma transitioned_id [simp]: "in_id (transitioned i now r) = in_id r"
  by (simp add: transitioned_def)

lemma patch_keeps_others:
  assumes "row \<in> set (yk_incidents k)" "\<not> named_incident i t row"
  shows "row \<in> set (patch_where (named_incident i t) (transitioned i now) (yk_incidents k))"
  using assms by (force simp: patch_where_def)

lemma patch_ids: "map in_id (patch_where P (transitioned i now) rows) = map in_id rows"
  by (induction rows) (simp_all add: patch_where_def)

lemma unique_row:
  "distinct (map in_id rows) \<Longrightarrow> a \<in> set rows \<Longrightarrow> b \<in> set rows \<Longrightarrow> in_id a = in_id b \<Longrightarrow> a = b"
  by (auto simp: distinct_map inj_on_def)

lemma transitionIncident_keeps:
  "in_id row \<noteq> it_incidentId i \<Longrightarrow> ensures (settled_in row) (transitionIncident_row i) (\<lambda>_. True)"
  using patch_keeps_others [of row]
  by (auto simp: ensures_def settled_in_def transitionIncident_row_def account_op_def patch_ids named_incident_def)

lemma audit_keeps_incidents: "ensures (settled_in row) (recordAuditEvent e) (\<lambda>_. True)"
  by (auto simp: ensures_def settled_in_def recordAuditEvent_def api_op_def)

lemma found_incident:
  assumes "find (\<lambda>r. in_id r = i) (take n (sort_key f (filter P rows))) = Some c"
  shows "c \<in> set rows \<and> in_id c = i"
proof -
  from assms have "c \<in> set (take n (sort_key f (filter P rows)))" "in_id c = i" by (auto dest!: find_Some_iff')
  then show ?thesis using set_take_subset [of n "sort_key f (filter P rows)"] by auto
qed

text \<open>A found incident of the row's identifier is the row.\<close>

lemma findIncident_ensures:
  "ensures (settled_in row) (findIncident ctx (security_wiring d sha edge ids port) org i)
     (\<lambda>found. \<forall>c. found = Some c \<longrightarrow> in_id c = i \<and> (in_id c = in_id row \<longrightarrow> c = row))"
  by (auto simp: ensures_def settled_in_def findIncident_def listSecurityIncidents_rows_def account_read_def
      account_op_def io_simps dest!: found_incident intro: unique_row)

lemma admitted: "admit_transition found st = Inr current \<Longrightarrow> found = Some current \<and> \<not> closing (in_state current)"
  by (auto simp: admit_transition_def split: option.splits if_splits)

lemma transition_keeps:
  assumes closed: "closing (in_state row)"
  shows "ensures (settled_in row) (transitionSecurityIncident ctx (security_wiring d sha edge ids port) inp) (\<lambda>_. True)"
  unfolding transitionSecurityIncident_def security_wiring_sel security_store_sel security_writes_wired option.sel
proof (rule ensures_then [OF ensures_check], rule ensures_bind [OF ensures_check], clarify,
    rule ensures_then [OF ensures_check], rule ensures_bind [OF findIncident_ensures],
    rule ensures_bind [OF ensures_check], goal_cases)
  case (1 st resolution _ found current)
  then have "found = Some current" "\<not> closing (in_state current)" using admitted by blast+
  with 1 closed have "in_id row \<noteq> tz_incidentId inp" by metis
  then show ?case
    by (intro ensures_bind [OF transitionIncident_keeps] ensures_option ensures_throw
        ensures_then [OF audit_keeps_incidents] ensures_return TrueI) simp
qed

lemma transitions_keep:
  "closing (in_state row) \<Longrightarrow> settled_in row w \<Longrightarrow>
   settled_in row (fold (perform_transition (security_wiring d sha edge ids port)) reqs w)"
proof (induction reqs arbitrary: w)
  case (Cons req reqs)
  have "settled_in row (perform_transition (security_wiring d sha edge ids port) req w)"
    by (cases req) (simp add: ensures_world [OF transition_keeps [OF Cons.prems(1)] Cons.prems(2)])
  with Cons show ?case by simp
qed simp

text \<open>
  C27. A closed incident is final.  Whatever sequence of transitions is asked for, from any sessions, an
  incident that was resolved or found false keeps its state, its resolution, its closing time and every
  other column.
\<close>

theorem closed_incidents_are_final:
  assumes run: "fold (perform_transition (security_wiring d sha edge ids port)) reqs (q, s, t, k, y) = (q', s', t', k', y')"
    and row: "row \<in> set (yk_incidents k)" "closing (in_state row)" "distinct (map in_id (yk_incidents k))"
  shows "row \<in> set (yk_incidents k')"
  using transitions_keep [OF row(2), of "(q, s, t, k, y)" d sha edge ids port reqs] row(1,3)
  by (simp add: run settled_in_def)

subsection \<open>Concrete instances\<close>

definition empty_lists :: security_tables where
  "empty_lists = some_security\<lparr> yk_rules := [], yk_trusted := [], yk_limits := [] \<rparr>"

definition three_requests :: "(request_context \<times> list_request) list" where
  "three_requests =
     [(owner_session, AddRule \<lparr> le_organizationId = ''o'', le_kind = ''ip'', le_value = '' 203.0.113.9 '', le_note = None \<rparr>),
      (owner_session, AddRule \<lparr> le_organizationId = ''o'', le_kind = ''user-agent'', le_value = ''x',pass'', le_note = None \<rparr>),
      (owner_session, AddLimit \<lparr> lz_organizationId = ''o'', lz_key = ''ip'', lz_headerName = None, lz_limit = 60,
         lz_windowSeconds = 60, lz_note = None \<rparr>)]"


definition closed_incident :: security_incident where
  "closed_incident = \<lparr> in_id = ''i1'', in_organizationId = ''o'', in_kind = ''k'', in_severity = ''high'',
     in_state = IncResolved, in_summary = ''s'', in_openedAt = 0, in_closedAt = Some 5, in_resolution = Some ''done'',
     in_triagedBy = Some ''a'' \<rparr>"

theorem closed_incidents_are_final_witness:
  "case fold (perform_transition (security_wiring soon id no_edge numbered_ids None))
      [(owner_session, \<lparr> tz_organizationId = ''o'', tz_incidentId = ''i1'', tz_state = ''triaged'', tz_resolution = None \<rparr>)]
      ((), sample_plane, owners, some_security\<lparr> yk_incidents := [closed_incident] \<rparr>, 0) of
    (q', s', t', k', y') \<Rightarrow> closed_incident \<in> set (yk_incidents k')"
proof -
  let ?reqs = "[(owner_session, \<lparr> tz_organizationId = ''o'', tz_incidentId = ''i1'', tz_state = ''triaged'',
      tz_resolution = None \<rparr>)]"
  let ?w = "fold (perform_transition (security_wiring soon id no_edge numbered_ids None)) ?reqs
      ((), sample_plane, owners, some_security\<lparr> yk_incidents := [closed_incident] \<rparr>, 0)"
  obtain q' s' t' k' y' where w: "?w = (q', s', t', k', y')" by (metis prod.exhaust)
  have closed: "closing (in_state closed_incident)" by (simp add: closing_def closed_incident_def)
  have "closed_incident \<in> set (yk_incidents k')"
    by (rule closed_incidents_are_final [OF w _ closed]) simp_all
  then show ?thesis by (simp only: w prod.case)
qed

end
