(* ===== verification/Audit_Column.thy ===== *)
theory Audit_Column
  imports Security_Lists
begin

section \<open>migrations/0001_control_plane.sql: the type of an audit row's target\<close>

text \<open>
  Identifiers are opaque text in this development.  One column's type matters: \<open>audit_logs.target_id\<close> is a
  \<open>uuid\<close>, and an insert that gives it any other text is refused.  \<open>uuid_text\<close> admits at least
  the forms the database reads, thirty-two hexadecimal digits with hyphens and braces.
\<close>

definition uuid_text :: "string \<Rightarrow> bool" where
  "uuid_text v = (let digits = filter (\<lambda>c. c \<notin> set ''-{}'') v in
     length digits = 32 \<and> list_all (\<lambda>c. hex_lower (lower_char c)) digits)"

definition typed_audit :: "audit_entry \<Rightarrow> (('q, 'x) api_world, failure, unit) eio" where
  "typed_audit e = api_op ''recordAuditEvent'' (\<lambda>s t.
     (if (case ad_targetId e of None \<Rightarrow> True | Some target \<Rightarrow> uuid_text target)
      then (Inr (), s, t\<lparr> at_audit := at_audit t @ [audit_entry.extend e \<lparr> ad_createdAt = cp_now s \<rparr>] \<rparr>)
      else (Inl (OtherError (unavailable ''recordAuditEvent'' ''POST /audit_logs returned 400.'')), s, t)))"

text \<open>Where the target is a uuid the two are the same.\<close>

lemma typed_audit_accepts:
  "(\<And>target. ad_targetId e = Some target \<Longrightarrow> uuid_text target) \<Longrightarrow> typed_audit e = recordAuditEvent e"
  by (auto simp: typed_audit_def recordAuditEvent_def split: option.split)

lemma typed_audit_refuses:
  "cp_up s \<Longrightarrow> ad_targetId e = Some target \<Longrightarrow> \<not> uuid_text target \<Longrightarrow>
   typed_audit e (q, s, t, x) =
     (Inl (OtherError (unavailable ''recordAuditEvent'' ''POST /audit_logs returned 400.'')), (q, s, t, x))"
  by (simp add: typed_audit_def api_op_def)

lemma audit_by_target [simp]: "ad_targetId (audit_by ctx org event kind target metadata) = Some target"
  by (simp add: audit_by_def)

subsection \<open>Budgets\<close>

lemma metrics_are_no_uuid: "metric \<in> set USAGE_METRICS \<Longrightarrow> \<not> uuid_text metric"
proof -
  have "list_all (\<lambda>m. \<not> uuid_text m) USAGE_METRICS" by code_simp
  then show "metric \<in> set USAGE_METRICS \<Longrightarrow> \<not> uuid_text metric" by (simp add: list_all_iff)
qed

text \<open>
  A budget cannot be saved without an error.  The audit row of a saved budget names the metric as its
  target, which is no uuid: whatever is asked, the caller is never answered with the budget, and an
  acceptable request has replaced the cap by the time it is refused.
\<close>

theorem a_saved_budget_is_answered_with_an_error:
  assumes "cp_up s" "requireCapability ctx (sb_organizationId inp) BillingManage = Inr ()"
    "trim (sb_metric inp) \<in> set USAGE_METRICS" "sb_limitQuantity inp = Some limit" "0 \<le> limit"
  shows "\<exists>t'. saveBudget ctx ((apiStore d)\<lparr> as_recordAuditEvent := typed_audit \<rparr>) inp (q, s, t, x) =
      (Inl (OtherError (unavailable ''recordAuditEvent'' ''POST /audit_logs returned 400.'')), (q, s, t', x)) \<and>
    (\<exists>b \<in> set (at_budgets t'). bg_organizationId b = sb_organizationId inp \<and> bg_metric b = trim (sb_metric inp) \<and>
       bg_limitQuantity b = limit \<and> bg_hardCap b = sb_hardCap inp)"
proof -
  let ?store = "(apiStore d)\<lparr> as_recordAuditEvent := typed_audit \<rparr>"
  let ?b = "\<lparr> bg_organizationId = sb_organizationId inp, bg_metric = trim (sb_metric inp), bg_limitQuantity = limit,
     bg_hardCap = sb_hardCap inp, bg_updatedBy = Some (pr_userId (cx_principal ctx)) \<rparr>"
  let ?same = "\<lambda>r. bg_organizationId r = bg_organizationId ?b \<and> bg_metric r = bg_metric ?b"
  let ?t = "t\<lparr> at_budgets := (if list_ex ?same (at_budgets t) then patch_where ?same (\<lambda>_. ?b) (at_budgets t)
      else at_budgets t @ [?b]) \<rparr>"
  have store: "bs_saveBudget ?store = Some saveBudget_row" "as_recordAuditEvent ?store = typed_audit"
    by (simp_all add: apiStore_def)
  have saved: "saveBudget_row ?b (q, s, t, x) = (Inr ?b, (q, s, ?t, x))"
    using assms(1) by (simp add: saveBudget_row_def api_op_def Let_def)
  have "?b \<in> set (at_budgets ?t)"
    by (auto simp: patch_where_def list_ex_iff image_iff)
  moreover have "saveBudget ctx ?store inp (q, s, t, x) =
      (Inl (OtherError (unavailable ''recordAuditEvent'' ''POST /audit_logs returned 400.'')), (q, s, ?t, x))"
    using assms metrics_are_no_uuid [OF assms(3)] saved
    by (simp add: saveBudget_def store io_then_apply io_bind_apply check_that_apply typed_audit_refuses Let_def
        split del: if_split)
  ultimately show ?thesis by (intro exI [of _ ?t]) (auto intro!: bexI [of _ ?b])
qed

subsection \<open>Incidents\<close>

definition typed_security ::
  "('q, 'y) security_world security_deps \<Rightarrow> ('q, 'y) security_world security_deps" where
  "typed_security deps = deps\<lparr> yd_store := (yd_store deps)\<lparr> as_recordAuditEvent := typed_audit \<rparr> \<rparr>"

lemma typed_security_sel [simp]:
  "yd_newId (typed_security deps) = yd_newId deps" "yd_now (typed_security deps) = yd_now deps"
  "as_recordAuditEvent (yd_store (typed_security deps)) = typed_audit"
  "yt_listSecurityIncidents (yd_store (typed_security deps)) = yt_listSecurityIncidents (yd_store deps)"
  "yt_transitionIncident (yd_store (typed_security deps)) = yt_transitionIncident (yd_store deps)"
  "incidentWritesFor (yd_store (typed_security deps)) = incidentWritesFor (yd_store deps)"
  by (simp_all add: typed_security_def incidentWritesFor_def)

lemma findIncident_typed: "findIncident ctx (typed_security deps) = findIncident ctx deps"
  by (simp add: findIncident_def fun_eq_iff)

definition incident_for :: "request_context \<Rightarrow> string \<Rightarrow> string \<Rightarrow> api_tables \<Rightarrow> security_tables \<Rightarrow> security_incident option" where
  "incident_for ctx org i t k = find (\<lambda>r. in_id r = i) (take 200 (sort_key (\<lambda>i. - in_openedAt i)
     (filter (\<lambda>r. in_organizationId r = org \<and> belongs t (pr_userId (cx_principal ctx)) org) (yk_incidents k))))"

lemma findIncident_up:
  "cp_up s \<Longrightarrow> findIncident ctx (security_wiring d sha edge ids port) org i (q, s, t, k, y) =
     (Inr (incident_for ctx org i t k), (q, s, t, k, y))"
  by (simp add: findIncident_def listSecurityIncidents_rows_def account_read_up io_bind_apply io_return_apply incident_for_def)

lemma incident_for_in:
  "incident_for ctx org i t k = Some r \<Longrightarrow>
   r \<in> set (yk_incidents k) \<and> in_id r = i \<and> in_organizationId r = org \<and> belongs t (pr_userId (cx_principal ctx)) org"
  using set_take_subset by (fastforce simp: incident_for_def dest!: find_Some_iff')

lemma admitted_passes: "admit_transition (Some r) st = Inr c \<Longrightarrow> \<not> guard_refuses (in_state r) st"
  by (auto simp: admit_transition_def guard_refuses_def split: if_splits)

text \<open>
  C28. An incident cannot be moved without an error.  The request that moves it selects no column of the
  incident, so the procedure audits an empty target, which the column refuses: every transition the
  procedure and the table admit changes the incident and is answered with an error, and leaves no audit row.
\<close>

theorem a_moved_incident_is_answered_with_an_error:
  fixes inp :: transition_input
  defines "i st resolution ctx \<equiv> \<lparr> it_organizationId = tz_organizationId inp, it_incidentId = tz_incidentId inp, it_state = st,
      it_resolution = (if closing st then Some resolution else None), it_triagedBy = pr_userId (cx_principal ctx) \<rparr>"
  assumes "cp_up s" "requireCapability ctx (tz_organizationId inp) SecurityUpdate = Inr ()"
    "transition_request inp = Inr (st, resolution)"
    "incident_for ctx (tz_organizationId inp) (tz_incidentId inp) t k = Some r" "admit_transition (Some r) st = Inr r"
    "distinct (map in_id (yk_incidents k))"
  shows "transitionSecurityIncident ctx (typed_security (security_wiring d sha edge ids port)) inp (q, s, t, k, y) =
      (Inl (OtherError (unavailable ''recordAuditEvent'' ''POST /audit_logs returned 400.'')),
       (q, s, t, k\<lparr> yk_incidents := patch_where (named_incident (i st resolution ctx) t)
          (transitioned (i st resolution ctx) (cp_now s)) (yk_incidents k) \<rparr>, y))"
proof -
  let ?i = "i st resolution ctx"
  note r = incident_for_in [OF assms(5)]
  have named: "named_incident ?i t x \<longleftrightarrow> x = r" if "x \<in> set (yk_incidents k)" for x
    using r that unique_row [OF assms(7) that, of r] by (auto simp: named_incident_def i_def)
  have "\<not> list_ex (\<lambda>x. named_incident ?i t x \<and> guard_refuses (in_state x) (it_state ?i)) (yk_incidents k)"
    using named admitted_passes [OF assms(6)] by (auto simp: list_ex_iff i_def)
  moreover have "first_where (named_incident ?i t) (yk_incidents k) \<noteq> None"
    using named r by (auto simp: first_where_def find_None_iff)
  ultimately have moved: "transitionIncident_row ?i (q, s, t, k, y) = (Inr (Some unselected), (q, s, t,
      k\<lparr> yk_incidents := patch_where (named_incident ?i t) (transitioned ?i (cp_now s)) (yk_incidents k) \<rparr>, y))"
    using assms(2) by (auto simp: transitionIncident_row_def account_op_up)
  have blank: "ia_id unselected = []" "\<not> uuid_text []"
    by (simp_all add: unselected_def uuid_text_def Let_def)
  show ?thesis
    using assms(2-6) moved blank
    by (simp add: transitionSecurityIncident_def findIncident_typed findIncident_up io_then_apply io_bind_apply
        check_that_apply i_def [symmetric] typed_audit_refuses)
qed

subsection \<open>Concrete instances\<close>

definition cap_input :: save_budget_input where
  "cap_input = \<lparr> sb_organizationId = ''o'', sb_metric = '' deployments'', sb_limitQuantity = Some 3, sb_hardCap = True \<rparr>"

theorem a_saved_budget_is_answered_with_an_error_witness:
  "\<exists>t'. saveBudget owner_session ((apiStore no_date)\<lparr> as_recordAuditEvent := typed_audit \<rparr>) cap_input
      ((), sample_plane, owners, ()) =
      (Inl (OtherError (unavailable ''recordAuditEvent'' ''POST /audit_logs returned 400.'')), ((), sample_plane, t', ())) \<and>
    (\<exists>b \<in> set (at_budgets t'). bg_organizationId b = ''o'' \<and> bg_metric b = ''deployments'' \<and>
       bg_limitQuantity b = 3 \<and> bg_hardCap b)"
proof -
  have inp: "trim (sb_metric cap_input) = ''deployments''" "requireCapability owner_session ''o'' BillingManage = Inr ()"
    "cp_up sample_plane" by code_simp+
  have sel: "sb_organizationId cap_input = ''o''" "sb_limitQuantity cap_input = Some 3" "sb_hardCap cap_input"
    by (simp_all add: cap_input_def)
  from a_saved_budget_is_answered_with_an_error [of sample_plane owner_session cap_input 3 no_date "()" owners "()"]
  show ?thesis by (simp add: inp sel USAGE_METRICS_def)
qed

definition triaged_incident :: security_incident where
  "triaged_incident = closed_incident\<lparr> in_state := IncTriaged, in_closedAt := None, in_resolution := None \<rparr>"

definition resolve_input :: transition_input where
  "resolve_input = \<lparr> tz_organizationId = ''o'', tz_incidentId = ''i1'', tz_state = ''resolved'',
     tz_resolution = Some ''fixed'' \<rparr>"

theorem a_moved_incident_is_answered_with_an_error_witness:
  "\<exists>k'. transitionSecurityIncident owner_session (typed_security (security_wiring soon id no_edge numbered_ids None)) resolve_input
      ((), sample_plane, owners, some_security\<lparr> yk_incidents := [triaged_incident] \<rparr>, 0) =
      (Inl (OtherError (unavailable ''recordAuditEvent'' ''POST /audit_logs returned 400.'')),
       ((), sample_plane, owners, k', 0)) \<and> map in_state (yk_incidents k') = [IncResolved]"
proof -
  let ?k = "some_security\<lparr> yk_incidents := [triaged_incident] \<rparr>"
  let ?i = "\<lparr> it_organizationId = tz_organizationId resolve_input, it_incidentId = tz_incidentId resolve_input,
      it_state = IncResolved, it_resolution = (if closing IncResolved then Some ''fixed'' else None),
      it_triagedBy = pr_userId (cx_principal owner_session) \<rparr>"
  have up: "cp_up sample_plane" by code_simp
  have may: "requireCapability owner_session (tz_organizationId resolve_input) SecurityUpdate = Inr ()" by code_simp
  have asked: "transition_request resolve_input = Inr (IncResolved, ''fixed'')" by code_simp
  have found: "incident_for owner_session (tz_organizationId resolve_input) (tz_incidentId resolve_input) owners ?k =
      Some triaged_incident"
    by (simp add: incident_for_def some_security_def resolve_input_def triaged_incident_def closed_incident_def
        belongs_def tables_of_def member_rows_of_def session_def)
  have admitted: "admit_transition (Some triaged_incident) IncResolved = Inr triaged_incident"
    "distinct (map in_id (yk_incidents ?k))"
    by (simp_all add: admit_transition_def closing_def triaged_incident_def)
  have moved: "map in_state (yk_incidents (?k\<lparr> yk_incidents := patch_where (named_incident ?i owners)
      (transitioned ?i (cp_now sample_plane)) (yk_incidents ?k) \<rparr>)) = [IncResolved]" by code_simp
  note run = a_moved_incident_is_answered_with_an_error [OF up may asked found admitted, of soon id no_edge numbered_ids
      None "()" 0]
  show ?thesis by (rule exI, rule conjI [OF run moved])
qed

end
