(* ===== verification/Observability.thy ===== *)
theory Observability
  imports Http_Client Billing_Laws Api_Store Sql_Queue
begin

section \<open>packages/observability and apps/api/procedures/observability.ts, health.ts\<close>

text \<open>
  What a log line may carry, the percentiles of a sample, and the report over the rows of the queue.  A
  record of fields is a JSON object; cyclic objects, which the depth bound is for, are not values of \<open>json\<close>.
  Timestamps are instants, so a row whose text is no date has no counterpart here; a day is its number.
\<close>

subsection \<open>Redaction\<close>

definition REDACTED :: json where
  "REDACTED = JString ''[redacted]''"

text \<open>\<open>SECRET_KEY_PATTERN\<close>, anywhere in the key and in any case, and \<open>ORIGIN_KEY_PATTERN\<close>, the whole key.\<close>

definition SECRET_WORDS :: "string list" where
  "SECRET_WORDS = [''pass'', ''secret'', ''token'', ''apikey'', ''api_key'', ''api-key'', ''privatekey'', ''private_key'',
     ''private-key'', ''authorization'', ''cookie'', ''credential'', ''session'', ''dsn'', ''connectionstring'',
     ''connection_string'', ''connection-string'', ''jwt'']"

definition ORIGIN_KEYS :: "string list" where
  "ORIGIN_KEYS = [''origin'', ''originip'', ''origin_ip'', ''originhost'', ''origin_host'', ''upstream'', ''backendhost'',
     ''backend_host'']"

fun occurs_in :: "string \<Rightarrow> string \<Rightarrow> bool" where
  "occurs_in w [] \<longleftrightarrow> w = []"
| "occurs_in w (c # cs) \<longleftrightarrow> take (length w) (c # cs) = w \<or> occurs_in w cs"

definition isSensitiveKey :: "string \<Rightarrow> bool" where
  "isSensitiveKey key \<longleftrightarrow>
     list_ex (\<lambda>w. occurs_in w (to_lower key)) SECRET_WORDS \<or> to_lower key \<in> set ORIGIN_KEYS"

text \<open>The recursion on what is left of the eight levels below the first.\<close>

primrec redact_within :: "nat \<Rightarrow> json \<Rightarrow> json" where
  "redact_within 0 v = REDACTED"
| "redact_within (Suc left) v =
     (case v of
        JArray items \<Rightarrow> JArray (map (redact_within left) items)
      | JObject entries \<Rightarrow>
          JObject (map (\<lambda>(key, val). (key, if isSensitiveKey key then REDACTED else redact_within left val)) entries)
      | _ \<Rightarrow> v)"

definition redact :: "json \<Rightarrow> nat \<Rightarrow> json" where
  "redact v depth = redact_within (9 - depth) v"

datatype log_level = Debug | Info | Warn | LogError

fun level_order :: "log_level \<Rightarrow> nat" where
  "level_order Debug = 0" | "level_order Info = 1" | "level_order Warn = 2" | "level_order LogError = 3"

fun level_name :: "log_level \<Rightarrow> string" where
  "level_name Debug = ''debug''" | "level_name Info = ''info''" | "level_name Warn = ''warn''"
| "level_name LogError = ''error''"

definition logRecord :: "log_level \<Rightarrow> string \<Rightarrow> (string \<times> json) list \<Rightarrow> (string \<times> json) list" where
  "logRecord level event entries =
     [(''level'', JString (level_name level)), (''event'', JString event), (''fields'', redact (JObject entries) 0)]"

text \<open>\<open>{...base, ...fields}\<close>: a key of the base keeps its place and takes the later value.\<close>

definition spread :: "(string \<times> json) list \<Rightarrow> (string \<times> json) list \<Rightarrow> (string \<times> json) list" where
  "spread base entries =
     map (\<lambda>(key, val). (key, or_else (map_of entries key) val)) base @
     filter (\<lambda>(key, val). map_of base key = None) entries"

record logger_options =
  lo_service :: string
  lo_minLevel :: "log_level option"
  lo_base :: "(string \<times> json) list option"

text \<open>What the sink is given, if anything; the time is the text of the clock.\<close>

definition emit_log :: "logger_options \<Rightarrow> string \<Rightarrow> log_level \<Rightarrow> string \<Rightarrow> (string \<times> json) list \<Rightarrow> json option" where
  "emit_log options now level event entries =
     (if level_order level < level_order (or_else (lo_minLevel options) Info) then None
      else Some (JObject (logRecord level event (spread (or_else (lo_base options) []) entries) @
             [(''service'', JString (lo_service options)), (''time'', JString now)])))"

subsection \<open>Percentiles\<close>

text \<open>
  On rationals.  For the percentiles the code asks for, 50, 95 and 99, the quotient by 100 rounds down in
  binary, by less than would move the rank.
\<close>

definition percentiles :: "js_number list \<Rightarrow> js_number \<Rightarrow> js_number" where
  "percentiles samples percentile =
     (if samples = [] then 0
      else if percentile \<le> 0 then Min (set samples)
      else if 100 \<le> percentile then Max (set samples)
      else let ordered = sort samples; rank = \<lceil>percentile / 100 * of_nat (length ordered)\<rceil> - 1 in
        ordered ! nat (max 0 (min (int (length ordered) - 1) rank)))"

record latency_sample =
  ls_count :: nat
  ls_min :: js_number
  ls_p50 :: js_number
  ls_p95 :: js_number
  ls_p99 :: js_number
  ls_max :: js_number

definition summarizeLatency :: "js_number list \<Rightarrow> latency_sample" where
  "summarizeLatency samples =
     (if samples = [] then \<lparr> ls_count = 0, ls_min = 0, ls_p50 = 0, ls_p95 = 0, ls_p99 = 0, ls_max = 0 \<rparr>
      else \<lparr> ls_count = length samples, ls_min = Min (set samples), ls_p50 = percentiles samples 50,
             ls_p95 = percentiles samples 95, ls_p99 = percentiles samples 99, ls_max = Max (set samples) \<rparr>)"

record load_report =
  lr_total :: nat
  lr_ok :: nat
  lr_failed :: nat
  lr_throughput :: js_number
  lr_latency :: latency_sample

definition summarizeLoad :: "(bool \<times> js_number) list \<Rightarrow> js_number \<Rightarrow> load_report" where
  "summarizeLoad observations elapsedMs =
     (let ok = length (filter fst observations) in
      \<lparr> lr_total = length observations, lr_ok = ok, lr_failed = length observations - ok,
        lr_throughput = (if 0 < elapsedMs then of_nat (length observations) / elapsedMs * 1000 else 0),
        lr_latency = summarizeLatency (map snd observations) \<rparr>)"

subsection \<open>readObservability\<close>

record orchestration_job =
  oj_id :: string
  oj_organizationId :: string
  oj_kind :: string
  oj_state :: job_state
  oj_attempts :: nat
  oj_maxAttempts :: nat
  oj_idempotencyKey :: string
  oj_createdAt :: millis
  oj_startedAt :: "millis option"
  oj_finishedAt :: "millis option"
  oj_lastError :: "string option"
  oj_leaseExpiresAt :: "millis option"

fun job_state_name :: "job_state \<Rightarrow> string" where
  "job_state_name JQueued = ''queued''" | "job_state_name JRunning = ''running''"
| "job_state_name JSucceeded = ''succeeded''" | "job_state_name JFailed = ''failed''"
| "job_state_name JCancelled = ''cancelled''"

text \<open>\<open>map.set(key, f(map.get(key) ?? start))\<close> on a \<open>Map\<close>, whose keys stay in the order they were first set.\<close>

fun tally :: "'v \<Rightarrow> ('v \<Rightarrow> 'v) \<Rightarrow> 'k \<Rightarrow> ('k \<times> 'v) list \<Rightarrow> ('k \<times> 'v) list" where
  "tally start f key [] = [(key, f start)]"
| "tally start f key ((k, v) # rest') = (if k = key then (k, f v) # rest' else (k, v) # tally start f key rest')"

record kind_totals =
  kt_total :: nat
  kt_failed :: nat
  kt_retried :: nat

definition no_totals :: kind_totals where
  "no_totals = \<lparr> kt_total = 0, kt_failed = 0, kt_retried = 0 \<rparr>"

definition job_retried :: "orchestration_job \<Rightarrow> bool" where
  "job_retried j \<longleftrightarrow> 1 < oj_attempts j"

definition job_failed :: "orchestration_job \<Rightarrow> bool" where
  "job_failed j \<longleftrightarrow> oj_state j = JFailed"

definition job_active :: "orchestration_job \<Rightarrow> bool" where
  "job_active j \<longleftrightarrow> oj_state j = JQueued \<or> oj_state j = JRunning"

definition count_kind :: "orchestration_job \<Rightarrow> kind_totals \<Rightarrow> kind_totals" where
  "count_kind j t =
     \<lparr> kt_total = kt_total t + 1, kt_failed = kt_failed t + (if job_failed j then 1 else 0),
       kt_retried = kt_retried t + (if job_retried j then 1 else 0) \<rparr>"

definition note_error :: "orchestration_job \<Rightarrow> (string \<times> string) list \<Rightarrow> (string \<times> string) list" where
  "note_error j errors =
     (if job_failed j \<and> map_of errors (oj_kind j) = None \<and> truthy (oj_lastError j)
      then errors @ [(oj_kind j, the (oj_lastError j))] else errors)"

definition job_duration :: "orchestration_job \<Rightarrow> js_number option" where
  "job_duration j =
     (case (oj_startedAt j, oj_finishedAt j) of
        (Some started, Some finished) \<Rightarrow> if started \<le> finished then Some (of_int (finished - started)) else None
      | _ \<Rightarrow> None)"

record kind_summary =
  ks_kind :: string
  ks_total :: nat
  ks_failed :: nat
  ks_retried :: nat
  ks_lastError :: "string option"

record job_latency =
  jl_samples :: nat
  jl_p50Ms :: "js_number option"
  jl_p95Ms :: "js_number option"
  jl_maxMs :: "js_number option"

record throughput_day =
  td_day :: int
  td_created :: nat
  td_failed :: nat

record observability_report =
  rp_jobs_total :: nat
  rp_active :: nat
  rp_failed :: nat
  rp_retried :: nat
  rp_byState :: "(job_state \<times> nat) list"
  rp_byKind :: "kind_summary list"
  rp_latency :: job_latency
  rp_throughput :: "throughput_day list"
  rp_jobs :: "orchestration_job list"

definition THROUGHPUT_DAYS :: nat where
  "THROUGHPUT_DAYS = 14"

definition percentileOrNull :: "js_number list \<Rightarrow> js_number \<Rightarrow> js_number option" where
  "percentileOrNull ordered p = (if ordered = [] then None else Some (percentiles ordered p))"

text \<open>More jobs first, then by name.\<close>

definition kind_before :: "kind_summary \<Rightarrow> kind_summary \<Rightarrow> bool" where
  "kind_before a b \<longleftrightarrow> ks_total b < ks_total a \<or> (ks_total a = ks_total b \<and> text_le (ks_kind a) (ks_kind b))"

fun insert_kind :: "kind_summary \<Rightarrow> kind_summary list \<Rightarrow> kind_summary list" where
  "insert_kind k [] = [k]"
| "insert_kind k (l # ls) = (if kind_before k l then k # l # ls else l # insert_kind k ls)"

definition buildThroughput :: "orchestration_job list \<Rightarrow> throughput_day list" where
  "buildThroughput jobs =
     (if jobs = [] then []
      else let created = fold (\<lambda>j. tally (0, 0) (\<lambda>(c, f). (c + 1, if job_failed j then f + 1 else f)) (day_of (oj_createdAt j))) jobs [];
               latestDay = Max (set (map (day_of \<circ> oj_createdAt) jobs)) in
        map (\<lambda>offset. let day = latestDay - int offset; bucket = or_else (map_of created day) (0, 0)
                      in \<lparr> td_day = day, td_created = fst bucket, td_failed = snd bucket \<rparr>)
          (rev [0 ..< THROUGHPUT_DAYS]))"

definition latency_of :: "orchestration_job list \<Rightarrow> job_latency" where
  "latency_of jobs =
     (let ordered = sort (List.map_filter job_duration jobs) in
      \<lparr> jl_samples = length ordered, jl_p50Ms = percentileOrNull ordered 50, jl_p95Ms = percentileOrNull ordered 95,
        jl_maxMs = (if ordered = [] then None else Some (last ordered)) \<rparr>)"

definition kinds_of :: "orchestration_job list \<Rightarrow> kind_summary list" where
  "kinds_of jobs =
     (let errors = fold note_error jobs [] in
      foldr insert_kind (map (\<lambda>(kind, t). \<lparr> ks_kind = kind, ks_total = kt_total t, ks_failed = kt_failed t,
          ks_retried = kt_retried t, ks_lastError = map_of errors kind \<rparr>)
        (fold (\<lambda>j. tally no_totals (count_kind j) (oj_kind j)) jobs [])) [])"

definition states_of :: "orchestration_job list \<Rightarrow> (job_state \<times> nat) list" where
  "states_of jobs = sort_by_text (job_state_name \<circ> fst) (fold (\<lambda>j. tally 0 Suc (oj_state j)) jobs [])"

definition report_of :: "orchestration_job list \<Rightarrow> observability_report" where
  "report_of jobs =
     \<lparr> rp_jobs_total = length jobs, rp_active = length (filter job_active jobs),
       rp_failed = length (filter job_failed jobs), rp_retried = length (filter job_retried jobs),
       rp_byState = states_of jobs, rp_byKind = kinds_of jobs, rp_latency = latency_of jobs,
       rp_throughput = buildThroughput jobs, rp_jobs = jobs \<rparr>"

definition readObservability ::
  "request_context \<Rightarrow> (string \<Rightarrow> string \<Rightarrow> ('w, failure, orchestration_job list) eio) \<Rightarrow> string \<Rightarrow>
   ('w, failure, observability_report) eio" where
  "readObservability ctx listOrchestrationJobs organizationId =
     io_then (check_that (requireCapability ctx organizationId DeploymentRead))
    (io_bind (listOrchestrationJobs (pr_userId (cx_principal ctx)) organizationId) (\<lambda>jobs.
       io_return (report_of jobs)))"

text \<open>The rows of the durable queue as the store reads them, newest first.\<close>

definition orchestration_row :: "'p sql_row \<Rightarrow> orchestration_job" where
  "orchestration_row r =
     \<lparr> oj_id = jb_id r, oj_organizationId = jb_organizationId r, oj_kind = jb_kind r, oj_state = jb_state r,
       oj_attempts = jb_attempts r, oj_maxAttempts = jb_maxAttempts r, oj_idempotencyKey = jb_idempotencyKey r,
       oj_createdAt = jb_createdAt r, oj_startedAt = jb_startedAt r, oj_finishedAt = jb_finishedAt r,
       oj_lastError = jb_lastError r, oj_leaseExpiresAt = jb_leaseExpiresAt r \<rparr>"

definition listOrchestrationJobs_rows ::
  "string \<Rightarrow> string \<Rightarrow> (('p sql_table, 'x) api_world, failure, orchestration_job list) eio" where
  "listOrchestrationJobs_rows userId organizationId = (\<lambda>(q, s, t, x).
     if tb_up q
     then (Inr (map orchestration_row (take 500 (sort_key (\<lambda>r. - jb_createdAt r)
             (filter (\<lambda>r. jb_organizationId r = organizationId \<and> belongs t userId organizationId) (tb_rows q))))), (q, s, t, x))
     else (Inl (failure.OtherError (unavailable ''listOrchestrationJobs'' ''unreachable'')), (q, s, t, x)))"

subsection \<open>Provider health\<close>

text \<open>The brands of the engines a deployment holds: whether each is the not-configured stand-in, and which hosting engine.\<close>

record engine_brands =
  eb_hosting_configured :: bool
  eb_hosting_engine :: "string option"
  eb_serverless :: bool
  eb_database :: bool
  eb_storage :: bool
  eb_build :: bool
  eb_securityEdge :: bool
  eb_domainVerifier :: bool

definition engineReport :: "engine_brands \<Rightarrow> (string \<times> bool) list" where
  "engineReport e =
     [(''coolify'', eb_hosting_configured e \<and> eb_hosting_engine e = Some ''coolify''),
      (''selfhosted'', eb_hosting_configured e \<and> eb_hosting_engine e = Some ''selfhosted''),
      (''lambda'', eb_serverless e), (''postgres'', eb_database e), (''minio'', eb_storage e),
      (''railpack'', eb_build e), (''envoy'', eb_securityEdge e), (''dns'', eb_domainVerifier e)]"

record provider_health =
  ph_provider :: string
  ph_ready :: bool
  ph_detail :: string

definition providerHealth :: "request_context \<Rightarrow> engine_brands \<Rightarrow> string \<Rightarrow> failure + provider_health list" where
  "providerHealth ctx engines organizationId =
     (case requireCapability ctx organizationId OrgRead of
        Inl e \<Rightarrow> Inl e
      | Inr _ \<Rightarrow> Inr (map (\<lambda>(engine, configured).
          \<lparr> ph_provider = engine, ph_ready = configured,
            ph_detail = (if configured then ''Configured for this deployment.''
              else ''No credentials configured; this deployment cannot act on this engine yet.'') \<rparr>) (engineReport engines)))"

subsection \<open>Nothing sensitive is logged\<close>

text \<open>A value that stands under a key somewhere inside another.\<close>

inductive stands_under :: "json \<Rightarrow> string \<Rightarrow> json \<Rightarrow> bool" where
  here: "(key, val) \<in> set entries \<Longrightarrow> stands_under (JObject entries) key val"
| in_object: "(k, v) \<in> set entries \<Longrightarrow> stands_under v key val \<Longrightarrow> stands_under (JObject entries) key val"
| in_array: "v \<in> set items \<Longrightarrow> stands_under v key val \<Longrightarrow> stands_under (JArray items) key val"

inductive_cases stands_underE:
  "stands_under (JObject entries) key val" "stands_under (JArray items) key val" "stands_under (JString s) key val"
  "stands_under (JNumber n) key val" "stands_under (JBool b) key val" "stands_under JNull key val"

lemma redact_within_hides:
  "stands_under (redact_within left v) key val \<Longrightarrow> isSensitiveKey key \<Longrightarrow> val = REDACTED"
proof (induction left arbitrary: v)
  case 0
  then show ?case by (auto simp: REDACTED_def elim: stands_underE)
next
  case (Suc left)
  show ?case
  proof (cases v)
    case (JArray items)
    with Suc show ?thesis by (auto elim!: stands_underE)
  next
    case (JObject entries)
    have "\<not> stands_under REDACTED key val" by (auto simp: REDACTED_def elim: stands_underE)
    with Suc JObject show ?thesis by (auto elim!: stands_underE split: if_splits)
  qed (use Suc.prems(1) in \<open>auto elim: stands_underE\<close>)
qed

lemma redact_within_REDACTED [simp]: "redact_within left REDACTED = REDACTED"
  by (cases left) (simp_all add: REDACTED_def)

lemma redact_within_idem: "redact_within left (redact_within left v) = redact_within left v"
proof (induction left arbitrary: v)
  case (Suc left)
  then show ?case by (cases v) auto
qed simp

lemma fixed_keys: "list_all (\<lambda>k. \<not> isSensitiveKey k) [''level'', ''event'', ''fields'', ''service'', ''time'']"
  by code_simp

text \<open>
  C29. No log line carries a secret.  Whatever a caller logs and whatever the logger was given as its base,
  every value under a key that names a secret or an origin is the placeholder, at any depth of the record;
  and redacting a record again changes nothing.
\<close>

theorem log_lines_are_redacted:
  "(emit_log options now level event entries = Some record' \<longrightarrow> stands_under record' key val \<longrightarrow> isSensitiveKey key \<longrightarrow>
      val = REDACTED) \<and> redact (redact v 0) 0 = redact v 0"
proof -
  have "val = REDACTED" if line: "emit_log options now level event entries = Some record'"
    and under: "stands_under record' key val" and sensitive: "isSensitiveKey key"
  proof -
    let ?fields = "redact_within 9 (JObject (spread (or_else (lo_base options) []) entries))"
    have record': "record' = JObject [(''level'', JString (level_name level)), (''event'', JString event),
        (''fields'', ?fields), (''service'', JString (lo_service options)), (''time'', JString now)]"
      using line by (auto simp: emit_log_def logRecord_def redact_def split: if_splits)
    have top: "key \<notin> {''level'', ''event'', ''fields'', ''service'', ''time''}"
      using fixed_keys sensitive by auto
    have "stands_under ?fields key val"
      using under top unfolding record' by (auto elim!: stands_underE)
    then show ?thesis using redact_within_hides sensitive by blast
  qed
  then show ?thesis by (simp add: redact_def redact_within_idem)
qed

subsection \<open>Nearest rank\<close>

lemma sorted_counts:
  fixes xs :: "'a :: linorder list"
  assumes "sorted xs" "i < length xs"
  shows "i < length (filter (\<lambda>x. x \<le> xs ! i) xs)" "length (filter (\<lambda>x. x < xs ! i) xs) \<le> i"
proof -
  have split: "length (filter P xs) = length (filter P (take n xs)) + length (filter P (drop n xs))" for P n
    by (metis append_take_drop_id filter_append length_append)
  have "length (filter (\<lambda>x. x \<le> xs ! i) (take (Suc i) xs)) = Suc i"
    using assms by (subst filter_True) (auto simp: in_set_conv_nth sorted_nth_mono)
  then show "i < length (filter (\<lambda>x. x \<le> xs ! i) xs)" using split [of _ "Suc i"] by simp
  have none: "filter (\<lambda>x. x < xs ! i) (drop i xs) = []"
    using assms by (auto simp: filter_empty_conv in_set_conv_nth not_less sorted_nth_mono)
  have "length (filter (\<lambda>x. x < xs ! i) (take i xs)) \<le> i"
    using length_filter_le [of _ "take i xs"] by (rule order.trans) simp
  then show "length (filter (\<lambda>x. x < xs ! i) xs) \<le> i" using split [of _ i] none by simp
qed

lemma length_filter_sort: "length (filter P (sort xs)) = length (filter P xs)"
  by (metis mset_filter mset_sort size_mset)

definition rank_of :: "js_number \<Rightarrow> nat \<Rightarrow> nat" where
  "rank_of p n = nat (\<lceil>p / 100 * of_nat n\<rceil> - 1)"

lemma rank_bounds:
  assumes "0 < p" "p < 100" "0 < n"
  shows "rank_of p n < n" "of_nat (rank_of p n) < p / 100 * of_nat n" "p / 100 * of_nat n \<le> of_nat (rank_of p n) + 1"
    "nat (max 0 (min (int n - 1) (\<lceil>p / 100 * of_nat n\<rceil> - 1))) = rank_of p n"
proof -
  let ?r = "p / 100 * (of_nat n :: rat)"
  have pos: "0 < ?r" and less: "?r < of_nat n" using assms by (auto simp: field_simps)
  have c: "1 \<le> \<lceil>?r\<rceil>" using pos by linarith
  have top: "\<lceil>?r\<rceil> \<le> int n" using less by (simp add: ceiling_le_iff)
  show "rank_of p n < n" using c top assms(3) unfolding rank_of_def by linarith
  have r: "(of_nat (rank_of p n) :: rat) = of_int \<lceil>?r\<rceil> - 1"
  proof -
    have "int (rank_of p n) = \<lceil>?r\<rceil> - 1" using c by (simp add: rank_of_def)
    then have "(of_int (int (rank_of p n)) :: rat) = of_int \<lceil>?r\<rceil> - 1" by simp
    then show ?thesis by simp
  qed
  show "of_nat (rank_of p n) < ?r" "?r \<le> of_nat (rank_of p n) + 1"
    unfolding r using ceiling_correct [of ?r] by linarith+
  show "nat (max 0 (min (int n - 1) (\<lceil>?r\<rceil> - 1))) = rank_of p n"
    using c top unfolding rank_of_def by (auto simp: max_def min_def)
qed


subsection \<open>The counts of the report\<close>

lemma map_of_tally: "map_of (tally start f key m) = (map_of m)(key \<mapsto> f (or_else (map_of m key) start))"
  by (induction m rule: tally.induct [where P = "\<lambda>start f key m. map_of (tally start f key m) =
      (map_of m)(key \<mapsto> f (or_else (map_of m key) start))" for start f key, of start f key])
    (auto simp: fun_eq_iff)

lemma fst_tally: "fst ` set (tally start f key m) = insert key (fst ` set m)"
  by (induction start f key m rule: tally.induct) auto

lemma distinct_tally: "distinct (map fst m) \<Longrightarrow> distinct (map fst (tally start f key m))"
proof (induction start f key m rule: tally.induct)
  case (2 start f key k v m)
  then show ?case using fst_tally [of start f key m] by (auto simp: image_set [symmetric] simp del: image_set)
qed simp

abbreviation tallied :: "'v \<Rightarrow> ('j \<Rightarrow> 'v \<Rightarrow> 'v) \<Rightarrow> ('j \<Rightarrow> 'k) \<Rightarrow> 'j list \<Rightarrow> ('k \<times> 'v) list \<Rightarrow> ('k \<times> 'v) list" where
  "tallied start f key jobs m \<equiv> fold (\<lambda>j. tally start (f j) (key j)) jobs m"

lemma map_of_tallied:
  "map_of (tallied start f key jobs m) k =
     (if k \<in> key ` set jobs \<or> map_of m k \<noteq> None
      then Some (fold f (filter (\<lambda>j. key j = k) jobs) (or_else (map_of m k) start)) else None)"
  by (induction jobs arbitrary: m) (auto simp: map_of_tally split: if_splits)

lemma distinct_tallied: "distinct (map fst m) \<Longrightarrow> distinct (map fst (tallied start f key jobs m))"
  by (induction jobs arbitrary: m) (simp_all add: distinct_tally)

lemma set_tallied:
  "set (tallied start f key jobs []) = (\<lambda>k. (k, fold f (filter (\<lambda>j. key j = k) jobs) start)) ` key ` set jobs"
proof -
  let ?m = "tallied start f key jobs []"
  have "(k, v) \<in> set ?m \<longleftrightarrow> map_of ?m k = Some v" for k v
    by (rule map_of_eq_Some_iff [symmetric]) (rule distinct_tallied, simp)
  then show ?thesis by (auto simp: map_of_tallied split: if_splits)
qed

lemma fold_Suc: "fold (\<lambda>j. Suc) js n = n + length js"
  by (induction js arbitrary: n) simp_all

lemma fold_count_kind:
  "fold count_kind js t =
     \<lparr> kt_total = kt_total t + length js, kt_failed = kt_failed t + length (filter job_failed js),
       kt_retried = kt_retried t + length (filter job_retried js) \<rparr>"
  by (induction js arbitrary: t) (simp_all add: count_kind_def)

lemma fold_day:
  "fold (\<lambda>j (c, f). (c + 1, if job_failed j then f + 1 else f)) js (c, f) =
     (c + length js, f + length (filter job_failed js))"
  by (induction js arbitrary: c f) simp_all

lemma set_insert_kind: "set (insert_kind k ks) = insert k (set ks)"
  by (induction k ks rule: insert_kind.induct) auto

lemma set_kinds: "set (foldr insert_kind ks []) = set ks"
  by (induction ks) (simp_all add: set_insert_kind)

lemma set_sort_by_text: "set (sort_by_text f xs) = set xs"
  by (metis mset_sort_by_text set_mset_mset)

definition created_on :: "orchestration_job list \<Rightarrow> int \<Rightarrow> orchestration_job list" where
  "created_on jobs day = filter (\<lambda>j. day_of (oj_createdAt j) = day) jobs"

lemma bucket_of:
  "or_else (map_of (tallied (0, 0) (\<lambda>j (c, f). (c + 1, if job_failed j then f + 1 else f)) (day_of \<circ> oj_createdAt) jobs []) day)
     (0, 0) = (length (created_on jobs day), length (filter job_failed (created_on jobs day)))"
proof (cases "day \<in> (day_of \<circ> oj_createdAt) ` set jobs")
  case True
  then show ?thesis by (simp add: map_of_tallied fold_day created_on_def del: One_nat_def)
next
  case False
  then have "created_on jobs day = []" by (force simp: created_on_def filter_empty_conv)
  with False show ?thesis by (simp add: map_of_tallied)
qed

lemma throughput_days:
  "buildThroughput jobs = (if jobs = [] then [] else
     map (\<lambda>offset. let day = Max (set (map (day_of \<circ> oj_createdAt) jobs)) - int offset in
       \<lparr> td_day = day, td_created = length (created_on jobs day),
         td_failed = length (filter job_failed (created_on jobs day)) \<rparr>) (rev [0 ..< 14]))"
  using bucket_of [of jobs] by (simp add: buildThroughput_def THROUGHPUT_DAYS_def Let_def o_def)

text \<open>
  The report counts exactly the rows it was given.  There is one entry for each state and one for each
  kind that occurs, with the number of its jobs, of its failures and of its retries; and when there are
  jobs the throughput is the fourteen days up to the last one on which a job was created, each with the
  number of jobs created and of those that failed.
\<close>

theorem report_counts_every_job:
  "set (rp_byState (report_of jobs)) =
     (\<lambda>st. (st, length (filter (\<lambda>j. oj_state j = st) jobs))) ` oj_state ` set jobs \<and>
   (\<lambda>s. (ks_kind s, ks_total s, ks_failed s, ks_retried s)) ` set (rp_byKind (report_of jobs)) =
     (\<lambda>kind. let js = filter (\<lambda>j. oj_kind j = kind) jobs in
        (kind, length js, length (filter job_failed js), length (filter job_retried js))) ` oj_kind ` set jobs \<and>
   rp_throughput (report_of jobs) = (if jobs = [] then [] else
     map (\<lambda>offset. let day = Max (set (map (day_of \<circ> oj_createdAt) jobs)) - int offset in
       \<lparr> td_day = day, td_created = length (created_on jobs day),
         td_failed = length (filter job_failed (created_on jobs day)) \<rparr>) (rev [0 ..< 14]))"
proof (intro conjI)
  have "(\<lambda>j. tally 0 Suc (oj_state j)) = (\<lambda>j. tally 0 ((\<lambda>_. Suc) j) (oj_state j))" by simp
  then show "set (rp_byState (report_of jobs)) =
      (\<lambda>st. (st, length (filter (\<lambda>j. oj_state j = st) jobs))) ` oj_state ` set jobs"
    using set_tallied [of 0 "\<lambda>_. Suc" oj_state jobs]
    by (simp add: report_of_def states_of_def set_sort_by_text fold_Suc)
  show "(\<lambda>s. (ks_kind s, ks_total s, ks_failed s, ks_retried s)) ` set (rp_byKind (report_of jobs)) =
     (\<lambda>kind. let js = filter (\<lambda>j. oj_kind j = kind) jobs in
        (kind, length js, length (filter job_failed js), length (filter job_retried js))) ` oj_kind ` set jobs"
    by (simp add: report_of_def kinds_of_def Let_def set_kinds set_tallied image_image fold_count_kind no_totals_def)
  show "rp_throughput (report_of jobs) = (if jobs = [] then [] else
     map (\<lambda>offset. let day = Max (set (map (day_of \<circ> oj_createdAt) jobs)) - int offset in
       \<lparr> td_day = day, td_created = length (created_on jobs day),
         td_failed = length (filter job_failed (created_on jobs day)) \<rparr>) (rev [0 ..< 14]))"
    by (simp only: report_of_def observability_report.select_convs throughput_days)
qed

subsection \<open>A concrete sample\<close>


theorem log_lines_are_redacted_witness:
  "\<exists>line. emit_log \<lparr> lo_service = ''api'', lo_minLevel = None, lo_base = None \<rparr> ''t'' Warn ''e''
      [(''user'', JObject [(''ApiKey'', JString ''cw_1'')])] = Some line \<and>
    stands_under line ''ApiKey'' REDACTED \<and> redact (redact line 0) 0 = redact line 0"
proof -
  let ?line = "JObject [(''level'', JString ''warn''), (''event'', JString ''e''),
      (''fields'', JObject [(''user'', JObject [(''ApiKey'', REDACTED)])]), (''service'', JString ''api''), (''time'', JString ''t'')]"
  have line: "emit_log \<lparr> lo_service = ''api'', lo_minLevel = None, lo_base = None \<rparr> ''t'' Warn ''e''
      [(''user'', JObject [(''ApiKey'', JString ''cw_1'')])] = Some ?line" by code_simp
  have "stands_under ?line ''ApiKey'' REDACTED"
    by (rule in_object [of "''fields''" "JObject [(''user'', JObject [(''ApiKey'', REDACTED)])]"], simp,
        rule in_object [of "''user''" "JObject [(''ApiKey'', REDACTED)]"], simp, rule here, simp)
  with line log_lines_are_redacted [of _ _ _ _ _ ?line "''ApiKey''" REDACTED ?line] show ?thesis by blast
qed

end
