(* ===== verification/Engine_Console.thy ===== *)
theory Engine_Console
  imports Root_Directory Account_Store
begin

section \<open>packages/adapters/engine-console.ts: links to the engine's own console\<close>

text \<open>
  The links a dashboard is given for a database, and \<open>listDataResources\<close> of apps/api/procedures/settings.ts,
  which carries them.  \<open>new URL\<close> is a parameter that answers the parts of the text it can read.
\<close>

datatype console_section =
    Overview | EnvironmentVariables | Logs | Backups | Metrics | ResourceLimits | ImportBackup
  | PersistentStorage | Healthcheck | Servers | Webhooks | Tags | Danger | Terminal

definition CONSOLE_SECTIONS :: "console_section list" where
  "CONSOLE_SECTIONS = [Overview, EnvironmentVariables, Logs, Backups, Metrics, ResourceLimits, ImportBackup,
     PersistentStorage, Healthcheck, Servers, Webhooks, Tags, Danger, Terminal]"

fun section_suffix :: "console_section \<Rightarrow> string" where
  "section_suffix Overview = []"
| "section_suffix EnvironmentVariables = ''/environment-variables''"
| "section_suffix Logs = ''/logs''"
| "section_suffix Backups = ''/backups''"
| "section_suffix Metrics = ''/metrics''"
| "section_suffix ResourceLimits = ''/resource-limits''"
| "section_suffix ImportBackup = ''/import-backup''"
| "section_suffix PersistentStorage = ''/persistent-storage''"
| "section_suffix Healthcheck = ''/healthcheck''"
| "section_suffix Servers = ''/servers''"
| "section_suffix Webhooks = ''/webhooks''"
| "section_suffix Tags = ''/tags''"
| "section_suffix Danger = ''/danger''"
| "section_suffix Terminal = ''/terminal''"

definition DATABASE_CONSOLE_PREFIX :: string where
  "DATABASE_CONSOLE_PREFIX = ''/project/{project_uuid}/environment/{environment_uuid}/database/{database_uuid}''"

definition ID_PATTERN :: "string \<Rightarrow> bool" where
  "ID_PATTERN s \<longleftrightarrow> 20 \<le> length s \<and> length s \<le> 36 \<and> list_all is_alnum s"

definition CONSOLE_PROVIDER :: string where
  "CONSOLE_PROVIDER = ''postgres''"

text \<open>\<open>replace\<close> with a text pattern: the first occurrence alone.\<close>

fun replace_first :: "string \<Rightarrow> string \<Rightarrow> string \<Rightarrow> string" where
  "replace_first pattern new [] = []"
| "replace_first pattern new (c # cs) =
     (if take (length pattern) (c # cs) = pattern then new @ drop (length pattern) (c # cs)
      else c # replace_first pattern new cs)"

record url_parts =
  up_protocol :: string
  up_host :: string
  up_hostname :: string
  up_pathname :: string

definition normalizeOrigin :: "(string \<Rightarrow> url_parts option) \<Rightarrow> string option \<Rightarrow> string option" where
  "normalizeOrigin parse_url baseUrl =
     (let raw = map_option trim baseUrl in
      if \<not> truthy raw then None
      else case parse_url (the raw) of
        None \<Rightarrow> None
      | Some parsed \<Rightarrow>
          if up_protocol parsed \<noteq> ''http:'' \<and> up_protocol parsed \<noteq> ''https:'' then None
          else if up_hostname parsed = [] then None
          else Some (up_protocol parsed @ ''//'' @ up_host parsed @ drop_trailing_slashes (up_pathname parsed)))"

record placement =
  pc_projectUuid :: "string option"
  pc_environmentUuid :: "string option"

record console_input =
  cn_baseUrl :: "string option"
  cn_provider :: "string option"
  cn_postgres :: bool
  cn_resourceUuid :: "string option"
  cn_infra :: "placement option"

definition trimmed_id :: "string option \<Rightarrow> string" where
  "trimmed_id v = or_else (map_option trim v) []"

definition console_path :: "string \<Rightarrow> string \<Rightarrow> string \<Rightarrow> string" where
  "console_path projectUuid environmentUuid resourceUuid =
     replace_first ''{database_uuid}'' resourceUuid
       (replace_first ''{environment_uuid}'' environmentUuid
         (replace_first ''{project_uuid}'' projectUuid DATABASE_CONSOLE_PREFIX))"

definition engineConsoleUrl :: "(string \<Rightarrow> url_parts option) \<Rightarrow> console_input \<Rightarrow> console_section \<Rightarrow> string option" where
  "engineConsoleUrl parse_url inp console =
     (case normalizeOrigin parse_url (cn_baseUrl inp) of
        None \<Rightarrow> None
      | Some origin \<Rightarrow>
          (let projectUuid = trimmed_id (Option.bind (cn_infra inp) pc_projectUuid);
               environmentUuid = trimmed_id (Option.bind (cn_infra inp) pc_environmentUuid);
               resourceUuid = trimmed_id (cn_resourceUuid inp) in
           if cn_provider inp \<noteq> Some CONSOLE_PROVIDER then None
           else if \<not> cn_postgres inp then None
           else if \<not> ID_PATTERN projectUuid then None
           else if \<not> ID_PATTERN environmentUuid then None
           else if \<not> ID_PATTERN resourceUuid then None
           else Some (origin @ console_path projectUuid environmentUuid resourceUuid @ section_suffix console)))"

type_synonym console_links = "(console_section \<times> string) list"

fun links_for :: "(console_section \<Rightarrow> string option) \<Rightarrow> console_section list \<Rightarrow> console_links option" where
  "links_for url [] = Some []"
| "links_for url (console # consoles) =
     (if \<not> truthy (url console) then None
      else map_option (\<lambda>links. (console, the (url console)) # links) (links_for url consoles))"

definition engineConsoleLinks :: "(string \<Rightarrow> url_parts option) \<Rightarrow> console_input \<Rightarrow> console_links option" where
  "engineConsoleLinks parse_url inp = links_for (engineConsoleUrl parse_url inp) CONSOLE_SECTIONS"

subsection \<open>The resolver of a deployment\<close>

text \<open>\<open>/^PREFIX(.+)$/\<close>: the organization a variable's name ends in.\<close>

definition named_after :: "string \<Rightarrow> string \<Rightarrow> string option" where
  "named_after prefix' key =
     (let owner = drop (length prefix') key in
      if take (length prefix') key = prefix' \<and> owner \<noteq> [] \<and>
         list_all (\<lambda>c. code_unit c \<noteq> 10 \<and> code_unit c \<noteq> 13) owner
      then Some owner else None)"

definition no_placement :: placement where
  "no_placement = \<lparr> pc_projectUuid = None, pc_environmentUuid = None \<rparr>"

definition place_variable ::
  "string \<times> string option \<Rightarrow> (string \<Rightarrow> placement option) \<Rightarrow> string \<Rightarrow> placement option" where
  "place_variable = (\<lambda>(key, val) placed.
     (let text = trim (or_else val []) in
      if text = [] then placed
      else case named_after ''COOLIFY_PROJECT_UUID__'' key of
        Some owner \<Rightarrow> placed(owner \<mapsto> (or_else (placed owner) no_placement)\<lparr> pc_projectUuid := Some text \<rparr>)
      | None \<Rightarrow> (case named_after ''COOLIFY_ENVIRONMENT_UUID__'' key of
          Some owner \<Rightarrow> placed(owner \<mapsto> (or_else (placed owner) no_placement)\<lparr> pc_environmentUuid := Some text \<rparr>)
        | None \<Rightarrow> placed)))"

definition createEngineConsoleLinker ::
  "(string \<Rightarrow> url_parts option) \<Rightarrow> (string \<times> string option) list \<Rightarrow>
   (string \<Rightarrow> data_resource \<Rightarrow> console_links option) option" where
  "createEngineConsoleLinker parse_url env =
     (let baseUrl = Option.bind (map_of env ''ENGINE_CONSOLE_URL'') (\<lambda>v. v) in
      if trim (or_else baseUrl []) = [] then None
      else let placed = fold place_variable env (\<lambda>_. None) in
        Some (\<lambda>organizationId resource. engineConsoleLinks parse_url
          \<lparr> cn_baseUrl = baseUrl, cn_provider = dv_provider resource, cn_postgres = (dv_kind resource = ''postgres''),
            cn_resourceUuid = dv_providerResourceId resource, cn_infra = placed organizationId \<rparr>))"

definition listDataResources ::
  "request_context \<Rightarrow> (string \<Rightarrow> string \<Rightarrow> ('w, failure, resource_row list) eio) \<Rightarrow>
   (string \<Rightarrow> data_resource \<Rightarrow> console_links option) option \<Rightarrow> string \<Rightarrow>
   ('w, failure, (resource_row \<times> console_links option) list) eio" where
  "listDataResources ctx list_resources consoleLink organizationId =
     io_then (check_that (requireCapability ctx organizationId DataRead))
    (io_bind (list_resources (pr_userId (cx_principal ctx)) organizationId) (\<lambda>resources.
       io_return (map (\<lambda>resource. (resource, case consoleLink of
           None \<Rightarrow> None | Some link \<Rightarrow> link organizationId (data_resource.truncate resource))) resources)))"

definition listDataResources_rows ::
  "string \<Rightarrow> string \<Rightarrow> (('q, 'y) account_world, failure, resource_row list) eio" where
  "listDataResources_rows userId organizationId = account_read ''listDataResources'' (\<lambda>s t a.
     rev (filter (\<lambda>r. dv_organizationId r = organizationId \<and> belongs t userId organizationId) (ac_resources a)))"

subsection \<open>The shape of a link\<close>

lemma replace_first_skip:
  "c \<notin> set xs \<Longrightarrow> replace_first (c # w) new (xs @ ys) = xs @ replace_first (c # w) new ys"
  by (induction xs) auto

lemma replace_first_here: "w \<noteq> [] \<Longrightarrow> replace_first w new (w @ ys) = new @ ys"
  by (cases w) auto

lemma alnum_no_brace: "ID_PATTERN s \<Longrightarrow> CHR ''{'' \<notin> set s"
  by (auto simp: ID_PATTERN_def list_all_iff is_alnum_def is_digit_def is_lower_def is_upper_def)

lemma console_path_shape:
  assumes "ID_PATTERN p" "ID_PATTERN e"
  shows "console_path p e d = ''/project/'' @ p @ ''/environment/'' @ e @ ''/database/'' @ d"
proof -
  have first: "replace_first ''{project_uuid}'' p DATABASE_CONSOLE_PREFIX =
      ''/project/'' @ p @ ''/environment/'' @ ''{environment_uuid}/database/{database_uuid}''"
    by (simp add: DATABASE_CONSOLE_PREFIX_def)
  have "replace_first ''{environment_uuid}'' e (''/project/'' @ p @ ''/environment/'' @ ''{environment_uuid}/database/{database_uuid}'') =
      ''/project/'' @ p @ ''/environment/'' @ e @ ''/database/'' @ ''{database_uuid}''"
    using alnum_no_brace [OF assms(1)] by (simp add: replace_first_skip)
  moreover have "replace_first ''{database_uuid}'' d
      (''/project/'' @ p @ ''/environment/'' @ e @ ''/database/'' @ ''{database_uuid}'') =
      ''/project/'' @ p @ ''/environment/'' @ e @ ''/database/'' @ d"
    using alnum_no_brace [OF assms(1)] alnum_no_brace [OF assms(2)] by (simp add: replace_first_skip)
  ultimately show ?thesis unfolding console_path_def first by simp
qed

lemma url_shape:
  assumes "engineConsoleUrl parse_url inp console = Some url"
  shows "\<exists>origin p e d. normalizeOrigin parse_url (cn_baseUrl inp) = Some origin \<and>
    p = trimmed_id (Option.bind (cn_infra inp) pc_projectUuid) \<and>
    e = trimmed_id (Option.bind (cn_infra inp) pc_environmentUuid) \<and> d = trimmed_id (cn_resourceUuid inp) \<and>
    ID_PATTERN p \<and> ID_PATTERN e \<and> ID_PATTERN d \<and> cn_provider inp = Some ''postgres'' \<and> cn_postgres inp \<and>
    url = origin @ ''/project/'' @ p @ ''/environment/'' @ e @ ''/database/'' @ d @ section_suffix console"
  using assms
  by (auto simp: engineConsoleUrl_def Let_def console_path_shape CONSOLE_PROVIDER_def split: option.splits if_splits)

lemma links_for_Some:
  "links_for url consoles = Some links \<Longrightarrow>
   map fst links = consoles \<and> (\<forall>(console, link) \<in> set links. url console = Some link)"
  by (induction consoles arbitrary: links) (auto split: if_splits elim!: truthy.elims)

lemma origin_scheme:
  "normalizeOrigin parse_url baseUrl = Some origin \<Longrightarrow>
   take 7 origin = ''http://'' \<or> take 8 origin = ''https://''"
  by (auto simp: normalizeOrigin_def Let_def split: if_splits option.splits)


text \<open>A uuid is no identifier of the console: it has hyphens.\<close>

lemma no_uuid_links:
  "CHR ''-'' \<in> set (trimmed_id (cn_resourceUuid inp)) \<Longrightarrow> engineConsoleUrl parse_url inp console = None"
  using url_shape [of parse_url inp console]
  by (cases "engineConsoleUrl parse_url inp console")
    (force simp: ID_PATTERN_def list_all_iff is_alnum_def is_digit_def is_lower_def is_upper_def)+

definition sample_console :: console_input where
  "sample_console = \<lparr> cn_baseUrl = Some ''https://console.example'', cn_provider = Some ''postgres'', cn_postgres = True,
     cn_resourceUuid = Some ''aaaaabbbbbcccccddddd'', cn_infra = Some \<lparr> pc_projectUuid = Some ''p1234567890123456789'',
     pc_environmentUuid = Some ''e1234567890123456789'' \<rparr> \<rparr>"

definition sample_url :: "string \<Rightarrow> url_parts option" where
  "sample_url v = Some \<lparr> up_protocol = ''https:'', up_host = drop 8 v, up_hostname = drop 8 v, up_pathname = ''/'' \<rparr>"


end
