(* ===== verification/Spec2Isabelle.thy ===== *)
theory Spec2Isabelle
  imports Request_Context Sql_Queue Deployment_Reconcile Env_Sync Data_Jobs Edge_Directives Edge_Store Hook_Laws
    Data_Procedures Member_Laws Key_Laws Variable_Laws Domain_Laws
    Audit_Column Observability Engine_Console
begin

text \<open>
  A verification library for Cloud Wai, a multi-tenant control plane for hosting: an API that
  authenticates and authorises commands, a durable job queue, a worker that drives third-party
  engines through adapters, a control-plane store, and the compiler of the security edge.

  The parts and their theories.

  \<^item> \<open>Prelude\<close>: effectful operations as functions on an explicit world that may fail, the string,
    number and list operations of the language the source uses, the collections \<open>io_simps\<close> and
    \<open>keeps_rules\<close>.  \<open>Regex\<close>: regular expressions, with the matcher proved to decide the language.
  \<^item> \<open>Contracts\<close> (packages/contracts): statuses, references, results, job payloads.
  \<^item> \<open>Authorization\<close> (packages/authorization), \<open>Api_Keys\<close> (packages/auth), \<open>Request_Context\<close>
    (apps/api: context.ts, guard.ts, errors.ts, router.ts): who a request is, what it may do, how it is
    dispatched and how its errors leave the API.
  \<^item> \<open>Job_Queue\<close> (packages/adapters/queue.ts) and \<open>Sql_Queue\<close> (packages/database/sql-queue.ts with the
    functions of the migrations 0008 and 0028): the two queues.  \<open>Worker_Processor\<close>
    (apps/worker/processor.ts, applier.ts): the loop that claims, runs, settles and applies.
  \<^item> \<open>Control_Plane\<close> (packages/database/supabase-store.ts): the tables a deployment touches.
    \<open>Execution_Router\<close>, \<open>Build_Step\<close> (packages/adapters: execution-router.ts, build.ts, build-run.ts),
    \<open>Deployment_Executor\<close>, \<open>Deployment_Job\<close>, \<open>Deployment_Reconcile\<close>, \<open>Env_Sync\<close> (apps/worker): one
    deployment from the job to the settled row, and the sweep that finishes stranded ones.
  \<^item> \<open>Policy\<close> (packages/security, apps/security-control), \<open>Policy_Job\<close>, \<open>Data_Jobs\<close> (apps/worker):
    policies, incidents, distribution, backups and restores.
  \<^item> \<open>Security_Edge\<close>, \<open>Edge_Compiler\<close>, \<open>Edge_Directives\<close>, \<open>Edge_Ladder\<close>, \<open>Edge_Adapter\<close>
    (packages/adapters/security-edge.ts), \<open>Http_Client\<close> (http.ts), \<open>Edge_Loaders\<close>, \<open>Edge_Store\<close>
    (packages/database/edge-loaders.ts, protection.ts): what a policy becomes at the edge.

  \<^item> The procedures of apps/api, over ports first.  \<open>Root_Directory\<close> (root-directory.ts), \<open>Calendar\<close> and
    \<open>Billing\<close> (billing.ts), \<open>Deployment_Inputs\<close>, \<open>Deployment_Requests\<close>, \<open>Deployment_Controls\<close>
    (deployments.ts), \<open>Git_Links\<close> (git-links.ts), \<open>Git_Hook\<close> (git-hook.ts), \<open>Organizations\<close>
    (organizations.ts, environments.ts), \<open>Env_Vars\<close> (env-vars.ts), \<open>Key_Procedures\<close> (settings.ts),
    \<open>Domain_Verification\<close> (packages/adapters/domain-verification.ts), \<open>Domains\<close> (domains.ts),
    \<open>Data_Procedures\<close> (data.ts), \<open>Security_Procedures\<close> (security.ts).
  \<^item> The same procedures over the store.  \<open>Api_Store\<close>, \<open>Account_Store\<close> and \<open>Security_Store\<close>
    (supabase-store.ts) add the tables of the API to those of the worker; \<open>Api_Wiring\<close> and \<open>Account_Wiring\<close> evaluate a step of the
    wired store; the theories named \<open>_Laws\<close> (\<open>Billing\<close>, \<open>Deployment\<close>, \<open>Control\<close>, \<open>Hook\<close>, \<open>Member\<close>,
    \<open>Key\<close>, \<open>Variable\<close>, \<open>Domain\<close>, \<open>Security\<close>) and \<open>Security_Lists\<close> hold what is proved of the
    procedures over it.  \<open>Audit_Column\<close> adds the type of one column, the target of an audit row.
  \<^item> \<open>Observability\<close> (packages/observability, apps/api: observability.ts, health.ts): what a log line may
    carry, percentiles, the report over the queue's rows.  \<open>Engine_Console\<close> (packages/adapters:
    engine-console.ts, apps/api: listDataResources of settings.ts): the links to the engine's console.

  How the code is read.  A promise-returning function is a state transformer with an exception
  outcome; a port (a store, an engine, the network) is a record of such functions over an abstract
  world, an optional method an option; the worker's world is the queue beside the handlers' world,
  and a wired store is its tables beside the engines' world.  A class with private maps is a record
  that every method returns updated.  \<open>AdapterResult\<close> is \<open>adapter_result\<close> (\<open>AOk\<close>, \<open>AErr\<close>); a thrown
  error is the left side of a sum.  Times are integers in milliseconds, JavaScript numbers are
  rationals where only arithmetic and comparison are used, strings are lists of characters up to
  code unit 255.  Fields that are \<open>undefined\<close> or \<open>null\<close> are options.  Directives, reasons and keys are
  the texts the code's templates produce.

  What the lemmas show.

  \<^item> Queue: an interface locale with its laws, interpreted on both queues and carrying the worker's
    lemmas; the reachable-state invariant by rule induction over the queue's events; exclusivity of
    claims, the attempt budget, idempotent enqueueing, the reaper.
  \<^item> Worker: one tick performs exactly the operation a handler's answer warrants; a drain is honest
    about success and exhausts the queue.
  \<^item> API: key authority is the intersection with the owner's role, failures of authentication are
    alike, nothing is dispatched unauthenticated.
  \<^item> Deployments: redelivery starts one build, success is the engine's own word, the applier and the
    sweep write the same, promotion leaves one live deployment.
  \<^item> Edge: every directive reads back as the compiler's own whatever a customer supplies, invalid
    entries have no effect, the ladder's order, attack mode, one fragment per host; a publication and
    a distribution cover every verified host of the organization.

  \<^item> Requests: an accepted deploy records one row and hands the worker one job, a repeated one is a replay,
    a reached cap admits nothing, a delivery needs the secret of its link; an organization keeps an owner
    under any sequence of requests, and loses it under two that overlap; a key's secret and a variable's
    value leave only digest and ciphertext; a domain is verified on the verifier's word alone, and what
    a verification publishes and fails to withdraw.
  \<^item> Security procedures: whatever the lists accept the compiler emits, a closed incident is final; and
    where the procedures go wrong: a protection saved for another tenant's project, one that never reaches
    the edge, a policy that cannot be renamed, incidents and budgets changed behind an error.
  \<^item> Reporting: no log line carries a secret, a percentile is an observed value of its rank, the report counts
    exactly the rows it is given, console links are complete and stay under the tenant's identifiers.

  Bounds.  \<open>drain\<close> recurses on its limit and the build step on its poll budget, which are the code's
  own bounds; \<open>iter\<close> bounds \<open>r+\<close> by the length of the subject, which \<open>set_rest\<close> shows to be enough.

  Not modelled: the clients of third-party engines, the HTTP listener, the resolver of the platform,
  hashing and encryption (parameters where a part uses them), the log lines of each component, the text of
  formatLoadReport, and the web application.  Two racing database transactions are not interleaved
  inside one store operation; procedures interleave where they are split at a read.
\<close>

end
